(* ===== verification/Society_Prelude.thy ===== *)
theory Society_Prelude
  imports Main "HOL-Library.Word"
begin

text \<open>
  Shared vocabulary of the development: bytes and digests, checked 64-bit arithmetic, and the
  relational tables in which the kernel keeps its materialised state.  A table is the list of its
  rows in insertion order, each under its primary key, together with the next value of its
  identity sequence.  The operations are the SQL statement shapes the kernel issues
  (select by key, select with a predicate, count, insert, update); the lemmas turn each of them
  into a fact about the finite map \<open>select_pk\<close> that the invariants of the components speak about.
\<close>

named_theorems table_simps \<open>rewriting of table operations to lookups\<close>

section \<open>Bytes, digests and machine integers\<close>

type_synonym byte = "8 word"
type_synonym digest = "byte list"

abbreviation i64_max :: int where
  "i64_max \<equiv> 9223372036854775807"

abbreviation i64_min :: int where
  "i64_min \<equiv> - 9223372036854775808"

definition in_i64 :: "int \<Rightarrow> bool" where
  "in_i64 x \<longleftrightarrow> i64_min \<le> x \<and> x \<le> i64_max"

text \<open>Rust's \<open>i64::checked_add\<close> and \<open>i64::checked_sub\<close>.\<close>

definition checked_add_i64 :: "int \<Rightarrow> int \<Rightarrow> int option" where
  "checked_add_i64 a b = (if in_i64 (a + b) then Some (a + b) else None)"

definition checked_sub_i64 :: "int \<Rightarrow> int \<Rightarrow> int option" where
  "checked_sub_i64 a b = (if in_i64 (a - b) then Some (a - b) else None)"

text \<open>ASCII literals of the source as bytes.\<close>

definition ascii :: "string \<Rightarrow> byte list" where
  "ascii s = map of_char s"

section \<open>Relational tables\<close>

record ('k, 'r) table =
  tb_rows :: "('k \<times> 'r) list"
  tb_seq :: int

text \<open>Identity sequences start at 1.\<close>

definition empty_table :: "('k, 'r) table" where
  "empty_table = \<lparr>tb_rows = [], tb_seq = 1\<rparr>"

text \<open>\<open>SELECT ... WHERE primary_key = $1\<close>.\<close>

definition select_pk :: "('k, 'r) table \<Rightarrow> 'k \<Rightarrow> 'r option" where
  "select_pk t i = map_of (tb_rows t) i"

text \<open>\<open>SELECT ... WHERE p\<close>, first row (\<open>fetch_optional\<close>).\<close>

definition select_where :: "('k \<Rightarrow> 'r \<Rightarrow> bool) \<Rightarrow> ('k, 'r) table \<Rightarrow> ('k \<times> 'r) option" where
  "select_where p t = find (\<lambda>(i, r). p i r) (tb_rows t)"

text \<open>Whether some row satisfies a predicate.\<close>

definition exists_where :: "('k \<Rightarrow> 'r \<Rightarrow> bool) \<Rightarrow> ('k, 'r) table \<Rightarrow> bool" where
  "exists_where p t = list_ex (\<lambda>(i, r). p i r) (tb_rows t)"

text \<open>\<open>SELECT COUNT(*) ... WHERE p\<close>.\<close>

definition count_where :: "('k \<Rightarrow> 'r \<Rightarrow> bool) \<Rightarrow> ('k, 'r) table \<Rightarrow> int" where
  "count_where p t = int (length (filter (\<lambda>(i, r). p i r) (tb_rows t)))"

text \<open>\<open>COALESCE(SUM(f), 0) ... WHERE p\<close> in unbounded arithmetic (SQL \<open>NUMERIC\<close>).\<close>

definition sum_where :: "('k \<Rightarrow> 'r \<Rightarrow> bool) \<Rightarrow> ('r \<Rightarrow> int) \<Rightarrow> ('k, 'r) table \<Rightarrow> int" where
  "sum_where p f t = sum_list (map (\<lambda>(i, r). f r) (filter (\<lambda>(i, r). p i r) (tb_rows t)))"

text \<open>\<open>UPDATE ... SET f WHERE p\<close>.\<close>

definition update_where :: "('k \<Rightarrow> 'r \<Rightarrow> bool) \<Rightarrow> ('r \<Rightarrow> 'r) \<Rightarrow> ('k, 'r) table \<Rightarrow> ('k, 'r) table" where
  "update_where p f t = t\<lparr>tb_rows := map (\<lambda>(i, r). (i, if p i r then f r else r)) (tb_rows t)\<rparr>"

text \<open>\<open>UPDATE ... SET f WHERE primary_key = $1\<close>.\<close>

definition update_pk :: "'k \<Rightarrow> ('r \<Rightarrow> 'r) \<Rightarrow> ('k, 'r) table \<Rightarrow> ('k, 'r) table" where
  "update_pk k f t = update_where (\<lambda>i _. i = k) f t"

text \<open>
  \<open>INSERT ... RETURNING identity\<close> into a table whose key is \<open>GENERATED BY DEFAULT AS IDENTITY\<close>.
  \<open>ok\<close> is the conjunction of the table's UNIQUE and CHECK constraints on the new row.  The
  sequence advances whether or not the constraints hold, as PostgreSQL sequences do; an exhausted
  \<open>BIGINT\<close> sequence, a key collision, and an identity the caller's positive identifier type
  refuses are failures.
\<close>

definition insert_identity :: "bool \<Rightarrow> 'r \<Rightarrow> (int, 'r) table \<Rightarrow> int option \<times> (int, 'r) table" where
  "insert_identity ok r t =
     (let i = tb_seq t; t' = t\<lparr>tb_seq := i + 1\<rparr> in
      if i64_max < i then (None, t)
      else if ok \<and> 0 < i \<and> select_pk t i = None
      then (Some i, t'\<lparr>tb_rows := tb_rows t @ [(i, r)]\<rparr>)
      else (None, t'))"

text \<open>\<open>INSERT\<close> with an explicit primary key: no identity value is drawn.\<close>

definition insert_key :: "bool \<Rightarrow> 'k \<Rightarrow> 'r \<Rightarrow> ('k, 'r) table \<Rightarrow> ('k, 'r) table option" where
  "insert_key ok k r t =
     (if ok \<and> select_pk t k = None then Some (t\<lparr>tb_rows := tb_rows t @ [(k, r)]\<rparr>) else None)"

text \<open>
  \<open>ROLLBACK TO SAVEPOINT\<close> restores the rows; identity sequences keep the values already drawn.
\<close>

definition rollback_table :: "('k, 'r) table \<Rightarrow> ('k, 'r) table \<Rightarrow> ('k, 'r) table" where
  "rollback_table old new = old\<lparr>tb_seq := tb_seq new\<rparr>"

text \<open>The effect of a successful insertion: one new row under a fresh key.\<close>

definition adds :: "('k, 'r) table \<Rightarrow> 'k \<Rightarrow> 'r \<Rightarrow> ('k, 'r) table \<Rightarrow> bool" where
  "adds t k r t' \<longleftrightarrow> select_pk t k = None \<and> tb_rows t' = tb_rows t @ [(k, r)]"

text \<open>Primary keys are distinct.\<close>

definition wf_table :: "('k, 'r) table \<Rightarrow> bool" where
  "wf_table t \<longleftrightarrow> distinct (map fst (tb_rows t))"

section \<open>Laws of the tables\<close>

lemma map_fst_update_rows: "map (fst \<circ> (\<lambda>(i, r). (i, g i r))) xs = map fst xs"
  by (induction xs) auto

lemma map_of_update_rows:
  "map_of (map (\<lambda>(i, r). (i, g i r)) xs) k = map_option (g k) (map_of xs k)"
  by (induction xs) auto

lemma wf_empty_table [simp]: "wf_table empty_table"
  by (simp add: wf_table_def empty_table_def)

lemma select_pk_empty [simp]: "select_pk empty_table k = None"
  by (simp add: select_pk_def empty_table_def)

lemma wf_update_where [simp]: "wf_table (update_where p f t) = wf_table t"
  by (simp add: wf_table_def update_where_def map_fst_update_rows)

lemma wf_update_pk [simp]: "wf_table (update_pk k f t) = wf_table t"
  by (simp add: update_pk_def)

lemma select_pk_update_where [table_simps]:
  "select_pk (update_where p f t) k
   = (case select_pk t k of None \<Rightarrow> None | Some r \<Rightarrow> Some (if p k r then f r else r))"
  by (simp add: select_pk_def update_where_def map_of_update_rows split: option.split)

lemma select_pk_update_pk [table_simps]:
  "select_pk (update_pk k f t) j = (if j = k then map_option f (select_pk t j) else select_pk t j)"
  by (simp add: update_pk_def select_pk_update_where split: option.split)

lemma insert_identity_Some:
  "insert_identity ok r t = (Some i, t') \<longleftrightarrow>
     i = tb_seq t \<and> i \<le> i64_max \<and> ok \<and> 0 < i \<and> select_pk t i = None
     \<and> t' = t\<lparr>tb_seq := i + 1, tb_rows := tb_rows t @ [(i, r)]\<rparr>"
  by (auto simp: insert_identity_def Let_def)

lemma insert_identity_None_rows:
  "insert_identity ok r t = (None, t') \<Longrightarrow> tb_rows t' = tb_rows t"
  by (auto simp: insert_identity_def Let_def split: if_splits)

lemma map_of_snoc_fresh:
  "map_of xs k = None \<Longrightarrow> ([k \<mapsto> r] ++ map_of xs) j = (if j = k then Some r else map_of xs j)"
  by (auto simp: map_add_def split: option.splits)

lemma insert_identity_adds:
  "insert_identity ok r t = (Some i, t') \<Longrightarrow> adds t i r t' \<and> ok \<and> 0 < i"
  by (auto simp: insert_identity_Some adds_def)

lemma insert_key_adds:
  "insert_key ok k r t = Some t' \<Longrightarrow> adds t k r t' \<and> ok"
  by (auto simp: insert_key_def adds_def split: if_splits)

lemma adds_fresh: "adds t k r t' \<Longrightarrow> select_pk t k = None"
  by (simp add: adds_def)

lemma adds_wf: "adds t k r t' \<Longrightarrow> wf_table t' = wf_table t"
  by (auto simp: adds_def wf_table_def select_pk_def map_of_eq_None_iff)

lemma adds_select:
  "adds t k r t' \<Longrightarrow> select_pk t' j = (if j = k then Some r else select_pk t j)"
  by (auto simp: adds_def select_pk_def map_of_snoc_fresh)

lemma adds_count:
  "adds t k r t' \<Longrightarrow> count_where p t' = count_where p t + (if p k r then 1 else 0)"
  by (simp add: adds_def count_where_def)

lemma adds_exists:
  "adds t k r t' \<Longrightarrow> exists_where p t' \<longleftrightarrow> exists_where p t \<or> p k r"
  by (auto simp: adds_def exists_where_def)

lemma count_where_nonneg: "0 \<le> count_where p t"
  by (simp add: count_where_def)

lemma length_filter_update:
  "(\<And>k r. (k, r) \<in> set xs \<Longrightarrow> p k (if q k r then f r else r) = p k r) \<Longrightarrow>
     length (filter (\<lambda>(i, r). p i r) (map (\<lambda>(i, r). (i, if q i r then f r else r)) xs))
     = length (filter (\<lambda>(i, r). p i r) xs)"
  by (induction xs) auto

lemma count_where_update:
  "(\<And>k r. (k, r) \<in> set (tb_rows t) \<Longrightarrow> p k (if q k r then f r else r) = p k r) \<Longrightarrow>
     count_where p (update_where q f t) = count_where p t"
  unfolding count_where_def update_where_def using length_filter_update [of "tb_rows t" p q f]
  by (simp del: filter_map)

lemma in_set_rows_select:
  "wf_table t \<Longrightarrow> (i, r) \<in> set (tb_rows t) \<longleftrightarrow> select_pk t i = Some r"
  by (simp add: wf_table_def select_pk_def)

lemma select_pk_in_rows: "select_pk t i = Some r \<Longrightarrow> (i, r) \<in> set (tb_rows t)"
  by (simp add: select_pk_def map_of_SomeD)

lemma exists_where_iff:
  "wf_table t \<Longrightarrow> exists_where p t \<longleftrightarrow> (\<exists>i r. select_pk t i = Some r \<and> p i r)"
  by (fastforce simp: exists_where_def list_ex_iff in_set_rows_select)

lemma exists_whereI: "select_pk t i = Some r \<Longrightarrow> p i r \<Longrightarrow> exists_where p t"
  by (auto simp: exists_where_def list_ex_iff dest: select_pk_in_rows)

lemma count_where_zero_iff:
  "wf_table t \<Longrightarrow> count_where p t = 0 \<longleftrightarrow> (\<forall>i r. select_pk t i = Some r \<longrightarrow> \<not> p i r)"
  by (auto simp: count_where_def filter_empty_conv in_set_rows_select)

lemma select_where_Some:
  "wf_table t \<Longrightarrow> select_where p t = Some (i, r) \<Longrightarrow> select_pk t i = Some r \<and> p i r"
  by (auto simp: select_where_def find_Some_iff wf_table_def select_pk_def) (metis nth_mem)

lemma select_where_None:
  "wf_table t \<Longrightarrow> select_where p t = None \<longleftrightarrow> (\<forall>i r. select_pk t i = Some r \<longrightarrow> \<not> p i r)"
  by (auto simp: select_where_def find_None_iff in_set_rows_select)

lemma select_pk_rollback [simp]: "select_pk (rollback_table old new) k = select_pk old k"
  by (simp add: rollback_table_def select_pk_def)

lemma wf_rollback [simp]: "wf_table (rollback_table old new) = wf_table old"
  by (simp add: rollback_table_def wf_table_def)

lemma select_where_rollback [simp]: "select_where p (rollback_table old new) = select_where p old"
  by (simp add: rollback_table_def select_where_def)

lemma exists_where_rollback [simp]: "exists_where p (rollback_table old new) = exists_where p old"
  by (simp add: rollback_table_def exists_where_def)

lemma count_where_rollback [simp]: "count_where p (rollback_table old new) = count_where p old"
  by (simp add: rollback_table_def count_where_def)

lemma sum_where_rollback [simp]: "sum_where p f (rollback_table old new) = sum_where p f old"
  by (simp add: rollback_table_def sum_where_def)

lemma rows_rollback [simp]: "tb_rows (rollback_table old new) = tb_rows old"
  by (simp add: rollback_table_def)

section \<open>Rows that persist\<close>

text \<open>
  \<open>keeps_on f t t'\<close>: every row of \<open>t\<close> is still in \<open>t'\<close> under its key, and the columns \<open>f\<close> selects
  are unchanged.
\<close>

definition keeps_on :: "('r \<Rightarrow> 'c) \<Rightarrow> ('k, 'r) table \<Rightarrow> ('k, 'r) table \<Rightarrow> bool" where
  "keeps_on f t t' \<longleftrightarrow>
     (\<forall>k r. select_pk t k = Some r \<longrightarrow> (\<exists>r'. select_pk t' k = Some r' \<and> f r' = f r))"

abbreviation keeps :: "('k, 'r) table \<Rightarrow> ('k, 'r) table \<Rightarrow> bool" where
  "keeps \<equiv> keeps_on (\<lambda>r. r)"

lemma keeps_on_refl [simp]: "keeps_on f t t"
  by (simp add: keeps_on_def)

lemma keeps_on_trans: "keeps_on f t u \<Longrightarrow> keeps_on f u v \<Longrightarrow> keeps_on f t v"
  unfolding keeps_on_def by metis

lemma keeps_onD: "keeps_on f t t' \<Longrightarrow> select_pk t k = Some r \<Longrightarrow> \<exists>r'. select_pk t' k = Some r' \<and> f r' = f r"
  by (simp add: keeps_on_def)

lemma adds_keeps: "adds t k r t' \<Longrightarrow> keeps_on f t t'"
  unfolding keeps_on_def by (metis adds_fresh adds_select option.distinct(1))

lemma update_where_keeps: "(\<And>r. f (g r) = f r) \<Longrightarrow> keeps_on f t (update_where p g t)"
  by (auto simp: keeps_on_def select_pk_update_where)

lemma update_pk_keeps: "(\<And>r. f (g r) = f r) \<Longrightarrow> keeps_on f t (update_pk k g t)"
  by (simp add: update_pk_def update_where_keeps)

lemma rollback_keeps [simp]: "keeps_on f t (rollback_table t u)"
  by (simp add: keeps_on_def)

section \<open>Row invariants and uniqueness\<close>

definition all_rows :: "('k \<Rightarrow> 'r \<Rightarrow> bool) \<Rightarrow> ('k, 'r) table \<Rightarrow> bool" where
  "all_rows P t \<longleftrightarrow> (\<forall>k r. select_pk t k = Some r \<longrightarrow> P k r)"

lemma all_rowsD: "all_rows P t \<Longrightarrow> select_pk t k = Some r \<Longrightarrow> P k r"
  by (simp add: all_rows_def)

lemma all_rows_empty [simp]: "all_rows P empty_table"
  by (simp add: all_rows_def)

lemma all_rows_rollback [simp]: "all_rows P (rollback_table t u) = all_rows P t"
  by (simp add: all_rows_def)

lemma all_rows_adds: "adds t k r t' \<Longrightarrow> all_rows P t' \<longleftrightarrow> all_rows P t \<and> P k r"
  by (auto simp: all_rows_def adds_select) (metis adds_fresh option.distinct(1))

lemma all_rows_update_where:
  "all_rows P t \<Longrightarrow> (\<And>k r. select_pk t k = Some r \<Longrightarrow> p k r \<Longrightarrow> P k r \<Longrightarrow> P k (g r)) \<Longrightarrow>
     all_rows P (update_where p g t)"
  by (auto simp: all_rows_def select_pk_update_where split: option.splits)

lemma all_rows_update_pk:
  "all_rows P t \<Longrightarrow> (\<And>r. select_pk t k = Some r \<Longrightarrow> P k r \<Longrightarrow> P k (g r)) \<Longrightarrow>
     all_rows P (update_pk k g t)"
  by (auto simp: all_rows_def select_pk_update_pk split: if_splits)

lemma all_rows_mono: "all_rows P t \<Longrightarrow> (\<And>k r. P k r \<Longrightarrow> Q k r) \<Longrightarrow> all_rows Q t"
  by (simp add: all_rows_def)

definition unique_on :: "('r \<Rightarrow> 'c) \<Rightarrow> ('k, 'r) table \<Rightarrow> bool" where
  "unique_on f t \<longleftrightarrow>
     (\<forall>i j a b. select_pk t i = Some a \<longrightarrow> select_pk t j = Some b \<longrightarrow> f a = f b \<longrightarrow> i = j)"

lemma unique_onD:
  "unique_on f t \<Longrightarrow> select_pk t i = Some a \<Longrightarrow> select_pk t j = Some b \<Longrightarrow> f a = f b \<Longrightarrow> i = j \<and> a = b"
  unfolding unique_on_def by (metis option.inject)

lemma unique_on_empty [simp]: "unique_on f empty_table"
  by (simp add: unique_on_def)

lemma unique_on_rollback [simp]: "unique_on f (rollback_table t u) = unique_on f t"
  by (simp add: unique_on_def)

lemma unique_on_adds:
  assumes "adds t k r t'" "unique_on f t" "\<not> exists_where (\<lambda>_ q. f q = f r) t"
  shows "unique_on f t'"
proof -
  have fresh: "\<And>j b. select_pk t j = Some b \<Longrightarrow> f b \<noteq> f r"
    using assms(3) exists_whereI by fastforce
  then have fresh': "\<And>j b. select_pk t j = Some b \<Longrightarrow> f r \<noteq> f b" by metis
  show ?thesis
    using assms(2) fresh fresh' by (auto simp: unique_on_def adds_select [OF assms(1)])
qed

lemma unique_on_update_where:
  "(\<And>r. f (g r) = f r) \<Longrightarrow> unique_on f t \<Longrightarrow> unique_on f (update_where p g t)"
  by (auto simp: unique_on_def select_pk_update_where split: option.splits if_splits)

lemma unique_on_update_pk:
  "(\<And>r. f (g r) = f r) \<Longrightarrow> unique_on f t \<Longrightarrow> unique_on f (update_pk k g t)"
  by (simp add: update_pk_def unique_on_update_where)

end
