(* ===== verification/Rejections.thy ===== *)
theory Rejections
  imports Society_Prelude
begin

text \<open>
  The closed rejection vocabulary of the kernel (\<^verbatim>\<open>society-kernel/src/domain.rs\<close>,
  \<^verbatim>\<open>closed_rejection_codes!\<close>): the enumeration, its stored code, the table the macro
  invocation gives and the decoder that accepts no gap.
\<close>

datatype (plugins only: code) rejection =
    CapabilityMismatch | CapabilityNotGranted | CapabilityNoLongerActive |
    InvalidExpectedGeneration | StaleAdmissionGeneration | InvalidLifecycleTransition |
    FoundingInvariant | ActiveCycleAlreadyExists | ActiveOfficeOccupancyAlreadyExists |
    BudgetCeilingExceeded | ReservationNotActive | CostExceedsReservation |
    IncompleteCycleReconciliation | SessionTurnAlreadyActive | CancellationAlreadyTerminal |
    SubjectNotFound | BudgetPolicyViolation | CostPostmortemNotOpen |
    InvalidCostPostmortemResolution | ProjectCloseBlocked | TicketPrerequisiteIncomplete |
    GraphRevisionNotCommitted | IllegalGraphEdgeEndpoint | ReviewSelfDispositionDenied |
    ReviewDispositionIncomplete | PostmortemCloseBlocked | ReviewAssignmentNotIndependent |
    ActorJurisdictionDenied | WorkLeaseUnavailable | ActorAttemptNotTerminal |
    ActorAttemptNotValidatable | OutcomeObligationOpen | ReviewAssignmentEvidenceMissing |
    ExecutionProfileIneligible | TicketAcceptanceConditionUnsatisfied |
    QualificationTreatmentRestricted | ContentSealReceiptMissing | ContentObjectNotSealed |
    ForensicManifestBindingMismatch | DeterministicExperimentBindingMismatch |
    DeterministicEvaluationBindingMismatch | EvidenceAdmissionRequired |
    ChildSpawnAdmissionInvalid | ChildLifecycleReceiptMissing |
    ChildStreamSealBindingMismatch | ProcessContainmentFailed |
    CancellationPropagationIncomplete | SupervisedTerminalReceiptRequired |
    PiOfficeTurnAuthorityMissing | PiOfficeTurnPromptBindingMismatch |
    PiOfficeTurnUsageNotMonotonic | PiOfficeTurnTerminalEvidenceMissing |
    PiOfficeTurnNotReconciled | PiOfficeTurnTreatmentIneligible |
    OfficeSessionBudgetRequiresDispose | PiOfficeTurnTerminalAlreadyRecorded |
    PiOfficeTurnUsageAlreadyFrozen | ProjectNorthStarAlignmentMismatch |
    PiOfficeSessionDisposeBindingMismatch | PiOfficeSessionDisposeUsageNotMonotonic |
    PiOfficeSessionDisposeReceiptMissing | MissionSourceContentNotSealed |
    PiTaskAttemptAuthorityMissing | PiTaskAttemptPromptBindingMismatch |
    PiTaskAttemptUsageNotMonotonic | PiTaskAttemptTerminalEvidenceMissing |
    PiTaskAttemptNotReconciled | PiTaskAttemptTerminalAlreadyRecorded |
    PiTaskAttemptUsageAlreadyFrozen | PiTaskAttemptSessionDisposeBindingMismatch |
    PiTaskAttemptSessionDisposeReceiptMissing

text \<open>The table of the macro invocation, in its order, with the code of each alternative.\<close>

definition rejection_table :: "(rejection \<times> int) list" where
  "rejection_table = [
     (CapabilityMismatch, 1), (CapabilityNotGranted, 2), (CapabilityNoLongerActive, 3),
     (InvalidExpectedGeneration, 4), (StaleAdmissionGeneration, 5),
     (InvalidLifecycleTransition, 6), (FoundingInvariant, 7), (ActiveCycleAlreadyExists, 8),
     (ActiveOfficeOccupancyAlreadyExists, 9), (BudgetCeilingExceeded, 10),
     (ReservationNotActive, 11), (CostExceedsReservation, 12),
     (IncompleteCycleReconciliation, 13), (SessionTurnAlreadyActive, 14),
     (CancellationAlreadyTerminal, 15), (SubjectNotFound, 16), (BudgetPolicyViolation, 17),
     (CostPostmortemNotOpen, 18), (InvalidCostPostmortemResolution, 19),
     (ProjectCloseBlocked, 20), (TicketPrerequisiteIncomplete, 21),
     (GraphRevisionNotCommitted, 22), (IllegalGraphEdgeEndpoint, 23),
     (ReviewSelfDispositionDenied, 24), (ReviewDispositionIncomplete, 25),
     (PostmortemCloseBlocked, 26), (ReviewAssignmentNotIndependent, 27),
     (ActorJurisdictionDenied, 28), (WorkLeaseUnavailable, 29), (ActorAttemptNotTerminal, 30),
     (ActorAttemptNotValidatable, 31), (OutcomeObligationOpen, 32),
     (ReviewAssignmentEvidenceMissing, 33), (ExecutionProfileIneligible, 34),
     (TicketAcceptanceConditionUnsatisfied, 35), (QualificationTreatmentRestricted, 36),
     (ContentSealReceiptMissing, 37), (ContentObjectNotSealed, 38),
     (ForensicManifestBindingMismatch, 39), (DeterministicExperimentBindingMismatch, 40),
     (DeterministicEvaluationBindingMismatch, 41), (EvidenceAdmissionRequired, 42),
     (ChildSpawnAdmissionInvalid, 43), (ChildLifecycleReceiptMissing, 44),
     (ChildStreamSealBindingMismatch, 45), (ProcessContainmentFailed, 46),
     (CancellationPropagationIncomplete, 47), (SupervisedTerminalReceiptRequired, 48),
     (PiOfficeTurnAuthorityMissing, 49), (PiOfficeTurnPromptBindingMismatch, 50),
     (PiOfficeTurnUsageNotMonotonic, 51), (PiOfficeTurnTerminalEvidenceMissing, 52),
     (PiOfficeTurnNotReconciled, 53), (PiOfficeTurnTreatmentIneligible, 54),
     (OfficeSessionBudgetRequiresDispose, 55), (PiOfficeTurnTerminalAlreadyRecorded, 56),
     (PiOfficeTurnUsageAlreadyFrozen, 57), (ProjectNorthStarAlignmentMismatch, 58),
     (PiOfficeSessionDisposeBindingMismatch, 59),
     (PiOfficeSessionDisposeUsageNotMonotonic, 60),
     (PiOfficeSessionDisposeReceiptMissing, 61), (MissionSourceContentNotSealed, 62),
     (PiTaskAttemptAuthorityMissing, 63), (PiTaskAttemptPromptBindingMismatch, 64),
     (PiTaskAttemptUsageNotMonotonic, 65), (PiTaskAttemptTerminalEvidenceMissing, 66),
     (PiTaskAttemptNotReconciled, 67), (PiTaskAttemptTerminalAlreadyRecorded, 68),
     (PiTaskAttemptUsageAlreadyFrozen, 69), (PiTaskAttemptSessionDisposeBindingMismatch, 70),
     (PiTaskAttemptSessionDisposeReceiptMissing, 71)]"

definition rejection_ALL :: "rejection list" where
  "rejection_ALL = map fst rejection_table"

text \<open>\<open>Rejection::as_i64\<close>: the discriminant.\<close>

primrec rejection_as_i64 :: "rejection \<Rightarrow> int" where
  "rejection_as_i64 CapabilityMismatch = 1"
| "rejection_as_i64 CapabilityNotGranted = 2"
| "rejection_as_i64 CapabilityNoLongerActive = 3"
| "rejection_as_i64 InvalidExpectedGeneration = 4"
| "rejection_as_i64 StaleAdmissionGeneration = 5"
| "rejection_as_i64 InvalidLifecycleTransition = 6"
| "rejection_as_i64 FoundingInvariant = 7"
| "rejection_as_i64 ActiveCycleAlreadyExists = 8"
| "rejection_as_i64 ActiveOfficeOccupancyAlreadyExists = 9"
| "rejection_as_i64 BudgetCeilingExceeded = 10"
| "rejection_as_i64 ReservationNotActive = 11"
| "rejection_as_i64 CostExceedsReservation = 12"
| "rejection_as_i64 IncompleteCycleReconciliation = 13"
| "rejection_as_i64 SessionTurnAlreadyActive = 14"
| "rejection_as_i64 CancellationAlreadyTerminal = 15"
| "rejection_as_i64 SubjectNotFound = 16"
| "rejection_as_i64 BudgetPolicyViolation = 17"
| "rejection_as_i64 CostPostmortemNotOpen = 18"
| "rejection_as_i64 InvalidCostPostmortemResolution = 19"
| "rejection_as_i64 ProjectCloseBlocked = 20"
| "rejection_as_i64 TicketPrerequisiteIncomplete = 21"
| "rejection_as_i64 GraphRevisionNotCommitted = 22"
| "rejection_as_i64 IllegalGraphEdgeEndpoint = 23"
| "rejection_as_i64 ReviewSelfDispositionDenied = 24"
| "rejection_as_i64 ReviewDispositionIncomplete = 25"
| "rejection_as_i64 PostmortemCloseBlocked = 26"
| "rejection_as_i64 ReviewAssignmentNotIndependent = 27"
| "rejection_as_i64 ActorJurisdictionDenied = 28"
| "rejection_as_i64 WorkLeaseUnavailable = 29"
| "rejection_as_i64 ActorAttemptNotTerminal = 30"
| "rejection_as_i64 ActorAttemptNotValidatable = 31"
| "rejection_as_i64 OutcomeObligationOpen = 32"
| "rejection_as_i64 ReviewAssignmentEvidenceMissing = 33"
| "rejection_as_i64 ExecutionProfileIneligible = 34"
| "rejection_as_i64 TicketAcceptanceConditionUnsatisfied = 35"
| "rejection_as_i64 QualificationTreatmentRestricted = 36"
| "rejection_as_i64 ContentSealReceiptMissing = 37"
| "rejection_as_i64 ContentObjectNotSealed = 38"
| "rejection_as_i64 ForensicManifestBindingMismatch = 39"
| "rejection_as_i64 DeterministicExperimentBindingMismatch = 40"
| "rejection_as_i64 DeterministicEvaluationBindingMismatch = 41"
| "rejection_as_i64 EvidenceAdmissionRequired = 42"
| "rejection_as_i64 ChildSpawnAdmissionInvalid = 43"
| "rejection_as_i64 ChildLifecycleReceiptMissing = 44"
| "rejection_as_i64 ChildStreamSealBindingMismatch = 45"
| "rejection_as_i64 ProcessContainmentFailed = 46"
| "rejection_as_i64 CancellationPropagationIncomplete = 47"
| "rejection_as_i64 SupervisedTerminalReceiptRequired = 48"
| "rejection_as_i64 PiOfficeTurnAuthorityMissing = 49"
| "rejection_as_i64 PiOfficeTurnPromptBindingMismatch = 50"
| "rejection_as_i64 PiOfficeTurnUsageNotMonotonic = 51"
| "rejection_as_i64 PiOfficeTurnTerminalEvidenceMissing = 52"
| "rejection_as_i64 PiOfficeTurnNotReconciled = 53"
| "rejection_as_i64 PiOfficeTurnTreatmentIneligible = 54"
| "rejection_as_i64 OfficeSessionBudgetRequiresDispose = 55"
| "rejection_as_i64 PiOfficeTurnTerminalAlreadyRecorded = 56"
| "rejection_as_i64 PiOfficeTurnUsageAlreadyFrozen = 57"
| "rejection_as_i64 ProjectNorthStarAlignmentMismatch = 58"
| "rejection_as_i64 PiOfficeSessionDisposeBindingMismatch = 59"
| "rejection_as_i64 PiOfficeSessionDisposeUsageNotMonotonic = 60"
| "rejection_as_i64 PiOfficeSessionDisposeReceiptMissing = 61"
| "rejection_as_i64 MissionSourceContentNotSealed = 62"
| "rejection_as_i64 PiTaskAttemptAuthorityMissing = 63"
| "rejection_as_i64 PiTaskAttemptPromptBindingMismatch = 64"
| "rejection_as_i64 PiTaskAttemptUsageNotMonotonic = 65"
| "rejection_as_i64 PiTaskAttemptTerminalEvidenceMissing = 66"
| "rejection_as_i64 PiTaskAttemptNotReconciled = 67"
| "rejection_as_i64 PiTaskAttemptTerminalAlreadyRecorded = 68"
| "rejection_as_i64 PiTaskAttemptUsageAlreadyFrozen = 69"
| "rejection_as_i64 PiTaskAttemptSessionDisposeBindingMismatch = 70"
| "rejection_as_i64 PiTaskAttemptSessionDisposeReceiptMissing = 71"

text \<open>\<open>Rejection::as_u8\<close> is the same discriminant truncated to eight bits.\<close>

definition rejection_as_u8 :: "rejection \<Rightarrow> byte" where
  "rejection_as_u8 r = word_of_int (rejection_as_i64 r)"

text \<open>\<open>impl TryFrom<i64> for Rejection\<close>: the generated match, by the table.\<close>

definition rejection_try_from :: "int \<Rightarrow> rejection option" where
  "rejection_try_from v = map_option fst (find (\<lambda>(r, c). c = v) rejection_table)"

text \<open>\<open>impl TryFrom<u8> for Rejection\<close>.\<close>

definition rejection_try_from_u8 :: "byte \<Rightarrow> rejection option" where
  "rejection_try_from_u8 b = rejection_try_from (uint b)"

section \<open>The codes are a bijection with the enumeration\<close>

lemma rejection_code_bounds: "1 \<le> rejection_as_i64 r \<and> rejection_as_i64 r \<le> 71"
  by (cases r) simp_all

lemma rejection_try_from_as_i64: "rejection_try_from (rejection_as_i64 r) = Some r"
  by (cases r) (simp_all add: rejection_try_from_def rejection_table_def)

lemma uint_rejection_as_u8: "uint (rejection_as_u8 r) = rejection_as_i64 r"
  using rejection_code_bounds [of r]
  by (simp add: rejection_as_u8_def uint_word_of_int_eq take_bit_int_eq_self)

lemma rejection_u8_roundtrip: "rejection_try_from_u8 (rejection_as_u8 r) = Some r"
  by (simp add: rejection_try_from_u8_def uint_rejection_as_u8 rejection_try_from_as_i64)

lemma rejection_table_sound: "(r, c) \<in> set rejection_table \<Longrightarrow> rejection_as_i64 r = c"
  by (auto simp: rejection_table_def)

lemma rejection_try_from_Some: "rejection_try_from v = Some r \<Longrightarrow> rejection_as_i64 r = v"
  by (auto simp: rejection_try_from_def find_Some_iff)
    (metis nth_mem rejection_table_sound)

end
