(* ===== verification/Study_Types.thy ===== *)
theory Study_Types
  imports Rejections
begin

text \<open>
  The closed value types of the experimental-control plane
  (\<^verbatim>\<open>society-kernel/src/study.rs\<close>): lifecycle enumerations, bounded newtypes, the command family
  \<open>StudyCommand\<close> and the event family \<open>StudyEvent\<close>.  Identifiers are the stored \<open>i64\<close> values; a
  command is well typed (\<open>study_command_typed\<close>) when every field satisfies the constructor of its
  Rust newtype.  Constructor names that occur in several Rust enums carry a prefix.
\<close>

section \<open>Lifecycle enumerations\<close>

datatype study_episode_state =
    Admitted | SourceActive | SourceReconciled | SuccessorAdmitted | CorrectionReleased
  | SuccessorActive | Closed

datatype study_population_phase = Source | Successor

datatype study_treatment = Retained | Reset

datatype forum_lifecycle = ForumOpen | ForumReadOnly | ForumClosed

datatype forum_thread_lifecycle = ThreadOpen | ThreadLocked | ThreadClosed

datatype forum_message_kind = Finding | Question | Challenge | Correction | Synthesis

datatype forum_publication_state = Published | Retracted

datatype study_measurement_status = Observed | Unavailable | Invalidated

datatype study_run_lifecycle_state = Pairing | Ready | Running | Completed

datatype study_actor_obligation_state =
    ObligationActive | ObligationCompleted | ObligationFailed

datatype study_actor_runtime_binding_state = Bound | Reconciled | RecoverySettled

datatype study_recovery_accounting_state = UnknownAccounting

text \<open>Enumerations of \<^verbatim>\<open>domain.rs\<close> that the study transitions read.\<close>

datatype child_process_state =
    ChildSpawned | ChildRunning | ChildCancellationRequested | ChildDirectChildReaped
  | ChildRecoveryContainmentRequired | ChildLostParentage | ChildContainmentFailed
  | ChildFinalized

datatype process_group_liveness = GroupPresent | GroupAbsent | GroupInaccessible

datatype child_recovery_observation = ParentageLost

datatype actor_attempt_state =
    AttemptRunning | AttemptCancellationRequested | AttemptSucceeded | AttemptFailed
  | AttemptCancelled | AttemptExpired | AttemptProtocolFailed | AttemptSupervisorFailed
  | AttemptValidated

datatype actor_attempt_terminal_kind =
    TerminalSucceeded | TerminalFailed | TerminalCancelled | TerminalExpired
  | TerminalProtocolFailed | TerminalSupervisorFailed

section \<open>Stored codes of the lifecycle enumerations\<close>

primrec episode_state_code :: "study_episode_state \<Rightarrow> int" where
  "episode_state_code Admitted = 1"
| "episode_state_code SourceActive = 2"
| "episode_state_code SourceReconciled = 3"
| "episode_state_code SuccessorAdmitted = 4"
| "episode_state_code CorrectionReleased = 5"
| "episode_state_code SuccessorActive = 6"
| "episode_state_code Closed = 7"

definition episode_state_from_i64 :: "int \<Rightarrow> rejection + study_episode_state" where
  "episode_state_from_i64 v =
     (if v = 1 then Inr Admitted
      else if v = 2 then Inr SourceActive
      else if v = 3 then Inr SourceReconciled
      else if v = 4 then Inr SuccessorAdmitted
      else if v = 5 then Inr CorrectionReleased
      else if v = 6 then Inr SuccessorActive
      else if v = 7 then Inr Closed
      else Inl InvalidLifecycleTransition)"

primrec population_phase_code :: "study_population_phase \<Rightarrow> int" where
  "population_phase_code Source = 1"
| "population_phase_code Successor = 2"

definition population_phase_from_i64 :: "int \<Rightarrow> rejection + study_population_phase" where
  "population_phase_from_i64 v =
     (if v = 1 then Inr Source else if v = 2 then Inr Successor
      else Inl InvalidLifecycleTransition)"

primrec treatment_code :: "study_treatment \<Rightarrow> int" where
  "treatment_code Retained = 1"
| "treatment_code Reset = 2"

primrec message_kind_code :: "forum_message_kind \<Rightarrow> int" where
  "message_kind_code Finding = 1"
| "message_kind_code Question = 2"
| "message_kind_code Challenge = 3"
| "message_kind_code Correction = 4"
| "message_kind_code Synthesis = 5"

primrec publication_state_code :: "forum_publication_state \<Rightarrow> int" where
  "publication_state_code Published = 1"
| "publication_state_code Retracted = 2"

section \<open>Bounded newtypes\<close>

text \<open>\<open>study_identifier!\<close>: identifiers are positive.\<close>

definition study_identifier_new :: "int \<Rightarrow> int option" where
  "study_identifier_new v = (if v > 0 then Some v else None)"

text \<open>\<open>ForumMessageBody::parse\<close>, \<open>StudyDecisionBody::parse\<close>, \<open>StudyGroundTruthReveal::parse\<close>: nonempty
  UTF-8 without NUL, at most 8192, 2048 and 2048 bytes.\<close>

definition bounded_body :: "nat \<Rightarrow> byte list \<Rightarrow> bool" where
  "bounded_body n b \<longleftrightarrow> b \<noteq> [] \<and> length b \<le> n \<and> 0 \<notin> set b"

definition forum_message_body_ok :: "byte list \<Rightarrow> bool" where
  "forum_message_body_ok = bounded_body (8 * 1024)"

definition study_decision_body_ok :: "byte list \<Rightarrow> bool" where
  "study_decision_body_ok = bounded_body (2 * 1024)"

definition study_ground_truth_reveal_ok :: "byte list \<Rightarrow> bool" where
  "study_ground_truth_reveal_ok = bounded_body (2 * 1024)"

section \<open>Commands\<close>

datatype (plugins only: code) study_command =
    AdmitProtocolRevision int digest digest digest digest digest digest digest digest int
  | AdmitWorldRevision int digest
  | AdmitMeasurementRevision int digest int
  | AdmitInstitutionRevision int digest
  | AdmitPopulationSnapshot int digest int
  | AdmitEpisode int int int int int digest
  | AssignTreatment int study_treatment
  | AdmitMatchedPair int int
  | AdmitStudyRun int int digest int
  | RegisterStudyRunPair int int int digest
  | StartStudyRun int
  | CompleteStudyRun int
  | CreateEpisodeForum int digest
  | OpenForumThread int "byte list"
  | AdmitActorObligation int study_population_phase int digest digest digest int int int
  | CompleteActorObligation int int
  | FailActorObligation int digest
  | BindActorRuntime int int int int
  | BindActorTaskAttemptRuntime int int int int
  | ReconcileActorRuntime int int
  | SettleActorTaskAttemptAfterRecovery int int int int
  | FreezeForumHead int int
  | ReplacePopulation int int
  | AdmitForumExposure int int int
  | PublishForumMessage int forum_message_kind "byte list" "int option" "int option"
  | RetractForumMessage int int
  | ReleaseMatchedCorrection int int int "byte list"
  | ReadForum int int int int
  | RecordDecision int "byte list" "int option"
  | RevealGroundTruth int "byte list"
  | RecordMeasurementResult int int study_measurement_status "int option" "digest option"
      "digest option"
  | CloseEpisode int
  | ForkEpisode int study_treatment

section \<open>Events\<close>

datatype (plugins only: code) study_event =
    ProtocolRevisionAdmitted int
  | WorldRevisionAdmitted int
  | MeasurementRevisionAdmitted int
  | InstitutionRevisionAdmitted int
  | PopulationSnapshotAdmitted int
  | EpisodeAdmitted int
  | TreatmentAssigned int int study_treatment
  | MatchedPairAdmitted int
  | StudyRunAdmitted int int int digest int
  | StudyRunPairRegistered int int int digest study_run_lifecycle_state
  | StudyRunStarted int
  | StudyRunCompleted int
  | EpisodeForumCreated int int
  | ForumThreadOpened int int
  | ActorObligationAdmitted int int int int study_population_phase
  | ActorObligationCompleted int
  | ActorObligationFailed int digest
  | ActorRuntimeBound int int int int int
  | ActorTaskAttemptRuntimeBound int int int int int
  | ActorRuntimeReconciled int int
  | ActorTaskAttemptRecoverySettled int int int int study_recovery_accounting_state
  | GroundTruthRevealed int digest
  | ForumHeadFrozen int int int
  | PopulationReplaced int int
  | ForumExposureAdmitted int int int int
  | ForumMessagePublished int int int int forum_message_kind digest
  | MatchedCorrectionReleased int int int digest
  | ForumMessagesRead int int int int int digest int
  | DecisionRecorded int
  | MeasurementResultRecorded int int study_measurement_status
  | EpisodeClosed int
  | ExperimentalForkCreated int int int study_treatment
  | ForumMessageRetracted int int

section \<open>Well-typed commands\<close>

definition measurement_result_shape_valid ::
  "study_measurement_status \<Rightarrow> int option \<Rightarrow> digest option \<Rightarrow> digest option \<Rightarrow> bool" where
  "measurement_result_shape_valid status observed_value value_digest reason =
     (case status of
        Observed \<Rightarrow> observed_value \<noteq> None \<and> value_digest \<noteq> None \<and> reason = None
      | Unavailable \<Rightarrow> observed_value = None \<and> value_digest = None \<and> reason \<noteq> None
      | Invalidated \<Rightarrow> observed_value = None \<and> value_digest = None \<and> reason \<noteq> None)"

text \<open>What the Rust field types of each command guarantee of its numeric fields and bodies.\<close>

definition study_command_typed :: "study_command \<Rightarrow> bool" where
  "study_command_typed cmd = (case cmd of
     AdmitProtocolRevision a0 a1 a2 a3 a4 a5 a6 a7 a8 budget \<Rightarrow> (0 \<le> budget)
   | AdmitWorldRevision a0 a1 \<Rightarrow> True
   | AdmitMeasurementRevision a0 a1 slots \<Rightarrow> (1 \<le> slots \<and> slots \<le> 64)
   | AdmitInstitutionRevision a0 a1 \<Rightarrow> True
   | AdmitPopulationSnapshot a0 a1 a2 \<Rightarrow> True
   | AdmitEpisode a0 a1 a2 a3 a4 a5 \<Rightarrow> True
   | AssignTreatment a0 a1 \<Rightarrow> True
   | AdmitMatchedPair a0 a1 \<Rightarrow> True
   | AdmitStudyRun a0 a1 a2 pairs \<Rightarrow> (1 \<le> pairs \<and> pairs \<le> 10000)
   | RegisterStudyRunPair a0 ordinal a2 a3 \<Rightarrow> (1 \<le> ordinal \<and> ordinal \<le> 10000)
   | StartStudyRun a0 \<Rightarrow> True
   | CompleteStudyRun a0 \<Rightarrow> True
   | CreateEpisodeForum a0 a1 \<Rightarrow> True
   | OpenForumThread a0 a1 \<Rightarrow> True
   | AdmitActorObligation a0 a1 role a3 a4 a5 budget reads posts \<Rightarrow> (1 \<le> role \<and> role \<le> 64 \<and> 0 \<le> budget \<and> 0 < reads \<and> 0 < posts)
   | CompleteActorObligation a0 charged \<Rightarrow> (0 \<le> charged)
   | FailActorObligation a0 a1 \<Rightarrow> True
   | BindActorRuntime a0 a1 a2 a3 \<Rightarrow> True
   | BindActorTaskAttemptRuntime a0 a1 a2 a3 \<Rightarrow> True
   | ReconcileActorRuntime a0 a1 \<Rightarrow> True
   | SettleActorTaskAttemptAfterRecovery a0 a1 a2 a3 \<Rightarrow> True
   | FreezeForumHead a0 a1 \<Rightarrow> True
   | ReplacePopulation a0 a1 \<Rightarrow> True
   | AdmitForumExposure a0 a1 a2 \<Rightarrow> True
   | PublishForumMessage a0 a1 body a3 a4 \<Rightarrow> (forum_message_body_ok body)
   | RetractForumMessage a0 a1 \<Rightarrow> True
   | ReleaseMatchedCorrection a0 a1 a2 body \<Rightarrow> (forum_message_body_ok body)
   | ReadForum a0 a1 a2 a3 \<Rightarrow> True
   | RecordDecision a0 decision a2 \<Rightarrow> (study_decision_body_ok decision)
   | RevealGroundTruth a0 reveal \<Rightarrow> (study_ground_truth_reveal_ok reveal)
   | RecordMeasurementResult a0 slot a2 a3 a4 a5 \<Rightarrow> (1 \<le> slot \<and> slot \<le> 64)
   | CloseEpisode a0 \<Rightarrow> True
   | ForkEpisode a0 a1 \<Rightarrow> True)"

section \<open>Codes and enumerations agree\<close>

lemma episode_state_code_roundtrip: "episode_state_from_i64 (episode_state_code s) = Inr s"
  by (cases s) (simp_all add: episode_state_from_i64_def)

lemma population_phase_code_roundtrip: "population_phase_from_i64 (population_phase_code p) = Inr p"
  by (cases p) (simp_all add: population_phase_from_i64_def)

end
