(* ===== verification/Study_Store.thy ===== *)
theory Study_Store
  imports Study_Types
begin

text \<open>
  The materialised state of the experimental-control plane: one record per PostgreSQL row type of
  the \<^verbatim>\<open>study_*\<close> tables, the record \<open>study_db\<close> of all tables, and the row accessors every
  transition of \<^verbatim>\<open>study.rs\<close> shares (\<open>exists\<close>, \<open>episode_state\<close>, \<open>set_episode_state\<close>,
  \<open>obligation_row\<close>).  Lifecycle columns hold the enumeration value their CHECK constraint admits.
  Foreign keys are not stored as constraints: every transition reads the referenced row first.
  The record \<open>kernel_env\<close> is the part of the database the study transitions read but other parts of
  the kernel write.
\<close>

section \<open>Rows\<close>

record protocol_row =
  pr_application :: int
  pr_protocol_digest :: digest
  pr_actor_policy :: digest
  pr_forum_prompt :: digest
  pr_forum_tool :: digest
  pr_evidence :: digest
  pr_ground_truth :: digest
  pr_correction :: digest
  pr_topology :: digest
  pr_budget :: int
  pr_by :: int

record world_row =
  wr_protocol :: int
  wr_digest :: digest
  wr_by :: int

record measurement_row =
  mr_protocol :: int
  mr_digest :: digest
  mr_slots :: int
  mr_by :: int

record institution_row =
  ir_protocol :: int
  ir_digest :: digest
  ir_by :: int

record population_row =
  ps_protocol :: int
  ps_digest :: digest
  ps_size :: int
  ps_by :: int

record episode_row =
  ep_protocol :: int
  ep_world :: int
  ep_measurement :: int
  ep_institution :: int
  ep_population :: int
  ep_randomization :: digest
  ep_state :: study_episode_state
  ep_by :: int
  ep_last :: int

record successor_row =
  su_population :: int
  su_by :: int

record treatment_row =
  ta_episode :: int
  ta_treatment :: study_treatment
  ta_by :: int

record pair_row =
  pa_retained :: int
  pa_reset :: int
  pa_by :: int

record run_row =
  ru_protocol :: int
  ru_plan_object :: int
  ru_plan_digest :: digest
  ru_pairs :: int
  ru_registered :: int
  ru_state :: study_run_lifecycle_state
  ru_by :: int
  ru_last :: int

text \<open>Keyed by run and pair ordinal.\<close>

record run_pair_row =
  rp_pair :: int
  rp_randomization :: digest
  rp_by :: int

record forum_row =
  fo_episode :: int
  fo_charter :: digest
  fo_state :: forum_lifecycle
  fo_by :: int
  fo_last :: int

record thread_row =
  th_forum :: int
  th_title :: "byte list"
  th_state :: forum_thread_lifecycle
  th_head :: int
  th_by :: int

record obligation_row =
  ob_episode :: int
  ob_population :: int
  ob_phase :: study_population_phase
  ob_role :: int
  ob_view :: digest
  ob_prompt :: digest
  ob_tool :: digest
  ob_budget :: int
  ob_charged :: int
  ob_read_budget :: int
  ob_reads_used :: int
  ob_post_budget :: int
  ob_posts_used :: int
  ob_state :: study_actor_obligation_state
  ob_by :: int
  ob_completed_by :: "int option"
  ob_failed_by :: "int option"
  ob_failure_reason :: "digest option"

record occurrence_row =
  oc_obligation :: int
  oc_by :: int

text \<open>Keyed by obligation.\<close>

record binding_row =
  rb_attempt :: "int option"
  rb_office :: "int option"
  rb_child :: int
  rb_admission :: int
  rb_profile :: int
  rb_state :: study_actor_runtime_binding_state
  rb_by :: int
  rb_reconciled_by :: "int option"
  rb_settled_by :: "int option"

text \<open>Keyed by obligation.\<close>

record settlement_row =
  rs_attempt :: int
  rs_child :: int
  rs_receipt :: int
  rs_accounting :: study_recovery_accounting_state
  rs_by :: int

text \<open>Keyed by episode.\<close>

record frozen_row =
  fz_thread :: int
  fz_head :: int
  fz_by :: int

record exposure_row =
  ex_obligation :: int
  ex_forum :: int
  ex_from :: int
  ex_through :: int
  ex_by :: int

record message_row =
  ms_thread :: int
  ms_ordinal :: int
  ms_author :: "int option"
  ms_service :: bool
  ms_kind :: forum_message_kind
  ms_reply :: "int option"
  ms_supersedes :: "int option"
  ms_body :: "byte list"
  ms_digest :: digest
  ms_state :: forum_publication_state
  ms_by :: int

record receipt_row =
  rr_obligation :: int
  rr_thread :: int
  rr_first :: int
  rr_through :: int
  rr_revision :: int
  rr_bytes :: int
  rr_digest :: digest
  rr_object :: int
  rr_by :: int

text \<open>Keyed by obligation.\<close>

record decision_row =
  de_body :: "byte list"
  de_digest :: digest
  de_cited :: "int option"
  de_by :: int

text \<open>Keyed by episode.\<close>

record reveal_row =
  gt_body :: "byte list"
  gt_digest :: digest
  gt_by :: int

record result_row =
  me_episode :: int
  me_slot :: int
  me_status :: study_measurement_status
  me_value :: "int option"
  me_value_digest :: "digest option"
  me_reason :: "digest option"
  me_by :: int

record fork_row =
  fk_source :: int
  fk_forked :: int
  fk_treatment :: study_treatment
  fk_by :: int

section \<open>Tables of other kernel parts\<close>

record child_row =
  ch_admission :: int
  ch_state :: child_process_state

record admission_row =
  ad_attempt :: "int option"
  ad_office :: "int option"
  ad_profile :: "int option"

record attempt_row =
  at_state :: actor_attempt_state
  at_profile :: int
  at_terminal_by :: "int option"

record recovery_row =
  rv_child :: int
  rv_observation :: child_recovery_observation
  rv_liveness :: process_group_liveness

text \<open>
  \<open>env_seals\<close> is \<^verbatim>\<open>content_objects\<close> joined with the seal receipt each object names: the sealed
  digest by content object.  \<open>env_pi_terminal\<close> lists the attempts with a terminal Pi receipt and
  \<open>env_terminal\<close> is \<^verbatim>\<open>actor_attempt_terminal_facts\<close>, keyed by attempt.
\<close>

record kernel_env =
  env_applications :: "int list"
  env_seals :: "(int, digest) table"
  env_children :: "(int, child_row) table"
  env_admissions :: "(int, admission_row) table"
  env_attempts :: "(int, attempt_row) table"
  env_recoveries :: "(int, recovery_row) table"
  env_pi_terminal :: "int list"
  env_terminal :: "(int, actor_attempt_terminal_kind \<times> int) table"

section \<open>The study database\<close>

record study_db =
  protocols :: "(int, protocol_row) table"
  worlds :: "(int, world_row) table"
  measurements :: "(int, measurement_row) table"
  institutions :: "(int, institution_row) table"
  populations :: "(int, population_row) table"
  episodes :: "(int, episode_row) table"
  successors :: "(int, successor_row) table"
  treatments :: "(int, treatment_row) table"
  pairs :: "(int, pair_row) table"
  runs :: "(int, run_row) table"
  run_pairs :: "(int \<times> int, run_pair_row) table"
  forums :: "(int, forum_row) table"
  threads :: "(int, thread_row) table"
  obligations :: "(int, obligation_row) table"
  occurrences :: "(int, occurrence_row) table"
  bindings :: "(int, binding_row) table"
  settlements :: "(int, settlement_row) table"
  frozen :: "(int, frozen_row) table"
  exposures :: "(int, exposure_row) table"
  messages :: "(int, message_row) table"
  receipts :: "(int, receipt_row) table"
  decisions :: "(int, decision_row) table"
  reveals :: "(int, reveal_row) table"
  results :: "(int, result_row) table"
  forks :: "(int, fork_row) table"
  env :: kernel_env

type_synonym 'a tx_result = "(rejection + 'a) \<times> study_db"

definition empty_study_db :: "kernel_env \<Rightarrow> study_db" where
  "empty_study_db e = \<lparr>
     protocols = empty_table, worlds = empty_table, measurements = empty_table,
     institutions = empty_table, populations = empty_table, episodes = empty_table,
     successors = empty_table, treatments = empty_table, pairs = empty_table,
     runs = empty_table, run_pairs = empty_table, forums = empty_table,
     threads = empty_table, obligations = empty_table, occurrences = empty_table,
     bindings = empty_table, settlements = empty_table, frozen = empty_table,
     exposures = empty_table, messages = empty_table, receipts = empty_table,
     decisions = empty_table, reveals = empty_table, results = empty_table,
     forks = empty_table, env = e\<rparr>"

text \<open>\<open>ROLLBACK TO SAVEPOINT\<close> over the whole database.\<close>

definition rollback :: "study_db \<Rightarrow> study_db \<Rightarrow> study_db" where
  "rollback old new = \<lparr>
     protocols = rollback_table (protocols old) (protocols new),
     worlds = rollback_table (worlds old) (worlds new),
     measurements = rollback_table (measurements old) (measurements new),
     institutions = rollback_table (institutions old) (institutions new),
     populations = rollback_table (populations old) (populations new),
     episodes = rollback_table (episodes old) (episodes new),
     successors = rollback_table (successors old) (successors new),
     treatments = rollback_table (treatments old) (treatments new),
     pairs = rollback_table (pairs old) (pairs new),
     runs = rollback_table (runs old) (runs new),
     run_pairs = rollback_table (run_pairs old) (run_pairs new),
     forums = rollback_table (forums old) (forums new),
     threads = rollback_table (threads old) (threads new),
     obligations = rollback_table (obligations old) (obligations new),
     occurrences = rollback_table (occurrences old) (occurrences new),
     bindings = rollback_table (bindings old) (bindings new),
     settlements = rollback_table (settlements old) (settlements new),
     frozen = rollback_table (frozen old) (frozen new),
     exposures = rollback_table (exposures old) (exposures new),
     messages = rollback_table (messages old) (messages new),
     receipts = rollback_table (receipts old) (receipts new),
     decisions = rollback_table (decisions old) (decisions new),
     reveals = rollback_table (reveals old) (reveals new),
     results = rollback_table (results old) (results new),
     forks = rollback_table (forks old) (forks new),
     env = env old\<rparr>"

section \<open>Shared row accessors\<close>

text \<open>\<open>exists(transaction, "SELECT key FROM t WHERE key = $1", value)\<close>.\<close>

definition row_exists :: "('k, 'r) table \<Rightarrow> 'k \<Rightarrow> bool" where
  "row_exists t k \<longleftrightarrow> select_pk t k \<noteq> None"

text \<open>\<open>episode_state\<close>: protocol and lifecycle state; the stored protocol must be a positive identifier.\<close>

definition episode_state :: "study_db \<Rightarrow> int \<Rightarrow> rejection + (int \<times> study_episode_state)" where
  "episode_state db e =
     (case select_pk (episodes db) e of
        None \<Rightarrow> Inl SubjectNotFound
      | Some r \<Rightarrow>
          (case study_identifier_new (ep_protocol r) of
             None \<Rightarrow> Inl SubjectNotFound
           | Some p \<Rightarrow> Inr (p, ep_state r)))"

definition set_episode_state :: "int \<Rightarrow> int \<Rightarrow> study_episode_state \<Rightarrow> study_db \<Rightarrow> study_db" where
  "set_episode_state c e s db =
     db\<lparr>episodes := update_pk e (\<lambda>r. r\<lparr>ep_state := s, ep_last := c\<rparr>) (episodes db)\<rparr>"

text \<open>\<open>obligation_row\<close>: episode, phase, lifecycle state, read budget and reads used.\<close>

definition obligation_read :: "study_db \<Rightarrow> int \<Rightarrow>
    rejection + (int \<times> study_population_phase \<times> study_actor_obligation_state \<times> int \<times> int)" where
  "obligation_read db ob =
     (case select_pk (obligations db) ob of
        None \<Rightarrow> Inl SubjectNotFound
      | Some r \<Rightarrow>
          (case study_identifier_new (ob_episode r) of
             None \<Rightarrow> Inl SubjectNotFound
           | Some e \<Rightarrow> Inr (e, ob_phase r, ob_state r, ob_read_budget r, ob_reads_used r)))"

text \<open>Obligations of an episode, of one phase or of both, that are not completed or failed.\<close>

definition live_obligations :: "study_db \<Rightarrow> int \<Rightarrow> int" where
  "live_obligations db e =
     count_where (\<lambda>_ r. ob_episode r = e \<and> ob_state r = ObligationActive) (obligations db)"

definition live_source_obligations :: "study_db \<Rightarrow> int \<Rightarrow> int" where
  "live_source_obligations db e =
     count_where (\<lambda>_ r. ob_episode r = e \<and> ob_phase r = Source \<and> ob_state r = ObligationActive)
       (obligations db)"

text \<open>\<open>thread JOIN forum\<close>: the forum row of a thread.\<close>

definition forum_of_thread :: "study_db \<Rightarrow> int \<Rightarrow> (thread_row \<times> int \<times> forum_row) option" where
  "forum_of_thread db t =
     (case select_pk (threads db) t of
        None \<Rightarrow> None
      | Some tr \<Rightarrow>
          (case select_pk (forums db) (th_forum tr) of
             None \<Rightarrow> None
           | Some fr \<Rightarrow> Some (tr, th_forum tr, fr)))"

text \<open>The first thread of a forum, and the exposure of an obligation.\<close>

definition thread_of_forum :: "study_db \<Rightarrow> int \<Rightarrow> (int \<times> thread_row) option" where
  "thread_of_forum db f = select_where (\<lambda>_ t. th_forum t = f) (threads db)"

definition exposure_of :: "study_db \<Rightarrow> int \<Rightarrow> (int \<times> exposure_row) option" where
  "exposure_of db ob = select_where (\<lambda>_ x. ex_obligation x = ob) (exposures db)"

definition treatment_of :: "study_db \<Rightarrow> int \<Rightarrow> (int \<times> treatment_row) option" where
  "treatment_of db e = select_where (\<lambda>_ a. ta_episode a = e) (treatments db)"

definition occurrence_of :: "study_db \<Rightarrow> int \<Rightarrow> (int \<times> occurrence_row) option" where
  "occurrence_of db ob = select_where (\<lambda>_ r. oc_obligation r = ob) (occurrences db)"

section \<open>Laws\<close>

lemma episode_state_Inr:
  "episode_state db e = Inr (p, s) \<longleftrightarrow>
     (\<exists>r. select_pk (episodes db) e = Some r \<and> 0 < ep_protocol r \<and> p = ep_protocol r \<and> s = ep_state r)"
  by (auto simp: episode_state_def study_identifier_new_def split: option.splits)

lemma episode_state_Inl:
  "episode_state db e = Inl x \<Longrightarrow> x = SubjectNotFound"
  by (auto simp: episode_state_def split: option.splits)

lemma obligation_read_Inr:
  "obligation_read db ob = Inr (e, p, s, b, u) \<longleftrightarrow>
     (\<exists>r. select_pk (obligations db) ob = Some r \<and> 0 < ob_episode r \<and> e = ob_episode r
        \<and> p = ob_phase r \<and> s = ob_state r \<and> b = ob_read_budget r \<and> u = ob_reads_used r)"
  by (auto simp: obligation_read_def study_identifier_new_def split: option.splits)

lemma forum_of_thread_Some:
  "forum_of_thread db t = Some (tr, f, fr) \<longleftrightarrow>
     select_pk (threads db) t = Some tr \<and> f = th_forum tr \<and> select_pk (forums db) f = Some fr"
  by (auto simp: forum_of_thread_def split: option.splits)

lemma rollback_fields [simp]:
  "protocols (rollback a b) = rollback_table (protocols a) (protocols b)"
  "worlds (rollback a b) = rollback_table (worlds a) (worlds b)"
  "measurements (rollback a b) = rollback_table (measurements a) (measurements b)"
  "institutions (rollback a b) = rollback_table (institutions a) (institutions b)"
  "populations (rollback a b) = rollback_table (populations a) (populations b)"
  "episodes (rollback a b) = rollback_table (episodes a) (episodes b)"
  "successors (rollback a b) = rollback_table (successors a) (successors b)"
  "treatments (rollback a b) = rollback_table (treatments a) (treatments b)"
  "pairs (rollback a b) = rollback_table (pairs a) (pairs b)"
  "runs (rollback a b) = rollback_table (runs a) (runs b)"
  "run_pairs (rollback a b) = rollback_table (run_pairs a) (run_pairs b)"
  "forums (rollback a b) = rollback_table (forums a) (forums b)"
  "threads (rollback a b) = rollback_table (threads a) (threads b)"
  "obligations (rollback a b) = rollback_table (obligations a) (obligations b)"
  "occurrences (rollback a b) = rollback_table (occurrences a) (occurrences b)"
  "bindings (rollback a b) = rollback_table (bindings a) (bindings b)"
  "settlements (rollback a b) = rollback_table (settlements a) (settlements b)"
  "frozen (rollback a b) = rollback_table (frozen a) (frozen b)"
  "exposures (rollback a b) = rollback_table (exposures a) (exposures b)"
  "messages (rollback a b) = rollback_table (messages a) (messages b)"
  "receipts (rollback a b) = rollback_table (receipts a) (receipts b)"
  "decisions (rollback a b) = rollback_table (decisions a) (decisions b)"
  "reveals (rollback a b) = rollback_table (reveals a) (reveals b)"
  "results (rollback a b) = rollback_table (results a) (results b)"
  "forks (rollback a b) = rollback_table (forks a) (forks b)"
  "env (rollback a b) = env a"
  by (simp_all add: rollback_def)

end
