(* ===== verification/Study_Obligation.thy ===== *)
theory Study_Obligation
  imports Study_Admission
begin

text \<open>
  Actor obligations of \<^verbatim>\<open>study.rs\<close>: admission of an obligation and its actor occurrence,
  completion and failure, the binding of an obligation to a native child (under an office session or
  an actor task attempt), its reconciliation, and the settlement of a task attempt whose supervisor
  lost it.
\<close>

section \<open>Admission\<close>

definition obligation_phase_allowed :: "study_population_phase \<Rightarrow> study_episode_state \<Rightarrow> bool" where
  "obligation_phase_allowed phase state =
     (case phase of
        Source \<Rightarrow> state \<in> {Admitted, SourceActive}
      | Successor \<Rightarrow> state \<in> {SourceReconciled, SuccessorAdmitted})"

definition obligation_population :: "study_db \<Rightarrow> study_population_phase \<Rightarrow> int \<Rightarrow> int option" where
  "obligation_population db phase e =
     (case phase of
        Source \<Rightarrow> map_option ep_population (select_pk (episodes db) e)
      | Successor \<Rightarrow> map_option su_population (select_pk (successors db) e))"

definition phase_state :: "study_population_phase \<Rightarrow> study_episode_state" where
  "phase_state phase = (case phase of Source \<Rightarrow> SourceActive | Successor \<Rightarrow> SuccessorAdmitted)"

definition new_obligation_row ::
  "int \<Rightarrow> int \<Rightarrow> int \<Rightarrow> study_population_phase \<Rightarrow> int \<Rightarrow> digest \<Rightarrow> digest \<Rightarrow> digest \<Rightarrow> int \<Rightarrow> int \<Rightarrow> int
   \<Rightarrow> obligation_row" where
  "new_obligation_row c e population phase role private_view prompt tool budget read_budget post_budget =
     \<lparr>ob_episode = e, ob_population = population, ob_phase = phase, ob_role = role,
      ob_view = private_view, ob_prompt = prompt, ob_tool = tool, ob_budget = budget, ob_charged = 0,
      ob_read_budget = read_budget, ob_reads_used = 0, ob_post_budget = post_budget,
      ob_posts_used = 0, ob_state = ObligationActive, ob_by = c, ob_completed_by = None,
      ob_failed_by = None, ob_failure_reason = None\<rparr>"

definition admit_actor_obligation ::
  "int \<Rightarrow> int \<Rightarrow> study_population_phase \<Rightarrow> int \<Rightarrow> digest \<Rightarrow> digest \<Rightarrow> digest \<Rightarrow> int \<Rightarrow> int \<Rightarrow> int
   \<Rightarrow> study_db \<Rightarrow> study_event tx_result" where
  "admit_actor_obligation c e phase role private_view prompt tool budget read_budget post_budget db =
     (case episode_state db e of
        Inl x \<Rightarrow> (Inl x, db)
      | Inr (protocol, state) \<Rightarrow>
          if \<not> exists_where (\<lambda>_ r. ta_episode r = e) (treatments db)
          then (Inl InvalidLifecycleTransition, db)
          else if \<not> obligation_phase_allowed phase state then (Inl InvalidLifecycleTransition, db)
          else if phase = Source \<and> row_exists (frozen db) e
          then (Inl InvalidLifecycleTransition, db)
          else
            (case Option.bind (obligation_population db phase e) study_identifier_new of
               None \<Rightarrow> (Inl InvalidLifecycleTransition, db)
             | Some population \<Rightarrow>
                 (case select_pk (protocols db) protocol of
                    None \<Rightarrow> (Inl SubjectNotFound, db)
                  | Some pr \<Rightarrow>
                      if pr_forum_prompt pr \<noteq> prompt \<or> pr_forum_tool pr \<noteq> tool
                      then (Inl InvalidLifecycleTransition, db)
                      else
                        let (i, t) = insert_identity
                              (1 \<le> role \<and> role \<le> 64 \<and> 0 \<le> budget \<and> 0 < read_budget \<and> 0 < post_budget
                               \<and> \<not> exists_where (\<lambda>_ r. ob_episode r = e \<and> ob_phase r = phase
                                                  \<and> ob_role r = role) (obligations db))
                              (new_obligation_row c e population phase role private_view prompt tool
                                 budget read_budget post_budget) (obligations db);
                            db1 = db\<lparr>obligations := t\<rparr>
                        in case i of
                             None \<Rightarrow> (Inl InvalidLifecycleTransition, db1)
                           | Some ob \<Rightarrow>
                               let (j, u) = insert_identity
                                     (\<not> exists_where (\<lambda>_ r. oc_obligation r = ob) (occurrences db))
                                     \<lparr>oc_obligation = ob, oc_by = c\<rparr> (occurrences db);
                                   db2 = db1\<lparr>occurrences := u\<rparr>
                               in case j of
                                    None \<Rightarrow> (Inl InvalidLifecycleTransition, db2)
                                  | Some oc \<Rightarrow>
                                      (Inr (ActorObligationAdmitted ob oc e population phase),
                                       set_episode_state c e
                                         (phase_state phase) db2))))"

section \<open>Completion and failure\<close>

definition complete_actor_obligation :: "int \<Rightarrow> int \<Rightarrow> int \<Rightarrow> study_db \<Rightarrow> study_event tx_result" where
  "complete_actor_obligation c ob charged_budget db =
     (case select_pk (obligations db) ob of
        None \<Rightarrow> (Inl SubjectNotFound, db)
      | Some r \<Rightarrow>
          if ob_state r \<noteq> ObligationActive \<or> charged_budget > ob_budget r \<or> ob_charged r \<noteq> 0
          then (Inl BudgetPolicyViolation, db)
          else if (case select_pk (bindings db) ob of
                     None \<Rightarrow> False
                   | Some b \<Rightarrow> rb_state b \<noteq> Reconciled)
          then (Inl InvalidLifecycleTransition, db)
          else (Inr (ActorObligationCompleted ob),
                db\<lparr>obligations := update_pk ob
                      (\<lambda>q. q\<lparr>ob_state := ObligationCompleted, ob_charged := charged_budget,
                              ob_completed_by := Some c\<rparr>) (obligations db)\<rparr>))"

definition fail_actor_obligation :: "int \<Rightarrow> int \<Rightarrow> digest \<Rightarrow> study_db \<Rightarrow> study_event tx_result" where
  "fail_actor_obligation c ob reason db =
     (if map_option ob_state (select_pk (obligations db) ob) \<noteq> Some ObligationActive
      then (Inl CapabilityNoLongerActive, db)
      else if (case select_pk (bindings db) ob of
                 None \<Rightarrow> False
               | Some b \<Rightarrow> rb_state b \<noteq> Reconciled \<and> rb_state b \<noteq> RecoverySettled)
      then (Inl InvalidLifecycleTransition, db)
      else (Inr (ActorObligationFailed ob reason),
            db\<lparr>obligations := update_pk ob
                  (\<lambda>q. q\<lparr>ob_state := ObligationFailed, ob_failed_by := Some c,
                          ob_failure_reason := Some reason\<rparr>) (obligations db)\<rparr>))"

section \<open>Runtime bindings\<close>

text \<open>
  Both binding transitions insert a row under the obligation's key whose child and spawn admission
  are unique among all bindings, then read the execution profile back as a positive identifier.
\<close>

definition insert_binding ::
  "int \<Rightarrow> binding_row \<Rightarrow> (int \<Rightarrow> study_event) \<Rightarrow> study_db \<Rightarrow> study_event tx_result" where
  "insert_binding ob b event db =
     (case insert_key
             (\<not> exists_where (\<lambda>_ q. rb_child q = rb_child b) (bindings db)
              \<and> \<not> exists_where (\<lambda>_ q. rb_admission q = rb_admission b) (bindings db))
             ob b (bindings db) of
        None \<Rightarrow> (Inl InvalidLifecycleTransition, db)
      | Some t \<Rightarrow>
          (case study_identifier_new (rb_profile b) of
             None \<Rightarrow> (Inl InvalidLifecycleTransition, db\<lparr>bindings := t\<rparr>)
           | Some profile \<Rightarrow> (Inr (event profile), db\<lparr>bindings := t\<rparr>)))"

definition bind_actor_runtime :: "int \<Rightarrow> int \<Rightarrow> int \<Rightarrow> int \<Rightarrow> int \<Rightarrow> study_db \<Rightarrow> study_event tx_result" where
  "bind_actor_runtime c ob office child admission db =
     (case select_pk (obligations db) ob of
        None \<Rightarrow> (Inl SubjectNotFound, db)
      | Some r \<Rightarrow>
          if ob_state r \<noteq> ObligationActive \<or> row_exists (bindings db) ob
          then (Inl InvalidLifecycleTransition, db)
          else
            (case select_pk (env_children (env db)) child of
               None \<Rightarrow> (Inl SubjectNotFound, db)
             | Some ch \<Rightarrow>
                 if ch_admission ch \<noteq> admission \<or> ch_state ch = ChildFinalized
                 then (Inl InvalidLifecycleTransition, db)
                 else
                   (case select_pk (env_admissions (env db)) admission of
                      None \<Rightarrow> (Inl SubjectNotFound, db)
                    | Some ad \<Rightarrow>
                        if ad_office ad \<noteq> Some office then (Inl InvalidLifecycleTransition, db)
                        else
                          (case ad_profile ad of
                             None \<Rightarrow> (Inl InvalidLifecycleTransition, db)
                           | Some profile \<Rightarrow>
                               insert_binding ob
                                 \<lparr>rb_attempt = None, rb_office = Some office, rb_child = child,
                                  rb_admission = admission, rb_profile = profile, rb_state = Bound,
                                  rb_by = c, rb_reconciled_by = None, rb_settled_by = None\<rparr>
                                 (ActorRuntimeBound ob office child admission) db))))"

definition bind_actor_task_attempt_runtime ::
  "int \<Rightarrow> int \<Rightarrow> int \<Rightarrow> int \<Rightarrow> int \<Rightarrow> study_db \<Rightarrow> study_event tx_result" where
  "bind_actor_task_attempt_runtime c ob attempt child admission db =
     (if map_option ob_state (select_pk (obligations db) ob) \<noteq> Some ObligationActive
         \<or> row_exists (bindings db) ob
      then (Inl InvalidLifecycleTransition, db)
      else
        (case select_pk (env_children (env db)) child of
           None \<Rightarrow> (Inl SubjectNotFound, db)
         | Some ch \<Rightarrow>
             if ch_admission ch \<noteq> admission \<or> ch_state ch = ChildFinalized
             then (Inl InvalidLifecycleTransition, db)
             else
               (case select_pk (env_admissions (env db)) admission of
                  None \<Rightarrow> (Inl SubjectNotFound, db)
                | Some ad \<Rightarrow>
                    if ad_attempt ad \<noteq> Some attempt \<or> ad_office ad \<noteq> None
                    then (Inl InvalidLifecycleTransition, db)
                    else
                      (case ad_profile ad of
                         None \<Rightarrow> (Inl InvalidLifecycleTransition, db)
                       | Some profile \<Rightarrow>
                           (case select_pk (env_attempts (env db)) attempt of
                              None \<Rightarrow> (Inl SubjectNotFound, db)
                            | Some at \<Rightarrow>
                                if at_state at \<noteq> AttemptRunning \<or> at_profile at \<noteq> profile
                                then (Inl InvalidLifecycleTransition, db)
                                else
                                  insert_binding ob
                                    \<lparr>rb_attempt = Some attempt, rb_office = None, rb_child = child,
                                     rb_admission = admission, rb_profile = profile,
                                     rb_state = Bound, rb_by = c, rb_reconciled_by = None,
                                     rb_settled_by = None\<rparr>
                                    (ActorTaskAttemptRuntimeBound ob attempt child admission) db)))))"

definition reconcile_actor_runtime :: "int \<Rightarrow> int \<Rightarrow> int \<Rightarrow> study_db \<Rightarrow> study_event tx_result" where
  "reconcile_actor_runtime c ob child db =
     (case select_pk (bindings db) ob of
        None \<Rightarrow> (Inl SubjectNotFound, db)
      | Some b \<Rightarrow>
          if rb_child b \<noteq> child \<or> rb_state b \<noteq> Bound
             \<or> map_option ch_state (select_pk (env_children (env db)) child) \<noteq> Some ChildFinalized
          then (Inl ChildLifecycleReceiptMissing, db)
          else (Inr (ActorRuntimeReconciled ob child),
                db\<lparr>bindings := update_pk ob
                      (\<lambda>q. q\<lparr>rb_state := Reconciled, rb_reconciled_by := Some c\<rparr>) (bindings db)\<rparr>))"

section \<open>Recovery settlement\<close>

text \<open>The recovery receipt joined with the child it names.\<close>

definition child_recovery :: "study_db \<Rightarrow> int \<Rightarrow> int \<Rightarrow>
    (child_recovery_observation \<times> process_group_liveness \<times> child_process_state) option" where
  "child_recovery db receipt child =
     (case select_pk (env_recoveries (env db)) receipt of
        None \<Rightarrow> None
      | Some rv \<Rightarrow>
          if rv_child rv \<noteq> child then None
          else
            (case select_pk (env_children (env db)) (rv_child rv) of
               None \<Rightarrow> None
             | Some ch \<Rightarrow> Some (rv_observation rv, rv_liveness rv, ch_state ch)))"

definition settle_actor_task_attempt_after_recovery ::
  "int \<Rightarrow> int \<Rightarrow> int \<Rightarrow> int \<Rightarrow> int \<Rightarrow> study_db \<Rightarrow> study_event tx_result" where
  "settle_actor_task_attempt_after_recovery c ob attempt child receipt db =
     (if map_option ob_state (select_pk (obligations db) ob) \<noteq> Some ObligationActive
      then (Inl InvalidLifecycleTransition, db)
      else
        (case select_pk (bindings db) ob of
           None \<Rightarrow> (Inl SubjectNotFound, db)
         | Some b \<Rightarrow>
             if rb_attempt b \<noteq> Some attempt \<or> rb_child b \<noteq> child \<or> rb_state b \<noteq> Bound
             then (Inl InvalidLifecycleTransition, db)
             else if child_recovery db receipt child
                     \<noteq> Some (ParentageLost, GroupAbsent, ChildLostParentage)
             then (Inl ChildLifecycleReceiptMissing, db)
             else if map_option at_state (select_pk (env_attempts (env db)) attempt)
                     \<notin> {Some AttemptRunning, Some AttemptCancellationRequested}
             then (Inl InvalidLifecycleTransition, db)
             else if attempt \<in> set (env_pi_terminal (env db))
                     \<or> exists_where (\<lambda>_ s. rs_attempt s = attempt) (settlements db)
             then (Inl InvalidLifecycleTransition, db)
             else if exists_where (\<lambda>o' s. o' = ob \<or> rs_attempt s = attempt \<or> rs_child s = child
                                        \<or> rs_receipt s = receipt) (settlements db)
                     \<or> row_exists (env_terminal (env db)) attempt
             then (Inl InvalidLifecycleTransition, db)
             else
               (case insert_key True ob
                       \<lparr>rs_attempt = attempt, rs_child = child, rs_receipt = receipt,
                        rs_accounting = UnknownAccounting, rs_by = c\<rparr> (settlements db) of
                  None \<Rightarrow> (Inl InvalidLifecycleTransition, db)
                | Some t \<Rightarrow>
                    let db1 = db\<lparr>settlements := t,
                                 bindings := update_pk ob
                                   (\<lambda>q. q\<lparr>rb_state := RecoverySettled, rb_settled_by := Some c\<rparr>)
                                   (bindings db)\<rparr>;
                        ev = env db;
                        attempts' = update_pk attempt
                          (\<lambda>a. a\<lparr>at_state := AttemptSupervisorFailed, at_terminal_by := Some c\<rparr>)
                          (env_attempts ev)
                    in case insert_key True attempt (TerminalSupervisorFailed, c) (env_terminal ev) of
                         None \<Rightarrow> (Inl InvalidLifecycleTransition,
                                  db1\<lparr>env := ev\<lparr>env_attempts := attempts'\<rparr>\<rparr>)
                       | Some u \<Rightarrow>
                           (Inr (ActorTaskAttemptRecoverySettled ob attempt child receipt
                                   UnknownAccounting),
                            db1\<lparr>env := ev\<lparr>env_attempts := attempts', env_terminal := u\<rparr>\<rparr>))))"

section \<open>What an accepted obligation transition did\<close>

lemma admit_actor_obligation_accepted [accepted]:
  assumes "admit_actor_obligation c e phase role view prompt tool budget reads posts db = (Inr ev, db')"
  shows "\<exists>er ob pop t oc u. select_pk (episodes db) e = Some er
           \<and> exists_where (\<lambda>_ r. ta_episode r = e) (treatments db)
           \<and> obligation_phase_allowed phase (ep_state er)
           \<and> (phase = Source \<longrightarrow> select_pk (frozen db) e = None)
           \<and> obligation_population db phase e = Some pop
           \<and> adds (obligations db) ob
               (new_obligation_row c e pop phase role view prompt tool budget reads posts) t \<and> 0 < ob
           \<and> 1 \<le> role \<and> role \<le> 64 \<and> 0 \<le> budget \<and> 0 < reads \<and> 0 < posts
           \<and> \<not> exists_where (\<lambda>_ r. ob_episode r = e \<and> ob_phase r = phase \<and> ob_role r = role)
               (obligations db)
           \<and> \<not> exists_where (\<lambda>_ r. oc_obligation r = ob) (occurrences db)
           \<and> adds (occurrences db) oc \<lparr>oc_obligation = ob, oc_by = c\<rparr> u \<and> 0 < oc
           \<and> ev = ActorObligationAdmitted ob oc e pop phase
           \<and> db' = set_episode_state c e (phase_state phase) (db\<lparr>obligations := t, occurrences := u\<rparr>)"
  using assms
  by (clarsimp simp: admit_actor_obligation_def Let_def episode_state_Inr row_exists_def
      bind_eq_Some_conv study_identifier_new_def
      split: if_splits option.splits prod.splits sum.splits dest!: insert_identity_adds)
    (intro exI conjI; (rule refl | assumption | simp))+

lemma complete_actor_obligation_accepted [accepted]:
  assumes "complete_actor_obligation c ob charged db = (Inr ev, db')"
  shows "\<exists>r. select_pk (obligations db) ob = Some r \<and> ob_state r = ObligationActive
           \<and> charged \<le> ob_budget r \<and> ob_charged r = 0
           \<and> (\<forall>b. select_pk (bindings db) ob = Some b \<longrightarrow> rb_state b = Reconciled)
           \<and> ev = ActorObligationCompleted ob
           \<and> db' = db\<lparr>obligations := update_pk ob
                (\<lambda>q. q\<lparr>ob_state := ObligationCompleted, ob_charged := charged,
                        ob_completed_by := Some c\<rparr>) (obligations db)\<rparr>"
  using assms by (auto simp: complete_actor_obligation_def split: if_splits option.splits)

lemma fail_actor_obligation_accepted [accepted]:
  assumes "fail_actor_obligation c ob reason db = (Inr ev, db')"
  shows "\<exists>r. select_pk (obligations db) ob = Some r \<and> ob_state r = ObligationActive
           \<and> (\<forall>b. select_pk (bindings db) ob = Some b \<longrightarrow> rb_state b \<noteq> Bound)
           \<and> ev = ActorObligationFailed ob reason
           \<and> db' = db\<lparr>obligations := update_pk ob
                (\<lambda>q. q\<lparr>ob_state := ObligationFailed, ob_failed_by := Some c,
                        ob_failure_reason := Some reason\<rparr>) (obligations db)\<rparr>"
  using assms by (auto simp: fail_actor_obligation_def split: if_splits option.splits)

lemma insert_binding_accepted:
  assumes "insert_binding ob b event db = (Inr ev, db')"
  shows "\<exists>t. adds (bindings db) ob b t \<and> 0 < rb_profile b
           \<and> \<not> exists_where (\<lambda>_ q. rb_child q = rb_child b) (bindings db)
           \<and> \<not> exists_where (\<lambda>_ q. rb_admission q = rb_admission b) (bindings db)
           \<and> ev = event (rb_profile b) \<and> db' = db\<lparr>bindings := t\<rparr>"
  using assms
  by (auto simp: insert_binding_def study_identifier_new_def dest!: insert_key_adds
      split: if_splits option.splits)

lemma bind_actor_runtime_accepted [accepted]:
  assumes "bind_actor_runtime c ob office child admission db = (Inr ev, db')"
  shows "\<exists>r b t ch. select_pk (obligations db) ob = Some r \<and> ob_state r = ObligationActive
           \<and> select_pk (env_children (env db)) child = Some ch \<and> ch_state ch \<noteq> ChildFinalized
           \<and> ch_admission ch = admission
           \<and> adds (bindings db) ob b t \<and> rb_attempt b = None \<and> rb_office b = Some office
           \<and> rb_child b = child \<and> rb_admission b = admission \<and> rb_state b = Bound
           \<and> rb_reconciled_by b = None \<and> rb_settled_by b = None
           \<and> \<not> exists_where (\<lambda>_ q. rb_child q = child) (bindings db)
           \<and> \<not> exists_where (\<lambda>_ q. rb_admission q = admission) (bindings db)
           \<and> ev = ActorRuntimeBound ob office child admission (rb_profile b)
           \<and> db' = db\<lparr>bindings := t\<rparr>"
  using assms
  by (auto simp: bind_actor_runtime_def dest!: insert_binding_accepted
      split: if_splits option.splits)
    (intro exI conjI, assumption, simp_all)

lemma bind_actor_task_attempt_runtime_accepted [accepted]:
  assumes "bind_actor_task_attempt_runtime c ob attempt child admission db = (Inr ev, db')"
  shows "\<exists>r b t ch at. select_pk (obligations db) ob = Some r \<and> ob_state r = ObligationActive
           \<and> select_pk (env_children (env db)) child = Some ch \<and> ch_state ch \<noteq> ChildFinalized
           \<and> ch_admission ch = admission
           \<and> select_pk (env_attempts (env db)) attempt = Some at \<and> at_state at = AttemptRunning
           \<and> adds (bindings db) ob b t \<and> rb_attempt b = Some attempt \<and> rb_office b = None
           \<and> rb_child b = child \<and> rb_admission b = admission \<and> rb_state b = Bound
           \<and> rb_reconciled_by b = None \<and> rb_settled_by b = None
           \<and> \<not> exists_where (\<lambda>_ q. rb_child q = child) (bindings db)
           \<and> \<not> exists_where (\<lambda>_ q. rb_admission q = admission) (bindings db)
           \<and> ev = ActorTaskAttemptRuntimeBound ob attempt child admission (rb_profile b)
           \<and> db' = db\<lparr>bindings := t\<rparr>"
  using assms
  by (auto simp: bind_actor_task_attempt_runtime_def dest!: insert_binding_accepted
      split: if_splits option.splits)
    (intro exI conjI, assumption, simp_all)

lemma reconcile_actor_runtime_accepted [accepted]:
  assumes "reconcile_actor_runtime c ob child db = (Inr ev, db')"
  shows "\<exists>b ch. select_pk (bindings db) ob = Some b \<and> rb_child b = child \<and> rb_state b = Bound
           \<and> select_pk (env_children (env db)) child = Some ch \<and> ch_state ch = ChildFinalized
           \<and> ev = ActorRuntimeReconciled ob child
           \<and> db' = db\<lparr>bindings := update_pk ob
                (\<lambda>q. q\<lparr>rb_state := Reconciled, rb_reconciled_by := Some c\<rparr>) (bindings db)\<rparr>"
  using assms by (auto simp: reconcile_actor_runtime_def split: if_splits option.splits)

lemma settle_actor_task_attempt_after_recovery_accepted [accepted]:
  assumes "settle_actor_task_attempt_after_recovery c ob attempt child receipt db = (Inr ev, db')"
  shows "\<exists>r b t u. select_pk (obligations db) ob = Some r \<and> ob_state r = ObligationActive
           \<and> select_pk (bindings db) ob = Some b \<and> rb_attempt b = Some attempt
           \<and> rb_child b = child \<and> rb_state b = Bound
           \<and> child_recovery db receipt child = Some (ParentageLost, GroupAbsent, ChildLostParentage)
           \<and> attempt \<notin> set (env_pi_terminal (env db))
           \<and> \<not> exists_where (\<lambda>o' s. o' = ob \<or> rs_attempt s = attempt \<or> rs_child s = child
                                 \<or> rs_receipt s = receipt) (settlements db)
           \<and> adds (settlements db) ob
               \<lparr>rs_attempt = attempt, rs_child = child, rs_receipt = receipt,
                rs_accounting = UnknownAccounting, rs_by = c\<rparr> t
           \<and> adds (env_terminal (env db)) attempt (TerminalSupervisorFailed, c) u
           \<and> ev = ActorTaskAttemptRecoverySettled ob attempt child receipt UnknownAccounting
           \<and> db' = db\<lparr>settlements := t,
                bindings := update_pk ob
                  (\<lambda>q. q\<lparr>rb_state := RecoverySettled, rb_settled_by := Some c\<rparr>) (bindings db),
                env := (env db)\<lparr>env_attempts := update_pk attempt
                    (\<lambda>a. a\<lparr>at_state := AttemptSupervisorFailed, at_terminal_by := Some c\<rparr>)
                    (env_attempts (env db)), env_terminal := u\<rparr>\<rparr>"
proof -
  obtain r b where rb: "select_pk (obligations db) ob = Some r" "ob_state r = ObligationActive"
      "select_pk (bindings db) ob = Some b"
    using assms
    by (fastforce simp: settle_actor_task_attempt_after_recovery_def split: if_splits option.splits)
  show ?thesis
    using assms unfolding settle_actor_task_attempt_after_recovery_def
    by (simp add: rb Let_def row_exists_def split: if_splits option.splits)
      (drule insert_key_adds, drule insert_key_adds,
       intro exI conjI; (elim conjE)?; (assumption | rule sym, assumption | simp))
qed

end
