(* ===== verification/Study_Forum.thy ===== *)
theory Study_Forum
  imports Study_Obligation
begin

text \<open>
  The episode forum of \<^verbatim>\<open>study.rs\<close>: freezing the head before the population is replaced, exposures
  of actors to the thread, publication and retraction of messages, the release of the matched
  correction in both arms of a pair, and the bounded reads with the exact bytes they deliver.
\<close>

section \<open>Freezing and replacement\<close>

definition freeze_forum_head :: "int \<Rightarrow> int \<Rightarrow> int \<Rightarrow> study_db \<Rightarrow> study_event tx_result" where
  "freeze_forum_head c e thread db =
     (case episode_state db e of
        Inl x \<Rightarrow> (Inl x, db)
      | Inr (_, state) \<Rightarrow>
          if state \<noteq> SourceActive then (Inl InvalidLifecycleTransition, db)
          else if live_source_obligations db e \<noteq> 0 then (Inl InvalidLifecycleTransition, db)
          else
            (case forum_of_thread db thread of
               None \<Rightarrow> (Inl SubjectNotFound, db)
             | Some (tr, _, fr) \<Rightarrow>
                 if fo_episode fr \<noteq> e then (Inl SubjectNotFound, db)
                 else
                   (case insert_key (0 \<le> th_head tr) e
                           \<lparr>fz_thread = thread, fz_head = th_head tr, fz_by = c\<rparr> (frozen db) of
                      None \<Rightarrow> (Inl InvalidLifecycleTransition, db)
                    | Some t \<Rightarrow> (Inr (ForumHeadFrozen e thread (th_head tr)), db\<lparr>frozen := t\<rparr>))))"

text \<open>The episode joined with its source population.\<close>

definition source_population :: "study_db \<Rightarrow> int \<Rightarrow> (int \<times> population_row) option" where
  "source_population db e =
     (case select_pk (episodes db) e of
        None \<Rightarrow> None
      | Some er \<Rightarrow>
          (case select_pk (populations db) (ep_population er) of
             None \<Rightarrow> None
           | Some pop \<Rightarrow> Some (ep_population er, pop)))"

definition replace_population :: "int \<Rightarrow> int \<Rightarrow> int \<Rightarrow> study_db \<Rightarrow> study_event tx_result" where
  "replace_population c e successor db =
     (case episode_state db e of
        Inl x \<Rightarrow> (Inl x, db)
      | Inr (_, state) \<Rightarrow>
          if state \<noteq> SourceActive \<or> \<not> row_exists (frozen db) e
          then (Inl InvalidLifecycleTransition, db)
          else if live_source_obligations db e \<noteq> 0 then (Inl InvalidLifecycleTransition, db)
          else
            (case source_population db e of
               None \<Rightarrow> (Inl SubjectNotFound, db)
             | Some (source_id, source) \<Rightarrow>
                 (case select_pk (populations db) successor of
                    None \<Rightarrow> (Inl SubjectNotFound, db)
                  | Some succ \<Rightarrow>
                      if successor = source_id \<or> ps_protocol succ \<noteq> ps_protocol source
                         \<or> ps_digest succ \<noteq> ps_digest source \<or> ps_size succ \<noteq> ps_size source
                      then (Inl InvalidLifecycleTransition, db)
                      else
                        (case insert_key True e \<lparr>su_population = successor, su_by = c\<rparr>
                                (successors db) of
                           None \<Rightarrow> (Inl InvalidLifecycleTransition, db)
                         | Some t \<Rightarrow>
                             (Inr (PopulationReplaced e successor),
                              set_episode_state c e SourceReconciled (db\<lparr>successors := t\<rparr>))))))"

section \<open>Exposures\<close>

text \<open>
  The first ordinal an exposure must start at: a source actor sees the thread from its first
  message, a successor from the first message (retained arm) or from the message after the frozen
  head (reset arm).
\<close>

definition expected_visible_from ::
  "study_db \<Rightarrow> int \<Rightarrow> study_population_phase \<Rightarrow> rejection + int" where
  "expected_visible_from db e phase =
     (case phase of
        Source \<Rightarrow> Inr 1
      | Successor \<Rightarrow>
          (case (select_pk (frozen db) e, treatment_of db e) of
             (Some fz, Some (_, a)) \<Rightarrow>
               Inr (if ta_treatment a = Retained then 1 else fz_head fz + 1)
           | _ \<Rightarrow> Inl InvalidLifecycleTransition))"

definition admit_forum_exposure :: "int \<Rightarrow> int \<Rightarrow> int \<Rightarrow> int \<Rightarrow> study_db \<Rightarrow> study_event tx_result" where
  "admit_forum_exposure c ob forum visible_from db =
     (case obligation_read db ob of
        Inl x \<Rightarrow> (Inl x, db)
      | Inr (e, phase, lifecycle, _, _) \<Rightarrow>
          if lifecycle \<noteq> ObligationActive \<or> visible_from \<le> 0
          then (Inl InvalidLifecycleTransition, db)
          else
            (case (select_pk (forums db) forum, thread_of_forum db forum) of
               (Some fr, Some (_, tr)) \<Rightarrow>
                 if fo_episode fr \<noteq> e then (Inl SubjectNotFound, db)
                 else
                   (case expected_visible_from db e phase of
                      Inl x \<Rightarrow> (Inl x, db)
                    | Inr expected \<Rightarrow>
                        if visible_from \<noteq> expected then (Inl InvalidLifecycleTransition, db)
                        else
                          let (i, t) = insert_identity
                                (0 < visible_from \<and> 0 \<le> th_head tr
                                 \<and> \<not> exists_where (\<lambda>_ x. ex_obligation x = ob) (exposures db))
                                \<lparr>ex_obligation = ob, ex_forum = forum, ex_from = visible_from,
                                 ex_through = th_head tr, ex_by = c\<rparr> (exposures db);
                              db' = db\<lparr>exposures := t\<rparr>
                          in case i of
                               None \<Rightarrow> (Inl InvalidLifecycleTransition, db')
                             | Some k \<Rightarrow>
                                 (Inr (ForumExposureAdmitted k ob visible_from (th_head tr)), db'))
             | _ \<Rightarrow> (Inl SubjectNotFound, db)))"

section \<open>Publication\<close>

definition thread_for_obligation ::
  "study_db \<Rightarrow> int \<Rightarrow> rejection + (int \<times> study_population_phase \<times> int \<times> int)" where
  "thread_for_obligation db ob =
     (case (select_pk (obligations db) ob, exposure_of db ob) of
        (Some r, Some (_, x)) \<Rightarrow>
          (case thread_of_forum db (ex_forum x) of
             None \<Rightarrow> Inl SubjectNotFound
           | Some (t, _) \<Rightarrow>
               if 0 < ob_episode r \<and> 0 < t \<and> 0 < ex_forum x
               then Inr (ob_episode r, ob_phase r, t, ex_forum x)
               else Inl SubjectNotFound)
      | _ \<Rightarrow> Inl SubjectNotFound)"

definition message_target_is_earlier_same_thread :: "study_db \<Rightarrow> int \<Rightarrow> int \<Rightarrow> int \<Rightarrow> bool" where
  "message_target_is_earlier_same_thread db target thread new_ordinal =
     (case select_pk (messages db) target of
        None \<Rightarrow> False
      | Some m \<Rightarrow> ms_thread m = thread \<and> ms_ordinal m < new_ordinal)"

definition message_is_visible_to_obligation :: "study_db \<Rightarrow> int \<Rightarrow> int \<Rightarrow> bool" where
  "message_is_visible_to_obligation db ob target =
     (case select_pk (messages db) target of
        None \<Rightarrow> False
      | Some m \<Rightarrow>
          (case select_pk (threads db) (ms_thread m) of
             None \<Rightarrow> False
           | Some t \<Rightarrow>
               exists_where (\<lambda>_ x. ex_forum x = th_forum t \<and> ex_obligation x = ob
                  \<and> ex_from x \<le> ms_ordinal m \<and> ms_ordinal m \<le> ex_through x) (exposures db)))"

definition publish_phase_allowed :: "study_population_phase \<Rightarrow> study_episode_state \<Rightarrow> bool" where
  "publish_phase_allowed phase state =
     (case phase of
        Source \<Rightarrow> state = SourceActive
      | Successor \<Rightarrow> state \<in> {CorrectionReleased, SuccessorActive})"

definition advance_exposures :: "int \<Rightarrow> int \<Rightarrow> (int, exposure_row) table \<Rightarrow> (int, exposure_row) table" where
  "advance_exposures ordinal forum t =
     update_where (\<lambda>_ x. ex_forum x = forum \<and> ex_from x \<le> ordinal) (\<lambda>x. x\<lparr>ex_through := ordinal\<rparr>) t"

text \<open>
  The statements after the guards of \<open>publish_actor_message\<close>: insert the message, advance the head,
  charge the post and advance every exposure of the forum that starts at or before it.
\<close>

definition insert_message ::
  "message_row \<Rightarrow> (int, message_row) table \<Rightarrow> int option \<times> (int, message_row) table" where
  "insert_message m t =
     insert_identity
       (0 < ms_ordinal m \<and> (ms_author m \<noteq> None \<longleftrightarrow> \<not> ms_service m)
        \<and> \<not> exists_where (\<lambda>_ q. ms_thread q = ms_thread m \<and> ms_ordinal q = ms_ordinal m) t) m t"

definition publish_actor_message ::
  "(byte list \<Rightarrow> digest) \<Rightarrow> int \<Rightarrow> int \<Rightarrow> forum_message_kind \<Rightarrow> byte list \<Rightarrow> int option \<Rightarrow> int option
   \<Rightarrow> study_db \<Rightarrow> study_event tx_result" where
  "publish_actor_message h c ob kind body reply supersedes db =
     (case obligation_read db ob of
        Inl x \<Rightarrow> (Inl x, db)
      | Inr (e, phase, lifecycle, _, _) \<Rightarrow>
          if lifecycle \<noteq> ObligationActive then (Inl CapabilityNoLongerActive, db)
          else
            (case select_pk (obligations db) ob of
               None \<Rightarrow> (Inl SubjectNotFound, db)
             | Some r \<Rightarrow>
                 if ob_posts_used r \<ge> ob_post_budget r then (Inl BudgetPolicyViolation, db)
                 else
                   (case episode_state db e of
                      Inl x \<Rightarrow> (Inl x, db)
                    | Inr (_, state) \<Rightarrow>
                        if \<not> publish_phase_allowed phase state
                        then (Inl InvalidLifecycleTransition, db)
                        else if phase = Source \<and> row_exists (frozen db) e
                        then (Inl InvalidLifecycleTransition, db)
                        else
                          (case thread_for_obligation db ob of
                             Inl x \<Rightarrow> (Inl x, db)
                           | Inr (_, _, thread, forum) \<Rightarrow>
                               (case select_pk (threads db) thread of
                                  None \<Rightarrow> (Inl SubjectNotFound, db)
                                | Some tr \<Rightarrow>
                                (case checked_add_i64 (th_head tr) 1 of
                                  None \<Rightarrow> (Inl InvalidLifecycleTransition, db)
                                | Some ordinal \<Rightarrow>
                                    if list_ex (\<lambda>target.
                                          \<not> message_target_is_earlier_same_thread db target thread ordinal
                                          \<or> \<not> message_is_visible_to_obligation db ob target)
                                         (List.map_filter id [reply, supersedes])
                                    then (Inl SubjectNotFound, db)
                                    else
                                      (case occurrence_of db ob of
                                         None \<Rightarrow> (Inl SubjectNotFound, db)
                                       | Some (occurrence, _) \<Rightarrow>
                                           let (i, t) = insert_message
                                                 \<lparr>ms_thread = thread, ms_ordinal = ordinal,
                                                  ms_author = Some occurrence, ms_service = False,
                                                  ms_kind = kind, ms_reply = reply,
                                                  ms_supersedes = supersedes, ms_body = body,
                                                  ms_digest = h body, ms_state = Published,
                                                  ms_by = c\<rparr> (messages db);
                                               db1 = db\<lparr>messages := t\<rparr>
                                           in case i of
                                                None \<Rightarrow> (Inl InvalidLifecycleTransition, db1)
                                              | Some message \<Rightarrow>
                                                  let db2 = db1\<lparr>
                                                        threads := update_pk thread
                                                          (\<lambda>q. q\<lparr>th_head := ordinal\<rparr>) (threads db),
                                                        obligations := update_pk ob
                                                          (\<lambda>q. q\<lparr>ob_posts_used := ob_posts_used q + 1\<rparr>)
                                                          (obligations db),
                                                        exposures := advance_exposures ordinal forum
                                                          (exposures db)\<rparr>;
                                                      db3 = (if phase = Successor \<and> state = CorrectionReleased
                                                             then set_episode_state c e SuccessorActive db2
                                                             else db2)
                                                  in case study_identifier_new occurrence of
                                                       None \<Rightarrow> (Inl InvalidLifecycleTransition, db3)
                                                     | Some author \<Rightarrow>
                                                         (Inr (ForumMessagePublished message thread
                                                                 ordinal author kind (h body)), db3))))))))"

section \<open>Retraction\<close>

text \<open>A service message has no author, and reading the NULL author is the error of the query.\<close>

definition retract_actor_message :: "int \<Rightarrow> int \<Rightarrow> study_db \<Rightarrow> study_event tx_result" where
  "retract_actor_message ob message db =
     (case obligation_read db ob of
        Inl x \<Rightarrow> (Inl x, db)
      | Inr (e, phase, lifecycle, _, _) \<Rightarrow>
          if lifecycle \<noteq> ObligationActive then (Inl CapabilityNoLongerActive, db)
          else
            (case occurrence_of db ob of
               None \<Rightarrow> (Inl SubjectNotFound, db)
             | Some (occurrence, _) \<Rightarrow>
                 (case select_pk (messages db) message of
                    None \<Rightarrow> (Inl SubjectNotFound, db)
                  | Some m \<Rightarrow>
                      (case (forum_of_thread db (ms_thread m), ms_author m) of
                         (Some (_, _, fr), Some author) \<Rightarrow>
                           if author \<noteq> occurrence \<or> fo_episode fr \<noteq> e \<or> ms_state m \<noteq> Published
                           then (Inl InvalidLifecycleTransition, db)
                           else
                             (case episode_state db e of
                                Inl x \<Rightarrow> (Inl x, db)
                              | Inr (_, state) \<Rightarrow>
                                  if \<not> publish_phase_allowed phase state
                                  then (Inl CapabilityNoLongerActive, db)
                                  else
                                    (Inr (ForumMessageRetracted message ob),
                                     db\<lparr>messages := update_pk message
                                           (\<lambda>q. q\<lparr>ms_state := Retracted\<rparr>) (messages db)\<rparr>))
                       | _ \<Rightarrow> (Inl SubjectNotFound, db)))))"

section \<open>Matched correction\<close>

text \<open>Active successors of an episode with an exposure, and the size of its successor population.\<close>

definition ready_successors :: "study_db \<Rightarrow> int \<Rightarrow> int" where
  "ready_successors db e =
     sum_list (map (\<lambda>(ob, r).
         if ob_episode r = e \<and> ob_phase r = Successor \<and> ob_state r = ObligationActive
         then count_where (\<lambda>_ x. ex_obligation x = ob) (exposures db) else 0)
       (tb_rows (obligations db)))"

definition expected_successors :: "study_db \<Rightarrow> int \<Rightarrow> int option" where
  "expected_successors db e =
     (case select_pk (successors db) e of
        None \<Rightarrow> None
      | Some s \<Rightarrow> map_option ps_size (select_pk (populations db) (su_population s)))"

definition release_correction_for_episode ::
  "(byte list \<Rightarrow> digest) \<Rightarrow> int \<Rightarrow> int \<Rightarrow> int \<Rightarrow> byte list \<Rightarrow> study_db \<Rightarrow> (int \<times> int) tx_result" where
  "release_correction_for_episode h c e thread correction db =
     (case episode_state db e of
        Inl x \<Rightarrow> (Inl x, db)
      | Inr (_, state) \<Rightarrow>
          if state \<noteq> SuccessorAdmitted then (Inl InvalidLifecycleTransition, db)
          else
            (case forum_of_thread db thread of
               None \<Rightarrow> (Inl SubjectNotFound, db)
             | Some (tr, forum, fr) \<Rightarrow>
                 if fo_episode fr \<noteq> e then (Inl SubjectNotFound, db)
                 else
                   (case expected_successors db e of
                      None \<Rightarrow> (Inl SubjectNotFound, db)
                    | Some expected \<Rightarrow>
                        if ready_successors db e \<noteq> expected
                        then (Inl InvalidLifecycleTransition, db)
                        else
                          (case checked_add_i64 (th_head tr) 1 of
                             None \<Rightarrow> (Inl InvalidLifecycleTransition, db)
                           | Some ordinal \<Rightarrow>
                               let (i, t) = insert_message
                                     \<lparr>ms_thread = thread, ms_ordinal = ordinal, ms_author = None,
                                      ms_service = True, ms_kind = Correction, ms_reply = None,
                                      ms_supersedes = None, ms_body = correction,
                                      ms_digest = h correction, ms_state = Published,
                                      ms_by = c\<rparr> (messages db);
                                   db1 = db\<lparr>messages := t\<rparr>
                               in case i of
                                    None \<Rightarrow> (Inl InvalidLifecycleTransition, db1)
                                  | Some message \<Rightarrow>
                                      (Inr (message, ordinal),
                                       set_episode_state c e CorrectionReleased
                                         (db1\<lparr>threads := update_pk thread
                                                (\<lambda>q. q\<lparr>th_head := ordinal\<rparr>) (threads db),
                                              exposures := advance_exposures ordinal forum
                                                (exposures db)\<rparr>))))))"

definition configured_correction :: "study_db \<Rightarrow> int \<Rightarrow> digest option" where
  "configured_correction db e =
     (case select_pk (episodes db) e of
        None \<Rightarrow> None
      | Some er \<Rightarrow> map_option pr_correction (select_pk (protocols db) (ep_protocol er)))"

definition release_matched_correction ::
  "(byte list \<Rightarrow> digest) \<Rightarrow> int \<Rightarrow> int \<Rightarrow> int \<Rightarrow> int \<Rightarrow> byte list \<Rightarrow> study_db \<Rightarrow> study_event tx_result" where
  "release_matched_correction h c pair retained_thread reset_thread correction db =
     (case select_pk (pairs db) pair of
        None \<Rightarrow> (Inl SubjectNotFound, db)
      | Some pa \<Rightarrow>
          if pa_retained pa \<le> 0 \<or> pa_reset pa \<le> 0 then (Inl SubjectNotFound, db)
          else
            (case configured_correction db (pa_retained pa) of
               None \<Rightarrow> (Inl SubjectNotFound, db)
             | Some configured \<Rightarrow>
                 if configured \<noteq> h correction then (Inl InvalidLifecycleTransition, db)
                 else
                   (case release_correction_for_episode h c (pa_retained pa) retained_thread
                           correction db of
                      (Inl x, db1) \<Rightarrow> (Inl x, db1)
                    | (Inr (retained_message, _), db1) \<Rightarrow>
                        (case release_correction_for_episode h c (pa_reset pa) reset_thread
                                correction db1 of
                           (Inl x, db2) \<Rightarrow> (Inl x, db2)
                         | (Inr (reset_message, _), db2) \<Rightarrow>
                             (Inr (MatchedCorrectionReleased pair retained_message reset_message
                                     (h correction)), db2)))))"

section \<open>Rendering\<close>

fun dec_nat :: "nat \<Rightarrow> byte list" where
  "dec_nat n = (if n < 10 then [of_nat (48 + n)] else dec_nat (n div 10) @ [of_nat (48 + n mod 10)])"

declare dec_nat.simps [simp del]

definition dec_i64 :: "int \<Rightarrow> byte list" where
  "dec_i64 v = (if v < 0 then ascii ''-'' @ dec_nat (nat (- v)) else dec_nat (nat v))"

definition hex_digit :: "nat \<Rightarrow> byte" where
  "hex_digit n = of_nat (if n < 10 then 48 + n else 87 + n)"

definition hex_byte :: "byte \<Rightarrow> byte list" where
  "hex_byte b = [hex_digit (unat b div 16), hex_digit (unat b mod 16)]"

definition dec_or_none :: "int option \<Rightarrow> byte list" where
  "dec_or_none v = (case v of None \<Rightarrow> ascii ''none'' | Some i \<Rightarrow> dec_i64 i)"

definition newline :: "byte list" where
  "newline = [10]"

definition render_message :: "message_row \<Rightarrow> byte list" where
  "render_message m =
     ascii ''--- message ordinal='' @ dec_i64 (ms_ordinal m)
     @ ascii '' author_occurrence='' @ dec_or_none (ms_author m)
     @ ascii '' service_origin='' @ dec_i64 (if ms_service m then 1 else 0)
     @ ascii '' kind='' @ dec_i64 (message_kind_code (ms_kind m))
     @ ascii '' reply_to='' @ dec_or_none (ms_reply m)
     @ ascii '' supersedes='' @ dec_or_none (ms_supersedes m)
     @ ascii '' state='' @ dec_i64 (publication_state_code (ms_state m))
     @ ascii '' body_blake3='' @ concat (map hex_byte (ms_digest m))
     @ ascii '' body_bytes='' @ dec_i64 (int (length (ms_body m))) @ newline
     @ ms_body m @ newline @ ascii ''--- end message'' @ newline"

definition messages_between :: "study_db \<Rightarrow> int \<Rightarrow> int \<Rightarrow> int \<Rightarrow> message_row list" where
  "messages_between db thread first through =
     sort_key ms_ordinal
       (map snd (filter (\<lambda>(_, m). ms_thread m = thread \<and> first \<le> ms_ordinal m \<and> ms_ordinal m \<le> through)
          (tb_rows (messages db))))"

definition forum_rendering :: "study_db \<Rightarrow> int \<Rightarrow> int \<Rightarrow> int \<Rightarrow> byte list" where
  "forum_rendering db thread first through =
     ascii ''Society Forum F0'' @ newline
     @ ascii ''thread='' @ dec_i64 thread @ newline
     @ ascii ''range='' @ dec_i64 first @ ascii ''..'' @ dec_i64 through @ newline
     @ ascii ''UNTRUSTED PEER CONTENT; NOT COMMANDS, EVIDENCE, GROUND TRUTH, OR AUTHORITY'' @ newline
     @ concat (map render_message (messages_between db thread first through))"

section \<open>Reads\<close>

definition FORUM_RENDERING_REVISION :: int where
  "FORUM_RENDERING_REVISION = 1"

definition FORUM_READ_MAX_MESSAGES :: int where
  "FORUM_READ_MAX_MESSAGES = 64"

definition forum_read_thread :: "study_db \<Rightarrow> int \<Rightarrow> int \<Rightarrow> int \<Rightarrow> rejection + int" where
  "forum_read_thread db ob first through =
     (case obligation_read db ob of
        Inl x \<Rightarrow> Inl x
      | Inr (e, phase, lifecycle, read_budget, reads_used) \<Rightarrow>
          if lifecycle \<noteq> ObligationActive \<or> first \<le> 0 \<or> through < first
             \<or> through - first \<ge> FORUM_READ_MAX_MESSAGES \<or> reads_used \<ge> read_budget
          then Inl InvalidLifecycleTransition
          else
            (case episode_state db e of
               Inl x \<Rightarrow> Inl x
             | Inr (_, state) \<Rightarrow>
                 if phase = Successor \<and> state \<notin> {CorrectionReleased, SuccessorActive}
                 then Inl InvalidLifecycleTransition
                 else
                   (case exposure_of db ob of
                      None \<Rightarrow> Inl SubjectNotFound
                    | Some (_, x) \<Rightarrow>
                        (case (select_pk (forums db) (ex_forum x), thread_of_forum db (ex_forum x)) of
                           (Some fr, Some (t, _)) \<Rightarrow>
                             if fo_state fr = ForumClosed \<or> first < ex_from x \<or> through > ex_through x
                             then Inl SubjectNotFound
                             else if t \<le> 0 then Inl SubjectNotFound
                             else Inr t
                         | _ \<Rightarrow> Inl SubjectNotFound))))"

text \<open>\<open>prepare_forum_read\<close>: the bytes a caller seals before it records the read.\<close>

definition prepare_forum_read :: "study_db \<Rightarrow> int \<Rightarrow> int \<Rightarrow> int \<Rightarrow> byte list option" where
  "prepare_forum_read db ob first through =
     (case forum_read_thread db ob first through of
        Inl _ \<Rightarrow> None
      | Inr t \<Rightarrow> Some (forum_rendering db t first through))"

definition read_forum ::
  "(byte list \<Rightarrow> digest) \<Rightarrow> int \<Rightarrow> int \<Rightarrow> int \<Rightarrow> int \<Rightarrow> int \<Rightarrow> study_db \<Rightarrow> study_event tx_result" where
  "read_forum h c ob first through object db =
     (case forum_read_thread db ob first through of
        Inl x \<Rightarrow> (Inl x, db)
      | Inr thread \<Rightarrow>
          let rendering = forum_rendering db thread first through; digest = h rendering in
          if int (length rendering) > i64_max then (Inl InvalidLifecycleTransition, db)
          else if select_pk (env_seals (env db)) object \<noteq> Some digest
          then (Inl ContentObjectNotSealed, db)
          else
            let (i, t) = insert_identity
                  (0 < first \<and> first \<le> through \<and> 0 < int (length rendering))
                  \<lparr>rr_obligation = ob, rr_thread = thread, rr_first = first, rr_through = through,
                   rr_revision = FORUM_RENDERING_REVISION, rr_bytes = int (length rendering),
                   rr_digest = digest, rr_object = object, rr_by = c\<rparr> (receipts db);
                db1 = db\<lparr>receipts := t\<rparr>
            in case i of
                 None \<Rightarrow> (Inl InvalidLifecycleTransition, db1)
               | Some k \<Rightarrow>
                   (Inr (ForumMessagesRead k ob thread first through digest object),
                    db1\<lparr>obligations := update_pk ob
                          (\<lambda>q. q\<lparr>ob_reads_used := ob_reads_used q + 1\<rparr>) (obligations db)\<rparr>))"

section \<open>What an accepted forum transition did\<close>

lemma freeze_forum_head_accepted [accepted]:
  assumes "freeze_forum_head c e thread db = (Inr ev, db')"
  shows "\<exists>er tr fr t. select_pk (episodes db) e = Some er \<and> ep_state er = SourceActive
           \<and> live_source_obligations db e = 0
           \<and> select_pk (threads db) thread = Some tr \<and> select_pk (forums db) (th_forum tr) = Some fr
           \<and> fo_episode fr = e
           \<and> adds (frozen db) e \<lparr>fz_thread = thread, fz_head = th_head tr, fz_by = c\<rparr> t
           \<and> ev = ForumHeadFrozen e thread (th_head tr) \<and> db' = db\<lparr>frozen := t\<rparr>"
  using assms
  by (auto simp: freeze_forum_head_def episode_state_Inr forum_of_thread_Some dest!: insert_key_adds
      split: if_splits option.splits prod.splits sum.splits)

lemma replace_population_accepted [accepted]:
  assumes "replace_population c e successor db = (Inr ev, db')"
  shows "\<exists>er pop succ t. select_pk (episodes db) e = Some er \<and> ep_state er = SourceActive
           \<and> row_exists (frozen db) e \<and> live_source_obligations db e = 0
           \<and> select_pk (populations db) (ep_population er) = Some pop
           \<and> select_pk (populations db) successor = Some succ
           \<and> successor \<noteq> ep_population er \<and> ps_protocol succ = ps_protocol pop
           \<and> ps_digest succ = ps_digest pop \<and> ps_size succ = ps_size pop
           \<and> adds (successors db) e \<lparr>su_population = successor, su_by = c\<rparr> t
           \<and> ev = PopulationReplaced e successor
           \<and> db' = set_episode_state c e SourceReconciled (db\<lparr>successors := t\<rparr>)"
  using assms
  by (auto simp: replace_population_def episode_state_Inr source_population_def dest!: insert_key_adds
      split: if_splits option.splits prod.splits sum.splits)

lemma admit_forum_exposure_accepted [accepted]:
  assumes "admit_forum_exposure c ob forum from db = (Inr ev, db')"
  shows "\<exists>r fr th tr k t. select_pk (obligations db) ob = Some r \<and> ob_state r = ObligationActive
           \<and> 0 < from \<and> select_pk (forums db) forum = Some fr \<and> fo_episode fr = ob_episode r
           \<and> thread_of_forum db forum = Some (th, tr)
           \<and> expected_visible_from db (ob_episode r) (ob_phase r) = Inr from
           \<and> \<not> exists_where (\<lambda>_ x. ex_obligation x = ob) (exposures db)
           \<and> adds (exposures db) k
               \<lparr>ex_obligation = ob, ex_forum = forum, ex_from = from, ex_through = th_head tr,
                ex_by = c\<rparr> t \<and> 0 < k
           \<and> ev = ForumExposureAdmitted k ob from (th_head tr) \<and> db' = db\<lparr>exposures := t\<rparr>"
  using assms
  by (auto simp: admit_forum_exposure_def obligation_read_Inr Let_def dest!: insert_identity_adds
      split: if_splits option.splits prod.splits sum.splits) blast

text \<open>The state after a message is inserted at the head of a thread.\<close>

definition message_posted ::
  "int \<Rightarrow> int \<Rightarrow> message_row \<Rightarrow> study_db \<Rightarrow> study_db \<Rightarrow> bool" where
  "message_posted k forum m db db' \<longleftrightarrow>
     (\<exists>t tr. adds (messages db) k m t \<and> 0 < k
        \<and> select_pk (threads db) (ms_thread m) = Some tr \<and> th_forum tr = forum
        \<and> ms_ordinal m = th_head tr + 1 \<and> 0 < ms_ordinal m
        \<and> \<not> exists_where (\<lambda>_ q. ms_thread q = ms_thread m \<and> ms_ordinal q = ms_ordinal m) (messages db)
        \<and> db' = db\<lparr>messages := t,
             threads := update_pk (ms_thread m) (\<lambda>q. q\<lparr>th_head := ms_ordinal m\<rparr>) (threads db),
             exposures := advance_exposures (ms_ordinal m) forum (exposures db)\<rparr>)"

lemma insert_message_adds:
  "insert_message m t = (Some k, t') \<Longrightarrow>
     adds t k m t' \<and> 0 < k \<and> 0 < ms_ordinal m \<and> (ms_author m \<noteq> None \<longleftrightarrow> \<not> ms_service m)
     \<and> \<not> exists_where (\<lambda>_ q. ms_thread q = ms_thread m \<and> ms_ordinal q = ms_ordinal m) t"
  unfolding insert_message_def by (drule insert_identity_adds) blast

lemma thread_for_obligation_Inr:
  assumes "wf_table (threads db)" "wf_table (exposures db)"
    and "thread_for_obligation db ob = Inr (e, ph, t, f)"
  shows "\<exists>r k x tr. select_pk (obligations db) ob = Some r \<and> e = ob_episode r \<and> ph = ob_phase r
           \<and> select_pk (exposures db) k = Some x \<and> ex_obligation x = ob \<and> ex_forum x = f
           \<and> select_pk (threads db) t = Some tr \<and> th_forum tr = f"
  using assms
  by (auto simp: thread_for_obligation_def exposure_of_def thread_of_forum_def
      split: option.splits if_splits prod.splits dest!: select_where_Some)

definition publish_effect :: "int \<Rightarrow> int \<Rightarrow> study_population_phase \<Rightarrow> study_episode_state \<Rightarrow> int \<Rightarrow> study_db \<Rightarrow> study_db" where
  "publish_effect c e phase state ob db =
     (let db' = db\<lparr>obligations := update_pk ob (\<lambda>q. q\<lparr>ob_posts_used := ob_posts_used q + 1\<rparr>)
                    (obligations db)\<rparr>
      in if phase = Successor \<and> state = CorrectionReleased
         then set_episode_state c e SuccessorActive db' else db')"

lemma publish_actor_message_accepted:
  assumes wf: "wf_table (threads db)" "wf_table (exposures db)" "wf_table (occurrences db)"
    and acc: "publish_actor_message h c ob kind body reply supersedes db = (Inr ev, db')"
  obtains r er th x xr oc ocr k m db1 where
    "select_pk (obligations db) ob = Some r" "ob_state r = ObligationActive"
    "ob_posts_used r < ob_post_budget r"
    "select_pk (episodes db) (ob_episode r) = Some er"
    "publish_phase_allowed (ob_phase r) (ep_state er)"
    "ob_phase r = Source \<Longrightarrow> select_pk (frozen db) (ob_episode r) = None"
    "select_pk (exposures db) x = Some xr" "ex_obligation xr = ob"
    "select_pk (occurrences db) oc = Some ocr" "oc_obligation ocr = ob"
    "ms_thread m = th" "ms_author m = Some oc" "\<not> ms_service m" "ms_reply m = reply"
    "ms_supersedes m = supersedes" "ms_body m = body" "ms_digest m = h body" "ms_state m = Published"
    "ms_kind m = kind"
    "\<And>q. reply = Some q \<or> supersedes = Some q \<Longrightarrow>
       message_target_is_earlier_same_thread db q th (ms_ordinal m)
       \<and> message_is_visible_to_obligation db ob q"
    "message_posted k (ex_forum xr) m db db1"
    "ev = ForumMessagePublished k th (ms_ordinal m) oc kind (h body)"
    "db' = publish_effect c (ob_episode r) (ob_phase r) (ep_state er) ob db1"
proof -
  obtain r where r: "select_pk (obligations db) ob = Some r" "0 < ob_episode r"
      "ob_state r = ObligationActive" "\<not> ob_posts_used r \<ge> ob_post_budget r"
    using acc
    by (auto simp: publish_actor_message_def obligation_read_Inr split: sum.splits prod.splits
        if_splits)
  have rd: "obligation_read db ob
      = Inr (ob_episode r, ob_phase r, ob_state r, ob_read_budget r, ob_reads_used r)"
    using r by (simp add: obligation_read_Inr)
  obtain p s where es: "episode_state db (ob_episode r) = Inr (p, s)"
    using acc r rd by (cases "episode_state db (ob_episode r)") (auto simp: publish_actor_message_def)
  have ph: "publish_phase_allowed (ob_phase r) s"
      "ob_phase r = Source \<longrightarrow> \<not> row_exists (frozen db) (ob_episode r)"
    using acc r rd es by (auto simp: publish_actor_message_def split: if_splits)
  obtain e' ph' th f where tf: "thread_for_obligation db ob = Inr (e', ph', th, f)"
    using acc r rd es ph
    by (cases "thread_for_obligation db ob") (auto simp: publish_actor_message_def split: if_splits)
  obtain x xr tr where x: "select_pk (exposures db) x = Some xr" "ex_obligation xr = ob"
      "ex_forum xr = f" "select_pk (threads db) th = Some tr" "th_forum tr = f"
    using thread_for_obligation_Inr [OF wf(1,2) tf] by blast
  let ?n = "th_head tr + 1"
  have n: "checked_add_i64 (th_head tr) 1 = Some ?n"
    using acc r rd es ph tf x
    by (auto simp: publish_actor_message_def checked_add_i64_def split: if_splits option.splits)
  have targets: "\<forall>q. reply = Some q \<or> supersedes = Some q \<longrightarrow>
        message_target_is_earlier_same_thread db q th ?n \<and> message_is_visible_to_obligation db ob q"
    using acc r rd es ph tf x n
    by (auto simp: publish_actor_message_def List.map_filter_def split: if_splits option.splits)
  obtain oc ocr where oc: "occurrence_of db ob = Some (oc, ocr)"
    using acc r rd es ph tf x n
    by (cases "occurrence_of db ob") (auto simp: publish_actor_message_def split: if_splits)
  let ?m = "\<lparr>ms_thread = th, ms_ordinal = ?n, ms_author = Some oc, ms_service = False,
     ms_kind = kind, ms_reply = reply, ms_supersedes = supersedes, ms_body = body,
     ms_digest = h body, ms_state = Published, ms_by = c\<rparr>"
  obtain k t where ins: "insert_message ?m (messages db) = (Some k, t)"
    using acc r rd es ph tf x n oc
    by (cases "insert_message ?m (messages db)")
      (auto simp: publish_actor_message_def Let_def split: if_splits option.splits)
  have *: "study_identifier_new oc = Some oc" and ev: "ev = ForumMessagePublished k th ?n oc kind (h body)"
    and db': "db' = publish_effect c (ob_episode r) (ob_phase r) s ob
       (db\<lparr>messages := t, threads := update_pk th (\<lambda>q. q\<lparr>th_head := ?n\<rparr>) (threads db),
           exposures := advance_exposures ?n f (exposures db)\<rparr>)"
    using acc r rd es ph tf x n oc ins
    by (auto simp: publish_actor_message_def Let_def publish_effect_def study_identifier_new_def
        set_episode_state_def split: if_splits option.splits)
  have post: "message_posted k (ex_forum xr) ?m db
      (db\<lparr>messages := t, threads := update_pk th (\<lambda>q. q\<lparr>th_head := ?n\<rparr>) (threads db),
          exposures := advance_exposures ?n f (exposures db)\<rparr>)"
    using insert_message_adds [OF ins] x unfolding message_posted_def by auto
  have occ: "select_pk (occurrences db) oc = Some ocr" "oc_obligation ocr = ob"
    using oc select_where_Some [OF wf(3)] unfolding occurrence_of_def by blast+
  obtain er where er: "select_pk (episodes db) (ob_episode r) = Some er" "ep_state er = s"
    using es by (auto simp: episode_state_Inr)
  show thesis
    by (rule that [OF r(1) r(3) _ er(1) _ _ x(1) x(2) occ(1) occ(2) _ _ _ _ _ _ _ _ _ _ post])
      (use r ph targets ev db' er in \<open>auto simp: row_exists_def\<close>)
qed

lemma retract_actor_message_accepted:
  assumes wf: "wf_table (occurrences db)"
    and acc: "retract_actor_message ob message db = (Inr ev, db')"
  obtains r er m oc ocr where
    "select_pk (obligations db) ob = Some r" "ob_state r = ObligationActive"
    "select_pk (episodes db) (ob_episode r) = Some er"
    "publish_phase_allowed (ob_phase r) (ep_state er)"
    "select_pk (occurrences db) oc = Some ocr" "oc_obligation ocr = ob"
    "select_pk (messages db) message = Some m" "ms_author m = Some oc" "ms_state m = Published"
    "ev = ForumMessageRetracted message ob"
    "db' = db\<lparr>messages := update_pk message (\<lambda>q. q\<lparr>ms_state := Retracted\<rparr>) (messages db)\<rparr>"
  using acc
  by (auto simp: retract_actor_message_def obligation_read_Inr episode_state_Inr occurrence_of_def
      split: sum.splits prod.splits if_splits option.splits dest!: select_where_Some [OF wf])

definition correction_row :: "(byte list \<Rightarrow> digest) \<Rightarrow> int \<Rightarrow> int \<Rightarrow> int \<Rightarrow> byte list \<Rightarrow> message_row" where
  "correction_row h c thread ordinal correction =
     \<lparr>ms_thread = thread, ms_ordinal = ordinal, ms_author = None, ms_service = True,
      ms_kind = Correction, ms_reply = None, ms_supersedes = None, ms_body = correction,
      ms_digest = h correction, ms_state = Published, ms_by = c\<rparr>"

lemma release_correction_for_episode_accepted:
  assumes acc: "release_correction_for_episode h c e thread correction db = (Inr (k, n), db')"
  obtains er tr fr db1 where
    "select_pk (episodes db) e = Some er" "ep_state er = SuccessorAdmitted"
    "select_pk (threads db) thread = Some tr" "select_pk (forums db) (th_forum tr) = Some fr"
    "fo_episode fr = e" "expected_successors db e = Some (ready_successors db e)"
    "n = th_head tr + 1"
    "message_posted k (th_forum tr) (correction_row h c thread n correction) db db1"
    "db' = set_episode_state c e CorrectionReleased db1"
proof -
  obtain p where es: "episode_state db e = Inr (p, SuccessorAdmitted)"
    using acc by (auto simp: release_correction_for_episode_def split: sum.splits prod.splits if_splits)
  then obtain er where er: "select_pk (episodes db) e = Some er" "ep_state er = SuccessorAdmitted"
    by (auto simp: episode_state_Inr)
  obtain tr f fr where ft: "forum_of_thread db thread = Some (tr, f, fr)" "fo_episode fr = e"
    using acc es
    by (auto simp: release_correction_for_episode_def split: option.splits prod.splits if_splits)
  have rs: "expected_successors db e = Some (ready_successors db e)"
    using acc es ft by (auto simp: release_correction_for_episode_def split: option.splits if_splits)
  have n: "checked_add_i64 (th_head tr) 1 = Some (th_head tr + 1)"
    using acc es ft rs
    by (auto simp: release_correction_for_episode_def checked_add_i64_def
        split: option.splits prod.splits if_splits)
  let ?m = "correction_row h c thread (th_head tr + 1) correction"
  obtain t where ins: "insert_message ?m (messages db) = (Some k, t)" and n': "n = th_head tr + 1"
    and db': "db' = set_episode_state c e CorrectionReleased
       (db\<lparr>messages := t, threads := update_pk thread (\<lambda>q. q\<lparr>th_head := n\<rparr>) (threads db),
           exposures := advance_exposures n f (exposures db)\<rparr>)"
    using acc es ft rs n
    by (cases "insert_message ?m (messages db)")
      (auto simp: release_correction_for_episode_def Let_def correction_row_def split: option.splits)
  have "message_posted k (th_forum tr) ?m db
      (db\<lparr>messages := t, threads := update_pk thread (\<lambda>q. q\<lparr>th_head := n\<rparr>) (threads db),
          exposures := advance_exposures n f (exposures db)\<rparr>)"
    using insert_message_adds [OF ins] ft n' unfolding message_posted_def
    by (auto simp: forum_of_thread_Some correction_row_def)
  with er ft rs db' n' show thesis
    by (intro that) (auto simp: forum_of_thread_Some)
qed

lemma release_matched_correction_accepted:
  assumes "release_matched_correction h c pair ta tb correction db = (Inr ev, db')"
  obtains pa k n l m db1 where
    "select_pk (pairs db) pair = Some pa"
    "configured_correction db (pa_retained pa) = Some (h correction)"
    "release_correction_for_episode h c (pa_retained pa) ta correction db = (Inr (k, n), db1)"
    "release_correction_for_episode h c (pa_reset pa) tb correction db1 = (Inr (l, m), db')"
    "ev = MatchedCorrectionReleased pair k l (h correction)"
  using assms
  by (auto simp: release_matched_correction_def
      split: option.splits if_splits prod.splits sum.splits)

lemma forum_read_thread_Inr:
  assumes wf: "wf_table (threads db)" "wf_table (exposures db)"
    and acc: "forum_read_thread db ob first through = Inr t"
  obtains r er x xr fr tr where
    "select_pk (obligations db) ob = Some r" "ob_state r = ObligationActive"
    "ob_reads_used r < ob_read_budget r"
    "0 < first" "first \<le> through" "through - first < 64"
    "select_pk (episodes db) (ob_episode r) = Some er"
    "ob_phase r = Successor \<Longrightarrow> ep_state er \<in> {CorrectionReleased, SuccessorActive}"
    "select_pk (exposures db) x = Some xr" "ex_obligation xr = ob"
    "select_pk (forums db) (ex_forum xr) = Some fr" "fo_state fr \<noteq> ForumClosed"
    "select_pk (threads db) t = Some tr" "th_forum tr = ex_forum xr"
    "ex_from xr \<le> first" "through \<le> ex_through xr"
proof -
  obtain e ph s b u where rd: "obligation_read db ob = Inr (e, ph, s, b, u)"
    using acc by (auto simp: forum_read_thread_def split: sum.splits prod.splits)
  then obtain r where r: "select_pk (obligations db) ob = Some r" "e = ob_episode r" "ph = ob_phase r"
      "s = ob_state r" "b = ob_read_budget r" "u = ob_reads_used r"
    by (auto simp: obligation_read_Inr)
  have g: "s = ObligationActive" "0 < first" "first \<le> through" "through - first < 64" "u < b"
    using acc rd by (auto simp: forum_read_thread_def FORUM_READ_MAX_MESSAGES_def split: if_splits)
  obtain p st where es: "episode_state db e = Inr (p, st)"
    using acc rd by (auto simp: forum_read_thread_def split: sum.splits if_splits)
  then obtain er where er: "select_pk (episodes db) e = Some er" "st = ep_state er"
    by (auto simp: episode_state_Inr)
  have ph: "ph = Successor \<Longrightarrow> st \<in> {CorrectionReleased, SuccessorActive}"
    using acc rd es by (auto simp: forum_read_thread_def split: if_splits)
  obtain x xr where x: "exposure_of db ob = Some (x, xr)"
    using acc rd es by (auto simp: forum_read_thread_def split: if_splits option.splits)
  obtain fr tr where fr: "select_pk (forums db) (ex_forum xr) = Some fr"
      "thread_of_forum db (ex_forum xr) = Some (t, tr)" "fo_state fr \<noteq> ForumClosed"
      "ex_from xr \<le> first" "through \<le> ex_through xr"
    using acc rd es x by (auto simp: forum_read_thread_def split: if_splits option.splits)
  have "select_pk (exposures db) x = Some xr \<and> ex_obligation xr = ob"
    using x select_where_Some [OF wf(2)] unfolding exposure_of_def by blast
  moreover have "select_pk (threads db) t = Some tr \<and> th_forum tr = ex_forum xr"
    using fr(2) select_where_Some [OF wf(1)] unfolding thread_of_forum_def by blast
  ultimately show thesis
    using r g er ph fr by (intro that) auto
qed

definition receipt_for ::
  "(byte list \<Rightarrow> digest) \<Rightarrow> int \<Rightarrow> int \<Rightarrow> int \<Rightarrow> int \<Rightarrow> int \<Rightarrow> int \<Rightarrow> study_db \<Rightarrow> receipt_row" where
  "receipt_for h c ob t first through obj db =
     (let rendering = forum_rendering db t first through in
      \<lparr>rr_obligation = ob, rr_thread = t, rr_first = first, rr_through = through,
       rr_revision = FORUM_RENDERING_REVISION, rr_bytes = int (length rendering),
       rr_digest = h rendering, rr_object = obj, rr_by = c\<rparr>)"

lemma read_forum_accepted:
  assumes acc: "read_forum h c ob first through obj db = (Inr ev, db')"
  obtains t k u where
    "forum_read_thread db ob first through = Inr t"
    "select_pk (env_seals (env db)) obj = Some (h (forum_rendering db t first through))"
    "adds (receipts db) k (receipt_for h c ob t first through obj db) u" "0 < k"
    "ev = ForumMessagesRead k ob t first through (h (forum_rendering db t first through)) obj"
    "db' = db\<lparr>receipts := u,
       obligations := update_pk ob (\<lambda>q. q\<lparr>ob_reads_used := ob_reads_used q + 1\<rparr>) (obligations db)\<rparr>"
proof -
  obtain t where t: "forum_read_thread db ob first through = Inr t"
    using acc by (auto simp: read_forum_def split: sum.splits)
  let ?d = "forum_rendering db t first through"
  have g: "\<not> int (length ?d) > i64_max" "select_pk (env_seals (env db)) obj = Some (h ?d)"
    using acc t by (auto simp: read_forum_def Let_def split: if_splits)
  obtain k u where ins: "insert_identity (0 < first \<and> first \<le> through \<and> 0 < int (length ?d))
       (receipt_for h c ob t first through obj db) (receipts db) = (Some k, u)"
     and ev: "ev = ForumMessagesRead k ob t first through (h ?d) obj"
     and db': "db' = db\<lparr>receipts := u,
       obligations := update_pk ob (\<lambda>q. q\<lparr>ob_reads_used := ob_reads_used q + 1\<rparr>) (obligations db)\<rparr>"
    using acc t g
    by (cases "insert_identity (0 < first \<and> first \<le> through \<and> 0 < int (length ?d))
       (receipt_for h c ob t first through obj db) (receipts db)")
      (auto simp: read_forum_def Let_def receipt_for_def split: if_splits option.splits)
  show thesis
    using insert_identity_adds [OF ins] by (intro that [OF t g(2) _ _ ev db']) auto
qed

end
