(* ===== verification/Study_Measurement.thy ===== *)
theory Study_Measurement
  imports Study_Forum
begin

text \<open>
  The end of an episode in \<^verbatim>\<open>study.rs\<close>: decisions with their citations, the ground-truth reveal
  against its commitment, measurement results, closure and the experimental fork of a closed episode.
\<close>

section \<open>Decisions\<close>

text \<open>The count of the author join: 1 when the obligation's own occurrence published the message.\<close>

definition own_published_message :: "study_db \<Rightarrow> int \<Rightarrow> int \<Rightarrow> bool" where
  "own_published_message db ob message =
     (case select_pk (messages db) message of
        None \<Rightarrow> False
      | Some m \<Rightarrow>
          (case Option.bind (ms_author m) (select_pk (occurrences db)) of
             None \<Rightarrow> False
           | Some oc \<Rightarrow> oc_obligation oc = ob \<and> \<not> ms_service m \<and> ms_state m = Published))"

text \<open>The number of read receipts of the obligation that cover the message.\<close>

definition returned_count :: "study_db \<Rightarrow> int \<Rightarrow> int \<Rightarrow> int" where
  "returned_count db ob message =
     (case select_pk (messages db) message of
        None \<Rightarrow> 0
      | Some m \<Rightarrow>
          count_where (\<lambda>_ r. rr_thread r = ms_thread m \<and> rr_obligation r = ob
             \<and> rr_first r \<le> ms_ordinal m \<and> ms_ordinal m \<le> rr_through r) (receipts db))"

definition record_decision ::
  "(byte list \<Rightarrow> digest) \<Rightarrow> int \<Rightarrow> int \<Rightarrow> byte list \<Rightarrow> int option \<Rightarrow> study_db \<Rightarrow> study_event tx_result" where
  "record_decision h c ob decision cited db =
     (case obligation_read db ob of
        Inl x \<Rightarrow> (Inl x, db)
      | Inr (_, _, lifecycle, _, _) \<Rightarrow>
          if lifecycle \<noteq> ObligationActive \<and> lifecycle \<noteq> ObligationCompleted
          then (Inl InvalidLifecycleTransition, db)
          else
            let own = (case cited of None \<Rightarrow> False | Some m \<Rightarrow> own_published_message db ob m) in
            if lifecycle = ObligationCompleted \<and> \<not> own then (Inl InvalidLifecycleTransition, db)
            else if (case cited of None \<Rightarrow> False | Some m \<Rightarrow> returned_count db ob m \<noteq> 1 \<and> \<not> own)
            then (Inl SubjectNotFound, db)
            else
              (case insert_key True ob
                      \<lparr>de_body = decision, de_digest = h decision, de_cited = cited, de_by = c\<rparr>
                      (decisions db) of
                 None \<Rightarrow> (Inl InvalidLifecycleTransition, db)
               | Some t \<Rightarrow> (Inr (DecisionRecorded ob), db\<lparr>decisions := t\<rparr>)))"

section \<open>Ground truth and results\<close>

definition reveal_ground_truth ::
  "(byte list \<Rightarrow> digest) \<Rightarrow> int \<Rightarrow> int \<Rightarrow> byte list \<Rightarrow> study_db \<Rightarrow> study_event tx_result" where
  "reveal_ground_truth h c e reveal db =
     (case episode_state db e of
        Inl x \<Rightarrow> (Inl x, db)
      | Inr (protocol, state) \<Rightarrow>
          if state \<notin> {CorrectionReleased, SuccessorActive} \<or> live_obligations db e \<noteq> 0
          then (Inl InvalidLifecycleTransition, db)
          else
            (case select_pk (protocols db) protocol of
               None \<Rightarrow> (Inl SubjectNotFound, db)
             | Some pr \<Rightarrow>
                 if pr_ground_truth pr \<noteq> h reveal then (Inl InvalidLifecycleTransition, db)
                 else
                   (case insert_key True e \<lparr>gt_body = reveal, gt_digest = h reveal, gt_by = c\<rparr>
                           (reveals db) of
                      None \<Rightarrow> (Inl InvalidLifecycleTransition, db)
                    | Some t \<Rightarrow> (Inr (GroundTruthRevealed e (h reveal)), db\<lparr>reveals := t\<rparr>))))"

text \<open>The episode joined with its measurement revision.\<close>

definition measurement_slot_count :: "study_db \<Rightarrow> int \<Rightarrow> int option" where
  "measurement_slot_count db e =
     (case select_pk (episodes db) e of
        None \<Rightarrow> None
      | Some er \<Rightarrow> map_option mr_slots (select_pk (measurements db) (ep_measurement er)))"

definition record_measurement_result ::
  "int \<Rightarrow> int \<Rightarrow> int \<Rightarrow> study_measurement_status \<Rightarrow> int option \<Rightarrow> digest option \<Rightarrow> digest option
   \<Rightarrow> study_db \<Rightarrow> study_event tx_result" where
  "record_measurement_result c e slot status val val_digest reason db =
     (case episode_state db e of
        Inl x \<Rightarrow> (Inl x, db)
      | Inr (_, state) \<Rightarrow>
          (case measurement_slot_count db e of
             None \<Rightarrow> (Inl SubjectNotFound, db)
           | Some slots \<Rightarrow>
               if state \<notin> {CorrectionReleased, SuccessorActive} \<or> live_obligations db e \<noteq> 0
                  \<or> \<not> row_exists (reveals db) e \<or> slot > slots
                  \<or> \<not> measurement_result_shape_valid status val val_digest reason
               then (Inl InvalidLifecycleTransition, db)
               else
                 let (i, t) = insert_identity
                       (1 \<le> slot \<and> slot \<le> 64
                        \<and> measurement_result_shape_valid status val val_digest reason
                        \<and> \<not> exists_where (\<lambda>_ r. me_episode r = e \<and> me_slot r = slot) (results db))
                       \<lparr>me_episode = e, me_slot = slot, me_status = status, me_value = val,
                        me_value_digest = val_digest, me_reason = reason, me_by = c\<rparr> (results db);
                     db' = db\<lparr>results := t\<rparr>
                 in case i of None \<Rightarrow> (Inl InvalidLifecycleTransition, db')
                            | Some k \<Rightarrow> (Inr (MeasurementResultRecorded k e status), db')))"

section \<open>Closure and fork\<close>

text \<open>
  The charged sum of the episode's obligations against the protocol's ceiling.  The grouped query
  returns no row when the episode has no obligation, and the cast of the \<open>NUMERIC\<close> sum to
  \<open>BIGINT\<close> is an error out of range; both are \<open>SubjectNotFound\<close>.
\<close>

definition charged_and_ceiling :: "study_db \<Rightarrow> int \<Rightarrow> (int \<times> int) option" where
  "charged_and_ceiling db e =
     (let charged = sum_where (\<lambda>_ r. ob_episode r = e) ob_charged (obligations db) in
      if \<not> exists_where (\<lambda>_ r. ob_episode r = e) (obligations db) then None
      else
        (case Option.bind (select_pk (episodes db) e) (\<lambda>er. select_pk (protocols db) (ep_protocol er)) of
           None \<Rightarrow> None
         | Some pr \<Rightarrow> if in_i64 charged then Some (charged, pr_budget pr) else None))"

definition close_episode :: "int \<Rightarrow> int \<Rightarrow> study_db \<Rightarrow> study_event tx_result" where
  "close_episode c e db =
     (case episode_state db e of
        Inl x \<Rightarrow> (Inl x, db)
      | Inr (_, state) \<Rightarrow>
          if state \<notin> {CorrectionReleased, SuccessorActive} then (Inl InvalidLifecycleTransition, db)
          else if live_obligations db e \<noteq> 0 then (Inl InvalidLifecycleTransition, db)
          else
            (case measurement_slot_count db e of
               None \<Rightarrow> (Inl SubjectNotFound, db)
             | Some slots \<Rightarrow>
                 if count_where (\<lambda>_ r. me_episode r = e) (results db) \<noteq> slots
                 then (Inl InvalidLifecycleTransition, db)
                 else
                   (case charged_and_ceiling db e of
                      None \<Rightarrow> (Inl SubjectNotFound, db)
                    | Some (charged, ceiling) \<Rightarrow>
                        if charged > ceiling then (Inl BudgetCeilingExceeded, db)
                        else
                          (Inr (EpisodeClosed e),
                           set_episode_state c e Closed
                             (db\<lparr>forums := update_where (\<lambda>_ f. fo_episode f = e)
                                   (\<lambda>f. f\<lparr>fo_state := ForumClosed, fo_last := c\<rparr>) (forums db)\<rparr>)))))"

text \<open>\<open>i64::to_be_bytes\<close>.\<close>

definition be_i64 :: "int \<Rightarrow> byte list" where
  "be_i64 v = map (\<lambda>i. word_of_int (v div 256 ^ (7 - i))) [0..<8]"

definition fork_material :: "digest \<Rightarrow> study_treatment \<Rightarrow> byte list" where
  "fork_material randomization delta =
     randomization @ ascii ''study-fork-v1'' @ be_i64 (treatment_code delta)"

definition fork_episode ::
  "(byte list \<Rightarrow> digest) \<Rightarrow> int \<Rightarrow> int \<Rightarrow> study_treatment \<Rightarrow> study_db \<Rightarrow> study_event tx_result" where
  "fork_episode h c source delta db =
     (case episode_state db source of
        Inl x \<Rightarrow> (Inl x, db)
      | Inr (_, state) \<Rightarrow>
          if state \<noteq> Closed then (Inl InvalidLifecycleTransition, db)
          else
            (case (select_pk (episodes db) source, treatment_of db source) of
               (Some er, Some (_, a)) \<Rightarrow>
                 if ta_treatment a = delta then (Inl InvalidLifecycleTransition, db)
                 else
                   let (i, t) = insert_identity True
                         (new_episode_row c (ep_protocol er) (ep_world er) (ep_measurement er)
                            (ep_institution er) (ep_population er)
                            (h (fork_material (ep_randomization er) delta))) (episodes db);
                       db1 = db\<lparr>episodes := t\<rparr>
                   in (case i of
                         None \<Rightarrow> (Inl InvalidLifecycleTransition, db1)
                       | Some e \<Rightarrow>
                           let (j, u) = insert_identity
                                 (\<not> exists_where (\<lambda>_ r. ta_episode r = e) (treatments db))
                                 \<lparr>ta_episode = e, ta_treatment = delta, ta_by = c\<rparr> (treatments db);
                               db2 = db1\<lparr>treatments := u\<rparr>
                           in (case j of
                                 None \<Rightarrow> (Inl InvalidLifecycleTransition, db2)
                               | Some _ \<Rightarrow>
                                   let (k, v) = insert_identity
                                         (\<not> exists_where (\<lambda>_ r. fk_forked r = e) (forks db))
                                         \<lparr>fk_source = source, fk_forked = e, fk_treatment = delta,
                                          fk_by = c\<rparr> (forks db);
                                       db3 = db2\<lparr>forks := v\<rparr>
                                   in (case k of
                                         None \<Rightarrow> (Inl InvalidLifecycleTransition, db3)
                                       | Some fork \<Rightarrow>
                                           (Inr (ExperimentalForkCreated fork e source delta), db3))))
             | _ \<Rightarrow> (Inl SubjectNotFound, db)))"

section \<open>What an accepted closing transition did\<close>

lemma record_decision_accepted:
  assumes "record_decision h c ob decision cited db = (Inr ev, db')"
  obtains r t where
    "select_pk (obligations db) ob = Some r" "ob_state r \<noteq> ObligationFailed"
    "ob_state r = ObligationCompleted \<Longrightarrow> \<exists>m. cited = Some m \<and> own_published_message db ob m"
    "\<And>m. cited = Some m \<Longrightarrow> own_published_message db ob m \<or> returned_count db ob m = 1"
    "adds (decisions db) ob
       \<lparr>de_body = decision, de_digest = h decision, de_cited = cited, de_by = c\<rparr> t"
    "ev = DecisionRecorded ob" "db' = db\<lparr>decisions := t\<rparr>"
proof -
  obtain e ph s b u where rd: "obligation_read db ob = Inr (e, ph, s, b, u)"
    using assms by (auto simp: record_decision_def split: sum.splits prod.splits)
  then obtain r where r: "select_pk (obligations db) ob = Some r" "s = ob_state r"
    by (auto simp: obligation_read_Inr)
  have st: "s \<noteq> ObligationFailed"
    using assms rd by (cases s) (auto simp: record_decision_def)
  define own where "own = (case cited of None \<Rightarrow> False | Some m \<Rightarrow> own_published_message db ob m)"
  have g: "\<not> (s = ObligationCompleted \<and> \<not> own)"
      "\<not> (case cited of None \<Rightarrow> False | Some m \<Rightarrow> returned_count db ob m \<noteq> 1 \<and> \<not> own)"
    using assms rd st by (auto simp: record_decision_def Let_def own_def [symmetric] split: if_splits)
  obtain t where ins: "insert_key True ob
      \<lparr>de_body = decision, de_digest = h decision, de_cited = cited, de_by = c\<rparr> (decisions db) = Some t"
    and out: "ev = DecisionRecorded ob" "db' = db\<lparr>decisions := t\<rparr>"
    using assms rd st g
    by (auto simp: record_decision_def Let_def own_def [symmetric] split: if_splits option.splits)
  show thesis
    by (rule that [OF r(1) _ _ _ _ out])
      (use r st g insert_key_adds [OF ins] in \<open>auto simp: own_def split: option.splits\<close>)
qed

lemma reveal_ground_truth_accepted:
  assumes "reveal_ground_truth h c e reveal db = (Inr ev, db')"
  obtains er pr t where
    "select_pk (episodes db) e = Some er" "ep_state er \<in> {CorrectionReleased, SuccessorActive}"
    "live_obligations db e = 0"
    "select_pk (protocols db) (ep_protocol er) = Some pr" "pr_ground_truth pr = h reveal"
    "adds (reveals db) e \<lparr>gt_body = reveal, gt_digest = h reveal, gt_by = c\<rparr> t"
    "ev = GroundTruthRevealed e (h reveal)" "db' = db\<lparr>reveals := t\<rparr>"
  using assms
  by (auto simp: reveal_ground_truth_def episode_state_Inr dest!: insert_key_adds
      split: sum.splits prod.splits if_splits option.splits)

lemma record_measurement_result_accepted:
  assumes "record_measurement_result c e slot status v vd reason db = (Inr ev, db')"
  obtains er mr k t where
    "select_pk (episodes db) e = Some er" "ep_state er \<in> {CorrectionReleased, SuccessorActive}"
    "select_pk (measurements db) (ep_measurement er) = Some mr" "1 \<le> slot" "slot \<le> mr_slots mr"
    "live_obligations db e = 0" "row_exists (reveals db) e"
    "measurement_result_shape_valid status v vd reason"
    "\<not> exists_where (\<lambda>_ r. me_episode r = e \<and> me_slot r = slot) (results db)"
    "adds (results db) k
       \<lparr>me_episode = e, me_slot = slot, me_status = status, me_value = v, me_value_digest = vd,
        me_reason = reason, me_by = c\<rparr> t" "0 < k"
    "ev = MeasurementResultRecorded k e status" "db' = db\<lparr>results := t\<rparr>"
proof -
  obtain p s where es: "episode_state db e = Inr (p, s)"
    using assms by (auto simp: record_measurement_result_def split: sum.splits)
  then obtain er where er: "select_pk (episodes db) e = Some er" "s = ep_state er"
    by (auto simp: episode_state_Inr)
  obtain mr where mr: "select_pk (measurements db) (ep_measurement er) = Some mr"
    using assms es er by (auto simp: record_measurement_result_def measurement_slot_count_def
        split: option.splits)
  then have n: "measurement_slot_count db e = Some (mr_slots mr)"
    using er by (simp add: measurement_slot_count_def)
  have g: "s \<in> {CorrectionReleased, SuccessorActive}" "live_obligations db e = 0"
      "row_exists (reveals db) e" "slot \<le> mr_slots mr" "measurement_result_shape_valid status v vd reason"
    using assms es n by (auto simp: record_measurement_result_def split: if_splits)
  let ?ok = "1 \<le> slot \<and> slot \<le> 64 \<and> measurement_result_shape_valid status v vd reason
      \<and> \<not> exists_where (\<lambda>_ r. me_episode r = e \<and> me_slot r = slot) (results db)"
  let ?r = "\<lparr>me_episode = e, me_slot = slot, me_status = status, me_value = v, me_value_digest = vd,
        me_reason = reason, me_by = c\<rparr>"
  obtain k t where ins: "insert_identity ?ok ?r (results db) = (Some k, t)"
    and out: "ev = MeasurementResultRecorded k e status" "db' = db\<lparr>results := t\<rparr>"
    using assms es n g
    by (cases "insert_identity ?ok ?r (results db)")
      (auto simp: record_measurement_result_def Let_def split: option.splits)
  show thesis
    using insert_identity_adds [OF ins] g er
    by (intro that [OF er(1) _ mr _ _ _ _ _ _ _ _ out]) auto
qed

lemma close_episode_accepted:
  assumes "close_episode c e db = (Inr ev, db')"
  obtains er mr pr where
    "select_pk (episodes db) e = Some er" "ep_state er \<in> {CorrectionReleased, SuccessorActive}"
    "select_pk (measurements db) (ep_measurement er) = Some mr" "live_obligations db e = 0"
    "count_where (\<lambda>_ r. me_episode r = e) (results db) = mr_slots mr"
    "exists_where (\<lambda>_ r. ob_episode r = e) (obligations db)"
    "select_pk (protocols db) (ep_protocol er) = Some pr"
    "sum_where (\<lambda>_ r. ob_episode r = e) ob_charged (obligations db) \<le> pr_budget pr"
    "ev = EpisodeClosed e"
    "db' = set_episode_state c e Closed
       (db\<lparr>forums := update_where (\<lambda>_ f. fo_episode f = e)
             (\<lambda>f. f\<lparr>fo_state := ForumClosed, fo_last := c\<rparr>) (forums db)\<rparr>)"
  using assms
  by (auto simp: close_episode_def episode_state_Inr measurement_slot_count_def charged_and_ceiling_def
      Let_def split: sum.splits prod.splits if_splits option.splits)

lemma fork_episode_accepted:
  assumes wf: "wf_table (treatments db)"
    and acc: "fork_episode h c source delta db = (Inr ev, db')"
  obtains er i a e t j u k v where
    "select_pk (episodes db) source = Some er" "ep_state er = Closed"
    "select_pk (treatments db) i = Some a" "ta_episode a = source" "ta_treatment a \<noteq> delta"
    "adds (episodes db) e
       (new_episode_row c (ep_protocol er) (ep_world er) (ep_measurement er) (ep_institution er)
          (ep_population er) (h (fork_material (ep_randomization er) delta))) t" "0 < e"
    "\<not> exists_where (\<lambda>_ r. ta_episode r = e) (treatments db)"
    "adds (treatments db) j \<lparr>ta_episode = e, ta_treatment = delta, ta_by = c\<rparr> u"
    "adds (forks db) k \<lparr>fk_source = source, fk_forked = e, fk_treatment = delta, fk_by = c\<rparr> v"
    "ev = ExperimentalForkCreated k e source delta"
    "db' = db\<lparr>episodes := t, treatments := u, forks := v\<rparr>"
proof -
  obtain p where es: "episode_state db source = Inr (p, Closed)"
    using acc by (auto simp: fork_episode_def split: sum.splits if_splits)
  then obtain er where er: "select_pk (episodes db) source = Some er" "ep_state er = Closed"
    by (auto simp: episode_state_Inr)
  obtain i a where a: "treatment_of db source = Some (i, a)" "ta_treatment a \<noteq> delta"
    using acc es er by (auto simp: fork_episode_def split: option.splits if_splits)
  then have a': "select_pk (treatments db) i = Some a" "ta_episode a = source"
    using select_where_Some [OF wf] unfolding treatment_of_def by blast+
  let ?r = "new_episode_row c (ep_protocol er) (ep_world er) (ep_measurement er) (ep_institution er)
          (ep_population er) (h (fork_material (ep_randomization er) delta))"
  obtain e t where e: "insert_identity True ?r (episodes db) = (Some e, t)"
    using acc es er a
    by (cases "insert_identity True ?r (episodes db)") (auto simp: fork_episode_def Let_def split: option.splits)
  obtain j u where j: "insert_identity (\<not> exists_where (\<lambda>_ r. ta_episode r = e) (treatments db))
       \<lparr>ta_episode = e, ta_treatment = delta, ta_by = c\<rparr> (treatments db) = (Some j, u)"
    using acc es er a e
    by (cases "insert_identity (\<not> exists_where (\<lambda>_ r. ta_episode r = e) (treatments db))
       \<lparr>ta_episode = e, ta_treatment = delta, ta_by = c\<rparr> (treatments db)")
      (auto simp: fork_episode_def Let_def split: option.splits)
  obtain k v where k: "insert_identity (\<not> exists_where (\<lambda>_ r. fk_forked r = e) (forks db))
       \<lparr>fk_source = source, fk_forked = e, fk_treatment = delta, fk_by = c\<rparr> (forks db) = (Some k, v)"
    and ev: "ev = ExperimentalForkCreated k e source delta"
    and db': "db' = db\<lparr>episodes := t, treatments := u, forks := v\<rparr>"
    using acc es er a e j
    by (cases "insert_identity (\<not> exists_where (\<lambda>_ r. fk_forked r = e) (forks db))
       \<lparr>fk_source = source, fk_forked = e, fk_treatment = delta, fk_by = c\<rparr> (forks db)")
      (auto simp: fork_episode_def Let_def split: option.splits)
  show thesis
    using insert_identity_adds [OF e] insert_identity_adds [OF j] insert_identity_adds [OF k] a(2)
    by (intro that [OF er a' _ _ _ _ _ _ ev db']) auto
qed

end
