(* ===== verification/Study_Encoding.thy ===== *)
theory Study_Encoding
  imports Study_Measurement
begin

text \<open>
  The canonical byte encodings of \<^verbatim>\<open>study.rs\<close> from which the ledger computes request and event
  commitments: \<open>append_command_fingerprint\<close>, \<open>append_event_fingerprint\<close> and the field writers they
  use.  Each writer is a prefix code on the values its Rust type admits, so two different commands,
  or two different events, never have the same encoding, whatever bytes follow.
\<close>

section \<open>Values the Rust types admit\<close>

definition identifier_ok :: "int \<Rightarrow> bool" where
  "identifier_ok v \<longleftrightarrow> in_i64 v \<and> study_identifier_new v = Some v"

definition budget_units_ok :: "int \<Rightarrow> bool" where
  "budget_units_ok v \<longleftrightarrow> in_i64 v \<and> 0 \<le> v"

text \<open>\<open>StudyRoleOrdinal\<close>, \<open>StudyMeasurementSlot\<close> and \<open>StudyMeasurementSlotCount\<close>.\<close>

definition ordinal64_ok :: "int \<Rightarrow> bool" where
  "ordinal64_ok v \<longleftrightarrow> 0 < v \<and> v \<le> 64"

text \<open>\<open>StudyRunPairCount\<close> and \<open>StudyRunPairOrdinal\<close>.\<close>

definition pair_ordinal_ok :: "int \<Rightarrow> bool" where
  "pair_ordinal_ok v \<longleftrightarrow> 0 < v \<and> v \<le> 10000"

text \<open>\<open>ForumReadBudget\<close> and \<open>ForumPostBudget\<close>.\<close>

definition forum_budget_ok :: "int \<Rightarrow> bool" where
  "forum_budget_ok v \<longleftrightarrow> in_i64 v \<and> 0 < v"

definition digest_ok :: "digest \<Rightarrow> bool" where
  "digest_ok d \<longleftrightarrow> length d = 32"

definition optional_ok :: "('a \<Rightarrow> bool) \<Rightarrow> 'a option \<Rightarrow> bool" where
  "optional_ok p v \<longleftrightarrow> (case v of None \<Rightarrow> True | Some x \<Rightarrow> p x)"

text \<open>
  \<open>str::trim\<close> removes Unicode white space: a UTF-8 string is blank after trimming when it is a
  sequence of the encodings of the white-space characters.
\<close>

fun utf8_blank :: "byte list \<Rightarrow> bool" where
  "utf8_blank [] = True"
| "utf8_blank [a] = (a \<in> {9, 10, 11, 12, 13, 32})"
| "utf8_blank [a, b] =
     (if a \<in> {9, 10, 11, 12, 13, 32} then utf8_blank [b]
      else a = 0xC2 \<and> b \<in> {0x85, 0xA0})"
| "utf8_blank (a # b # c # r) =
     (if a \<in> {9, 10, 11, 12, 13, 32} then utf8_blank (b # c # r)
      else if a = 0xC2 \<and> b \<in> {0x85, 0xA0} then utf8_blank (c # r)
      else if (a = 0xE1 \<and> b = 0x9A \<and> c = 0x80)
           \<or> (a = 0xE2 \<and> b = 0x80 \<and> (0x80 \<le> c \<and> c \<le> 0x8A \<or> c \<in> {0xA8, 0xA9, 0xAF}))
           \<or> (a = 0xE2 \<and> b = 0x81 \<and> c = 0x9F) \<or> (a = 0xE3 \<and> b = 0x80 \<and> c = 0x80)
      then utf8_blank r
      else False)"

definition forum_thread_title_ok :: "byte list \<Rightarrow> bool" where
  "forum_thread_title_ok b \<longleftrightarrow> \<not> utf8_blank b \<and> length b \<le> 160 \<and> 0 \<notin> set b"

text \<open>A command, or an event, whose every field was built by the constructor of its type.\<close>

definition study_command_exact :: "study_command \<Rightarrow> bool" where
  "study_command_exact cmd = (case cmd of
     AdmitProtocolRevision a0 a1 a2 a3 a4 a5 a6 a7 a8 a9 \<Rightarrow> identifier_ok a0 \<and> digest_ok a1 \<and> digest_ok a2 \<and> digest_ok a3 \<and> digest_ok a4 \<and> digest_ok a5 \<and> digest_ok a6 \<and> digest_ok a7 \<and> digest_ok a8 \<and> budget_units_ok a9
   | AdmitWorldRevision a0 a1 \<Rightarrow> identifier_ok a0 \<and> digest_ok a1
   | AdmitMeasurementRevision a0 a1 a2 \<Rightarrow> identifier_ok a0 \<and> digest_ok a1 \<and> ordinal64_ok a2
   | AdmitInstitutionRevision a0 a1 \<Rightarrow> identifier_ok a0 \<and> digest_ok a1
   | AdmitPopulationSnapshot a0 a1 a2 \<Rightarrow> identifier_ok a0 \<and> digest_ok a1 \<and> in_i64 a2
   | AdmitEpisode a0 a1 a2 a3 a4 a5 \<Rightarrow> identifier_ok a0 \<and> identifier_ok a1 \<and> identifier_ok a2 \<and> identifier_ok a3 \<and> identifier_ok a4 \<and> digest_ok a5
   | AssignTreatment a0 a1 \<Rightarrow> identifier_ok a0
   | AdmitMatchedPair a0 a1 \<Rightarrow> identifier_ok a0 \<and> identifier_ok a1
   | AdmitStudyRun a0 a1 a2 a3 \<Rightarrow> identifier_ok a0 \<and> identifier_ok a1 \<and> digest_ok a2 \<and> pair_ordinal_ok a3
   | RegisterStudyRunPair a0 a1 a2 a3 \<Rightarrow> identifier_ok a0 \<and> pair_ordinal_ok a1 \<and> identifier_ok a2 \<and> digest_ok a3
   | StartStudyRun a0 \<Rightarrow> identifier_ok a0
   | CompleteStudyRun a0 \<Rightarrow> identifier_ok a0
   | CreateEpisodeForum a0 a1 \<Rightarrow> identifier_ok a0 \<and> digest_ok a1
   | OpenForumThread a0 a1 \<Rightarrow> identifier_ok a0 \<and> forum_thread_title_ok a1
   | AdmitActorObligation a0 a1 a2 a3 a4 a5 a6 a7 a8 \<Rightarrow> identifier_ok a0 \<and> ordinal64_ok a2 \<and> digest_ok a3 \<and> digest_ok a4 \<and> digest_ok a5 \<and> budget_units_ok a6 \<and> forum_budget_ok a7 \<and> forum_budget_ok a8
   | CompleteActorObligation a0 a1 \<Rightarrow> identifier_ok a0 \<and> budget_units_ok a1
   | FailActorObligation a0 a1 \<Rightarrow> identifier_ok a0 \<and> digest_ok a1
   | BindActorRuntime a0 a1 a2 a3 \<Rightarrow> identifier_ok a0 \<and> identifier_ok a1 \<and> identifier_ok a2 \<and> identifier_ok a3
   | BindActorTaskAttemptRuntime a0 a1 a2 a3 \<Rightarrow> identifier_ok a0 \<and> identifier_ok a1 \<and> identifier_ok a2 \<and> identifier_ok a3
   | ReconcileActorRuntime a0 a1 \<Rightarrow> identifier_ok a0 \<and> identifier_ok a1
   | SettleActorTaskAttemptAfterRecovery a0 a1 a2 a3 \<Rightarrow> identifier_ok a0 \<and> identifier_ok a1 \<and> identifier_ok a2 \<and> identifier_ok a3
   | FreezeForumHead a0 a1 \<Rightarrow> identifier_ok a0 \<and> identifier_ok a1
   | ReplacePopulation a0 a1 \<Rightarrow> identifier_ok a0 \<and> identifier_ok a1
   | AdmitForumExposure a0 a1 a2 \<Rightarrow> identifier_ok a0 \<and> identifier_ok a1 \<and> in_i64 a2
   | PublishForumMessage a0 a1 a2 a3 a4 \<Rightarrow> identifier_ok a0 \<and> forum_message_body_ok a2 \<and> optional_ok identifier_ok a3 \<and> optional_ok identifier_ok a4
   | RetractForumMessage a0 a1 \<Rightarrow> identifier_ok a0 \<and> identifier_ok a1
   | ReleaseMatchedCorrection a0 a1 a2 a3 \<Rightarrow> identifier_ok a0 \<and> identifier_ok a1 \<and> identifier_ok a2 \<and> forum_message_body_ok a3
   | ReadForum a0 a1 a2 a3 \<Rightarrow> identifier_ok a0 \<and> in_i64 a1 \<and> in_i64 a2 \<and> identifier_ok a3
   | RecordDecision a0 a1 a2 \<Rightarrow> identifier_ok a0 \<and> study_decision_body_ok a1 \<and> optional_ok identifier_ok a2
   | RevealGroundTruth a0 a1 \<Rightarrow> identifier_ok a0 \<and> study_ground_truth_reveal_ok a1
   | RecordMeasurementResult a0 a1 a2 a3 a4 a5 \<Rightarrow> identifier_ok a0 \<and> ordinal64_ok a1 \<and> optional_ok in_i64 a3 \<and> optional_ok digest_ok a4 \<and> optional_ok digest_ok a5
   | CloseEpisode a0 \<Rightarrow> identifier_ok a0
   | ForkEpisode a0 a1 \<Rightarrow> identifier_ok a0)"

definition study_event_exact :: "study_event \<Rightarrow> bool" where
  "study_event_exact ev = (case ev of
     ProtocolRevisionAdmitted a0 \<Rightarrow> identifier_ok a0
   | WorldRevisionAdmitted a0 \<Rightarrow> identifier_ok a0
   | MeasurementRevisionAdmitted a0 \<Rightarrow> identifier_ok a0
   | InstitutionRevisionAdmitted a0 \<Rightarrow> identifier_ok a0
   | PopulationSnapshotAdmitted a0 \<Rightarrow> identifier_ok a0
   | EpisodeAdmitted a0 \<Rightarrow> identifier_ok a0
   | TreatmentAssigned a0 a1 a2 \<Rightarrow> identifier_ok a0 \<and> identifier_ok a1
   | MatchedPairAdmitted a0 \<Rightarrow> identifier_ok a0
   | StudyRunAdmitted a0 a1 a2 a3 a4 \<Rightarrow> identifier_ok a0 \<and> identifier_ok a1 \<and> identifier_ok a2 \<and> digest_ok a3 \<and> pair_ordinal_ok a4
   | StudyRunPairRegistered a0 a1 a2 a3 a4 \<Rightarrow> identifier_ok a0 \<and> identifier_ok a1 \<and> pair_ordinal_ok a2 \<and> digest_ok a3
   | StudyRunStarted a0 \<Rightarrow> identifier_ok a0
   | StudyRunCompleted a0 \<Rightarrow> identifier_ok a0
   | EpisodeForumCreated a0 a1 \<Rightarrow> identifier_ok a0 \<and> identifier_ok a1
   | ForumThreadOpened a0 a1 \<Rightarrow> identifier_ok a0 \<and> identifier_ok a1
   | ActorObligationAdmitted a0 a1 a2 a3 a4 \<Rightarrow> identifier_ok a0 \<and> identifier_ok a1 \<and> identifier_ok a2 \<and> identifier_ok a3
   | ActorObligationCompleted a0 \<Rightarrow> identifier_ok a0
   | ActorObligationFailed a0 a1 \<Rightarrow> identifier_ok a0 \<and> digest_ok a1
   | ActorRuntimeBound a0 a1 a2 a3 a4 \<Rightarrow> identifier_ok a0 \<and> identifier_ok a1 \<and> identifier_ok a2 \<and> identifier_ok a3 \<and> identifier_ok a4
   | ActorTaskAttemptRuntimeBound a0 a1 a2 a3 a4 \<Rightarrow> identifier_ok a0 \<and> identifier_ok a1 \<and> identifier_ok a2 \<and> identifier_ok a3 \<and> identifier_ok a4
   | ActorRuntimeReconciled a0 a1 \<Rightarrow> identifier_ok a0 \<and> identifier_ok a1
   | ActorTaskAttemptRecoverySettled a0 a1 a2 a3 a4 \<Rightarrow> identifier_ok a0 \<and> identifier_ok a1 \<and> identifier_ok a2 \<and> identifier_ok a3
   | GroundTruthRevealed a0 a1 \<Rightarrow> identifier_ok a0 \<and> digest_ok a1
   | ForumHeadFrozen a0 a1 a2 \<Rightarrow> identifier_ok a0 \<and> identifier_ok a1 \<and> in_i64 a2
   | PopulationReplaced a0 a1 \<Rightarrow> identifier_ok a0 \<and> identifier_ok a1
   | ForumExposureAdmitted a0 a1 a2 a3 \<Rightarrow> identifier_ok a0 \<and> identifier_ok a1 \<and> in_i64 a2 \<and> in_i64 a3
   | ForumMessagePublished a0 a1 a2 a3 a4 a5 \<Rightarrow> identifier_ok a0 \<and> identifier_ok a1 \<and> in_i64 a2 \<and> identifier_ok a3 \<and> digest_ok a5
   | MatchedCorrectionReleased a0 a1 a2 a3 \<Rightarrow> identifier_ok a0 \<and> identifier_ok a1 \<and> identifier_ok a2 \<and> digest_ok a3
   | ForumMessagesRead a0 a1 a2 a3 a4 a5 a6 \<Rightarrow> identifier_ok a0 \<and> identifier_ok a1 \<and> identifier_ok a2 \<and> in_i64 a3 \<and> in_i64 a4 \<and> digest_ok a5 \<and> identifier_ok a6
   | DecisionRecorded a0 \<Rightarrow> identifier_ok a0
   | MeasurementResultRecorded a0 a1 a2 \<Rightarrow> identifier_ok a0 \<and> identifier_ok a1
   | EpisodeClosed a0 \<Rightarrow> identifier_ok a0
   | ExperimentalForkCreated a0 a1 a2 a3 \<Rightarrow> identifier_ok a0 \<and> identifier_ok a1 \<and> identifier_ok a2
   | ForumMessageRetracted a0 a1 \<Rightarrow> identifier_ok a0 \<and> identifier_ok a1)"

section \<open>Kinds\<close>

primrec measurement_status_code :: "study_measurement_status \<Rightarrow> int" where
  "measurement_status_code Observed = 1"
| "measurement_status_code Unavailable = 2"
| "measurement_status_code Invalidated = 3"

primrec run_lifecycle_code :: "study_run_lifecycle_state \<Rightarrow> int" where
  "run_lifecycle_code Pairing = 1"
| "run_lifecycle_code Ready = 2"
| "run_lifecycle_code Running = 3"
| "run_lifecycle_code Completed = 4"

primrec recovery_accounting_code :: "study_recovery_accounting_state \<Rightarrow> int" where
  "recovery_accounting_code UnknownAccounting = 1"

text \<open>\<open>StudyCommand::kind\<close> and \<open>StudyEvent::kind\<close>, as the stored discriminants.\<close>

definition study_command_kind :: "study_command \<Rightarrow> int" where
  "study_command_kind cmd = (case cmd of
     AdmitProtocolRevision _ _ _ _ _ _ _ _ _ _ \<Rightarrow> 1
   | AdmitWorldRevision _ _ \<Rightarrow> 2
   | AdmitMeasurementRevision _ _ _ \<Rightarrow> 3
   | AdmitInstitutionRevision _ _ \<Rightarrow> 4
   | AdmitPopulationSnapshot _ _ _ \<Rightarrow> 5
   | AdmitEpisode _ _ _ _ _ _ \<Rightarrow> 6
   | AssignTreatment _ _ \<Rightarrow> 7
   | AdmitMatchedPair _ _ \<Rightarrow> 8
   | AdmitStudyRun _ _ _ _ \<Rightarrow> 29
   | RegisterStudyRunPair _ _ _ _ \<Rightarrow> 30
   | StartStudyRun _ \<Rightarrow> 31
   | CompleteStudyRun _ \<Rightarrow> 33
   | CreateEpisodeForum _ _ \<Rightarrow> 9
   | OpenForumThread _ _ \<Rightarrow> 10
   | AdmitActorObligation _ _ _ _ _ _ _ _ _ \<Rightarrow> 11
   | CompleteActorObligation _ _ \<Rightarrow> 12
   | FailActorObligation _ _ \<Rightarrow> 24
   | BindActorRuntime _ _ _ _ \<Rightarrow> 26
   | BindActorTaskAttemptRuntime _ _ _ _ \<Rightarrow> 28
   | ReconcileActorRuntime _ _ \<Rightarrow> 27
   | SettleActorTaskAttemptAfterRecovery _ _ _ _ \<Rightarrow> 32
   | FreezeForumHead _ _ \<Rightarrow> 13
   | ReplacePopulation _ _ \<Rightarrow> 14
   | AdmitForumExposure _ _ _ \<Rightarrow> 15
   | PublishForumMessage _ _ _ _ _ \<Rightarrow> 16
   | RetractForumMessage _ _ \<Rightarrow> 23
   | ReleaseMatchedCorrection _ _ _ _ \<Rightarrow> 17
   | ReadForum _ _ _ _ \<Rightarrow> 18
   | RecordDecision _ _ _ \<Rightarrow> 19
   | RevealGroundTruth _ _ \<Rightarrow> 25
   | RecordMeasurementResult _ _ _ _ _ _ \<Rightarrow> 20
   | CloseEpisode _ \<Rightarrow> 21
   | ForkEpisode _ _ \<Rightarrow> 22)"

definition study_event_kind :: "study_event \<Rightarrow> int" where
  "study_event_kind ev = (case ev of
     ProtocolRevisionAdmitted _ \<Rightarrow> 1
   | WorldRevisionAdmitted _ \<Rightarrow> 2
   | MeasurementRevisionAdmitted _ \<Rightarrow> 3
   | InstitutionRevisionAdmitted _ \<Rightarrow> 4
   | PopulationSnapshotAdmitted _ \<Rightarrow> 5
   | EpisodeAdmitted _ \<Rightarrow> 6
   | TreatmentAssigned _ _ _ \<Rightarrow> 7
   | MatchedPairAdmitted _ \<Rightarrow> 8
   | StudyRunAdmitted _ _ _ _ _ \<Rightarrow> 29
   | StudyRunPairRegistered _ _ _ _ _ \<Rightarrow> 30
   | StudyRunStarted _ \<Rightarrow> 31
   | StudyRunCompleted _ \<Rightarrow> 33
   | EpisodeForumCreated _ _ \<Rightarrow> 9
   | ForumThreadOpened _ _ \<Rightarrow> 10
   | ActorObligationAdmitted _ _ _ _ _ \<Rightarrow> 11
   | ActorObligationCompleted _ \<Rightarrow> 12
   | ActorObligationFailed _ _ \<Rightarrow> 24
   | ActorRuntimeBound _ _ _ _ _ \<Rightarrow> 26
   | ActorTaskAttemptRuntimeBound _ _ _ _ _ \<Rightarrow> 28
   | ActorRuntimeReconciled _ _ \<Rightarrow> 27
   | ActorTaskAttemptRecoverySettled _ _ _ _ _ \<Rightarrow> 32
   | GroundTruthRevealed _ _ \<Rightarrow> 25
   | ForumHeadFrozen _ _ _ \<Rightarrow> 13
   | PopulationReplaced _ _ \<Rightarrow> 14
   | ForumExposureAdmitted _ _ _ _ \<Rightarrow> 15
   | ForumMessagePublished _ _ _ _ _ _ \<Rightarrow> 16
   | MatchedCorrectionReleased _ _ _ _ \<Rightarrow> 17
   | ForumMessagesRead _ _ _ _ _ _ _ \<Rightarrow> 18
   | DecisionRecorded _ \<Rightarrow> 19
   | MeasurementResultRecorded _ _ _ \<Rightarrow> 20
   | EpisodeClosed _ \<Rightarrow> 21
   | ExperimentalForkCreated _ _ _ _ \<Rightarrow> 22
   | ForumMessageRetracted _ _ \<Rightarrow> 23)"

section \<open>Writers\<close>

definition put_i64 :: "int \<Rightarrow> byte list" where
  "put_i64 v = be_i64 v"

definition put_bytes :: "byte list \<Rightarrow> byte list" where
  "put_bytes b = put_i64 (int (length b)) @ b"

definition put_optional_i64 :: "int option \<Rightarrow> byte list" where
  "put_optional_i64 v = (case v of Some x \<Rightarrow> put_i64 1 @ put_i64 x | None \<Rightarrow> put_i64 0)"

definition put_optional_digest :: "digest option \<Rightarrow> byte list" where
  "put_optional_digest v = (case v of Some d \<Rightarrow> put_i64 1 @ put_bytes d | None \<Rightarrow> put_i64 0)"

definition put_digest :: "digest \<Rightarrow> byte list" where
  "put_digest d = put_bytes d"

section \<open>Fingerprints\<close>

definition append_command_fingerprint :: "byte list \<Rightarrow> study_command \<Rightarrow> byte list" where
  "append_command_fingerprint bytes cmd = bytes @ put_i64 (study_command_kind cmd) @ (case cmd of
     AdmitProtocolRevision a0 a1 a2 a3 a4 a5 a6 a7 a8 a9 \<Rightarrow> put_i64 a0 @ put_digest a1 @ put_digest a2 @ put_digest a3 @ put_digest a4 @ put_digest a5 @ put_digest a6 @ put_digest a7 @ put_digest a8 @ put_i64 a9
   | AdmitWorldRevision a0 a1 \<Rightarrow> put_i64 a0 @ put_digest a1
   | AdmitMeasurementRevision a0 a1 a2 \<Rightarrow> put_i64 a0 @ put_digest a1 @ put_i64 a2
   | AdmitInstitutionRevision a0 a1 \<Rightarrow> put_i64 a0 @ put_digest a1
   | AdmitPopulationSnapshot a0 a1 a2 \<Rightarrow> put_i64 a0 @ put_digest a1 @ put_i64 a2
   | AdmitEpisode a0 a1 a2 a3 a4 a5 \<Rightarrow> put_i64 a0 @ put_i64 a1 @ put_i64 a2 @ put_i64 a3 @ put_i64 a4 @ put_digest a5
   | AssignTreatment a0 a1 \<Rightarrow> put_i64 a0 @ put_i64 (treatment_code a1)
   | AdmitMatchedPair a0 a1 \<Rightarrow> put_i64 a0 @ put_i64 a1
   | AdmitStudyRun a0 a1 a2 a3 \<Rightarrow> put_i64 a0 @ put_i64 a1 @ put_digest a2 @ put_i64 a3
   | RegisterStudyRunPair a0 a1 a2 a3 \<Rightarrow> put_i64 a0 @ put_i64 a1 @ put_i64 a2 @ put_digest a3
   | StartStudyRun a0 \<Rightarrow> put_i64 a0
   | CompleteStudyRun a0 \<Rightarrow> put_i64 a0
   | CreateEpisodeForum a0 a1 \<Rightarrow> put_i64 a0 @ put_digest a1
   | OpenForumThread a0 a1 \<Rightarrow> put_i64 a0 @ put_bytes a1
   | AdmitActorObligation a0 a1 a2 a3 a4 a5 a6 a7 a8 \<Rightarrow> put_i64 a0 @ put_i64 (population_phase_code a1) @ put_i64 a2 @ put_digest a3 @ put_digest a4 @ put_digest a5 @ put_i64 a6 @ put_i64 a7 @ put_i64 a8
   | CompleteActorObligation a0 a1 \<Rightarrow> put_i64 a0 @ put_i64 a1
   | FailActorObligation a0 a1 \<Rightarrow> put_i64 a0 @ put_digest a1
   | BindActorRuntime a0 a1 a2 a3 \<Rightarrow> put_i64 a0 @ put_i64 a1 @ put_i64 a2 @ put_i64 a3
   | BindActorTaskAttemptRuntime a0 a1 a2 a3 \<Rightarrow> put_i64 a0 @ put_i64 a1 @ put_i64 a2 @ put_i64 a3
   | ReconcileActorRuntime a0 a1 \<Rightarrow> put_i64 a0 @ put_i64 a1
   | SettleActorTaskAttemptAfterRecovery a0 a1 a2 a3 \<Rightarrow> put_i64 a0 @ put_i64 a1 @ put_i64 a2 @ put_i64 a3
   | FreezeForumHead a0 a1 \<Rightarrow> put_i64 a0 @ put_i64 a1
   | ReplacePopulation a0 a1 \<Rightarrow> put_i64 a0 @ put_i64 a1
   | AdmitForumExposure a0 a1 a2 \<Rightarrow> put_i64 a0 @ put_i64 a1 @ put_i64 a2
   | PublishForumMessage a0 a1 a2 a3 a4 \<Rightarrow> put_i64 a0 @ put_i64 (message_kind_code a1) @ put_bytes a2 @ put_optional_i64 a3 @ put_optional_i64 a4
   | RetractForumMessage a0 a1 \<Rightarrow> put_i64 a0 @ put_i64 a1
   | ReleaseMatchedCorrection a0 a1 a2 a3 \<Rightarrow> put_i64 a0 @ put_i64 a1 @ put_i64 a2 @ put_bytes a3
   | ReadForum a0 a1 a2 a3 \<Rightarrow> put_i64 a0 @ put_i64 a1 @ put_i64 a2 @ put_i64 a3
   | RecordDecision a0 a1 a2 \<Rightarrow> put_i64 a0 @ put_bytes a1 @ put_optional_i64 a2
   | RevealGroundTruth a0 a1 \<Rightarrow> put_i64 a0 @ put_bytes a1
   | RecordMeasurementResult a0 a1 a2 a3 a4 a5 \<Rightarrow> put_i64 a0 @ put_i64 a1 @ put_i64 (measurement_status_code a2) @ put_optional_i64 a3 @ put_optional_digest a4 @ put_optional_digest a5
   | CloseEpisode a0 \<Rightarrow> put_i64 a0
   | ForkEpisode a0 a1 \<Rightarrow> put_i64 a0 @ put_i64 (treatment_code a1))"

definition append_event_fingerprint :: "byte list \<Rightarrow> study_event \<Rightarrow> byte list" where
  "append_event_fingerprint bytes ev = bytes @ put_i64 (study_event_kind ev) @ (case ev of
     ProtocolRevisionAdmitted a0 \<Rightarrow> put_i64 a0
   | WorldRevisionAdmitted a0 \<Rightarrow> put_i64 a0
   | MeasurementRevisionAdmitted a0 \<Rightarrow> put_i64 a0
   | InstitutionRevisionAdmitted a0 \<Rightarrow> put_i64 a0
   | PopulationSnapshotAdmitted a0 \<Rightarrow> put_i64 a0
   | EpisodeAdmitted a0 \<Rightarrow> put_i64 a0
   | TreatmentAssigned a0 a1 a2 \<Rightarrow> put_i64 a0 @ put_i64 a1 @ put_i64 (treatment_code a2)
   | MatchedPairAdmitted a0 \<Rightarrow> put_i64 a0
   | StudyRunAdmitted a0 a1 a2 a3 a4 \<Rightarrow> put_i64 a0 @ put_i64 a1 @ put_i64 a2 @ put_digest a3 @ put_i64 a4
   | StudyRunPairRegistered a0 a1 a2 a3 a4 \<Rightarrow> put_i64 a0 @ put_i64 a1 @ put_i64 a2 @ put_digest a3 @ put_i64 (run_lifecycle_code a4)
   | StudyRunStarted a0 \<Rightarrow> put_i64 a0
   | StudyRunCompleted a0 \<Rightarrow> put_i64 a0
   | EpisodeForumCreated a0 a1 \<Rightarrow> put_i64 a0 @ put_i64 a1
   | ForumThreadOpened a0 a1 \<Rightarrow> put_i64 a0 @ put_i64 a1
   | ActorObligationAdmitted a0 a1 a2 a3 a4 \<Rightarrow> put_i64 a0 @ put_i64 a1 @ put_i64 a2 @ put_i64 a3 @ put_i64 (population_phase_code a4)
   | ActorObligationCompleted a0 \<Rightarrow> put_i64 a0
   | ActorObligationFailed a0 a1 \<Rightarrow> put_i64 a0 @ put_digest a1
   | ActorRuntimeBound a0 a1 a2 a3 a4 \<Rightarrow> put_i64 a0 @ put_i64 a1 @ put_i64 a2 @ put_i64 a3 @ put_i64 a4
   | ActorTaskAttemptRuntimeBound a0 a1 a2 a3 a4 \<Rightarrow> put_i64 a0 @ put_i64 a1 @ put_i64 a2 @ put_i64 a3 @ put_i64 a4
   | ActorRuntimeReconciled a0 a1 \<Rightarrow> put_i64 a0 @ put_i64 a1
   | ActorTaskAttemptRecoverySettled a0 a1 a2 a3 a4 \<Rightarrow> put_i64 a0 @ put_i64 a1 @ put_i64 a2 @ put_i64 a3 @ put_i64 (recovery_accounting_code a4)
   | GroundTruthRevealed a0 a1 \<Rightarrow> put_i64 a0 @ put_digest a1
   | ForumHeadFrozen a0 a1 a2 \<Rightarrow> put_i64 a0 @ put_i64 a1 @ put_i64 a2
   | PopulationReplaced a0 a1 \<Rightarrow> put_i64 a0 @ put_i64 a1
   | ForumExposureAdmitted a0 a1 a2 a3 \<Rightarrow> put_i64 a0 @ put_i64 a1 @ put_i64 a2 @ put_i64 a3
   | ForumMessagePublished a0 a1 a2 a3 a4 a5 \<Rightarrow> put_i64 a0 @ put_i64 a1 @ put_i64 a2 @ put_i64 a3 @ put_i64 (message_kind_code a4) @ put_digest a5
   | MatchedCorrectionReleased a0 a1 a2 a3 \<Rightarrow> put_i64 a0 @ put_i64 a1 @ put_i64 a2 @ put_digest a3
   | ForumMessagesRead a0 a1 a2 a3 a4 a5 a6 \<Rightarrow> put_i64 a0 @ put_i64 a1 @ put_i64 a2 @ put_i64 a3 @ put_i64 a4 @ put_digest a5 @ put_i64 a6
   | DecisionRecorded a0 \<Rightarrow> put_i64 a0
   | MeasurementResultRecorded a0 a1 a2 \<Rightarrow> put_i64 a0 @ put_i64 a1 @ put_i64 (measurement_status_code a2)
   | EpisodeClosed a0 \<Rightarrow> put_i64 a0
   | ExperimentalForkCreated a0 a1 a2 a3 \<Rightarrow> put_i64 a0 @ put_i64 a1 @ put_i64 a2 @ put_i64 (treatment_code a3)
   | ForumMessageRetracted a0 a1 \<Rightarrow> put_i64 a0 @ put_i64 a1)"

section \<open>Prefix codes\<close>

text \<open>
  An encoder whose output can be cut off unambiguously: what is encoded, and where the encoding ends,
  is determined by the bytes.
\<close>

locale prefix_code =
  fixes ok :: "'a \<Rightarrow> bool" and enc :: "'a \<Rightarrow> byte list"
  assumes cut: "ok x \<Longrightarrow> ok y \<Longrightarrow> enc x @ u = enc y @ v \<Longrightarrow> x = y \<and> u = v"
begin

lemma cut_iff: "ok x \<Longrightarrow> ok y \<Longrightarrow> enc x @ u = enc y @ v \<longleftrightarrow> x = y \<and> u = v"
  using cut by blast

lemma injective: "ok x \<Longrightarrow> ok y \<Longrightarrow> enc x = enc y \<longleftrightarrow> x = y"
  using cut [of x y "[]" "[]"] by auto

text \<open>A sequence of values is recovered from the concatenation of their encodings, given its length.\<close>

lemma sequence:
  "length xs = length ys \<Longrightarrow> list_all ok xs \<Longrightarrow> list_all ok ys \<Longrightarrow>
     concat (map enc xs) @ u = concat (map enc ys) @ v \<Longrightarrow> xs = ys \<and> u = v"
proof (induction xs ys rule: list_induct2)
  case (Cons x xs y ys)
  then show ?case using cut [of x y "concat (map enc xs) @ u" "concat (map enc ys) @ v"] by auto
qed simp

end

subsection \<open>Big-endian integers\<close>

lemma be_i64_length [simp]: "length (be_i64 v) = 8"
  by (simp add: be_i64_def)

lemma word8_eq_iff: "(word_of_int a :: byte) = word_of_int b \<longleftrightarrow> a mod 256 = b mod 256"
  by (simp add: word_of_int_eq_iff take_bit_eq_mod)

text \<open>Dropping one byte at a time: equal big-endian digits mean equal residues.\<close>

lemma digit_step:
  fixes a b :: int
  assumes "a mod 256 = b mod 256" "(a div 256) mod m = (b div 256) mod m" "0 < m"
  shows "a mod (256 * m) = b mod (256 * m)"
  using assms by (simp add: zmod_zmult2_eq)

lemma be_i64_cong:
  assumes "be_i64 a = be_i64 b"
  shows "a mod 256 ^ 8 = b mod 256 ^ 8"
proof -
  have d: "(a div 256 ^ k) mod 256 = (b div 256 ^ k) mod 256" if "k < 8" for k
  proof -
    have "be_i64 a ! (7 - k) = be_i64 b ! (7 - k)" using assms by simp
    moreover have "[0..<8] ! (7 - k) = 7 - k" using that by (subst nth_upt) auto
    ultimately show ?thesis using that by (simp add: be_i64_def word8_eq_iff)
  qed
  have "(a div 256 ^ (8 - n)) mod 256 ^ n = (b div 256 ^ (8 - n)) mod 256 ^ n" if "n \<le> 8" for n :: nat
    using that
  proof (induction n)
    case (Suc n)
    let ?k = "8 - Suc n"
    have k: "8 - n = Suc ?k" using Suc.prems by simp
    have s: "x div 256 ^ ?k div 256 = x div 256 ^ (8 - n)" for x :: int
      unfolding k by (simp add: div_mult2_eq [symmetric] zdiv_zmult2_eq [symmetric] mult.commute)
    show ?case
      using digit_step [OF d [of ?k], of "256 ^ n"] Suc s by simp
  qed simp
  from this [of 8] show ?thesis by simp
qed

lemma put_i64_inj: "in_i64 a \<Longrightarrow> in_i64 b \<Longrightarrow> put_i64 a = put_i64 b \<Longrightarrow> a = b"
proof -
  assume ab: "in_i64 a" "in_i64 b" "put_i64 a = put_i64 b"
  let ?h = "9223372036854775808 :: int" and ?n = "18446744073709551616 :: int"
  have "a mod ?n = b mod ?n" using be_i64_cong [of a b] ab(3) by (simp add: put_i64_def)
  then have "(a + ?h) mod ?n = (b + ?h) mod ?n" by (rule mod_add_cong) simp
  moreover have "(a + ?h) mod ?n = a + ?h" "(b + ?h) mod ?n = b + ?h"
    using ab(1,2) by (simp_all add: in_i64_def mod_pos_pos_trivial)
  ultimately show "a = b" by simp
qed

interpretation i64: prefix_code in_i64 put_i64
proof
  fix x y :: int and u v assume "in_i64 x" "in_i64 y" "put_i64 x @ u = put_i64 y @ v"
  then show "x = y \<and> u = v" using put_i64_inj by (simp add: put_i64_def append_eq_append_conv)
qed

definition encodable :: "byte list \<Rightarrow> bool" where
  "encodable b \<longleftrightarrow> int (length b) \<le> i64_max"

interpretation blob: prefix_code encodable put_bytes
proof
  fix x y u v assume xy: "encodable x" "encodable y" "put_bytes x @ u = put_bytes y @ v"
  then have "in_i64 (int (length x))" "in_i64 (int (length y))"
    by (simp_all add: encodable_def in_i64_def)
  from i64.cut [OF this, of "x @ u" "y @ v"] xy(3) show "x = y \<and> u = v"
    by (auto simp: put_bytes_def append_eq_append_conv)
qed

lemma in_i64_01 [simp]: "in_i64 0" "in_i64 1"
  by (simp_all add: in_i64_def)

interpretation optional_i64: prefix_code "optional_ok in_i64" put_optional_i64
proof
  fix x y u v assume "optional_ok in_i64 x" "optional_ok in_i64 y" "put_optional_i64 x @ u = put_optional_i64 y @ v"
  then show "x = y \<and> u = v"
    by (cases x; cases y) (auto simp: put_optional_i64_def optional_ok_def i64.cut_iff)
qed

interpretation optional_digest: prefix_code "optional_ok encodable" put_optional_digest
proof
  fix x y u v
  assume "optional_ok encodable x" "optional_ok encodable y" "put_optional_digest x @ u = put_optional_digest y @ v"
  then show "x = y \<and> u = v"
    by (cases x; cases y) (auto simp: put_optional_digest_def optional_ok_def i64.cut_iff blob.cut_iff)
qed

subsection \<open>Exact fields are encodable\<close>

lemma exact_in_i64:
  "identifier_ok v \<Longrightarrow> in_i64 v" "budget_units_ok v \<Longrightarrow> in_i64 v" "ordinal64_ok v \<Longrightarrow> in_i64 v"
  "pair_ordinal_ok v \<Longrightarrow> in_i64 v" "forum_budget_ok v \<Longrightarrow> in_i64 v"
  by (auto simp: identifier_ok_def budget_units_ok_def ordinal64_ok_def pair_ordinal_ok_def
      forum_budget_ok_def in_i64_def)

lemma exact_encodable:
  "digest_ok d \<Longrightarrow> encodable d" "forum_thread_title_ok d \<Longrightarrow> encodable d"
  "forum_message_body_ok d \<Longrightarrow> encodable d" "study_decision_body_ok d \<Longrightarrow> encodable d"
  "study_ground_truth_reveal_ok d \<Longrightarrow> encodable d"
  by (auto simp: digest_ok_def forum_thread_title_ok_def forum_message_body_ok_def bounded_body_def
      study_decision_body_ok_def study_ground_truth_reveal_ok_def encodable_def)

lemma exact_optional:
  "optional_ok identifier_ok v \<Longrightarrow> optional_ok in_i64 v" "optional_ok digest_ok d \<Longrightarrow> optional_ok encodable d"
  by (auto simp: optional_ok_def exact_in_i64 exact_encodable split: option.splits)

lemma treatment_code_in_i64 [simp]: "in_i64 (treatment_code t)"
  by (cases t) (simp_all add: in_i64_def)

lemma treatment_code_inject [simp]: "treatment_code t = treatment_code t' \<longleftrightarrow> t = t'"
  by (cases t; cases t') simp_all

lemma phase_code_in_i64 [simp]: "in_i64 (population_phase_code p)"
  by (cases p) (simp_all add: in_i64_def)

lemma phase_code_inject [simp]: "population_phase_code p = population_phase_code p' \<longleftrightarrow> p = p'"
  by (cases p; cases p') simp_all

lemma message_kind_code_in_i64 [simp]: "in_i64 (message_kind_code k)"
  by (cases k) (simp_all add: in_i64_def)

lemma message_kind_code_inject [simp]: "message_kind_code k = message_kind_code k' \<longleftrightarrow> k = k'"
  by (cases k; cases k') simp_all

lemma status_code_in_i64 [simp]: "in_i64 (measurement_status_code s)"
  by (cases s) (simp_all add: in_i64_def)

lemma status_code_inject [simp]: "measurement_status_code s = measurement_status_code s' \<longleftrightarrow> s = s'"
  by (cases s; cases s') simp_all

lemma lifecycle_code_in_i64 [simp]: "in_i64 (run_lifecycle_code l)"
  by (cases l) (simp_all add: in_i64_def)

lemma lifecycle_code_inject [simp]: "run_lifecycle_code l = run_lifecycle_code l' \<longleftrightarrow> l = l'"
  by (cases l; cases l') simp_all

lemma accounting_code_in_i64 [simp]: "in_i64 (recovery_accounting_code a)"
  by (cases a) (simp add: in_i64_def)

lemma accounting_single [simp]: "(a :: study_recovery_accounting_state) = b"
  by (cases a; cases b) simp

lemma command_kind_in_i64 [simp]: "in_i64 (study_command_kind cmd)"
  by (cases cmd) (simp_all add: study_command_kind_def in_i64_def)

lemma event_kind_in_i64 [simp]: "in_i64 (study_event_kind ev)"
  by (cases ev) (simp_all add: study_event_kind_def in_i64_def)

lemmas field_cuts = i64.cut_iff blob.cut_iff optional_i64.cut_iff optional_digest.cut_iff
lemmas exact_fields = exact_in_i64 exact_encodable exact_optional

subsection \<open>Commands and events\<close>

lemma fingerprint_append:
  "append_command_fingerprint p x = p @ append_command_fingerprint [] x"
  "append_event_fingerprint p y = p @ append_event_fingerprint [] y"
  unfolding append_command_fingerprint_def append_event_fingerprint_def append_Nil by (rule refl)+

lemma command_kind_eq:
  "append_command_fingerprint [] x @ u = append_command_fingerprint [] y @ v \<Longrightarrow>
     study_command_kind x = study_command_kind y"
  by (simp add: append_command_fingerprint_def i64.cut_iff)

lemma event_kind_eq:
  "append_event_fingerprint [] x @ u = append_event_fingerprint [] y @ v \<Longrightarrow>
     study_event_kind x = study_event_kind y"
  by (simp add: append_event_fingerprint_def i64.cut_iff)

interpretation command_fingerprint: prefix_code study_command_exact "append_command_fingerprint []"
proof
  fix x y u v
  assume ok: "study_command_exact x" "study_command_exact y"
    and eq: "append_command_fingerprint [] x @ u = append_command_fingerprint [] y @ v"
  note k = command_kind_eq [OF eq]
  show "x = y \<and> u = v"
    by (insert k, cases x; cases y, simp_all add: study_command_kind_def, insert ok eq,
        simp_all add: study_command_kind_def study_command_exact_def append_command_fingerprint_def put_digest_def
          field_cuts exact_fields)
qed

interpretation event_fingerprint: prefix_code study_event_exact "append_event_fingerprint []"
proof
  fix x y u v
  assume ok: "study_event_exact x" "study_event_exact y"
    and eq: "append_event_fingerprint [] x @ u = append_event_fingerprint [] y @ v"
  note k = event_kind_eq [OF eq]
  show "x = y \<and> u = v"
    by (insert k, cases x; cases y, simp_all add: study_event_kind_def, insert ok eq,
        simp_all add: study_event_kind_def study_event_exact_def append_event_fingerprint_def put_digest_def
          field_cuts exact_fields)
qed

end
