(* ===== verification/Study_Stored.thy ===== *)
theory Study_Stored
  imports Study_Encoding "HOL-Library.Monad_Syntax"
begin

text \<open>
  The stored bodies of the ledger's study commands and events.  \<open>insert_command_body\<close> and
  \<open>insert_event_body\<close> write one row of \<^verbatim>\<open>command_study_transition\<close> and
  \<^verbatim>\<open>event_study_transition\<close>: the columns of the INSERT with their values, every other column
  being NULL.  \<open>decode_command_body\<close> and \<open>decode_event_body\<close> read the columns back through the
  constructors of the field types; \<open>None\<close> is the error \<open>StoreError::InvalidStoredValue\<close>.
\<close>

section \<open>Rows\<close>

datatype sql_value = SqlNull | SqlInt int | SqlBytes "byte list" | SqlText "byte list"

type_synonym sql_row = "(string \<times> sql_value) list"

definition sql_optional :: "('a \<Rightarrow> sql_value) \<Rightarrow> 'a option \<Rightarrow> sql_value" where
  "sql_optional f v = (case v of None \<Rightarrow> SqlNull | Some x \<Rightarrow> f x)"

text \<open>\<open>row.get::<Option<i64>>\<close>, \<open>row.get::<Option<Vec<u8>>>\<close> and \<open>row.get::<Option<String>>\<close>.\<close>

definition get_i64 :: "sql_row \<Rightarrow> string \<Rightarrow> int option" where
  "get_i64 row c = (case map_of row c of Some (SqlInt v) \<Rightarrow> Some v | _ \<Rightarrow> None)"

definition get_bytes :: "sql_row \<Rightarrow> string \<Rightarrow> byte list option" where
  "get_bytes row c = (case map_of row c of Some (SqlBytes v) \<Rightarrow> Some v | _ \<Rightarrow> None)"

definition get_text :: "sql_row \<Rightarrow> string \<Rightarrow> byte list option" where
  "get_text row c = (case map_of row c of Some (SqlText v) \<Rightarrow> Some v | _ \<Rightarrow> None)"

section \<open>Field decoders\<close>

definition stored :: "int option \<Rightarrow> int option" where
  "stored v = (case v of None \<Rightarrow> None | Some x \<Rightarrow> study_identifier_new x)"

definition exact_digest :: "byte list \<Rightarrow> digest option" where
  "exact_digest b = (if length b = 32 then Some b else None)"

definition stored_digest :: "byte list option \<Rightarrow> digest option" where
  "stored_digest v = (case v of None \<Rightarrow> None | Some b \<Rightarrow> exact_digest b)"

text \<open>A present value through the fallible constructor of a bounded newtype.\<close>

definition stored_as :: "('a \<Rightarrow> bool) \<Rightarrow> 'a option \<Rightarrow> 'a option" where
  "stored_as ok v = (case v of None \<Rightarrow> None | Some x \<Rightarrow> if ok x then Some x else None)"

text \<open>\<open>row.map(T::try_from).transpose()\<close>.\<close>

definition stored_optional :: "('a \<Rightarrow> 'b option) \<Rightarrow> 'a option \<Rightarrow> 'b option option" where
  "stored_optional f v = (case v of None \<Rightarrow> Some None | Some x \<Rightarrow> map_option Some (f x))"

definition treatment_from_i64 :: "int \<Rightarrow> study_treatment option" where
  "treatment_from_i64 v = (if v = 1 then Some Retained else if v = 2 then Some Reset else None)"

definition study_run_lifecycle_state_from_i64 :: "int \<Rightarrow> study_run_lifecycle_state option" where
  "study_run_lifecycle_state_from_i64 v =
     (if v = 1 then Some Pairing else if v = 2 then Some Ready else if v = 3 then Some Running
      else if v = 4 then Some Completed else None)"

definition recovery_accounting_state_from_i64 :: "int \<Rightarrow> study_recovery_accounting_state option" where
  "recovery_accounting_state_from_i64 v = (if v = 1 then Some UnknownAccounting else None)"

definition population_phase_from_stored :: "int \<Rightarrow> study_population_phase option" where
  "population_phase_from_stored v = (if v = 1 then Some Source else if v = 2 then Some Successor else None)"

definition message_kind_from_i64 :: "int \<Rightarrow> forum_message_kind option" where
  "message_kind_from_i64 v =
     (if v = 1 then Some Finding else if v = 2 then Some Question else if v = 3 then Some Challenge
      else if v = 4 then Some Correction else if v = 5 then Some Synthesis else None)"

definition measurement_status_from_i64 :: "int \<Rightarrow> study_measurement_status option" where
  "measurement_status_from_i64 v =
     (if v = 1 then Some Observed else if v = 2 then Some Unavailable
      else if v = 3 then Some Invalidated else None)"

section \<open>Command bodies\<close>

definition command_columns :: "(byte list \<Rightarrow> digest) \<Rightarrow> study_command \<Rightarrow> sql_row" where
  "command_columns h cmd = (case cmd of
     AdmitProtocolRevision a0 a1 a2 a3 a4 a5 a6 a7 a8 a9 \<Rightarrow>
         [(''application_revision_id'', SqlInt a0), (''protocol_digest'', SqlBytes a1),
           (''actor_policy_digest'', SqlBytes a2), (''forum_prompt_digest'', SqlBytes a3),
           (''forum_tool_digest'', SqlBytes a4), (''evidence_digest'', SqlBytes a5),
           (''ground_truth_commitment_digest'', SqlBytes a6),
           (''correction_digest'', SqlBytes a7), (''topology_digest'', SqlBytes a8),
           (''budget_units'', SqlInt a9)]
   | AdmitWorldRevision a0 a1 \<Rightarrow>
         [(''protocol_revision_id'', SqlInt a0), (''world_digest'', SqlBytes a1)]
   | AdmitMeasurementRevision a0 a1 a2 \<Rightarrow>
         [(''protocol_revision_id'', SqlInt a0), (''analysis_digest'', SqlBytes a1),
           (''measurement_slot_count'', SqlInt a2)]
   | AdmitInstitutionRevision a0 a1 \<Rightarrow>
         [(''protocol_revision_id'', SqlInt a0), (''institution_digest'', SqlBytes a1)]
   | AdmitPopulationSnapshot a0 a1 a2 \<Rightarrow>
         [(''protocol_revision_id'', SqlInt a0), (''population_digest'', SqlBytes a1),
           (''population_size'', SqlInt a2)]
   | AdmitEpisode a0 a1 a2 a3 a4 a5 \<Rightarrow>
         [(''protocol_revision_id'', SqlInt a0), (''world_revision_id'', SqlInt a1),
           (''measurement_revision_id'', SqlInt a2), (''institution_revision_id'', SqlInt a3),
           (''population_snapshot_id'', SqlInt a4), (''randomization_digest'', SqlBytes a5)]
   | AssignTreatment a0 a1 \<Rightarrow>
         [(''study_episode_id'', SqlInt a0), (''study_treatment'', SqlInt (treatment_code a1))]
   | AdmitMatchedPair a0 a1 \<Rightarrow>
         [(''study_episode_id'', SqlInt a0), (''related_study_episode_id'', SqlInt a1)]
   | AdmitStudyRun a0 a1 a2 a3 \<Rightarrow>
         [(''protocol_revision_id'', SqlInt a0), (''plan_content_object_id'', SqlInt a1),
           (''plan_digest'', SqlBytes a2), (''pair_count'', SqlInt a3)]
   | RegisterStudyRunPair a0 a1 a2 a3 \<Rightarrow>
         [(''study_run_id'', SqlInt a0), (''pair_ordinal'', SqlInt a1),
           (''study_pair_id'', SqlInt a2), (''randomization_digest'', SqlBytes a3)]
   | StartStudyRun a0 \<Rightarrow>
         [(''study_run_id'', SqlInt a0)]
   | CompleteStudyRun a0 \<Rightarrow>
         [(''study_run_id'', SqlInt a0)]
   | CreateEpisodeForum a0 a1 \<Rightarrow>
         [(''study_episode_id'', SqlInt a0), (''charter_digest'', SqlBytes a1)]
   | OpenForumThread a0 a1 \<Rightarrow>
         [(''forum_id'', SqlInt a0), (''text_value'', SqlText a1)]
   | AdmitActorObligation a0 a1 a2 a3 a4 a5 a6 a7 a8 \<Rightarrow>
         [(''study_episode_id'', SqlInt a0),
           (''population_phase'', SqlInt (population_phase_code a1)),
           (''role_ordinal'', SqlInt a2), (''private_view_digest'', SqlBytes a3),
           (''forum_prompt_digest'', SqlBytes a4), (''forum_tool_digest'', SqlBytes a5),
           (''budget_units'', SqlInt a6), (''read_budget'', SqlInt a7),
           (''post_budget'', SqlInt a8)]
   | CompleteActorObligation a0 a1 \<Rightarrow>
         [(''obligation_id'', SqlInt a0), (''charged_budget_units'', SqlInt a1)]
   | FailActorObligation a0 a1 \<Rightarrow>
         [(''obligation_id'', SqlInt a0), (''reason_digest'', SqlBytes a1)]
   | BindActorRuntime a0 a1 a2 a3 \<Rightarrow>
         [(''obligation_id'', SqlInt a0), (''root_authority_office_session_id'', SqlInt a1),
           (''native_child_id'', SqlInt a2), (''native_child_spawn_admission_id'', SqlInt a3)]
   | BindActorTaskAttemptRuntime a0 a1 a2 a3 \<Rightarrow>
         [(''obligation_id'', SqlInt a0), (''actor_attempt_id'', SqlInt a1),
           (''native_child_id'', SqlInt a2), (''native_child_spawn_admission_id'', SqlInt a3)]
   | ReconcileActorRuntime a0 a1 \<Rightarrow>
         [(''obligation_id'', SqlInt a0), (''native_child_id'', SqlInt a1)]
   | SettleActorTaskAttemptAfterRecovery a0 a1 a2 a3 \<Rightarrow>
         [(''obligation_id'', SqlInt a0), (''actor_attempt_id'', SqlInt a1),
           (''native_child_id'', SqlInt a2), (''native_child_recovery_receipt_id'', SqlInt a3)]
   | FreezeForumHead a0 a1 \<Rightarrow>
         [(''study_episode_id'', SqlInt a0), (''thread_id'', SqlInt a1)]
   | ReplacePopulation a0 a1 \<Rightarrow>
         [(''study_episode_id'', SqlInt a0), (''population_snapshot_id'', SqlInt a1)]
   | AdmitForumExposure a0 a1 a2 \<Rightarrow>
         [(''obligation_id'', SqlInt a0), (''forum_id'', SqlInt a1),
           (''first_ordinal'', SqlInt a2)]
   | PublishForumMessage a0 a1 a2 a3 a4 \<Rightarrow>
         [(''obligation_id'', SqlInt a0), (''message_kind'', SqlInt (message_kind_code a1)),
           (''text_value'', SqlText a2), (''message_id'', sql_optional SqlInt a3),
           (''related_message_id'', sql_optional SqlInt a4)]
   | RetractForumMessage a0 a1 \<Rightarrow>
         [(''obligation_id'', SqlInt a0), (''message_id'', SqlInt a1)]
   | ReleaseMatchedCorrection a0 a1 a2 a3 \<Rightarrow>
         [(''study_pair_id'', SqlInt a0), (''thread_id'', SqlInt a1),
           (''related_thread_id'', SqlInt a2), (''text_value'', SqlText a3)]
   | ReadForum a0 a1 a2 a3 \<Rightarrow>
         [(''obligation_id'', SqlInt a0), (''first_ordinal'', SqlInt a1),
           (''through_ordinal'', SqlInt a2), (''rendered_content_object_id'', SqlInt a3)]
   | RecordDecision a0 a1 a2 \<Rightarrow>
         [(''obligation_id'', SqlInt a0), (''decision_digest'', SqlBytes (h a1)),
           (''text_value'', SqlText a1), (''message_id'', sql_optional SqlInt a2)]
   | RevealGroundTruth a0 a1 \<Rightarrow>
         [(''study_episode_id'', SqlInt a0), (''body_digest'', SqlBytes (h a1)),
           (''text_value'', SqlText a1)]
   | RecordMeasurementResult a0 a1 a2 a3 a4 a5 \<Rightarrow>
         [(''study_episode_id'', SqlInt a0), (''measurement_slot'', SqlInt a1),
           (''measurement_status'', SqlInt (measurement_status_code a2)),
           (''observed_value'', sql_optional SqlInt a3),
           (''value_digest'', sql_optional SqlBytes a4),
           (''reason_digest'', sql_optional SqlBytes a5)]
   | CloseEpisode a0 \<Rightarrow>
         [(''study_episode_id'', SqlInt a0)]
   | ForkEpisode a0 a1 \<Rightarrow>
         [(''study_episode_id'', SqlInt a0), (''study_treatment'', SqlInt (treatment_code a1))])"

text \<open>The row of \<^verbatim>\<open>command_study_transition\<close> a command is stored in.\<close>

definition insert_command_body :: "(byte list \<Rightarrow> digest) \<Rightarrow> study_command \<Rightarrow> sql_row" where
  "insert_command_body h cmd =
     (''study_command_kind'', SqlInt (study_command_kind cmd)) # command_columns h cmd"

definition decode_command_columns ::
  "(byte list \<Rightarrow> digest) \<Rightarrow> int \<Rightarrow> sql_row \<Rightarrow> study_command option" where
  "decode_command_columns h kind row =
     (if kind = 1 then
        do { a0 \<leftarrow> stored (get_i64 row ''application_revision_id'');
             a1 \<leftarrow> stored_digest (get_bytes row ''protocol_digest'');
             a2 \<leftarrow> stored_digest (get_bytes row ''actor_policy_digest'');
             a3 \<leftarrow> stored_digest (get_bytes row ''forum_prompt_digest'');
             a4 \<leftarrow> stored_digest (get_bytes row ''forum_tool_digest'');
             a5 \<leftarrow> stored_digest (get_bytes row ''evidence_digest'');
             a6 \<leftarrow> stored_digest (get_bytes row ''ground_truth_commitment_digest'');
             a7 \<leftarrow> stored_digest (get_bytes row ''correction_digest'');
             a8 \<leftarrow> stored_digest (get_bytes row ''topology_digest'');
             a9 \<leftarrow> stored_as budget_units_ok (get_i64 row ''budget_units'');
             Some (AdmitProtocolRevision a0 a1 a2 a3 a4 a5 a6 a7 a8 a9) }
      else if kind = 2 then
        do { a0 \<leftarrow> stored (get_i64 row ''protocol_revision_id'');
             a1 \<leftarrow> stored_digest (get_bytes row ''world_digest'');
             Some (AdmitWorldRevision a0 a1) }
      else if kind = 3 then
        do { a0 \<leftarrow> stored (get_i64 row ''protocol_revision_id'');
             a1 \<leftarrow> stored_digest (get_bytes row ''analysis_digest'');
             a2 \<leftarrow> stored_as ordinal64_ok (get_i64 row ''measurement_slot_count'');
             Some (AdmitMeasurementRevision a0 a1 a2) }
      else if kind = 4 then
        do { a0 \<leftarrow> stored (get_i64 row ''protocol_revision_id'');
             a1 \<leftarrow> stored_digest (get_bytes row ''institution_digest'');
             Some (AdmitInstitutionRevision a0 a1) }
      else if kind = 5 then
        do { a0 \<leftarrow> stored (get_i64 row ''protocol_revision_id'');
             a1 \<leftarrow> stored_digest (get_bytes row ''population_digest'');
             a2 \<leftarrow> get_i64 row ''population_size'';
             Some (AdmitPopulationSnapshot a0 a1 a2) }
      else if kind = 6 then
        do { a0 \<leftarrow> stored (get_i64 row ''protocol_revision_id'');
             a1 \<leftarrow> stored (get_i64 row ''world_revision_id'');
             a2 \<leftarrow> stored (get_i64 row ''measurement_revision_id'');
             a3 \<leftarrow> stored (get_i64 row ''institution_revision_id'');
             a4 \<leftarrow> stored (get_i64 row ''population_snapshot_id'');
             a5 \<leftarrow> stored_digest (get_bytes row ''randomization_digest'');
             Some (AdmitEpisode a0 a1 a2 a3 a4 a5) }
      else if kind = 7 then
        do { a0 \<leftarrow> stored (get_i64 row ''study_episode_id'');
             a1 \<leftarrow> get_i64 row ''study_treatment'' \<bind> treatment_from_i64;
             Some (AssignTreatment a0 a1) }
      else if kind = 8 then
        do { a0 \<leftarrow> stored (get_i64 row ''study_episode_id'');
             a1 \<leftarrow> stored (get_i64 row ''related_study_episode_id'');
             Some (AdmitMatchedPair a0 a1) }
      else if kind = 29 then
        do { a0 \<leftarrow> stored (get_i64 row ''protocol_revision_id'');
             a1 \<leftarrow> stored (get_i64 row ''plan_content_object_id'');
             a2 \<leftarrow> stored_digest (get_bytes row ''plan_digest'');
             a3 \<leftarrow> stored_as pair_ordinal_ok (get_i64 row ''pair_count'');
             Some (AdmitStudyRun a0 a1 a2 a3) }
      else if kind = 30 then
        do { a0 \<leftarrow> stored (get_i64 row ''study_run_id'');
             a1 \<leftarrow> stored_as pair_ordinal_ok (get_i64 row ''pair_ordinal'');
             a2 \<leftarrow> stored (get_i64 row ''study_pair_id'');
             a3 \<leftarrow> stored_digest (get_bytes row ''randomization_digest'');
             Some (RegisterStudyRunPair a0 a1 a2 a3) }
      else if kind = 31 then
        do { a0 \<leftarrow> stored (get_i64 row ''study_run_id'');
             Some (StartStudyRun a0) }
      else if kind = 33 then
        do { a0 \<leftarrow> stored (get_i64 row ''study_run_id'');
             Some (CompleteStudyRun a0) }
      else if kind = 9 then
        do { a0 \<leftarrow> stored (get_i64 row ''study_episode_id'');
             a1 \<leftarrow> stored_digest (get_bytes row ''charter_digest'');
             Some (CreateEpisodeForum a0 a1) }
      else if kind = 10 then
        do { a0 \<leftarrow> stored (get_i64 row ''forum_id'');
             a1 \<leftarrow> stored_as forum_thread_title_ok (get_text row ''text_value'');
             Some (OpenForumThread a0 a1) }
      else if kind = 11 then
        do { a0 \<leftarrow> stored (get_i64 row ''study_episode_id'');
             a1 \<leftarrow> get_i64 row ''population_phase'' \<bind> population_phase_from_stored;
             a2 \<leftarrow> stored_as ordinal64_ok (get_i64 row ''role_ordinal'');
             a3 \<leftarrow> stored_digest (get_bytes row ''private_view_digest'');
             a4 \<leftarrow> stored_digest (get_bytes row ''forum_prompt_digest'');
             a5 \<leftarrow> stored_digest (get_bytes row ''forum_tool_digest'');
             a6 \<leftarrow> stored_as budget_units_ok (get_i64 row ''budget_units'');
             a7 \<leftarrow> stored_as forum_budget_ok (get_i64 row ''read_budget'');
             a8 \<leftarrow> stored_as forum_budget_ok (get_i64 row ''post_budget'');
             Some (AdmitActorObligation a0 a1 a2 a3 a4 a5 a6 a7 a8) }
      else if kind = 12 then
        do { a0 \<leftarrow> stored (get_i64 row ''obligation_id'');
             a1 \<leftarrow> stored_as budget_units_ok (get_i64 row ''charged_budget_units'');
             Some (CompleteActorObligation a0 a1) }
      else if kind = 24 then
        do { a0 \<leftarrow> stored (get_i64 row ''obligation_id'');
             a1 \<leftarrow> stored_digest (get_bytes row ''reason_digest'');
             Some (FailActorObligation a0 a1) }
      else if kind = 26 then
        do { a0 \<leftarrow> stored (get_i64 row ''obligation_id'');
             a1 \<leftarrow> stored (get_i64 row ''root_authority_office_session_id'');
             a2 \<leftarrow> stored (get_i64 row ''native_child_id'');
             a3 \<leftarrow> stored (get_i64 row ''native_child_spawn_admission_id'');
             Some (BindActorRuntime a0 a1 a2 a3) }
      else if kind = 28 then
        do { a0 \<leftarrow> stored (get_i64 row ''obligation_id'');
             a1 \<leftarrow> stored (get_i64 row ''actor_attempt_id'');
             a2 \<leftarrow> stored (get_i64 row ''native_child_id'');
             a3 \<leftarrow> stored (get_i64 row ''native_child_spawn_admission_id'');
             Some (BindActorTaskAttemptRuntime a0 a1 a2 a3) }
      else if kind = 27 then
        do { a0 \<leftarrow> stored (get_i64 row ''obligation_id'');
             a1 \<leftarrow> stored (get_i64 row ''native_child_id'');
             Some (ReconcileActorRuntime a0 a1) }
      else if kind = 32 then
        do { a0 \<leftarrow> stored (get_i64 row ''obligation_id'');
             a1 \<leftarrow> stored (get_i64 row ''actor_attempt_id'');
             a2 \<leftarrow> stored (get_i64 row ''native_child_id'');
             a3 \<leftarrow> stored (get_i64 row ''native_child_recovery_receipt_id'');
             Some (SettleActorTaskAttemptAfterRecovery a0 a1 a2 a3) }
      else if kind = 13 then
        do { a0 \<leftarrow> stored (get_i64 row ''study_episode_id'');
             a1 \<leftarrow> stored (get_i64 row ''thread_id'');
             Some (FreezeForumHead a0 a1) }
      else if kind = 14 then
        do { a0 \<leftarrow> stored (get_i64 row ''study_episode_id'');
             a1 \<leftarrow> stored (get_i64 row ''population_snapshot_id'');
             Some (ReplacePopulation a0 a1) }
      else if kind = 15 then
        do { a0 \<leftarrow> stored (get_i64 row ''obligation_id'');
             a1 \<leftarrow> stored (get_i64 row ''forum_id'');
             a2 \<leftarrow> get_i64 row ''first_ordinal'';
             Some (AdmitForumExposure a0 a1 a2) }
      else if kind = 16 then
        do { a0 \<leftarrow> stored (get_i64 row ''obligation_id'');
             a1 \<leftarrow> get_i64 row ''message_kind'' \<bind> message_kind_from_i64;
             a2 \<leftarrow> stored_as forum_message_body_ok (get_text row ''text_value'');
             a3 \<leftarrow> stored_optional study_identifier_new (get_i64 row ''message_id'');
             a4 \<leftarrow> stored_optional study_identifier_new (get_i64 row ''related_message_id'');
             Some (PublishForumMessage a0 a1 a2 a3 a4) }
      else if kind = 23 then
        do { a0 \<leftarrow> stored (get_i64 row ''obligation_id'');
             a1 \<leftarrow> stored (get_i64 row ''message_id'');
             Some (RetractForumMessage a0 a1) }
      else if kind = 17 then
        do { a0 \<leftarrow> stored (get_i64 row ''study_pair_id'');
             a1 \<leftarrow> stored (get_i64 row ''thread_id'');
             a2 \<leftarrow> stored (get_i64 row ''related_thread_id'');
             a3 \<leftarrow> stored_as forum_message_body_ok (get_text row ''text_value'');
             Some (ReleaseMatchedCorrection a0 a1 a2 a3) }
      else if kind = 18 then
        do { a0 \<leftarrow> stored (get_i64 row ''obligation_id'');
             a1 \<leftarrow> get_i64 row ''first_ordinal'';
             a2 \<leftarrow> get_i64 row ''through_ordinal'';
             a3 \<leftarrow> stored (get_i64 row ''rendered_content_object_id'');
             Some (ReadForum a0 a1 a2 a3) }
      else if kind = 19 then
        do { a0 \<leftarrow> stored (get_i64 row ''obligation_id'');
             a1 \<leftarrow> stored_as study_decision_body_ok (get_text row ''text_value'');
             a2 \<leftarrow> stored_optional study_identifier_new (get_i64 row ''message_id'');
             d \<leftarrow> stored_digest (get_bytes row ''decision_digest'');
             if h a1 \<noteq> d then None else Some (RecordDecision a0 a1 a2) }
      else if kind = 25 then
        do { a0 \<leftarrow> stored (get_i64 row ''study_episode_id'');
             a1 \<leftarrow> stored_as study_ground_truth_reveal_ok (get_text row ''text_value'');
             d \<leftarrow> stored_digest (get_bytes row ''body_digest'');
             if h a1 \<noteq> d then None else Some (RevealGroundTruth a0 a1) }
      else if kind = 20 then
        do { a0 \<leftarrow> stored (get_i64 row ''study_episode_id'');
             a1 \<leftarrow> stored_as ordinal64_ok (get_i64 row ''measurement_slot'');
             a2 \<leftarrow> get_i64 row ''measurement_status'' \<bind> measurement_status_from_i64;
             a3 \<leftarrow> Some (get_i64 row ''observed_value'');
             a4 \<leftarrow> stored_optional exact_digest (get_bytes row ''value_digest'');
             a5 \<leftarrow> stored_optional exact_digest (get_bytes row ''reason_digest'');
             Some (RecordMeasurementResult a0 a1 a2 a3 a4 a5) }
      else if kind = 21 then
        do { a0 \<leftarrow> stored (get_i64 row ''study_episode_id'');
             Some (CloseEpisode a0) }
      else if kind = 22 then
        do { a0 \<leftarrow> stored (get_i64 row ''study_episode_id'');
             a1 \<leftarrow> get_i64 row ''study_treatment'' \<bind> treatment_from_i64;
             Some (ForkEpisode a0 a1) }
      else None)"

definition decode_command_body :: "(byte list \<Rightarrow> digest) \<Rightarrow> sql_row \<Rightarrow> study_command option" where
  "decode_command_body h row =
     (case get_i64 row ''study_command_kind'' of
        None \<Rightarrow> None
      | Some kind \<Rightarrow> decode_command_columns h kind row)"

section \<open>Event bodies\<close>

text \<open>The execution profile is not stored with the event.\<close>

definition event_columns :: "study_event \<Rightarrow> sql_row" where
  "event_columns ev = (case ev of
     ProtocolRevisionAdmitted a0 \<Rightarrow>
         [(''primary_id'', SqlInt a0)]
   | WorldRevisionAdmitted a0 \<Rightarrow>
         [(''primary_id'', SqlInt a0)]
   | MeasurementRevisionAdmitted a0 \<Rightarrow>
         [(''primary_id'', SqlInt a0)]
   | InstitutionRevisionAdmitted a0 \<Rightarrow>
         [(''primary_id'', SqlInt a0)]
   | PopulationSnapshotAdmitted a0 \<Rightarrow>
         [(''primary_id'', SqlInt a0)]
   | EpisodeAdmitted a0 \<Rightarrow>
         [(''study_episode_id'', SqlInt a0)]
   | TreatmentAssigned a0 a1 a2 \<Rightarrow>
         [(''primary_id'', SqlInt a0), (''study_episode_id'', SqlInt a1),
           (''study_treatment'', SqlInt (treatment_code a2))]
   | MatchedPairAdmitted a0 \<Rightarrow>
         [(''primary_id'', SqlInt a0)]
   | StudyRunAdmitted a0 a1 a2 a3 a4 \<Rightarrow>
         [(''study_run_id'', SqlInt a0), (''protocol_revision_id'', SqlInt a1),
           (''plan_content_object_id'', SqlInt a2), (''plan_digest'', SqlBytes a3),
           (''pair_count'', SqlInt a4)]
   | StudyRunPairRegistered a0 a1 a2 a3 a4 \<Rightarrow>
         [(''study_run_id'', SqlInt a0), (''study_pair_id'', SqlInt a1),
           (''pair_ordinal'', SqlInt a2), (''randomization_digest'', SqlBytes a3),
           (''study_run_lifecycle_state'', SqlInt (run_lifecycle_code a4))]
   | StudyRunStarted a0 \<Rightarrow>
         [(''study_run_id'', SqlInt a0)]
   | StudyRunCompleted a0 \<Rightarrow>
         [(''study_run_id'', SqlInt a0)]
   | EpisodeForumCreated a0 a1 \<Rightarrow>
         [(''forum_id'', SqlInt a0), (''study_episode_id'', SqlInt a1)]
   | ForumThreadOpened a0 a1 \<Rightarrow>
         [(''thread_id'', SqlInt a0), (''forum_id'', SqlInt a1)]
   | ActorObligationAdmitted a0 a1 a2 a3 a4 \<Rightarrow>
         [(''primary_id'', SqlInt a3), (''obligation_id'', SqlInt a0),
           (''actor_occurrence_id'', SqlInt a1), (''study_episode_id'', SqlInt a2),
           (''population_phase'', SqlInt (population_phase_code a4))]
   | ActorObligationCompleted a0 \<Rightarrow>
         [(''obligation_id'', SqlInt a0)]
   | ActorObligationFailed a0 a1 \<Rightarrow>
         [(''obligation_id'', SqlInt a0), (''body_digest'', SqlBytes a1)]
   | ActorRuntimeBound a0 a1 a2 a3 _ \<Rightarrow>
         [(''obligation_id'', SqlInt a0), (''primary_id'', SqlInt a2),
           (''secondary_id'', SqlInt a3), (''tertiary_id'', SqlInt a1)]
   | ActorTaskAttemptRuntimeBound a0 a1 a2 a3 _ \<Rightarrow>
         [(''obligation_id'', SqlInt a0), (''primary_id'', SqlInt a2),
           (''secondary_id'', SqlInt a3), (''tertiary_id'', SqlInt a1)]
   | ActorRuntimeReconciled a0 a1 \<Rightarrow>
         [(''obligation_id'', SqlInt a0), (''primary_id'', SqlInt a1)]
   | ActorTaskAttemptRecoverySettled a0 a1 a2 a3 a4 \<Rightarrow>
         [(''obligation_id'', SqlInt a0), (''primary_id'', SqlInt a2),
           (''secondary_id'', SqlInt a1), (''tertiary_id'', SqlInt a3),
           (''recovery_accounting_state'', SqlInt (recovery_accounting_code a4))]
   | GroundTruthRevealed a0 a1 \<Rightarrow>
         [(''study_episode_id'', SqlInt a0), (''body_digest'', SqlBytes a1)]
   | ForumHeadFrozen a0 a1 a2 \<Rightarrow>
         [(''study_episode_id'', SqlInt a0), (''thread_id'', SqlInt a1),
           (''through_ordinal'', SqlInt a2)]
   | PopulationReplaced a0 a1 \<Rightarrow>
         [(''primary_id'', SqlInt a1), (''study_episode_id'', SqlInt a0)]
   | ForumExposureAdmitted a0 a1 a2 a3 \<Rightarrow>
         [(''primary_id'', SqlInt a0), (''obligation_id'', SqlInt a1),
           (''first_ordinal'', SqlInt a2), (''through_ordinal'', SqlInt a3)]
   | ForumMessagePublished a0 a1 a2 a3 a4 a5 \<Rightarrow>
         [(''message_id'', SqlInt a0), (''thread_id'', SqlInt a1),
           (''actor_occurrence_id'', SqlInt a3), (''through_ordinal'', SqlInt a2),
           (''message_kind'', SqlInt (message_kind_code a4)), (''body_digest'', SqlBytes a5)]
   | MatchedCorrectionReleased a0 a1 a2 a3 \<Rightarrow>
         [(''primary_id'', SqlInt a0), (''secondary_id'', SqlInt a1),
           (''tertiary_id'', SqlInt a2), (''body_digest'', SqlBytes a3)]
   | ForumMessagesRead a0 a1 a2 a3 a4 a5 a6 \<Rightarrow>
         [(''primary_id'', SqlInt a0), (''obligation_id'', SqlInt a1),
           (''thread_id'', SqlInt a2), (''first_ordinal'', SqlInt a3),
           (''through_ordinal'', SqlInt a4), (''rendered_digest'', SqlBytes a5),
           (''rendered_content_object_id'', SqlInt a6)]
   | DecisionRecorded a0 \<Rightarrow>
         [(''obligation_id'', SqlInt a0)]
   | MeasurementResultRecorded a0 a1 a2 \<Rightarrow>
         [(''primary_id'', SqlInt a0), (''study_episode_id'', SqlInt a1),
           (''measurement_status'', SqlInt (measurement_status_code a2))]
   | EpisodeClosed a0 \<Rightarrow>
         [(''study_episode_id'', SqlInt a0)]
   | ExperimentalForkCreated a0 a1 a2 a3 \<Rightarrow>
         [(''primary_id'', SqlInt a0), (''secondary_id'', SqlInt a1),
           (''tertiary_id'', SqlInt a2), (''study_treatment'', SqlInt (treatment_code a3))]
   | ForumMessageRetracted a0 a1 \<Rightarrow>
         [(''message_id'', SqlInt a0), (''obligation_id'', SqlInt a1)])"

definition insert_event_body :: "study_event \<Rightarrow> sql_row" where
  "insert_event_body ev = (''study_event_kind'', SqlInt (study_event_kind ev)) # event_columns ev"

text \<open>The profile of a bound runtime is read again from its spawn admission.\<close>

definition admission_profile :: "(int, admission_row) table \<Rightarrow> int \<Rightarrow> int option" where
  "admission_profile admissions k =
     (case select_pk admissions k of None \<Rightarrow> None | Some ad \<Rightarrow> stored (ad_profile ad))"

definition decode_event_columns ::
  "(int, admission_row) table \<Rightarrow> int \<Rightarrow> sql_row \<Rightarrow> study_event option" where
  "decode_event_columns admissions kind row =
     (if kind = 1 then
        do { a0 \<leftarrow> stored (get_i64 row ''primary_id'');
             Some (ProtocolRevisionAdmitted a0) }
      else if kind = 2 then
        do { a0 \<leftarrow> stored (get_i64 row ''primary_id'');
             Some (WorldRevisionAdmitted a0) }
      else if kind = 3 then
        do { a0 \<leftarrow> stored (get_i64 row ''primary_id'');
             Some (MeasurementRevisionAdmitted a0) }
      else if kind = 4 then
        do { a0 \<leftarrow> stored (get_i64 row ''primary_id'');
             Some (InstitutionRevisionAdmitted a0) }
      else if kind = 5 then
        do { a0 \<leftarrow> stored (get_i64 row ''primary_id'');
             Some (PopulationSnapshotAdmitted a0) }
      else if kind = 6 then
        do { a0 \<leftarrow> stored (get_i64 row ''study_episode_id'');
             Some (EpisodeAdmitted a0) }
      else if kind = 7 then
        do { a0 \<leftarrow> stored (get_i64 row ''primary_id'');
             a1 \<leftarrow> stored (get_i64 row ''study_episode_id'');
             a2 \<leftarrow> get_i64 row ''study_treatment'' \<bind> treatment_from_i64;
             Some (TreatmentAssigned a0 a1 a2) }
      else if kind = 8 then
        do { a0 \<leftarrow> stored (get_i64 row ''primary_id'');
             Some (MatchedPairAdmitted a0) }
      else if kind = 29 then
        do { a0 \<leftarrow> stored (get_i64 row ''study_run_id'');
             a1 \<leftarrow> stored (get_i64 row ''protocol_revision_id'');
             a2 \<leftarrow> stored (get_i64 row ''plan_content_object_id'');
             a3 \<leftarrow> stored_digest (get_bytes row ''plan_digest'');
             a4 \<leftarrow> stored_as pair_ordinal_ok (get_i64 row ''pair_count'');
             Some (StudyRunAdmitted a0 a1 a2 a3 a4) }
      else if kind = 30 then
        do { a0 \<leftarrow> stored (get_i64 row ''study_run_id'');
             a1 \<leftarrow> stored (get_i64 row ''study_pair_id'');
             a2 \<leftarrow> stored_as pair_ordinal_ok (get_i64 row ''pair_ordinal'');
             a3 \<leftarrow> stored_digest (get_bytes row ''randomization_digest'');
             a4 \<leftarrow> get_i64 row ''study_run_lifecycle_state'' \<bind> study_run_lifecycle_state_from_i64;
             Some (StudyRunPairRegistered a0 a1 a2 a3 a4) }
      else if kind = 31 then
        do { a0 \<leftarrow> stored (get_i64 row ''study_run_id'');
             Some (StudyRunStarted a0) }
      else if kind = 33 then
        do { a0 \<leftarrow> stored (get_i64 row ''study_run_id'');
             Some (StudyRunCompleted a0) }
      else if kind = 9 then
        do { a0 \<leftarrow> stored (get_i64 row ''forum_id'');
             a1 \<leftarrow> stored (get_i64 row ''study_episode_id'');
             Some (EpisodeForumCreated a0 a1) }
      else if kind = 10 then
        do { a0 \<leftarrow> stored (get_i64 row ''thread_id'');
             a1 \<leftarrow> stored (get_i64 row ''forum_id'');
             Some (ForumThreadOpened a0 a1) }
      else if kind = 11 then
        do { a3 \<leftarrow> stored (get_i64 row ''primary_id'');
             a0 \<leftarrow> stored (get_i64 row ''obligation_id'');
             a1 \<leftarrow> stored (get_i64 row ''actor_occurrence_id'');
             a2 \<leftarrow> stored (get_i64 row ''study_episode_id'');
             a4 \<leftarrow> get_i64 row ''population_phase'' \<bind> population_phase_from_stored;
             Some (ActorObligationAdmitted a0 a1 a2 a3 a4) }
      else if kind = 12 then
        do { a0 \<leftarrow> stored (get_i64 row ''obligation_id'');
             Some (ActorObligationCompleted a0) }
      else if kind = 24 then
        do { a0 \<leftarrow> stored (get_i64 row ''obligation_id'');
             a1 \<leftarrow> stored_digest (get_bytes row ''body_digest'');
             Some (ActorObligationFailed a0 a1) }
      else if kind = 26 then
        do { a0 \<leftarrow> stored (get_i64 row ''obligation_id'');
             a2 \<leftarrow> stored (get_i64 row ''primary_id'');
             a3 \<leftarrow> stored (get_i64 row ''secondary_id'');
             a1 \<leftarrow> stored (get_i64 row ''tertiary_id'');
             a4 \<leftarrow> admission_profile admissions a3;
             Some (ActorRuntimeBound a0 a1 a2 a3 a4) }
      else if kind = 28 then
        do { a0 \<leftarrow> stored (get_i64 row ''obligation_id'');
             a2 \<leftarrow> stored (get_i64 row ''primary_id'');
             a3 \<leftarrow> stored (get_i64 row ''secondary_id'');
             a1 \<leftarrow> stored (get_i64 row ''tertiary_id'');
             a4 \<leftarrow> admission_profile admissions a3;
             Some (ActorTaskAttemptRuntimeBound a0 a1 a2 a3 a4) }
      else if kind = 27 then
        do { a0 \<leftarrow> stored (get_i64 row ''obligation_id'');
             a1 \<leftarrow> stored (get_i64 row ''primary_id'');
             Some (ActorRuntimeReconciled a0 a1) }
      else if kind = 32 then
        do { a0 \<leftarrow> stored (get_i64 row ''obligation_id'');
             a2 \<leftarrow> stored (get_i64 row ''primary_id'');
             a1 \<leftarrow> stored (get_i64 row ''secondary_id'');
             a3 \<leftarrow> stored (get_i64 row ''tertiary_id'');
             a4 \<leftarrow> get_i64 row ''recovery_accounting_state'' \<bind> recovery_accounting_state_from_i64;
             Some (ActorTaskAttemptRecoverySettled a0 a1 a2 a3 a4) }
      else if kind = 25 then
        do { a0 \<leftarrow> stored (get_i64 row ''study_episode_id'');
             a1 \<leftarrow> stored_digest (get_bytes row ''body_digest'');
             Some (GroundTruthRevealed a0 a1) }
      else if kind = 13 then
        do { a0 \<leftarrow> stored (get_i64 row ''study_episode_id'');
             a1 \<leftarrow> stored (get_i64 row ''thread_id'');
             a2 \<leftarrow> get_i64 row ''through_ordinal'';
             Some (ForumHeadFrozen a0 a1 a2) }
      else if kind = 14 then
        do { a1 \<leftarrow> stored (get_i64 row ''primary_id'');
             a0 \<leftarrow> stored (get_i64 row ''study_episode_id'');
             Some (PopulationReplaced a0 a1) }
      else if kind = 15 then
        do { a0 \<leftarrow> stored (get_i64 row ''primary_id'');
             a1 \<leftarrow> stored (get_i64 row ''obligation_id'');
             a2 \<leftarrow> get_i64 row ''first_ordinal'';
             a3 \<leftarrow> get_i64 row ''through_ordinal'';
             Some (ForumExposureAdmitted a0 a1 a2 a3) }
      else if kind = 16 then
        do { a0 \<leftarrow> stored (get_i64 row ''message_id'');
             a1 \<leftarrow> stored (get_i64 row ''thread_id'');
             a3 \<leftarrow> stored (get_i64 row ''actor_occurrence_id'');
             a2 \<leftarrow> get_i64 row ''through_ordinal'';
             a4 \<leftarrow> get_i64 row ''message_kind'' \<bind> message_kind_from_i64;
             a5 \<leftarrow> stored_digest (get_bytes row ''body_digest'');
             Some (ForumMessagePublished a0 a1 a2 a3 a4 a5) }
      else if kind = 17 then
        do { a0 \<leftarrow> stored (get_i64 row ''primary_id'');
             a1 \<leftarrow> stored (get_i64 row ''secondary_id'');
             a2 \<leftarrow> stored (get_i64 row ''tertiary_id'');
             a3 \<leftarrow> stored_digest (get_bytes row ''body_digest'');
             Some (MatchedCorrectionReleased a0 a1 a2 a3) }
      else if kind = 18 then
        do { a0 \<leftarrow> stored (get_i64 row ''primary_id'');
             a1 \<leftarrow> stored (get_i64 row ''obligation_id'');
             a2 \<leftarrow> stored (get_i64 row ''thread_id'');
             a3 \<leftarrow> get_i64 row ''first_ordinal'';
             a4 \<leftarrow> get_i64 row ''through_ordinal'';
             a5 \<leftarrow> stored_digest (get_bytes row ''rendered_digest'');
             a6 \<leftarrow> stored (get_i64 row ''rendered_content_object_id'');
             Some (ForumMessagesRead a0 a1 a2 a3 a4 a5 a6) }
      else if kind = 19 then
        do { a0 \<leftarrow> stored (get_i64 row ''obligation_id'');
             Some (DecisionRecorded a0) }
      else if kind = 20 then
        do { a0 \<leftarrow> stored (get_i64 row ''primary_id'');
             a1 \<leftarrow> stored (get_i64 row ''study_episode_id'');
             a2 \<leftarrow> get_i64 row ''measurement_status'' \<bind> measurement_status_from_i64;
             Some (MeasurementResultRecorded a0 a1 a2) }
      else if kind = 21 then
        do { a0 \<leftarrow> stored (get_i64 row ''study_episode_id'');
             Some (EpisodeClosed a0) }
      else if kind = 22 then
        do { a0 \<leftarrow> stored (get_i64 row ''primary_id'');
             a1 \<leftarrow> stored (get_i64 row ''secondary_id'');
             a2 \<leftarrow> stored (get_i64 row ''tertiary_id'');
             a3 \<leftarrow> get_i64 row ''study_treatment'' \<bind> treatment_from_i64;
             Some (ExperimentalForkCreated a0 a1 a2 a3) }
      else if kind = 23 then
        do { a0 \<leftarrow> stored (get_i64 row ''message_id'');
             a1 \<leftarrow> stored (get_i64 row ''obligation_id'');
             Some (ForumMessageRetracted a0 a1) }
      else None)"

definition decode_event_body :: "(int, admission_row) table \<Rightarrow> sql_row \<Rightarrow> study_event option" where
  "decode_event_body admissions row =
     (case get_i64 row ''study_event_kind'' of
        None \<Rightarrow> None
      | Some kind \<Rightarrow> decode_event_columns admissions kind row)"

section \<open>Round trips\<close>

named_theorems decoding \<open>what the field decoders return on what was stored\<close>

lemma get_stored [decoding]:
  "get_i64 ((c, SqlInt v) # row) c = Some v" "get_bytes ((c, SqlBytes b) # row) c = Some b"
  "get_text ((c, SqlText b) # row) c = Some b"
  "get_i64 ((c, sql_optional SqlInt x) # row) c = x"
  "get_bytes ((c, sql_optional SqlBytes y) # row) c = y"
  by (auto simp: get_i64_def get_bytes_def get_text_def sql_optional_def split: option.splits)

lemma get_other [decoding]:
  "d \<noteq> c \<Longrightarrow> get_i64 ((d, v) # row) c = get_i64 row c"
  "d \<noteq> c \<Longrightarrow> get_bytes ((d, v) # row) c = get_bytes row c"
  "d \<noteq> c \<Longrightarrow> get_text ((d, v) # row) c = get_text row c"
  by (simp_all add: get_i64_def get_bytes_def get_text_def)

lemma stored_ok [decoding]:
  "identifier_ok v \<Longrightarrow> stored (Some v) = Some v" "digest_ok d \<Longrightarrow> stored_digest (Some d) = Some d"
  "ok x \<Longrightarrow> stored_as ok (Some x) = Some x"
  "optional_ok identifier_ok w \<Longrightarrow> stored_optional study_identifier_new w = Some w"
  "optional_ok digest_ok e \<Longrightarrow> stored_optional exact_digest e = Some e"
  by (auto simp: stored_def identifier_ok_def stored_digest_def exact_digest_def digest_ok_def stored_as_def
      stored_optional_def optional_ok_def split: option.splits)

lemma from_i64_code [decoding]:
  "treatment_from_i64 (treatment_code t) = Some t"
  "study_run_lifecycle_state_from_i64 (run_lifecycle_code r) = Some r"
  "recovery_accounting_state_from_i64 (recovery_accounting_code a) = Some a"
  "population_phase_from_stored (population_phase_code p) = Some p"
  "message_kind_from_i64 (message_kind_code k) = Some k"
  "measurement_status_from_i64 (measurement_status_code s) = Some s"
proof -
  show "treatment_from_i64 (treatment_code t) = Some t" by (cases t) (simp_all add: treatment_from_i64_def)
  show "study_run_lifecycle_state_from_i64 (run_lifecycle_code r) = Some r"
    by (cases r) (simp_all add: study_run_lifecycle_state_from_i64_def)
  show "recovery_accounting_state_from_i64 (recovery_accounting_code a) = Some a"
    by (induction a) (simp add: recovery_accounting_state_from_i64_def)
  show "population_phase_from_stored (population_phase_code p) = Some p"
    by (cases p) (simp_all add: population_phase_from_stored_def)
  show "message_kind_from_i64 (message_kind_code k) = Some k"
    by (cases k) (simp_all add: message_kind_from_i64_def)
  show "measurement_status_from_i64 (measurement_status_code s) = Some s"
    by (cases s) (simp_all add: measurement_status_from_i64_def)
qed

lemma decode_insert_command:
  assumes h: "\<And>b. digest_ok (h b)" and ok: "study_command_exact cmd"
  shows "decode_command_body h (insert_command_body h cmd) = Some cmd"
proof -
  have "decode_command_columns h (study_command_kind cmd) (insert_command_body h cmd) = Some cmd"
    using ok
    by (cases cmd; simp add: study_command_exact_def decode_command_columns_def insert_command_body_def
        command_columns_def study_command_kind_def decoding h)
  then show ?thesis by (simp add: decode_command_body_def insert_command_body_def decoding)
qed

text \<open>The profile an event of a bound runtime names is the one its admission still has.\<close>

definition event_current :: "(int, admission_row) table \<Rightarrow> study_event \<Rightarrow> bool" where
  "event_current admissions ev = (case ev of
     ActorRuntimeBound _ _ _ k profile \<Rightarrow> admission_profile admissions k = Some profile
   | ActorTaskAttemptRuntimeBound _ _ _ k profile \<Rightarrow> admission_profile admissions k = Some profile
   | _ \<Rightarrow> True)"

lemma decode_insert_event:
  assumes cur: "event_current admissions ev" and ok: "study_event_exact ev"
  shows "decode_event_body admissions (insert_event_body ev) = Some ev"
proof -
  have "decode_event_columns admissions (study_event_kind ev) (insert_event_body ev) = Some ev"
    using ok cur
    by (cases ev; simp add: study_event_exact_def decode_event_columns_def insert_event_body_def
        event_columns_def study_event_kind_def event_current_def decoding)
  then show ?thesis by (simp add: decode_event_body_def insert_event_body_def decoding)
qed

section \<open>What a decoder returns is well typed\<close>

text \<open>\<open>BIGINT\<close> columns hold 64-bit values.\<close>

definition bigint_row :: "sql_row \<Rightarrow> bool" where
  "bigint_row row \<longleftrightarrow> (\<forall>c v. map_of row c = Some (SqlInt v) \<longrightarrow> in_i64 v)"

lemma get_i64_bigint: "bigint_row row \<Longrightarrow> get_i64 row c = Some v \<Longrightarrow> in_i64 v"
  by (auto simp: bigint_row_def get_i64_def split: option.splits sql_value.splits)

lemma stored_identifier: "bigint_row row \<Longrightarrow> stored (get_i64 row c) = Some v \<Longrightarrow> identifier_ok v"
  using get_i64_bigint [of row c]
  by (auto simp: stored_def identifier_ok_def study_identifier_new_def split: option.splits if_splits)

lemma stored_digest_ok: "stored_digest b = Some d \<Longrightarrow> digest_ok d"
  by (auto simp: stored_digest_def exact_digest_def digest_ok_def split: option.splits if_splits)

lemma stored_as_ok: "stored_as ok v = Some x \<Longrightarrow> ok x"
  by (auto simp: stored_as_def split: option.splits if_splits)

lemma stored_optional_ok:
  "bigint_row row \<Longrightarrow> stored_optional study_identifier_new (get_i64 row c) = Some w \<Longrightarrow> optional_ok identifier_ok w"
  "stored_optional exact_digest b = Some e \<Longrightarrow> optional_ok digest_ok e"
  "bigint_row row \<Longrightarrow> optional_ok in_i64 (get_i64 row c)"
  using get_i64_bigint [of row c]
  by (auto simp: stored_optional_def optional_ok_def identifier_ok_def study_identifier_new_def exact_digest_def
      digest_ok_def split: option.splits if_splits)

lemmas decoded_int = stored_identifier stored_optional_ok(1) get_i64_bigint

lemmas decoded_optional = stored_optional_ok(3)

lemmas decoded_ok = stored_digest_ok stored_optional_ok(2)
  stored_as_ok [of budget_units_ok] stored_as_ok [of ordinal64_ok] stored_as_ok [of pair_ordinal_ok]
  stored_as_ok [of forum_budget_ok] stored_as_ok [of forum_thread_title_ok]
  stored_as_ok [of forum_message_body_ok] stored_as_ok [of study_decision_body_ok]
  stored_as_ok [of study_ground_truth_reveal_ok]

lemma if_SomeE: "(if c then x else y) = Some z \<Longrightarrow> (x = Some z \<Longrightarrow> P) \<Longrightarrow> (y = Some z \<Longrightarrow> P) \<Longrightarrow> P"
  by (auto split: if_splits)

lemma bind_SomeE: "Option.bind x f = Some z \<Longrightarrow> (\<And>a. x = Some a \<Longrightarrow> f a = Some z \<Longrightarrow> P) \<Longrightarrow> P"
  by (cases x) auto

lemma decode_command_exact:
  assumes row: "bigint_row row" and dec: "decode_command_body h row = Some cmd"
  shows "study_command_exact cmd"
proof -
  obtain k where k: "decode_command_columns h k row = Some cmd"
    using dec by (auto simp: decode_command_body_def split: option.splits)
  show ?thesis
    by (insert k, unfold decode_command_columns_def, elim if_SomeE bind_SomeE;
        clarsimp simp: study_command_exact_def decoded_optional [OF row];
        (intro conjI)?; (erule decoded_ok decoded_int [OF row])?)
qed

text \<open>The profile column of the spawn admissions is a \<open>BIGINT\<close>, too.\<close>

definition bigint_admissions :: "(int, admission_row) table \<Rightarrow> bool" where
  "bigint_admissions t \<longleftrightarrow> (\<forall>k a. select_pk t k = Some a \<longrightarrow> optional_ok in_i64 (ad_profile a))"

lemma admission_profile_ok:
  "bigint_admissions admissions \<Longrightarrow> admission_profile admissions k = Some p \<Longrightarrow> identifier_ok p"
  by (auto simp: bigint_admissions_def admission_profile_def stored_def identifier_ok_def study_identifier_new_def
      optional_ok_def split: option.splits if_splits)

lemma decode_event_exact:
  assumes row: "bigint_row row" and ad: "bigint_admissions admissions"
    and dec: "decode_event_body admissions row = Some ev"
  shows "study_event_exact ev \<and> event_current admissions ev"
proof -
  obtain k where k: "decode_event_columns admissions k row = Some ev"
    using dec by (auto simp: decode_event_body_def split: option.splits)
  show ?thesis
    by (insert k, unfold decode_event_columns_def, elim if_SomeE bind_SomeE;
        clarsimp simp: study_event_exact_def event_current_def;
        (intro conjI)?; (erule decoded_ok decoded_int [OF row] admission_profile_ok [OF ad])?)
qed

end
