(* ===== verification/Ledger.thy ===== *)
theory Ledger
  imports Study_Stored
begin

text \<open>
  The closed-command ledger of \<^verbatim>\<open>society-kernel/src/store.rs\<close>: \<open>execute\<close> accepts a command exactly
  once, answers a repeated request with its original receipt and refuses a changed one; a rejected
  command leaves only its typed request behind; an accepted one is linked to exactly one event.

  The ledger is generic in the family of command bodies it dispatches to.  The record
  \<open>command_family\<close> collects what \<open>execute_in_transaction\<close> calls on a body and on the events of the
  family; \<^verbatim>\<open>Kernel\<close> instantiates it with the study transitions.  \<open>None\<close> and \<open>DatabaseFailure\<close>
  stand for a statement the database refuses.
\<close>

section \<open>State\<close>

text \<open>The variants of \<open>StoreError\<close> the operations below return.\<close>

datatype store_error =
    IdempotencyConflict
  | LedgerCorruption string
  | InvalidStoredValue
  | LedgerEventNotFound int
  | DatabaseFailure

record grant_row =
  gr_principal :: int
  gr_capability :: int
  gr_state :: int
  gr_office :: "int option"
  gr_actor :: "int option"
  gr_consumed :: "int option"

text \<open>The rows of \<^verbatim>\<open>office_occupancies\<close>, \<^verbatim>\<open>actor_instances\<close> and \<^verbatim>\<open>principals\<close> a grant depends on.\<close>

record authority =
  au_grants :: "(int, grant_row) table"
  au_occupancies :: "(int, bool \<times> int) table"
  au_actors :: "(int, int \<times> int) table"
  au_principals :: "(int, bool) table"

record command_row =
  cm_id :: "byte list"
  cm_principal :: int
  cm_grant :: int
  cm_capability :: int
  cm_generation :: "int option"
  cm_kind :: int
  cm_fingerprint :: digest
  cm_status :: int
  cm_rejection :: "int option"
  cm_event :: "int option"

record event_row =
  ev_command :: int
  ev_kind :: int
  ev_sequence :: int
  ev_fingerprint :: digest

record 's kernel_db =
  commands :: "(int, command_row) table"
  command_bodies :: "(int, sql_row) table"
  events :: "(int, event_row) table"
  event_bodies :: "(int, sql_row) table"
  authorities :: authority
  material :: 's

section \<open>Requests and receipts\<close>

record 'b command_request =
  rq_id :: "byte list"
  rq_principal :: int
  rq_grant :: int
  rq_capability :: int
  rq_generation :: "int option"
  rq_body :: 'b

datatype disposition = Accepted int | Rejected rejection

record command_receipt =
  rc_disposition :: disposition
  rc_idempotent :: bool

text \<open>\<open>CommandId::parse\<close>: 1 to 128 ASCII graphic bytes.\<close>

definition command_id_ok :: "byte list \<Rightarrow> bool" where
  "command_id_ok b \<longleftrightarrow> b \<noteq> [] \<and> length b \<le> 128 \<and> list_all (\<lambda>x. 33 \<le> x \<and> x \<le> 126) b"

text \<open>\<open>AdmissionGeneration::try_from\<close>.\<close>

definition generation_ok :: "int \<Rightarrow> bool" where
  "generation_ok v \<longleftrightarrow> in_i64 v \<and> 0 \<le> v"

definition capability_ok :: "int \<Rightarrow> bool" where
  "capability_ok v \<longleftrightarrow> 1 \<le> v \<and> v \<le> 118"

text \<open>
  What the ledger asks of a family of command bodies: the kind and capability codes of a body, whether
  it names an admission generation, its fingerprint bytes, the row of its body table, the decoder of
  that row, the occupancy it targets, whether the qualification treatment fences it, and the
  transition itself; the kind, fingerprint bytes and body row of an event; the rollback of the
  material tables.
\<close>

record ('b, 'e, 's) command_family =
  cf_kind :: "'b \<Rightarrow> int"
  cf_capability :: "'b \<Rightarrow> int"
  cf_exact_generation :: "'b \<Rightarrow> bool"
  cf_fingerprint :: "'b \<Rightarrow> byte list"
  cf_insert_body :: "'s \<Rightarrow> 'b \<Rightarrow> sql_row option"
  cf_decode_body :: "int \<Rightarrow> sql_row \<Rightarrow> 'b option"
  cf_target :: "'s \<Rightarrow> 'b \<Rightarrow> rejection + int option"
  cf_fenced :: "'s \<Rightarrow> int \<Rightarrow> 'b \<Rightarrow> bool"
  cf_apply :: "int \<Rightarrow> 'b \<Rightarrow> 's \<Rightarrow> (rejection + 'e) \<times> 's"
  cf_event_kind :: "'e \<Rightarrow> int"
  cf_event_fingerprint :: "'e \<Rightarrow> byte list"
  cf_insert_event :: "'s \<Rightarrow> 'e \<Rightarrow> sql_row option"
  cf_decode_event :: "'s \<Rightarrow> int \<Rightarrow> sql_row \<Rightarrow> 'e option"
  cf_rollback :: "'s \<Rightarrow> 's \<Rightarrow> 's"

section \<open>Commitments\<close>

definition request_material :: "('b, 'e, 's) command_family \<Rightarrow> 'b command_request \<Rightarrow> byte list" where
  "request_material fam rq =
     put_bytes (rq_id rq) @ put_i64 (rq_principal rq) @ put_i64 (rq_grant rq) @ put_i64 (rq_capability rq)
     @ put_i64 (case rq_generation rq of None \<Rightarrow> - 1 | Some g \<Rightarrow> g)
     @ put_i64 (cf_kind fam (rq_body rq)) @ cf_fingerprint fam (rq_body rq)"

definition request_fingerprint ::
  "(byte list \<Rightarrow> digest) \<Rightarrow> ('b, 'e, 's) command_family \<Rightarrow> 'b command_request \<Rightarrow> digest" where
  "request_fingerprint h fam rq = h (request_material fam rq)"

definition event_fingerprint ::
  "(byte list \<Rightarrow> digest) \<Rightarrow> ('b, 'e, 's) command_family \<Rightarrow> int \<Rightarrow> byte list \<Rightarrow> 'e \<Rightarrow> digest" where
  "event_fingerprint h fam k command_id ev =
     h (put_i64 k @ put_bytes command_id @ put_i64 (cf_event_kind fam ev) @ cf_event_fingerprint fam ev)"

section \<open>Authority\<close>

datatype grant_lookup = GrantActive "int option" "int option" | GrantInactive

definition capability_grant :: "authority \<Rightarrow> int \<Rightarrow> int \<Rightarrow> int \<Rightarrow> store_error + grant_lookup option" where
  "capability_grant au principal_id capability grant =
     (case select_pk (au_grants au) grant of
        None \<Rightarrow> Inr None
      | Some g \<Rightarrow>
          if gr_principal g \<noteq> principal_id \<or> gr_capability g \<noteq> capability then Inr None
          else if gr_state g = 1 then
            (case (stored_optional study_identifier_new (gr_office g),
                   stored_optional study_identifier_new (gr_actor g)) of
               (Some office, Some actor) \<Rightarrow> Inr (Some (GrantActive office actor))
             | _ \<Rightarrow> Inl InvalidStoredValue)
          else Inr (Some GrantInactive))"

definition grant_has_active_occupancy :: "authority \<Rightarrow> int \<Rightarrow> bool" where
  "grant_has_active_occupancy au grant =
     (case select_pk (au_grants au) grant of
        None \<Rightarrow> False
      | Some g \<Rightarrow>
          (case gr_office g of
             None \<Rightarrow> False
           | Some o' \<Rightarrow>
               (case select_pk (au_occupancies au) o' of
                  None \<Rightarrow> False
                | Some (active, principal_id) \<Rightarrow> active \<and> principal_id = gr_principal g)))"

definition grant_has_active_actor_instance :: "authority \<Rightarrow> int \<Rightarrow> bool" where
  "grant_has_active_actor_instance au grant =
     (case select_pk (au_grants au) grant of
        None \<Rightarrow> False
      | Some g \<Rightarrow>
          (case gr_actor g of
             None \<Rightarrow> False
           | Some a \<Rightarrow>
               (case select_pk (au_actors au) a of
                  None \<Rightarrow> False
                | Some (lifecycle, principal_id) \<Rightarrow>
                    lifecycle = 1 \<and> select_pk (au_principals au) principal_id = Some True
                    \<and> principal_id = gr_principal g)))"

abbreviation (input) BOOTSTRAP :: int where
  "BOOTSTRAP \<equiv> 1"

abbreviation (input) KERNEL :: int where
  "KERNEL \<equiv> 2"

text \<open>
  The checks of \<open>apply_command\<close> on the grant of a request: its row, the occupancy or actor it hangs on,
  the occupancy the command targets and the treatment fence, the last two computed from the body.
\<close>

definition grant_allows ::
  "authority \<Rightarrow> int \<Rightarrow> int \<Rightarrow> int \<Rightarrow> rejection + int option \<Rightarrow> store_error + bool \<Rightarrow> store_error + (rejection + unit)" where
  "grant_allows au principal_id capability grant target fenced =
     (case capability_grant au principal_id capability grant of
        Inl e \<Rightarrow> Inl e
      | Inr None \<Rightarrow> Inr (Inl CapabilityNotGranted)
      | Inr (Some GrantInactive) \<Rightarrow> Inr (Inl CapabilityNoLongerActive)
      | Inr (Some (GrantActive office actor)) \<Rightarrow>
          if principal_id \<notin> {BOOTSTRAP, KERNEL}
             \<and> \<not> (case (office, actor) of
                    (Some _, None) \<Rightarrow> grant_has_active_occupancy au grant
                  | (None, Some _) \<Rightarrow> grant_has_active_actor_instance au grant
                  | _ \<Rightarrow> False)
          then Inr (Inl CapabilityNoLongerActive)
          else
            (case (if principal_id \<in> {BOOTSTRAP, KERNEL} then Inr None else target) of
               Inl x \<Rightarrow> Inr (Inl x)
             | Inr occupancy \<Rightarrow>
                 if occupancy \<noteq> None \<and> office \<noteq> occupancy then Inr (Inl CapabilityNoLongerActive)
                 else
                   (case fenced of
                      Inl e \<Rightarrow> Inl e
                    | Inr True \<Rightarrow> Inr (Inl QualificationTreatmentRestricted)
                    | Inr False \<Rightarrow> Inr (Inr ()))))"

text \<open>The checks of \<open>apply_command\<close> before the body is dispatched.\<close>

definition authorize ::
  "('b, 'e, 's) command_family \<Rightarrow> 'b command_request \<Rightarrow> 's kernel_db \<Rightarrow> store_error + (rejection + unit)" where
  "authorize fam rq db =
     (if rq_capability rq \<noteq> cf_capability fam (rq_body rq) then Inr (Inl CapabilityMismatch)
      else if cf_exact_generation fam (rq_body rq) \<noteq> (rq_generation rq \<noteq> None)
      then Inr (Inl InvalidExpectedGeneration)
      else grant_allows (authorities db) (rq_principal rq) (rq_capability rq) (rq_grant rq)
             (cf_target fam (material db) (rq_body rq))
             (Inr (cf_fenced fam (material db) (rq_principal rq) (rq_body rq))))"

text \<open>\<open>Capability::requires_consumption\<close>: the founding capabilities, from \<open>CreateSocietyIdentity\<close> to \<open>AdmitOperatingCycle\<close>.\<close>

definition requires_consumption :: "int \<Rightarrow> bool" where
  "requires_consumption capability \<longleftrightarrow> 1 \<le> capability \<and> capability \<le> 8"

text \<open>The grant an accepted bootstrap command uses up.\<close>

definition consume_grant :: "int \<Rightarrow> 'b command_request \<Rightarrow> authority \<Rightarrow> authority" where
  "consume_grant c rq au =
     (if rq_principal rq = BOOTSTRAP \<and> requires_consumption (rq_capability rq)
      then au\<lparr>au_grants := update_where (\<lambda>k g. k = rq_grant rq \<and> gr_state g = 1)
                 (\<lambda>g. g\<lparr>gr_state := 2, gr_consumed := Some c\<rparr>) (au_grants au)\<rparr>
      else au)"

definition apply_command ::
  "('b, 'e, 's) command_family \<Rightarrow> int \<Rightarrow> 'b command_request \<Rightarrow> 's kernel_db
   \<Rightarrow> (store_error + (rejection + 'e)) \<times> authority \<times> 's" where
  "apply_command fam c rq db =
     (case authorize fam rq db of
        Inl e \<Rightarrow> (Inl e, authorities db, material db)
      | Inr (Inl x) \<Rightarrow> (Inr (Inl x), authorities db, material db)
      | Inr (Inr _) \<Rightarrow>
          (case cf_apply fam c (rq_body rq) (material db) of
             (Inl x, s) \<Rightarrow> (Inr (Inl x), authorities db, s)
           | (Inr ev, s) \<Rightarrow> (Inr (Inr ev), consume_grant c rq (authorities db), s)))"

section \<open>Events\<close>

text \<open>\<open>COALESCE(MAX(f), 0)\<close>.\<close>

definition max_column :: "('k \<Rightarrow> 'r \<Rightarrow> int) \<Rightarrow> ('k, 'r) table \<Rightarrow> int" where
  "max_column f t = (if tb_rows t = [] then 0 else Max (set (map (\<lambda>(k, r). f k r) (tb_rows t))))"

definition insert_event ::
  "(byte list \<Rightarrow> digest) \<Rightarrow> ('b, 'e, 's) command_family \<Rightarrow> int \<Rightarrow> byte list \<Rightarrow> 'e \<Rightarrow> 's kernel_db
   \<Rightarrow> (store_error + int) \<times> 's kernel_db" where
  "insert_event h fam c command_id ev db =
     (let sequence = max_column (\<lambda>_ r. ev_sequence r) (events db) + 1;
          k = max_column (\<lambda>i _. i) (events db) + 1;
          row = \<lparr>ev_command = c, ev_kind = cf_event_kind fam ev, ev_sequence = sequence,
                 ev_fingerprint = event_fingerprint h fam k command_id ev\<rparr>
      in
      if \<not> in_i64 sequence \<or> \<not> in_i64 k then (Inl DatabaseFailure, db)
      else if k \<le> 0 then (Inl InvalidStoredValue, db)
      else
        (case insert_key
                (\<not> exists_where (\<lambda>_ r. ev_command r = c \<or> ev_sequence r = sequence) (events db)
                 \<and> 1 \<le> ev_kind row \<and> ev_kind row \<le> 112 \<and> 0 < sequence \<and> length (ev_fingerprint row) = 32)
                k row (events db) of
           None \<Rightarrow> (Inl DatabaseFailure, db)
         | Some t \<Rightarrow>
             (case cf_insert_event fam (material db) ev of
                None \<Rightarrow> (Inl DatabaseFailure, db\<lparr>events := t\<rparr>)
              | Some body \<Rightarrow>
                  (case insert_key True k body (event_bodies db) of
                     None \<Rightarrow> (Inl DatabaseFailure, db\<lparr>events := t\<rparr>)
                   | Some u \<Rightarrow> (Inr k, db\<lparr>events := t, event_bodies := u\<rparr>)))))"

section \<open>Execution\<close>

text \<open>The receipt of a command the ledger already holds.\<close>

definition stored_receipt :: "command_row \<Rightarrow> store_error + command_receipt" where
  "stored_receipt r =
     (if cm_status r = 1 then
        (case cm_event r of
           None \<Rightarrow> Inl (LedgerCorruption ''accepted command has no event'')
         | Some k \<Rightarrow> if k > 0 then Inr \<lparr>rc_disposition = Accepted k, rc_idempotent = True\<rparr>
                     else Inl InvalidStoredValue)
      else if cm_status r = 2 then
        (case cm_rejection r of
           None \<Rightarrow> Inl (LedgerCorruption ''rejected command has no rejection code'')
         | Some v \<Rightarrow>
             (case rejection_try_from v of
                None \<Rightarrow> Inl InvalidStoredValue
              | Some x \<Rightarrow> Inr \<lparr>rc_disposition = Rejected x, rc_idempotent = True\<rparr>))
      else Inl (LedgerCorruption ''unknown command status''))"

definition command_receipt_of :: "'s kernel_db \<Rightarrow> byte list \<Rightarrow> store_error + command_receipt option" where
  "command_receipt_of db command_id =
     (case select_where (\<lambda>_ r. cm_id r = command_id) (commands db) of
        None \<Rightarrow> Inr None
      | Some (_, r) \<Rightarrow> (case stored_receipt r of Inl e \<Rightarrow> Inl e | Inr rc \<Rightarrow> Inr (Some rc)))"

definition placeholder_row ::
  "(byte list \<Rightarrow> digest) \<Rightarrow> ('b, 'e, 's) command_family \<Rightarrow> 'b command_request \<Rightarrow> command_row" where
  "placeholder_row h fam rq =
     \<lparr>cm_id = rq_id rq, cm_principal = rq_principal rq, cm_grant = rq_grant rq,
      cm_capability = rq_capability rq, cm_generation = rq_generation rq,
      cm_kind = cf_kind fam (rq_body rq), cm_fingerprint = request_fingerprint h fam rq,
      cm_status = 2, cm_rejection = Some (rejection_as_i64 SubjectNotFound), cm_event = None\<rparr>"

definition row_checks :: "command_row \<Rightarrow> bool" where
  "row_checks r \<longleftrightarrow> 1 \<le> cm_capability r \<and> cm_capability r \<le> 118 \<and> 1 \<le> cm_kind r \<and> cm_kind r \<le> 118
     \<and> length (cm_fingerprint r) = 32"

text \<open>A command the ledger has not seen: its typed request is stored first, then it is applied.\<close>

definition execute_new ::
  "(byte list \<Rightarrow> digest) \<Rightarrow> ('b, 'e, 's) command_family \<Rightarrow> 'b command_request \<Rightarrow> 's kernel_db
   \<Rightarrow> (store_error + command_receipt) \<times> 's kernel_db" where
  "execute_new h fam rq db =
     (case insert_identity (row_checks (placeholder_row h fam rq)) (placeholder_row h fam rq) (commands db) of
        (None, t) \<Rightarrow> (Inl DatabaseFailure, db\<lparr>commands := t\<rparr>)
      | (Some c, t) \<Rightarrow>
          (case Option.bind (cf_insert_body fam (material db) (rq_body rq))
                  (\<lambda>body. insert_key True c body (command_bodies db)) of
             None \<Rightarrow> (Inl DatabaseFailure, db\<lparr>commands := t\<rparr>)
           | Some u \<Rightarrow>
               (let db1 = db\<lparr>commands := t, command_bodies := u\<rparr> in
                case apply_command fam c rq db1 of
                  (Inl e, au, s) \<Rightarrow> (Inl e, db1\<lparr>authorities := au, material := s\<rparr>)
                | (Inr (Inl x), au, s) \<Rightarrow>
                    (Inr \<lparr>rc_disposition = Rejected x, rc_idempotent = False\<rparr>,
                     db1\<lparr>material := cf_rollback fam (material db1) s,
                         commands := update_pk c (\<lambda>r. r\<lparr>cm_rejection := Some (rejection_as_i64 x)\<rparr>) t\<rparr>)
                | (Inr (Inr ev), au, s) \<Rightarrow>
                    (case insert_event h fam c (rq_id rq) ev (db1\<lparr>authorities := au, material := s\<rparr>) of
                       (Inl e, db2) \<Rightarrow> (Inl e, db2)
                     | (Inr k, db2) \<Rightarrow>
                         (Inr \<lparr>rc_disposition = Accepted k, rc_idempotent = False\<rparr>,
                          db2\<lparr>commands := update_pk c
                                (\<lambda>r. r\<lparr>cm_status := 1, cm_rejection := None, cm_event := Some k\<rparr>) t\<rparr>)))))"

definition execute_in_transaction ::
  "(byte list \<Rightarrow> digest) \<Rightarrow> ('b, 'e, 's) command_family \<Rightarrow> 'b command_request \<Rightarrow> 's kernel_db
   \<Rightarrow> (store_error + command_receipt) \<times> 's kernel_db" where
  "execute_in_transaction h fam rq db =
     (case select_where (\<lambda>_ r. cm_id r = rq_id rq) (commands db) of
        Some (_, r) \<Rightarrow>
          (if cm_fingerprint r \<noteq> request_fingerprint h fam rq then Inl IdempotencyConflict
           else stored_receipt r, db)
      | None \<Rightarrow> execute_new h fam rq db)"

text \<open>\<open>execute\<close>: an error drops the transaction; the sequences keep the values drawn.\<close>

definition abort_transaction :: "('b, 'e, 's) command_family \<Rightarrow> 's kernel_db \<Rightarrow> 's kernel_db \<Rightarrow> 's kernel_db" where
  "abort_transaction fam old new = old\<lparr>
     commands := rollback_table (commands old) (commands new),
     command_bodies := rollback_table (command_bodies old) (command_bodies new),
     events := rollback_table (events old) (events new),
     event_bodies := rollback_table (event_bodies old) (event_bodies new),
     material := cf_rollback fam (material old) (material new)\<rparr>"

definition execute ::
  "(byte list \<Rightarrow> digest) \<Rightarrow> ('b, 'e, 's) command_family \<Rightarrow> 'b command_request \<Rightarrow> 's kernel_db
   \<Rightarrow> (store_error + command_receipt) \<times> 's kernel_db" where
  "execute h fam rq db =
     (case execute_in_transaction h fam rq db of
        (Inl e, db') \<Rightarrow> (Inl e, abort_transaction fam db db')
      | (Inr rc, db') \<Rightarrow> (Inr rc, db'))"

section \<open>Verification of the stored ledger\<close>

text \<open>The request a command row and its body stand for.\<close>

definition stored_request ::
  "('b, 'e, 's) command_family \<Rightarrow> command_row \<Rightarrow> sql_row \<Rightarrow> 'b command_request option" where
  "stored_request fam r body =
     (if \<not> command_id_ok (cm_id r) \<or> study_identifier_new (cm_principal r) = None
         \<or> study_identifier_new (cm_grant r) = None \<or> \<not> capability_ok (cm_capability r)
         \<or> \<not> optional_ok (\<lambda>g. 0 \<le> g) (cm_generation r)
      then None
      else
        map_option
          (\<lambda>b. \<lparr>rq_id = cm_id r, rq_principal = cm_principal r, rq_grant = cm_grant r,
                rq_capability = cm_capability r, rq_generation = cm_generation r, rq_body = b\<rparr>)
          (cf_decode_body fam (cm_kind r) body))"

text \<open>
  \<open>verify_command_body\<close>; the extra check of founding missions concerns another command kind.
\<close>

definition verify_command_body ::
  "(byte list \<Rightarrow> digest) \<Rightarrow> ('b, 'e, 's) command_family \<Rightarrow> 's kernel_db \<Rightarrow> int \<Rightarrow> store_error option" where
  "verify_command_body h fam db c =
     (case select_pk (commands db) c of
        None \<Rightarrow> Some (LedgerCorruption ''event references a missing command'')
      | Some r \<Rightarrow>
          (case select_pk (command_bodies db) c of
             None \<Rightarrow> Some (LedgerCorruption ''command body is missing'')
           | Some body \<Rightarrow>
               (case stored_request fam r body of
                  None \<Rightarrow> Some InvalidStoredValue
                | Some rq \<Rightarrow>
                    if cf_kind fam (rq_body rq) \<noteq> cm_kind r
                    then Some (LedgerCorruption ''command body does not match command kind'')
                    else if cm_fingerprint r \<noteq> request_fingerprint h fam rq
                    then Some (LedgerCorruption ''command request fingerprint mismatch'')
                    else
                      (let n = count_where (\<lambda>_ e. ev_command e = c) (events db) in
                       case cm_event r of
                         Some k \<Rightarrow>
                           if cm_status r = 1 \<and> n = 1 then
                             (if count_where (\<lambda>i e. i = k \<and> ev_command e = c) (events db) \<noteq> 1
                              then Some (LedgerCorruption ''accepted command does not name its event'')
                              else None)
                           else Some (LedgerCorruption ''command receipt and event relation disagree'')
                       | None \<Rightarrow>
                           if cm_status r = 2 \<and> n = 0 then None
                           else Some (LedgerCorruption ''command receipt and event relation disagree'')))))"

text \<open>The event body, checked against the commitment of its row.\<close>

definition decode_event ::
  "(byte list \<Rightarrow> digest) \<Rightarrow> ('b, 'e, 's) command_family \<Rightarrow> 's kernel_db \<Rightarrow> int \<Rightarrow> event_row \<Rightarrow> byte list
   \<Rightarrow> store_error + 'e" where
  "decode_event h fam db k er command_id =
     (if k \<le> 0 then Inl InvalidStoredValue
      else
        (case select_pk (event_bodies db) k of
           None \<Rightarrow> Inl (LedgerCorruption ''event body is missing'')
         | Some body \<Rightarrow>
             (case cf_decode_event fam (material db) (ev_kind er) body of
                None \<Rightarrow> Inl InvalidStoredValue
              | Some ev \<Rightarrow>
                  if ev_fingerprint er \<noteq> event_fingerprint h fam k command_id ev
                  then Inl (LedgerCorruption ''event body fingerprint mismatch'')
                  else Inr ev)))"

definition ledger_event ::
  "(byte list \<Rightarrow> digest) \<Rightarrow> ('b, 'e, 's) command_family \<Rightarrow> 's kernel_db \<Rightarrow> int \<Rightarrow> store_error + 'e" where
  "ledger_event h fam db k =
     (case select_pk (events db) k of
        None \<Rightarrow> Inl (LedgerEventNotFound k)
      | Some er \<Rightarrow>
          if ev_sequence er \<le> 0 then Inl (LedgerCorruption ''event sequence is not positive'')
          else
            (case select_pk (commands db) (ev_command er) of
               None \<Rightarrow> Inl (LedgerCorruption ''event references a missing command'')
             | Some r \<Rightarrow>
                 (case verify_command_body h fam db (ev_command er) of
                    Some e \<Rightarrow> Inl e
                  | None \<Rightarrow>
                      if cm_status r \<noteq> 1 \<or> cm_event r \<noteq> Some k
                      then Inl (LedgerCorruption ''requested event is not the command's accepted receipt'')
                      else if \<not> command_id_ok (cm_id r) then Inl InvalidStoredValue
                      else decode_event h fam db k er (cm_id r))))"

end
