(* ===== verification/Study_Machine.thy ===== *)
theory Study_Machine
  imports Study_Measurement
begin

text \<open>
  The dispatcher \<open>study::apply\<close> and the states the kernel can reach with it: every accepted command
  keeps its writes, every rejected one, and every one whose transaction is aborted afterwards, is
  rolled back to the savepoint (identity values stay drawn),
  and the rest of the kernel may change its own tables at any time.
\<close>

definition study_apply ::
  "(byte list \<Rightarrow> digest) \<Rightarrow> int \<Rightarrow> study_command \<Rightarrow> study_db \<Rightarrow> study_event tx_result" where
  "study_apply h c cmd db = (case cmd of
     AdmitProtocolRevision app pd ap fp ft ev gt co tp budget \<Rightarrow>
       admit_protocol_revision h c app pd ap fp ft ev gt co tp budget db
   | AdmitWorldRevision p d \<Rightarrow> admit_world_revision c p d db
   | AdmitMeasurementRevision p d slots \<Rightarrow> admit_measurement_revision c p d slots db
   | AdmitInstitutionRevision p d \<Rightarrow> admit_institution_revision c p d db
   | AdmitPopulationSnapshot p d n \<Rightarrow> admit_population_snapshot c p d n db
   | AdmitEpisode p w m i pop r \<Rightarrow> admit_episode c p w m i pop r db
   | AssignTreatment e t \<Rightarrow> assign_treatment c e t db
   | AdmitMatchedPair a b \<Rightarrow> admit_matched_pair c a b db
   | AdmitStudyRun p obj d n \<Rightarrow> admit_study_run c p obj d n db
   | RegisterStudyRunPair run ordinal p d \<Rightarrow> register_study_run_pair c run ordinal p d db
   | StartStudyRun run \<Rightarrow> start_study_run c run db
   | CompleteStudyRun run \<Rightarrow> complete_study_run c run db
   | CreateEpisodeForum e d \<Rightarrow> create_episode_forum c e d db
   | OpenForumThread f title \<Rightarrow> open_forum_thread c f title db
   | AdmitActorObligation e phase role view prompt tool budget reads posts \<Rightarrow>
       admit_actor_obligation c e phase role view prompt tool budget reads posts db
   | CompleteActorObligation ob charged \<Rightarrow> complete_actor_obligation c ob charged db
   | FailActorObligation ob reason \<Rightarrow> fail_actor_obligation c ob reason db
   | BindActorRuntime ob office child admission \<Rightarrow> bind_actor_runtime c ob office child admission db
   | BindActorTaskAttemptRuntime ob attempt child admission \<Rightarrow>
       bind_actor_task_attempt_runtime c ob attempt child admission db
   | ReconcileActorRuntime ob child \<Rightarrow> reconcile_actor_runtime c ob child db
   | SettleActorTaskAttemptAfterRecovery ob attempt child receipt \<Rightarrow>
       settle_actor_task_attempt_after_recovery c ob attempt child receipt db
   | FreezeForumHead e t \<Rightarrow> freeze_forum_head c e t db
   | ReplacePopulation e p \<Rightarrow> replace_population c e p db
   | AdmitForumExposure ob f from \<Rightarrow> admit_forum_exposure c ob f from db
   | PublishForumMessage ob kind body reply supersedes \<Rightarrow>
       publish_actor_message h c ob kind body reply supersedes db
   | RetractForumMessage ob m \<Rightarrow> retract_actor_message ob m db
   | ReleaseMatchedCorrection p a b body \<Rightarrow> release_matched_correction h c p a b body db
   | ReadForum ob first through obj \<Rightarrow> read_forum h c ob first through obj db
   | RecordDecision ob body cited \<Rightarrow> record_decision h c ob body cited db
   | RevealGroundTruth e body \<Rightarrow> reveal_ground_truth h c e body db
   | RecordMeasurementResult e slot status v vd reason \<Rightarrow>
       record_measurement_result c e slot status v vd reason db
   | CloseEpisode e \<Rightarrow> close_episode c e db
   | ForkEpisode e t \<Rightarrow> fork_episode h c e t db)"

section \<open>Reachable states\<close>

inductive study_reachable :: "(byte list \<Rightarrow> digest) \<Rightarrow> study_db \<Rightarrow> bool" for h where
  initial: "study_reachable h (empty_study_db e)"
| accepted: "\<lbrakk>study_reachable h db; study_command_typed cmd; study_apply h c cmd db = (Inr ev, db')\<rbrakk>
     \<Longrightarrow> study_reachable h db'"
| rejected: "\<lbrakk>study_reachable h db; study_command_typed cmd; study_apply h c cmd db = (x, db')\<rbrakk>
     \<Longrightarrow> study_reachable h (rollback db db')"
| kernel: "study_reachable h db \<Longrightarrow> study_reachable h (db\<lparr>env := e\<rparr>)"

end
