(* ===== verification/Study_Step.thy ===== *)
theory Study_Step
  imports Study_Machine
begin

text \<open>
  An abstract event system for the control plane: \<open>study_step\<close> has one rule per kind of accepted
  transition, stating what was checked and how the tables changed, without the order of the guards
  or the rejections.  \<open>study_apply_step\<close> is the refinement: every accepted command of \<open>study_apply\<close>
  is a step of this system.  The invariants of the development are proved over the steps.
\<close>

section \<open>Well-formed databases\<close>

definition tables_wf :: "study_db \<Rightarrow> bool" where
  "tables_wf db \<longleftrightarrow>
     wf_table (protocols db) \<and> wf_table (worlds db) \<and> wf_table (measurements db)
   \<and> wf_table (institutions db) \<and> wf_table (populations db) \<and> wf_table (episodes db)
   \<and> wf_table (successors db) \<and> wf_table (treatments db) \<and> wf_table (pairs db)
   \<and> wf_table (runs db) \<and> wf_table (run_pairs db) \<and> wf_table (forums db)
   \<and> wf_table (threads db) \<and> wf_table (obligations db) \<and> wf_table (occurrences db)
   \<and> wf_table (bindings db) \<and> wf_table (settlements db) \<and> wf_table (frozen db)
   \<and> wf_table (exposures db) \<and> wf_table (messages db) \<and> wf_table (receipts db)
   \<and> wf_table (decisions db) \<and> wf_table (reveals db) \<and> wf_table (results db)
   \<and> wf_table (forks db)"

section \<open>Steps\<close>

definition in_force :: "study_episode_state \<Rightarrow> bool" where
  "in_force s \<longleftrightarrow> s = CorrectionReleased \<or> s = SuccessorActive"

text \<open>One arm of a matched correction.\<close>

definition arm_released ::
  "(byte list \<Rightarrow> digest) \<Rightarrow> int \<Rightarrow> int \<Rightarrow> int \<Rightarrow> byte list \<Rightarrow> study_db \<Rightarrow> study_db \<Rightarrow> bool" where
  "arm_released h c e thread body db db' \<longleftrightarrow>
     (\<exists>er tr fr k db1. select_pk (episodes db) e = Some er \<and> ep_state er = SuccessorAdmitted
        \<and> select_pk (threads db) thread = Some tr \<and> select_pk (forums db) (th_forum tr) = Some fr
        \<and> fo_episode fr = e \<and> expected_successors db e = Some (ready_successors db e)
        \<and> message_posted k (th_forum tr) (correction_row h c thread (th_head tr + 1) body) db db1
        \<and> db' = set_episode_state c e CorrectionReleased db1)"

inductive study_step :: "(byte list \<Rightarrow> digest) \<Rightarrow> int \<Rightarrow> study_db \<Rightarrow> study_db \<Rightarrow> bool" for h c where
  protocol: "adds (protocols db) k r t \<Longrightarrow> study_step h c db (db\<lparr>protocols := t\<rparr>)"
| world: "adds (worlds db) k r t \<Longrightarrow> study_step h c db (db\<lparr>worlds := t\<rparr>)"
| measurement: "\<lbrakk>adds (measurements db) k r t; 1 \<le> mr_slots r; mr_slots r \<le> 64\<rbrakk>
    \<Longrightarrow> study_step h c db (db\<lparr>measurements := t\<rparr>)"
| institution: "adds (institutions db) k r t \<Longrightarrow> study_step h c db (db\<lparr>institutions := t\<rparr>)"
| population: "\<lbrakk>adds (populations db) k r t; 0 < ps_size r\<rbrakk>
    \<Longrightarrow> study_step h c db (db\<lparr>populations := t\<rparr>)"
| episode: "\<lbrakk>adds (episodes db) e r t; 0 < e; ep_state r = Admitted;
      episode_material_matches db (ep_protocol r) (ep_world r) (ep_measurement r) (ep_institution r) (ep_population r)\<rbrakk>
    \<Longrightarrow> study_step h c db (db\<lparr>episodes := t\<rparr>)"
| treatment: "\<lbrakk>adds (treatments db) k r t; select_pk (episodes db) e = Some er; ep_state er = Admitted;
      \<not> exists_where (\<lambda>_ r. ta_episode r = e) (treatments db); ta_episode r = e\<rbrakk>
    \<Longrightarrow> study_step h c db (db\<lparr>treatments := t\<rparr>)"
| pair: "\<lbrakk>adds (pairs db) k r t; matched_arms db (pa_retained r) (pa_reset r) = 1;
      pa_retained r \<noteq> pa_reset r;
      \<not> exists_where (\<lambda>_ q. pa_retained q = pa_retained r) (pairs db);
      \<not> exists_where (\<lambda>_ q. pa_reset q = pa_reset r) (pairs db)\<rbrakk>
    \<Longrightarrow> study_step h c db (db\<lparr>pairs := t\<rparr>)"
| run: "\<lbrakk>adds (runs db) k r t; 1 \<le> ru_pairs r; ru_registered r = 0; ru_state r = Pairing\<rbrakk>
    \<Longrightarrow> study_step h c db (db\<lparr>runs := t\<rparr>)"
| register: "\<lbrakk>select_pk (runs db) run = Some r; adds (run_pairs db) (run, n) q t; ru_state r = Pairing; 1 \<le> n; n \<le> ru_pairs r;
      pair_registrable db (rp_pair q) (ru_protocol r) (rp_randomization q);
      \<not> exists_where (\<lambda>_ x. rp_pair x = rp_pair q) (run_pairs db);
      ru_registered r + 1 \<le> ru_pairs r\<rbrakk>
    \<Longrightarrow> study_step h c db (db\<lparr>run_pairs := t,
          runs := update_pk run
            (\<lambda>q. q\<lparr>ru_registered := ru_registered r + 1,
                    ru_state := next_run_state (ru_registered r + 1) (ru_pairs r), ru_last := c\<rparr>)
            (runs db)\<rparr>)"
| start: "\<lbrakk>select_pk (runs db) run = Some r; ru_state r = Ready; ru_registered r = ru_pairs r\<rbrakk>
    \<Longrightarrow> study_step h c db
          (db\<lparr>runs := update_pk run (\<lambda>q. q\<lparr>ru_state := Running, ru_last := c\<rparr>) (runs db)\<rparr>)"
| finish: "\<lbrakk>select_pk (runs db) run = Some r; ru_state r = Running; ru_registered r = ru_pairs r;
      open_pairs db run = 0\<rbrakk>
    \<Longrightarrow> study_step h c db
          (db\<lparr>runs := update_pk run (\<lambda>q. q\<lparr>ru_state := Completed, ru_last := c\<rparr>) (runs db)\<rparr>)"
| forum: "\<lbrakk>adds (forums db) k r t; select_pk (episodes db) (fo_episode r) = Some er;
      ep_state er = Admitted;
      \<not> exists_where (\<lambda>_ q. fo_episode q = fo_episode r) (forums db);
      fo_state r = ForumOpen\<rbrakk>
    \<Longrightarrow> study_step h c db (db\<lparr>forums := t\<rparr>)"
| thread: "\<lbrakk>adds (threads db) k r t; select_pk (forums db) (th_forum r) = Some fr;
      fo_state fr = ForumOpen;
      count_where (\<lambda>_ q. th_forum q = th_forum r) (threads db) = 0; th_head r = 0\<rbrakk>
    \<Longrightarrow> study_step h c db (db\<lparr>threads := t\<rparr>)"
| obligation: "\<lbrakk>
      adds (obligations db) ob (new_obligation_row c e pop phase role view prompt tool budget reads posts) t;
      select_pk (episodes db) e = Some er;
      exists_where (\<lambda>_ q. ta_episode q = e) (treatments db);
      obligation_phase_allowed phase (ep_state er);
      phase = Source \<Longrightarrow> select_pk (frozen db) e = None;
      obligation_population db phase e = Some pop; 0 < ob; 0 \<le> budget; 0 < reads; 0 < posts;
      \<not> exists_where (\<lambda>_ q. ob_episode q = e \<and> ob_phase q = phase \<and> ob_role q = role) (obligations db);
      \<not> exists_where (\<lambda>_ q. oc_obligation q = ob) (occurrences db);
      adds (occurrences db) oc \<lparr>oc_obligation = ob, oc_by = c\<rparr> u\<rbrakk>
    \<Longrightarrow> study_step h c db
          (set_episode_state c e (phase_state phase) (db\<lparr>obligations := t, occurrences := u\<rparr>))"
| complete: "\<lbrakk>select_pk (obligations db) ob = Some r; ob_state r = ObligationActive;
      0 \<le> charged; charged \<le> ob_budget r;
      \<And>b. select_pk (bindings db) ob = Some b \<Longrightarrow> rb_state b = Reconciled\<rbrakk>
    \<Longrightarrow> study_step h c db (db\<lparr>obligations := update_pk ob
          (\<lambda>q. q\<lparr>ob_state := ObligationCompleted, ob_charged := charged, ob_completed_by := Some c\<rparr>)
          (obligations db)\<rparr>)"
| fail: "\<lbrakk>select_pk (obligations db) ob = Some r; ob_state r = ObligationActive;
      \<And>b. select_pk (bindings db) ob = Some b \<Longrightarrow> rb_state b \<noteq> Bound\<rbrakk>
    \<Longrightarrow> study_step h c db (db\<lparr>obligations := update_pk ob
          (\<lambda>q. q\<lparr>ob_state := ObligationFailed, ob_failed_by := Some c, ob_failure_reason := Some reason\<rparr>)
          (obligations db)\<rparr>)"
| bind: "\<lbrakk>adds (bindings db) ob b t; select_pk (obligations db) ob = Some r;
      ob_state r = ObligationActive; rb_state b = Bound;
      rb_attempt b = None \<longleftrightarrow> rb_office b \<noteq> None;
      \<not> exists_where (\<lambda>_ q. rb_child q = rb_child b) (bindings db);
      \<not> exists_where (\<lambda>_ q. rb_admission q = rb_admission b) (bindings db)\<rbrakk>
    \<Longrightarrow> study_step h c db (db\<lparr>bindings := t\<rparr>)"
| reconcile: "\<lbrakk>select_pk (bindings db) ob = Some b; rb_state b = Bound;
      select_pk (env_children (env db)) (rb_child b) = Some ch; ch_state ch = ChildFinalized\<rbrakk>
    \<Longrightarrow> study_step h c db (db\<lparr>bindings := update_pk ob
          (\<lambda>q. q\<lparr>rb_state := Reconciled, rb_reconciled_by := Some c\<rparr>) (bindings db)\<rparr>)"
| settle: "\<lbrakk>adds (settlements db) ob s t; select_pk (obligations db) ob = Some r;
      ob_state r = ObligationActive; select_pk (bindings db) ob = Some b;
      rb_attempt b = Some (rs_attempt s); rb_child b = rs_child s; rb_state b = Bound;
      child_recovery db (rs_receipt s) (rs_child s) = Some (ParentageLost, GroupAbsent, ChildLostParentage);
      \<not> exists_where (\<lambda>o' q. o' = ob \<or> rs_attempt q = rs_attempt s \<or> rs_child q = rs_child s \<or> rs_receipt q = rs_receipt s) (settlements db)\<rbrakk>
    \<Longrightarrow> study_step h c db (db\<lparr>settlements := t, bindings := update_pk ob
          (\<lambda>q. q\<lparr>rb_state := RecoverySettled, rb_settled_by := Some c\<rparr>) (bindings db), env := e'\<rparr>)"
| freeze: "\<lbrakk>adds (frozen db) e r t; select_pk (episodes db) e = Some er; ep_state er = SourceActive;
      live_source_obligations db e = 0; select_pk (threads db) (fz_thread r) = Some tr;
      select_pk (forums db) (th_forum tr) = Some fr; fo_episode fr = e; fz_head r = th_head tr\<rbrakk>
    \<Longrightarrow> study_step h c db (db\<lparr>frozen := t\<rparr>)"
| replace: "\<lbrakk>adds (successors db) e r t; select_pk (episodes db) e = Some er; ep_state er = SourceActive;
      row_exists (frozen db) e; live_source_obligations db e = 0;
      select_pk (populations db) (ep_population er) = Some pop;
      select_pk (populations db) (su_population r) = Some succ;
      su_population r \<noteq> ep_population er; ps_digest succ = ps_digest pop;
      ps_size succ = ps_size pop\<rbrakk>
    \<Longrightarrow> study_step h c db (set_episode_state c e SourceReconciled (db\<lparr>successors := t\<rparr>))"
| exposure: "\<lbrakk>adds (exposures db) k r t; select_pk (obligations db) (ex_obligation r) = Some obr;
      ob_state obr = ObligationActive; 0 < ex_from r; select_pk (forums db) (ex_forum r) = Some fr;
      fo_episode fr = ob_episode obr; select_pk (threads db) th = Some tr;
      th_forum tr = ex_forum r; ex_through r = th_head tr;
      expected_visible_from db (ob_episode obr) (ob_phase obr) = Inr (ex_from r);
      \<not> exists_where (\<lambda>_ q. ex_obligation q = ex_obligation r) (exposures db)\<rbrakk>
    \<Longrightarrow> study_step h c db (db\<lparr>exposures := t\<rparr>)"
| publish: "\<lbrakk>select_pk (obligations db) ob = Some r; ob_state r = ObligationActive;
      ob_posts_used r < ob_post_budget r; select_pk (episodes db) (ob_episode r) = Some er;
      publish_phase_allowed (ob_phase r) (ep_state er);
      ob_phase r = Source \<Longrightarrow> select_pk (frozen db) (ob_episode r) = None;
      select_pk (exposures db) x = Some xr; ex_obligation xr = ob;
      select_pk (occurrences db) oc = Some ocr; oc_obligation ocr = ob;
      ms_author m = Some oc; \<not> ms_service m; ms_digest m = h (ms_body m);
      \<And>q. ms_reply m = Some q \<or> ms_supersedes m = Some q \<Longrightarrow>
        message_target_is_earlier_same_thread db q (ms_thread m) (ms_ordinal m)
        \<and> message_is_visible_to_obligation db ob q;
      message_posted k (ex_forum xr) m db db1\<rbrakk>
    \<Longrightarrow> study_step h c db (publish_effect c (ob_episode r) (ob_phase r) (ep_state er) ob db1)"
| retract: "\<lbrakk>select_pk (messages db) k = Some m; ms_author m = Some oc;
      select_pk (occurrences db) oc = Some ocr; oc_obligation ocr = ob;
      select_pk (obligations db) ob = Some r; ob_state r = ObligationActive\<rbrakk>
    \<Longrightarrow> study_step h c db
          (db\<lparr>messages := update_pk k (\<lambda>q. q\<lparr>ms_state := Retracted\<rparr>) (messages db)\<rparr>)"
| release: "\<lbrakk>select_pk (pairs db) p = Some pa;
      configured_correction db (pa_retained pa) = Some (h body);
      arm_released h c (pa_retained pa) ta body db db1;
      arm_released h c (pa_reset pa) tb body db1 db2\<rbrakk> \<Longrightarrow> study_step h c db db2"
| read: "\<lbrakk>adds (receipts db) k (receipt_for h c ob th first through obj db) t;
      forum_read_thread db ob first through = Inr th\<rbrakk>
    \<Longrightarrow> study_step h c db (db\<lparr>receipts := t, obligations := update_pk ob
          (\<lambda>q. q\<lparr>ob_reads_used := ob_reads_used q + 1\<rparr>) (obligations db)\<rparr>)"
| decide: "\<lbrakk>adds (decisions db) ob d t; select_pk (obligations db) ob = Some r;
      ob_state r \<noteq> ObligationFailed;
      \<And>m. de_cited d = Some m \<Longrightarrow> own_published_message db ob m \<or> returned_count db ob m = 1\<rbrakk>
    \<Longrightarrow> study_step h c db (db\<lparr>decisions := t\<rparr>)"
| reveal: "\<lbrakk>adds (reveals db) e r t; select_pk (episodes db) e = Some er; in_force (ep_state er);
      live_obligations db e = 0; select_pk (protocols db) (ep_protocol er) = Some pr;
      pr_ground_truth pr = gt_digest r; gt_digest r = h (gt_body r)\<rbrakk>
    \<Longrightarrow> study_step h c db (db\<lparr>reveals := t\<rparr>)"
| result: "\<lbrakk>adds (results db) k r t; select_pk (episodes db) (me_episode r) = Some er;
      in_force (ep_state er); select_pk (measurements db) (ep_measurement er) = Some mr;
      1 \<le> me_slot r; me_slot r \<le> mr_slots mr; live_obligations db (me_episode r) = 0;
      row_exists (reveals db) (me_episode r);
      measurement_result_shape_valid (me_status r) (me_value r) (me_value_digest r) (me_reason r);
      \<not> exists_where (\<lambda>_ q. me_episode q = me_episode r \<and> me_slot q = me_slot r) (results db)\<rbrakk>
    \<Longrightarrow> study_step h c db (db\<lparr>results := t\<rparr>)"
| close: "\<lbrakk>select_pk (episodes db) e = Some er; in_force (ep_state er);
      select_pk (measurements db) (ep_measurement er) = Some mr; live_obligations db e = 0;
      count_where (\<lambda>_ r. me_episode r = e) (results db) = mr_slots mr;
      select_pk (protocols db) (ep_protocol er) = Some pr;
      sum_where (\<lambda>_ r. ob_episode r = e) ob_charged (obligations db) \<le> pr_budget pr\<rbrakk>
    \<Longrightarrow> study_step h c db (set_episode_state c e Closed
          (db\<lparr>forums := update_where (\<lambda>_ f. fo_episode f = e)
                (\<lambda>f. f\<lparr>fo_state := ForumClosed, fo_last := c\<rparr>) (forums db)\<rparr>))"
| fork: "\<lbrakk>adds (episodes db) e r t; adds (treatments db) j a u; adds (forks db) k f v;
      select_pk (episodes db) source = Some er; ep_state er = Closed; 0 < e; ep_state r = Admitted;
      ep_protocol r = ep_protocol er; ep_world r = ep_world er;
      ep_measurement r = ep_measurement er; ep_institution r = ep_institution er;
      ep_population r = ep_population er;
      \<not> exists_where (\<lambda>_ q. ta_episode q = e) (treatments db); ta_episode a = e\<rbrakk>
    \<Longrightarrow> study_step h c db (db\<lparr>episodes := t, treatments := u, forks := v\<rparr>)"

section \<open>Accepted commands are steps\<close>

lemma arm_releasedI:
  assumes "release_correction_for_episode h c e t body db = (Inr (k, n), db')"
  shows "arm_released h c e t body db db'"
  by (rule release_correction_for_episode_accepted [OF assms]) (auto simp: arm_released_def)

theorem study_apply_step:
  assumes wf: "tables_wf db" and typed: "study_command_typed cmd"
    and acc: "study_apply h c cmd db = (Inr ev, db')"
  shows "study_step h c db db'"
proof -
  have wft: "wf_table (threads db)" "wf_table (exposures db)" "wf_table (occurrences db)"
      "wf_table (treatments db)"
    using wf by (simp_all add: tables_wf_def)
  show ?thesis
  proof (cases cmd)
    case (AdmitProtocolRevision a0 a1 a2 a3 a4 a5 a6 a7 a8 a9)
    with acc have *: "admit_protocol_revision h c a0 a1 a2 a3 a4 a5 a6 a7 a8 a9 db = (Inr ev, db')" by (simp add: study_apply_def)
    from admit_protocol_revision_accepted [OF *] show ?thesis by (blast intro: study_step.protocol)
  next
    case (AdmitWorldRevision a0 a1)
    with acc have *: "admit_world_revision c a0 a1 db = (Inr ev, db')" by (simp add: study_apply_def)
    from admit_world_revision_accepted [OF *] show ?thesis by (blast intro: study_step.world)
  next
    case (AdmitMeasurementRevision a0 a1 a2)
    with acc have *: "admit_measurement_revision c a0 a1 a2 db = (Inr ev, db')" by (simp add: study_apply_def)
    show ?thesis
      by (insert admit_measurement_revision_accepted [OF *], clarify, rule study_step.measurement, assumption) auto
  next
    case (AdmitInstitutionRevision a0 a1)
    with acc have *: "admit_institution_revision c a0 a1 db = (Inr ev, db')" by (simp add: study_apply_def)
    from admit_institution_revision_accepted [OF *] show ?thesis by (blast intro: study_step.institution)
  next
    case (AdmitPopulationSnapshot a0 a1 a2)
    with acc have *: "admit_population_snapshot c a0 a1 a2 db = (Inr ev, db')" by (simp add: study_apply_def)
    show ?thesis
      by (insert admit_population_snapshot_accepted [OF *], clarify, rule study_step.population, assumption) auto
  next
    case (AdmitEpisode a0 a1 a2 a3 a4 a5)
    with acc have *: "admit_episode c a0 a1 a2 a3 a4 a5 db = (Inr ev, db')" by (simp add: study_apply_def)
    from admit_episode_accepted [OF *] show ?thesis by (auto simp: new_episode_row_def intro!: study_step.episode)
  next
    case (AssignTreatment a0 a1)
    with acc have *: "assign_treatment c a0 a1 db = (Inr ev, db')" by (simp add: study_apply_def)
    show ?thesis
      by (insert assign_treatment_accepted [OF *], clarify, rule study_step.treatment, assumption) auto
  next
    case (AdmitMatchedPair a0 a1)
    with acc have *: "admit_matched_pair c a0 a1 db = (Inr ev, db')" by (simp add: study_apply_def)
    show ?thesis
      by (insert admit_matched_pair_accepted [OF *], clarify, rule study_step.pair, assumption) auto
  next
    case (AdmitStudyRun a0 a1 a2 a3)
    with acc have *: "admit_study_run c a0 a1 a2 a3 db = (Inr ev, db')" by (simp add: study_apply_def)
    show ?thesis
      by (insert admit_study_run_accepted [OF *], clarify, rule study_step.run, assumption) auto
  next
    case (RegisterStudyRunPair a0 a1 a2 a3)
    with acc have *: "register_study_run_pair c a0 a1 a2 a3 db = (Inr ev, db')" by (simp add: study_apply_def)
    from register_study_run_pair_accepted [OF *] obtain r t where
      r: "select_pk (runs db) a0 = Some r"
        "adds (run_pairs db) (a0, a1) \<lparr>rp_pair = a2, rp_randomization = a3, rp_by = c\<rparr> t"
        "ru_state r = Pairing" "1 \<le> a1" "a1 \<le> ru_pairs r"
        "pair_registrable db a2 (ru_protocol r) a3"
        "\<not> exists_where (\<lambda>_ q. rp_pair q = a2) (run_pairs db)" "ru_registered r + 1 \<le> ru_pairs r"
      and db': "db' = db\<lparr>run_pairs := t, runs := update_pk a0
        (\<lambda>q. q\<lparr>ru_registered := ru_registered r + 1,
                ru_state := next_run_state (ru_registered r + 1) (ru_pairs r), ru_last := c\<rparr>)
        (runs db)\<rparr>"
      by blast
    show ?thesis
      unfolding db' by (rule study_step.register [OF r(1) r(2)]) (use r in simp_all)
  next
    case (StartStudyRun a0)
    with acc have *: "start_study_run c a0 db = (Inr ev, db')" by (simp add: study_apply_def)
    show ?thesis
      by (insert start_study_run_accepted [OF *], clarify, rule study_step.start, assumption) auto
  next
    case (CompleteStudyRun a0)
    with acc have *: "complete_study_run c a0 db = (Inr ev, db')" by (simp add: study_apply_def)
    show ?thesis
      by (insert complete_study_run_accepted [OF *], clarify, rule study_step.finish, assumption) auto
  next
    case (CreateEpisodeForum a0 a1)
    with acc have *: "create_episode_forum c a0 a1 db = (Inr ev, db')" by (simp add: study_apply_def)
    show ?thesis
      by (insert create_episode_forum_accepted [OF *], clarify, rule study_step.forum, assumption) auto
  next
    case (OpenForumThread a0 a1)
    with acc have *: "open_forum_thread c a0 a1 db = (Inr ev, db')" by (simp add: study_apply_def)
    show ?thesis
      by (insert open_forum_thread_accepted [OF *], clarify, rule study_step.thread, assumption) auto
  next
    case (AdmitActorObligation a0 a1 a2 a3 a4 a5 a6 a7 a8)
    with acc have *: "admit_actor_obligation c a0 a1 a2 a3 a4 a5 a6 a7 a8 db = (Inr ev, db')" by (simp add: study_apply_def)
    show ?thesis
      by (insert admit_actor_obligation_accepted [OF *], clarify, rule study_step.obligation, assumption) auto
  next
    case (CompleteActorObligation a0 a1)
    with acc have *: "complete_actor_obligation c a0 a1 db = (Inr ev, db')" by (simp add: study_apply_def)
    from complete_actor_obligation_accepted [OF *] CompleteActorObligation typed show ?thesis
      by (auto simp: study_command_typed_def intro: study_step.complete)
  next
    case (FailActorObligation a0 a1)
    with acc have *: "fail_actor_obligation c a0 a1 db = (Inr ev, db')" by (simp add: study_apply_def)
    show ?thesis
      by (insert fail_actor_obligation_accepted [OF *], clarify, rule study_step.fail, assumption) auto
  next
    case (BindActorRuntime a0 a1 a2 a3)
    with acc have *: "bind_actor_runtime c a0 a1 a2 a3 db = (Inr ev, db')" by (simp add: study_apply_def)
    show ?thesis
      by (insert bind_actor_runtime_accepted [OF *], clarify, rule study_step.bind, assumption) auto
  next
    case (BindActorTaskAttemptRuntime a0 a1 a2 a3)
    with acc have *: "bind_actor_task_attempt_runtime c a0 a1 a2 a3 db = (Inr ev, db')" by (simp add: study_apply_def)
    show ?thesis
      by (insert bind_actor_task_attempt_runtime_accepted [OF *], clarify, rule study_step.bind, assumption) auto
  next
    case (ReconcileActorRuntime a0 a1)
    with acc have *: "reconcile_actor_runtime c a0 a1 db = (Inr ev, db')" by (simp add: study_apply_def)
    show ?thesis
      by (insert reconcile_actor_runtime_accepted [OF *], clarify, rule study_step.reconcile, assumption) auto
  next
    case (SettleActorTaskAttemptAfterRecovery a0 a1 a2 a3)
    with acc have *: "settle_actor_task_attempt_after_recovery c a0 a1 a2 a3 db = (Inr ev, db')" by (simp add: study_apply_def)
    show ?thesis
      by (insert settle_actor_task_attempt_after_recovery_accepted [OF *], clarify, rule study_step.settle, assumption) auto
  next
    case (FreezeForumHead a0 a1)
    with acc have *: "freeze_forum_head c a0 a1 db = (Inr ev, db')" by (simp add: study_apply_def)
    show ?thesis
      by (insert freeze_forum_head_accepted [OF *], clarify, rule study_step.freeze, assumption+) auto
  next
    case (ReplacePopulation a0 a1)
    with acc have *: "replace_population c a0 a1 db = (Inr ev, db')" by (simp add: study_apply_def)
    show ?thesis
      by (insert replace_population_accepted [OF *], clarify, rule study_step.replace, assumption+, simp) auto
  next
    case (AdmitForumExposure a0 a1 a2)
    with acc have *: "admit_forum_exposure c a0 a1 a2 db = (Inr ev, db')" by (simp add: study_apply_def)
    show ?thesis
      by (insert admit_forum_exposure_accepted [OF *], clarify, rule study_step.exposure, assumption)
        (auto simp: thread_of_forum_def dest: select_where_Some [OF wft(1)])
  next
    case (PublishForumMessage a0 a1 a2 a3 a4)
    with acc have *: "publish_actor_message h c a0 a1 a2 a3 a4 db = (Inr ev, db')" by (simp add: study_apply_def)
    show ?thesis
      by (rule publish_actor_message_accepted [OF wft(1-3) *], clarify, rule study_step.publish) auto
  next
    case (RetractForumMessage a0 a1)
    with acc have *: "retract_actor_message a0 a1 db = (Inr ev, db')" by (simp add: study_apply_def)
    show ?thesis
      by (rule retract_actor_message_accepted [OF wft(3) *]) (auto intro: study_step.retract)
  next
    case (ReleaseMatchedCorrection a0 a1 a2 a3)
    with acc have *: "release_matched_correction h c a0 a1 a2 a3 db = (Inr ev, db')" by (simp add: study_apply_def)
    show ?thesis
      by (rule release_matched_correction_accepted [OF *]) (blast intro: study_step.release arm_releasedI)
  next
    case (ReadForum a0 a1 a2 a3)
    with acc have *: "read_forum h c a0 a1 a2 a3 db = (Inr ev, db')" by (simp add: study_apply_def)
    show ?thesis
      by (rule read_forum_accepted [OF *]) (auto intro: study_step.read)
  next
    case (RecordDecision a0 a1 a2)
    with acc have *: "record_decision h c a0 a1 a2 db = (Inr ev, db')" by (simp add: study_apply_def)
    show ?thesis
      by (rule record_decision_accepted [OF *], clarify, rule study_step.decide, assumption) (auto simp: in_force_def)
  next
    case (RevealGroundTruth a0 a1)
    with acc have *: "reveal_ground_truth h c a0 a1 db = (Inr ev, db')" by (simp add: study_apply_def)
    show ?thesis
      by (rule reveal_ground_truth_accepted [OF *], clarify, rule study_step.reveal, assumption) (auto simp: in_force_def)
  next
    case (RecordMeasurementResult a0 a1 a2 a3 a4 a5)
    with acc have *: "record_measurement_result c a0 a1 a2 a3 a4 a5 db = (Inr ev, db')" by (simp add: study_apply_def)
    show ?thesis
      by (rule record_measurement_result_accepted [OF *], clarify, rule study_step.result, assumption) (auto simp: in_force_def)
  next
    case (CloseEpisode a0)
    with acc have *: "close_episode c a0 db = (Inr ev, db')" by (simp add: study_apply_def)
    show ?thesis
      by (rule close_episode_accepted [OF *], clarify, rule study_step.close) (auto simp: in_force_def)
  next
    case (ForkEpisode a0 a1)
    with acc have *: "fork_episode h c a0 a1 db = (Inr ev, db')" by (simp add: study_apply_def)
    show ?thesis
      by (rule fork_episode_accepted [OF wft(4) *], clarify, rule study_step.fork, assumption, assumption, assumption)
        (auto simp: new_episode_row_def)
  qed
qed

end
