(* ===== verification/Study_Persistence.thy ===== *)
theory Study_Persistence
  imports Study_Step
begin

text \<open>
  The study tables are an append-only record: no accepted transition removes a row, and only the
  lifecycle columns of a row ever change.  \<open>persists\<close> lists, per table, the columns that are fixed
  when the row is written.
\<close>

definition ep_key :: "episode_row \<Rightarrow> int \<times> int \<times> int \<times> int \<times> int \<times> digest" where
  "ep_key r = (ep_protocol r, ep_world r, ep_measurement r, ep_institution r, ep_population r,
               ep_randomization r)"

definition ru_key :: "run_row \<Rightarrow> int \<times> int \<times> digest \<times> int" where
  "ru_key r = (ru_protocol r, ru_plan_object r, ru_plan_digest r, ru_pairs r)"

definition fo_key :: "forum_row \<Rightarrow> int \<times> digest" where
  "fo_key r = (fo_episode r, fo_charter r)"

definition th_key :: "thread_row \<Rightarrow> int \<times> byte list" where
  "th_key r = (th_forum r, th_title r)"

definition ob_key :: "obligation_row \<Rightarrow>
    int \<times> int \<times> study_population_phase \<times> int \<times> digest \<times> digest \<times> digest \<times> int \<times> int \<times> int" where
  "ob_key r = (ob_episode r, ob_population r, ob_phase r, ob_role r, ob_view r, ob_prompt r,
               ob_tool r, ob_budget r, ob_read_budget r, ob_post_budget r)"

definition rb_key :: "binding_row \<Rightarrow> int option \<times> int option \<times> int \<times> int \<times> int" where
  "rb_key r = (rb_attempt r, rb_office r, rb_child r, rb_admission r, rb_profile r)"

definition ex_key :: "exposure_row \<Rightarrow> int \<times> int \<times> int" where
  "ex_key r = (ex_obligation r, ex_forum r, ex_from r)"

definition ms_key :: "message_row \<Rightarrow>
    int \<times> int \<times> int option \<times> bool \<times> forum_message_kind \<times> int option \<times> int option \<times> byte list \<times> digest" where
  "ms_key r = (ms_thread r, ms_ordinal r, ms_author r, ms_service r, ms_kind r, ms_reply r,
               ms_supersedes r, ms_body r, ms_digest r)"

lemmas key_defs = ep_key_def ru_key_def fo_key_def th_key_def ob_key_def rb_key_def ex_key_def ms_key_def

definition persists :: "study_db \<Rightarrow> study_db \<Rightarrow> bool" where
  "persists db db' \<longleftrightarrow>
     keeps (protocols db) (protocols db') \<and> keeps (worlds db) (worlds db')
   \<and> keeps (measurements db) (measurements db') \<and> keeps (institutions db) (institutions db')
   \<and> keeps (populations db) (populations db') \<and> keeps_on ep_key (episodes db) (episodes db')
   \<and> keeps (successors db) (successors db') \<and> keeps (treatments db) (treatments db')
   \<and> keeps (pairs db) (pairs db') \<and> keeps_on ru_key (runs db) (runs db')
   \<and> keeps (run_pairs db) (run_pairs db') \<and> keeps_on fo_key (forums db) (forums db')
   \<and> keeps_on th_key (threads db) (threads db')
   \<and> keeps_on ob_key (obligations db) (obligations db')
   \<and> keeps (occurrences db) (occurrences db') \<and> keeps_on rb_key (bindings db) (bindings db')
   \<and> keeps (settlements db) (settlements db') \<and> keeps (frozen db) (frozen db')
   \<and> keeps_on ex_key (exposures db) (exposures db') \<and> keeps_on ms_key (messages db) (messages db')
   \<and> keeps (receipts db) (receipts db') \<and> keeps (decisions db) (decisions db')
   \<and> keeps (reveals db) (reveals db') \<and> keeps (results db) (results db')
   \<and> keeps (forks db) (forks db')"

lemma persists_refl: "persists db db"
  by (simp add: persists_def)

lemma persists_trans: "persists a b \<Longrightarrow> persists b c \<Longrightarrow> persists a c"
  unfolding persists_def by (intro conjI; elim conjE; rule keeps_on_trans; assumption)

lemma set_episode_state_persists [simp]: "persists db (set_episode_state c e s db)"
  by (simp add: persists_def set_episode_state_def update_pk_keeps key_defs)

lemma message_posted_persists: "message_posted k f m db db' \<Longrightarrow> persists db db'"
  by (auto simp: message_posted_def persists_def advance_exposures_def key_defs
      update_pk_keeps update_where_keeps intro: adds_keeps)

lemma publish_effect_persists: "persists db (publish_effect c e phase s ob db)"
  by (simp add: publish_effect_def Let_def persists_def set_episode_state_def key_defs update_pk_keeps)

lemma arm_released_persists: "arm_released h c e t body db db' \<Longrightarrow> persists db db'"
  unfolding arm_released_def
  by (metis message_posted_persists persists_trans set_episode_state_persists)

lemma study_step_persists:
  assumes "study_step h c db db'"
  shows "persists db db'"
  using assms
proof (cases rule: study_step.cases)
  case (publish ob r er x xr oc ocr m k db1)
  then show ?thesis
    using message_posted_persists publish_effect_persists persists_trans by metis
next
  case (release p pa body ta db1 tb)
  then show ?thesis
    using arm_released_persists persists_trans by metis
qed (auto simp: persists_def set_episode_state_def key_defs update_pk_keeps update_where_keeps
    intro: adds_keeps)

section \<open>Key distinctness is kept\<close>

lemma message_posted_wf: "message_posted k f m db db' \<Longrightarrow> tables_wf db \<Longrightarrow> tables_wf db'"
  by (auto simp: message_posted_def tables_wf_def advance_exposures_def adds_wf)

lemma arm_released_wf: "arm_released h c e t body db db' \<Longrightarrow> tables_wf db \<Longrightarrow> tables_wf db'"
  by (auto simp: arm_released_def tables_wf_def set_episode_state_def dest!: message_posted_wf)

lemma study_step_wf:
  assumes "study_step h c db db'" and wf: "tables_wf db"
  shows "tables_wf db'"
  using assms(1)
proof (cases rule: study_step.cases)
  case (publish ob r er x xr oc ocr m k db1)
  then have "tables_wf db1" using message_posted_wf wf by blast
  then show ?thesis
    using publish by (simp add: tables_wf_def publish_effect_def Let_def set_episode_state_def)
next
  case (release p pa body ta db1 tb)
  then show ?thesis using arm_released_wf wf by blast
qed (use wf in \<open>auto simp: tables_wf_def set_episode_state_def adds_wf\<close>)

end
