(* ===== verification/Study_Integrity.thy ===== *)
theory Study_Integrity
  imports Study_Persistence
begin

text \<open>
  Structural integrity of every reachable study database: the UNIQUE constraints hold, every
  reference resolves, and each row states a fact about rows it refers to that later transitions
  cannot falsify.  The locale \<open>study_invariant\<close> is the proof rule the invariants share; each
  invariant is an interpretation of it.
\<close>

section \<open>The proof rule\<close>

lemma tables_wf_initial: "tables_wf (empty_study_db e)"
  by (simp add: tables_wf_def empty_study_db_def)

lemma reachable_wf:
  assumes "study_reachable h db"
  shows "tables_wf db"
  using assms
proof induction
  case (accepted db cmd c ev db')
  then show ?case using study_apply_step study_step_wf by blast
qed (simp_all add: tables_wf_initial, simp_all add: tables_wf_def)

text \<open>
  An invariant of the study database: it holds initially, every step keeps it while the invariants
  \<open>known\<close> before hold, and neither a rollback nor a change of the other kernel tables affects it.
\<close>

locale study_invariant =
  fixes h :: "byte list \<Rightarrow> digest" and known inv :: "study_db \<Rightarrow> bool"
  assumes known: "study_reachable h db \<Longrightarrow> known db"
    and initial: "inv (empty_study_db e)"
    and step: "\<lbrakk>tables_wf db; known db; inv db; study_step h c db db'\<rbrakk> \<Longrightarrow> inv db'"
    and rolled_back: "inv db \<Longrightarrow> inv (rollback db db')"
    and environment: "inv db \<Longrightarrow> inv (db\<lparr>env := e\<rparr>)"
begin

lemma reachable: "study_reachable h db \<Longrightarrow> inv db"
proof (induction rule: study_reachable.induct)
  case (initial e)
  then show ?case by (rule study_invariant_axioms [THEN study_invariant.initial])
next
  case (accepted db cmd c ev db')
  then show ?case using step known study_apply_step reachable_wf by blast
next
  case (rejected db cmd c x db')
  then show ?case using rolled_back by blast
next
  case (kernel db e)
  then show ?case using environment by blast
qed

end

section \<open>Uniqueness\<close>

definition uniques :: "study_db \<Rightarrow> bool" where
  "uniques db \<longleftrightarrow>
     unique_on ta_episode (treatments db) \<and> unique_on pa_retained (pairs db)
   \<and> unique_on pa_reset (pairs db) \<and> unique_on rp_pair (run_pairs db)
   \<and> unique_on fo_episode (forums db) \<and> unique_on th_forum (threads db)
   \<and> unique_on (\<lambda>r. (ob_episode r, ob_phase r, ob_role r)) (obligations db)
   \<and> unique_on oc_obligation (occurrences db) \<and> unique_on rb_child (bindings db)
   \<and> unique_on rb_admission (bindings db) \<and> unique_on ex_obligation (exposures db)
   \<and> unique_on (\<lambda>r. (ms_thread r, ms_ordinal r)) (messages db)
   \<and> unique_on (\<lambda>r. (me_episode r, me_slot r)) (results db)"

lemma count_where_zero: "count_where p t = 0 \<longleftrightarrow> \<not> exists_where p t"
  by (auto simp: count_where_def exists_where_def filter_empty_conv list_ex_iff)

lemma message_posted_uniques: "message_posted k f m db db' \<Longrightarrow> uniques db \<Longrightarrow> uniques db'"
  by (clarsimp simp: message_posted_def uniques_def advance_exposures_def unique_on_adds
      unique_on_update_pk unique_on_update_where)

lemma arm_released_uniques: "arm_released h c e t body db db' \<Longrightarrow> uniques db \<Longrightarrow> uniques db'"
  by (clarsimp simp: arm_released_def) (drule (1) message_posted_uniques,
      simp add: uniques_def set_episode_state_def)

lemma study_step_uniques:
  assumes "study_step h c db db'" and u: "uniques db"
  shows "uniques db'"
  using assms(1)
proof (cases rule: study_step.cases)
  case (publish ob r er x xr oc ocr m k db1)
  then have "uniques db1" using message_posted_uniques u by blast
  then show ?thesis
    using publish
    by (simp add: uniques_def publish_effect_def Let_def set_episode_state_def unique_on_update_pk)
next
  case (release p pa body ta db1 tb)
  then show ?thesis using arm_released_uniques u by blast
qed (use u in \<open>simp_all add: uniques_def set_episode_state_def count_where_zero new_obligation_row_def
      unique_on_adds unique_on_update_pk unique_on_update_where\<close>)

interpretation uniq: study_invariant h "\<lambda>_. True" uniques for h
  by unfold_locales
    (simp_all add: uniques_def empty_study_db_def, auto simp: uniques_def dest: study_step_uniques)

section \<open>Row facts\<close>

text \<open>What each row guarantees about the rows it refers to.\<close>

definition episode_ok :: "study_db \<Rightarrow> int \<Rightarrow> episode_row \<Rightarrow> bool" where
  "episode_ok db e r \<longleftrightarrow> row_exists (measurements db) (ep_measurement r)
     \<and> row_exists (populations db) (ep_population r)"

definition has_treatment :: "study_db \<Rightarrow> int \<Rightarrow> study_treatment \<Rightarrow> bool" where
  "has_treatment db e t \<longleftrightarrow>
     (\<exists>i a. select_pk (treatments db) i = Some a \<and> ta_episode a = e \<and> ta_treatment a = t)"

definition pair_ok :: "study_db \<Rightarrow> int \<Rightarrow> pair_row \<Rightarrow> bool" where
  "pair_ok db k p \<longleftrightarrow>
     (\<exists>a b pa pb. select_pk (episodes db) (pa_retained p) = Some a
        \<and> select_pk (episodes db) (pa_reset p) = Some b \<and> pa_retained p \<noteq> pa_reset p
        \<and> ep_protocol a = ep_protocol b \<and> ep_world a = ep_world b
        \<and> ep_measurement a = ep_measurement b \<and> ep_institution a = ep_institution b
        \<and> ep_randomization a = ep_randomization b
        \<and> select_pk (populations db) (ep_population a) = Some pa
        \<and> select_pk (populations db) (ep_population b) = Some pb
        \<and> ps_digest pa = ps_digest pb \<and> ps_size pa = ps_size pb
        \<and> has_treatment db (pa_retained p) Retained \<and> has_treatment db (pa_reset p) Reset)"

definition run_pair_ok :: "study_db \<Rightarrow> int \<times> int \<Rightarrow> run_pair_row \<Rightarrow> bool" where
  "run_pair_ok db k q \<longleftrightarrow>
     (\<exists>r. select_pk (runs db) (fst k) = Some r \<and> 1 \<le> snd k \<and> snd k \<le> ru_pairs r)
     \<and> row_exists (pairs db) (rp_pair q)"

definition frozen_ok :: "study_db \<Rightarrow> int \<Rightarrow> frozen_row \<Rightarrow> bool" where
  "frozen_ok db e fz \<longleftrightarrow> row_exists (episodes db) e
     \<and> (\<exists>t f. select_pk (threads db) (fz_thread fz) = Some t
          \<and> select_pk (forums db) (th_forum t) = Some f \<and> fo_episode f = e)"

definition visible_from_ok :: "study_db \<Rightarrow> int \<Rightarrow> study_population_phase \<Rightarrow> int \<Rightarrow> bool" where
  "visible_from_ok db e phase n \<longleftrightarrow>
     (phase = Source \<longrightarrow> n = 1)
   \<and> (phase = Successor \<longrightarrow>
        (\<exists>fz i a. select_pk (frozen db) e = Some fz \<and> select_pk (treatments db) i = Some a
           \<and> ta_episode a = e \<and> n = (if ta_treatment a = Retained then 1 else fz_head fz + 1)))"

definition exposure_ok :: "study_db \<Rightarrow> int \<Rightarrow> exposure_row \<Rightarrow> bool" where
  "exposure_ok db k x \<longleftrightarrow>
     0 < ex_from x
   \<and> (\<exists>ob f. select_pk (obligations db) (ex_obligation x) = Some ob
        \<and> select_pk (forums db) (ex_forum x) = Some f \<and> fo_episode f = ob_episode ob
        \<and> visible_from_ok db (ob_episode ob) (ob_phase ob) (ex_from x))"

text \<open>A message another message replies to or supersedes lies in the author's own exposure.\<close>

definition target_ok :: "study_db \<Rightarrow> int \<Rightarrow> message_row \<Rightarrow> int \<Rightarrow> bool" where
  "target_ok db ob m q \<longleftrightarrow>
     (\<exists>mq x xr. select_pk (messages db) q = Some mq \<and> ms_thread mq = ms_thread m
        \<and> ms_ordinal mq < ms_ordinal m \<and> select_pk (exposures db) x = Some xr
        \<and> ex_obligation xr = ob \<and> ex_from xr \<le> ms_ordinal mq)"

definition author_ok :: "study_db \<Rightarrow> int \<Rightarrow> message_row \<Rightarrow> int \<Rightarrow> bool" where
  "author_ok db e m oc \<longleftrightarrow>
     (\<exists>ocr ob. select_pk (occurrences db) oc = Some ocr
        \<and> select_pk (obligations db) (oc_obligation ocr) = Some ob \<and> ob_episode ob = e
        \<and> (\<forall>q. ms_reply m = Some q \<or> ms_supersedes m = Some q \<longrightarrow> target_ok db (oc_obligation ocr) m q))"

definition message_ok :: "(byte list \<Rightarrow> digest) \<Rightarrow> study_db \<Rightarrow> int \<Rightarrow> message_row \<Rightarrow> bool" where
  "message_ok h db k m \<longleftrightarrow>
     0 < ms_ordinal m \<and> ms_digest m = h (ms_body m) \<and> (ms_author m = None \<longleftrightarrow> ms_service m)
   \<and> (\<exists>t f. select_pk (threads db) (ms_thread m) = Some t \<and> select_pk (forums db) (th_forum t) = Some f
        \<and> (\<forall>oc. ms_author m = Some oc \<longrightarrow> author_ok db (fo_episode f) m oc))"

definition receipt_ok :: "study_db \<Rightarrow> int \<Rightarrow> receipt_row \<Rightarrow> bool" where
  "receipt_ok db k r \<longleftrightarrow>
     rr_first r \<le> rr_through r \<and> rr_through r - rr_first r < 64
   \<and> (\<exists>x xr t. select_pk (exposures db) x = Some xr \<and> ex_obligation xr = rr_obligation r
        \<and> select_pk (threads db) (rr_thread r) = Some t \<and> th_forum t = ex_forum xr
        \<and> ex_from xr \<le> rr_first r)"

definition citation_ok :: "study_db \<Rightarrow> int \<Rightarrow> int \<Rightarrow> bool" where
  "citation_ok db ob q \<longleftrightarrow>
     (\<exists>m. select_pk (messages db) q = Some m
        \<and> ((\<exists>oc ocr. ms_author m = Some oc \<and> select_pk (occurrences db) oc = Some ocr
              \<and> oc_obligation ocr = ob)
           \<or> (\<exists>k r. select_pk (receipts db) k = Some r \<and> rr_obligation r = ob
              \<and> rr_thread r = ms_thread m \<and> rr_first r \<le> ms_ordinal m \<and> ms_ordinal m \<le> rr_through r)))"

definition decision_ok :: "study_db \<Rightarrow> int \<Rightarrow> decision_row \<Rightarrow> bool" where
  "decision_ok db ob d \<longleftrightarrow>
     row_exists (obligations db) ob \<and> (\<forall>q. de_cited d = Some q \<longrightarrow> citation_ok db ob q)"

definition reveal_ok :: "(byte list \<Rightarrow> digest) \<Rightarrow> study_db \<Rightarrow> int \<Rightarrow> reveal_row \<Rightarrow> bool" where
  "reveal_ok h db e r \<longleftrightarrow>
     gt_digest r = h (gt_body r)
   \<and> (\<exists>er pr. select_pk (episodes db) e = Some er \<and> select_pk (protocols db) (ep_protocol er) = Some pr
        \<and> pr_ground_truth pr = gt_digest r)"

definition result_ok :: "study_db \<Rightarrow> int \<Rightarrow> result_row \<Rightarrow> bool" where
  "result_ok db k r \<longleftrightarrow>
     row_exists (reveals db) (me_episode r) \<and> 1 \<le> me_slot r
   \<and> measurement_result_shape_valid (me_status r) (me_value r) (me_value_digest r) (me_reason r)
   \<and> (\<exists>er mr. select_pk (episodes db) (me_episode r) = Some er
        \<and> select_pk (measurements db) (ep_measurement er) = Some mr \<and> me_slot r \<le> mr_slots mr)"

definition successor_ok :: "study_db \<Rightarrow> int \<Rightarrow> successor_row \<Rightarrow> bool" where
  "successor_ok db e s \<longleftrightarrow>
     (\<exists>er pop succ. select_pk (episodes db) e = Some er
        \<and> select_pk (populations db) (ep_population er) = Some pop
        \<and> select_pk (populations db) (su_population s) = Some succ
        \<and> su_population s \<noteq> ep_population er \<and> ps_digest succ = ps_digest pop
        \<and> ps_size succ = ps_size pop)"

text \<open>\<open>rows_hold h D db\<close>: every row of \<open>db\<close> states its fact about the database \<open>D\<close>.\<close>

definition rows_hold :: "(byte list \<Rightarrow> digest) \<Rightarrow> study_db \<Rightarrow> study_db \<Rightarrow> bool" where
  "rows_hold h D db \<longleftrightarrow>
     all_rows (episode_ok D) (episodes db)
   \<and> all_rows (\<lambda>_ a. row_exists (episodes D) (ta_episode a)) (treatments db)
   \<and> all_rows (pair_ok D) (pairs db) \<and> all_rows (run_pair_ok D) (run_pairs db)
   \<and> all_rows (\<lambda>_ f. row_exists (episodes D) (fo_episode f)) (forums db)
   \<and> all_rows (\<lambda>_ t. row_exists (forums D) (th_forum t)) (threads db)
   \<and> all_rows (\<lambda>_ r. row_exists (episodes D) (ob_episode r)) (obligations db)
   \<and> all_rows (\<lambda>_ r. row_exists (obligations D) (oc_obligation r)) (occurrences db)
   \<and> all_rows (\<lambda>ob _. row_exists (obligations D) ob) (bindings db)
   \<and> all_rows (frozen_ok D) (frozen db) \<and> all_rows (successor_ok D) (successors db)
   \<and> all_rows (exposure_ok D) (exposures db) \<and> all_rows (message_ok h D) (messages db)
   \<and> all_rows (receipt_ok D) (receipts db) \<and> all_rows (decision_ok D) (decisions db)
   \<and> all_rows (reveal_ok h D) (reveals db) \<and> all_rows (result_ok D) (results db)"

definition rows_ok :: "(byte list \<Rightarrow> digest) \<Rightarrow> study_db \<Rightarrow> bool" where
  "rows_ok h db \<longleftrightarrow> rows_hold h db db"

section \<open>Row facts persist\<close>

lemma keeps_row_exists: "keeps_on f t t' \<Longrightarrow> row_exists t k \<Longrightarrow> row_exists t' k"
  by (auto simp: keeps_on_def row_exists_def)

lemma keepsD: "keeps t t' \<Longrightarrow> select_pk t k = Some r \<Longrightarrow> select_pk t' k = Some r"
  by (auto simp: keeps_on_def)

lemma persists_lookup:
  assumes "persists db db'"
  shows "\<And>k r. select_pk (protocols db) k = Some r \<Longrightarrow> select_pk (protocols db') k = Some r"
    and "\<And>k r. select_pk (measurements db) k = Some r \<Longrightarrow> select_pk (measurements db') k = Some r"
    and "\<And>k r. select_pk (populations db) k = Some r \<Longrightarrow> select_pk (populations db') k = Some r"
    and "\<And>k r. select_pk (treatments db) k = Some r \<Longrightarrow> select_pk (treatments db') k = Some r"
    and "\<And>k r. select_pk (pairs db) k = Some r \<Longrightarrow> select_pk (pairs db') k = Some r"
    and "\<And>k r. select_pk (occurrences db) k = Some r \<Longrightarrow> select_pk (occurrences db') k = Some r"
    and "\<And>k r. select_pk (frozen db) k = Some r \<Longrightarrow> select_pk (frozen db') k = Some r"
    and "\<And>k r. select_pk (receipts db) k = Some r \<Longrightarrow> select_pk (receipts db') k = Some r"
    and "\<And>k r. select_pk (reveals db) k = Some r \<Longrightarrow> select_pk (reveals db') k = Some r"
  by (insert assms, unfold persists_def, (elim conjE, erule keepsD, assumption)+)

lemma persists_lookup_key:
  assumes "persists db db'"
  shows "\<And>k r. select_pk (episodes db) k = Some r \<Longrightarrow>
           \<exists>r'. select_pk (episodes db') k = Some r' \<and> ep_key r' = ep_key r"
    and "\<And>k r. select_pk (runs db) k = Some r \<Longrightarrow>
           \<exists>r'. select_pk (runs db') k = Some r' \<and> ru_key r' = ru_key r"
    and "\<And>k r. select_pk (forums db) k = Some r \<Longrightarrow>
           \<exists>r'. select_pk (forums db') k = Some r' \<and> fo_key r' = fo_key r"
    and "\<And>k r. select_pk (threads db) k = Some r \<Longrightarrow>
           \<exists>r'. select_pk (threads db') k = Some r' \<and> th_key r' = th_key r"
    and "\<And>k r. select_pk (obligations db) k = Some r \<Longrightarrow>
           \<exists>r'. select_pk (obligations db') k = Some r' \<and> ob_key r' = ob_key r"
    and "\<And>k r. select_pk (exposures db) k = Some r \<Longrightarrow>
           \<exists>r'. select_pk (exposures db') k = Some r' \<and> ex_key r' = ex_key r"
    and "\<And>k r. select_pk (messages db) k = Some r \<Longrightarrow>
           \<exists>r'. select_pk (messages db') k = Some r' \<and> ms_key r' = ms_key r"
  by (insert assms, unfold persists_def, (elim conjE, erule keeps_onD, assumption)+)

lemma persists_row_exists:
  assumes "persists db db'"
  shows "row_exists (measurements db) k \<Longrightarrow> row_exists (measurements db') k"
    and "row_exists (populations db) k \<Longrightarrow> row_exists (populations db') k"
    and "row_exists (episodes db) k \<Longrightarrow> row_exists (episodes db') k"
    and "row_exists (pairs db) k \<Longrightarrow> row_exists (pairs db') k"
    and "row_exists (forums db) k \<Longrightarrow> row_exists (forums db') k"
    and "row_exists (obligations db) k \<Longrightarrow> row_exists (obligations db') k"
    and "row_exists (reveals db) k \<Longrightarrow> row_exists (reveals db') k"
  by (insert assms, unfold persists_def, (elim conjE, erule keeps_row_exists, assumption)+)

lemma episode_ok_stable: "persists db db' \<Longrightarrow> episode_ok db k r \<Longrightarrow> episode_ok db' k r"
  by (auto simp: episode_ok_def dest: persists_row_exists)

lemma has_treatment_stable: "persists db db' \<Longrightarrow> has_treatment db e t \<Longrightarrow> has_treatment db' e t"
  by (auto simp: has_treatment_def dest: persists_lookup(4))

lemma pair_ok_stable:
  assumes p: "persists db db'" and ok: "pair_ok db k r"
  shows "pair_ok db' k r"
proof -
  from ok obtain a b pa pb where ab: "select_pk (episodes db) (pa_retained r) = Some a"
      "select_pk (episodes db) (pa_reset r) = Some b"
      "select_pk (populations db) (ep_population a) = Some pa"
      "select_pk (populations db) (ep_population b) = Some pb"
      "has_treatment db (pa_retained r) Retained" "has_treatment db (pa_reset r) Reset"
    and eqs: "pa_retained r \<noteq> pa_reset r" "ep_protocol a = ep_protocol b" "ep_world a = ep_world b"
      "ep_measurement a = ep_measurement b" "ep_institution a = ep_institution b"
      "ep_randomization a = ep_randomization b" "ps_digest pa = ps_digest pb" "ps_size pa = ps_size pb"
    unfolding pair_ok_def by blast
  obtain a' b' where "select_pk (episodes db') (pa_retained r) = Some a'" "ep_key a' = ep_key a"
      "select_pk (episodes db') (pa_reset r) = Some b'" "ep_key b' = ep_key b"
    using persists_lookup_key(1) [OF p ab(1)] persists_lookup_key(1) [OF p ab(2)] by blast
  then show ?thesis
    using eqs persists_lookup(3) [OF p ab(3)] persists_lookup(3) [OF p ab(4)]
      has_treatment_stable [OF p ab(5)] has_treatment_stable [OF p ab(6)]
    by (auto simp: pair_ok_def ep_key_def)
qed

lemma run_pair_ok_stable: "persists db db' \<Longrightarrow> run_pair_ok db k r \<Longrightarrow> run_pair_ok db' k r"
  by (fastforce simp: run_pair_ok_def ru_key_def dest: persists_lookup_key(2) persists_row_exists(4))

lemma thread_forum_stable:
  assumes p: "persists db db'"
    and "select_pk (threads db) t = Some tr" "select_pk (forums db) (th_forum tr) = Some fr"
  shows "\<exists>tr' fr'. select_pk (threads db') t = Some tr' \<and> th_forum tr' = th_forum tr
           \<and> select_pk (forums db') (th_forum tr) = Some fr' \<and> fo_episode fr' = fo_episode fr"
  using persists_lookup_key(4) [OF p assms(2)] persists_lookup_key(3) [OF p assms(3)]
  by (auto simp: th_key_def fo_key_def)

lemma frozen_ok_stable:
  assumes p: "persists db db'" and ok: "frozen_ok db e fz"
  shows "frozen_ok db' e fz"
  using ok thread_forum_stable [OF p] persists_row_exists(3) [OF p]
  unfolding frozen_ok_def by metis

lemma visible_from_ok_stable:
  "persists db db' \<Longrightarrow> visible_from_ok db e ph n \<Longrightarrow> visible_from_ok db' e ph n"
  unfolding visible_from_ok_def by (blast dest: persists_lookup(4) persists_lookup(7))

lemma exposure_ok_stable:
  assumes p: "persists db db'" and ok: "exposure_ok db k x"
  shows "exposure_ok db' k x"
proof -
  from ok obtain ob f where "select_pk (obligations db) (ex_obligation x) = Some ob"
      "select_pk (forums db) (ex_forum x) = Some f" "fo_episode f = ob_episode ob"
      "visible_from_ok db (ob_episode ob) (ob_phase ob) (ex_from x)" "0 < ex_from x"
    unfolding exposure_ok_def by blast
  moreover from this obtain ob' f' where "select_pk (obligations db') (ex_obligation x) = Some ob'"
      "ob_key ob' = ob_key ob" "select_pk (forums db') (ex_forum x) = Some f'" "fo_key f' = fo_key f"
    using persists_lookup_key(3,5) [OF p] by blast
  ultimately show ?thesis
    using visible_from_ok_stable [OF p] by (auto simp: exposure_ok_def ob_key_def fo_key_def)
qed

lemma persists_exposure:
  assumes "persists db db'" "select_pk (exposures db) k = Some r"
  shows "\<exists>r'. select_pk (exposures db') k = Some r' \<and> ex_obligation r' = ex_obligation r
           \<and> ex_forum r' = ex_forum r \<and> ex_from r' = ex_from r"
  using persists_lookup_key(6) [OF assms] by (auto simp: ex_key_def)

lemma persists_message:
  assumes "persists db db'" "select_pk (messages db) k = Some r"
  shows "\<exists>r'. select_pk (messages db') k = Some r' \<and> ms_thread r' = ms_thread r
           \<and> ms_ordinal r' = ms_ordinal r \<and> ms_author r' = ms_author r"
  using persists_lookup_key(7) [OF assms] by (auto simp: ms_key_def)

lemma persists_episode:
  assumes "persists db db'" "select_pk (episodes db) k = Some r"
  shows "\<exists>r'. select_pk (episodes db') k = Some r' \<and> ep_protocol r' = ep_protocol r
           \<and> ep_measurement r' = ep_measurement r \<and> ep_population r' = ep_population r"
  using persists_lookup_key(1) [OF assms] by (auto simp: ep_key_def)

lemma target_ok_stable:
  assumes p: "persists db db'" and ok: "target_ok db ob m q"
  shows "target_ok db' ob m q"
proof -
  from ok obtain mq x xr where o: "select_pk (messages db) q = Some mq" "ms_thread mq = ms_thread m"
      "ms_ordinal mq < ms_ordinal m" "select_pk (exposures db) x = Some xr"
      "ex_obligation xr = ob" "ex_from xr \<le> ms_ordinal mq"
    unfolding target_ok_def by blast
  obtain mq' xr' where "select_pk (messages db') q = Some mq'" "ms_thread mq' = ms_thread mq"
      "ms_ordinal mq' = ms_ordinal mq" "select_pk (exposures db') x = Some xr'"
      "ex_obligation xr' = ex_obligation xr" "ex_from xr' = ex_from xr"
    using persists_message [OF p o(1)] persists_exposure [OF p o(4)] by blast
  with o show ?thesis unfolding target_ok_def by metis
qed

lemma author_ok_stable:
  assumes p: "persists db db'" and ok: "author_ok db e m oc"
  shows "author_ok db' e m oc"
proof -
  from ok obtain ocr ob where o: "select_pk (occurrences db) oc = Some ocr"
      "select_pk (obligations db) (oc_obligation ocr) = Some ob" "ob_episode ob = e"
      "\<forall>q. ms_reply m = Some q \<or> ms_supersedes m = Some q \<longrightarrow> target_ok db (oc_obligation ocr) m q"
    unfolding author_ok_def by blast
  moreover from this obtain ob' where "select_pk (obligations db') (oc_obligation ocr) = Some ob'"
      "ob_key ob' = ob_key ob"
    using persists_lookup_key(5) [OF p] by blast
  ultimately show ?thesis
    using persists_lookup(6) [OF p] target_ok_stable [OF p] by (auto simp: author_ok_def ob_key_def)
qed

lemma message_ok_stable:
  assumes p: "persists db db'" and ok: "message_ok h db k m"
  shows "message_ok h db' k m"
proof -
  from ok obtain t f where tf: "select_pk (threads db) (ms_thread m) = Some t"
      "select_pk (forums db) (th_forum t) = Some f"
      "\<forall>oc. ms_author m = Some oc \<longrightarrow> author_ok db (fo_episode f) m oc"
    unfolding message_ok_def by blast
  then show ?thesis
    using ok thread_forum_stable [OF p tf(1,2)] author_ok_stable [OF p]
    unfolding message_ok_def by metis
qed

lemma receipt_ok_stable:
  assumes p: "persists db db'" and ok: "receipt_ok db k r"
  shows "receipt_ok db' k r"
proof -
  from ok obtain x xr t where o: "rr_first r \<le> rr_through r" "rr_through r - rr_first r < 64"
      "select_pk (exposures db) x = Some xr" "ex_obligation xr = rr_obligation r"
      "select_pk (threads db) (rr_thread r) = Some t" "th_forum t = ex_forum xr" "ex_from xr \<le> rr_first r"
    unfolding receipt_ok_def by blast
  obtain t' where "select_pk (threads db') (rr_thread r) = Some t'" "th_forum t' = th_forum t"
    using persists_lookup_key(4) [OF p o(5)] by (auto simp: th_key_def)
  with o persists_exposure [OF p o(3)] show ?thesis
    unfolding receipt_ok_def by metis
qed

lemma citation_ok_stable:
  assumes p: "persists db db'" and ok: "citation_ok db ob q"
  shows "citation_ok db' ob q"
proof -
  from ok obtain m where m: "select_pk (messages db) q = Some m"
    and c: "(\<exists>oc ocr. ms_author m = Some oc \<and> select_pk (occurrences db) oc = Some ocr
              \<and> oc_obligation ocr = ob)
       \<or> (\<exists>k r. select_pk (receipts db) k = Some r \<and> rr_obligation r = ob
              \<and> rr_thread r = ms_thread m \<and> rr_first r \<le> ms_ordinal m \<and> ms_ordinal m \<le> rr_through r)"
    unfolding citation_ok_def by blast
  obtain m' where m': "select_pk (messages db') q = Some m'" "ms_thread m' = ms_thread m"
      "ms_ordinal m' = ms_ordinal m" "ms_author m' = ms_author m"
    using persists_message [OF p m] by blast
  from c show ?thesis
  proof
    assume "\<exists>oc ocr. ms_author m = Some oc \<and> select_pk (occurrences db) oc = Some ocr
              \<and> oc_obligation ocr = ob"
    then show ?thesis using m' persists_lookup(6) [OF p] unfolding citation_ok_def by metis
  next
    assume "\<exists>k r. select_pk (receipts db) k = Some r \<and> rr_obligation r = ob
              \<and> rr_thread r = ms_thread m \<and> rr_first r \<le> ms_ordinal m \<and> ms_ordinal m \<le> rr_through r"
    then show ?thesis using m' persists_lookup(8) [OF p] unfolding citation_ok_def by metis
  qed
qed

lemma decision_ok_stable: "persists db db' \<Longrightarrow> decision_ok db ob d \<Longrightarrow> decision_ok db' ob d"
  by (auto simp: decision_ok_def intro: citation_ok_stable dest: persists_row_exists)

lemma reveal_ok_stable:
  assumes p: "persists db db'" and ok: "reveal_ok h db e r"
  shows "reveal_ok h db' e r"
  using ok persists_episode [OF p] persists_lookup(1) [OF p] unfolding reveal_ok_def by metis

lemma result_ok_stable:
  assumes p: "persists db db'" and ok: "result_ok db k r"
  shows "result_ok db' k r"
  using ok persists_episode [OF p] persists_lookup(2) [OF p] persists_row_exists(7) [OF p]
  unfolding result_ok_def by metis

lemma successor_ok_stable:
  assumes p: "persists db db'" and ok: "successor_ok db e s"
  shows "successor_ok db' e s"
  using ok persists_episode [OF p] persists_lookup(3) [OF p] unfolding successor_ok_def by metis

lemmas row_stable = episode_ok_stable pair_ok_stable run_pair_ok_stable frozen_ok_stable
  successor_ok_stable exposure_ok_stable message_ok_stable receipt_ok_stable decision_ok_stable
  reveal_ok_stable result_ok_stable persists_row_exists

lemma rows_hold_stable: "persists db db' \<Longrightarrow> rows_hold h db x \<Longrightarrow> rows_hold h db' x"
  unfolding rows_hold_def
  by (intro conjI; elim conjE; erule all_rows_mono; erule (1) row_stable)

text \<open>Facts that hold of one row hold of every row with the same fixed columns.\<close>

lemma row_cong:
  "message_ok h D k (m\<lparr>ms_state := s\<rparr>) = message_ok h D k m"
  "exposure_ok D k (x\<lparr>ex_through := n\<rparr>) = exposure_ok D k x"
  "episode_ok D e (r\<lparr>ep_state := st, ep_last := c\<rparr>) = episode_ok D e r"
  by (simp_all add: message_ok_def author_ok_def target_ok_def exposure_ok_def episode_ok_def)

lemmas rows_update = all_rows_update_pk all_rows_update_where row_cong

section \<open>Rows written by the steps\<close>

lemma matched_arms_pair_ok:
  assumes wf: "tables_wf db" and one: "matched_arms db (pa_retained r) (pa_reset r) = 1"
    and ne: "pa_retained r \<noteq> pa_reset r"
  shows "pair_ok db k r"
proof -
  have ht: "has_treatment db e t"
    if "count_where (\<lambda>_ q. ta_episode q = e \<and> ta_treatment q = t) (treatments db) \<noteq> 0" for e t
    using that wf by (auto simp: has_treatment_def tables_wf_def count_where_zero exists_where_iff)
  show ?thesis
    using one ne ht unfolding matched_arms_def pair_ok_def
    by (auto split: option.splits if_splits simp: zmult_eq_1_iff)
qed

lemma pair_registrable_ok: "pair_registrable db p pr d \<Longrightarrow> row_exists (pairs db) p"
  by (auto simp: pair_registrable_def pair_arms_def row_exists_def split: option.splits)

lemma expected_visible_from_ok:
  assumes wf: "tables_wf db" and ex: "expected_visible_from db e ph = Inr n"
  shows "visible_from_ok db e ph n"
  using ex wf select_where_Some [of "treatments db"]
  by (cases ph)
    (fastforce simp: expected_visible_from_def visible_from_ok_def treatment_of_def tables_wf_def
      split: option.splits prod.splits)+

lemma visible_target_ok:
  assumes wf: "tables_wf db"
    and "message_target_is_earlier_same_thread db q (ms_thread m) (ms_ordinal m)"
    and "message_is_visible_to_obligation db ob q"
  shows "target_ok db ob m q"
  using assms
  by (auto simp: message_target_is_earlier_same_thread_def message_is_visible_to_obligation_def
      target_ok_def tables_wf_def exists_where_iff split: option.splits)

lemma read_receipt_ok:
  assumes wf: "tables_wf db" and rd: "forum_read_thread db ob first through = Inr th"
  shows "receipt_ok db k (receipt_for h c ob th first through obj db)"
proof -
  have "wf_table (threads db)" "wf_table (exposures db)" using wf by (simp_all add: tables_wf_def)
  then show ?thesis
    by (rule forum_read_thread_Inr [OF _ _ rd]) (fastforce simp: receipt_ok_def receipt_for_def Let_def)
qed

lemma cited_ok:
  assumes wf: "tables_wf db" and c: "own_published_message db ob q \<or> returned_count db ob q = 1"
  shows "citation_ok db ob q"
  using c
proof
  assume "own_published_message db ob q"
  then show ?thesis
    by (auto simp: own_published_message_def citation_ok_def bind_eq_Some_conv split: option.splits)
next
  assume one: "returned_count db ob q = 1"
  then obtain m where m: "select_pk (messages db) q = Some m"
    by (auto simp: returned_count_def split: option.splits)
  let ?p = "\<lambda>_ r. rr_thread r = ms_thread m \<and> rr_obligation r = ob
             \<and> rr_first r \<le> ms_ordinal m \<and> ms_ordinal m \<le> rr_through r"
  have "count_where ?p (receipts db) \<noteq> 0" using one m by (simp add: returned_count_def)
  then have "exists_where ?p (receipts db)" by (simp add: count_where_zero)
  then show ?thesis
    using m wf unfolding citation_ok_def by (auto simp: tables_wf_def exists_where_iff)
qed

section \<open>Every reachable row states a fact\<close>

lemma message_posted_rows:
  assumes post: "message_posted k f m db db'" and old: "rows_hold h db db" and m: "message_ok h db k m"
  shows "rows_hold h db' db'"
proof -
  have p: "persists db db'" by (rule message_posted_persists [OF post])
  have old': "rows_hold h db' db" by (rule rows_hold_stable [OF p old])
  have m': "message_ok h db' k m" by (rule message_ok_stable [OF p m])
  obtain t tr where t: "adds (messages db) k m t"
    and db': "db' = db\<lparr>messages := t,
       threads := update_pk (ms_thread m) (\<lambda>q. q\<lparr>th_head := ms_ordinal m\<rparr>) (threads db),
       exposures := advance_exposures (ms_ordinal m) f (exposures db)\<rparr>"
    using post unfolding message_posted_def by blast
  have "all_rows (message_ok h db') t"
    using all_rows_adds [OF t] m' old' by (simp add: rows_hold_def)
  moreover have "all_rows (exposure_ok db') (advance_exposures (ms_ordinal m) f (exposures db))"
    unfolding advance_exposures_def
    by (rule all_rows_update_where) (use old' in \<open>simp_all add: rows_hold_def row_cong\<close>)
  moreover have "all_rows (\<lambda>_ t. row_exists (forums db') (th_forum t))
      (update_pk (ms_thread m) (\<lambda>q. q\<lparr>th_head := ms_ordinal m\<rparr>) (threads db))"
    by (rule all_rows_update_pk) (use old' in \<open>simp_all add: rows_hold_def\<close>)
  ultimately show ?thesis
    using old' unfolding rows_hold_def by (simp add: db')
qed

lemma set_episode_state_rows:
  assumes "rows_hold h db db"
  shows "rows_hold h (set_episode_state c e s db) (set_episode_state c e s db)"
proof -
  let ?db = "set_episode_state c e s db"
  have old': "rows_hold h ?db db" by (rule rows_hold_stable [OF set_episode_state_persists assms])
  have "all_rows (episode_ok ?db) (update_pk e (\<lambda>r. r\<lparr>ep_state := s, ep_last := c\<rparr>) (episodes db))"
    by (rule all_rows_update_pk) (use old' in \<open>simp_all add: rows_hold_def row_cong\<close>)
  then show ?thesis using old' unfolding rows_hold_def by (simp add: set_episode_state_def)
qed

lemma correction_row_ok:
  assumes "select_pk (threads db) t = Some tr" "select_pk (forums db) (th_forum tr) = Some fr" "0 < n"
  shows "message_ok h db k (correction_row h c t n body)"
  using assms by (auto simp: message_ok_def correction_row_def)

lemma arm_released_rows:
  assumes "arm_released h c e t body db db'" "rows_hold h db db"
  shows "rows_hold h db' db'"
proof -
  obtain tr fr k db1 where a: "select_pk (threads db) t = Some tr"
      "select_pk (forums db) (th_forum tr) = Some fr"
      "message_posted k (th_forum tr) (correction_row h c t (th_head tr + 1) body) db db1"
      "db' = set_episode_state c e CorrectionReleased db1"
    using assms(1) unfolding arm_released_def by blast
  have "0 < th_head tr + 1" using a(3) by (auto simp: message_posted_def correction_row_def)
  then show ?thesis
    using message_posted_rows [OF a(3) assms(2)] correction_row_ok [OF a(1,2)] set_episode_state_rows a(4)
    by blast
qed

lemma publish_row_ok:
  assumes wf: "tables_wf db" and old: "rows_hold h db db"
    and ob: "select_pk (obligations db) ob = Some r"
    and x: "select_pk (exposures db) x = Some xr" "ex_obligation xr = ob"
    and oc: "select_pk (occurrences db) oc = Some ocr" "oc_obligation ocr = ob"
    and m: "ms_author m = Some oc" "\<not> ms_service m" "ms_digest m = h (ms_body m)"
    and tg: "\<And>q. ms_reply m = Some q \<or> ms_supersedes m = Some q \<Longrightarrow>
        message_target_is_earlier_same_thread db q (ms_thread m) (ms_ordinal m)
        \<and> message_is_visible_to_obligation db ob q"
    and post: "message_posted k (ex_forum xr) m db db1"
  shows "message_ok h db k m"
proof -
  obtain tr where tr: "select_pk (threads db) (ms_thread m) = Some tr" "th_forum tr = ex_forum xr"
      "0 < ms_ordinal m"
    using post unfolding message_posted_def by blast
  have "exposure_ok db x xr" using old x(1) by (auto simp: rows_hold_def all_rows_def)
  then obtain f where f: "select_pk (forums db) (ex_forum xr) = Some f" "fo_episode f = ob_episode r"
    using ob x(2) unfolding exposure_ok_def by auto
  have "author_ok db (ob_episode r) m oc"
    unfolding author_ok_def using oc ob tg visible_target_ok [OF wf] by blast
  then show ?thesis
    using m tr f unfolding message_ok_def by auto
qed

lemma obligations_update_rows:
  assumes old: "rows_hold h db db" and g: "\<And>r. ob_key (g r) = ob_key r"
  shows "rows_hold h (db\<lparr>obligations := update_pk ob g (obligations db)\<rparr>)
           (db\<lparr>obligations := update_pk ob g (obligations db)\<rparr>)"
proof -
  let ?db = "db\<lparr>obligations := update_pk ob g (obligations db)\<rparr>"
  have "persists db ?db" using g by (simp add: persists_def update_pk_keeps)
  then have old': "rows_hold h ?db db" by (rule rows_hold_stable [OF _ old])
  have ep: "ob_episode (g r) = ob_episode r" for r using g [of r] by (simp add: ob_key_def)
  have "all_rows (\<lambda>_ r. row_exists (episodes ?db) (ob_episode r)) (update_pk ob g (obligations db))"
    by (rule all_rows_update_pk) (use old' ep in \<open>simp_all add: rows_hold_def\<close>)
  then show ?thesis using old' unfolding rows_hold_def by simp
qed

lemma study_step_rows:
  assumes step: "study_step h c db db'" and wf: "tables_wf db" and old: "rows_hold h db db"
  shows "rows_hold h db' db'"
proof -
  have p: "persists db db'" by (rule study_step_persists [OF step])
  have old': "rows_hold h db' db" by (rule rows_hold_stable [OF p old])
  note st = row_stable [OF p]
  from step show ?thesis
  proof (cases rule: study_step.cases)
    case (episode e r t)
    have "episode_ok db e r"
      using episode(5) by (auto simp: episode_material_matches_def episode_ok_def row_exists_def
          split: option.splits)
    then show ?thesis
      using old' st(1) all_rows_adds [OF episode(2)] episode(1) unfolding rows_hold_def by simp
  next
    case (treatment k r t e er)
    then have "row_exists (episodes db) (ta_episode r)" by (simp add: row_exists_def)
    then show ?thesis
      using old' st(14) all_rows_adds [OF treatment(2)] treatment(1) unfolding rows_hold_def by simp
  next
    case (pair k r t)
    have "pair_ok db k r" by (rule matched_arms_pair_ok [OF wf pair(3,4)])
    then show ?thesis
      using old' st(2) all_rows_adds [OF pair(2)] pair(1) unfolding rows_hold_def by simp
  next
    case (register run r n q t)
    have "run_pair_ok db (run, n) q"
      using register pair_registrable_ok by (auto simp: run_pair_ok_def)
    then show ?thesis
      using old' st(3) all_rows_adds [OF register(3)] register(1) unfolding rows_hold_def by simp
  next
    case (forum k r t er)
    then have "row_exists (episodes db) (fo_episode r)" by (simp add: row_exists_def)
    then show ?thesis
      using old' st(14) all_rows_adds [OF forum(2)] forum(1) unfolding rows_hold_def by simp
  next
    case (thread k r t fr)
    then have "row_exists (forums db) (th_forum r)" by (simp add: row_exists_def)
    then show ?thesis
      using old' st(16) all_rows_adds [OF thread(2)] thread(1) unfolding rows_hold_def by simp
  next
    case (freeze e r t er tr fr)
    have "frozen_ok db e r" using freeze by (auto simp: frozen_ok_def row_exists_def)
    then show ?thesis
      using old' st(4) all_rows_adds [OF freeze(2)] freeze(1) unfolding rows_hold_def by simp
  next
    case (exposure k r t obr fr th tr)
    have "exposure_ok db k r"
      using exposure expected_visible_from_ok [OF wf exposure(11)] by (auto simp: exposure_ok_def)
    then show ?thesis
      using old' st(6) all_rows_adds [OF exposure(2)] exposure(1) unfolding rows_hold_def by simp
  next
    case (decide ob d t r)
    have "decision_ok db ob d"
      using decide cited_ok [OF wf] by (auto simp: decision_ok_def row_exists_def)
    then show ?thesis
      using old' st(9) all_rows_adds [OF decide(2)] decide(1) unfolding rows_hold_def by simp
  next
    case (reveal e r t er pr)
    have "reveal_ok h db e r" using reveal by (auto simp: reveal_ok_def)
    then show ?thesis
      using old' st(10) all_rows_adds [OF reveal(2)] reveal(1) unfolding rows_hold_def by simp
  next
    case (result k r t er mr)
    have "result_ok db k r" using result by (auto simp: result_ok_def)
    then show ?thesis
      using old' st(11) all_rows_adds [OF result(2)] result(1) unfolding rows_hold_def by simp
  next
    case (bind ob b t r)
    then have "row_exists (obligations db) ob" by (simp add: row_exists_def)
    then show ?thesis
      using old' st(17) all_rows_adds [OF bind(2)] bind(1) unfolding rows_hold_def by simp
  next
    case (read k ob th first through obj t)
    have "receipt_ok db k (receipt_for h c ob th first through obj db)"
      by (rule read_receipt_ok [OF wf read(3)])
    moreover have q: "persists db (db\<lparr>receipts := t\<rparr>)"
      using read(2) by (simp add: persists_def adds_keeps)
    ultimately have "rows_hold h (db\<lparr>receipts := t\<rparr>) (db\<lparr>receipts := t\<rparr>)"
      using rows_hold_stable [OF q old] receipt_ok_stable [OF q] all_rows_adds [OF read(2)]
      unfolding rows_hold_def by simp
    from obligations_update_rows [OF this] show ?thesis
      using read(1) by (simp add: ob_key_def)
  next
    case (publish ob r er x xr oc ocr m k db1)
    have "rows_hold h db1 db1"
      using message_posted_rows [OF publish(16) old] publish_row_ok [OF wf old publish(2,8-15)]
        publish(16) by blast
    from obligations_update_rows [OF this] show ?thesis
      using publish(1) set_episode_state_rows by (simp add: publish_effect_def Let_def ob_key_def)
  next
    case (release pp pa body ta db1 tb)
    then show ?thesis using arm_released_rows old by blast
  next
    case (obligation ob e pop phase role view prompt tool budget reads posts t er oc u)
    let ?db = "db\<lparr>obligations := t, occurrences := u\<rparr>"
    have q: "persists db ?db"
      using obligation by (simp add: persists_def adds_keeps)
    have "row_exists (episodes db) e" using obligation by (simp add: row_exists_def)
    moreover have "row_exists t ob" using adds_select [OF obligation(2)] by (simp add: row_exists_def)
    ultimately have "rows_hold h ?db ?db"
      using rows_hold_stable [OF q old] all_rows_adds [OF obligation(2)] all_rows_adds [OF obligation(14)]
      unfolding rows_hold_def by (simp add: new_obligation_row_def)
    then show ?thesis using set_episode_state_rows obligation(1) by simp
  next
    case (complete ob r charged)
    show ?thesis unfolding complete(1) by (rule obligations_update_rows [OF old]) (simp add: ob_key_def)
  next
    case (fail ob r reason)
    show ?thesis unfolding fail(1) by (rule obligations_update_rows [OF old]) (simp add: ob_key_def)
  next
    case (replace e r t er pop succ)
    let ?db = "db\<lparr>successors := t\<rparr>"
    have q: "persists db ?db" using replace by (simp add: persists_def adds_keeps)
    have "successor_ok db e r" using replace by (auto simp: successor_ok_def)
    then have "rows_hold h ?db ?db"
      using rows_hold_stable [OF q old] successor_ok_stable [OF q] all_rows_adds [OF replace(2)]
      unfolding rows_hold_def by simp
    then show ?thesis using set_episode_state_rows replace(1) by simp
  next
    case (close e er mr pr)
    let ?g = "\<lambda>f. f\<lparr>fo_state := ForumClosed, fo_last := c\<rparr>"
    let ?db = "db\<lparr>forums := update_where (\<lambda>_ f. fo_episode f = e) ?g (forums db)\<rparr>"
    have q: "persists db ?db" by (simp add: persists_def update_where_keeps fo_key_def)
    note hold = rows_hold_stable [OF q old]
    have "all_rows (\<lambda>_ f. row_exists (episodes ?db) (fo_episode f))
        (update_where (\<lambda>_ f. fo_episode f = e) ?g (forums db))"
      by (rule all_rows_update_where) (use hold in \<open>simp_all add: rows_hold_def\<close>)
    then have "rows_hold h ?db ?db" using hold unfolding rows_hold_def by simp
    then show ?thesis using set_episode_state_rows close(1) by simp
  next
    case (fork e r t j a u k f v source er)
    have "episode_ok db e r"
      using old fork by (auto simp: rows_hold_def all_rows_def episode_ok_def)
    moreover have "row_exists t e" using adds_select [OF fork(2)] by (simp add: row_exists_def)
    ultimately show ?thesis
      using old' st(1) all_rows_adds [OF fork(2)] all_rows_adds [OF fork(3)] fork
      unfolding rows_hold_def by simp
  next
    case (retract k m oc ocr ob r)
    let ?t = "update_pk k (\<lambda>q. q\<lparr>ms_state := Retracted\<rparr>) (messages db)"
    have "all_rows (message_ok h db') ?t"
      by (rule all_rows_update_pk) (use old' in \<open>simp_all add: rows_hold_def row_cong\<close>)
    then show ?thesis using old' retract(1) unfolding rows_hold_def by simp
  next
    case (reconcile ob b ch)
    have "all_rows (\<lambda>ob _. row_exists (obligations db') ob) (bindings db')"
      unfolding reconcile(1) using old'
      by (simp add: rows_hold_def reconcile(1) all_rows_update_pk)
    then show ?thesis using old' reconcile(1) unfolding rows_hold_def by simp
  next
    case (settle ob s t r b e')
    have "all_rows (\<lambda>ob _. row_exists (obligations db') ob) (bindings db')"
      unfolding settle(1) using old'
      by (simp add: rows_hold_def settle(1) all_rows_update_pk)
    then show ?thesis using old' settle(1) unfolding rows_hold_def by simp
  qed (use old' in \<open>simp_all add: rows_hold_def\<close>)
qed

interpretation rows: study_invariant h "\<lambda>_. True" "rows_ok h" for h
proof unfold_locales
  show "rows_ok h (empty_study_db e)" for e
    by (simp add: rows_ok_def rows_hold_def empty_study_db_def)
  show "rows_ok h db'" if "tables_wf db" "rows_ok h db" "study_step h c db db'" for db db' c
    using study_step_rows that by (simp add: rows_ok_def)
  have pr: "persists db (rollback db db')" "persists db (db\<lparr>env := e\<rparr>)" for db db' e
    by (simp_all add: persists_def)
  show "rows_ok h (rollback db db')" if "rows_ok h db" for db db'
  proof -
    have "rows_hold h (rollback db db') db"
      using rows_hold_stable [OF pr(1)] that unfolding rows_ok_def .
    then show ?thesis unfolding rows_ok_def rows_hold_def by simp
  qed
  show "rows_ok h (db\<lparr>env := e\<rparr>)" if "rows_ok h db" for db e
  proof -
    have "rows_hold h (db\<lparr>env := e\<rparr>) db"
      using rows_hold_stable [OF pr(2)] that unfolding rows_ok_def .
    then show ?thesis unfolding rows_ok_def rows_hold_def by simp
  qed
qed simp

end
