(* ===== verification/Study_Thread.thy ===== *)
theory Study_Thread
  imports Study_Integrity
begin

text \<open>
  The forum thread of an episode as an append-only log: its messages carry exactly the ordinals
  1 to the head, a frozen head is a prefix of the log, and the window of every exposure ends at the
  current head of the thread.
\<close>

section \<open>Row facts of a well-formed database\<close>

lemma rows_okD:
  assumes "rows_ok h db"
  shows "\<And>k r. select_pk (episodes db) k = Some r \<Longrightarrow> episode_ok db k r"
    and "\<And>k r. select_pk (treatments db) k = Some r \<Longrightarrow> row_exists (episodes db) (ta_episode r)"
    and "\<And>k r. select_pk (pairs db) k = Some r \<Longrightarrow> pair_ok db k r"
    and "\<And>k r. select_pk (run_pairs db) k = Some r \<Longrightarrow> run_pair_ok db k r"
    and "\<And>k r. select_pk (forums db) k = Some r \<Longrightarrow> row_exists (episodes db) (fo_episode r)"
    and "\<And>k r. select_pk (threads db) k = Some r \<Longrightarrow> row_exists (forums db) (th_forum r)"
    and "\<And>k r. select_pk (obligations db) k = Some r \<Longrightarrow> row_exists (episodes db) (ob_episode r)"
    and "\<And>k r. select_pk (occurrences db) k = Some r \<Longrightarrow> row_exists (obligations db) (oc_obligation r)"
    and "\<And>k r. select_pk (bindings db) k = Some r \<Longrightarrow> row_exists (obligations db) k"
    and "\<And>k r. select_pk (frozen db) k = Some r \<Longrightarrow> frozen_ok db k r"
    and "\<And>k r. select_pk (successors db) k = Some r \<Longrightarrow> successor_ok db k r"
    and "\<And>k r. select_pk (exposures db) k = Some r \<Longrightarrow> exposure_ok db k r"
    and "\<And>k r. select_pk (messages db) k = Some r \<Longrightarrow> message_ok h db k r"
    and "\<And>k r. select_pk (receipts db) k = Some r \<Longrightarrow> receipt_ok db k r"
    and "\<And>k r. select_pk (decisions db) k = Some r \<Longrightarrow> decision_ok db k r"
    and "\<And>k r. select_pk (reveals db) k = Some r \<Longrightarrow> reveal_ok h db k r"
    and "\<And>k r. select_pk (results db) k = Some r \<Longrightarrow> result_ok db k r"
  by (insert assms, unfold rows_ok_def rows_hold_def, (elim conjE, erule all_rowsD, assumption)+)

section \<open>Messages carry the ordinals up to the head\<close>

definition heads_ok :: "study_db \<Rightarrow> bool" where
  "heads_ok db \<longleftrightarrow>
     all_rows (\<lambda>t tr. 0 \<le> th_head tr
       \<and> (\<forall>k m. select_pk (messages db) k = Some m \<longrightarrow> ms_thread m = t \<longrightarrow> ms_ordinal m \<le> th_head tr)
       \<and> (\<forall>n. 1 \<le> n \<longrightarrow> n \<le> th_head tr \<longrightarrow>
            (\<exists>k m. select_pk (messages db) k = Some m \<and> ms_thread m = t \<and> ms_ordinal m = n)))
       (threads db)"

lemma message_posted_select:
  assumes "message_posted k f m db db'"
  shows "select_pk (messages db') j = (if j = k then Some m else select_pk (messages db) j)"
    and "select_pk (threads db') t
       = (if t = ms_thread m then map_option (\<lambda>q. q\<lparr>th_head := ms_ordinal m\<rparr>) (select_pk (threads db) t)
          else select_pk (threads db) t)"
    and "select_pk (exposures db') x
       = map_option (\<lambda>r. if ex_forum r = f \<and> ex_from r \<le> ms_ordinal m
            then r\<lparr>ex_through := ms_ordinal m\<rparr> else r) (select_pk (exposures db) x)"
  using assms
  by (auto simp: message_posted_def adds_select table_simps advance_exposures_def split: option.splits)

lemma message_posted_same:
  assumes "message_posted k f m db db'"
  shows "episodes db' = episodes db" "obligations db' = obligations db" "frozen db' = frozen db"
    "forums db' = forums db" "occurrences db' = occurrences db" "treatments db' = treatments db"
    "successors db' = successors db" "pairs db' = pairs db" "protocols db' = protocols db"
    "populations db' = populations db" "measurements db' = measurements db"
    "reveals db' = reveals db" "results db' = results db" "receipts db' = receipts db"
    "bindings db' = bindings db" "runs db' = runs db" "run_pairs db' = run_pairs db"
    "settlements db' = settlements db"
  using assms by (auto simp: message_posted_def)

lemma message_posted_head:
  assumes "message_posted k f m db db'"
  obtains tr where "select_pk (threads db) (ms_thread m) = Some tr" "th_forum tr = f"
    "ms_ordinal m = th_head tr + 1" "0 < ms_ordinal m" "select_pk (messages db) k = None"
  using assms by (auto simp: message_posted_def dest: adds_fresh)

lemma message_posted_heads:
  assumes post: "message_posted k f m db db'" and ok: "heads_ok db"
  shows "heads_ok db'"
proof -
  obtain tr where tr: "select_pk (threads db) (ms_thread m) = Some tr" "ms_ordinal m = th_head tr + 1"
      "0 < ms_ordinal m" and fresh: "select_pk (messages db) k = None"
    by (rule message_posted_head [OF post])
  note sel = message_posted_select [OF post]
  have le: "ms_ordinal q \<le> th_head r"
    if "select_pk (threads db) t = Some r" "select_pk (messages db) j = Some q" "ms_thread q = t"
    for t r j q
    using ok that by (auto simp: heads_ok_def all_rows_def)
  have ex: "\<exists>j q. select_pk (messages db) j = Some q \<and> ms_thread q = t \<and> ms_ordinal q = n"
    if "select_pk (threads db) t = Some r" "1 \<le> n" "n \<le> th_head r" for t r n
    using ok that by (auto simp: heads_ok_def all_rows_def)
  have keep: "select_pk (messages db') j = Some q" if "select_pk (messages db) j = Some q" for j q
    using that fresh by (auto simp: sel(1))
  show ?thesis
    unfolding heads_ok_def all_rows_def
  proof (intro allI impI conjI, goal_cases)
    case (1 t r)
    then show ?case
      using ok tr by (auto simp: heads_ok_def all_rows_def sel(2) split: if_splits)
  next
    case (2 t r j q)
    show ?case
    proof (cases "t = ms_thread m")
      case True
      then have "th_head r = th_head tr + 1" using 2(1) tr by (auto simp: sel(2))
      then show ?thesis
        using 2 True tr le [OF tr(1), of j q] by (cases "j = k") (auto simp: sel(1))
    next
      case False
      then have "select_pk (threads db) t = Some r" "select_pk (messages db) j = Some q"
        using 2 by (auto simp: sel split: if_splits)
      then show ?thesis using le 2(3) by blast
    qed
  next
    case (3 t r n)
    show ?case
    proof (cases "t = ms_thread m \<and> n = ms_ordinal m")
      case True
      then show ?thesis using sel(1) [of k] by (intro exI [of _ k] exI [of _ m]) simp
    next
      case False
      obtain r0 where r0: "select_pk (threads db) t = Some r0" "n \<le> th_head r0"
        using 3 False tr by (cases "t = ms_thread m") (auto simp: sel(2))
      then show ?thesis using ex [OF r0(1) 3(2) r0(2)] keep by blast
    qed
  qed
qed

lemma heads_ok_state [simp]: "heads_ok (set_episode_state c e s db) = heads_ok db"
  by (simp add: heads_ok_def set_episode_state_def)

lemma heads_ok_publish [simp]: "heads_ok (publish_effect c e ph s ob db) = heads_ok db"
  by (simp add: heads_ok_def publish_effect_def Let_def set_episode_state_def)

lemma arm_releasedE:
  assumes "arm_released h c e t body db db'"
  obtains er tr fr k db1 where
    "select_pk (episodes db) e = Some er" "ep_state er = SuccessorAdmitted"
    "select_pk (threads db) t = Some tr" "select_pk (forums db) (th_forum tr) = Some fr"
    "fo_episode fr = e" "expected_successors db e = Some (ready_successors db e)"
    "message_posted k (th_forum tr) (correction_row h c t (th_head tr + 1) body) db db1"
    "db' = set_episode_state c e CorrectionReleased db1"
  using assms unfolding arm_released_def by blast

lemma arm_released_heads: "arm_released h c e t body db db' \<Longrightarrow> heads_ok db \<Longrightarrow> heads_ok db'"
  by (erule arm_releasedE) (simp add: message_posted_heads)

lemma heads_ok_retract:
  "heads_ok (db\<lparr>messages := update_pk k (\<lambda>q. q\<lparr>ms_state := s\<rparr>) (messages db)\<rparr>) = heads_ok db"
proof -
  let ?t = "update_pk k (\<lambda>q. q\<lparr>ms_state := s\<rparr>) (messages db)"
  have "(\<forall>m. select_pk ?t j = Some m \<longrightarrow> ms_thread m = t \<longrightarrow> ms_ordinal m \<le> n)
      \<longleftrightarrow> (\<forall>m. select_pk (messages db) j = Some m \<longrightarrow> ms_thread m = t \<longrightarrow> ms_ordinal m \<le> n)"
    and "(\<exists>m. select_pk ?t j = Some m \<and> ms_thread m = t \<and> ms_ordinal m = n)
      \<longleftrightarrow> (\<exists>m. select_pk (messages db) j = Some m \<and> ms_thread m = t \<and> ms_ordinal m = n)" for j t n
    by (cases "select_pk (messages db) j"; auto simp: select_pk_update_pk)+
  then show ?thesis by (simp add: heads_ok_def)
qed

lemma study_step_heads:
  assumes step: "study_step h c db db'" and rows: "rows_ok h db" and ok: "heads_ok db"
  shows "heads_ok db'"
  using step
proof (cases rule: study_step.cases)
  case (thread k r t fr)
  have none: "ms_thread m \<noteq> k" if "select_pk (messages db) j = Some m" for j m
  proof -
    have "message_ok h db j m" by (rule rows_okD(13) [OF rows that])
    then show ?thesis using adds_fresh [OF thread(2)] by (auto simp: message_ok_def)
  qed
  then show ?thesis
    using ok thread(1,6) by (auto simp: heads_ok_def all_rows_adds [OF thread(2)])
next
  case (publish ob r er x xr oc ocr m k db1)
  then show ?thesis using message_posted_heads ok by simp
next
  case (release p pa body ta db1 tb)
  then show ?thesis using arm_released_heads ok by blast
next
  case (retract k m oc ocr ob r)
  then show ?thesis using ok heads_ok_retract by simp
qed (use ok in \<open>auto simp: heads_ok_def set_episode_state_def\<close>)

interpretation heads: study_invariant h "rows_ok h" heads_ok for h
proof unfold_locales
  show "heads_ok db'" if "rows_ok h db" "heads_ok db" "study_step h c db db'" for c db db'
    using study_step_heads that by blast
qed (simp_all add: rows.reachable, simp_all add: heads_ok_def empty_study_db_def)

section \<open>Frozen heads and exposure windows\<close>

text \<open>A frozen head is a prefix of its thread.\<close>

definition frozen_prefix :: "study_db \<Rightarrow> bool" where
  "frozen_prefix db \<longleftrightarrow>
     all_rows (\<lambda>_ fz. 0 \<le> fz_head fz \<and> (\<forall>tr. select_pk (threads db) (fz_thread fz) = Some tr \<longrightarrow>
       fz_head fz \<le> th_head tr)) (frozen db)"

text \<open>
  The window of an exposure ends at the head of its forum's only thread, and starts no later than
  one past it.
\<close>

definition exposures_ok :: "study_db \<Rightarrow> bool" where
  "exposures_ok db \<longleftrightarrow>
     all_rows (\<lambda>_ x. \<exists>t tr. select_pk (threads db) t = Some tr \<and> th_forum tr = ex_forum x
       \<and> ex_through x = th_head tr \<and> ex_from x \<le> th_head tr + 1) (exposures db)"

definition windows_ok :: "study_db \<Rightarrow> bool" where
  "windows_ok db \<longleftrightarrow> frozen_prefix db \<and> exposures_ok db"

definition structure_ok :: "(byte list \<Rightarrow> digest) \<Rightarrow> study_db \<Rightarrow> bool" where
  "structure_ok h db \<longleftrightarrow> tables_wf db \<and> uniques db \<and> rows_ok h db \<and> heads_ok db"

lemma structure_reachable: "study_reachable h db \<Longrightarrow> structure_ok h db"
  by (simp add: structure_ok_def reachable_wf uniq.reachable [where h = h] rows.reachable
      heads.reachable [where h = h])

lemma windows_ok_state [simp]: "windows_ok (set_episode_state c e s db) = windows_ok db"
  by (simp add: windows_ok_def frozen_prefix_def exposures_ok_def set_episode_state_def)

lemma windows_ok_publish [simp]: "windows_ok (publish_effect c e ph s ob db) = windows_ok db"
  by (simp add: windows_ok_def frozen_prefix_def exposures_ok_def publish_effect_def Let_def
      set_episode_state_def)

lemma message_posted_windows:
  assumes post: "message_posted k f m db db'" and u: "uniques db" and ok: "windows_ok db"
  shows "windows_ok db'"
proof -
  obtain tr where tr: "select_pk (threads db) (ms_thread m) = Some tr" "th_forum tr = f"
      "ms_ordinal m = th_head tr + 1"
    by (rule message_posted_head [OF post])
  note sel = message_posted_select [OF post]
  have ut: "unique_on th_forum (threads db)" using u by (simp add: uniques_def)
  have "frozen_prefix db'"
    using ok tr by (fastforce simp: windows_ok_def frozen_prefix_def all_rows_def sel(2)
        message_posted_same [OF post] split: if_splits)
  moreover have "exposures_ok db'"
    unfolding exposures_ok_def all_rows_def
  proof (intro allI impI)
    fix x xr assume "select_pk (exposures db') x = Some xr"
    then obtain x0 where x0: "select_pk (exposures db) x = Some x0"
      and xr: "xr = (if ex_forum x0 = f \<and> ex_from x0 \<le> ms_ordinal m
                     then x0\<lparr>ex_through := ms_ordinal m\<rparr> else x0)"
      by (auto simp: sel(3))
    obtain t0 r0 where t0: "select_pk (threads db) t0 = Some r0" "th_forum r0 = ex_forum x0"
        "ex_through x0 = th_head r0" "ex_from x0 \<le> th_head r0 + 1"
      using ok all_rowsD [OF _ x0] unfolding windows_ok_def exposures_ok_def by blast
    show "\<exists>t tr. select_pk (threads db') t = Some tr \<and> th_forum tr = ex_forum xr
       \<and> ex_through xr = th_head tr \<and> ex_from xr \<le> th_head tr + 1"
    proof (cases "ex_forum x0 = f")
      case True
      then have "t0 = ms_thread m" "r0 = tr"
        using unique_onD [OF ut t0(1) tr(1)] t0(2) tr(2) by auto
      then show ?thesis using t0 tr xr True by (auto simp: sel(2))
    next
      case False
      then have "t0 \<noteq> ms_thread m" using t0 tr by auto
      then show ?thesis using t0 xr False by (auto simp: sel(2))
    qed
  qed
  ultimately show ?thesis by (simp add: windows_ok_def)
qed

lemma arm_released_windows:
  "arm_released h c e t body db db' \<Longrightarrow> uniques db \<Longrightarrow> windows_ok db \<Longrightarrow> windows_ok db'"
  by (erule arm_releasedE) (simp add: message_posted_windows)

text \<open>The thread a head was frozen on is the thread of the episode's only forum.\<close>

lemma frozen_thread_unique:
  assumes s: "structure_ok h db" and fz: "select_pk (frozen db) e = Some fz"
    and t: "select_pk (threads db) t = Some tr" "select_pk (forums db) (th_forum tr) = Some fr"
      "fo_episode fr = e"
  shows "fz_thread fz = t"
proof -
  obtain t0 f0 where t0: "select_pk (threads db) (fz_thread fz) = Some t0"
      "select_pk (forums db) (th_forum t0) = Some f0" "fo_episode f0 = e"
    using s rows_okD(10) [OF _ fz] unfolding structure_ok_def frozen_ok_def by blast
  have "th_forum t0 = th_forum tr"
    using s unique_onD [of fo_episode "forums db"] t0 t by (auto simp: structure_ok_def uniques_def)
  then show ?thesis
    using s unique_onD [of th_forum "threads db", OF _ t0(1) t(1)]
    by (auto simp: structure_ok_def uniques_def)
qed

lemma forum_thread_unique:
  assumes "uniques db" "select_pk (threads db) t = Some tr" "select_pk (threads db) t' = Some tr'"
    "th_forum tr = th_forum tr'"
  shows "t = t' \<and> tr = tr'"
  using assms unique_onD [of th_forum "threads db"] by (simp add: uniques_def)

lemma study_step_windows:
  assumes step: "study_step h c db db'" and s: "structure_ok h db" and ok: "windows_ok db"
  shows "windows_ok db'"
  using step
proof (cases rule: study_step.cases)
  case (thread k r t fr)
  have u: "uniques db" and rows: "rows_ok h db" using s by (simp_all add: structure_ok_def)
  have fz: "fz_thread z \<noteq> k" if "select_pk (frozen db) e = Some z" for e z
    using rows_okD(10) [OF rows that] adds_fresh [OF thread(2)] by (auto simp: frozen_ok_def)
  have keep: "select_pk t j = Some q" if "select_pk (threads db) j = Some q" for j q
    using that adds_fresh [OF thread(2)] by (auto simp: adds_select [OF thread(2)])
  have "frozen_prefix db'"
    using ok fz thread(1)
    by (auto simp: windows_ok_def frozen_prefix_def all_rows_def adds_select [OF thread(2)])
  moreover have "exposures_ok db'"
  proof -
    have same: "exposures db' = exposures db" "threads db' = t" by (simp_all add: thread(1))
    have "exposures_ok db" using ok by (simp add: windows_ok_def)
    then show ?thesis
      unfolding exposures_ok_def same by (rule all_rows_mono) (use keep in blast)
  qed
  ultimately show ?thesis by (simp add: windows_ok_def)
next
  case (freeze e r t er tr fr)
  have "0 \<le> th_head tr"
    using s freeze(6) by (auto simp: structure_ok_def heads_ok_def all_rows_def)
  then show ?thesis
    using ok freeze by (auto simp: windows_ok_def frozen_prefix_def exposures_ok_def
        all_rows_adds [OF freeze(2)])
next
  case (exposure k r t obr fr th tr)
  have "wf_table (treatments db)" using s by (simp add: structure_ok_def tables_wf_def)
  have "ex_from r \<le> th_head tr + 1"
  proof (cases "ob_phase obr")
    case Source
    then show ?thesis
      using s exposure by (auto simp: expected_visible_from_def structure_ok_def heads_ok_def all_rows_def)
  next
    case Successor
    then obtain fz where fz: "select_pk (frozen db) (ob_episode obr) = Some fz"
      and le: "ex_from r = 1 \<or> ex_from r = fz_head fz + 1"
      using exposure(11) by (auto simp: expected_visible_from_def split: option.splits if_splits)
    have "fz_thread fz = th"
      using frozen_thread_unique [OF s fz exposure(8)] exposure by simp
    then have "fz_head fz \<le> th_head tr" "0 \<le> fz_head fz"
      using ok all_rowsD [OF _ fz] exposure(8)
      unfolding windows_ok_def frozen_prefix_def by blast+
    then show ?thesis using le by auto
  qed
  then show ?thesis
    using ok exposure by (auto simp: windows_ok_def frozen_prefix_def exposures_ok_def
        all_rows_adds [OF exposure(2)])
next
  case (publish ob r er x xr oc ocr m k db1)
  then show ?thesis using message_posted_windows ok s by (simp add: structure_ok_def)
next
  case (release p pa body ta db1 tb)
  have u: "uniques db" using s by (simp add: structure_ok_def)
  show ?thesis
    using release arm_released_windows [OF _ arm_released_uniques [OF _ u] arm_released_windows [OF _ u ok]]
    by blast
qed (use ok in \<open>simp_all add: windows_ok_def frozen_prefix_def exposures_ok_def set_episode_state_def\<close>)

interpretation windows: study_invariant h "structure_ok h" windows_ok for h
proof unfold_locales
  show "windows_ok db'" if "structure_ok h db" "windows_ok db" "study_step h c db db'" for c db db'
    using study_step_windows that by blast
qed (simp_all add: structure_reachable,
     simp_all add: windows_ok_def frozen_prefix_def exposures_ok_def empty_study_db_def)

end
