(* ===== verification/Study_Lifecycle.thy ===== *)
theory Study_Lifecycle
  imports Study_Thread
begin

text \<open>
  The lifecycle of an episode: the states it can move between, and what each state says about the
  frozen head, the successor population and the obligations of the episode.
\<close>

lemma row_exists_rollback [simp]: "row_exists (rollback_table t u) k = row_exists t k"
  by (simp add: row_exists_def)

section \<open>Transitions of the episode state\<close>

definition st :: "study_db \<Rightarrow> int \<Rightarrow> study_episode_state option" where
  "st db e = map_option ep_state (select_pk (episodes db) e)"

inductive episode_edge :: "study_episode_state \<Rightarrow> study_episode_state \<Rightarrow> bool" where
  stay: "episode_edge s s"
| source: "episode_edge Admitted SourceActive"
| reconcile: "episode_edge SourceActive SourceReconciled"
| successor: "episode_edge SourceReconciled SuccessorAdmitted"
| correct: "episode_edge SuccessorAdmitted CorrectionReleased"
| active: "episode_edge CorrectionReleased SuccessorActive"
| close_early: "episode_edge CorrectionReleased Closed"
| close: "episode_edge SuccessorActive Closed"

inductive_cases edge_ClosedE: "episode_edge Closed s"
inductive_cases edge_CorrectionReleasedE: "episode_edge CorrectionReleased s"
inductive_cases edge_SuccessorActiveE: "episode_edge SuccessorActive s"

lemma st_set_episode_state [simp]:
  "st (set_episode_state c e s db) j = (if j = e \<and> st db e \<noteq> None then Some s else st db j)"
  by (auto simp: st_def set_episode_state_def select_pk_update_pk)

lemma set_episode_state_same [simp]:
  "frozen (set_episode_state c e s db) = frozen db" "successors (set_episode_state c e s db) = successors db"
  "obligations (set_episode_state c e s db) = obligations db" "threads (set_episode_state c e s db) = threads db"
  "messages (set_episode_state c e s db) = messages db" "exposures (set_episode_state c e s db) = exposures db"
  "forums (set_episode_state c e s db) = forums db" "occurrences (set_episode_state c e s db) = occurrences db"
  "pairs (set_episode_state c e s db) = pairs db" "protocols (set_episode_state c e s db) = protocols db"
  "reveals (set_episode_state c e s db) = reveals db" "results (set_episode_state c e s db) = results db"
  "measurements (set_episode_state c e s db) = measurements db"
  "treatments (set_episode_state c e s db) = treatments db"
  "receipts (set_episode_state c e s db) = receipts db" "bindings (set_episode_state c e s db) = bindings db"
  "runs (set_episode_state c e s db) = runs db" "run_pairs (set_episode_state c e s db) = run_pairs db"
  "populations (set_episode_state c e s db) = populations db"
  by (simp_all add: set_episode_state_def)

lemma st_cong: "episodes db' = episodes db \<Longrightarrow> st db' e = st db e"
  by (simp add: st_def)

lemma st_field [simp]:
  "st (db\<lparr>obligations := a\<rparr>) e = st db e" "st (db\<lparr>occurrences := b\<rparr>) e = st db e"
  "st (db\<lparr>successors := d\<rparr>) e = st db e" "st (db\<lparr>forums := f\<rparr>) e = st db e"
  "st (db\<lparr>frozen := g\<rparr>) e = st db e" "st (db\<lparr>receipts := i\<rparr>) e = st db e"
  by (simp_all add: st_def)

lemma st_Some: "st db e = Some s \<longleftrightarrow> (\<exists>r. select_pk (episodes db) e = Some r \<and> ep_state r = s)"
  by (auto simp: st_def)

lemma st_publish:
  "st (publish_effect c e ph s ob db) j
   = (if ph = Successor \<and> s = CorrectionReleased \<and> j = e \<and> st db e \<noteq> None then Some SuccessorActive
      else st db j)"
  by (simp add: publish_effect_def Let_def)

lemma publish_effect_same [simp]:
  "frozen (publish_effect c e ph s ob db) = frozen db"
  "successors (publish_effect c e ph s ob db) = successors db"
  "threads (publish_effect c e ph s ob db) = threads db"
  "messages (publish_effect c e ph s ob db) = messages db"
  "exposures (publish_effect c e ph s ob db) = exposures db"
  "forums (publish_effect c e ph s ob db) = forums db"
  "occurrences (publish_effect c e ph s ob db) = occurrences db"
  "pairs (publish_effect c e ph s ob db) = pairs db"
  "protocols (publish_effect c e ph s ob db) = protocols db"
  "reveals (publish_effect c e ph s ob db) = reveals db"
  "results (publish_effect c e ph s ob db) = results db"
  "measurements (publish_effect c e ph s ob db) = measurements db"
  "treatments (publish_effect c e ph s ob db) = treatments db"
  "receipts (publish_effect c e ph s ob db) = receipts db"
  "bindings (publish_effect c e ph s ob db) = bindings db"
  "runs (publish_effect c e ph s ob db) = runs db"
  "run_pairs (publish_effect c e ph s ob db) = run_pairs db"
  by (simp_all add: publish_effect_def Let_def)

lemma publish_effect_obligations:
  "obligations (publish_effect c e ph s ob db)
   = update_pk ob (\<lambda>q. q\<lparr>ob_posts_used := ob_posts_used q + 1\<rparr>) (obligations db)"
  by (simp add: publish_effect_def Let_def)

lemma arm_released_st:
  assumes "arm_released h c e t body db db'"
  shows "st db e = Some SuccessorAdmitted"
    and "st db' j = (if j = e then Some CorrectionReleased else st db j)"
proof -
  from assms obtain er k f m db1 where "select_pk (episodes db) e = Some er"
      "ep_state er = SuccessorAdmitted" "message_posted k f m db db1"
      "db' = set_episode_state c e CorrectionReleased db1"
    by (elim arm_releasedE) blast
  then show "st db e = Some SuccessorAdmitted"
    and "st db' j = (if j = e then Some CorrectionReleased else st db j)"
    using st_cong [OF message_posted_same(1)] by (auto simp: st_Some)
qed

lemma arm_released_same:
  assumes "arm_released h c e t body db db'"
  shows "frozen db' = frozen db" "successors db' = successors db" "obligations db' = obligations db"
    "forums db' = forums db" "occurrences db' = occurrences db" "pairs db' = pairs db"
    "protocols db' = protocols db" "reveals db' = reveals db" "results db' = results db"
    "measurements db' = measurements db" "treatments db' = treatments db" "receipts db' = receipts db"
    "bindings db' = bindings db" "runs db' = runs db" "run_pairs db' = run_pairs db"
    "populations db' = populations db"
  using assms by (elim arm_releasedE; simp add: message_posted_same)+

text \<open>Every step moves every episode along an edge or leaves it where it is.\<close>

lemma study_step_edge:
  assumes "study_step h c db db'" and old: "st db e = Some s"
  obtains s' where "st db' e = Some s'" "episode_edge s s'"
proof -
  from assms have "\<exists>s'. st db' e = Some s' \<and> episode_edge s s'"
  proof (cases rule: study_step.cases)
    case (episode k r t)
    then show ?thesis
      using old by (auto simp: st_Some adds_select dest: adds_fresh intro: episode_edge.stay)
  next
    case (fork k r t j a u l f v source er)
    then show ?thesis
      using old by (auto simp: st_Some adds_select dest: adds_fresh intro: episode_edge.stay)
  next
    case (obligation ob k pop phase role view prompt tool budget reads posts t er oc u)
    then show ?thesis
      using old by (cases phase) (auto simp: st_Some obligation_phase_allowed_def phase_state_def
          intro: episode_edge.intros)
  next
    case (replace k r t er pop succ)
    then show ?thesis using old by (auto simp: st_Some intro: episode_edge.intros)
  next
    case (publish ob r er x xr oc ocr m k db1)
    then show ?thesis
      using old st_cong [OF message_posted_same(1) [OF publish(16)]]
      by (auto simp: st_publish st_Some intro: episode_edge.intros)
  next
    case (release p pa body ta db1 tb)
    note a = arm_released_st [OF release(3)] and b = arm_released_st [OF release(4)]
    show ?thesis
      using old a b by (auto split: if_splits intro: episode_edge.intros)
  next
    case (close k er mr pr)
    then show ?thesis using old by (auto simp: st_Some in_force_def intro: episode_edge.intros)
  qed (use old in \<open>auto simp: st_def intro: episode_edge.stay\<close>)
  then show thesis using that by blast
qed

section \<open>What the state says about the episode\<close>

definition lifecycle_ok :: "study_db \<Rightarrow> bool" where
  "lifecycle_ok db \<longleftrightarrow> (\<forall>e s. st db e = Some s \<longrightarrow>
     (s = Admitted \<longrightarrow> select_pk (frozen db) e = None)
   \<and> (s \<in> {Admitted, SourceActive} \<longrightarrow> select_pk (successors db) e = None)
   \<and> (s \<notin> {Admitted, SourceActive} \<longrightarrow> row_exists (frozen db) e \<and> row_exists (successors db) e))"

definition obligations_ok :: "study_db \<Rightarrow> bool" where
  "obligations_ok db \<longleftrightarrow> (\<forall>ob r s. select_pk (obligations db) ob = Some r \<longrightarrow>
     st db (ob_episode r) = Some s \<longrightarrow>
     s \<noteq> Admitted \<and> (ob_phase r = Successor \<longrightarrow> s \<notin> {SourceActive, SourceReconciled})
   \<and> (ob_phase r = Source \<longrightarrow> row_exists (frozen db) (ob_episode r) \<longrightarrow> ob_state r \<noteq> ObligationActive))"

lemma lifecycleD:
  assumes "lifecycle_ok db" "st db e = Some s"
  shows "s = Admitted \<Longrightarrow> select_pk (frozen db) e = None"
    and "s = Admitted \<or> s = SourceActive \<Longrightarrow> select_pk (successors db) e = None"
    and "s \<noteq> Admitted \<Longrightarrow> s \<noteq> SourceActive \<Longrightarrow> row_exists (frozen db) e \<and> row_exists (successors db) e"
  using assms by (auto simp: lifecycle_ok_def)

lemma obligationsD:
  assumes "obligations_ok db" "select_pk (obligations db) ob = Some r" "st db (ob_episode r) = Some s"
  shows "s \<noteq> Admitted" and "ob_phase r = Successor \<Longrightarrow> s \<noteq> SourceActive \<and> s \<noteq> SourceReconciled"
    and "ob_phase r = Source \<Longrightarrow> row_exists (frozen db) (ob_episode r) \<Longrightarrow> ob_state r \<noteq> ObligationActive"
  using assms by (auto simp: obligations_ok_def)

text \<open>An episode that does not exist yet has no frozen head, successor population or obligation.\<close>

lemma fresh_episode:
  assumes rows: "rows_ok h db" and fresh: "select_pk (episodes db) e = None"
  shows "select_pk (frozen db) e = None" "select_pk (successors db) e = None"
    "select_pk (reveals db) e = None"
    "\<And>ob r. select_pk (obligations db) ob = Some r \<Longrightarrow> ob_episode r \<noteq> e"
    "\<And>k r. select_pk (results db) k = Some r \<Longrightarrow> me_episode r \<noteq> e"
    "\<And>k r. select_pk (forums db) k = Some r \<Longrightarrow> fo_episode r \<noteq> e"
    "\<And>k r. select_pk (treatments db) k = Some r \<Longrightarrow> ta_episode r \<noteq> e"
    "\<And>k r. select_pk (pairs db) k = Some r \<Longrightarrow> pa_retained r \<noteq> e \<and> pa_reset r \<noteq> e"
proof -
  show "select_pk (frozen db) e = None"
    by (cases "select_pk (frozen db) e") (auto simp: frozen_ok_def row_exists_def fresh dest!: rows_okD(10) [OF rows])
  show "select_pk (successors db) e = None"
    by (cases "select_pk (successors db) e") (auto simp: successor_ok_def fresh dest!: rows_okD(11) [OF rows])
  show "select_pk (reveals db) e = None"
    by (cases "select_pk (reveals db) e") (auto simp: reveal_ok_def fresh dest!: rows_okD(16) [OF rows])
  show "ob_episode r \<noteq> e" if "select_pk (obligations db) ob = Some r" for ob r
    using rows_okD(7) [OF rows that] fresh by (auto simp: row_exists_def)
  show "me_episode r \<noteq> e" if "select_pk (results db) k = Some r" for k r
    using rows_okD(17) [OF rows that] fresh by (auto simp: result_ok_def)
  show "fo_episode r \<noteq> e" if "select_pk (forums db) k = Some r" for k r
    using rows_okD(5) [OF rows that] fresh by (auto simp: row_exists_def)
  show "ta_episode r \<noteq> e" if "select_pk (treatments db) k = Some r" for k r
    using rows_okD(2) [OF rows that] fresh by (auto simp: row_exists_def)
  show "pa_retained r \<noteq> e \<and> pa_reset r \<noteq> e" if "select_pk (pairs db) k = Some r" for k r
    using rows_okD(3) [OF rows that] fresh by (auto simp: pair_ok_def)
qed

lemma live_source_none:
  assumes "tables_wf db" "live_source_obligations db e = 0" "select_pk (obligations db) ob = Some r"
    "ob_episode r = e" "ob_phase r = Source"
  shows "ob_state r \<noteq> ObligationActive"
  using assms by (auto simp: live_source_obligations_def count_where_zero_iff tables_wf_def)

lemma live_none:
  assumes "tables_wf db" "live_obligations db e = 0" "select_pk (obligations db) ob = Some r" "ob_episode r = e"
  shows "ob_state r \<noteq> ObligationActive"
  using assms by (auto simp: live_obligations_def count_where_zero_iff tables_wf_def)

lemma st_adds_episode:
  assumes "adds (episodes db) e r t" "episodes db' = t"
  shows "st db' j = (if j = e then Some (ep_state r) else st db j)"
  by (simp add: st_def assms(2) adds_select [OF assms(1)])

lemma study_step_lifecycle:
  assumes step: "study_step h c db db'" and s: "structure_ok h db" and ok: "lifecycle_ok db"
  shows "lifecycle_ok db'"
proof -
  have rows: "rows_ok h db" using s by (simp add: structure_ok_def)
  from step show ?thesis
  proof (cases rule: study_step.cases)
    case (episode e r t)
    then show ?thesis
      using ok st_adds_episode [OF episode(2), of db'] fresh_episode [OF rows adds_fresh [OF episode(2)]]
      by (auto simp: lifecycle_ok_def)
  next
    case (fork e r t j a u k f v source er)
    then show ?thesis
      using ok st_adds_episode [OF fork(2), of db'] fresh_episode [OF rows adds_fresh [OF fork(2)]]
      by (auto simp: lifecycle_ok_def)
  next
    case (obligation ob e pop phase role view prompt tool budget reads posts t er oc u)
    have "st db e = Some (ep_state er)" using obligation by (simp add: st_def)
    then show ?thesis
      using ok lifecycleD [OF ok, of e] obligation
      by (cases phase) (auto simp: lifecycle_ok_def phase_state_def obligation_phase_allowed_def)
  next
    case (freeze e r t er tr fr)
    have "st db e = Some SourceActive" using freeze by (simp add: st_def)
    then show ?thesis
      using ok freeze(1) by (auto simp: lifecycle_ok_def adds_select [OF freeze(2)] row_exists_def)
  next
    case (replace e r t er pop succ)
    have "st db e = Some SourceActive" using replace by (simp add: st_def)
    then show ?thesis
      using ok replace(1,5) by (auto simp: lifecycle_ok_def adds_select [OF replace(2)] row_exists_def)
  next
    case (publish ob r er x xr oc ocr m k db1)
    have "st db (ob_episode r) = Some (ep_state er)" using publish by (simp add: st_def)
    then show ?thesis
      using ok publish(1) st_cong [OF message_posted_same(1) [OF publish(16)]]
      by (auto simp: lifecycle_ok_def st_publish message_posted_same [OF publish(16)])
  next
    case (release p pa body ta db1 tb)
    note a = arm_released_st [OF release(3)] and b = arm_released_st [OF release(4)]
    show ?thesis
      using ok a b by (auto simp: lifecycle_ok_def arm_released_same [OF release(3)]
          arm_released_same [OF release(4)])
  next
    case (close e er mr pr)
    have "st db e = Some (ep_state er)" using close by (simp add: st_def)
    then show ?thesis
      using ok close by (auto simp: lifecycle_ok_def in_force_def)
  qed (use ok in \<open>auto simp: lifecycle_ok_def st_def\<close>)
qed

interpretation lifecycle: study_invariant h "structure_ok h" lifecycle_ok for h
proof unfold_locales
  show "lifecycle_ok db'" if "structure_ok h db" "lifecycle_ok db" "study_step h c db db'" for c db db'
    using study_step_lifecycle that by blast
qed (simp_all add: structure_reachable, simp_all add: lifecycle_ok_def st_def empty_study_db_def)

text \<open>
  Obligations change only in their counters and their terminal columns, so the obligation facts
  survive every update that keeps phase, episode and terminality.
\<close>

definition ob_same :: "(int, obligation_row) table \<Rightarrow> (int, obligation_row) table \<Rightarrow> bool" where
  "ob_same t t' \<longleftrightarrow> (\<forall>ob r'. select_pk t' ob = Some r' \<longrightarrow>
     (\<exists>r. select_pk t ob = Some r \<and> ob_episode r' = ob_episode r \<and> ob_phase r' = ob_phase r
        \<and> (ob_state r' = ObligationActive \<longrightarrow> ob_state r = ObligationActive)))"

lemma ob_same_refl: "ob_same t t"
  by (simp add: ob_same_def)

lemma ob_same_update:
  "(\<And>r. ob_episode (g r) = ob_episode r \<and> ob_phase (g r) = ob_phase r
      \<and> (ob_state (g r) = ObligationActive \<longrightarrow> ob_state r = ObligationActive)) \<Longrightarrow>
   ob_same t (update_pk ob g t)"
  by (auto simp: ob_same_def select_pk_update_pk split: if_splits)

lemma obligations_ok_same:
  assumes ok: "obligations_ok db" and same: "ob_same (obligations db) (obligations db')"
    and fz: "frozen db' = frozen db"
    and st: "\<And>e s'. st db' e = Some s' \<Longrightarrow> \<exists>s. st db e = Some s \<and> episode_edge s s'"
  shows "obligations_ok db'"
  unfolding obligations_ok_def
proof (intro allI impI)
  fix ob r' s' assume r': "select_pk (obligations db') ob = Some r'" and s': "st db' (ob_episode r') = Some s'"
  obtain r where r: "select_pk (obligations db) ob = Some r" "ob_episode r' = ob_episode r"
      "ob_phase r' = ob_phase r" "ob_state r' = ObligationActive \<longrightarrow> ob_state r = ObligationActive"
    using same r' unfolding ob_same_def by blast
  obtain s where s: "st db (ob_episode r) = Some s" "episode_edge s s'" using st [OF s'] r(2) by auto
  show "s' \<noteq> Admitted \<and> (ob_phase r' = Successor \<longrightarrow> s' \<notin> {SourceActive, SourceReconciled})
    \<and> (ob_phase r' = Source \<longrightarrow> row_exists (frozen db') (ob_episode r') \<longrightarrow> ob_state r' \<noteq> ObligationActive)"
    using obligationsD [OF ok r(1) s(1)] s(2) r fz by (auto elim: episode_edge.cases)
qed

lemma study_step_edge_back:
  assumes step: "study_step h c db db'" and s': "st db' e = Some s'" and old: "st db e \<noteq> None"
  shows "\<exists>s. st db e = Some s \<and> episode_edge s s'"
proof -
  obtain s where s: "st db e = Some s" using old by auto
  show ?thesis by (rule study_step_edge [OF step s]) (use s s' in auto)
qed

lemma study_step_obligations:
  assumes step: "study_step h c db db'" and s: "structure_ok h db" and lc: "lifecycle_ok db"
    and ok: "obligations_ok db"
  shows "obligations_ok db'"
proof -
  have rows: "rows_ok h db" and wf: "tables_wf db" using s by (simp_all add: structure_ok_def)
  from step show ?thesis
  proof (cases rule: study_step.cases)
    case (episode e r t)
    have none: "ob_episode q \<noteq> e" if "select_pk (obligations db) j = Some q" for j q
      using fresh_episode(4) [OF rows adds_fresh [OF episode(2)] that] .
    then show ?thesis
      using ok episode(1) st_adds_episode [OF episode(2), of db'] by (auto simp: obligations_ok_def)
  next
    case (fork e r t j a u k f v source er)
    have none: "ob_episode q \<noteq> e" if "select_pk (obligations db) j = Some q" for j q
      using fresh_episode(4) [OF rows adds_fresh [OF fork(2)] that] .
    then show ?thesis
      using ok fork(1) st_adds_episode [OF fork(2), of db'] by (auto simp: obligations_ok_def)
  next
    case (obligation ob e pop phase role view prompt tool budget reads posts t er oc u)
    have ste: "st db e = Some (ep_state er)" using obligation by (simp add: st_def)
    have sel: "select_pk (obligations db') j = (if j = ob
        then Some (new_obligation_row c e pop phase role view prompt tool budget reads posts)
        else select_pk (obligations db) j)" for j
      using obligation(1) by (simp add: adds_select [OF obligation(2)])
    have stj: "st db' j = (if j = e then Some (phase_state phase) else st db j)" for j
      using obligation(1) ste by simp
    have fz: "phase = Source \<Longrightarrow> \<not> row_exists (frozen db') e" and fz': "frozen db' = frozen db"
      using obligation(1,6) by (auto simp: row_exists_def)
    show ?thesis
      unfolding obligations_ok_def
    proof (intro allI impI)
      fix j q s' assume q: "select_pk (obligations db') j = Some q" and s': "st db' (ob_episode q) = Some s'"
      show "s' \<noteq> Admitted \<and> (ob_phase q = Successor \<longrightarrow> s' \<notin> {SourceActive, SourceReconciled})
        \<and> (ob_phase q = Source \<longrightarrow> row_exists (frozen db') (ob_episode q) \<longrightarrow> ob_state q \<noteq> ObligationActive)"
      proof (cases "j = ob")
        case True
        then show ?thesis
          using q s' sel stj fz by (cases phase) (auto simp: new_obligation_row_def phase_state_def)
      next
        case False
        then have q0: "select_pk (obligations db) j = Some q" using q sel by simp
        show ?thesis
        proof (cases "ob_episode q = e")
          case True
          note old = obligationsD [OF ok q0, unfolded True, OF ste]
          show ?thesis
            using old s' stj True obligation(5) fz'
            by (cases phase) (auto simp: phase_state_def obligation_phase_allowed_def)
        next
          case False
          then show ?thesis using obligationsD [OF ok q0] s' stj fz' by auto
        qed
      qed
    qed
  next
    case (freeze e r t er tr fr)
    then show ?thesis
      using ok live_source_none [OF wf freeze(5)]
      by (auto simp: obligations_ok_def row_exists_def adds_select [OF freeze(2)])
  next
    case (complete ob r charged)
    show ?thesis
      by (rule obligations_ok_same [OF ok])
        (auto simp: complete(1) ob_same_update intro: episode_edge.stay)
  next
    case (fail ob r reason)
    show ?thesis
      by (rule obligations_ok_same [OF ok])
        (auto simp: fail(1) ob_same_update intro: episode_edge.stay)
  next
    case (read k ob th first through obj t)
    show ?thesis
      by (rule obligations_ok_same [OF ok])
        (auto simp: read(1) ob_same_update intro: episode_edge.stay)
  next
    case (replace e r t er pop succ)
    have "st db e = Some SourceActive" using replace by (simp add: st_def)
    then show ?thesis
      by (intro obligations_ok_same [OF ok])
        (auto simp: replace(1) ob_same_refl intro: episode_edge.intros split: if_splits)
  next
    case (publish ob r er x xr oc ocr m k db1)
    have same: "episodes db1 = episodes db" "obligations db1 = obligations db" "frozen db1 = frozen db"
      using message_posted_same [OF publish(16)] by simp_all
    have "st db (ob_episode r) = Some (ep_state er)" using publish by (simp add: st_def)
    then show ?thesis
      by (intro obligations_ok_same [OF ok])
        (auto simp: publish(1) same ob_same_update publish_effect_obligations st_publish
          st_cong [OF same(1)] intro: episode_edge.intros split: if_splits)
  next
    case (release p pa body ta db1 tb)
    note a = arm_released_st [OF release(3)] and b = arm_released_st [OF release(4)]
    show ?thesis
      by (rule obligations_ok_same [OF ok])
        (use a b in \<open>auto simp: arm_released_same [OF release(3)] arm_released_same [OF release(4)]
           ob_same_refl intro: episode_edge.intros split: if_splits\<close>)
  next
    case (close e er mr pr)
    have "st db e = Some (ep_state er)" using close by (simp add: st_def)
    then show ?thesis
      using close(3)
      by (intro obligations_ok_same [OF ok])
        (auto simp: close(1) ob_same_refl in_force_def intro: episode_edge.intros split: if_splits)
  qed (use ok in \<open>simp_all add: obligations_ok_def st_def\<close>)
qed

definition control_ok :: "(byte list \<Rightarrow> digest) \<Rightarrow> study_db \<Rightarrow> bool" where
  "control_ok h db \<longleftrightarrow> structure_ok h db \<and> windows_ok db \<and> lifecycle_ok db"

lemma control_reachable: "study_reachable h db \<Longrightarrow> control_ok h db"
  by (simp add: control_ok_def structure_reachable windows.reachable [where h = h]
      lifecycle.reachable [where h = h])

interpretation obligations: study_invariant h "control_ok h" obligations_ok for h
proof unfold_locales
  show "obligations_ok db'" if "control_ok h db" "obligations_ok db" "study_step h c db db'" for c db db'
    using study_step_obligations that by (auto simp: control_ok_def)
qed (simp_all add: control_reachable, simp_all add: obligations_ok_def st_def empty_study_db_def)

end
