(* ===== verification/Study_Treatment.thy ===== *)
theory Study_Treatment
  imports Study_Lifecycle
begin

text \<open>
  The treatment boundary of an episode.  Every message of a thread is of one of three kinds, and its
  place relative to the frozen head follows: messages of the source population are at or before the
  frozen head, the matched correction is the message right after it, and messages of the successor
  population are later still.  What a successor of the reset arm can read, reply to, supersede or
  cite therefore never includes a source message.
\<close>

lemma structureD:
  assumes "structure_ok h db"
  shows "tables_wf db" "uniques db" "rows_ok h db" "heads_ok db"
  using assms by (simp_all add: structure_ok_def)

section \<open>Authors\<close>

text \<open>The episode and the population phase of a message's author.\<close>

definition author_role :: "study_db \<Rightarrow> message_row \<Rightarrow> (int \<times> study_population_phase) option" where
  "author_role db m =
     (case ms_author m of
        None \<Rightarrow> None
      | Some oc \<Rightarrow>
          (case select_pk (occurrences db) oc of
             None \<Rightarrow> None
           | Some ocr \<Rightarrow>
               map_option (\<lambda>r. (ob_episode r, ob_phase r))
                 (select_pk (obligations db) (oc_obligation ocr))))"

lemma author_roleI:
  assumes "ms_author m = Some oc" "select_pk (occurrences db) oc = Some ocr"
    "select_pk (obligations db) (oc_obligation ocr) = Some r"
  shows "author_role db m = Some (ob_episode r, ob_phase r)"
  using assms by (simp add: author_role_def)

lemma author_role_cong:
  assumes "occurrences db' = occurrences db" "obligations db' = obligations db"
  shows "author_role db' m = author_role db m"
  unfolding author_role_def assms ..

lemma author_role_stable:
  assumes p: "persists db db'" and a: "author_role db m = Some x"
  shows "author_role db' m = Some x"
proof -
  obtain oc ocr r where o: "ms_author m = Some oc" "select_pk (occurrences db) oc = Some ocr"
      "select_pk (obligations db) (oc_obligation ocr) = Some r" "x = (ob_episode r, ob_phase r)"
    using a by (auto simp: author_role_def split: option.splits)
  obtain r' where r': "select_pk (obligations db') (oc_obligation ocr) = Some r'"
      "ob_episode r' = ob_episode r" "ob_phase r' = ob_phase r"
    using persists_lookup_key(5) [OF p o(3)] by (auto simp: ob_key_def)
  show ?thesis
    using author_roleI [OF o(1) persists_lookup(6) [OF p o(2)] r'(1)] r' o(4) by simp
qed

lemma author_role_episode:
  assumes rows: "rows_ok h db" and m: "select_pk (messages db) k = Some m" "ms_author m \<noteq> None"
  obtains t f ph where "select_pk (threads db) (ms_thread m) = Some t"
    "select_pk (forums db) (th_forum t) = Some f" "author_role db m = Some (fo_episode f, ph)"
proof -
  obtain oc where oc: "ms_author m = Some oc" using m by auto
  from rows_okD(13) [OF rows m(1)] obtain t f where tf: "select_pk (threads db) (ms_thread m) = Some t"
      "select_pk (forums db) (th_forum t) = Some f" "author_ok db (fo_episode f) m oc"
    using oc by (auto simp: message_ok_def)
  then obtain ocr r where "select_pk (occurrences db) oc = Some ocr"
      "select_pk (obligations db) (oc_obligation ocr) = Some r" "ob_episode r = fo_episode f"
    by (auto simp: author_ok_def)
  then show thesis
    using that tf author_roleI [OF oc] by metis
qed

text \<open>A step writes no new author for a message that was there before.\<close>

lemma author_role_old:
  assumes rows: "rows_ok h db" and p: "persists db db'" and m: "select_pk (messages db) k = Some m"
  shows "author_role db' m = author_role db m"
proof (cases "ms_author m")
  case None
  then show ?thesis by (simp add: author_role_def)
next
  case (Some oc)
  then obtain x where "author_role db m = Some x"
    using author_role_episode [OF rows m] by (metis option.distinct(1))
  then show ?thesis using author_role_stable [OF p] by simp
qed

section \<open>The frozen head divides the thread\<close>

definition released :: "study_episode_state \<Rightarrow> bool" where
  "released s \<longleftrightarrow> s = CorrectionReleased \<or> s = SuccessorActive \<or> s = Closed"

text \<open>Where a message stands relative to the frozen head of its author's episode.\<close>

definition placed :: "study_db \<Rightarrow> message_row \<Rightarrow> bool" where
  "placed db m \<longleftrightarrow>
     (\<forall>e fz. author_role db m = Some (e, Source) \<longrightarrow> select_pk (frozen db) e = Some fz \<longrightarrow>
        ms_ordinal m \<le> fz_head fz)
   \<and> (\<forall>e. author_role db m = Some (e, Successor) \<longrightarrow>
        (\<exists>fz. select_pk (frozen db) e = Some fz \<and> fz_head fz + 1 < ms_ordinal m))
   \<and> (ms_service m \<longrightarrow>
        (\<exists>e fz. select_pk (frozen db) e = Some fz \<and> fz_thread fz = ms_thread m
           \<and> ms_ordinal m = fz_head fz + 1))"

text \<open>The correction of an episode: published right after the frozen head, with the digest its
  protocol committed to.\<close>

definition correction_at :: "study_db \<Rightarrow> int \<Rightarrow> frozen_row \<Rightarrow> bool" where
  "correction_at db e fz \<longleftrightarrow>
     (\<exists>k m er pr. select_pk (messages db) k = Some m \<and> ms_thread m = fz_thread fz
        \<and> ms_ordinal m = fz_head fz + 1 \<and> ms_service m \<and> ms_kind m = Correction
        \<and> ms_state m = Published
        \<and> select_pk (episodes db) e = Some er \<and> select_pk (protocols db) (ep_protocol er) = Some pr
        \<and> ms_digest m = pr_correction pr)"

definition boundary :: "study_db \<Rightarrow> int \<Rightarrow> frozen_row \<Rightarrow> bool" where
  "boundary db e fz \<longleftrightarrow> (\<forall>s tr. st db e = Some s \<longrightarrow> select_pk (threads db) (fz_thread fz) = Some tr \<longrightarrow>
     (\<not> released s \<longrightarrow> th_head tr = fz_head fz)
   \<and> (released s \<longrightarrow> fz_head fz < th_head tr \<and> correction_at db e fz))"

definition log_ok :: "study_db \<Rightarrow> bool" where
  "log_ok db \<longleftrightarrow> all_rows (\<lambda>_. placed db) (messages db) \<and> all_rows (boundary db) (frozen db)"

subsection \<open>Preservation\<close>

lemma placed_cong:
  "ms_author m' = ms_author m \<Longrightarrow> ms_ordinal m' = ms_ordinal m \<Longrightarrow> ms_service m' = ms_service m
   \<Longrightarrow> ms_thread m' = ms_thread m \<Longrightarrow> placed db m' = placed db m"
  by (simp add: placed_def author_role_def)

lemma placed_old:
  assumes rows: "rows_ok h db" and p: "persists db db'" and m: "select_pk (messages db) k = Some m"
    and ok: "placed db m"
    and fz: "\<And>e. author_role db m = Some (e, Source) \<Longrightarrow> select_pk (frozen db') e = select_pk (frozen db) e"
  shows "placed db' m"
  unfolding placed_def author_role_old [OF rows p m]
proof (intro conjI)
  show "\<forall>e fz. author_role db m = Some (e, Source) \<longrightarrow> select_pk (frozen db') e = Some fz \<longrightarrow>
      ms_ordinal m \<le> fz_head fz"
    using ok fz by (auto simp: placed_def)
  show "\<forall>e. author_role db m = Some (e, Successor) \<longrightarrow>
      (\<exists>fz. select_pk (frozen db') e = Some fz \<and> fz_head fz + 1 < ms_ordinal m)"
    using ok persists_lookup(7) [OF p] unfolding placed_def by blast
  show "ms_service m \<longrightarrow> (\<exists>e fz. select_pk (frozen db') e = Some fz \<and> fz_thread fz = ms_thread m
           \<and> ms_ordinal m = fz_head fz + 1)"
    using ok persists_lookup(7) [OF p] unfolding placed_def by blast
qed

text \<open>Service messages are never touched again.\<close>

lemma service_kept:
  assumes step: "study_step h c db db'" and rows: "rows_ok h db"
    and m: "select_pk (messages db) k = Some m" "ms_service m"
  shows "select_pk (messages db') k = Some m"
  using step
proof (cases rule: study_step.cases)
  case (publish ob r er x xr oc ocr q j db1)
  then show ?thesis
    using m message_posted_select(1) [OF publish(16)] message_posted_head [OF publish(16)]
    by (metis option.distinct(1) publish_effect_same(4))
next
  case (retract j q oc ocr ob r)
  have "ms_author m = None" using rows_okD(13) [OF rows m(1)] m(2) by (simp add: message_ok_def)
  then have "j \<noteq> k" using retract m(1) by auto
  then show ?thesis using retract(1) m(1) by (simp add: select_pk_update_pk)
next
  case (release p pa body ta db1 tb)
  have kept: "select_pk (messages b) k = Some m"
    if "arm_released h c e t body a b" "select_pk (messages a) k = Some m" for e t a b
  proof (rule arm_releasedE [OF that(1)])
    fix er tr fr j d
    assume post: "message_posted j (th_forum tr) (correction_row h c t (th_head tr + 1) body) a d"
      and b: "b = set_episode_state c e CorrectionReleased d"
    have "select_pk (messages a) j = None" by (rule message_posted_head [OF post])
    then show ?thesis using that(2) b message_posted_select(1) [OF post, of k] by auto
  qed
  show ?thesis using kept release m(1) by blast
qed (use m in \<open>auto simp: set_episode_state_def\<close>)

lemma correction_at_kept:
  assumes step: "study_step h c db db'" and rows: "rows_ok h db" and c: "correction_at db e fz"
  shows "correction_at db' e fz"
proof -
  have p: "persists db db'" by (rule study_step_persists [OF step])
  obtain k m er pr where m: "select_pk (messages db) k = Some m" "ms_service m"
    and r: "ms_thread m = fz_thread fz" "ms_ordinal m = fz_head fz + 1" "ms_kind m = Correction"
      "ms_state m = Published" "ms_digest m = pr_correction pr"
    and er: "select_pk (episodes db) e = Some er" and pr: "select_pk (protocols db) (ep_protocol er) = Some pr"
    using c unfolding correction_at_def by blast
  obtain er' where "select_pk (episodes db') e = Some er'" "ep_protocol er' = ep_protocol er"
    using persists_episode [OF p er] by blast
  then show ?thesis
    using service_kept [OF step rows m] m(2) r persists_lookup(1) [OF p pr]
    unfolding correction_at_def by metis
qed

text \<open>Apart from the release of a matched correction no step changes whether an episode is released.\<close>

definition releases :: "(byte list \<Rightarrow> digest) \<Rightarrow> int \<Rightarrow> study_db \<Rightarrow> study_db \<Rightarrow> bool" where
  "releases h c db db' \<longleftrightarrow>
     (\<exists>p pa body ta tb db1. select_pk (pairs db) p = Some pa
        \<and> configured_correction db (pa_retained pa) = Some (h body)
        \<and> arm_released h c (pa_retained pa) ta body db db1
        \<and> arm_released h c (pa_reset pa) tb body db1 db')"

lemma study_step_released:
  assumes step: "study_step h c db db'" and nr: "\<not> releases h c db db'"
    and s: "st db e = Some s" and s': "st db' e = Some s'"
  shows "released s' = released s"
  using step
proof (cases rule: study_step.cases)
  case (episode k r t)
  then show ?thesis
    using s s' adds_fresh [OF episode(2)] by (auto simp: st_Some adds_select [OF episode(2)] split: if_splits)
next
  case (fork k r t j a u l f v source er)
  then show ?thesis
    using s s' adds_fresh [OF fork(2)] by (auto simp: st_Some adds_select [OF fork(2)] split: if_splits)
next
  case (obligation ob k pop phase role view prompt tool budget reads posts t er oc u)
  then show ?thesis
    using s s' by (cases phase) (auto simp: st_Some obligation_phase_allowed_def phase_state_def
        released_def split: if_splits)
next
  case (replace k r t er pop succ)
  then show ?thesis using s s' by (auto simp: st_Some released_def split: if_splits)
next
  case (publish ob r er x xr oc ocr m k db1)
  then show ?thesis
    using s s' st_cong [OF message_posted_same(1) [OF publish(16)]]
    by (auto simp: st_publish st_Some released_def split: if_splits)
next
  case (close k er mr pr)
  then show ?thesis using s s' by (auto simp: st_Some released_def in_force_def split: if_splits)
next
  case (release p pa body ta db1 tb)
  then show ?thesis using nr unfolding releases_def by blast
qed (use s s' in \<open>auto simp: st_def\<close>)

lemma boundary_kept:
  assumes step: "study_step h c db db'" and rows: "rows_ok h db" and b: "boundary db e fz"
    and fz: "select_pk (frozen db) e = Some fz"
    and nr: "\<not> releases h c db db'"
    and head: "\<And>tr. select_pk (threads db) (fz_thread fz) = Some tr \<Longrightarrow>
      \<exists>tr'. select_pk (threads db') (fz_thread fz) = Some tr' \<and>
        (th_head tr' = th_head tr
         \<or> th_head tr \<le> th_head tr' \<and> (\<forall>s. st db e = Some s \<longrightarrow> released s))"
  shows "boundary db' e fz"
proof -
  obtain s tr where s: "st db e = Some s" and tr: "select_pk (threads db) (fz_thread fz) = Some tr"
    using rows_okD(10) [OF rows fz] by (auto simp: frozen_ok_def row_exists_def st_Some)
  obtain tr' where tr': "select_pk (threads db') (fz_thread fz) = Some tr'"
      "th_head tr' = th_head tr \<or> th_head tr \<le> th_head tr' \<and> released s"
    using head [OF tr] s by auto
  obtain s' where s': "st db' e = Some s'" by (rule study_step_edge [OF step s])
  have rel: "released s' = released s" by (rule study_step_released [OF step nr s s'])
  have "(\<not> released s \<longrightarrow> th_head tr = fz_head fz)
      \<and> (released s \<longrightarrow> fz_head fz < th_head tr \<and> correction_at db e fz)"
    using b s tr by (auto simp: boundary_def)
  then show ?thesis
    using s' tr' rel correction_at_kept [OF step rows] by (auto simp: boundary_def)
qed

lemma log_okI:
  assumes "\<And>k m. select_pk (messages db) k = Some m \<Longrightarrow> placed db m"
    and "\<And>e fz. select_pk (frozen db) e = Some fz \<Longrightarrow> boundary db e fz"
  shows "log_ok db"
  using assms by (simp add: log_ok_def all_rows_def)

lemma log_okD:
  assumes "log_ok db"
  shows "select_pk (messages db) k = Some m \<Longrightarrow> placed db m"
    and "select_pk (frozen db) e = Some fz \<Longrightarrow> boundary db e fz"
  using assms by (auto simp: log_ok_def dest: all_rowsD)

text \<open>The thread an episode's message is posted to is the thread its head was frozen on.\<close>

lemma posted_frozen_thread:
  assumes s: "structure_ok h db" and post: "message_posted k f m db db1"
    and f: "select_pk (forums db) f = Some fr" and fz: "select_pk (frozen db) (fo_episode fr) = Some fz"
  shows "fz_thread fz = ms_thread m"
  using message_posted_head [OF post] frozen_thread_unique [OF s fz _ _ refl] f by metis

lemma posted_other_episode:
  assumes s: "structure_ok h db" and post: "message_posted k f m db db1"
    and f: "select_pk (forums db) f = Some fr" and fz: "select_pk (frozen db) e = Some fz"
    and ne: "e \<noteq> fo_episode fr"
  shows "fz_thread fz \<noteq> ms_thread m"
proof
  assume eq: "fz_thread fz = ms_thread m"
  obtain tr where tr: "select_pk (threads db) (ms_thread m) = Some tr" "th_forum tr = f"
    by (rule message_posted_head [OF post])
  have "frozen_ok db e fz" by (rule rows_okD(10) [OF structureD(3) [OF s] fz])
  then show False using tr f eq ne by (auto simp: frozen_ok_def)
qed

lemma publish_log:
  assumes step: "study_step h c db db'" and nr: "\<not> releases h c db db'"
    and ctl: "control_ok h db" and ok: "log_ok db"
    and r: "select_pk (obligations db) ob = Some r" "select_pk (episodes db) (ob_episode r) = Some er"
      "publish_phase_allowed (ob_phase r) (ep_state er)"
      "ob_phase r = Source \<Longrightarrow> select_pk (frozen db) (ob_episode r) = None"
    and x: "select_pk (exposures db) x = Some xr" "ex_obligation xr = ob"
    and oc: "select_pk (occurrences db) oc = Some ocr" "oc_obligation ocr = ob" "ms_author m = Some oc"
      "\<not> ms_service m"
    and post: "message_posted k (ex_forum xr) m db db1"
    and db': "db' = publish_effect c (ob_episode r) (ob_phase r) (ep_state er) ob db1"
  shows "log_ok db'"
proof -
  have s: "structure_ok h db" and lc: "lifecycle_ok db" using ctl by (simp_all add: control_ok_def)
  note rows = structureD(3) [OF s]
  have p: "persists db db'" by (rule study_step_persists [OF step])
  obtain fr where fr: "select_pk (forums db) (ex_forum xr) = Some fr" "fo_episode fr = ob_episode r"
    using rows_okD(12) [OF rows x(1)] x(2) r(1) by (auto simp: exposure_ok_def)
  obtain tr where tr: "select_pk (threads db) (ms_thread m) = Some tr" "ms_ordinal m = th_head tr + 1"
    by (rule message_posted_head [OF post])
  have ste: "st db (ob_episode r) = Some (ep_state er)" using r(2) by (simp add: st_def)
  have fz: "frozen db' = frozen db" and sel: "select_pk (messages db') j =
      (if j = k then Some m else select_pk (messages db) j)" for j
    using message_posted_same(3) [OF post] message_posted_select(1) [OF post] by (simp_all add: db')
  have role: "author_role db' m = Some (ob_episode r, ob_phase r)"
    using author_role_stable [OF p author_roleI [OF oc(3,1)]] oc(2) r(1) by simp
  have succ: "\<exists>z. select_pk (frozen db) (ob_episode r) = Some z \<and> fz_head z < th_head tr
      \<and> released (ep_state er)" if "ob_phase r = Successor"
  proof -
    have rel: "released (ep_state er)"
      using r(3) that by (auto simp: publish_phase_allowed_def released_def)
    then obtain z where z: "select_pk (frozen db) (ob_episode r) = Some z"
      using lifecycleD(3) [OF lc ste] by (auto simp: released_def row_exists_def)
    have "fz_thread z = ms_thread m"
      using posted_frozen_thread [OF s post fr(1)] fr(2) z by simp
    then show ?thesis using log_okD(2) [OF ok z] ste tr(1) rel z by (auto simp: boundary_def)
  qed
  show ?thesis
  proof (rule log_okI)
    fix j q assume q: "select_pk (messages db') j = Some q"
    show "placed db' q"
    proof (cases "j = k")
      case True
      then have "q = m" using q sel by simp
      then show ?thesis
        using role fz succ tr(2) oc(4) r(4) by (cases "ob_phase r") (auto simp: placed_def)
    next
      case False
      then have "select_pk (messages db) j = Some q" using q sel by simp
      then show ?thesis using placed_old [OF rows p _ log_okD(1) [OF ok]] fz by simp
    qed
  next
    fix e z assume "select_pk (frozen db') e = Some z"
    then have z: "select_pk (frozen db) e = Some z" using fz by simp
    show "boundary db' e z"
    proof (rule boundary_kept [OF step rows log_okD(2) [OF ok z] z nr])
      fix tr0 assume t0: "select_pk (threads db) (fz_thread z) = Some tr0"
      show "\<exists>tr'. select_pk (threads db') (fz_thread z) = Some tr' \<and>
        (th_head tr' = th_head tr0
         \<or> th_head tr0 \<le> th_head tr' \<and> (\<forall>s. st db e = Some s \<longrightarrow> released s))"
      proof (cases "e = ob_episode r")
        case True
        then have "ob_phase r = Successor" using r(4) z by (cases "ob_phase r") auto
        then have "released (ep_state er)" using succ by blast
        then show ?thesis
          using t0 tr message_posted_select(2) [OF post, of "fz_thread z"] ste True
          by (auto simp: db')
      next
        case False
        then have "fz_thread z \<noteq> ms_thread m"
          using posted_other_episode [OF s post fr(1) z] fr(2) by simp
        then show ?thesis
          using t0 message_posted_select(2) [OF post, of "fz_thread z"] by (auto simp: db')
      qed
    qed
  qed
qed

lemma arm_released_log:
  assumes arm: "arm_released h c e t body db db'" and s: "structure_ok h db" and lc: "lifecycle_ok db"
    and ok: "log_ok db"
    and cfg: "configured_correction db e = Some (h body)"
  shows "log_ok db'"
proof -
  note rows = structureD(3) [OF s]
  obtain er tr fr k db1 where a: "select_pk (episodes db) e = Some er" "ep_state er = SuccessorAdmitted"
      "select_pk (threads db) t = Some tr" "select_pk (forums db) (th_forum tr) = Some fr"
      "fo_episode fr = e"
      "message_posted k (th_forum tr) (correction_row h c t (th_head tr + 1) body) db db1"
      "db' = set_episode_state c e CorrectionReleased db1"
    by (rule arm_releasedE [OF arm])
  let ?m = "correction_row h c t (th_head tr + 1) body"
  have p: "persists db db'" by (rule arm_released_persists [OF arm])
  note post = a(6)
  have ste: "st db e = Some SuccessorAdmitted" using a(1,2) by (simp add: st_def)
  obtain z where z: "select_pk (frozen db) e = Some z"
    using lifecycleD(3) [OF lc ste] by (auto simp: row_exists_def)
  have zt: "fz_thread z = t" using frozen_thread_unique [OF s z a(3,4,5)] .
  have head: "th_head tr = fz_head z"
    using log_okD(2) [OF ok z] ste a(3) zt by (auto simp: boundary_def released_def)
  have fz: "frozen db' = frozen db" and sel: "select_pk (messages db') j =
      (if j = k then Some ?m else select_pk (messages db) j)"
    and sth: "select_pk (threads db') j = (if j = t then Some (tr\<lparr>th_head := th_head tr + 1\<rparr>)
        else select_pk (threads db) j)" for j
    using message_posted_same(3) [OF post] message_posted_select(1,2) [OF post] a(3)
    by (auto simp: a(7) correction_row_def)
  have stj: "st db' j = (if j = e then Some CorrectionReleased else st db j)" for j
    by (rule arm_released_st [OF arm])
  obtain er' pr where er': "select_pk (episodes db') e = Some er'" "ep_protocol er' = ep_protocol er"
    and pr: "select_pk (protocols db') (ep_protocol er) = Some pr" "pr_correction pr = h body"
    using persists_episode [OF p a(1)] persists_lookup(1) [OF p] cfg a(1)
    by (auto simp: configured_correction_def)
  have mine: "correction_at db' e z"
    unfolding correction_at_def using sel [of k] er' pr zt head
    by (intro exI [of _ k] exI [of _ ?m] exI [of _ er'] exI [of _ pr]) (simp add: correction_row_def)
  have service: "select_pk (messages db') j = Some q" if "select_pk (messages db) j = Some q" for j q
  proof -
    have "select_pk (messages db) k = None" by (rule message_posted_head [OF post])
    then show ?thesis using that sel by auto
  qed
  show ?thesis
  proof (rule log_okI)
    fix j q assume q: "select_pk (messages db') j = Some q"
    show "placed db' q"
    proof (cases "j = k")
      case True
      then have "q = ?m" using q sel by simp
      then show ?thesis
        using z zt head fz by (auto simp: placed_def author_role_def correction_row_def)
    next
      case False
      then have "select_pk (messages db) j = Some q" using q sel by simp
      then show ?thesis using placed_old [OF rows p _ log_okD(1) [OF ok]] fz by simp
    qed
  next
    fix e' z' assume "select_pk (frozen db') e' = Some z'"
    then have z': "select_pk (frozen db) e' = Some z'" using fz by simp
    show "boundary db' e' z'"
    proof (cases "e' = e")
      case True
      then show ?thesis
        using z z' zt head mine stj sth by (auto simp: boundary_def released_def)
    next
      case False
      have "fz_thread z' \<noteq> t"
        using posted_other_episode [OF s post a(4) z'] False a(5) by (auto simp: correction_row_def)
      moreover have "correction_at db' e' z'" if "correction_at db e' z'"
      proof -
        from that obtain j q er0 pr0 where c: "select_pk (messages db) j = Some q"
            "ms_thread q = fz_thread z'" "ms_ordinal q = fz_head z' + 1" "ms_service q"
            "ms_kind q = Correction" "ms_state q = Published" "select_pk (episodes db) e' = Some er0"
            "select_pk (protocols db) (ep_protocol er0) = Some pr0" "ms_digest q = pr_correction pr0"
          unfolding correction_at_def by blast
        obtain er1 where "select_pk (episodes db') e' = Some er1" "ep_protocol er1 = ep_protocol er0"
          using persists_episode [OF p c(7)] by blast
        then show ?thesis
          using service [OF c(1)] c persists_lookup(1) [OF p c(8)] unfolding correction_at_def by metis
      qed
      ultimately show ?thesis
        using log_okD(2) [OF ok z'] False stj sth by (simp add: boundary_def)
    qed
  qed
qed

lemma arm_released_structure:
  assumes arm: "arm_released h c e t body db db'" and s: "structure_ok h db"
  shows "structure_ok h db'"
  using arm_released_wf [OF arm] arm_released_uniques [OF arm] arm_released_rows [OF arm]
    arm_released_heads [OF arm] s by (simp add: structure_ok_def rows_ok_def)

lemma arm_released_lifecycle:
  assumes arm: "arm_released h c e t body db db'" and lc: "lifecycle_ok db"
  shows "lifecycle_ok db'"
  using lc arm_released_st [OF arm] by (auto simp: lifecycle_ok_def arm_released_same [OF arm])

lemma configured_correction_reset:
  assumes rows: "rows_ok h db" and pa: "select_pk (pairs db) p = Some pa"
    and cfg: "configured_correction db (pa_retained pa) = Some d" and per: "persists db db1"
  shows "configured_correction db1 (pa_reset pa) = Some d"
proof -
  from rows_okD(3) [OF rows pa] obtain a b where ab: "select_pk (episodes db) (pa_retained pa) = Some a"
      "select_pk (episodes db) (pa_reset pa) = Some b" "ep_protocol a = ep_protocol b"
    by (auto simp: pair_ok_def)
  obtain b' where "select_pk (episodes db1) (pa_reset pa) = Some b'" "ep_protocol b' = ep_protocol b"
    using persists_episode [OF per ab(2)] by blast
  then show ?thesis
    using cfg ab persists_lookup(1) [OF per] by (auto simp: configured_correction_def)
qed

lemma releases_log:
  assumes rel: "releases h c db db'" and s: "structure_ok h db" and lc: "lifecycle_ok db"
    and ok: "log_ok db"
  shows "log_ok db'"
proof -
  obtain p pa body ta tb db1 where r: "select_pk (pairs db) p = Some pa"
      "configured_correction db (pa_retained pa) = Some (h body)"
    and a: "arm_released h c (pa_retained pa) ta body db db1"
    and b: "arm_released h c (pa_reset pa) tb body db1 db'"
    using rel unfolding releases_def by blast
  have "log_ok db1" by (rule arm_released_log [OF a s lc ok r(2)])
  then show ?thesis
    using arm_released_log [OF b arm_released_structure [OF a s] arm_released_lifecycle [OF a lc]]
      configured_correction_reset [OF structureD(3) [OF s] r arm_released_persists [OF a]] by blast
qed

lemma freeze_log:
  assumes step: "study_step h c db db'" and s: "structure_ok h db" and ok: "log_ok db"
    and add: "adds (frozen db) e r t" and db': "db' = db\<lparr>frozen := t\<rparr>"
    and er: "select_pk (episodes db) e = Some er" "ep_state er = SourceActive"
    and th: "select_pk (threads db) (fz_thread r) = Some tr" "select_pk (forums db) (th_forum tr) = Some fr"
      "fo_episode fr = e" "fz_head r = th_head tr"
  shows "log_ok db'"
proof -
  note rows = structureD(3) [OF s]
  have role: "author_role db' m = author_role db m" for m by (rule author_role_cong) (simp_all add: db')
  have sel: "select_pk (frozen db') j = (if j = e then Some r else select_pk (frozen db) j)" for j
    by (simp add: db' adds_select [OF add])
  show ?thesis
  proof (rule log_okI)
    fix k m assume "select_pk (messages db') k = Some m"
    then have m: "select_pk (messages db) k = Some m" by (simp add: db')
    have old: "placed db m" by (rule log_okD(1) [OF ok m])
    have "ms_ordinal m \<le> fz_head r" if "author_role db m = Some (e, Source)"
    proof -
      have "ms_author m \<noteq> None" using that by (auto simp: author_role_def split: option.splits)
      then obtain t0 f0 ph where t0: "select_pk (threads db) (ms_thread m) = Some t0"
          "select_pk (forums db) (th_forum t0) = Some f0" "author_role db m = Some (fo_episode f0, ph)"
        by (rule author_role_episode [OF rows m])
      have "fo_episode f0 = e" using t0(3) that by simp
      then have "th_forum t0 = th_forum tr"
        using unique_onD [of fo_episode "forums db", OF _ t0(2) th(2)] th(3) structureD(2) [OF s]
        by (auto simp: uniques_def)
      then have "ms_thread m = fz_thread r"
        using forum_thread_unique [OF structureD(2) [OF s] t0(1) th(1)] by simp
      then show ?thesis
        using structureD(4) [OF s] m th by (auto simp: heads_ok_def all_rows_def)
    qed
    then have src: "ms_ordinal m \<le> fz_head z"
      if "author_role db m = Some (j, Source)" "select_pk (frozen db') j = Some z" for j z
      using that old by (cases "j = e") (auto simp: sel placed_def)
    have keep: "select_pk (frozen db') j = Some z" if "select_pk (frozen db) j = Some z" for j z
      using that adds_fresh [OF add] by (auto simp: sel)
    show "placed db' m"
      unfolding placed_def role using src keep old [unfolded placed_def] by blast
  next
    fix e' z assume z: "select_pk (frozen db') e' = Some z"
    have same: "boundary db' e' z = boundary db e' z"
      by (simp add: boundary_def st_def db' correction_at_def)
    show "boundary db' e' z"
    proof (cases "e' = e")
      case True
      then have "z = r" using z sel by simp
      then show ?thesis unfolding same using True er th by (auto simp: boundary_def st_def released_def)
    next
      case False
      then have "select_pk (frozen db) e' = Some z" using z sel by simp
      then show ?thesis unfolding same by (rule log_okD(2) [OF ok])
    qed
  qed
qed

lemma log_ok_kept:
  assumes step: "study_step h c db db'" and nr: "\<not> releases h c db db'"
    and rows: "rows_ok h db" and ok: "log_ok db"
    and fz: "frozen db' = frozen db" and th: "keeps_on (\<lambda>r. (th_key r, th_head r)) (threads db) (threads db')"
    and ms: "\<And>k m'. select_pk (messages db') k = Some m' \<Longrightarrow> \<exists>m. select_pk (messages db) k = Some m
        \<and> ms_key m' = ms_key m"
  shows "log_ok db'"
proof (rule log_okI)
  have p: "persists db db'" by (rule study_step_persists [OF step])
  fix k m' assume "select_pk (messages db') k = Some m'"
  then obtain m where m: "select_pk (messages db) k = Some m" "ms_key m' = ms_key m" using ms by blast
  have "placed db' m" using placed_old [OF rows p m(1) log_okD(1) [OF ok m(1)]] fz by simp
  then show "placed db' m'" using m(2) placed_cong [of m' m] by (simp add: ms_key_def)
next
  fix e z assume "select_pk (frozen db') e = Some z"
  then have z: "select_pk (frozen db) e = Some z" by (simp add: fz)
  show "boundary db' e z"
    using keeps_onD [OF th] by (intro boundary_kept [OF step rows log_okD(2) [OF ok z] z nr]) fastforce
qed

lemma study_step_log:
  assumes step: "study_step h c db db'" and ctl: "control_ok h db" and ok: "log_ok db"
  shows "log_ok db'"
proof (cases "releases h c db db'")
  case True
  then show ?thesis using releases_log ctl ok by (auto simp: control_ok_def)
next
  case nr: False
  have s: "structure_ok h db" using ctl by (simp add: control_ok_def)
  note kept = log_ok_kept [OF step nr structureD(3) [OF s] ok]
  from step show ?thesis
  proof (cases rule: study_step.cases)
    case (publish ob r er x xr oc ocr m k db1)
    show ?thesis
      by (rule publish_log [OF step nr ctl ok publish(2,5,6,7,8,9,10,11,12,13,16,1)])
  next
    case (release p pa body ta db1 tb)
    then show ?thesis using nr unfolding releases_def by blast
  next
    case (freeze e r t er tr fr)
    show ?thesis by (rule freeze_log [OF step s ok freeze(2,1,3,4,6,7,8,9)])
  next
    case (thread k r t fr)
    then show ?thesis by (intro kept) (simp_all add: adds_keeps)
  next
    case (retract k m oc ocr ob r)
    then show ?thesis
      by (intro kept) (auto simp: select_pk_update_pk ms_key_def split: if_splits)
  qed (rule kept; simp)+
qed

interpretation log: study_invariant h "control_ok h" log_ok for h
proof unfold_locales
  show "log_ok db'" if "control_ok h db" "log_ok db" "study_step h c db db'" for c db db'
    using study_step_log that by blast
  show "log_ok (rollback db db')" if "log_ok db" for db db'
  proof (rule log_okI)
    have role: "author_role (rollback db db') m = author_role db m" for m
      by (simp add: author_role_def split: option.split)
    have stt: "st (rollback db db') e = st db e" for e by (simp add: st_def)
    show "placed (rollback db db') m" if "select_pk (messages (rollback db db')) k = Some m" for k m
      using log_okD(1) [OF \<open>log_ok db\<close>, of k m] that by (simp add: placed_def role)
    show "boundary (rollback db db') e fz" if "select_pk (frozen (rollback db db')) e = Some fz" for e fz
      using log_okD(2) [OF \<open>log_ok db\<close>, of e fz] that by (simp add: boundary_def stt correction_at_def)
  qed
  show "log_ok (db\<lparr>env := x\<rparr>)" if "log_ok db" for db x
  proof (rule log_okI)
    have role: "author_role (db\<lparr>env := x\<rparr>) m = author_role db m" for m
      by (rule author_role_cong) simp_all
    have stt: "st (db\<lparr>env := x\<rparr>) e = st db e" for e by (simp add: st_def)
    show "placed (db\<lparr>env := x\<rparr>) m" if "select_pk (messages (db\<lparr>env := x\<rparr>)) k = Some m" for k m
      using log_okD(1) [OF \<open>log_ok db\<close>, of k m] that by (simp add: placed_def role)
    show "boundary (db\<lparr>env := x\<rparr>) e fz" if "select_pk (frozen (db\<lparr>env := x\<rparr>)) e = Some fz" for e fz
      using log_okD(2) [OF \<open>log_ok db\<close>, of e fz] that by (simp add: boundary_def stt correction_at_def)
  qed
qed (simp_all add: control_reachable, simp add: log_ok_def empty_study_db_def)

end
