(* ===== verification/Study_Budget.thy ===== *)
theory Study_Budget
  imports Study_Treatment
begin

text \<open>
  The lifecycle of an actor obligation and its budgets: an obligation is active until it is completed
  or failed, and is never written again afterwards; the read and post counters are exactly the number
  of receipts and messages of the obligation and never exceed their budgets; the charge never exceeds
  the actor's budget.
\<close>

section \<open>Transitions of an obligation\<close>

inductive obligation_edge :: "obligation_row \<Rightarrow> obligation_row \<Rightarrow> bool" where
  stay: "obligation_edge r r"
| complete: "\<lbrakk>ob_state r = ObligationActive; 0 \<le> charged; charged \<le> ob_budget r\<rbrakk>
    \<Longrightarrow> obligation_edge r (r\<lparr>ob_state := ObligationCompleted, ob_charged := charged, ob_completed_by := Some c\<rparr>)"
| fail: "ob_state r = ObligationActive
    \<Longrightarrow> obligation_edge r (r\<lparr>ob_state := ObligationFailed, ob_failed_by := Some c, ob_failure_reason := Some d\<rparr>)"
| read: "\<lbrakk>ob_state r = ObligationActive; ob_reads_used r < ob_read_budget r\<rbrakk>
    \<Longrightarrow> obligation_edge r (r\<lparr>ob_reads_used := ob_reads_used r + 1\<rparr>)"
| publish: "\<lbrakk>ob_state r = ObligationActive; ob_posts_used r < ob_post_budget r\<rbrakk>
    \<Longrightarrow> obligation_edge r (r\<lparr>ob_posts_used := ob_posts_used r + 1\<rparr>)"

text \<open>The columns' CHECK constraints, and that a charge or a terminal fact belongs to its state.\<close>

definition obligation_shape :: "obligation_row \<Rightarrow> bool" where
  "obligation_shape r \<longleftrightarrow>
     0 \<le> ob_reads_used r \<and> ob_reads_used r \<le> ob_read_budget r
   \<and> 0 \<le> ob_posts_used r \<and> ob_posts_used r \<le> ob_post_budget r
   \<and> 0 \<le> ob_charged r \<and> ob_charged r \<le> ob_budget r
   \<and> (ob_state r \<noteq> ObligationCompleted \<longrightarrow> ob_charged r = 0)
   \<and> (ob_completed_by r \<noteq> None \<longleftrightarrow> ob_state r = ObligationCompleted)
   \<and> (ob_failed_by r \<noteq> None \<longleftrightarrow> ob_state r = ObligationFailed)
   \<and> (ob_failure_reason r \<noteq> None \<longleftrightarrow> ob_state r = ObligationFailed)"

text \<open>The author of a message is the obligation of the occurrence that wrote it.\<close>

definition authored :: "study_db \<Rightarrow> int \<Rightarrow> message_row \<Rightarrow> bool" where
  "authored db ob m \<longleftrightarrow>
     (case ms_author m of
        None \<Rightarrow> False
      | Some oc \<Rightarrow> (case select_pk (occurrences db) oc of None \<Rightarrow> False | Some r \<Rightarrow> oc_obligation r = ob))"

definition budgets_ok :: "study_db \<Rightarrow> bool" where
  "budgets_ok db \<longleftrightarrow> all_rows (\<lambda>ob r. obligation_shape r
     \<and> ob_reads_used r = count_where (\<lambda>_ q. rr_obligation q = ob) (receipts db)
     \<and> ob_posts_used r = count_where (\<lambda>_ m. authored db ob m) (messages db)) (obligations db)"

inductive_cases obligation_edgeE: "obligation_edge r r'"

lemma obligation_edge_shape: "obligation_edge r r' \<Longrightarrow> obligation_shape r \<Longrightarrow> obligation_shape r'"
  by (induction rule: obligation_edge.induct) (auto simp: obligation_shape_def)

lemma obligation_edge_key: "obligation_edge r r' \<Longrightarrow> ob_key r' = ob_key r"
  by (induction rule: obligation_edge.induct) (auto simp: ob_key_def)

text \<open>A completed or failed obligation is final.\<close>

lemma obligation_edge_terminal: "obligation_edge r r' \<Longrightarrow> ob_state r \<noteq> ObligationActive \<Longrightarrow> r' = r"
  by (induction rule: obligation_edge.induct) auto

text \<open>Every step moves every obligation along an edge, or admits it.\<close>

lemma study_step_obligation_edge:
  assumes step: "study_step h c db db'" and wf: "tables_wf db"
    and r': "select_pk (obligations db') ob = Some r'"
  shows "(\<exists>r. select_pk (obligations db) ob = Some r \<and> obligation_edge r r')
   \<or> (select_pk (obligations db) ob = None
      \<and> (\<exists>e pop ph role view prompt tool budget reads posts s.
           r' = new_obligation_row c e pop ph role view prompt tool budget reads posts
         \<and> 0 \<le> budget \<and> 0 < reads \<and> 0 < posts
         \<and> st db e = Some s \<and> obligation_phase_allowed ph s
         \<and> \<not> exists_where (\<lambda>_ q. oc_obligation q = ob) (occurrences db)))"
  using step
proof (cases rule: study_step.cases)
  case (obligation k e pop phase role view prompt tool budget reads posts t er oc u)
  then show ?thesis
    using r' by (fastforce simp: adds_select [OF obligation(2)] st_def dest: adds_fresh
        intro: obligation_edge.stay split: if_splits)
next
  case (complete k r charged)
  then show ?thesis
    using r' by (auto simp: select_pk_update_pk intro: obligation_edge.intros split: if_splits)
next
  case (fail k r reason)
  then show ?thesis
    using r' by (auto simp: select_pk_update_pk intro: obligation_edge.intros split: if_splits)
next
  case (read k o' th first through obj t)
  have wft: "wf_table (threads db)" "wf_table (exposures db)" using wf by (simp_all add: tables_wf_def)
  obtain r where "select_pk (obligations db) o' = Some r" "ob_state r = ObligationActive"
      "ob_reads_used r < ob_read_budget r"
    by (rule forum_read_thread_Inr [OF wft read(3)])
  then show ?thesis
    using r' read(1) by (auto simp: select_pk_update_pk intro: obligation_edge.intros split: if_splits)
next
  case (publish o' r er x xr oc ocr m k db1)
  then show ?thesis
    using r' message_posted_same(2) [OF publish(16)]
    by (auto simp: publish_effect_obligations select_pk_update_pk intro: obligation_edge.intros split: if_splits)
next
  case (release p pa body ta db1 tb)
  then show ?thesis
    using r' by (auto simp: arm_released_same [OF release(3)] arm_released_same [OF release(4)]
        intro: obligation_edge.stay)
qed (use r' in \<open>auto intro: obligation_edge.stay\<close>)

lemma study_step_obligation_kept:
  assumes step: "study_step h c db db'" and wf: "tables_wf db"
    and r: "select_pk (obligations db) ob = Some r"
  obtains r' where "select_pk (obligations db') ob = Some r'" "obligation_edge r r'"
proof -
  obtain r' where r': "select_pk (obligations db') ob = Some r'"
    using persists_lookup_key(5) [OF study_step_persists [OF step] r] by blast
  then show thesis
    using study_step_obligation_edge [OF step wf r'] r that by auto
qed

section \<open>The counters are exact\<close>

lemma count_where_cong:
  "wf_table t \<Longrightarrow> (\<And>k r. select_pk t k = Some r \<Longrightarrow> p k r = q k r) \<Longrightarrow> count_where p t = count_where q t"
  unfolding count_where_def by (intro arg_cong [of _ _ int] arg_cong [of _ _ length] filter_cong)
    (auto simp: in_set_rows_select)

lemma authored_cong: "occurrences db' = occurrences db \<Longrightarrow> authored db' ob m = authored db ob m"
  by (simp add: authored_def split: option.split)

lemma authored_old:
  assumes rows: "rows_ok h db" and p: "persists db db'" and m: "select_pk (messages db) k = Some m"
  shows "authored db' ob m = authored db ob m"
proof (cases "ms_author m")
  case (Some oc)
  then obtain r where "select_pk (occurrences db) oc = Some r"
    using rows_okD(13) [OF rows m] by (auto simp: message_ok_def author_ok_def)
  then show ?thesis using Some persists_lookup(6) [OF p] by (auto simp: authored_def)
qed (simp add: authored_def)

lemma budgets_okI:
  assumes "\<And>ob r. select_pk (obligations db) ob = Some r \<Longrightarrow> obligation_shape r"
    and "\<And>ob r. select_pk (obligations db) ob = Some r \<Longrightarrow>
          ob_reads_used r = count_where (\<lambda>_ q. rr_obligation q = ob) (receipts db)"
    and "\<And>ob r. select_pk (obligations db) ob = Some r \<Longrightarrow>
          ob_posts_used r = count_where (\<lambda>_ m. authored db ob m) (messages db)"
  shows "budgets_ok db"
  using assms by (simp add: budgets_ok_def all_rows_def)

lemma budgets_okD:
  assumes "budgets_ok db" "select_pk (obligations db) ob = Some r"
  shows "obligation_shape r" "ob_reads_used r = count_where (\<lambda>_ q. rr_obligation q = ob) (receipts db)"
    "ob_posts_used r = count_where (\<lambda>_ m. authored db ob m) (messages db)"
  using assms by (simp_all add: budgets_ok_def all_rows_def)

lemma study_step_shape:
  assumes step: "study_step h c db db'" and wf: "tables_wf db" and ok: "budgets_ok db"
    and r': "select_pk (obligations db') ob = Some r'"
  shows "obligation_shape r'"
  using study_step_obligation_edge [OF step wf r']
proof
  assume "\<exists>r. select_pk (obligations db) ob = Some r \<and> obligation_edge r r'"
  then show ?thesis using obligation_edge_shape budgets_okD(1) [OF ok] by blast
qed (auto simp: obligation_shape_def new_obligation_row_def)

text \<open>A new obligation has read and written nothing.\<close>

lemma fresh_obligation:
  assumes rows: "rows_ok h db" and fresh: "select_pk (obligations db) ob = None"
  shows "select_pk (receipts db) k = Some q \<Longrightarrow> rr_obligation q \<noteq> ob"
    and "select_pk (messages db) j = Some m \<Longrightarrow> \<not> authored db ob m"
    and "select_pk (decisions db) ob = None" "select_pk (bindings db) ob = None"
proof -
  show "rr_obligation q \<noteq> ob" if "select_pk (receipts db) k = Some q"
    using rows_okD(14) [OF rows that] rows_okD(12) [OF rows] fresh
    by (fastforce simp: receipt_ok_def exposure_ok_def)
  show "\<not> authored db ob m" if "select_pk (messages db) j = Some m"
    using rows_okD(8) [OF rows] fresh by (fastforce simp: authored_def row_exists_def split: option.splits)
  show "select_pk (decisions db) ob = None"
    using rows_okD(15) [OF rows, of ob] fresh
    by (cases "select_pk (decisions db) ob") (auto simp: decision_ok_def row_exists_def)
  show "select_pk (bindings db) ob = None"
    using rows_okD(9) [OF rows, of ob] fresh by (cases "select_pk (bindings db) ob") (auto simp: row_exists_def)
qed

lemma post_count:
  assumes rows: "rows_ok h db" and wf: "tables_wf db" and p: "persists db db'"
    and post: "message_posted k f m db db1"
    and same: "messages db' = messages db1" "occurrences db' = occurrences db"
  shows "count_where (\<lambda>_ q. authored db' ob q) (messages db')
       = count_where (\<lambda>_ q. authored db ob q) (messages db) + (if authored db ob m then 1 else 0)"
proof -
  obtain t where t: "adds (messages db) k m t" "messages db1 = t"
    using post by (auto simp: message_posted_def)
  have "authored db' = authored db" by (intro ext authored_cong same)
  then show ?thesis using t same adds_count [OF t(1)] by simp
qed

lemma study_step_budgets:
  assumes step: "study_step h c db db'" and s: "structure_ok h db" and ok: "budgets_ok db"
  shows "budgets_ok db'"
proof (rule budgets_okI)
  note wf = structureD(1) [OF s] and rows = structureD(3) [OF s]
  have wft: "wf_table (threads db)" "wf_table (exposures db)" "wf_table (messages db)" "wf_table (receipts db)"
    using wf by (simp_all add: tables_wf_def)
  fix ob r' assume r': "select_pk (obligations db') ob = Some r'"
  show "obligation_shape r'" by (rule study_step_shape [OF step wf ok r'])
  have p: "persists db db'" by (rule study_step_persists [OF step])
  have old: "count_where (\<lambda>_ q. authored db' ob q) (messages db)
      = count_where (\<lambda>_ q. authored db ob q) (messages db)"
    by (rule count_where_cong [OF wft(3)]) (rule authored_old [OF rows p])
  then have kept: "ob_posts_used r' = count_where (\<lambda>_ m. authored db' ob m) (messages db')"
    if "messages db' = messages db" "ob_posts_used r' = count_where (\<lambda>_ q. authored db ob q) (messages db)"
    using that by simp
  note D = budgets_okD [OF ok]
  show "ob_reads_used r' = count_where (\<lambda>_ q. rr_obligation q = ob) (receipts db')"
    using step
  proof (cases rule: study_step.cases)
    case (obligation k e pop phase role view prompt tool budget reads posts t er oc u)
    have "count_where (\<lambda>_ q. rr_obligation q = ob) (receipts db) = 0" if "ob = k"
      using fresh_obligation(1) [OF rows adds_fresh [OF obligation(2)]] that
      by (simp add: count_where_zero_iff [OF wft(4)])
    then show ?thesis
      using D(2) [of ob r'] r' obligation(1)
      by (auto simp: adds_select [OF obligation(2)] new_obligation_row_def split: if_splits)
  next
    case (read k o' th first through obj t)
    then show ?thesis
      using r' D(2) by (auto simp: select_pk_update_pk adds_count [OF read(2)] receipt_for_def Let_def split: if_splits)
  next
    case (publish o' r er x xr oc ocr m k db1)
    then show ?thesis
      using r' D(2) message_posted_same(2,14) [OF publish(16)]
      by (auto simp: publish_effect_obligations select_pk_update_pk split: if_splits)
  next
    case (release p pa body ta db1 tb)
    then show ?thesis
      using r' D(2) by (simp add: arm_released_same [OF release(3)] arm_released_same [OF release(4)])
  qed (use r' D(2) in \<open>auto simp: select_pk_update_pk split: if_splits\<close>)
  show "ob_posts_used r' = count_where (\<lambda>_ m. authored db' ob m) (messages db')"
    using step
  proof (cases rule: study_step.cases)
    case (obligation k e pop phase role view prompt tool budget reads posts t er oc u)
    have "count_where (\<lambda>_ q. authored db ob q) (messages db) = 0" if "ob = k"
      using fresh_obligation(2) [OF rows adds_fresh [OF obligation(2)]] that
      by (simp add: count_where_zero_iff [OF wft(3)])
    then show ?thesis
      using D(3) [of ob r'] r' obligation(1) old
      by (auto simp: adds_select [OF obligation(2)] new_obligation_row_def split: if_splits)
  next
    case (publish o' r er x xr oc ocr m k db1)
    have "authored db ob m \<longleftrightarrow> ob = o'" using publish(10,11,12) by (auto simp: authored_def)
    then show ?thesis
      using r' publish(2) D(3) message_posted_same(2,5) [OF publish(16)] publish(1)
        post_count [OF rows wf p publish(16), of ob]
      by (auto simp: publish_effect_obligations select_pk_update_pk split: if_splits)
  next
    case (release p' pa body ta db1 tb)
    have arm: "count_where (\<lambda>_ q. authored d' ob q) (messages d') = count_where (\<lambda>_ q. authored d ob q) (messages d)"
      if rel: "arm_released h c e t body d d'" for e t d d'
    proof -
      obtain f m db2 k where post: "message_posted k f (correction_row h c t m body) d db2"
          "d' = set_episode_state c e CorrectionReleased db2"
        by (rule arm_releasedE [OF rel]) blast
      then obtain u where u: "adds (messages d) k (correction_row h c t m body) u" "messages d' = u"
        by (auto simp: message_posted_def)
      have "authored d' = authored d"
        by (intro ext authored_cong) (simp add: arm_released_same [OF rel])
      then show ?thesis using u by (simp add: adds_count [OF u(1)] authored_def correction_row_def)
    qed
    show ?thesis
      using r' D(3) arm [OF release(3)] arm [OF release(4)]
      by (simp add: arm_released_same [OF release(3)] arm_released_same [OF release(4)])
  next
    case (retract k m oc ocr o' r)
    have "count_where (\<lambda>_ q. authored db ob q) (messages db') = count_where (\<lambda>_ q. authored db ob q) (messages db)"
      unfolding retract(1) update_pk_def by (simp, rule count_where_update) (simp add: authored_def)
    moreover have "authored db' = authored db" by (intro ext authored_cong) (simp add: retract(1))
    ultimately show ?thesis using r' D(3) [of ob r'] retract(1) by simp
  qed (rule kept; use r' D(3) in \<open>auto simp: select_pk_update_pk split: if_splits\<close>)+
qed

interpretation budgets: study_invariant h "control_ok h" budgets_ok for h
proof unfold_locales
  show "budgets_ok db'" if "control_ok h db" "budgets_ok db" "study_step h c db db'" for c db db'
    using study_step_budgets that by (auto simp: control_ok_def)
  show "budgets_ok (rollback db db')" if "budgets_ok db" for db db'
  proof -
    have "authored (rollback db db') = authored db"
      by (intro ext) (simp add: authored_def split: option.split)
    then show ?thesis using that by (simp add: budgets_ok_def)
  qed
  show "budgets_ok (db\<lparr>env := x\<rparr>)" if "budgets_ok db" for db x
  proof -
    have "authored (db\<lparr>env := x\<rparr>) = authored db" by (intro ext authored_cong) simp
    then show ?thesis using that by (simp add: budgets_ok_def)
  qed
qed (simp_all add: control_reachable, simp add: budgets_ok_def empty_study_db_def)

end
