(* ===== verification/Study_Isolation.thy ===== *)
theory Study_Isolation
  imports Study_Budget
begin

text \<open>
  Information flow of the reset treatment.  A successor of the reset arm is exposed to the thread
  from the message after the frozen head on, and the source population wrote nothing there; so no
  read, reply, supersession or citation of such a successor reaches a source message.  Also: the
  bytes a read delivers render exactly the requested range, each ordinal once and in order.
\<close>

section \<open>Source messages and reset successors\<close>

definition source_message :: "study_db \<Rightarrow> message_row \<Rightarrow> bool" where
  "source_message db m \<longleftrightarrow> (case author_role db m of Some (_, Source) \<Rightarrow> True | _ \<Rightarrow> False)"

definition reset_successor :: "study_db \<Rightarrow> int \<Rightarrow> bool" where
  "reset_successor db ob \<longleftrightarrow>
     (case select_pk (obligations db) ob of
        None \<Rightarrow> False
      | Some r \<Rightarrow> ob_phase r = Successor
          \<and> exists_where (\<lambda>_ a. ta_episode a = ob_episode r \<and> ta_treatment a = Reset) (treatments db))"

lemma source_messageE:
  assumes "source_message db m"
  obtains e where "author_role db m = Some (e, Source)"
proof (cases "author_role db m")
  case (Some a)
  then show ?thesis
    using assms that by (cases a; cases "snd a") (auto simp: source_message_def)
qed (use assms in \<open>simp add: source_message_def\<close>)

lemma reset_exposure_from:
  assumes s: "structure_ok h db" and x: "select_pk (exposures db) x = Some xr"
    and ob: "select_pk (obligations db) (ex_obligation xr) = Some r"
    and reset: "reset_successor db (ex_obligation xr)"
  obtains fz fr where "select_pk (frozen db) (ob_episode r) = Some fz" "ex_from xr = fz_head fz + 1"
    "select_pk (forums db) (ex_forum xr) = Some fr" "fo_episode fr = ob_episode r"
proof -
  note rows = structureD(3) [OF s]
  have wf: "wf_table (treatments db)" using structureD(1) [OF s] by (simp add: tables_wf_def)
  have u: "unique_on ta_episode (treatments db)" using structureD(2) [OF s] by (simp add: uniques_def)
  obtain i a where a: "select_pk (treatments db) i = Some a" "ta_episode a = ob_episode r"
      "ta_treatment a = Reset" and ph: "ob_phase r = Successor"
    using reset ob by (auto simp: reset_successor_def exists_where_iff [OF wf])
  from rows_okD(12) [OF rows x] obtain fr where fr: "select_pk (forums db) (ex_forum xr) = Some fr"
      "fo_episode fr = ob_episode r" "visible_from_ok db (ob_episode r) Successor (ex_from xr)"
    using ob ph by (auto simp: exposure_ok_def)
  then obtain fz j b where b: "select_pk (frozen db) (ob_episode r) = Some fz"
      "select_pk (treatments db) j = Some b" "ta_episode b = ob_episode r"
      "ex_from xr = (if ta_treatment b = Retained then 1 else fz_head fz + 1)"
    by (auto simp: visible_from_ok_def)
  have "b = a" using unique_onD [OF u b(2) a(1)] b(3) a(2) by simp
  then show thesis using that [OF b(1)] b(4) a(3) fr by simp
qed

lemma source_before_freeze:
  assumes s: "structure_ok h db" and log: "log_ok db" and m: "select_pk (messages db) k = Some m"
    and src: "source_message db m"
    and tr: "select_pk (threads db) (ms_thread m) = Some tr" "select_pk (forums db) (th_forum tr) = Some fr"
    and fz: "select_pk (frozen db) (fo_episode fr) = Some fz"
  shows "ms_ordinal m \<le> fz_head fz"
proof -
  note rows = structureD(3) [OF s]
  obtain e where e: "author_role db m = Some (e, Source)" by (rule source_messageE [OF src])
  then have "ms_author m \<noteq> None" by (auto simp: author_role_def split: option.splits)
  then obtain t f ph where "select_pk (threads db) (ms_thread m) = Some t"
      "select_pk (forums db) (th_forum t) = Some f" "author_role db m = Some (fo_episode f, ph)"
    by (rule author_role_episode [OF rows m])
  then have "e = fo_episode fr" using e tr by simp
  then show ?thesis using log_okD(1) [OF log m] e fz by (auto simp: placed_def)
qed

text \<open>Nothing in the window of a reset successor is a source message.\<close>

lemma reset_window_clean:
  assumes s: "structure_ok h db" and log: "log_ok db"
    and x: "select_pk (exposures db) x = Some xr" and reset: "reset_successor db (ex_obligation xr)"
    and m: "select_pk (messages db) k = Some m"
    and tr: "select_pk (threads db) (ms_thread m) = Some tr" "th_forum tr = ex_forum xr"
    and start: "ex_from xr \<le> ms_ordinal m"
  shows "\<not> source_message db m"
proof
  assume src: "source_message db m"
  obtain r where r: "select_pk (obligations db) (ex_obligation xr) = Some r"
    using reset by (auto simp: reset_successor_def split: option.splits)
  obtain fz fr where fz: "select_pk (frozen db) (ob_episode r) = Some fz" "ex_from xr = fz_head fz + 1"
      "select_pk (forums db) (ex_forum xr) = Some fr" "fo_episode fr = ob_episode r"
    by (rule reset_exposure_from [OF s x r reset])
  have "ms_ordinal m \<le> fz_head fz"
    using source_before_freeze [OF s log m src tr(1), of fr fz] fz tr by simp
  then show False using start fz(2) by simp
qed

section \<open>Receipts, replies and citations\<close>

lemma reset_receipt_clean:
  assumes s: "structure_ok h db" and log: "log_ok db"
    and r: "select_pk (receipts db) k = Some r" and reset: "reset_successor db (rr_obligation r)"
    and m: "select_pk (messages db) j = Some m" "ms_thread m = rr_thread r" "rr_first r \<le> ms_ordinal m"
  shows "\<not> source_message db m"
proof -
  from rows_okD(14) [OF structureD(3) [OF s] r] obtain x xr t where o:
      "select_pk (exposures db) x = Some xr" "ex_obligation xr = rr_obligation r"
      "select_pk (threads db) (rr_thread r) = Some t" "th_forum t = ex_forum xr" "ex_from xr \<le> rr_first r"
    unfolding receipt_ok_def by blast
  show ?thesis
    by (rule reset_window_clean [OF s log o(1) _ m(1)]) (use o m reset in simp_all)
qed

lemma reset_target_clean:
  assumes s: "structure_ok h db" and log: "log_ok db"
    and m: "select_pk (messages db) k = Some m" "authored db ob m" and reset: "reset_successor db ob"
    and q: "ms_reply m = Some q \<or> ms_supersedes m = Some q"
  obtains mq where "select_pk (messages db) q = Some mq" "ms_thread mq = ms_thread m"
    "\<not> source_message db mq"
proof -
  note rows = structureD(3) [OF s]
  obtain oc ocr where oc: "ms_author m = Some oc" "select_pk (occurrences db) oc = Some ocr"
      "oc_obligation ocr = ob"
    using m(2) by (auto simp: authored_def split: option.splits)
  from rows_okD(13) [OF rows m(1)] obtain t f where tf: "select_pk (threads db) (ms_thread m) = Some t"
      "select_pk (forums db) (th_forum t) = Some f" "author_ok db (fo_episode f) m oc"
    using oc by (auto simp: message_ok_def)
  then obtain r where r: "select_pk (obligations db) ob = Some r" "ob_episode r = fo_episode f"
      "target_ok db ob m q"
    using oc q by (auto simp: author_ok_def)
  then obtain mq x xr where o: "select_pk (messages db) q = Some mq" "ms_thread mq = ms_thread m"
      "select_pk (exposures db) x = Some xr" "ex_obligation xr = ob" "ex_from xr \<le> ms_ordinal mq"
    unfolding target_ok_def by blast
  obtain fr where fr: "select_pk (forums db) (ex_forum xr) = Some fr" "fo_episode fr = ob_episode r"
    using rows_okD(12) [OF rows o(3)] o(4) r(1) by (auto simp: exposure_ok_def)
  have "th_forum t = ex_forum xr"
    using unique_onD [of fo_episode "forums db", OF _ tf(2) fr(1)] fr(2) r(2) structureD(2) [OF s]
    by (auto simp: uniques_def)
  then have "\<not> source_message db mq"
    by (intro reset_window_clean [OF s log o(3) _ o(1)]) (use o tf reset in simp_all)
  then show thesis using that o by blast
qed

lemma reset_citation_clean:
  assumes s: "structure_ok h db" and log: "log_ok db"
    and d: "select_pk (decisions db) ob = Some d" "de_cited d = Some q" and reset: "reset_successor db ob"
  obtains m where "select_pk (messages db) q = Some m" "\<not> source_message db m"
proof -
  from rows_okD(15) [OF structureD(3) [OF s] d(1)] d(2) have "citation_ok db ob q"
    by (simp add: decision_ok_def)
  then obtain m where m: "select_pk (messages db) q = Some m"
    and c: "(\<exists>oc ocr. ms_author m = Some oc \<and> select_pk (occurrences db) oc = Some ocr \<and> oc_obligation ocr = ob)
       \<or> (\<exists>k r. select_pk (receipts db) k = Some r \<and> rr_obligation r = ob \<and> rr_thread r = ms_thread m
            \<and> rr_first r \<le> ms_ordinal m \<and> ms_ordinal m \<le> rr_through r)"
    unfolding citation_ok_def by blast
  from c have "\<not> source_message db m"
  proof
    assume "\<exists>oc ocr. ms_author m = Some oc \<and> select_pk (occurrences db) oc = Some ocr \<and> oc_obligation ocr = ob"
    then show ?thesis
      using reset by (auto simp: source_message_def author_role_def reset_successor_def split: option.splits)
  next
    assume "\<exists>k r. select_pk (receipts db) k = Some r \<and> rr_obligation r = ob \<and> rr_thread r = ms_thread m
            \<and> rr_first r \<le> ms_ordinal m \<and> ms_ordinal m \<le> rr_through r"
    then obtain k r where r: "select_pk (receipts db) k = Some r" "rr_obligation r = ob"
        "rr_thread r = ms_thread m" "rr_first r \<le> ms_ordinal m"
      by blast
    show ?thesis by (rule reset_receipt_clean [OF s log r(1) _ m]) (use r reset in simp_all)
  qed
  then show thesis using that m by blast
qed

section \<open>What a read delivers\<close>

lemma messages_between_set:
  assumes "wf_table (messages db)"
  shows "m \<in> set (messages_between db t a b) \<longleftrightarrow>
     (\<exists>k. select_pk (messages db) k = Some m) \<and> ms_thread m = t \<and> a \<le> ms_ordinal m \<and> ms_ordinal m \<le> b"
  by (force simp: messages_between_def in_set_rows_select [OF assms, symmetric])

lemma distinct_map_unique:
  assumes "wf_table t" "unique_on f t"
  shows "distinct (map (f \<circ> snd) (tb_rows t))"
  unfolding distinct_map
proof
  show "distinct (tb_rows t)" using assms(1) by (simp add: wf_table_def distinct_map)
  show "inj_on (f \<circ> snd) (set (tb_rows t))"
    using assms by (auto simp: inj_on_def in_set_rows_select dest: unique_onD)
qed

lemma messages_between_ordinals:
  assumes s: "structure_ok h db" and t: "select_pk (threads db) t = Some tr"
    and r: "1 \<le> a" "b \<le> th_head tr"
  shows "map ms_ordinal (messages_between db t a b) = [a..b]"
proof -
  have wf: "wf_table (messages db)" using structureD(1) [OF s] by (simp add: tables_wf_def)
  have u: "unique_on (\<lambda>m. (ms_thread m, ms_ordinal m)) (messages db)"
    using structureD(2) [OF s] by (simp add: uniques_def)
  let ?rows = "filter (\<lambda>(_, m). ms_thread m = t \<and> a \<le> ms_ordinal m \<and> ms_ordinal m \<le> b) (tb_rows (messages db))"
  have "distinct (map ((\<lambda>m. (ms_thread m, ms_ordinal m)) \<circ> snd) ?rows)"
    using distinct_map_unique [OF wf u] by (rule distinct_map_filter)
  then have "distinct (map ms_ordinal (map snd ?rows))"
    unfolding map_map by (auto simp: distinct_map inj_on_def split: prod.splits)
  then have d: "distinct (map ms_ordinal (messages_between db t a b))"
    unfolding messages_between_def by (auto simp: distinct_map intro: inj_on_imageI inj_on_imageI2)
  have sorted: "sorted (map ms_ordinal (messages_between db t a b))"
    by (simp add: messages_between_def)
  have "set (map ms_ordinal (messages_between db t a b)) = {a..b}"
  proof (intro equalityI subsetI)
    fix n assume "n \<in> {a..b}"
    then have "1 \<le> n" "n \<le> th_head tr" "a \<le> n" "n \<le> b" using r by auto
    then obtain k m where "select_pk (messages db) k = Some m" "ms_thread m = t" "ms_ordinal m = n"
      using structureD(4) [OF s] t unfolding heads_ok_def all_rows_def by blast
    then show "n \<in> set (map ms_ordinal (messages_between db t a b))"
      using \<open>a \<le> n\<close> \<open>n \<le> b\<close> messages_between_set [OF wf, of m t a b] by force
  qed (auto simp: messages_between_set [OF wf])
  then show ?thesis
    using sorted_distinct_set_unique [OF sorted d] by simp
qed

text \<open>A read that is allowed is allowed on an exposed range of the thread of the actor's forum.\<close>

lemma read_window:
  assumes s: "structure_ok h db" and w: "windows_ok db" and rd: "forum_read_thread db ob a b = Inr t"
  obtains r x xr tr where "select_pk (obligations db) ob = Some r" "ob_state r = ObligationActive"
    "select_pk (exposures db) x = Some xr" "ex_obligation xr = ob" "ex_from xr \<le> a"
    "select_pk (threads db) t = Some tr" "th_forum tr = ex_forum xr" "1 \<le> a" "b \<le> th_head tr"
proof -
  have wf: "wf_table (threads db)" "wf_table (exposures db)"
    using structureD(1) [OF s] by (simp_all add: tables_wf_def)
  obtain r x xr tr where o: "select_pk (obligations db) ob = Some r" "ob_state r = ObligationActive"
      "0 < a" "select_pk (exposures db) x = Some xr" "ex_obligation xr = ob"
      "select_pk (threads db) t = Some tr" "th_forum tr = ex_forum xr" "ex_from xr \<le> a" "b \<le> ex_through xr"
    by (rule forum_read_thread_Inr [OF wf rd])
  obtain t' tr' where "select_pk (threads db) t' = Some tr'" "th_forum tr' = ex_forum xr"
      "ex_through xr = th_head tr'"
    using w o(4) unfolding windows_ok_def exposures_ok_def all_rows_def by blast
  then have "ex_through xr = th_head tr"
    using forum_thread_unique [OF structureD(2) [OF s] o(6)] o(7) by auto
  then show thesis using that o by simp
qed

end
