(* ===== verification/Study_Outcome.thy ===== *)
theory Study_Outcome
  imports Study_Isolation
begin

text \<open>
  The end of an episode: ground truth is revealed only after every actor of the episode has stopped,
  against the commitment of its protocol; results exist only after the reveal; a closed episode has
  every outcome slot of its measurement revision filled exactly once, has charged no more than its
  protocol allows, and is never written again.
\<close>

section \<open>Definitions\<close>

definition settled :: "study_db \<Rightarrow> int \<Rightarrow> bool" where
  "settled db e \<longleftrightarrow> (\<forall>ob r. select_pk (obligations db) ob = Some r \<longrightarrow> ob_episode r = e \<longrightarrow>
     ob_state r \<noteq> ObligationActive)"

definition charged :: "study_db \<Rightarrow> int \<Rightarrow> int" where
  "charged db e = sum_where (\<lambda>_ r. ob_episode r = e) ob_charged (obligations db)"

definition result_count :: "study_db \<Rightarrow> int \<Rightarrow> int" where
  "result_count db e = count_where (\<lambda>_ r. me_episode r = e) (results db)"

definition closed_ok :: "study_db \<Rightarrow> int \<Rightarrow> bool" where
  "closed_ok db e \<longleftrightarrow> settled db e
     \<and> (\<exists>er mr pr. select_pk (episodes db) e = Some er
          \<and> select_pk (measurements db) (ep_measurement er) = Some mr \<and> result_count db e = mr_slots mr
          \<and> select_pk (protocols db) (ep_protocol er) = Some pr \<and> charged db e \<le> pr_budget pr)"

definition outcome_ok :: "study_db \<Rightarrow> bool" where
  "outcome_ok db \<longleftrightarrow>
     (\<forall>e s. st db e = Some s \<longrightarrow> row_exists (reveals db) e \<longrightarrow> released s \<and> settled db e)
   \<and> (\<forall>e. st db e = Some Closed \<longrightarrow> closed_ok db e)
   \<and> all_rows (\<lambda>_ mr. 1 \<le> mr_slots mr \<and> mr_slots mr \<le> 64) (measurements db)
   \<and> all_rows (\<lambda>_ f. fo_state f = (if st db (fo_episode f) = Some Closed then ForumClosed else ForumOpen))
       (forums db)"

section \<open>Sums over a table\<close>

lemma sum_list_filter_update:
  assumes "\<And>k r. (k, r) \<in> set xs \<Longrightarrow> p k (if q k r then g r else r) = p k r"
    and "\<And>k r. (k, r) \<in> set xs \<Longrightarrow> p k r \<Longrightarrow> f (if q k r then g r else r) = f r"
  shows "sum_list (map (\<lambda>(i, r). f r) (filter (\<lambda>(i, r). p i r) (map (\<lambda>(i, r). (i, if q i r then g r else r)) xs)))
    = sum_list (map (\<lambda>(i, r). f r) (filter (\<lambda>(i, r). p i r) xs) :: int list)"
  using assms by (induction xs) (auto split: prod.splits)

lemma sum_where_update:
  assumes "wf_table t"
    and "\<And>r. select_pk t k = Some r \<Longrightarrow> p k (g r) = p k r \<and> (p k r \<longrightarrow> f (g r) = f r)"
  shows "sum_where p f (update_pk k g t) = sum_where p f t"
  unfolding sum_where_def update_pk_def update_where_def
  by (simp del: filter_map, rule sum_list_filter_update) (use assms in \<open>auto simp: in_set_rows_select\<close>)

lemma adds_sum: "adds t k r t' \<Longrightarrow> sum_where p f t' = sum_where p f t + (if p k r then f r else 0)"
  by (simp add: adds_def sum_where_def)

section \<open>Preservation\<close>

lemma released_edge: "episode_edge s s' \<Longrightarrow> released s \<Longrightarrow> released s'"
  by (induction rule: episode_edge.induct) (auto simp: released_def)

lemma settledD: "settled db e \<Longrightarrow> select_pk (obligations db) ob = Some r \<Longrightarrow> ob_state r = ObligationActive
    \<Longrightarrow> ob_episode r \<noteq> e"
  by (auto simp: settled_def)

lemma phase_allowed_not_released: "obligation_phase_allowed ph s \<Longrightarrow> \<not> released s"
  by (cases ph) (auto simp: obligation_phase_allowed_def released_def)

lemma settled_kept:
  assumes step: "study_step h c db db'" and wf: "tables_wf db" and s: "st db e = Some s" "released s"
    and ok: "settled db e"
  shows "settled db' e"
  unfolding settled_def
proof (intro allI impI)
  fix ob r' assume r': "select_pk (obligations db') ob = Some r'" "ob_episode r' = e"
  from study_step_obligation_edge [OF step wf r'(1)] show "ob_state r' \<noteq> ObligationActive"
  proof (elim disjE exE conjE)
    fix r assume r: "select_pk (obligations db) ob = Some r" and edge: "obligation_edge r r'"
    have "ob_episode r = e" using obligation_edge_key [OF edge] r'(2) by (simp add: ob_key_def)
    then have "ob_state r \<noteq> ObligationActive" using ok r by (auto simp: settled_def)
    then show ?thesis using obligation_edge_terminal [OF edge] by simp
  next
    fix e0 pop ph role view prompt tool budget reads posts s0
    assume "r' = new_obligation_row c e0 pop ph role view prompt tool budget reads posts"
      "st db e0 = Some s0" "obligation_phase_allowed ph s0"
    then show ?thesis
      using r'(2) s phase_allowed_not_released [of ph s0] by (auto simp: new_obligation_row_def)
  qed
qed

lemma charged_kept:
  assumes step: "study_step h c db db'" and wf: "tables_wf db" and s: "st db e = Some s" "released s"
    and ok: "settled db e"
  shows "charged db' e = charged db e"
proof -
  have wfo: "wf_table (obligations db)" using wf by (simp add: tables_wf_def)
  note D = settledD [OF ok]
  from step show ?thesis
  proof (cases rule: study_step.cases)
    case (obligation ob e0 pop phase role view prompt tool budget reads posts t er oc u)
    have "st db e0 = Some (ep_state er)" using obligation by (simp add: st_def)
    then have "e0 \<noteq> e" using s phase_allowed_not_released [OF obligation(5)] by auto
    then show ?thesis
      by (simp add: charged_def obligation(1) adds_sum [OF obligation(2)] new_obligation_row_def)
  next
    case (complete ob r x)
    then show ?thesis
      using D [OF complete(2,3)] by (simp add: charged_def, subst sum_where_update [OF wfo]) auto
  next
    case (fail ob r reason)
    then show ?thesis by (simp add: charged_def, subst sum_where_update [OF wfo]) auto
  next
    case (read k ob th first through obj t)
    then show ?thesis by (simp add: charged_def, subst sum_where_update [OF wfo]) auto
  next
    case (publish ob r er x xr oc ocr m k db1)
    then show ?thesis
      using message_posted_same(2) [OF publish(16)]
      by (simp add: charged_def publish_effect_obligations, subst sum_where_update [OF wfo]) auto
  next
    case (release p pa body ta db1 tb)
    then show ?thesis
      by (simp add: charged_def arm_released_same [OF release(3)] arm_released_same [OF release(4)])
  qed (simp_all add: charged_def)
qed

lemma results_kept:
  assumes step: "study_step h c db db'" and s: "st db e = Some Closed"
  shows "result_count db' e = result_count db e"
  using step
proof (cases rule: study_step.cases)
  case (result k r t er mr)
  have "me_episode r \<noteq> e" using result s by (auto simp: st_def in_force_def)
  then show ?thesis by (simp add: result_count_def result(1) adds_count [OF result(2)])
next
  case (publish ob r er x xr oc ocr m k db1)
  then show ?thesis using message_posted_same(13) [OF publish(16)] by (simp add: result_count_def)
next
  case (release p pa body ta db1 tb)
  then show ?thesis
    by (simp add: result_count_def arm_released_same [OF release(3)] arm_released_same [OF release(4)])
qed (simp_all add: result_count_def)

lemma closed_kept:
  assumes step: "study_step h c db db'" and wf: "tables_wf db" and s: "st db e = Some Closed"
    and ok: "closed_ok db e"
  shows "closed_ok db' e"
proof -
  have p: "persists db db'" by (rule study_step_persists [OF step])
  have rel: "released Closed" by (simp add: released_def)
  from ok obtain er mr pr where o: "settled db e" "select_pk (episodes db) e = Some er"
      "select_pk (measurements db) (ep_measurement er) = Some mr" "result_count db e = mr_slots mr"
      "select_pk (protocols db) (ep_protocol er) = Some pr" "charged db e \<le> pr_budget pr"
    unfolding closed_ok_def by blast
  obtain er' where er': "select_pk (episodes db') e = Some er'" "ep_protocol er' = ep_protocol er"
      "ep_measurement er' = ep_measurement er"
    using persists_episode [OF p o(2)] by blast
  show ?thesis
    unfolding closed_ok_def results_kept [OF step s] charged_kept [OF step wf s rel o(1)]
    by (intro conjI exI [of _ er'] exI [of _ mr] exI [of _ pr] settled_kept [OF step wf s rel o(1)])
      (simp_all add: er' persists_lookup(2) [OF p o(3)] persists_lookup(1) [OF p o(5)] o(4,6))
qed

section \<open>What a step can newly reveal or close\<close>

lemma new_reveal:
  assumes step: "study_step h c db db'" and wf: "tables_wf db"
    and new: "\<not> row_exists (reveals db) e" "row_exists (reveals db') e"
  shows "\<exists>s. st db e = Some s \<and> in_force s" "settled db' e" "episodes db' = episodes db"
proof -
  from step have "\<exists>t er. db' = db\<lparr>reveals := t\<rparr> \<and> select_pk (episodes db) e = Some er
      \<and> in_force (ep_state er) \<and> live_obligations db e = 0"
  proof (cases rule: study_step.cases)
    case (reveal e0 r t er pr)
    have "e0 = e" using new reveal(1) by (auto simp: row_exists_def adds_select [OF reveal(2)] split: if_splits)
    then show ?thesis using reveal by blast
  next
    case (publish ob r er x xr oc ocr m k db1)
    then show ?thesis using new message_posted_same(12) [OF publish(16)] by simp
  next
    case (release p pa body ta db1 tb)
    then show ?thesis
      using new by (simp add: arm_released_same [OF release(3)] arm_released_same [OF release(4)])
  qed (use new in simp_all)
  then obtain t er where o: "db' = db\<lparr>reveals := t\<rparr>" "select_pk (episodes db) e = Some er"
      "in_force (ep_state er)" "live_obligations db e = 0"
    by blast
  show "\<exists>s. st db e = Some s \<and> in_force s" using o by (simp add: st_def)
  show "settled db' e" using live_none [OF wf o(4)] by (auto simp: settled_def o(1))
  show "episodes db' = episodes db" by (simp add: o(1))
qed

lemma new_closed:
  assumes step: "study_step h c db db'" and new: "st db' e = Some Closed" "st db e \<noteq> Some Closed"
  obtains er mr pr where "select_pk (episodes db) e = Some er" "in_force (ep_state er)"
    "select_pk (measurements db) (ep_measurement er) = Some mr" "live_obligations db e = 0"
    "result_count db e = mr_slots mr" "select_pk (protocols db) (ep_protocol er) = Some pr"
    "charged db e \<le> pr_budget pr"
    "db' = set_episode_state c e Closed (db\<lparr>forums := update_where (\<lambda>_ f. fo_episode f = e)
        (\<lambda>f. f\<lparr>fo_state := ForumClosed, fo_last := c\<rparr>) (forums db)\<rparr>)"
  using step
proof (cases rule: study_step.cases)
  case (episode k r t)
  then show ?thesis using new st_adds_episode [OF episode(2), of db'] by (auto split: if_splits)
next
  case (fork k r t j a u l f v source er)
  then show ?thesis using new st_adds_episode [OF fork(2), of db'] by (auto split: if_splits)
next
  case (obligation ob k pop phase role view prompt tool budget reads posts t er oc u)
  then show ?thesis using new by (cases phase) (auto simp: phase_state_def split: if_splits)
next
  case (replace k r t er pop succ)
  then show ?thesis using new by (auto split: if_splits)
next
  case (publish ob r er x xr oc ocr m k db1)
  then show ?thesis
    using new st_cong [OF message_posted_same(1) [OF publish(16)]] by (auto simp: st_publish split: if_splits)
next
  case (release p pa body ta db1 tb)
  then show ?thesis
    using new arm_released_st [OF release(3)] arm_released_st [OF release(4)] by (auto split: if_splits)
next
  case (close k er mr pr)
  have "k = e" using new close(1) by (auto split: if_splits)
  then show ?thesis
    using that [of er mr pr] close by (simp add: result_count_def charged_def)
qed (use new in \<open>simp_all add: st_def\<close>)

lemma closed_iff:
  assumes step: "study_step h c db db'" and old: "st db e \<noteq> None"
    and no: "\<And>k. st db' k = Some Closed \<Longrightarrow> st db k \<noteq> Some Closed \<Longrightarrow> False"
  shows "st db' e = Some Closed \<longleftrightarrow> st db e = Some Closed"
proof
  assume "st db e = Some Closed"
  then obtain s' where "st db' e = Some s'" "episode_edge Closed s'" by (rule study_step_edge [OF step])
  then show "st db' e = Some Closed" by (auto elim: edge_ClosedE)
qed (use no in blast)

lemma forum_lifecycle_kept:
  assumes step: "study_step h c db db'" and rows: "rows_ok h db"
    and ok: "all_rows (\<lambda>_ f. fo_state f = (if st db (fo_episode f) = Some Closed then ForumClosed else ForumOpen)) (forums db)"
  shows "all_rows (\<lambda>_ f. fo_state f = (if st db' (fo_episode f) = Some Closed then ForumClosed else ForumOpen)) (forums db')"
proof (cases "\<exists>k. st db' k = Some Closed \<and> st db k \<noteq> Some Closed")
  case True
  then obtain k where k: "st db' k = Some Closed" "st db k \<noteq> Some Closed" by blast
  have db': "db' = set_episode_state c k Closed (db\<lparr>forums := update_where (\<lambda>_ f. fo_episode f = k)
        (\<lambda>f. f\<lparr>fo_state := ForumClosed, fo_last := c\<rparr>) (forums db)\<rparr>)" and st0: "st db k \<noteq> None"
    by (rule new_closed [OF step k], simp, rule new_closed [OF step k], simp add: st_def)
  show ?thesis
    using ok st0 by (auto simp: db' all_rows_def select_pk_update_where split: option.splits if_splits)
next
  case False
  have same: "st db' (fo_episode f) = Some Closed \<longleftrightarrow> st db (fo_episode f) = Some Closed"
    if "select_pk (forums db) j = Some f" for j f
    by (rule closed_iff [OF step]) (use False rows_okD(5) [OF rows that] in \<open>auto simp: st_def row_exists_def\<close>)
  then have kept: ?thesis if "forums db' = forums db"
    using ok that by (simp add: all_rows_def)
  from step show ?thesis
  proof (cases rule: study_step.cases)
    case (forum k r t er)
    then show ?thesis using ok by (auto simp: all_rows_adds [OF forum(2)] st_def)
  next
    case (close k er mr pr)
    have "st db' k = Some Closed" "st db k \<noteq> Some Closed" using close by (auto simp: st_def in_force_def set_episode_state_def select_pk_update_pk)
    then show ?thesis using False by blast
  next
    case (publish ob r er x xr oc ocr m k db1)
    then show ?thesis using kept message_posted_same(4) [OF publish(16)] by simp
  next
    case (release p pa body ta db1 tb)
    then show ?thesis using kept by (simp add: arm_released_same [OF release(3)] arm_released_same [OF release(4)])
  qed (rule kept; simp)+
qed

lemma study_step_outcome:
  assumes step: "study_step h c db db'" and s: "structure_ok h db" and ok: "outcome_ok db"
  shows "outcome_ok db'"
  unfolding outcome_ok_def
proof (intro conjI allI impI)
  note wf = structureD(1) [OF s] and rows = structureD(3) [OF s]
  have O: "\<And>e s. st db e = Some s \<Longrightarrow> row_exists (reveals db) e \<Longrightarrow> released s \<and> settled db e"
      "\<And>e. st db e = Some Closed \<Longrightarrow> closed_ok db e"
      "all_rows (\<lambda>_ mr. 1 \<le> mr_slots mr \<and> mr_slots mr \<le> 64) (measurements db)"
      "all_rows (\<lambda>_ f. fo_state f = (if st db (fo_episode f) = Some Closed then ForumClosed else ForumOpen)) (forums db)"
    using ok unfolding outcome_ok_def by blast+
  fix e s' assume s': "st db' e = Some s'" and rv: "row_exists (reveals db') e"
  have both: "released s' \<and> settled db' e"
  proof (cases "row_exists (reveals db) e")
    case True
    then obtain s0 where s0: "st db e = Some s0"
      using rows_okD(16) [OF rows, of e] by (auto simp: row_exists_def reveal_ok_def st_def)
    note r = O(1) [OF s0 True]
    obtain s1 where "st db' e = Some s1" "episode_edge s0 s1" by (rule study_step_edge [OF step s0])
    then show ?thesis using released_edge r s' settled_kept [OF step wf s0] by auto
  next
    case False
    note n = new_reveal [OF step wf False rv]
    obtain s0 where "st db e = Some s0" "in_force s0" using n(1) by blast
    then show ?thesis using s' n(2) st_cong [OF n(3)] by (auto simp: released_def in_force_def)
  qed
  show "released s'" "settled db' e" using both by auto
next
  note wf = structureD(1) [OF s]
  fix e assume e: "st db' e = Some Closed"
  show "closed_ok db' e"
  proof (cases "st db e = Some Closed")
    case True
    then show ?thesis using closed_kept [OF step wf True] ok by (simp add: outcome_ok_def)
  next
    case False
    obtain er mr pr where o: "select_pk (episodes db) e = Some er"
        "select_pk (measurements db) (ep_measurement er) = Some mr" "live_obligations db e = 0"
        "result_count db e = mr_slots mr" "select_pk (protocols db) (ep_protocol er) = Some pr"
        "charged db e \<le> pr_budget pr"
        "db' = set_episode_state c e Closed (db\<lparr>forums := update_where (\<lambda>_ f. fo_episode f = e)
            (\<lambda>f. f\<lparr>fo_state := ForumClosed, fo_last := c\<rparr>) (forums db)\<rparr>)"
      by (rule new_closed [OF step e False])
    have "settled db' e" using live_none [OF wf o(3)] by (auto simp: settled_def o(7))
    moreover have "result_count db' e = result_count db e" "charged db' e = charged db e"
      by (simp_all add: o(7) result_count_def charged_def)
    moreover obtain er' where "select_pk (episodes db') e = Some er'" "ep_protocol er' = ep_protocol er"
        "ep_measurement er' = ep_measurement er"
      using o(1) by (auto simp: o(7) set_episode_state_def select_pk_update_pk)
    ultimately show ?thesis
      using o unfolding closed_ok_def by (auto simp: o(7))
  qed
next
  have m: "all_rows (\<lambda>_ mr. 1 \<le> mr_slots mr \<and> mr_slots mr \<le> 64) (measurements db)"
    using ok by (simp add: outcome_ok_def)
  from step show "all_rows (\<lambda>_ mr. 1 \<le> mr_slots mr \<and> mr_slots mr \<le> 64) (measurements db')"
  proof (cases rule: study_step.cases)
    case (measurement k r t)
    then show ?thesis using m by (simp add: all_rows_adds [OF measurement(2)])
  next
    case (publish ob r er x xr oc ocr mm k db1)
    then show ?thesis using m message_posted_same(11) [OF publish(16)] by simp
  next
    case (release p pa body ta db1 tb)
    then show ?thesis using m by (simp add: arm_released_same [OF release(3)] arm_released_same [OF release(4)])
  qed (use m in simp_all)
next
  show "all_rows (\<lambda>_ f. fo_state f = (if st db' (fo_episode f) = Some Closed then ForumClosed else ForumOpen)) (forums db')"
    using forum_lifecycle_kept [OF step structureD(3) [OF s]] ok by (simp add: outcome_ok_def)
qed

interpretation outcome: study_invariant h "structure_ok h" outcome_ok for h
proof unfold_locales
  show "outcome_ok db'" if "structure_ok h db" "outcome_ok db" "study_step h c db db'" for c db db'
    using study_step_outcome that by blast
  show "outcome_ok (rollback db db')" if "outcome_ok db" for db db'
    using that by (simp add: outcome_ok_def closed_ok_def settled_def charged_def result_count_def st_def)
  show "outcome_ok (db\<lparr>env := x\<rparr>)" if "outcome_ok db" for db x
    using that by (simp add: outcome_ok_def closed_ok_def settled_def charged_def result_count_def st_def)
qed (simp_all add: structure_reachable, simp add: outcome_ok_def empty_study_db_def st_def)

section \<open>The outcome vector of a closed episode\<close>

lemma count_where_card:
  assumes "wf_table t"
  shows "count_where p t = int (card {k. \<exists>r. select_pk t k = Some r \<and> p k r})"
proof -
  let ?f = "filter (\<lambda>(k, r). p k r) (tb_rows t)"
  have "distinct (map fst ?f)" using assms by (simp add: wf_table_def distinct_map_filter)
  then have "length ?f = card (set (map fst ?f))" using distinct_card by fastforce
  also have "set (map fst ?f) = {k. \<exists>r. select_pk t k = Some r \<and> p k r}"
    using in_set_rows_select [OF assms] by force
  finally show ?thesis by (simp add: count_where_def)
qed

lemma closed_slots:
  assumes s: "structure_ok h db" and ok: "outcome_ok db" and e: "st db e = Some Closed"
    and er: "select_pk (episodes db) e = Some er" "select_pk (measurements db) (ep_measurement er) = Some mr"
    and n: "1 \<le> n" "n \<le> mr_slots mr"
  obtains k r where "select_pk (results db) k = Some r" "me_episode r = e" "me_slot r = n"
proof -
  note rows = structureD(3) [OF s]
  have wf: "wf_table (results db)" using structureD(1) [OF s] by (simp add: tables_wf_def)
  have u: "unique_on (\<lambda>r. (me_episode r, me_slot r)) (results db)"
    using structureD(2) [OF s] by (simp add: uniques_def)
  let ?K = "{k. \<exists>r. select_pk (results db) k = Some r \<and> me_episode r = e}"
  let ?slot = "\<lambda>k. me_slot (the (select_pk (results db) k))"
  have "closed_ok db e" using ok e by (simp add: outcome_ok_def)
  then have "int (card ?K) = mr_slots mr"
    using er by (auto simp: closed_ok_def result_count_def count_where_card [OF wf])
  then have card: "card ?K = card {1..mr_slots mr}" using n by simp
  have inj: "inj_on ?slot ?K"
    using unique_onD [OF u] by (fastforce simp: inj_on_def)
  have "?slot ` ?K \<subseteq> {1..mr_slots mr}"
    using rows_okD(17) [OF rows] er by (fastforce simp: result_ok_def)
  then have "?slot ` ?K = {1..mr_slots mr}"
    using card_image [OF inj] card by (intro card_subset_eq) auto
  then have "n \<in> ?slot ` ?K" using n by simp
  then show thesis using that by auto
qed

end
