(* ===== verification/Ledger_Laws.thy ===== *)
theory Ledger_Laws
  imports Ledger Study_Outcome
begin

text \<open>
  What the ledger guarantees for every family of command bodies whose stored form decodes again: the
  stored rows always verify, events are numbered without gaps and linked one to one with the accepted
  commands, nothing is ever rewritten, and a request that has been answered once is answered with the
  same receipt from then on.  The locale \<open>ledgered\<close> states what a family promises.
\<close>

section \<open>Steps of the ledger\<close>

lemma adds_update:
  assumes "adds t k r t'"
  shows "adds t k (f r) (update_pk k f t')"
proof -
  have "i \<noteq> k" if "(i, q) \<in> set (tb_rows t)" for i q
    using assms that by (auto simp: adds_def select_pk_def map_of_eq_None_iff image_iff)
  then have "map (\<lambda>(i, q). (i, if i = k then f q else q)) (tb_rows t) = tb_rows t"
    by (intro map_idI) auto
  then show ?thesis
    using assms by (simp add: adds_def update_pk_def update_where_def)
qed

definition accepted_row ::
  "(byte list \<Rightarrow> digest) \<Rightarrow> ('b, 'e, 's) command_family \<Rightarrow> 'b command_request \<Rightarrow> int \<Rightarrow> command_row" where
  "accepted_row h fam rq k = (placeholder_row h fam rq)\<lparr>cm_status := 1, cm_rejection := None, cm_event := Some k\<rparr>"

definition rejected_row ::
  "(byte list \<Rightarrow> digest) \<Rightarrow> ('b, 'e, 's) command_family \<Rightarrow> 'b command_request \<Rightarrow> rejection \<Rightarrow> command_row" where
  "rejected_row h fam rq x = (placeholder_row h fam rq)\<lparr>cm_rejection := Some (rejection_as_i64 x)\<rparr>"

definition new_event_row ::
  "(byte list \<Rightarrow> digest) \<Rightarrow> ('b, 'e, 's) command_family \<Rightarrow> 's kernel_db \<Rightarrow> int \<Rightarrow> byte list \<Rightarrow> 'e \<Rightarrow> event_row" where
  "new_event_row h fam db c command_id ev =
     \<lparr>ev_command = c, ev_kind = cf_event_kind fam ev,
      ev_sequence = max_column (\<lambda>_ r. ev_sequence r) (events db) + 1,
      ev_fingerprint = event_fingerprint h fam (max_column (\<lambda>i _. i) (events db) + 1) command_id ev\<rparr>"

text \<open>A new request that is answered: it is stored and rejected, or stored and accepted with one event.\<close>

inductive ledger_step ::
  "(byte list \<Rightarrow> digest) \<Rightarrow> ('b, 'e, 's) command_family \<Rightarrow> 'b command_request \<Rightarrow> 's kernel_db
   \<Rightarrow> disposition \<Rightarrow> 's kernel_db \<Rightarrow> bool" for h fam rq db where
  rejected: "\<lbrakk>\<not> exists_where (\<lambda>_ r. cm_id r = rq_id rq) (commands db); 0 < c;
      adds (commands db) c (rejected_row h fam rq x) t; row_checks (placeholder_row h fam rq);
      cf_insert_body fam (material db) (rq_body rq) = Some body; adds (command_bodies db) c body u;
      s = material db \<or> cf_apply fam c (rq_body rq) (material db) = (Inl x, s)\<rbrakk>
    \<Longrightarrow> ledger_step h fam rq db (Rejected x)
          (db\<lparr>commands := t, command_bodies := u, material := cf_rollback fam (material db) s\<rparr>)"
| accepted: "\<lbrakk>\<not> exists_where (\<lambda>_ r. cm_id r = rq_id rq) (commands db); 0 < c;
      adds (commands db) c (accepted_row h fam rq k) t; row_checks (placeholder_row h fam rq);
      cf_insert_body fam (material db) (rq_body rq) = Some body; adds (command_bodies db) c body u;
      authorize fam rq db = Inr (Inr ()); cf_apply fam c (rq_body rq) (material db) = (Inr ev, s);
      k = max_column (\<lambda>i _. i) (events db) + 1; 0 < k;
      adds (events db) k (new_event_row h fam db c (rq_id rq) ev) v;
      cf_insert_event fam s ev = Some eb; adds (event_bodies db) k eb w\<rbrakk>
    \<Longrightarrow> ledger_step h fam rq db (Accepted k)
          (db\<lparr>commands := t, command_bodies := u, events := v, event_bodies := w,
             authorities := consume_grant c rq (authorities db), material := s\<rparr>)"

lemma authorize_cong:
  assumes "authorities db' = authorities db" "material db' = material db"
  shows "authorize fam rq db' = authorize fam rq db"
  by (simp only: authorize_def assms)

lemma insert_event_Inr:
  assumes "insert_event h fam c i ev db = (Inr k, db')"
  obtains v eb w where "k = max_column (\<lambda>i _. i) (events db) + 1" "0 < k"
    "adds (events db) k (new_event_row h fam db c i ev) v"
    "cf_insert_event fam (material db) ev = Some eb" "adds (event_bodies db) k eb w"
    "db' = db\<lparr>events := v, event_bodies := w\<rparr>"
  using assms
  by (auto simp: insert_event_def Let_def new_event_row_def split: if_splits option.splits dest!: insert_key_adds)

lemma execute_new_step:
  assumes new: "\<not> exists_where (\<lambda>_ r. cm_id r = rq_id rq) (commands db)"
    and ex: "execute_new h fam rq db = (Inr rc, db')"
  shows "ledger_step h fam rq db (rc_disposition rc) db' \<and> \<not> rc_idempotent rc"
proof -
  obtain c t body u where
    ins: "insert_identity (row_checks (placeholder_row h fam rq)) (placeholder_row h fam rq) (commands db) = (Some c, t)"
    and body: "cf_insert_body fam (material db) (rq_body rq) = Some body"
    and u: "insert_key True c body (command_bodies db) = Some u"
    using ex by (auto simp: execute_new_def bind_eq_Some_conv split: option.splits prod.splits)
  let ?db1 = "db\<lparr>commands := t, command_bodies := u\<rparr>"
  obtain r au s where ap: "apply_command fam c rq ?db1 = (r, au, s)" by (metis prod.exhaust)
  have c: "0 < c" "row_checks (placeholder_row h fam rq)" "adds (commands db) c (placeholder_row h fam rq) t"
    using ins by (auto simp: insert_identity_def adds_def Let_def split: if_splits)
  have bu: "adds (command_bodies db) c body u" using u by (auto dest: insert_key_adds)
  have auth: "authorize fam rq ?db1 = authorize fam rq db" by (rule authorize_cong) simp_all
  show ?thesis
  proof (cases r)
    case (Inl e)
    then show ?thesis using ex ins body u ap by (simp add: execute_new_def)
  next
    case (Inr q)
    show ?thesis
    proof (cases q)
      case (Inl x)
      have db': "db' = db\<lparr>commands := update_pk c (\<lambda>r. r\<lparr>cm_rejection := Some (rejection_as_i64 x)\<rparr>) t,
            command_bodies := u, material := cf_rollback fam (material db) s\<rparr>"
        and rc: "rc = \<lparr>rc_disposition = Rejected x, rc_idempotent = False\<rparr>"
        using ex ins body u ap Inr Inl by (auto simp: execute_new_def Let_def)
      have "s = material db \<or> cf_apply fam c (rq_body rq) (material db) = (Inl x, s)"
        using ap Inr Inl by (auto simp: apply_command_def split: sum.splits prod.splits)
      then have "ledger_step h fam rq db (Rejected x) db'"
        unfolding db' using adds_update [OF c(3), of "\<lambda>r. r\<lparr>cm_rejection := Some (rejection_as_i64 x)\<rparr>"]
        by (intro ledger_step.rejected [OF new c(1) _ c(2) body bu]) (simp_all add: rejected_row_def)
      then show ?thesis by (simp add: rc)
    next
      case ok: (Inr ev)
      have ap': "authorize fam rq db = Inr (Inr ())" "cf_apply fam c (rq_body rq) (material db) = (Inr ev, s)"
        and au: "au = consume_grant c rq (authorities db)"
        using ap Inr ok auth by (auto simp: apply_command_def split: sum.splits prod.splits)
      obtain z db2 where z: "insert_event h fam c (rq_id rq) ev (?db1\<lparr>authorities := au, material := s\<rparr>) = (z, db2)" by fastforce
      then obtain k where k: "z = Inr k" using ex ins body u ap Inr ok by (cases z) (auto simp: execute_new_def Let_def)
      obtain v eb w where e: "k = max_column (\<lambda>i _. i) (events db) + 1" "0 < k"
          "adds (events db) k (new_event_row h fam db c (rq_id rq) ev) v"
          "cf_insert_event fam s ev = Some eb" "adds (event_bodies db) k eb w"
          "db2 = ?db1\<lparr>authorities := au, material := s, events := v, event_bodies := w\<rparr>"
        by (rule insert_event_Inr [OF z [unfolded k]]) (simp add: new_event_row_def)
      have db': "db' = db\<lparr>commands := update_pk c (\<lambda>r. r\<lparr>cm_status := 1, cm_rejection := None, cm_event := Some k\<rparr>) t,
            command_bodies := u, events := v, event_bodies := w, authorities := au, material := s\<rparr>"
        and rc: "rc = \<lparr>rc_disposition = Accepted k, rc_idempotent = False\<rparr>"
        using ex ins body u ap Inr ok z k e(6) by (auto simp: execute_new_def Let_def)
      have "ledger_step h fam rq db (Accepted k) db'"
        unfolding db' au
        using adds_update [OF c(3), of "\<lambda>r. r\<lparr>cm_status := 1, cm_rejection := None, cm_event := Some k\<rparr>"]
        by (intro ledger_step.accepted [OF new c(1) _ c(2) body bu ap' e(1-5)]) (simp_all add: accepted_row_def)
      then show ?thesis by (simp add: rc)
    qed
  qed
qed

section \<open>The ledger invariant\<close>

text \<open>A command row and its body are the request they commit to, and the row states how it ended.\<close>

definition command_ok ::
  "(byte list \<Rightarrow> digest) \<Rightarrow> ('b, 'e, 's) command_family \<Rightarrow> 's kernel_db \<Rightarrow> int \<Rightarrow> command_row \<Rightarrow> bool" where
  "command_ok h fam db c r \<longleftrightarrow>
     (\<exists>body rq. select_pk (command_bodies db) c = Some body \<and> stored_request fam r body = Some rq
        \<and> cf_kind fam (rq_body rq) = cm_kind r \<and> cm_fingerprint r = request_fingerprint h fam rq)
   \<and> ((cm_status r = 1 \<and> (\<exists>k e. cm_event r = Some k \<and> select_pk (events db) k = Some e \<and> ev_command e = c))
      \<or> (cm_status r = 2 \<and> cm_event r = None \<and> (\<exists>x. cm_rejection r = Some (rejection_as_i64 x))))"

definition event_ok :: "'s kernel_db \<Rightarrow> int \<Rightarrow> event_row \<Rightarrow> bool" where
  "event_ok db k e \<longleftrightarrow> ev_sequence e = k
     \<and> (\<exists>r. select_pk (commands db) (ev_command e) = Some r \<and> cm_status r = 1 \<and> cm_event r = Some k)"

text \<open>Events are numbered from one without gaps, in the order they were appended.\<close>

definition numbered :: "(int, 'r) table \<Rightarrow> bool" where
  "numbered t \<longleftrightarrow> map fst (tb_rows t) = [1..int (length (tb_rows t))]"

definition ledger_ok ::
  "(byte list \<Rightarrow> digest) \<Rightarrow> ('b, 'e, 's) command_family \<Rightarrow> 's kernel_db \<Rightarrow> bool" where
  "ledger_ok h fam db \<longleftrightarrow> wf_table (commands db) \<and> unique_on cm_id (commands db)
     \<and> all_rows (command_ok h fam db) (commands db) \<and> all_rows (event_ok db) (events db)
     \<and> numbered (events db)"

lemma ledger_okD:
  assumes "ledger_ok h fam db"
  shows "wf_table (commands db)" "unique_on cm_id (commands db)"
    "select_pk (commands db) c = Some r \<Longrightarrow> command_ok h fam db c r"
    "select_pk (events db) k = Some e \<Longrightarrow> event_ok db k e" "numbered (events db)"
  using assms by (auto simp: ledger_ok_def dest: all_rowsD)

lemma numbered_wf: "numbered t \<Longrightarrow> wf_table t"
  by (simp add: numbered_def wf_table_def)

lemma upto_snoc: "0 \<le> n \<Longrightarrow> [1..n] @ [n + 1] = [1..n + 1]" for n :: int
  by (simp add: upto_rec2)

lemma numbered_adds: "numbered t \<Longrightarrow> adds t (int (length (tb_rows t)) + 1) r t' \<Longrightarrow> numbered t'"
  using upto_snoc [of "int (length (tb_rows t))"] by (simp add: numbered_def adds_def add.commute)

lemma all_rows_addsI:
  "adds t k r t' \<Longrightarrow> P k r \<Longrightarrow> (\<And>j q. select_pk t j = Some q \<Longrightarrow> P j q) \<Longrightarrow> all_rows P t'"
  by (simp add: all_rows_adds all_rows_def [of P t])

lemma max_column_numbered:
  assumes n: "numbered t" and f: "\<And>k r. (k, r) \<in> set (tb_rows t) \<Longrightarrow> f k r = k"
  shows "max_column f t = int (length (tb_rows t))"
proof (cases "tb_rows t = []")
  case False
  have "map (\<lambda>(k, r). f k r) (tb_rows t) = map fst (tb_rows t)"
    using f by (intro map_cong) auto
  then have "set (map (\<lambda>(k, r). f k r) (tb_rows t)) = {1..int (length (tb_rows t))}"
    using n unfolding numbered_def by (metis set_upto)
  moreover have "Max {1..int (length (tb_rows t))} = int (length (tb_rows t))"
    using False by (intro Max_eqI) (auto simp: Suc_le_eq)
  ultimately show ?thesis using False by (simp add: max_column_def)
qed (simp add: max_column_def)

lemma ledger_max:
  assumes "ledger_ok h fam db"
  shows "max_column (\<lambda>i _. i) (events db) = int (length (tb_rows (events db)))"
    and "max_column (\<lambda>_ r. ev_sequence r) (events db) = int (length (tb_rows (events db)))"
proof -
  note n = ledger_okD(5) [OF assms]
  show "max_column (\<lambda>i _. i) (events db) = int (length (tb_rows (events db)))"
    by (rule max_column_numbered [OF n]) simp
  show "max_column (\<lambda>_ r. ev_sequence r) (events db) = int (length (tb_rows (events db)))"
    using ledger_okD(4) [OF assms] numbered_wf [OF n]
    by (intro max_column_numbered [OF n]) (auto simp: in_set_rows_select event_ok_def)
qed

section \<open>What a family promises\<close>

definition request_ok :: "('b \<Rightarrow> bool) \<Rightarrow> 'b command_request \<Rightarrow> bool" where
  "request_ok ok rq \<longleftrightarrow> command_id_ok (rq_id rq) \<and> identifier_ok (rq_principal rq) \<and> identifier_ok (rq_grant rq)
     \<and> capability_ok (rq_capability rq) \<and> optional_ok generation_ok (rq_generation rq) \<and> ok (rq_body rq)"

text \<open>Further requests, one after the other.\<close>

fun execute_all ::
  "(byte list \<Rightarrow> digest) \<Rightarrow> ('b, 'e, 's) command_family \<Rightarrow> 'b command_request list \<Rightarrow> 's kernel_db \<Rightarrow> 's kernel_db" where
  "execute_all h fam [] db = db"
| "execute_all h fam (rq # rqs) db = execute_all h fam rqs (snd (execute h fam rq db))"

text \<open>An error leaves the material tables as they were or as the transition left them.\<close>

lemma insert_event_material: "material (snd (insert_event h fam c i ev db)) = material db"
  by (simp add: insert_event_def Let_def split: option.splits)

lemma execute_new_error:
  assumes "execute_new h fam rq db = (Inl e, db')"
  shows "material db' = material db \<or> (\<exists>c r. cf_apply fam c (rq_body rq) (material db) = (r, material db'))"
proof -
  have *: "material db2 = material d" if "insert_event h fam c i ev d = (r, db2)" for c i ev r and d db2 :: "'a kernel_db"
    using insert_event_material [of h fam c i ev d] that by simp
  show ?thesis
    using assms
    by (auto simp: execute_new_def apply_command_def Let_def split: prod.splits option.splits sum.splits dest!: *)
qed

locale ledgered =
  fixes h :: "byte list \<Rightarrow> digest" and fam :: "('b, 'e, 's) command_family"
    and ok :: "'b \<Rightarrow> bool" and inv :: "'s \<Rightarrow> bool"
  assumes stored_body: "ok b \<Longrightarrow> cf_insert_body fam s b = Some row \<Longrightarrow> cf_decode_body fam (cf_kind fam b) row = Some b"
    and rollback_same: "cf_rollback fam s s = s"
    and accepted_inv: "inv s \<Longrightarrow> ok b \<Longrightarrow> cf_apply fam c b s = (Inr ev, s') \<Longrightarrow> inv s'"
    and rollback_inv: "inv s \<Longrightarrow> ok b \<Longrightarrow> cf_apply fam c b s = (r, s') \<Longrightarrow> inv (cf_rollback fam s s')"
begin

lemma stored_request_row:
  assumes "request_ok ok rq" "cf_insert_body fam s (rq_body rq) = Some body"
    and "cm_id r = rq_id rq" "cm_principal r = rq_principal rq" "cm_grant r = rq_grant rq"
      "cm_capability r = rq_capability rq" "cm_generation r = rq_generation rq"
      "cm_kind r = cf_kind fam (rq_body rq)"
  shows "stored_request fam r body = Some rq"
proof -
  have "optional_ok (\<lambda>g. 0 \<le> g) (rq_generation rq)"
    using assms(1) by (auto simp: request_ok_def optional_ok_def generation_ok_def split: option.splits)
  then show ?thesis
    using assms stored_body [of "rq_body rq" s body]
    by (simp add: stored_request_def request_ok_def identifier_ok_def)
qed

lemma step_command_ok:
  assumes rq: "request_ok ok rq" and body: "cf_insert_body fam s (rq_body rq) = Some body"
    and u: "adds (command_bodies db) c body (command_bodies db')"
    and r: "r = rejected_row h fam rq x \<or>
      (r = accepted_row h fam rq k \<and> (\<exists>e. select_pk (events db') k = Some e \<and> ev_command e = c))"
  shows "command_ok h fam db' c r"
  using r stored_request_row [OF rq body, of r]
  by (auto simp: command_ok_def adds_select [OF u] accepted_row_def rejected_row_def placeholder_row_def)

lemma step_ok:
  assumes step: "ledger_step h fam rq db d db'" and rq: "request_ok ok rq" and led: "ledger_ok h fam db"
  shows "ledger_ok h fam db'"
  using step
proof (cases rule: ledger_step.cases)
  case (rejected c x t body u s)
  have "command_ok h fam db' c (rejected_row h fam rq x)"
    by (rule step_command_ok [OF rq rejected(7), of db c]) (use rejected in auto)
  moreover have "command_ok h fam db' j r" if "select_pk (commands db) j = Some r" for j r
    using ledger_okD(3) [OF led that] adds_fresh [OF rejected(8)]
    by (auto simp: command_ok_def rejected(2) adds_select [OF rejected(8)])
  ultimately have "all_rows (command_ok h fam db') (commands db')"
    using all_rows_addsI [OF rejected(5), of "command_ok h fam db'"] by (simp add: rejected(2))
  moreover have "all_rows (event_ok db') (events db')"
    using ledger_okD(4) [OF led] adds_fresh [OF rejected(5)]
    by (fastforce simp: all_rows_def event_ok_def rejected(2) adds_select [OF rejected(5)])
  moreover have "unique_on cm_id (commands db')"
    using unique_on_adds [OF rejected(5) ledger_okD(2) [OF led]] rejected(3)
    by (simp add: rejected(2) rejected_row_def placeholder_row_def)
  ultimately show ?thesis
    using ledger_okD(1,5) [OF led] by (simp add: ledger_ok_def rejected(2) adds_wf [OF rejected(5)])
next
  case (accepted c k t body u ev s v eb w)
  let ?e = "new_event_row h fam db c (rq_id rq) ev"
  have "command_ok h fam db' c (accepted_row h fam rq k)"
    by (rule step_command_ok [OF rq accepted(7), of db c])
      (use accepted in \<open>auto simp: adds_select [OF accepted(13)] new_event_row_def\<close>)
  moreover have "command_ok h fam db' j r" if "select_pk (commands db) j = Some r" for j r
    using ledger_okD(3) [OF led that] adds_fresh [OF accepted(8)] adds_fresh [OF accepted(13)]
    by (auto simp: command_ok_def accepted(2) adds_select [OF accepted(8)] adds_select [OF accepted(13)])
  ultimately have "all_rows (command_ok h fam db') (commands db')"
    using all_rows_addsI [OF accepted(5), of "command_ok h fam db'"] by (simp add: accepted(2))
  moreover have new: "event_ok db' k ?e"
    using accepted(11) ledger_max [OF led]
    by (simp add: event_ok_def new_event_row_def accepted(2) adds_select [OF accepted(5)] accepted_row_def)
  moreover have "event_ok db' j e" if "select_pk (events db) j = Some e" for j e
    using ledger_okD(4) [OF led that] adds_fresh [OF accepted(5)]
    by (auto simp: event_ok_def accepted(2) adds_select [OF accepted(5)])
  ultimately have "all_rows (command_ok h fam db') (commands db')" "all_rows (event_ok db') (events db')"
    using all_rows_addsI [OF accepted(13), of "event_ok db'"] by (simp_all add: accepted(2))
  moreover have "unique_on cm_id (commands db')"
    using unique_on_adds [OF accepted(5) ledger_okD(2) [OF led]] accepted(3)
    by (simp add: accepted(2) accepted_row_def placeholder_row_def)
  moreover have "numbered (events db')"
    using numbered_adds [OF ledger_okD(5) [OF led]] accepted(11,13) ledger_max(1) [OF led] by (simp add: accepted(2))
  ultimately show ?thesis
    using ledger_okD(1) [OF led]
    by (simp add: ledger_ok_def accepted(2) adds_wf [OF accepted(5)])
qed

section \<open>Nothing is rewritten\<close>

lemma step_keeps:
  assumes "ledger_step h fam rq db d db'"
  shows "keeps (commands db) (commands db')" "keeps (command_bodies db) (command_bodies db')"
    "keeps (events db) (events db')" "keeps (event_bodies db) (event_bodies db')"
  using assms by (auto elim!: ledger_step.cases intro: adds_keeps)

text \<open>The row a new request leaves behind answers every later copy of it.\<close>

lemma step_recorded:
  assumes "ledger_step h fam rq db d db'"
  shows "\<exists>c r. select_pk (commands db') c = Some r \<and> cm_id r = rq_id rq
     \<and> cm_fingerprint r = request_fingerprint h fam rq
     \<and> stored_receipt r = Inr \<lparr>rc_disposition = d, rc_idempotent = True\<rparr>"
  using assms
proof (cases rule: ledger_step.cases)
  case (rejected c x t body u s)
  then show ?thesis
    by (intro exI [of _ c] exI [of _ "rejected_row h fam rq x"])
      (simp add: adds_select [OF rejected(5)] rejected_row_def placeholder_row_def stored_receipt_def
        rejection_try_from_as_i64)
next
  case (accepted c k t body u ev s v eb w)
  then show ?thesis
    by (intro exI [of _ c] exI [of _ "accepted_row h fam rq k"])
      (simp add: adds_select [OF accepted(5)] accepted_row_def placeholder_row_def stored_receipt_def)
qed

section \<open>Executing requests\<close>

lemma select_id:
  assumes "ledger_ok h fam db" "select_pk (commands db) c = Some r"
  shows "select_where (\<lambda>_ q. cm_id q = cm_id r) (commands db) = Some (c, r)"
proof -
  note wf = ledger_okD(1) [OF assms(1)] and u = ledger_okD(2) [OF assms(1)]
  have "select_where (\<lambda>_ q. cm_id q = cm_id r) (commands db) \<noteq> None"
    using assms(2) by (auto simp: select_where_None [OF wf])
  then obtain j q where "select_where (\<lambda>_ q. cm_id q = cm_id r) (commands db) = Some (j, q)" by auto
  moreover from this have "select_pk (commands db) j = Some q" "cm_id q = cm_id r"
    using select_where_Some [OF wf] by blast+
  ultimately show ?thesis using unique_onD [OF u _ assms(2), of j q] by auto
qed

lemma execute_seen:
  assumes "ledger_ok h fam db" "select_pk (commands db) c = Some r" "cm_id r = rq_id rq"
  shows "execute_in_transaction h fam rq db =
     (if cm_fingerprint r \<noteq> request_fingerprint h fam rq then Inl IdempotencyConflict else stored_receipt r, db)"
  using select_id [OF assms(1,2)] assms(3) by (simp add: execute_in_transaction_def)

lemma execute_unseen:
  assumes wf: "wf_table (commands db)" and no: "select_where (\<lambda>_ r. cm_id r = rq_id rq) (commands db) = None"
    and ex: "execute h fam rq db = (Inr rc, db')"
  shows "ledger_step h fam rq db (rc_disposition rc) db' \<and> \<not> rc_idempotent rc"
proof -
  have "\<not> exists_where (\<lambda>_ r. cm_id r = rq_id rq) (commands db)"
    using no by (simp add: select_where_None [OF wf] exists_where_iff [OF wf])
  moreover have "execute_new h fam rq db = (Inr rc, db')"
    using ex no by (auto simp: execute_def execute_in_transaction_def split: prod.splits sum.splits)
  ultimately show ?thesis by (rule execute_new_step)
qed

text \<open>An answered request either changed nothing, or is a step of the ledger.\<close>

lemma execute_Inr:
  assumes led: "ledger_ok h fam db" and ex: "execute h fam rq db = (Inr rc, db')"
  obtains (replayed) "db' = db" "rc_idempotent rc" | (stepped) "ledger_step h fam rq db (rc_disposition rc) db'" "\<not> rc_idempotent rc"
proof (cases "select_where (\<lambda>_ r. cm_id r = rq_id rq) (commands db)")
  case None
  then show thesis using execute_unseen [OF ledger_okD(1) [OF led] None ex] that by blast
next
  case (Some p)
  then show thesis
    using ex that(1)
    by (auto simp: execute_def execute_in_transaction_def stored_receipt_def
        split: prod.splits sum.splits if_splits option.splits)
qed

text \<open>After an answer the ledger holds the row that repeats it.\<close>

lemma execute_recorded:
  assumes led: "ledger_ok h fam db" and ex: "execute h fam rq db = (Inr rc, db')"
  shows "\<exists>c r. select_pk (commands db') c = Some r \<and> cm_id r = rq_id rq
     \<and> cm_fingerprint r = request_fingerprint h fam rq
     \<and> stored_receipt r = Inr (rc\<lparr>rc_idempotent := True\<rparr>)"
proof (cases "select_where (\<lambda>_ r. cm_id r = rq_id rq) (commands db)")
  case None
  then show ?thesis
    using step_recorded [of rq db "rc_disposition rc" db'] execute_unseen [OF ledger_okD(1) [OF led] None ex]
    by (cases rc) simp
next
  case (Some p)
  obtain c r where p: "p = (c, r)" by fastforce
  have r: "select_pk (commands db) c = Some r" "cm_id r = rq_id rq"
    using select_where_Some [OF ledger_okD(1) [OF led]] Some p by auto
  have sr: "cm_fingerprint r = request_fingerprint h fam rq" "stored_receipt r = Inr rc" "db' = db"
    using ex by (auto simp: execute_def execute_seen [OF led r] split: if_splits sum.splits)
  then have "rc\<lparr>rc_idempotent := True\<rparr> = rc"
    by (auto simp: stored_receipt_def split: if_splits option.splits)
  then show ?thesis using r sr by auto
qed

lemma abort_ok:
  assumes "ledger_ok h fam db"
  shows "ledger_ok h fam (abort_transaction fam db db')"
proof -
  have "command_ok h fam (abort_transaction fam db db') c r = command_ok h fam db c r" for c r
    by (simp add: command_ok_def abort_transaction_def)
  moreover have "event_ok (abort_transaction fam db db') k e = event_ok db k e" for k e
    by (simp add: event_ok_def abort_transaction_def)
  ultimately show ?thesis
    using assms by (simp add: ledger_ok_def all_rows_def numbered_def, simp add: abort_transaction_def)
qed

lemma execute_ok:
  assumes led: "ledger_ok h fam db" and rq: "request_ok ok rq"
  shows "ledger_ok h fam (snd (execute h fam rq db))"
proof (cases "fst (execute h fam rq db)")
  case (Inl e)
  then show ?thesis using abort_ok [OF led] by (auto simp: execute_def split: prod.splits sum.splits)
next
  case (Inr rc)
  then have "execute h fam rq db = (Inr rc, snd (execute h fam rq db))" by (simp add: prod_eq_iff)
  then show ?thesis by (cases rule: execute_Inr [OF led]) (use step_ok rq led in auto)
qed

lemma execute_keeps:
  assumes led: "ledger_ok h fam db"
  shows "keeps (commands db) (commands (snd (execute h fam rq db)))"
    "keeps (events db) (events (snd (execute h fam rq db)))"
    "keeps (command_bodies db) (command_bodies (snd (execute h fam rq db)))"
proof -
  have "keeps (commands db) (commands db') \<and> keeps (events db) (events db') \<and> keeps (command_bodies db) (command_bodies db')"
    if ex: "execute h fam rq db = (r, db')" for r db'
  proof (cases r)
    case (Inl e)
    then show ?thesis using ex by (auto simp: execute_def abort_transaction_def split: prod.splits sum.splits)
  next
    case (Inr rc)
    show ?thesis
      by (rule execute_Inr [OF led ex [unfolded Inr]]) (use step_keeps in auto)
  qed
  then show "keeps (commands db) (commands (snd (execute h fam rq db)))"
    "keeps (events db) (events (snd (execute h fam rq db)))"
    "keeps (command_bodies db) (command_bodies (snd (execute h fam rq db)))"
    by (metis prod.collapse)+
qed

section \<open>Exactly once\<close>

lemma abort_same: "abort_transaction fam db db = db"
  by (simp add: abort_transaction_def rollback_same rollback_table_def)

lemma execute_all_ok:
  "ledger_ok h fam db \<Longrightarrow> list_all (request_ok ok) rqs \<Longrightarrow> ledger_ok h fam (execute_all h fam rqs db)"
  by (induction rqs arbitrary: db) (simp_all add: execute_ok)

lemma execute_all_keeps:
  "ledger_ok h fam db \<Longrightarrow> list_all (request_ok ok) rqs \<Longrightarrow>
     keeps (commands db) (commands (execute_all h fam rqs db))"
proof (induction rqs arbitrary: db)
  case (Cons rq rqs)
  then have "keeps (commands (snd (execute h fam rq db))) (commands (execute_all h fam (rq # rqs) db))"
    using execute_ok by simp
  then show ?case by (rule keeps_on_trans [OF execute_keeps(1) [OF Cons.prems(1)]])
qed simp

lemma answered_row:
  assumes led: "ledger_ok h fam db" and rqs: "request_ok ok rq" "list_all (request_ok ok) rqs"
    and ex: "execute h fam rq db = (Inr rc, db1)"
  obtains c r where "ledger_ok h fam (execute_all h fam rqs db1)"
    "select_pk (commands (execute_all h fam rqs db1)) c = Some r" "cm_id r = rq_id rq"
    "cm_fingerprint r = request_fingerprint h fam rq" "stored_receipt r = Inr (rc\<lparr>rc_idempotent := True\<rparr>)"
proof -
  have led1: "ledger_ok h fam db1" using execute_ok [OF led rqs(1)] ex by simp
  obtain c r where r: "select_pk (commands db1) c = Some r" "cm_id r = rq_id rq"
      "cm_fingerprint r = request_fingerprint h fam rq" "stored_receipt r = Inr (rc\<lparr>rc_idempotent := True\<rparr>)"
    using execute_recorded [OF led ex] by blast
  have "select_pk (commands (execute_all h fam rqs db1)) c = Some r"
    using keepsD [OF execute_all_keeps [OF led1 rqs(2)] r(1)] .
  then show thesis using that execute_all_ok [OF led1 rqs(2)] r(2-4) by blast
qed

lemma exactly_once:
  assumes "ledger_ok h fam db" "request_ok ok rq" "list_all (request_ok ok) rqs" "execute h fam rq db = (Inr rc, db1)"
  shows "execute h fam rq (execute_all h fam rqs db1) = (Inr (rc\<lparr>rc_idempotent := True\<rparr>), execute_all h fam rqs db1)"
  by (rule answered_row [OF assms]) (simp add: execute_def execute_seen)

lemma changed_request:
  assumes "ledger_ok h fam db" "request_ok ok rq" "list_all (request_ok ok) rqs" "execute h fam rq db = (Inr rc, db1)"
    and "rq_id rq' = rq_id rq" "request_fingerprint h fam rq' \<noteq> request_fingerprint h fam rq"
  shows "execute h fam rq' (execute_all h fam rqs db1) = (Inl IdempotencyConflict, execute_all h fam rqs db1)"
  by (rule answered_row [OF assms(1-4)]) (use assms(5,6) in \<open>simp add: execute_def execute_seen abort_same\<close>)

section \<open>The material tables\<close>

lemma execute_inv:
  assumes led: "ledger_ok h fam db" and rq: "request_ok ok rq" and inv: "inv (material db)"
  shows "inv (material (snd (execute h fam rq db)))"
proof -
  have b: "ok (rq_body rq)" using rq by (simp add: request_ok_def)
  obtain r db' where ex: "execute h fam rq db = (r, db')" by fastforce
  show ?thesis
  proof (cases r)
    case (Inl e)
    obtain db2 where t: "execute_in_transaction h fam rq db = (Inl e, db2)" "db' = abort_transaction fam db db2"
      using ex Inl by (auto simp: execute_def split: prod.splits sum.splits)
    have "db2 = db \<or> execute_new h fam rq db = (Inl e, db2)"
      using t(1) by (auto simp: execute_in_transaction_def split: option.splits)
    then have "material db2 = material db \<or> (\<exists>c r. cf_apply fam c (rq_body rq) (material db) = (r, material db2))"
      using execute_new_error by blast
    then show ?thesis
      using inv rollback_inv [OF inv b] by (auto simp: ex t(2) abort_transaction_def rollback_same)
  next
    case (Inr rc)
    show ?thesis
    proof (cases rule: execute_Inr [OF led ex [unfolded Inr]])
      case 1
      then show ?thesis using inv ex by simp
    next
      case 2
      then show ?thesis
        using inv accepted_inv [OF inv b] rollback_inv [OF inv b]
        by (auto simp: ex rollback_same elim!: ledger_step.cases)
    qed
  qed
qed

section \<open>The stored ledger verifies\<close>

lemma one_event:
  assumes led: "ledger_ok h fam db" and r: "select_pk (commands db) c = Some r"
  shows "count_where (\<lambda>_ e. ev_command e = c) (events db) = (if cm_event r = None then 0 else 1)"
    and "cm_event r = Some k \<Longrightarrow> count_where (\<lambda>i e. i = k \<and> ev_command e = c) (events db) = 1"
proof -
  have wf: "wf_table (events db)" by (rule numbered_wf [OF ledger_okD(5) [OF led]])
  have only: "cm_event r = Some i" if "select_pk (events db) i = Some e" "ev_command e = c" for i e
    using ledger_okD(4) [OF led that(1)] that(2) r by (auto simp: event_ok_def)
  have has: "\<exists>e. select_pk (events db) i = Some e \<and> ev_command e = c" if "cm_event r = Some i" for i
    using ledger_okD(3) [OF led r] that by (auto simp: command_ok_def)
  have keys: "{i. \<exists>e. select_pk (events db) i = Some e \<and> ev_command e = c} = set_option (cm_event r)"
    using only has by (auto simp: elem_set)
  show "count_where (\<lambda>_ e. ev_command e = c) (events db) = (if cm_event r = None then 0 else 1)"
    by (cases "cm_event r") (simp_all add: count_where_card [OF wf] keys)
  show "count_where (\<lambda>i e. i = k \<and> ev_command e = c) (events db) = 1" if k: "cm_event r = Some k"
  proof -
    have "{i. \<exists>e. select_pk (events db) i = Some e \<and> i = k \<and> ev_command e = c} = {k}" using has [OF k] by auto
    then show ?thesis by (simp add: count_where_card [OF wf])
  qed
qed

lemma verifies:
  assumes led: "ledger_ok h fam db" and r: "select_pk (commands db) c = Some r"
  shows "verify_command_body h fam db c = None"
  using ledger_okD(3) [OF led r] one_event [OF led r]
  by (auto simp: verify_command_body_def r command_ok_def Let_def split: option.splits)

end

end
