(* ===== verification/Study_Control.thy ===== *)
theory Study_Control
  imports Study_Outcome
begin

text \<open>
  Study runs and runtime bindings.  A run registers its declared pairs one by one, starts when every
  declared pair is registered, and completes only when both arms of every registered pair are closed.
  An obligation with a live native child is active: it cannot be completed or failed before the child
  is reconciled or settled, and an obligation whose child was lost can only fail.
\<close>

section \<open>Runs\<close>

definition registered_pairs :: "study_db \<Rightarrow> int \<Rightarrow> int" where
  "registered_pairs db run = count_where (\<lambda>(n, _) _. n = run) (run_pairs db)"

definition pair_closed :: "study_db \<Rightarrow> int \<Rightarrow> bool" where
  "pair_closed db p \<longleftrightarrow>
     (\<exists>pa. select_pk (pairs db) p = Some pa \<and> st db (pa_retained pa) = Some Closed \<and> st db (pa_reset pa) = Some Closed)"

definition run_ok :: "study_db \<Rightarrow> int \<Rightarrow> run_row \<Rightarrow> bool" where
  "run_ok db run r \<longleftrightarrow>
     ru_registered r = registered_pairs db run \<and> ru_registered r \<le> ru_pairs r
   \<and> (ru_state r = Pairing \<longleftrightarrow> ru_registered r < ru_pairs r)
   \<and> (ru_state r = Completed \<longrightarrow>
        (\<forall>n q. select_pk (run_pairs db) (run, n) = Some q \<longrightarrow> pair_closed db (rp_pair q)))"

definition runs_ok :: "study_db \<Rightarrow> bool" where
  "runs_ok db \<longleftrightarrow> all_rows (run_ok db) (runs db)"

section \<open>Bindings\<close>

definition binding_ok :: "study_db \<Rightarrow> int \<Rightarrow> binding_row \<Rightarrow> bool" where
  "binding_ok db ob b \<longleftrightarrow>
     (rb_attempt b = None \<longleftrightarrow> rb_office b \<noteq> None)
   \<and> (\<exists>r. select_pk (obligations db) ob = Some r
        \<and> (rb_state b = Bound \<longrightarrow> ob_state r = ObligationActive)
        \<and> (rb_state b = RecoverySettled \<longrightarrow> ob_state r \<noteq> ObligationCompleted))
   \<and> (rb_state b = RecoverySettled \<longrightarrow>
        (\<exists>s. select_pk (settlements db) ob = Some s \<and> rb_attempt b = Some (rs_attempt s) \<and> rb_child b = rs_child s))"

definition bindings_ok :: "study_db \<Rightarrow> bool" where
  "bindings_ok db \<longleftrightarrow> all_rows (binding_ok db) (bindings db)"

section \<open>Runs are accounted for\<close>

lemma closed_stable: "study_step h c db db' \<Longrightarrow> st db e = Some Closed \<Longrightarrow> st db' e = Some Closed"
  by (erule study_step_edge, assumption) (auto elim: edge_ClosedE)

lemma pair_closed_stable: "study_step h c db db' \<Longrightarrow> pair_closed db p \<Longrightarrow> pair_closed db' p"
  unfolding pair_closed_def using closed_stable persists_lookup(5) [OF study_step_persists] by blast

lemma open_pairs_zero:
  assumes rows: "rows_ok h db" and wf: "tables_wf db" and z: "open_pairs db run = 0"
    and q: "select_pk (run_pairs db) (run, n) = Some q"
  shows "pair_closed db (rp_pair q)"
proof -
  have wfr: "wf_table (run_pairs db)" using wf by (simp add: tables_wf_def)
  obtain pa where pa: "select_pk (pairs db) (rp_pair q) = Some pa"
    using rows_okD(4) [OF rows q] by (auto simp: run_pair_ok_def row_exists_def)
  then obtain a b where ab: "select_pk (episodes db) (pa_retained pa) = Some a"
      "select_pk (episodes db) (pa_reset pa) = Some b"
    using rows_okD(3) [OF rows pa] by (auto simp: pair_ok_def)
  then have "pair_arms db (rp_pair q) = Some (a, b)" using pa by (simp add: pair_arms_def)
  then have "ep_state a = Closed \<and> ep_state b = Closed"
    using z q by (fastforce simp: open_pairs_def count_where_zero_iff [OF wfr])
  then show ?thesis using pa ab by (auto simp: pair_closed_def st_def)
qed

lemma run_ok_kept:
  assumes step: "study_step h c db db'" and "run_pairs db' = run_pairs db" and "run_ok db run r"
  shows "run_ok db' run r"
  using assms pair_closed_stable [OF step] by (auto simp: run_ok_def registered_pairs_def)

lemma register_runs:
  assumes step: "study_step h c db db'" and rows: "rows_ok h db" and wf: "tables_wf db" and ok: "runs_ok db"
    and db': "db' = db\<lparr>run_pairs := t, runs := update_pk run
        (\<lambda>q. q\<lparr>ru_registered := ru_registered r + 1,
                ru_state := next_run_state (ru_registered r + 1) (ru_pairs r), ru_last := c\<rparr>) (runs db)\<rparr>"
    and r: "select_pk (runs db) run = Some r" and add: "adds (run_pairs db) (run, n) q t"
    and p: "ru_state r = Pairing" and le: "ru_registered r + 1 \<le> ru_pairs r"
  shows "runs_ok db'"
  unfolding runs_ok_def all_rows_def
proof (intro allI impI)
  fix k x assume x: "select_pk (runs db') k = Some x"
  have cnt: "registered_pairs db' k = registered_pairs db k + (if k = run then 1 else 0)"
    by (simp add: registered_pairs_def db' adds_count [OF add])
  have R: "run_ok db k y" if "select_pk (runs db) k = Some y" for y
    using ok that by (simp add: runs_ok_def all_rows_def)
  show "run_ok db' k x"
  proof (cases "k = run")
    case True
    then have "x = r\<lparr>ru_registered := ru_registered r + 1,
        ru_state := next_run_state (ru_registered r + 1) (ru_pairs r), ru_last := c\<rparr>"
      using x r by (simp add: db' select_pk_update_pk)
    then show ?thesis
      using R [of r] r True cnt le by (auto simp: run_ok_def next_run_state_def)
  next
    case False
    then have "select_pk (runs db) k = Some x" using x by (simp add: db' select_pk_update_pk)
    then show ?thesis
      using R False cnt pair_closed_stable [OF step]
      by (auto simp: run_ok_def db' adds_select [OF add])
  qed
qed

lemma all_rows_update_one:
  assumes "\<And>k x. k \<noteq> j \<Longrightarrow> select_pk t k = Some x \<Longrightarrow> P k x"
    and "\<And>r. select_pk t j = Some r \<Longrightarrow> P j (g r)"
  shows "all_rows P (update_pk j g t)"
  using assms by (auto simp: all_rows_def select_pk_update_pk split: if_splits)

lemma study_step_runs:
  assumes step: "study_step h c db db'" and s: "structure_ok h db" and ok: "runs_ok db"
  shows "runs_ok db'"
proof -
  note wf = structureD(1) [OF s] and rows = structureD(3) [OF s]
  have wfr: "wf_table (run_pairs db)" using wf by (simp add: tables_wf_def)
  note kept = run_ok_kept [OF step]
  have R: "run_ok db k r" if "select_pk (runs db) k = Some r" for k r
    using ok that by (simp add: runs_ok_def all_rows_def)
  have same: ?thesis if "runs db' = runs db" "run_pairs db' = run_pairs db"
    using ok kept that by (simp add: runs_ok_def all_rows_def)
  from step show ?thesis
  proof (cases rule: study_step.cases)
    case (run k r t)
    have "registered_pairs db k = 0"
      using rows_okD(4) [OF rows] adds_fresh [OF run(2)]
      by (fastforce simp: registered_pairs_def count_where_zero_iff [OF wfr] run_pair_ok_def)
    then have "run_ok db' k r" using run by (simp add: run_ok_def registered_pairs_def)
    then show ?thesis
      using ok kept run(1) by (auto simp: runs_ok_def all_rows_def adds_select [OF run(2)] split: if_splits)
  next
    case (register run r n q t)
    show ?thesis by (rule register_runs [OF step rows wf ok register(1-4,9)])
  next
    case (start run r)
    have "run_ok db' run (r\<lparr>ru_state := Running, ru_last := c\<rparr>)"
      using R [OF start(2)] start by (simp add: run_ok_def registered_pairs_def)
    moreover have "run_pairs db' = run_pairs db" by (simp add: start(1))
    ultimately have "all_rows (run_ok db') (update_pk run (\<lambda>q. q\<lparr>ru_state := Running, ru_last := c\<rparr>) (runs db))"
      using start(2) R kept by (intro all_rows_update_one) auto
    then show ?thesis by (simp add: runs_ok_def start(1))
  next
    case (finish run r)
    have "pair_closed db' (rp_pair q)" if "select_pk (run_pairs db) (run, n) = Some q" for n q
      by (rule pair_closed_stable [OF step open_pairs_zero [OF rows wf finish(5) that]])
    then have "run_ok db' run (r\<lparr>ru_state := Completed, ru_last := c\<rparr>)"
      using R [OF finish(2)] finish by (simp add: run_ok_def registered_pairs_def)
    moreover have "run_pairs db' = run_pairs db" by (simp add: finish(1))
    ultimately have "all_rows (run_ok db') (update_pk run (\<lambda>q. q\<lparr>ru_state := Completed, ru_last := c\<rparr>) (runs db))"
      using finish(2) R kept by (intro all_rows_update_one) auto
    then show ?thesis by (simp add: runs_ok_def finish(1))
  next
    case (publish ob r er x xr oc ocr m k db1)
    then show ?thesis using same message_posted_same(16,17) [OF publish(16)] by simp
  next
    case (release p pa body ta db1 tb)
    then show ?thesis
      using same by (simp add: arm_released_same [OF release(3)] arm_released_same [OF release(4)])
  qed (rule same; simp)+
qed

interpretation runs: study_invariant h "structure_ok h" runs_ok for h
proof unfold_locales
  show "runs_ok db'" if "structure_ok h db" "runs_ok db" "study_step h c db db'" for c db db'
    using study_step_runs that by blast
  have *: "run_ok (rollback db db') = run_ok db" "run_ok (db\<lparr>env := x\<rparr>) = run_ok db" for db db' x
    by (intro ext; simp add: run_ok_def registered_pairs_def pair_closed_def st_def)+
  show "runs_ok (rollback db db')" "runs_ok (db\<lparr>env := x\<rparr>)" if "runs_ok db" for db db' x
    using that by (simp_all add: runs_ok_def *)
qed (simp_all add: structure_reachable, simp add: runs_ok_def empty_study_db_def)

section \<open>Live bindings belong to active obligations\<close>

lemma obligation_edge_state:
  "obligation_edge r r' \<Longrightarrow> ob_state r' = ob_state r
     \<or> ob_state r = ObligationActive \<and> ob_state r' \<in> {ObligationCompleted, ObligationFailed}"
  by (induction rule: obligation_edge.induct) auto

lemma binding_ok_kept:
  assumes ok: "binding_ok db ob b"
    and r: "\<And>r. select_pk (obligations db) ob = Some r \<Longrightarrow>
        \<exists>r'. select_pk (obligations db') ob = Some r' \<and> ob_state r' = ob_state r"
    and s: "\<And>s. select_pk (settlements db) ob = Some s \<Longrightarrow> select_pk (settlements db') ob = Some s"
  shows "binding_ok db' ob b"
  using ok r s unfolding binding_ok_def by metis

lemma study_step_bindings:
  assumes step: "study_step h c db db'" and s: "structure_ok h db" and ok: "bindings_ok db"
  shows "bindings_ok db'"
proof -
  note wf = structureD(1) [OF s] and rows = structureD(3) [OF s]
  have B: "binding_ok db ob b" if "select_pk (bindings db) ob = Some b" for ob b
    using ok that by (simp add: bindings_ok_def all_rows_def)
  have same: ?thesis
    if "bindings db' = bindings db" "settlements db' = settlements db"
      "\<And>ob r. select_pk (obligations db) ob = Some r \<Longrightarrow>
        \<exists>r'. select_pk (obligations db') ob = Some r' \<and> ob_state r' = ob_state r"
    unfolding bindings_ok_def all_rows_def that(1)
    by (intro allI impI binding_ok_kept [OF B] that(3)) (simp_all add: that(2))
  from step show ?thesis
  proof (cases rule: study_step.cases)
    case (obligation ob e pop phase role view prompt tool budget reads posts t er oc u)
    then show ?thesis
      using adds_fresh [OF obligation(2)]
      by (intro same) (auto simp: adds_select [OF obligation(2)] set_episode_state_def)
  next
    case (complete ob r x)
    have "binding_ok db' k b" if b: "select_pk (bindings db) k = Some b" for k b
    proof (cases "k = ob")
      case True
      then have "rb_state b = Reconciled" using complete(6) b by blast
      then show ?thesis using B [OF b] complete True by (auto simp: binding_ok_def select_pk_update_pk)
    next
      case False
      then show ?thesis
        by (intro binding_ok_kept [OF B [OF b]]) (auto simp: complete(1) select_pk_update_pk)
    qed
    then show ?thesis by (auto simp: bindings_ok_def all_rows_def complete(1))
  next
    case (fail ob r reason)
    have "binding_ok db' k b" if b: "select_pk (bindings db) k = Some b" for k b
    proof (cases "k = ob")
      case True
      then have "rb_state b \<noteq> Bound" using fail(4) b by blast
      then show ?thesis using B [OF b] fail True by (auto simp: binding_ok_def select_pk_update_pk)
    next
      case False
      then show ?thesis
        by (intro binding_ok_kept [OF B [OF b]]) (auto simp: fail(1) select_pk_update_pk)
    qed
    then show ?thesis by (auto simp: bindings_ok_def all_rows_def fail(1))
  next
    case (bind ob b t r)
    then show ?thesis
      using B by (auto simp: bindings_ok_def all_rows_def adds_select [OF bind(2)] binding_ok_def)
  next
    case (reconcile ob b ch)
    have "binding_ok db' ob (b\<lparr>rb_state := Reconciled, rb_reconciled_by := Some c\<rparr>)"
      using B [OF reconcile(2)] by (auto simp: binding_ok_def reconcile(1))
    moreover have "binding_ok db' k q" if "select_pk (bindings db) k = Some q" for k q
      using B [OF that] by (simp add: binding_ok_def reconcile(1))
    ultimately have "all_rows (binding_ok db')
        (update_pk ob (\<lambda>q. q\<lparr>rb_state := Reconciled, rb_reconciled_by := Some c\<rparr>) (bindings db))"
      using reconcile(2) by (intro all_rows_update_one) auto
    then show ?thesis by (simp add: bindings_ok_def reconcile(1))
  next
    case (settle ob x t r b e')
    have new: "binding_ok db' ob (b\<lparr>rb_state := RecoverySettled, rb_settled_by := Some c\<rparr>)"
      using B [OF settle(5)] settle by (auto simp: binding_ok_def adds_select [OF settle(2)])
    have old: "binding_ok db' k q" if "select_pk (bindings db) k = Some q" "k \<noteq> ob" for k q
      using that by (intro binding_ok_kept [OF B]) (auto simp: settle(1) adds_select [OF settle(2)])
    have "all_rows (binding_ok db')
        (update_pk ob (\<lambda>q. q\<lparr>rb_state := RecoverySettled, rb_settled_by := Some c\<rparr>) (bindings db))"
      using new old settle(5) by (intro all_rows_update_one) auto
    then show ?thesis by (simp add: bindings_ok_def settle(1))
  next
    case (read k ob th first through obj t)
    then show ?thesis by (intro same) (auto simp: select_pk_update_pk)
  next
    case (publish ob r er x xr oc ocr m k db1)
    note ms = message_posted_same [OF publish(16)]
    have "settlements (publish_effect c (ob_episode r) (ob_phase r) (ep_state er) ob db1) = settlements db1"
      by (simp add: publish_effect_def Let_def set_episode_state_def)
    then show ?thesis
      using ms by (intro same) (auto simp: publish(1) publish_effect_obligations select_pk_update_pk)
  next
    case (release p pa body ta db1 tb)
    have "settlements d' = settlements d" if "arm_released h c e t body d d'" for e t d d'
      using that by (elim arm_releasedE) (simp add: message_posted_same set_episode_state_def)
    then show ?thesis
      using release by (intro same) (simp_all add: arm_released_same [OF release(3)] arm_released_same [OF release(4)])
  qed (rule same; simp add: set_episode_state_def)+
qed

interpretation bindings: study_invariant h "structure_ok h" bindings_ok for h
proof unfold_locales
  show "bindings_ok db'" if "structure_ok h db" "bindings_ok db" "study_step h c db db'" for c db db'
    using study_step_bindings that by blast
  have *: "binding_ok (rollback db db') = binding_ok db" "binding_ok (db\<lparr>env := x\<rparr>) = binding_ok db" for db db' x
    by (intro ext; simp add: binding_ok_def)+
  show "bindings_ok (rollback db db')" "bindings_ok (db\<lparr>env := x\<rparr>)" if "bindings_ok db" for db db' x
    using that by (simp_all add: bindings_ok_def *)
qed (simp_all add: structure_reachable, simp add: bindings_ok_def empty_study_db_def)

end
