(* ===== verification/Study_Pair.thy ===== *)
theory Study_Pair
  imports Study_Control
begin

text \<open>
  The two arms of a matched pair receive the correction together: an episode is past the release only
  as an arm of a pair, and then the other arm is past it too.
\<close>

definition rel :: "study_db \<Rightarrow> int \<Rightarrow> bool" where
  "rel db e \<longleftrightarrow> (case st db e of None \<Rightarrow> False | Some s \<Rightarrow> released s)"

definition in_pair :: "study_db \<Rightarrow> int \<Rightarrow> bool" where
  "in_pair db e \<longleftrightarrow> (\<exists>p pa. select_pk (pairs db) p = Some pa \<and> (pa_retained pa = e \<or> pa_reset pa = e))"

definition pairs_sync :: "study_db \<Rightarrow> bool" where
  "pairs_sync db \<longleftrightarrow>
     all_rows (\<lambda>_ pa. rel db (pa_retained pa) \<longleftrightarrow> rel db (pa_reset pa)) (pairs db)
   \<and> (\<forall>e. rel db e \<longrightarrow> in_pair db e)"

lemma has_treatment_unique:
  assumes "uniques db" "has_treatment db e t" "has_treatment db e t'"
  shows "t = t'"
proof -
  from assms obtain i j a b where "select_pk (treatments db) i = Some a" "ta_episode a = e" "ta_treatment a = t"
      "select_pk (treatments db) j = Some b" "ta_episode b = e" "ta_treatment b = t'"
    unfolding has_treatment_def by blast
  moreover from this have "a = b"
    using assms(1) unique_onD [of ta_episode "treatments db"] by (fastforce simp: uniques_def)
  ultimately show ?thesis by simp
qed

text \<open>No episode is an arm of two pairs.\<close>

lemma arms_disjoint:
  assumes u: "uniques db" and rows: "rows_ok h db"
    and p: "select_pk (pairs db) p = Some pa" and q: "select_pk (pairs db) q = Some qa"
    and e: "e = pa_retained pa \<or> e = pa_reset pa" "e = pa_retained qa \<or> e = pa_reset qa"
  shows "p = q"
proof -
  have t: "has_treatment db (pa_retained x) Retained" "has_treatment db (pa_reset x) Reset"
    if "select_pk (pairs db) k = Some x" for k x
    using rows_okD(3) [OF rows that] by (auto simp: pair_ok_def)
  have un: "unique_on pa_retained (pairs db)" "unique_on pa_reset (pairs db)"
    using u by (simp_all add: uniques_def)
  have "\<not> (has_treatment db e Retained \<and> has_treatment db e Reset)"
    using has_treatment_unique [OF u, of e Retained Reset] by auto
  then show ?thesis
    using e unique_onD [OF un(1) p q] unique_onD [OF un(2) p q] t [OF p] t [OF q] by auto
qed

lemma rel_kept:
  assumes step: "study_step h c db db'" and nr: "\<not> releases h c db db'" and e: "st db e \<noteq> None"
  shows "rel db' e = rel db e"
proof -
  obtain s where s: "st db e = Some s" using e by blast
  obtain s' where "st db' e = Some s'" by (rule study_step_edge [OF step s])
  then show ?thesis using study_step_released [OF step nr s] s by (simp add: rel_def)
qed

lemma fresh_not_rel:
  assumes step: "study_step h c db db'" and nr: "\<not> releases h c db db'" and new: "st db e = None"
  shows "\<not> rel db' e"
  using step
proof (cases rule: study_step.cases)
  case (episode k r t)
  then show ?thesis using new st_adds_episode [OF episode(2), of db'] by (auto simp: rel_def released_def)
next
  case (fork k r t j a u l f v source er)
  then show ?thesis using new st_adds_episode [OF fork(2), of db'] by (auto simp: rel_def released_def)
next
  case (publish ob r er x xr oc ocr m k db1)
  then show ?thesis
    using new st_cong [OF message_posted_same(1) [OF publish(16)]]
    by (auto simp: rel_def st_publish)
next
  case (release p pa body ta db1 tb)
  then show ?thesis using nr unfolding releases_def by blast
qed (use new in \<open>auto simp: rel_def st_def set_episode_state_def select_pk_update_pk\<close>)

lemma pairs_arms_exist:
  assumes "rows_ok h db" "select_pk (pairs db) p = Some pa"
  shows "st db (pa_retained pa) \<noteq> None" "st db (pa_reset pa) \<noteq> None"
  using rows_okD(3) [OF assms] by (auto simp: pair_ok_def st_def)

lemma releases_rel:
  assumes "releases h c db db'"
  obtains p pa where "select_pk (pairs db) p = Some pa" "pairs db' = pairs db"
    "\<And>e. rel db' e \<longleftrightarrow> e = pa_retained pa \<or> e = pa_reset pa \<or> rel db e"
proof -
  from assms obtain p pa body ta tb db1 where p: "select_pk (pairs db) p = Some pa"
    and a: "arm_released h c (pa_retained pa) ta body db db1"
    and b: "arm_released h c (pa_reset pa) tb body db1 db'"
    unfolding releases_def by blast
  have "rel db' e \<longleftrightarrow> e = pa_retained pa \<or> e = pa_reset pa \<or> rel db e" for e
    using arm_released_st(2) [OF a, of e] arm_released_st(2) [OF b, of e]
    by (auto simp: rel_def released_def split: if_splits option.splits)
  moreover have "pairs db' = pairs db" by (simp add: arm_released_same [OF a] arm_released_same [OF b])
  ultimately show thesis using that p by blast
qed

lemma new_pair_not_rel:
  assumes u: "uniques db'" and rows: "rows_ok h db'" and ok: "pairs_sync db"
    and add: "adds (pairs db) k r t" and db': "db' = db\<lparr>pairs := t\<rparr>"
    and e: "e = pa_retained r \<or> e = pa_reset r"
  shows "\<not> rel db e"
proof
  assume "rel db e"
  then obtain p pa where p: "select_pk (pairs db) p = Some pa" "e = pa_retained pa \<or> e = pa_reset pa"
    using ok unfolding pairs_sync_def in_pair_def by blast
  have "p \<noteq> k" using adds_fresh [OF add] p by auto
  moreover have "select_pk (pairs db') p = Some pa" "select_pk (pairs db') k = Some r"
    using p \<open>p \<noteq> k\<close> by (simp_all add: db' adds_select [OF add])
  ultimately show False using arms_disjoint [OF u rows _ _ p(2) e] by blast
qed

lemma pairs_sync_same:
  assumes step: "study_step h c db db'" and nr: "\<not> releases h c db db'" and rows: "rows_ok h db"
    and ok: "pairs_sync db" and same: "pairs db' = pairs db"
  shows "pairs_sync db'"
proof -
  have r: "rel db' e \<longleftrightarrow> rel db e" if "st db e \<noteq> None" for e by (rule rel_kept [OF step nr that])
  have "in_pair db' e" if "rel db' e" for e
  proof (cases "st db e = None")
    case True
    then show ?thesis using fresh_not_rel [OF step nr True] that by blast
  next
    case False
    then show ?thesis using ok r that same by (auto simp: pairs_sync_def in_pair_def)
  qed
  moreover have "all_rows (\<lambda>_ pa. rel db' (pa_retained pa) \<longleftrightarrow> rel db' (pa_reset pa)) (pairs db')"
    using ok r pairs_arms_exist [OF rows] by (simp add: all_rows_def same pairs_sync_def)
  ultimately show ?thesis by (simp add: pairs_sync_def)
qed

lemma study_step_pairs:
  assumes step: "study_step h c db db'" and s: "structure_ok h db" and ok: "pairs_sync db"
  shows "pairs_sync db'"
proof (cases "releases h c db db'")
  case True
  then obtain p pa where p: "select_pk (pairs db) p = Some pa" and same: "pairs db' = pairs db"
    and r: "\<And>e. rel db' e \<longleftrightarrow> e = pa_retained pa \<or> e = pa_reset pa \<or> rel db e"
    by (rule releases_rel) blast
  have "rel db' (pa_retained qa) \<longleftrightarrow> rel db' (pa_reset qa)" if q: "select_pk (pairs db) q = Some qa" for q qa
  proof (cases "q = p")
    case True
    then show ?thesis using p q r by simp
  next
    case False
    then have "\<And>e. e = pa_retained qa \<or> e = pa_reset qa \<Longrightarrow> e \<noteq> pa_retained pa \<and> e \<noteq> pa_reset pa"
      using arms_disjoint [OF structureD(2,3) [OF s] p q] by blast
    then show ?thesis using ok q r by (auto simp: pairs_sync_def all_rows_def)
  qed
  then show ?thesis
    using ok p r same unfolding pairs_sync_def all_rows_def in_pair_def by metis
next
  case nr: False
  note same = pairs_sync_same [OF step nr structureD(3) [OF s] ok]
  have wf': "uniques db'" "rows_ok h db'"
    using study_step_uniques [OF step structureD(2) [OF s]] study_step_rows [OF step structureD(1) [OF s]]
      structureD(3) [OF s] by (simp_all add: rows_ok_def)
  from step show ?thesis
  proof (cases rule: study_step.cases)
    case (pair k r t)
    have st': "rel db' e = rel db e" for e by (simp add: pair(1) rel_def st_def)
    have "\<not> rel db (pa_retained r)" "\<not> rel db (pa_reset r)"
      using new_pair_not_rel [OF wf' ok pair(2,1)] by auto
    then have "all_rows (\<lambda>_ pa. rel db (pa_retained pa) \<longleftrightarrow> rel db (pa_reset pa)) (pairs db')"
      using ok by (simp add: pairs_sync_def pair(1) all_rows_adds [OF pair(2)])
    moreover have "in_pair db' e" if "in_pair db e" for e
      using that persists_lookup(5) [OF study_step_persists [OF step]] unfolding in_pair_def by blast
    ultimately show ?thesis using ok by (auto simp: pairs_sync_def st')
  next
    case (publish ob r er x xr oc ocr m k db1)
    then show ?thesis using same message_posted_same(8) [OF publish(16)] by simp
  next
    case (release p pa body ta db1 tb)
    then show ?thesis using nr unfolding releases_def by blast
  qed (rule same; simp)+
qed

interpretation pairing: study_invariant h "structure_ok h" pairs_sync for h
proof unfold_locales
  show "pairs_sync db'" if "structure_ok h db" "pairs_sync db" "study_step h c db db'" for c db db'
    using study_step_pairs that by blast
  have *: "rel (rollback db db') = rel db" "rel (db\<lparr>env := x\<rparr>) = rel db"
      "in_pair (rollback db db') = in_pair db" "in_pair (db\<lparr>env := x\<rparr>) = in_pair db" for db db' x
    by (intro ext; simp add: rel_def st_def in_pair_def)+
  show "pairs_sync (rollback db db')" "pairs_sync (db\<lparr>env := x\<rparr>)" if "pairs_sync db" for db db' x
    using that by (simp_all add: pairs_sync_def *)
qed (simp_all add: structure_reachable, simp add: pairs_sync_def empty_study_db_def rel_def st_def)

end
