(* ===== verification/Kernel.thy ===== *)
theory Kernel
  imports Ledger_Laws Study_Pair
begin

text \<open>
  The study transitions behind the ledger: the command family of \<^verbatim>\<open>CommandBody::StudyTransition\<close>,
  the custody bridge \<open>execute_study_transition\<close>, and the states the kernel reaches by executing
  requests.  The laws of the ledger hold for this family, and the material tables it keeps are
  reachable states of the control plane, so every invariant of the control plane holds of them.
\<close>

section \<open>The study command family\<close>

text \<open>The content objects a stored body refers to by a foreign key.\<close>

definition command_content :: "study_command \<Rightarrow> int option" where
  "command_content cmd = (case cmd of
     AdmitStudyRun _ obj _ _ \<Rightarrow> Some obj
   | ReadForum _ _ _ obj \<Rightarrow> Some obj
   | _ \<Rightarrow> None)"

definition event_content :: "study_event \<Rightarrow> int option" where
  "event_content ev = (case ev of
     StudyRunAdmitted _ _ obj _ _ \<Rightarrow> Some obj
   | ForumMessagesRead _ _ _ _ _ _ obj \<Rightarrow> Some obj
   | _ \<Rightarrow> None)"

definition content_registered :: "study_db \<Rightarrow> int option \<Rightarrow> bool" where
  "content_registered db obj = (case obj of None \<Rightarrow> True | Some k \<Rightarrow> row_exists (env_seals (env db)) k)"

definition STUDY_TRANSITION :: int where
  "STUDY_TRANSITION = 101"

definition STUDY_TRANSITION_EVENT :: int where
  "STUDY_TRANSITION_EVENT = 95"

definition study_family :: "(byte list \<Rightarrow> digest) \<Rightarrow> (study_command, study_event, study_db) command_family" where
  "study_family h = \<lparr>
     cf_kind = (\<lambda>_. STUDY_TRANSITION),
     cf_capability = (\<lambda>_. STUDY_TRANSITION),
     cf_exact_generation = (\<lambda>_. False),
     cf_fingerprint = append_command_fingerprint [],
     cf_insert_body = (\<lambda>db cmd.
       if content_registered db (command_content cmd) then Some (insert_command_body h cmd) else None),
     cf_decode_body = (\<lambda>kind row. if kind = STUDY_TRANSITION then decode_command_body h row else None),
     cf_target = (\<lambda>_ _. Inr None),
     cf_fenced = (\<lambda>_ _ _. False),
     cf_apply = study_apply h,
     cf_event_kind = (\<lambda>_. STUDY_TRANSITION_EVENT),
     cf_event_fingerprint = append_event_fingerprint [],
     cf_insert_event = (\<lambda>db ev.
       if content_registered db (event_content ev) then Some (insert_event_body ev) else None),
     cf_decode_event = (\<lambda>db kind row.
       if kind = STUDY_TRANSITION_EVENT then decode_event_body (env_admissions (env db)) row else None),
     cf_rollback = rollback\<rparr>"

section \<open>The custody bridge\<close>

definition active_capability_grant :: "authority \<Rightarrow> int \<Rightarrow> int \<Rightarrow> store_error + int option" where
  "active_capability_grant au principal_id capability =
     (case select_where (\<lambda>_ g. gr_principal g = principal_id \<and> gr_capability g = capability \<and> gr_state g = 1)
             (au_grants au) of
        None \<Rightarrow> Inr None
      | Some (k, _) \<Rightarrow> if identifier_ok k then Inr (Some k) else Inl InvalidStoredValue)"

datatype study_transition_disposition = TransitionAccepted study_event | TransitionRejected rejection

definition execute_study_transition ::
  "(byte list \<Rightarrow> digest) \<Rightarrow> byte list \<Rightarrow> study_command \<Rightarrow> study_db kernel_db
   \<Rightarrow> (store_error + study_transition_disposition \<times> bool) \<times> study_db kernel_db" where
  "execute_study_transition h command_id cmd db =
     (case active_capability_grant (authorities db) KERNEL STUDY_TRANSITION of
        Inl e \<Rightarrow> (Inl e, db)
      | Inr None \<Rightarrow> (Inl (LedgerCorruption ''current schema has no kernel study-transition grant''), db)
      | Inr (Some grant) \<Rightarrow>
          (case execute h (study_family h)
                  \<lparr>rq_id = command_id, rq_principal = KERNEL, rq_grant = grant,
                   rq_capability = STUDY_TRANSITION, rq_generation = None, rq_body = cmd\<rparr> db of
             (Inl e, db') \<Rightarrow> (Inl e, db')
           | (Inr rc, db') \<Rightarrow>
               (case rc_disposition rc of
                  Rejected x \<Rightarrow> (Inr (TransitionRejected x, rc_idempotent rc), db')
                | Accepted k \<Rightarrow>
                    (case ledger_event h (study_family h) db' k of
                       Inl e \<Rightarrow> (Inl e, db')
                     | Inr ev \<Rightarrow> (Inr (TransitionAccepted ev, rc_idempotent rc), db')))))"

section \<open>The laws of the ledger\<close>

text \<open>A hash with 32-byte digests; every such function is its own \<open>as_digest\<close>.\<close>

definition as_digest :: "(byte list \<Rightarrow> digest) \<Rightarrow> byte list \<Rightarrow> digest" where
  "as_digest h b = take 32 (h b @ replicate 32 0)"

lemma as_digest_ok: "digest_ok (as_digest h b)"
  by (simp add: digest_ok_def as_digest_def)

lemma as_digest_same: "(\<And>b. digest_ok (h b)) \<Longrightarrow> as_digest h = h"
  by (rule ext) (simp add: as_digest_def digest_ok_def)

lemma exact_typed: "study_command_exact cmd \<Longrightarrow> study_command_typed cmd"
  by (cases cmd; simp add: study_command_exact_def study_command_typed_def ordinal64_ok_def pair_ordinal_ok_def
      budget_units_ok_def forum_budget_ok_def)

lemma rollback_self: "rollback db db = db"
  by (cases db) (simp add: rollback_def rollback_table_def)

interpretation kernel: ledgered "as_digest h" "study_family (as_digest h)" study_command_exact "study_reachable (as_digest h)" for h
proof
  fix b s row
  assume "study_command_exact b" "cf_insert_body (study_family (as_digest h)) s b = Some row"
  then show "cf_decode_body (study_family (as_digest h)) (cf_kind (study_family (as_digest h)) b) row = Some b"
    by (auto simp: study_family_def as_digest_ok intro: decode_insert_command split: if_splits)
next
  show "cf_rollback (study_family (as_digest h)) s s = s" for s
    by (simp add: study_family_def rollback_self)
next
  fix s b c ev s'
  assume "study_reachable (as_digest h) s" "study_command_exact b"
    "cf_apply (study_family (as_digest h)) c b s = (Inr ev, s')"
  then show "study_reachable (as_digest h) s'"
    by (auto simp: study_family_def intro: study_reachable.accepted exact_typed)
next
  fix s b c r s'
  assume "study_reachable (as_digest h) s" "study_command_exact b"
    "cf_apply (study_family (as_digest h)) c b s = (r, s')"
  then show "study_reachable (as_digest h) (cf_rollback (study_family (as_digest h)) s s')"
    by (auto simp: study_family_def intro: study_reachable.rejected exact_typed)
qed

section \<open>Reachable kernel states\<close>

definition empty_kernel :: "authority \<Rightarrow> kernel_env \<Rightarrow> study_db kernel_db" where
  "empty_kernel au e =
     \<lparr>commands = empty_table, command_bodies = empty_table, events = empty_table, event_bodies = empty_table,
      authorities = au, material = empty_study_db e\<rparr>"

inductive kernel_reachable :: "(byte list \<Rightarrow> digest) \<Rightarrow> study_db kernel_db \<Rightarrow> bool" for h where
  initial: "kernel_reachable h (empty_kernel au e)"
| executed: "\<lbrakk>kernel_reachable h db; request_ok study_command_exact rq\<rbrakk>
    \<Longrightarrow> kernel_reachable h (snd (execute h (study_family h) rq db))"
| environment: "kernel_reachable h db
    \<Longrightarrow> kernel_reachable h (db\<lparr>authorities := au, material := (material db)\<lparr>env := e\<rparr>\<rparr>)"

lemma numbered_empty: "numbered empty_table"
  by (simp add: numbered_def empty_table_def)

lemma ledger_ok_cong:
  assumes "commands db' = commands db" "command_bodies db' = command_bodies db" "events db' = events db"
  shows "ledger_ok h fam db' = ledger_ok h fam db"
proof -
  have "command_ok h fam db' = command_ok h fam db" "event_ok db' = event_ok db"
    by (intro ext; simp add: command_ok_def event_ok_def assms)+
  then show ?thesis by (simp add: ledger_ok_def assms)
qed

lemma kernel_reachable_ok:
  assumes d: "\<And>b. digest_ok (h b)" and reach: "kernel_reachable h db"
  shows "ledger_ok h (study_family h) db \<and> study_reachable h (material db)"
  using reach
proof (induction rule: kernel_reachable.induct)
  case (initial au e)
  then show ?case
    by (simp add: empty_kernel_def ledger_ok_def numbered_empty study_reachable.initial)
next
  case (executed db rq)
  then show ?case
    using kernel.execute_ok [of h db rq] kernel.execute_inv [of h db rq] by (simp add: as_digest_same [OF d])
next
  case (environment db e au)
  then show ?case
    using ledger_ok_cong [of "db\<lparr>authorities := au, material := (material db)\<lparr>env := e\<rparr>\<rparr>" db h "study_family h"]
    by (simp add: study_reachable.kernel)
qed

section \<open>What an answered transition means\<close>

text \<open>A transition accepted for the first time reports the event the control plane emitted.\<close>

lemma ledger_event_stepped:
  assumes step: "ledger_step h fam rq db (Accepted k) db'" and led: "ledger_ok h fam db'"
    and ver: "\<And>c r. select_pk (commands db') c = Some r \<Longrightarrow> verify_command_body h fam db' c = None"
    and id: "command_id_ok (rq_id rq)"
  shows "\<exists>c ev row. cf_apply fam c (rq_body rq) (material db) = (Inr ev, material db')
    \<and> cf_insert_event fam (material db') ev = Some row
    \<and> (cf_decode_event fam (material db') (cf_event_kind fam ev) row = Some ev \<longrightarrow> ledger_event h fam db' k = Inr ev)"
  using step
proof (cases rule: ledger_step.cases)
  case (accepted c t body u ev s v eb w)
  have e: "select_pk (events db') k = Some (new_event_row h fam db c (rq_id rq) ev)"
    using accepted by (simp add: adds_select [OF accepted(12)])
  have r: "select_pk (commands db') c = Some (accepted_row h fam rq k)"
    using accepted by (simp add: adds_select [OF accepted(4)])
  have b: "select_pk (event_bodies db') k = Some eb"
    using accepted by (simp add: adds_select [OF accepted(14)])
  have seq: "0 < ev_sequence (new_event_row h fam db c (rq_id rq) ev)"
    using ledger_okD(4) [OF led e] accepted(11) by (simp add: event_ok_def)
  have row: "ev_kind (new_event_row h fam db c (rq_id rq) ev) = cf_event_kind fam ev"
      "ev_fingerprint (new_event_row h fam db c (rq_id rq) ev) = event_fingerprint h fam k (rq_id rq) ev"
      "ev_command (new_event_row h fam db c (rq_id rq) ev) = c"
    using accepted(10) by (simp_all add: new_event_row_def)
  have "ledger_event h fam db' k = Inr ev"
    if dec: "cf_decode_event fam (material db') (cf_event_kind fam ev) eb = Some ev"
  proof -
    have "decode_event h fam db' k (new_event_row h fam db c (rq_id rq) ev) (rq_id rq) = Inr ev"
      using accepted(11) by (simp add: decode_event_def b dec row)
    then show ?thesis
      using seq id by (simp add: ledger_event_def e r row ver accepted_row_def placeholder_row_def)
  qed
  then show ?thesis using accepted by auto
qed

text \<open>An event whose fields are in range decodes from its stored body.\<close>

definition decodable :: "study_db \<Rightarrow> study_event \<Rightarrow> bool" where
  "decodable db ev \<longleftrightarrow> study_event_exact ev \<and> event_current (env_admissions (env db)) ev"

lemma transition_reported:
  assumes d: "\<And>b. digest_ok (h b)" and reach: "kernel_reachable h db"
    and id: "command_id_ok i" and cmd: "study_command_exact cmd"
    and ran: "execute_study_transition h i cmd db = (Inr (TransitionAccepted ev, False), db')"
  shows "\<exists>c ev'. study_apply h c cmd (material db) = (Inr ev', material db')
    \<and> (decodable (material db') ev' \<longrightarrow> ev = ev')"
proof -
  note led = kernel_reachable_ok [OF d reach, THEN conjunct1]
  let ?f = "study_family h"
  obtain g k where g: "active_capability_grant (authorities db) KERNEL STUDY_TRANSITION = Inr (Some g)"
    and ex: "execute h ?f \<lparr>rq_id = i, rq_principal = KERNEL, rq_grant = g,
          rq_capability = STUDY_TRANSITION, rq_generation = None, rq_body = cmd\<rparr> db
        = (Inr \<lparr>rc_disposition = Accepted k, rc_idempotent = False\<rparr>, db')"
    and ev: "ledger_event h ?f db' k = Inr ev"
    using ran unfolding execute_study_transition_def
    by (auto split: sum.splits option.splits prod.splits disposition.splits) (metis command_receipt.surjective old.unit.exhaust)
  let ?rq = "\<lparr>rq_id = i, rq_principal = KERNEL, rq_grant = g,
      rq_capability = STUDY_TRANSITION, rq_generation = None, rq_body = cmd\<rparr>"
  have step: "ledger_step h ?f ?rq db (Accepted k) db'"
    using kernel.execute_Inr [of h db ?rq, unfolded as_digest_same [OF d], OF led ex] by auto
  have rq: "request_ok study_command_exact ?rq"
    using g id cmd
    by (auto simp: active_capability_grant_def request_ok_def capability_ok_def STUDY_TRANSITION_def optional_ok_def
        identifier_ok_def in_i64_def study_identifier_new_def split: option.splits if_splits prod.splits)
  have led': "ledger_ok h ?f db'"
    using kernel.step_ok [of h ?rq db _ db'] step rq led by (simp add: as_digest_same [OF d])
  obtain c ev' row where o: "cf_apply ?f c cmd (material db) = (Inr ev', material db')"
      "cf_insert_event ?f (material db') ev' = Some row"
      "cf_decode_event ?f (material db') (cf_event_kind ?f ev') row = Some ev' \<longrightarrow> ledger_event h ?f db' k = Inr ev'"
    using ledger_event_stepped [OF step led'] kernel.verifies [of h db'] led' id
    by (auto simp: as_digest_same [OF d])
  have "ev = ev'" if "decodable (material db') ev'"
    using o(2,3) ev that decode_insert_event by (auto simp: study_family_def decodable_def split: if_splits)
  then show ?thesis using o(1) by (auto simp: study_family_def)
qed

section \<open>Request commitments\<close>

text \<open>Two well-formed study requests with the same fingerprint material are the same request.\<close>

lemma request_material_injective:
  assumes a: "request_ok study_command_exact a" and b: "request_ok study_command_exact b"
    and eq: "request_material (study_family h) a = request_material (study_family h) b"
  shows "a = b"
proof -
  have enc: "encodable (rq_id x)" and ids: "in_i64 (rq_principal x)" "in_i64 (rq_grant x)" "in_i64 (rq_capability x)"
      "in_i64 (case rq_generation x of None \<Rightarrow> - 1 | Some g \<Rightarrow> g)" "study_command_exact (rq_body x)"
    if "request_ok study_command_exact x" for x
    using that by (auto simp: request_ok_def command_id_ok_def encodable_def identifier_ok_def capability_ok_def
        in_i64_def optional_ok_def generation_ok_def split: option.splits)
  have "rq_id a = rq_id b \<and> rq_principal a = rq_principal b \<and> rq_grant a = rq_grant b
      \<and> rq_capability a = rq_capability b
      \<and> (case rq_generation a of None \<Rightarrow> - 1 | Some g \<Rightarrow> g) = (case rq_generation b of None \<Rightarrow> - 1 | Some g \<Rightarrow> g)
      \<and> rq_body a = rq_body b"
    using eq ids [OF a] ids [OF b] enc [OF a] enc [OF b]
    by (simp add: request_material_def study_family_def blob.cut_iff i64.cut_iff command_fingerprint.injective)
  moreover have "rq_generation a = rq_generation b"
    if "(case rq_generation a of None \<Rightarrow> - 1 | Some g \<Rightarrow> g) = (case rq_generation b of None \<Rightarrow> - 1 | Some g \<Rightarrow> g)"
    using that a b by (auto simp: request_ok_def optional_ok_def generation_ok_def split: option.splits)
  ultimately show ?thesis by (cases a; cases b) simp
qed

end
