(* ===== verification/Study_Scenario.thy ===== *)
theory Study_Scenario
  imports Study_Machine
begin

text \<open>
  A complete matched study driven through \<open>study_apply\<close>: one pair of episodes from the admission of
  its protocol to the closure of both arms, the completion of the run and an experimental fork.  The
  two states it passes through are written out and shown to be reachable; they are the concrete
  inputs at which the theorems about reachable states are applied.
\<close>

named_theorems scenario \<open>the tables of the two states\<close>

text \<open>
  A script interleaves commands, each under the next ledger row, with changes of the tables other
  kernel parts own; it fails at the first ill-typed or rejected command.
\<close>

fun run_script :: "(byte list \<Rightarrow> digest) \<Rightarrow> int \<Rightarrow> (study_command + kernel_env) list \<Rightarrow> study_db
    \<Rightarrow> study_db option" where
  "run_script h c [] db = Some db"
| "run_script h c (Inr e # ops) db = run_script h c ops (db\<lparr>env := e\<rparr>)"
| "run_script h c (Inl cmd # ops) db =
     (if study_command_typed cmd
      then (case study_apply h c cmd db of
              (Inl _, _) \<Rightarrow> None
            | (Inr _, db') \<Rightarrow> run_script h (c + 1) ops db')
      else None)"

text \<open>A stand-in for the hash: the length of its input.\<close>

definition length_hash :: "byte list \<Rightarrow> digest" where
  "length_hash bs = [of_nat (length bs)]"

definition scenario_env :: "(int \<times> digest) list \<Rightarrow> child_process_state \<Rightarrow> kernel_env" where
  "scenario_env seals state = \<lparr>
     env_applications = [1], env_seals = \<lparr>tb_rows = seals, tb_seq = 10\<rparr>,
     env_children = \<lparr>tb_rows = [(1, \<lparr>ch_admission = 1, ch_state = state\<rparr>)], tb_seq = 10\<rparr>,
     env_admissions =
       \<lparr>tb_rows = [(1, \<lparr>ad_attempt = None, ad_office = Some 1, ad_profile = Some 1\<rparr>)], tb_seq = 10\<rparr>,
     env_attempts = empty_table, env_recoveries = empty_table, env_pi_terminal = [],
     env_terminal = empty_table\<rparr>"

text \<open>From the protocol to the release of the matched correction.\<close>

definition scenario_opening :: "(study_command + kernel_env) list" where
  "scenario_opening = [
     Inl (AdmitProtocolRevision 1 [1] [1] [236] [153] [1] [2] [3] [1] 100),
     Inl (AdmitWorldRevision 1 [1]),
     Inl (AdmitMeasurementRevision 1 [1] 1),
     Inl (AdmitInstitutionRevision 1 [1]),
     Inl (AdmitPopulationSnapshot 1 [1] 1),
     Inl (AdmitPopulationSnapshot 1 [1] 1),
     Inl (AdmitEpisode 1 1 1 1 1 [7]),
     Inl (AdmitEpisode 1 1 1 1 1 [7]),
     Inl (AssignTreatment 1 Retained),
     Inl (AssignTreatment 2 Reset),
     Inl (AdmitMatchedPair 1 2),
     Inl (AdmitStudyRun 1 1 [1] 1),
     Inl (RegisterStudyRunPair 1 1 1 [7]),
     Inl (StartStudyRun 1),
     Inl (CreateEpisodeForum 1 [1]),
     Inl (CreateEpisodeForum 2 [1]),
     Inl (OpenForumThread 1 [1]),
     Inl (OpenForumThread 2 [1]),
     Inl (AdmitActorObligation 1 Source 1 [1] [236] [153] 10 1 1),
     Inl (AdmitActorObligation 2 Source 1 [1] [236] [153] 10 1 1),
     Inl (AdmitForumExposure 1 1 1),
     Inl (AdmitForumExposure 2 2 1),
     Inl (PublishForumMessage 1 Finding [1] None None),
     Inl (PublishForumMessage 2 Finding [1] None None),
     Inl (CompleteActorObligation 1 5),
     Inl (CompleteActorObligation 2 5),
     Inl (FreezeForumHead 1 1),
     Inl (FreezeForumHead 2 2),
     Inl (ReplacePopulation 1 2),
     Inl (ReplacePopulation 2 2),
     Inl (AdmitActorObligation 1 Successor 1 [1] [236] [153] 10 2 2),
     Inl (AdmitActorObligation 2 Successor 1 [1] [236] [153] 10 2 2),
     Inl (AdmitForumExposure 3 1 1),
     Inl (AdmitForumExposure 4 2 2),
     Inl (ReleaseMatchedCorrection 1 1 2 [1,2,3])]"

text \<open>From the first successor read to the fork of a closed episode.\<close>

definition scenario_closing :: "(study_command + kernel_env) list" where
  "scenario_closing = [
     Inr (scenario_env [(1, [1]), (2, [11])] ChildRunning),
     Inl (BindActorRuntime 4 1 1 1),
     Inl (ReadForum 4 2 2 2),
     Inl (PublishForumMessage 4 Challenge [1] (Some 4) None),
     Inl (PublishForumMessage 3 Synthesis [1] (Some 1) None),
     Inl (RecordDecision 4 [9] (Some 4)),
     Inl (RecordDecision 3 [9] (Some 6)),
     Inr (scenario_env [(1, [1]), (2, [11])] ChildFinalized),
     Inl (ReconcileActorRuntime 4 1),
     Inl (CompleteActorObligation 3 7),
     Inl (CompleteActorObligation 4 7),
     Inl (RevealGroundTruth 1 [1,2]),
     Inl (RevealGroundTruth 2 [1,2]),
     Inl (RecordMeasurementResult 1 1 Observed (Some 1) (Some [1]) None),
     Inl (RecordMeasurementResult 2 1 Unavailable None None (Some [1])),
     Inl (CloseEpisode 1),
     Inl (CloseEpisode 2),
     Inl (CompleteStudyRun 1),
     Inl (ForkEpisode 1 Reset)]"

text \<open>The two states, table by table.\<close>

definition scenario_protocols :: "(int, protocol_row) table" where
  "scenario_protocols =
    \<lparr>tb_rows = [(1, \<lparr>pr_application = 1, pr_protocol_digest = [1], pr_actor_policy = [1],
          pr_forum_prompt = [236], pr_forum_tool = [153], pr_evidence = [1], pr_ground_truth = [2],
          pr_correction = [3], pr_topology = [1], pr_budget = 100, pr_by = 1\<rparr>)],
    tb_seq = 2\<rparr>"

definition scenario_worlds :: "(int, world_row) table" where
  "scenario_worlds =
    \<lparr>tb_rows = [(1, \<lparr>wr_protocol = 1, wr_digest = [1], wr_by = 2\<rparr>)],
    tb_seq = 2\<rparr>"

definition scenario_measurements :: "(int, measurement_row) table" where
  "scenario_measurements =
    \<lparr>tb_rows = [(1, \<lparr>mr_protocol = 1, mr_digest = [1], mr_slots = 1, mr_by = 3\<rparr>)],
    tb_seq = 2\<rparr>"

definition scenario_institutions :: "(int, institution_row) table" where
  "scenario_institutions =
    \<lparr>tb_rows = [(1, \<lparr>ir_protocol = 1, ir_digest = [1], ir_by = 4\<rparr>)],
    tb_seq = 2\<rparr>"

definition scenario_populations :: "(int, population_row) table" where
  "scenario_populations =
    \<lparr>tb_rows = [(1, \<lparr>ps_protocol = 1, ps_digest = [1], ps_size = 1, ps_by = 5\<rparr>),
       (2,
          \<lparr>ps_protocol = 1, ps_digest = [1], ps_size = 1, ps_by = 6\<rparr>)],
    tb_seq = 3\<rparr>"

definition released_episodes :: "(int, episode_row) table" where
  "released_episodes =
    \<lparr>tb_rows = [(1, \<lparr>ep_protocol = 1, ep_world = 1, ep_measurement = 1, ep_institution = 1,
          ep_population = 1, ep_randomization = [7], ep_state = CorrectionReleased, ep_by = 7,
          ep_last = 35\<rparr>), (2, \<lparr>ep_protocol = 1, ep_world = 1, ep_measurement = 1,
          ep_institution = 1, ep_population = 1, ep_randomization = [7], ep_state = CorrectionReleased,
          ep_by = 8, ep_last = 35\<rparr>)],
    tb_seq = 3\<rparr>"

definition final_episodes :: "(int, episode_row) table" where
  "final_episodes =
    \<lparr>tb_rows = [(1, \<lparr>ep_protocol = 1, ep_world = 1, ep_measurement = 1, ep_institution = 1,
          ep_population = 1, ep_randomization = [7], ep_state = Closed, ep_by = 7, ep_last = 49\<rparr>),
          (2, \<lparr>ep_protocol = 1, ep_world = 1, ep_measurement = 1, ep_institution = 1,
          ep_population = 1, ep_randomization = [7], ep_state = Closed, ep_by = 8, ep_last = 50\<rparr>),
          (3, \<lparr>ep_protocol = 1, ep_world = 1, ep_measurement = 1, ep_institution = 1,
          ep_population = 1, ep_randomization = [22], ep_state = Admitted, ep_by = 52,
          ep_last = 52\<rparr>)],
    tb_seq = 4\<rparr>"

definition scenario_successors :: "(int, successor_row) table" where
  "scenario_successors =
    \<lparr>tb_rows = [(1, \<lparr>su_population = 2, su_by = 29\<rparr>), (2, \<lparr>su_population = 2,
          su_by = 30\<rparr>)],
    tb_seq = 1\<rparr>"

definition released_treatments :: "(int, treatment_row) table" where
  "released_treatments =
    \<lparr>tb_rows = [(1, \<lparr>ta_episode = 1, ta_treatment = Retained, ta_by = 9\<rparr>),
       (2,
          \<lparr>ta_episode = 2, ta_treatment = Reset, ta_by = 10\<rparr>)],
    tb_seq = 3\<rparr>"

definition final_treatments :: "(int, treatment_row) table" where
  "final_treatments =
    \<lparr>tb_rows = [(1, \<lparr>ta_episode = 1, ta_treatment = Retained, ta_by = 9\<rparr>),
       (2,
          \<lparr>ta_episode = 2, ta_treatment = Reset, ta_by = 10\<rparr>), (3, \<lparr>ta_episode = 3,
          ta_treatment = Reset, ta_by = 52\<rparr>)],
    tb_seq = 4\<rparr>"

definition scenario_pairs :: "(int, pair_row) table" where
  "scenario_pairs =
    \<lparr>tb_rows = [(1, \<lparr>pa_retained = 1, pa_reset = 2, pa_by = 11\<rparr>)],
    tb_seq = 2\<rparr>"

definition released_runs :: "(int, run_row) table" where
  "released_runs =
    \<lparr>tb_rows = [(1, \<lparr>ru_protocol = 1, ru_plan_object = 1, ru_plan_digest = [1], ru_pairs = 1,
          ru_registered = 1, ru_state = Running, ru_by = 12, ru_last = 14\<rparr>)],
    tb_seq = 2\<rparr>"

definition final_runs :: "(int, run_row) table" where
  "final_runs =
    \<lparr>tb_rows = [(1, \<lparr>ru_protocol = 1, ru_plan_object = 1, ru_plan_digest = [1], ru_pairs = 1,
          ru_registered = 1, ru_state = Completed, ru_by = 12, ru_last = 51\<rparr>)],
    tb_seq = 2\<rparr>"

definition scenario_run_pairs :: "(int \<times> int, run_pair_row) table" where
  "scenario_run_pairs =
    \<lparr>tb_rows = [((1, 1), \<lparr>rp_pair = 1, rp_randomization = [7], rp_by = 13\<rparr>)],
    tb_seq = 1\<rparr>"

definition released_forums :: "(int, forum_row) table" where
  "released_forums =
    \<lparr>tb_rows = [(1, \<lparr>fo_episode = 1, fo_charter = [1], fo_state = ForumOpen, fo_by = 15,
          fo_last = 15\<rparr>), (2, \<lparr>fo_episode = 2, fo_charter = [1], fo_state = ForumOpen,
          fo_by = 16, fo_last = 16\<rparr>)],
    tb_seq = 3\<rparr>"

definition final_forums :: "(int, forum_row) table" where
  "final_forums =
    \<lparr>tb_rows = [(1, \<lparr>fo_episode = 1, fo_charter = [1], fo_state = ForumClosed, fo_by = 15,
          fo_last = 49\<rparr>), (2, \<lparr>fo_episode = 2, fo_charter = [1], fo_state = ForumClosed,
          fo_by = 16, fo_last = 50\<rparr>)],
    tb_seq = 3\<rparr>"

definition released_threads :: "(int, thread_row) table" where
  "released_threads =
    \<lparr>tb_rows = [(1, \<lparr>th_forum = 1, th_title = [1], th_state = ThreadOpen, th_head = 2,
          th_by = 17\<rparr>), (2, \<lparr>th_forum = 2, th_title = [1], th_state = ThreadOpen,
          th_head = 2, th_by = 18\<rparr>)],
    tb_seq = 3\<rparr>"

definition final_threads :: "(int, thread_row) table" where
  "final_threads =
    \<lparr>tb_rows = [(1, \<lparr>th_forum = 1, th_title = [1], th_state = ThreadOpen, th_head = 3,
          th_by = 17\<rparr>), (2, \<lparr>th_forum = 2, th_title = [1], th_state = ThreadOpen,
          th_head = 3, th_by = 18\<rparr>)],
    tb_seq = 3\<rparr>"

definition released_obligations :: "(int, obligation_row) table" where
  "released_obligations =
    \<lparr>tb_rows = [(1, \<lparr>ob_episode = 1, ob_population = 1, ob_phase = Source, ob_role = 1,
          ob_view = [1], ob_prompt = [236], ob_tool = [153], ob_budget = 10, ob_charged = 5,
          ob_read_budget = 1, ob_reads_used = 0, ob_post_budget = 1, ob_posts_used = 1,
          ob_state = ObligationCompleted, ob_by = 19, ob_completed_by = Some 25, ob_failed_by = None,
          ob_failure_reason = None\<rparr>), (2, \<lparr>ob_episode = 2, ob_population = 1,
          ob_phase = Source, ob_role = 1, ob_view = [1], ob_prompt = [236], ob_tool = [153],
          ob_budget = 10, ob_charged = 5, ob_read_budget = 1, ob_reads_used = 0, ob_post_budget = 1,
          ob_posts_used = 1, ob_state = ObligationCompleted, ob_by = 20, ob_completed_by = Some 26,
          ob_failed_by = None, ob_failure_reason = None\<rparr>), (3, \<lparr>ob_episode = 1,
          ob_population = 2, ob_phase = Successor, ob_role = 1, ob_view = [1], ob_prompt = [236],
          ob_tool = [153], ob_budget = 10, ob_charged = 0, ob_read_budget = 2, ob_reads_used = 0,
          ob_post_budget = 2, ob_posts_used = 0, ob_state = ObligationActive, ob_by = 31,
          ob_completed_by = None, ob_failed_by = None, ob_failure_reason = None\<rparr>), (4,
          \<lparr>ob_episode = 2, ob_population = 2, ob_phase = Successor, ob_role = 1, ob_view = [1],
          ob_prompt = [236], ob_tool = [153], ob_budget = 10, ob_charged = 0, ob_read_budget = 2,
          ob_reads_used = 0, ob_post_budget = 2, ob_posts_used = 0, ob_state = ObligationActive,
          ob_by = 32, ob_completed_by = None, ob_failed_by = None, ob_failure_reason = None\<rparr>)],
    tb_seq = 5\<rparr>"

definition final_obligations :: "(int, obligation_row) table" where
  "final_obligations =
    \<lparr>tb_rows = [(1, \<lparr>ob_episode = 1, ob_population = 1, ob_phase = Source, ob_role = 1,
          ob_view = [1], ob_prompt = [236], ob_tool = [153], ob_budget = 10, ob_charged = 5,
          ob_read_budget = 1, ob_reads_used = 0, ob_post_budget = 1, ob_posts_used = 1,
          ob_state = ObligationCompleted, ob_by = 19, ob_completed_by = Some 25, ob_failed_by = None,
          ob_failure_reason = None\<rparr>), (2, \<lparr>ob_episode = 2, ob_population = 1,
          ob_phase = Source, ob_role = 1, ob_view = [1], ob_prompt = [236], ob_tool = [153],
          ob_budget = 10, ob_charged = 5, ob_read_budget = 1, ob_reads_used = 0, ob_post_budget = 1,
          ob_posts_used = 1, ob_state = ObligationCompleted, ob_by = 20, ob_completed_by = Some 26,
          ob_failed_by = None, ob_failure_reason = None\<rparr>), (3, \<lparr>ob_episode = 1,
          ob_population = 2, ob_phase = Successor, ob_role = 1, ob_view = [1], ob_prompt = [236],
          ob_tool = [153], ob_budget = 10, ob_charged = 7, ob_read_budget = 2, ob_reads_used = 0,
          ob_post_budget = 2, ob_posts_used = 1, ob_state = ObligationCompleted, ob_by = 31,
          ob_completed_by = Some 43, ob_failed_by = None, ob_failure_reason = None\<rparr>), (4,
          \<lparr>ob_episode = 2, ob_population = 2, ob_phase = Successor, ob_role = 1, ob_view = [1],
          ob_prompt = [236], ob_tool = [153], ob_budget = 10, ob_charged = 7, ob_read_budget = 2,
          ob_reads_used = 1, ob_post_budget = 2, ob_posts_used = 1, ob_state = ObligationCompleted,
          ob_by = 32, ob_completed_by = Some 44, ob_failed_by = None, ob_failure_reason = None\<rparr>)],
    tb_seq = 5\<rparr>"

definition scenario_occurrences :: "(int, occurrence_row) table" where
  "scenario_occurrences =
    \<lparr>tb_rows = [(1, \<lparr>oc_obligation = 1, oc_by = 19\<rparr>), (2, \<lparr>oc_obligation = 2,
          oc_by = 20\<rparr>), (3, \<lparr>oc_obligation = 3, oc_by = 31\<rparr>), (4,
          \<lparr>oc_obligation = 4, oc_by = 32\<rparr>)],
    tb_seq = 5\<rparr>"

definition released_bindings :: "(int, binding_row) table" where
  "released_bindings =
    \<lparr>tb_rows = [],
    tb_seq = 1\<rparr>"

definition final_bindings :: "(int, binding_row) table" where
  "final_bindings =
    \<lparr>tb_rows = [(4, \<lparr>rb_attempt = None, rb_office = Some 1, rb_child = 1, rb_admission = 1,
          rb_profile = 1, rb_state = Reconciled, rb_by = 36, rb_reconciled_by = Some 42,
          rb_settled_by = None\<rparr>)],
    tb_seq = 1\<rparr>"

definition scenario_settlements :: "(int, settlement_row) table" where
  "scenario_settlements =
    \<lparr>tb_rows = [],
    tb_seq = 1\<rparr>"

definition scenario_frozen :: "(int, frozen_row) table" where
  "scenario_frozen =
    \<lparr>tb_rows = [(1, \<lparr>fz_thread = 1, fz_head = 1, fz_by = 27\<rparr>),
       (2,
          \<lparr>fz_thread = 2, fz_head = 1, fz_by = 28\<rparr>)],
    tb_seq = 1\<rparr>"

definition released_exposures :: "(int, exposure_row) table" where
  "released_exposures =
    \<lparr>tb_rows = [(1, \<lparr>ex_obligation = 1, ex_forum = 1, ex_from = 1, ex_through = 2,
          ex_by = 21\<rparr>), (2, \<lparr>ex_obligation = 2, ex_forum = 2, ex_from = 1, ex_through = 2,
          ex_by = 22\<rparr>), (3, \<lparr>ex_obligation = 3, ex_forum = 1, ex_from = 1, ex_through = 2,
          ex_by = 33\<rparr>), (4, \<lparr>ex_obligation = 4, ex_forum = 2, ex_from = 2, ex_through = 2,
          ex_by = 34\<rparr>)],
    tb_seq = 5\<rparr>"

definition final_exposures :: "(int, exposure_row) table" where
  "final_exposures =
    \<lparr>tb_rows = [(1, \<lparr>ex_obligation = 1, ex_forum = 1, ex_from = 1, ex_through = 3,
          ex_by = 21\<rparr>), (2, \<lparr>ex_obligation = 2, ex_forum = 2, ex_from = 1, ex_through = 3,
          ex_by = 22\<rparr>), (3, \<lparr>ex_obligation = 3, ex_forum = 1, ex_from = 1, ex_through = 3,
          ex_by = 33\<rparr>), (4, \<lparr>ex_obligation = 4, ex_forum = 2, ex_from = 2, ex_through = 3,
          ex_by = 34\<rparr>)],
    tb_seq = 5\<rparr>"

definition released_messages :: "(int, message_row) table" where
  "released_messages =
    \<lparr>tb_rows = [(1, \<lparr>ms_thread = 1, ms_ordinal = 1, ms_author = Some 1, ms_service = False,
          ms_kind = Finding, ms_reply = None, ms_supersedes = None, ms_body = [1], ms_digest = [1],
          ms_state = Published, ms_by = 23\<rparr>), (2, \<lparr>ms_thread = 2, ms_ordinal = 1,
          ms_author = Some 2, ms_service = False, ms_kind = Finding, ms_reply = None, ms_supersedes = None,
          ms_body = [1], ms_digest = [1], ms_state = Published, ms_by = 24\<rparr>), (3,
          \<lparr>ms_thread = 1, ms_ordinal = 2, ms_author = None, ms_service = True,
          ms_kind = Correction, ms_reply = None, ms_supersedes = None, ms_body = [1, 2, 3],
          ms_digest = [3], ms_state = Published, ms_by = 35\<rparr>), (4, \<lparr>ms_thread = 2,
          ms_ordinal = 2, ms_author = None, ms_service = True, ms_kind = Correction, ms_reply = None,
          ms_supersedes = None, ms_body = [1, 2, 3], ms_digest = [3], ms_state = Published,
          ms_by = 35\<rparr>)],
    tb_seq = 5\<rparr>"

definition final_messages :: "(int, message_row) table" where
  "final_messages =
    \<lparr>tb_rows = [(1, \<lparr>ms_thread = 1, ms_ordinal = 1, ms_author = Some 1, ms_service = False,
          ms_kind = Finding, ms_reply = None, ms_supersedes = None, ms_body = [1], ms_digest = [1],
          ms_state = Published, ms_by = 23\<rparr>), (2, \<lparr>ms_thread = 2, ms_ordinal = 1,
          ms_author = Some 2, ms_service = False, ms_kind = Finding, ms_reply = None, ms_supersedes = None,
          ms_body = [1], ms_digest = [1], ms_state = Published, ms_by = 24\<rparr>), (3,
          \<lparr>ms_thread = 1, ms_ordinal = 2, ms_author = None, ms_service = True,
          ms_kind = Correction, ms_reply = None, ms_supersedes = None, ms_body = [1, 2, 3],
          ms_digest = [3], ms_state = Published, ms_by = 35\<rparr>), (4, \<lparr>ms_thread = 2,
          ms_ordinal = 2, ms_author = None, ms_service = True, ms_kind = Correction, ms_reply = None,
          ms_supersedes = None, ms_body = [1, 2, 3], ms_digest = [3], ms_state = Published,
          ms_by = 35\<rparr>), (5, \<lparr>ms_thread = 2, ms_ordinal = 3, ms_author = Some 4,
          ms_service = False, ms_kind = Challenge, ms_reply = Some 4, ms_supersedes = None, ms_body = [1],
          ms_digest = [1], ms_state = Published, ms_by = 38\<rparr>), (6, \<lparr>ms_thread = 1,
          ms_ordinal = 3, ms_author = Some 3, ms_service = False, ms_kind = Synthesis, ms_reply = Some 1,
          ms_supersedes = None, ms_body = [1], ms_digest = [1], ms_state = Published, ms_by = 39\<rparr>)],
    tb_seq = 7\<rparr>"

definition released_receipts :: "(int, receipt_row) table" where
  "released_receipts =
    \<lparr>tb_rows = [],
    tb_seq = 1\<rparr>"

definition final_receipts :: "(int, receipt_row) table" where
  "final_receipts =
    \<lparr>tb_rows = [(1, \<lparr>rr_obligation = 4, rr_thread = 2, rr_first = 2, rr_through = 2,
          rr_revision = 1, rr_bytes = 267, rr_digest = [11], rr_object = 2, rr_by = 37\<rparr>)],
    tb_seq = 2\<rparr>"

definition released_decisions :: "(int, decision_row) table" where
  "released_decisions =
    \<lparr>tb_rows = [],
    tb_seq = 1\<rparr>"

definition final_decisions :: "(int, decision_row) table" where
  "final_decisions =
    \<lparr>tb_rows = [(4, \<lparr>de_body = [9], de_digest = [1], de_cited = Some 4, de_by = 40\<rparr>),
          (3, \<lparr>de_body = [9], de_digest = [1], de_cited = Some 6, de_by = 41\<rparr>)],
    tb_seq = 1\<rparr>"

definition released_reveals :: "(int, reveal_row) table" where
  "released_reveals =
    \<lparr>tb_rows = [],
    tb_seq = 1\<rparr>"

definition final_reveals :: "(int, reveal_row) table" where
  "final_reveals =
    \<lparr>tb_rows = [(1, \<lparr>gt_body = [1, 2], gt_digest = [2], gt_by = 45\<rparr>),
       (2,
          \<lparr>gt_body = [1, 2], gt_digest = [2], gt_by = 46\<rparr>)],
    tb_seq = 1\<rparr>"

definition released_results :: "(int, result_row) table" where
  "released_results =
    \<lparr>tb_rows = [],
    tb_seq = 1\<rparr>"

definition final_results :: "(int, result_row) table" where
  "final_results =
    \<lparr>tb_rows = [(1, \<lparr>me_episode = 1, me_slot = 1, me_status = Observed, me_value = Some 1,
          me_value_digest = Some [1], me_reason = None, me_by = 47\<rparr>), (2, \<lparr>me_episode = 2,
          me_slot = 1, me_status = Unavailable, me_value = None, me_value_digest = None,
          me_reason = Some [1], me_by = 48\<rparr>)],
    tb_seq = 3\<rparr>"

definition released_forks :: "(int, fork_row) table" where
  "released_forks =
    \<lparr>tb_rows = [],
    tb_seq = 1\<rparr>"

definition final_forks :: "(int, fork_row) table" where
  "final_forks =
    \<lparr>tb_rows = [(1, \<lparr>fk_source = 1, fk_forked = 3, fk_treatment = Reset, fk_by = 52\<rparr>)],
    tb_seq = 2\<rparr>"

definition released_db :: study_db where
  "released_db = \<lparr>
     protocols = scenario_protocols,
     worlds = scenario_worlds,
     measurements = scenario_measurements,
     institutions = scenario_institutions,
     populations = scenario_populations,
     episodes = released_episodes,
     successors = scenario_successors,
     treatments = released_treatments,
     pairs = scenario_pairs,
     runs = released_runs,
     run_pairs = scenario_run_pairs,
     forums = released_forums,
     threads = released_threads,
     obligations = released_obligations,
     occurrences = scenario_occurrences,
     bindings = released_bindings,
     settlements = scenario_settlements,
     frozen = scenario_frozen,
     exposures = released_exposures,
     messages = released_messages,
     receipts = released_receipts,
     decisions = released_decisions,
     reveals = released_reveals,
     results = released_results,
     forks = released_forks,
     env = scenario_env [(1, [1])] ChildRunning\<rparr>"

definition final_db :: study_db where
  "final_db = \<lparr>
     protocols = scenario_protocols,
     worlds = scenario_worlds,
     measurements = scenario_measurements,
     institutions = scenario_institutions,
     populations = scenario_populations,
     episodes = final_episodes,
     successors = scenario_successors,
     treatments = final_treatments,
     pairs = scenario_pairs,
     runs = final_runs,
     run_pairs = scenario_run_pairs,
     forums = final_forums,
     threads = final_threads,
     obligations = final_obligations,
     occurrences = scenario_occurrences,
     bindings = final_bindings,
     settlements = scenario_settlements,
     frozen = scenario_frozen,
     exposures = final_exposures,
     messages = final_messages,
     receipts = final_receipts,
     decisions = final_decisions,
     reveals = final_reveals,
     results = final_results,
     forks = final_forks,
     env = scenario_env [(1, [1]), (2, [11])] ChildFinalized\<rparr>"

lemma run_script_reachable:
  "study_reachable h db \<Longrightarrow> run_script h c ops db = Some db' \<Longrightarrow> study_reachable h db'"
proof (induction h c ops db rule: run_script.induct)
  case (2 h c e ops db)
  then show ?case by (simp add: study_reachable.kernel)
next
  case (3 h c cmd ops db)
  then show ?case
    by (auto intro: study_reachable.accepted split: if_splits sum.splits prod.splits)
qed simp

lemma run_opening:
  "run_script length_hash 1 scenario_opening (empty_study_db (scenario_env [(1, [1])] ChildRunning))
   = Some released_db"
  by code_simp

lemma run_closing: "run_script length_hash 36 scenario_closing released_db = Some final_db"
  by code_simp

lemma released_reachable: "study_reachable length_hash released_db"
  by (rule run_script_reachable [OF study_reachable.initial run_opening])

lemma final_reachable: "study_reachable length_hash final_db"
  by (rule run_script_reachable [OF released_reachable run_closing])

section \<open>Lookups in the two states\<close>

lemma released_tables [scenario]:
  "protocols released_db = scenario_protocols"
  "worlds released_db = scenario_worlds"
  "measurements released_db = scenario_measurements"
  "institutions released_db = scenario_institutions"
  "populations released_db = scenario_populations"
  "episodes released_db = released_episodes"
  "successors released_db = scenario_successors"
  "treatments released_db = released_treatments"
  "pairs released_db = scenario_pairs"
  "runs released_db = released_runs"
  "run_pairs released_db = scenario_run_pairs"
  "forums released_db = released_forums"
  "threads released_db = released_threads"
  "obligations released_db = released_obligations"
  "occurrences released_db = scenario_occurrences"
  "bindings released_db = released_bindings"
  "settlements released_db = scenario_settlements"
  "frozen released_db = scenario_frozen"
  "exposures released_db = released_exposures"
  "messages released_db = released_messages"
  "receipts released_db = released_receipts"
  "decisions released_db = released_decisions"
  "reveals released_db = released_reveals"
  "results released_db = released_results"
  "forks released_db = released_forks"
  "env released_db = scenario_env [(1, [1])] ChildRunning"
  by (simp_all add: released_db_def)

lemma final_tables [scenario]:
  "protocols final_db = scenario_protocols"
  "worlds final_db = scenario_worlds"
  "measurements final_db = scenario_measurements"
  "institutions final_db = scenario_institutions"
  "populations final_db = scenario_populations"
  "episodes final_db = final_episodes"
  "successors final_db = scenario_successors"
  "treatments final_db = final_treatments"
  "pairs final_db = scenario_pairs"
  "runs final_db = final_runs"
  "run_pairs final_db = scenario_run_pairs"
  "forums final_db = final_forums"
  "threads final_db = final_threads"
  "obligations final_db = final_obligations"
  "occurrences final_db = scenario_occurrences"
  "bindings final_db = final_bindings"
  "settlements final_db = scenario_settlements"
  "frozen final_db = scenario_frozen"
  "exposures final_db = final_exposures"
  "messages final_db = final_messages"
  "receipts final_db = final_receipts"
  "decisions final_db = final_decisions"
  "reveals final_db = final_reveals"
  "results final_db = final_results"
  "forks final_db = final_forks"
  "env final_db = scenario_env [(1, [1]), (2, [11])] ChildFinalized"
  by (simp_all add: final_db_def)

lemmas scenario_rows =
  final_bindings_def final_decisions_def final_episodes_def final_exposures_def
  final_forks_def final_forums_def final_messages_def final_obligations_def
  final_receipts_def final_results_def final_reveals_def final_runs_def
  final_threads_def final_treatments_def released_bindings_def released_decisions_def
  released_episodes_def released_exposures_def released_forks_def released_forums_def
  released_messages_def released_obligations_def released_receipts_def released_results_def
  released_reveals_def released_runs_def released_threads_def released_treatments_def
  scenario_frozen_def scenario_institutions_def scenario_measurements_def scenario_occurrences_def
  scenario_pairs_def scenario_populations_def scenario_protocols_def scenario_run_pairs_def
  scenario_settlements_def scenario_successors_def scenario_worlds_def

end
