(* ===== verification/Kernel_Scenario.thy ===== *)
theory Kernel_Scenario
  imports Kernel Study_Scenario
begin

text \<open>
  A fresh kernel with one service grant that admits a protocol revision and refuses to start a run
  nobody registered: the concrete requests at which the theorems about the ledger are applied.
\<close>

definition kernel_hash :: "byte list \<Rightarrow> digest" where
  "kernel_hash = as_digest length_hash"

definition seed :: "byte \<Rightarrow> digest" where
  "seed b = b # replicate 31 0"

definition kernel_start :: "study_db kernel_db" where
  "kernel_start = empty_kernel
     \<lparr>au_grants = \<lparr>tb_rows = [(1, \<lparr>gr_principal = 2, gr_capability = 101, gr_state = 1, gr_office = None,
        gr_actor = None, gr_consumed = None\<rparr>)], tb_seq = 2\<rparr>, au_occupancies = empty_table, au_actors = empty_table,
      au_principals = empty_table\<rparr>
     (scenario_env [(1, [1])] ChildRunning)"

definition service_request :: "byte list \<Rightarrow> study_command \<Rightarrow> study_command command_request" where
  "service_request i cmd =
     \<lparr>rq_id = i, rq_principal = 2, rq_grant = 1, rq_capability = 101, rq_generation = None, rq_body = cmd\<rparr>"

definition admit_request :: "study_command command_request" where
  "admit_request = service_request [65]
     (AdmitProtocolRevision 1 (seed 1) (seed 1) (seed 236) (seed 153) (seed 1) (seed 2) (seed 3) (seed 1) 100)"

definition start_request :: "study_command command_request" where
  "start_request = service_request [66] (StartStudyRun 1)"

lemma kernel_hash_ok: "digest_ok (kernel_hash b)"
  by (simp add: kernel_hash_def as_digest_ok)

lemma kernel_start_reachable: "kernel_reachable kernel_hash kernel_start"
  unfolding kernel_start_def by (rule kernel_reachable.initial)

lemma service_request_ok:
  assumes "command_id_ok i" "study_command_exact cmd"
  shows "request_ok study_command_exact (service_request i cmd)"
  using assms by (simp add: request_ok_def service_request_def identifier_ok_def in_i64_def study_identifier_new_def
      capability_ok_def optional_ok_def)

lemma admit_request_ok: "request_ok study_command_exact admit_request"
  unfolding admit_request_def
  by (rule service_request_ok)
    (simp_all add: command_id_ok_def study_command_exact_def identifier_ok_def in_i64_def study_identifier_new_def
      digest_ok_def seed_def budget_units_ok_def)

lemma start_request_ok: "request_ok study_command_exact start_request"
  unfolding start_request_def
  by (rule service_request_ok)
    (simp_all add: command_id_ok_def study_command_exact_def identifier_ok_def in_i64_def study_identifier_new_def)

lemma admit_answer:
  "fst (execute kernel_hash (study_family kernel_hash) admit_request kernel_start)
   = Inr \<lparr>rc_disposition = Accepted 1, rc_idempotent = False\<rparr>"
  by code_simp

lemma start_answer:
  "fst (execute kernel_hash (study_family kernel_hash) start_request kernel_start)
   = Inr \<lparr>rc_disposition = Rejected SubjectNotFound, rc_idempotent = False\<rparr>"
  by code_simp

lemma start_refused:
  "execute kernel_hash (study_family kernel_hash) start_request kernel_start
   = (Inr \<lparr>rc_disposition = Rejected SubjectNotFound, rc_idempotent = False\<rparr>,
      snd (execute kernel_hash (study_family kernel_hash) start_request kernel_start))"
  using start_answer by (simp add: prod_eq_iff)

lemma start_reused:
  "request_ok study_command_exact (start_request\<lparr>rq_body := AdmitMatchedPair 1 2\<rparr>)"
  "rq_id (start_request\<lparr>rq_body := AdmitMatchedPair 1 2\<rparr>) = rq_id start_request"
  "start_request\<lparr>rq_body := AdmitMatchedPair 1 2\<rparr> \<noteq> start_request"
  "kernel_hash (request_material (study_family kernel_hash) (start_request\<lparr>rq_body := AdmitMatchedPair 1 2\<rparr>))
   \<noteq> kernel_hash (request_material (study_family kernel_hash) start_request)"
proof -
  show "kernel_hash (request_material (study_family kernel_hash) (start_request\<lparr>rq_body := AdmitMatchedPair 1 2\<rparr>))
      \<noteq> kernel_hash (request_material (study_family kernel_hash) start_request)"
    by code_simp
qed (use start_request_ok in \<open>simp_all add: request_ok_def start_request_def service_request_def
    study_command_exact_def identifier_ok_def in_i64_def study_identifier_new_def\<close>)

end
