(* ===== verification/Attempt_Scheduler.thy ===== *)
theory Attempt_Scheduler
  imports Study_Machine Ledger
begin

text \<open>
  The coordinator of live task attempts (\<^verbatim>\<open>societyd/src/task_attempt_scheduler.rs\<close>): the schedule of
  every obligation and actor attempt, the closed lifecycle it moves along, the kernel commands it may
  issue and their stable identities.  The driver of native processes is a trait of the source; here
  it is a record of two functions over a state of its own.
\<close>

section \<open>Schedules\<close>

record schedule_key =
  sk_obligation :: int
  sk_attempt :: int

record spawn_receipt =
  sp_attempt :: int
  sp_child :: int
  sp_admission :: int

datatype (plugins only: code) attempt_progress =
    ProgressWaiting | ProgressReady | ProgressDisposed | ProgressContainment | ProgressReconciled

datatype (plugins only: code) driver_failure =
    PreflightRejected | NativeSpawnFailed | BoundaryContainmentRequired | ProtocolFailed
  | PhysicalReconciliationFailed

datatype (plugins only: code) schedule_state =
    SpawnPending | Spawned | RuntimeBound | SessionReadied | SessionDisposed | ContainmentRequired
  | PhysicalReconciled | RuntimeReconciled

record schedule_entry =
  ent_child :: "spawn_receipt option"
  ent_state :: schedule_state

datatype (plugins only: code) scheduler_error =
    DuplicateSchedule | UnknownSchedule | InvalidLifecycle | DriverIdentityMismatch
  | UnexpectedDriverProgress | DriverFailed driver_failure | InvalidCommandIdentity

type_synonym scheduler = "schedule_key \<rightharpoonup> schedule_entry"

record 'd task_attempt_driver =
  td_spawn :: "schedule_key \<Rightarrow> 'd \<Rightarrow> (driver_failure + spawn_receipt) \<times> 'd"
  td_drive :: "spawn_receipt \<Rightarrow> int \<Rightarrow> 'd \<Rightarrow> (driver_failure + attempt_progress) \<times> 'd"

definition set_state :: "schedule_key \<Rightarrow> schedule_entry \<Rightarrow> schedule_state \<Rightarrow> scheduler \<Rightarrow> scheduler" where
  "set_state key e s sched = sched(key \<mapsto> e\<lparr>ent_state := s\<rparr>)"

section \<open>Operations\<close>

definition scheduler_spawn ::
  "'d task_attempt_driver \<Rightarrow> schedule_key \<Rightarrow> scheduler \<times> 'd
     \<Rightarrow> (scheduler_error + spawn_receipt) \<times> scheduler \<times> 'd" where
  "scheduler_spawn drv key = (\<lambda>(sched, d).
     if sched key \<noteq> None then (Inl DuplicateSchedule, sched, d)
     else
       (let pending = sched(key \<mapsto> \<lparr>ent_child = None, ent_state = SpawnPending\<rparr>) in
        case td_spawn drv key d of
          (Inl f, d') \<Rightarrow> (Inl (DriverFailed f), pending(key := None), d')
        | (Inr receipt, d') \<Rightarrow>
            if sp_attempt receipt \<noteq> sk_attempt key
            then (Inl DriverIdentityMismatch,
                  pending(key \<mapsto> \<lparr>ent_child = Some receipt, ent_state = ContainmentRequired\<rparr>), d')
            else (Inr receipt, pending(key \<mapsto> \<lparr>ent_child = Some receipt, ent_state = Spawned\<rparr>), d')))"

definition record_spawned ::
  "schedule_key \<Rightarrow> spawn_receipt \<Rightarrow> scheduler \<Rightarrow> (scheduler_error + unit) \<times> scheduler" where
  "record_spawned key receipt sched =
     (if sched key \<noteq> None then (Inl DuplicateSchedule, sched)
      else if sp_attempt receipt \<noteq> sk_attempt key then (Inl DriverIdentityMismatch, sched)
      else (Inr (), sched(key \<mapsto> \<lparr>ent_child = Some receipt, ent_state = Spawned\<rparr>)))"

text \<open>The shape of the recording operations: one required phase, one next phase.\<close>

definition advance ::
  "schedule_state set \<Rightarrow> schedule_state \<Rightarrow> schedule_key \<Rightarrow> scheduler
     \<Rightarrow> (scheduler_error + unit) \<times> scheduler" where
  "advance from to key sched = (case sched key of
     None \<Rightarrow> (Inl UnknownSchedule, sched)
   | Some e \<Rightarrow>
       if ent_state e \<notin> from then (Inl InvalidLifecycle, sched)
       else (Inr (), set_state key e to sched))"

definition record_containment_required :: "schedule_key \<Rightarrow> scheduler \<Rightarrow> (scheduler_error + unit) \<times> scheduler" where
  "record_containment_required =
     advance {Spawned, RuntimeBound, SessionReadied, SessionDisposed} ContainmentRequired"

definition record_runtime_bound :: "schedule_key \<Rightarrow> scheduler \<Rightarrow> (scheduler_error + unit) \<times> scheduler" where
  "record_runtime_bound = advance {Spawned} RuntimeBound"

definition record_ready :: "schedule_key \<Rightarrow> scheduler \<Rightarrow> (scheduler_error + unit) \<times> scheduler" where
  "record_ready = advance {RuntimeBound} SessionReadied"

definition record_disposed :: "schedule_key \<Rightarrow> scheduler \<Rightarrow> (scheduler_error + unit) \<times> scheduler" where
  "record_disposed = advance {SessionReadied} SessionDisposed"

definition record_physical_reconciled :: "schedule_key \<Rightarrow> scheduler \<Rightarrow> (scheduler_error + unit) \<times> scheduler" where
  "record_physical_reconciled = advance {SessionDisposed, ContainmentRequired} PhysicalReconciled"

definition record_runtime_reconciled :: "schedule_key \<Rightarrow> scheduler \<Rightarrow> (scheduler_error + unit) \<times> scheduler" where
  "record_runtime_reconciled = advance {PhysicalReconciled} RuntimeReconciled"

definition scheduler_state :: "schedule_key \<Rightarrow> scheduler \<Rightarrow> scheduler_error + schedule_state" where
  "scheduler_state key sched = (case sched key of
     None \<Rightarrow> Inl UnknownSchedule | Some e \<Rightarrow> Inr (ent_state e))"

definition scheduler_child :: "schedule_key \<Rightarrow> scheduler \<Rightarrow> scheduler_error + spawn_receipt" where
  "scheduler_child key sched = (case sched key of
     None \<Rightarrow> Inl UnknownSchedule
   | Some e \<Rightarrow> (case ent_child e of None \<Rightarrow> Inl InvalidLifecycle | Some c \<Rightarrow> Inr c))"

definition runtime_binding_command :: "schedule_key \<Rightarrow> scheduler \<Rightarrow> scheduler_error + study_command" where
  "runtime_binding_command key sched = (case sched key of
     None \<Rightarrow> Inl UnknownSchedule
   | Some e \<Rightarrow>
       if ent_state e \<noteq> Spawned then Inl InvalidLifecycle
       else
         (case ent_child e of
            None \<Rightarrow> Inl InvalidLifecycle
          | Some child \<Rightarrow>
              Inr (BindActorTaskAttemptRuntime (sk_obligation key) (sk_attempt key) (sp_child child)
                     (sp_admission child))))"

definition runtime_reconciliation_command ::
  "schedule_key \<Rightarrow> scheduler \<Rightarrow> scheduler_error + study_command" where
  "runtime_reconciliation_command key sched = (case sched key of
     None \<Rightarrow> Inl UnknownSchedule
   | Some e \<Rightarrow>
       if ent_state e \<noteq> PhysicalReconciled then Inl InvalidLifecycle
       else
         (case ent_child e of
            None \<Rightarrow> Inl InvalidLifecycle
          | Some child \<Rightarrow> Inr (ReconcileActorRuntime (sk_obligation key) (sp_child child))))"

text \<open>The match of \<open>drive\<close> over the phase and the reported progress.\<close>

definition drive_state :: "schedule_state \<Rightarrow> attempt_progress \<Rightarrow> schedule_state option" where
  "drive_state s p = (case (s, p) of
     (RuntimeBound, ProgressWaiting) \<Rightarrow> Some RuntimeBound
   | (RuntimeBound, ProgressReady) \<Rightarrow> Some SessionReadied
   | (SessionReadied, ProgressWaiting) \<Rightarrow> Some SessionReadied
   | (SessionReadied, ProgressReady) \<Rightarrow> Some SessionReadied
   | (SessionReadied, ProgressDisposed) \<Rightarrow> Some SessionDisposed
   | (SessionDisposed, ProgressWaiting) \<Rightarrow> Some SessionDisposed
   | (SessionDisposed, ProgressDisposed) \<Rightarrow> Some SessionDisposed
   | (SessionDisposed, ProgressReconciled) \<Rightarrow> Some PhysicalReconciled
   | (RuntimeBound, ProgressContainment) \<Rightarrow> Some ContainmentRequired
   | (SessionReadied, ProgressContainment) \<Rightarrow> Some ContainmentRequired
   | (SessionDisposed, ProgressContainment) \<Rightarrow> Some ContainmentRequired
   | (ContainmentRequired, ProgressWaiting) \<Rightarrow> Some ContainmentRequired
   | (ContainmentRequired, ProgressContainment) \<Rightarrow> Some ContainmentRequired
   | (ContainmentRequired, ProgressReconciled) \<Rightarrow> Some PhysicalReconciled
   | _ \<Rightarrow> None)"

definition scheduler_drive ::
  "'d task_attempt_driver \<Rightarrow> schedule_key \<Rightarrow> int \<Rightarrow> scheduler \<times> 'd
     \<Rightarrow> (scheduler_error + schedule_state) \<times> scheduler \<times> 'd" where
  "scheduler_drive drv key now = (\<lambda>(sched, d).
     case sched key of
       None \<Rightarrow> (Inl UnknownSchedule, sched, d)
     | Some e \<Rightarrow>
         (case ent_child e of
            None \<Rightarrow> (Inl InvalidLifecycle, sched, d)
          | Some child \<Rightarrow>
              if ent_state e \<notin> {RuntimeBound, SessionReadied, SessionDisposed, ContainmentRequired}
              then (Inl InvalidLifecycle, sched, d)
              else
                (case td_drive drv child now d of
                   (Inl f, d') \<Rightarrow> (Inl (DriverFailed f), sched, d')
                 | (Inr p, d') \<Rightarrow>
                     (case drive_state (ent_state e) p of
                        None \<Rightarrow> (Inl UnexpectedDriverProgress, sched, d')
                      | Some s \<Rightarrow> (Inr s, set_state key e s sched, d')))))"

section \<open>The lifecycle\<close>

text \<open>Any operation of the scheduler, with whatever answer.\<close>

inductive scheduler_step ::
  "'d task_attempt_driver \<Rightarrow> scheduler \<times> 'd \<Rightarrow> scheduler \<times> 'd \<Rightarrow> bool" for drv where
  spawn: "scheduler_spawn drv key st = (r, st') \<Longrightarrow> scheduler_step drv st st'"
| drive: "scheduler_drive drv key now st = (r, st') \<Longrightarrow> scheduler_step drv st st'"
| spawned: "record_spawned key receipt sched = (r, sched') \<Longrightarrow> scheduler_step drv (sched, d) (sched', d)"
| contain: "record_containment_required key sched = (r, sched') \<Longrightarrow> scheduler_step drv (sched, d) (sched', d)"
| bound: "record_runtime_bound key sched = (r, sched') \<Longrightarrow> scheduler_step drv (sched, d) (sched', d)"
| ready: "record_ready key sched = (r, sched') \<Longrightarrow> scheduler_step drv (sched, d) (sched', d)"
| disposed: "record_disposed key sched = (r, sched') \<Longrightarrow> scheduler_step drv (sched, d) (sched', d)"
| physical: "record_physical_reconciled key sched = (r, sched') \<Longrightarrow> scheduler_step drv (sched, d) (sched', d)"
| reconciled: "record_runtime_reconciled key sched = (r, sched') \<Longrightarrow> scheduler_step drv (sched, d) (sched', d)"

text \<open>The edges of the closed lifecycle; progress towards its end.\<close>

definition schedule_edge :: "schedule_state \<Rightarrow> schedule_state \<Rightarrow> bool" where
  "schedule_edge s t \<longleftrightarrow>
     (s, t) \<in> {(Spawned, RuntimeBound), (RuntimeBound, SessionReadied), (SessionReadied, SessionDisposed),
       (SessionDisposed, PhysicalReconciled), (Spawned, ContainmentRequired),
       (RuntimeBound, ContainmentRequired), (SessionReadied, ContainmentRequired),
       (SessionDisposed, ContainmentRequired), (ContainmentRequired, PhysicalReconciled),
       (PhysicalReconciled, RuntimeReconciled)}"

definition schedule_rank :: "schedule_state \<Rightarrow> nat" where
  "schedule_rank s = (case s of SpawnPending \<Rightarrow> 7 | Spawned \<Rightarrow> 6 | RuntimeBound \<Rightarrow> 5 | SessionReadied \<Rightarrow> 4
     | SessionDisposed \<Rightarrow> 3 | ContainmentRequired \<Rightarrow> 2 | PhysicalReconciled \<Rightarrow> 1 | RuntimeReconciled \<Rightarrow> 0)"

lemma schedule_edge_rank: "schedule_edge s t \<Longrightarrow> schedule_rank t < schedule_rank s"
  by (auto simp: schedule_edge_def schedule_rank_def)

lemma drive_state_edge: "drive_state s p = Some t \<Longrightarrow> t = s \<or> schedule_edge s t"
  by (cases s; cases p; simp add: drive_state_def schedule_edge_def)

text \<open>
  What one operation does to the schedule of any key: an old one keeps its child and stays or moves
  along one edge, and a new one starts out spawned with its own child, or contained.
\<close>

definition entry_moves :: "schedule_key \<Rightarrow> schedule_entry option \<Rightarrow> schedule_entry option \<Rightarrow> bool" where
  "entry_moves key a b = (case (a, b) of
     (None, None) \<Rightarrow> True
   | (None, Some e) \<Rightarrow> (\<exists>c. ent_child e = Some c
       \<and> (ent_state e = Spawned \<and> sp_attempt c = sk_attempt key
          \<or> ent_state e = ContainmentRequired \<and> sp_attempt c \<noteq> sk_attempt key))
   | (Some e, None) \<Rightarrow> False
   | (Some e, Some f) \<Rightarrow> ent_child f = ent_child e
       \<and> (ent_state f = ent_state e \<or> schedule_edge (ent_state e) (ent_state f)))"

lemma entry_moves_refl [simp]: "entry_moves key a a"
  by (cases a) (simp_all add: entry_moves_def)

lemma entry_moves_set_state:
  "sched key = Some e \<Longrightarrow> s = ent_state e \<or> schedule_edge (ent_state e) s \<Longrightarrow>
     entry_moves j (sched j) (set_state key e s sched j)"
  by (auto simp: set_state_def entry_moves_def split: option.split)

lemma entry_moves_advance:
  "advance from to key sched = (r, sched') \<Longrightarrow> \<forall>s\<in>from. schedule_edge s to \<Longrightarrow>
     entry_moves j (sched j) (sched' j)"
  by (auto simp: advance_def split: option.splits if_splits intro!: entry_moves_set_state)

lemmas recording_defs = record_containment_required_def record_runtime_bound_def record_ready_def
  record_disposed_def record_physical_reconciled_def record_runtime_reconciled_def

lemma scheduler_step_moves:
  "scheduler_step drv st st' \<Longrightarrow> entry_moves key (fst st key) (fst st' key)"
proof (induction rule: scheduler_step.induct)
  case (spawn k st r st')
  then show ?case
    by (cases st) (auto simp: scheduler_spawn_def entry_moves_def Let_def
        split: if_splits prod.splits sum.splits option.splits)
next
  case (drive k now st r st')
  then show ?case
    by (cases st) (auto simp: scheduler_drive_def dest!: drive_state_edge
        split: option.splits if_splits prod.splits sum.splits intro!: entry_moves_set_state)
next
  case (spawned k receipt sched r sched' d)
  then show ?case
    by (auto simp: record_spawned_def entry_moves_def split: if_splits option.splits)
qed (auto simp: recording_defs schedule_edge_def elim!: entry_moves_advance)

section \<open>Command identities\<close>

text \<open>An identifier as \<open>format!\<close> prints it.\<close>

fun decimal :: "nat \<Rightarrow> byte list" where
  "decimal n = (if n < 10 then [48 + of_nat n] else decimal (n div 10) @ [48 + of_nat (n mod 10)])"

declare decimal.simps [simp del]

definition digit_value :: "byte \<Rightarrow> nat" where
  "digit_value b = unat (b - 48)"

definition decimal_value :: "byte list \<Rightarrow> nat" where
  "decimal_value bs = fold (\<lambda>b v. 10 * v + digit_value b) bs 0"

lemma digit_value_digit: "n < 10 \<Longrightarrow> digit_value (48 + of_nat n) = n"
  by (simp add: digit_value_def unat_of_nat)

lemma decimal_read: "decimal_value (decimal n) = n"
proof (induction n rule: decimal.induct)
  case (1 n)
  then show ?case
    by (subst decimal.simps) (auto simp: decimal_value_def digit_value_digit)
qed

lemma decimal_digits: "list_all (\<lambda>b. 48 \<le> b \<and> b \<le> 57) (decimal n)"
proof (induction n rule: decimal.induct)
  case (1 n)
  have "48 \<le> (48 + of_nat k :: byte) \<and> 48 + of_nat k \<le> (57 :: byte)" if "k < 10" for k
    using that by (simp add: word_le_nat_alt unat_word_ariths(1) unat_of_nat)
  with 1 show ?case by (subst decimal.simps) auto
qed

lemma decimal_length: "n < 10 ^ Suc k \<Longrightarrow> length (decimal n) \<le> Suc k"
proof (induction k arbitrary: n)
  case (Suc k)
  have "length (decimal (n div 10)) \<le> Suc k"
    by (rule Suc.IH) (use Suc.prems in \<open>simp add: less_mult_imp_div_less mult.commute\<close>)
  then show ?case by (subst decimal.simps) simp
qed (simp add: decimal.simps)

definition COMMAND_PREFIX :: "byte list" where
  "COMMAND_PREFIX = ascii ''study-task-attempt-v1''"

definition attempt_command_id :: "string \<Rightarrow> schedule_key \<Rightarrow> scheduler_error + byte list" where
  "attempt_command_id suffix key =
     (let b = COMMAND_PREFIX @ ascii ''/obligation-'' @ decimal (nat (sk_obligation key))
               @ ascii ''/attempt-'' @ decimal (nat (sk_attempt key)) @ ascii suffix in
      if command_id_ok b then Inr b else Inl InvalidCommandIdentity)"

definition runtime_binding_command_id :: "schedule_key \<Rightarrow> scheduler_error + byte list" where
  "runtime_binding_command_id = attempt_command_id ''/bind''"

definition runtime_reconciliation_command_id :: "schedule_key \<Rightarrow> scheduler_error + byte list" where
  "runtime_reconciliation_command_id = attempt_command_id ''/reconcile''"

definition actor_completion_command_id :: "schedule_key \<Rightarrow> scheduler_error + byte list" where
  "actor_completion_command_id = attempt_command_id ''/complete''"

lemma digits_cut:
  assumes "list_all p a" "list_all p b" "\<not> p c" "\<not> p d" "a @ c # x = b @ d # y"
  shows "a = b \<and> c # x = d # y"
proof -
  have "takeWhile p (a @ c # x) = a" "takeWhile p (b @ d # y) = b"
    using assms(1-4) by (simp_all add: takeWhile_append2 list_all_iff)
  with assms(5) show ?thesis by simp
qed

lemma decimal_inject: "decimal n = decimal m \<Longrightarrow> n = m"
  by (drule arg_cong [where f = decimal_value]) (simp only: decimal_read)

lemma decimal_cut:
  assumes "decimal n @ 47 # x = decimal m @ 47 # y"
  shows "n = m \<and> x = y"
proof -
  have "decimal n = decimal m \<and> 47 # x = 47 # y"
    by (rule digits_cut [OF decimal_digits decimal_digits _ _ assms]) simp_all
  then show ?thesis by (metis decimal_inject list.inject)
qed

lemma attempt_suffixes:
  "ascii ''/attempt-'' = 47 # ascii ''attempt-''" "ascii ''/bind'' = 47 # ascii ''bind''"
  "ascii ''/reconcile'' = 47 # ascii ''reconcile''" "ascii ''/complete'' = 47 # ascii ''complete''"
  by (simp_all add: ascii_def)

lemma attempt_bytes_cut:
  "p @ decimal n @ ascii ''/attempt-'' @ decimal m @ 47 # x = p @ decimal n' @ ascii ''/attempt-'' @ decimal m' @ 47 # y
    \<Longrightarrow> n = n' \<and> m = m' \<and> x = y"
  unfolding attempt_suffixes append_Cons same_append_eq
  by (drule decimal_cut) (auto dest: decimal_cut)

lemma identifier_decimal:
  assumes "identifier_ok v"
  shows "length (decimal (nat v)) \<le> 19"
proof -
  have "v \<le> 9223372036854775807" using assms by (simp add: identifier_ok_def in_i64_def)
  then have "nat v < 10 ^ Suc 18" by (simp add: nat_le_iff)
  then show ?thesis using decimal_length [of "nat v" 18] by simp
qed

lemma attempt_command_id_ok:
  assumes "identifier_ok (sk_obligation key)" "identifier_ok (sk_attempt key)"
    and "length suffix \<le> 10" "list_all (\<lambda>x. 33 \<le> x \<and> x \<le> 126) (ascii suffix)"
  shows "attempt_command_id suffix key =
    Inr (COMMAND_PREFIX @ ascii ''/obligation-'' @ decimal (nat (sk_obligation key))
           @ ascii ''/attempt-'' @ decimal (nat (sk_attempt key)) @ ascii suffix)"
proof -
  have digits: "list_all (\<lambda>x. 33 \<le> x \<and> x \<le> 126) (decimal n)" for n
    using decimal_digits [of n] by (rule list.pred_mono_strong) (auto simp: word_le_nat_alt)
  have fixed: "list_all (\<lambda>x. 33 \<le> x \<and> x \<le> 126) (COMMAND_PREFIX @ ascii ''/obligation-'' @ ascii ''/attempt-'')"
    "length (COMMAND_PREFIX @ ascii ''/obligation-'' @ ascii ''/attempt-'') = 42"
    by (simp_all add: COMMAND_PREFIX_def ascii_def)
  have "length (ascii suffix) \<le> 10" using assms(3) by (simp add: ascii_def)
  then show ?thesis
    using identifier_decimal [OF assms(1)] identifier_decimal [OF assms(2)] fixed assms(4) digits
    by (simp add: attempt_command_id_def command_id_ok_def Let_def COMMAND_PREFIX_def ascii_def)
qed

text \<open>
  The identities under which an attempt's three kernel transitions are submitted are always valid
  command identities, and no two transitions share one: neither two transitions of one attempt, nor
  transitions of two different pairs of obligation and attempt.
\<close>

lemma attempt_command_ids_distinct:
  assumes "f \<in> {runtime_binding_command_id, runtime_reconciliation_command_id, actor_completion_command_id}"
    and "g \<in> {runtime_binding_command_id, runtime_reconciliation_command_id, actor_completion_command_id}"
    and "identifier_ok (sk_obligation key)" "identifier_ok (sk_attempt key)"
    and "identifier_ok (sk_obligation key')" "identifier_ok (sk_attempt key')"
  shows "(\<exists>b. f key = Inr b \<and> command_id_ok b) \<and> (f key = g key' \<longrightarrow> f = g \<and> key = (key' :: schedule_key))"
proof -
  let ?suffix = "\<lambda>w. w \<in> {''bind'', ''reconcile'', ''complete''}"
  have shape: "\<exists>w. ?suffix w \<and> e = attempt_command_id (CHR ''/'' # w)" if
    "e \<in> {runtime_binding_command_id, runtime_reconciliation_command_id, actor_completion_command_id}" for e
    using that by (auto simp: runtime_binding_command_id_def runtime_reconciliation_command_id_def
        actor_completion_command_id_def)
  obtain v w where v: "?suffix v" "f = attempt_command_id (CHR ''/'' # v)"
    and w: "?suffix w" "g = attempt_command_id (CHR ''/'' # w)"
    using shape [OF assms(1)] shape [OF assms(2)] by blast
  have ok: "length (CHR ''/'' # u) \<le> 10 \<and> list_all (\<lambda>x. 33 \<le> x \<and> x \<le> 126) (ascii (CHR ''/'' # u))"
    if "?suffix u" for u
    using that by (auto simp: ascii_def)
  have slash: "ascii (CHR ''/'' # u) = 47 # ascii u" for u by (simp add: ascii_def)
  have inj: "ascii v = ascii w \<Longrightarrow> v = w" using v(1) w(1) by (auto simp: ascii_def)
  note fv = attempt_command_id_ok [OF assms(3,4) conjunct1 [OF ok [OF v(1)]] conjunct2 [OF ok [OF v(1)]]]
  note gw = attempt_command_id_ok [OF assms(5,6) conjunct1 [OF ok [OF w(1)]] conjunct2 [OF ok [OF w(1)]]]
  have "f key = g key' \<longrightarrow> f = g \<and> key = key'"
  proof
    assume "f key = g key'"
    then have "(COMMAND_PREFIX @ ascii ''/obligation-'') @ decimal (nat (sk_obligation key))
        @ ascii ''/attempt-'' @ decimal (nat (sk_attempt key)) @ 47 # ascii v
      = (COMMAND_PREFIX @ ascii ''/obligation-'') @ decimal (nat (sk_obligation key'))
        @ ascii ''/attempt-'' @ decimal (nat (sk_attempt key')) @ 47 # ascii w"
      unfolding v(2) w(2) fv gw slash by simp
    from attempt_bytes_cut [OF this] inj assms(3-6) show "f = g \<and> key = key'"
      by (simp add: v(2) w(2) identifier_ok_def study_identifier_new_def split: if_splits)
  qed
  moreover have "\<exists>b. f key = Inr b \<and> command_id_ok b"
    using fv by (auto simp: v(2) attempt_command_id_def Let_def split: if_splits)
  ultimately show ?thesis by blast
qed

end
