(* ===== verification/Attempt_Runner.thy ===== *)
theory Attempt_Runner
  imports Attempt_Scheduler Kernel_Scenario
begin

text \<open>
  The resident runner of one task attempt (\<^verbatim>\<open>TaskAttemptRunner\<close> of
  \<^verbatim>\<open>societyd/src/task_attempt_scheduler.rs\<close>) over the kernel.  The runner decides which kernel
  transition is due and records its progress; what the daemon answers about the native process (spawn
  registration, session readiness, prompt and disposal observations, reaping) is an argument of each
  operation.  The three study transitions go through \<open>execute_study_transition\<close> of the kernel.
  The presence of a prompt, of a pending forum call, of a disposal handle and of a launch claim are
  flags.
\<close>

section \<open>State\<close>

datatype (plugins only: code) runner_error =
    RunnerInvalidOperationIdentity | RunnerInvalidInput | RunnerRecoveryFenced | RunnerInvalidLifecycle
  | RunnerKernel | RunnerProcess | RunnerProtocol | RunnerContent | RunnerContainmentRequired
  | RunnerScheduler | RunnerLaunchClaimMissing | RunnerLaunchProfileUnavailable

definition from_scheduler_error :: "scheduler_error \<Rightarrow> runner_error" where
  "from_scheduler_error e = (case e of
     DriverIdentityMismatch \<Rightarrow> RunnerContainmentRequired
   | UnexpectedDriverProgress \<Rightarrow> RunnerContainmentRequired
   | DriverFailed BoundaryContainmentRequired \<Rightarrow> RunnerContainmentRequired
   | DriverFailed PhysicalReconciliationFailed \<Rightarrow> RunnerContainmentRequired
   | InvalidCommandIdentity \<Rightarrow> RunnerInvalidInput
   | _ \<Rightarrow> RunnerScheduler)"

record attempt_runner =
  rn_scheduler :: scheduler
  rn_key :: "schedule_key option"
  rn_child :: "spawn_receipt option"
  rn_unregistered :: bool
  rn_prompt :: bool
  rn_pending_forum_call :: bool
  rn_dispose :: bool
  rn_launch_claim :: bool
  rn_completed :: bool

definition runner_new :: attempt_runner where
  "runner_new = \<lparr>rn_scheduler = Map.empty, rn_key = None, rn_child = None, rn_unregistered = False,
     rn_prompt = False, rn_pending_forum_call = False, rn_dispose = False,
     rn_launch_claim = False, rn_completed = False\<rparr>"

definition runner_state :: "attempt_runner \<Rightarrow> schedule_state option" where
  "runner_state rn = (case rn_key rn of
     None \<Rightarrow> None | Some key \<Rightarrow> map_option ent_state (rn_scheduler rn key))"

text \<open>The key, if the schedule is in the required phase; the checks every operation begins with.\<close>

definition key_in_phase :: "schedule_state set \<Rightarrow> attempt_runner \<Rightarrow> runner_error + schedule_key" where
  "key_in_phase phases rn = (case rn_key rn of
     None \<Rightarrow> Inl RunnerInvalidLifecycle
   | Some key \<Rightarrow>
       (case scheduler_state key (rn_scheduler rn) of
          Inl e \<Rightarrow> Inl (from_scheduler_error e)
        | Inr s \<Rightarrow> if s \<notin> phases then Inl RunnerInvalidLifecycle else Inr key))"

definition scheduled ::
  "(scheduler \<Rightarrow> (scheduler_error + unit) \<times> scheduler) \<Rightarrow> attempt_runner
     \<Rightarrow> (runner_error + unit) \<times> attempt_runner" where
  "scheduled f rn = (case f (rn_scheduler rn) of
     (Inl e, s) \<Rightarrow> (Inl (from_scheduler_error e), rn\<lparr>rn_scheduler := s\<rparr>)
   | (Inr _, s) \<Rightarrow> (Inr (), rn\<lparr>rn_scheduler := s\<rparr>))"

section \<open>Spawning\<close>

datatype (plugins only: code) spawn_registration =
    RegistrationReady spawn_receipt
  | PostSpawnSetupContained spawn_receipt
  | RegisteredBoundaryContained spawn_receipt
  | RegistrationUnresolved

definition record_contained ::
  "schedule_key \<Rightarrow> spawn_receipt \<Rightarrow> attempt_runner \<Rightarrow> (runner_error + schedule_state) \<times> attempt_runner" where
  "record_contained key receipt rn =
     (case scheduled (record_spawned key receipt) rn of
        (Inl e, rn1) \<Rightarrow> (Inl e, rn1)
      | (Inr _, rn1) \<Rightarrow>
          (case scheduled (record_containment_required key) rn1 of
             (Inl e, rn2) \<Rightarrow> (Inl e, rn2)
           | (Inr _, rn2) \<Rightarrow>
               (Inl RunnerContainmentRequired, rn2\<lparr>rn_key := Some key, rn_child := Some receipt\<rparr>)))"

definition runner_spawn ::
  "bool \<Rightarrow> schedule_key \<Rightarrow> runner_error + spawn_registration \<Rightarrow> attempt_runner
     \<Rightarrow> (runner_error + schedule_state) \<times> attempt_runner" where
  "runner_spawn input_ok key registration rn =
     (if rn_key rn \<noteq> None \<or> rn_child rn \<noteq> None then (Inl RunnerScheduler, rn)
      else if \<not> input_ok then (Inl RunnerInvalidInput, rn)
      else
        (case registration of
           Inl e \<Rightarrow> (Inl e, rn)
         | Inr (RegistrationReady receipt) \<Rightarrow>
             (case scheduled (record_spawned key receipt) rn of
                (Inl e, rn1) \<Rightarrow> (Inl e, rn1)
              | (Inr _, rn1) \<Rightarrow> (Inr Spawned, rn1\<lparr>rn_key := Some key, rn_child := Some receipt\<rparr>))
         | Inr (PostSpawnSetupContained receipt) \<Rightarrow> record_contained key receipt rn
         | Inr (RegisteredBoundaryContained receipt) \<Rightarrow> record_contained key receipt rn
         | Inr RegistrationUnresolved \<Rightarrow>
             (Inl RunnerContainmentRequired, rn\<lparr>rn_key := Some key, rn_unregistered := True\<rparr>)))"

definition new_from_launch_claim :: attempt_runner where
  "new_from_launch_claim = runner_new\<lparr>rn_launch_claim := True\<rparr>"

text \<open>The answer of \<open>task_attempt_execution_start_from_claim\<close>: the seat the claim names, if any.\<close>

definition spawn_from_launch_claim ::
  "(schedule_key \<times> bool) option \<Rightarrow> runner_error + spawn_registration \<Rightarrow> attempt_runner
     \<Rightarrow> (runner_error + schedule_state) \<times> attempt_runner" where
  "spawn_from_launch_claim start registration rn =
     (if \<not> rn_launch_claim rn then (Inl RunnerLaunchClaimMissing, rn)
      else
        (case start of
           None \<Rightarrow> (Inl RunnerLaunchProfileUnavailable, rn)
         | Some (key, input_ok) \<Rightarrow> runner_spawn input_ok key registration rn))"

section \<open>The runtime join\<close>

type_synonym study_receipt = "study_transition_disposition \<times> bool"

definition bind_study_actor_runtime ::
  "(byte list \<Rightarrow> digest) \<Rightarrow> byte list \<Rightarrow> study_command \<Rightarrow> study_db kernel_db
     \<Rightarrow> (runner_error + study_receipt) \<times> study_db kernel_db" where
  "bind_study_actor_runtime h i cmd db = (case execute_study_transition h i cmd db of
     (Inl _, db') \<Rightarrow> (Inl RunnerKernel, db') | (Inr receipt, db') \<Rightarrow> (Inr receipt, db'))"

definition bind_runtime ::
  "(byte list \<Rightarrow> digest) \<Rightarrow> attempt_runner \<Rightarrow> study_db kernel_db
     \<Rightarrow> (runner_error + study_receipt) \<times> attempt_runner \<times> study_db kernel_db" where
  "bind_runtime h rn db =
     (case key_in_phase {Spawned} rn of
        Inl e \<Rightarrow> (Inl e, rn, db)
      | Inr key \<Rightarrow>
          (case rn_child rn of
             None \<Rightarrow> (Inl RunnerInvalidLifecycle, rn, db)
           | Some child \<Rightarrow>
               (case runtime_binding_command_id key of
                  Inl e \<Rightarrow> (Inl (from_scheduler_error e), rn, db)
                | Inr i \<Rightarrow>
                    (case bind_study_actor_runtime h i
                            (BindActorTaskAttemptRuntime (sk_obligation key) (sp_attempt child)
                               (sp_child child) (sp_admission child)) db of
                       (Inl e, db') \<Rightarrow> (Inl e, rn, db')
                     | (Inr receipt, db') \<Rightarrow>
                         (case scheduled (record_runtime_bound key) rn of
                            (Inl e, rn') \<Rightarrow> (Inl e, rn', db')
                          | (Inr _, rn') \<Rightarrow> (Inr receipt, rn', db'))))))"

section \<open>The session\<close>

datatype (plugins only: code) control_write_progress = Delivered | Pending

definition drive_containment ::
  "runner_error + bool \<Rightarrow> attempt_runner \<Rightarrow> (runner_error + bool) \<times> attempt_runner" where
  "drive_containment answer rn =
     (if rn_unregistered rn
      then (case answer of
              Inl e \<Rightarrow> (Inl e, rn)
            | Inr done \<Rightarrow> (Inr done, if done then rn\<lparr>rn_unregistered := False\<rparr> else rn))
      else
        (case rn_key rn of
           None \<Rightarrow> (Inl RunnerInvalidLifecycle, rn)
         | Some key \<Rightarrow>
             (case scheduler_state key (rn_scheduler rn) of
                Inl e \<Rightarrow> (Inl (from_scheduler_error e), rn)
              | Inr s \<Rightarrow>
                  (case (if s = ContainmentRequired then (Inr (), rn)
                         else scheduled (record_containment_required key) rn) of
                     (Inl e, rn') \<Rightarrow> (Inl e, rn')
                   | (Inr _, rn') \<Rightarrow>
                       if rn_child rn' = None then (Inl RunnerInvalidLifecycle, rn')
                       else (case answer of Inl e \<Rightarrow> (Inl e, rn') | Inr _ \<Rightarrow> (Inr False, rn'))))))"

text \<open>
  The polls that only forward to the daemon, given the child and, for the later ones, the handle of
  the control write they belong to.
\<close>

definition on_child ::
  "(attempt_runner \<Rightarrow> bool) \<Rightarrow> runner_error + 'r \<Rightarrow> attempt_runner \<Rightarrow> (runner_error + 'r) \<times> attempt_runner" where
  "on_child handle answer rn =
     (if rn_child rn = None \<or> \<not> handle rn then (Inl RunnerInvalidLifecycle, rn) else (answer, rn))"

definition observe_adapter_ready ::
  "runner_error + bool \<Rightarrow> attempt_runner \<Rightarrow> (runner_error + bool) \<times> attempt_runner" where
  "observe_adapter_ready = on_child (\<lambda>_. True)"

definition begin_create ::
  "runner_error + control_write_progress \<Rightarrow> attempt_runner
     \<Rightarrow> (runner_error + control_write_progress) \<times> attempt_runner" where
  "begin_create = on_child (\<lambda>_. True)"

definition drive_create ::
  "runner_error + control_write_progress \<Rightarrow> attempt_runner
     \<Rightarrow> (runner_error + control_write_progress) \<times> attempt_runner" where
  "drive_create = on_child (\<lambda>_. True)"

definition drive_prompt ::
  "runner_error + control_write_progress \<Rightarrow> attempt_runner
     \<Rightarrow> (runner_error + control_write_progress) \<times> attempt_runner" where
  "drive_prompt = on_child rn_prompt"

definition drive_forum_tool_result ::
  "runner_error + control_write_progress \<Rightarrow> attempt_runner
     \<Rightarrow> (runner_error + control_write_progress) \<times> attempt_runner" where
  "drive_forum_tool_result = on_child (\<lambda>_. True)"

definition drive_dispose ::
  "runner_error + control_write_progress \<Rightarrow> attempt_runner
     \<Rightarrow> (runner_error + control_write_progress) \<times> attempt_runner" where
  "drive_dispose = on_child rn_dispose"

definition observe_session_ready ::
  "runner_error + bool \<Rightarrow> attempt_runner \<Rightarrow> (runner_error + bool) \<times> attempt_runner" where
  "observe_session_ready answer rn =
     (case key_in_phase {RuntimeBound} rn of
        Inl e \<Rightarrow> (Inl e, rn)
      | Inr key \<Rightarrow>
          if rn_child rn = None then (Inl RunnerInvalidLifecycle, rn)
          else
            (case answer of
               Inl e \<Rightarrow> (Inl e, rn)
             | Inr False \<Rightarrow> (Inr False, rn)
             | Inr True \<Rightarrow>
                 (case scheduled (record_ready key) rn of
                    (Inl e, rn') \<Rightarrow> (Inl e, rn') | (Inr _, rn') \<Rightarrow> (Inr True, rn'))))"

definition begin_prompt ::
  "runner_error + control_write_progress \<Rightarrow> attempt_runner
     \<Rightarrow> (runner_error + control_write_progress) \<times> attempt_runner" where
  "begin_prompt answer rn =
     (case key_in_phase {SessionReadied} rn of
        Inl e \<Rightarrow> (Inl e, rn)
      | Inr _ \<Rightarrow>
          if rn_child rn = None then (Inl RunnerInvalidLifecycle, rn)
          else (case answer of Inl e \<Rightarrow> (Inl e, rn) | Inr p \<Rightarrow> (Inr p, rn\<lparr>rn_prompt := True\<rparr>)))"

datatype (plugins only: code) prompt_output =
    ControlInterleaving | PromptAccepted | ForumToolCall | PromptKnownUsage | PromptUsageFrozen
  | TerminalRecorded

definition observe_prompt ::
  "runner_error + prompt_output option \<Rightarrow> attempt_runner
     \<Rightarrow> (runner_error + prompt_output option) \<times> attempt_runner" where
  "observe_prompt answer rn =
     (if rn_pending_forum_call rn \<or> rn_child rn = None \<or> \<not> rn_prompt rn
      then (Inl RunnerInvalidLifecycle, rn)
      else (case answer of
              Inl e \<Rightarrow> (Inl e, rn)
            | Inr output \<Rightarrow>
                (Inr output, if output = Some ForumToolCall then rn\<lparr>rn_pending_forum_call := True\<rparr> else rn)))"

definition route_forum_tool_call ::
  "runner_error + control_write_progress \<Rightarrow> attempt_runner
     \<Rightarrow> (runner_error + control_write_progress) \<times> attempt_runner" where
  "route_forum_tool_call answer rn =
     (if rn_key rn = None \<or> \<not> rn_pending_forum_call rn then (Inl RunnerInvalidLifecycle, rn)
      else
        (let rn' = rn\<lparr>rn_pending_forum_call := False\<rparr> in
         if rn_child rn = None \<or> \<not> rn_prompt rn then (Inl RunnerInvalidLifecycle, rn')
         else (answer, rn')))"

definition begin_dispose ::
  "runner_error + control_write_progress \<Rightarrow> attempt_runner
     \<Rightarrow> (runner_error + control_write_progress) \<times> attempt_runner" where
  "begin_dispose answer rn =
     (case key_in_phase {SessionReadied} rn of
        Inl e \<Rightarrow> (Inl e, rn)
      | Inr _ \<Rightarrow>
          if rn_child rn = None then (Inl RunnerInvalidLifecycle, rn)
          else (case answer of Inl e \<Rightarrow> (Inl e, rn) | Inr p \<Rightarrow> (Inr p, rn\<lparr>rn_dispose := True\<rparr>)))"

datatype (plugins only: code) dispose_output =
    DisposeDeliveryRecorded | DisposeAccepted | DisposeKnownUsage | DisposeUsageFrozen
  | TranscriptReady "runner_error + unit" | AlreadyDisposed

datatype (plugins only: code) dispose_event =
    DeliveryRecorded | DisposalAccepted | KnownUsageRecorded | UsageFrozen | Disposed

definition observe_dispose ::
  "runner_error + dispose_output option \<Rightarrow> attempt_runner
     \<Rightarrow> (runner_error + dispose_event option) \<times> attempt_runner" where
  "observe_dispose answer rn =
     (case rn_key rn of
        None \<Rightarrow> (Inl RunnerInvalidLifecycle, rn)
      | Some key \<Rightarrow>
          if rn_child rn = None \<or> \<not> rn_dispose rn then (Inl RunnerInvalidLifecycle, rn)
          else
            (case answer of
               Inl e \<Rightarrow> (Inl e, rn)
             | Inr None \<Rightarrow> (Inr None, rn)
             | Inr (Some DisposeDeliveryRecorded) \<Rightarrow> (Inr (Some DeliveryRecorded), rn)
             | Inr (Some DisposeAccepted) \<Rightarrow> (Inr (Some DisposalAccepted), rn)
             | Inr (Some DisposeKnownUsage) \<Rightarrow> (Inr (Some KnownUsageRecorded), rn)
             | Inr (Some DisposeUsageFrozen) \<Rightarrow> (Inr (Some UsageFrozen), rn)
             | Inr (Some (TranscriptReady recorded)) \<Rightarrow>
                 (case recorded of
                    Inl e \<Rightarrow> (Inl e, rn)
                  | Inr _ \<Rightarrow>
                      (case scheduled (record_disposed key) rn of
                         (Inl e, rn') \<Rightarrow> (Inl e, rn') | (Inr _, rn') \<Rightarrow> (Inr (Some Disposed), rn')))
             | Inr (Some AlreadyDisposed) \<Rightarrow> (Inr (Some Disposed), rn)))"

section \<open>Reconciliation and completion\<close>

text \<open>
  The answer of the reaper: whether the native child is reaped and reconciled, and whether the child
  is then in its phase \<open>reconciled\<close>.
\<close>

definition runner_reconcile ::
  "(byte list \<Rightarrow> digest) \<Rightarrow> runner_error + bool \<times> bool \<Rightarrow> attempt_runner \<Rightarrow> study_db kernel_db
     \<Rightarrow> (runner_error + bool) \<times> attempt_runner \<times> study_db kernel_db" where
  "runner_reconcile h reap rn db =
     (if rn_key rn = None then (Inl RunnerInvalidLifecycle, rn, db)
      else if rn_unregistered rn then (Inl RunnerContainmentRequired, rn, db)
      else
        (case key_in_phase {SessionDisposed, ContainmentRequired} rn of
           Inl e \<Rightarrow> (Inl e, rn, db)
         | Inr key \<Rightarrow>
             (case rn_child rn of
                None \<Rightarrow> (Inl RunnerInvalidLifecycle, rn, db)
              | Some child \<Rightarrow>
                  (case reap of
                     Inl e \<Rightarrow> (Inl e, rn, db)
                   | Inr (False, _) \<Rightarrow> (Inr False, rn, db)
                   | Inr (True, reconciled) \<Rightarrow>
                       (case scheduled (record_physical_reconciled key) rn of
                          (Inl e, rn1) \<Rightarrow> (Inl e, rn1, db)
                        | (Inr _, rn1) \<Rightarrow>
                            (case runtime_reconciliation_command_id key of
                               Inl e \<Rightarrow> (Inl (from_scheduler_error e), rn1, db)
                             | Inr i \<Rightarrow>
                                 if \<not> reconciled then (Inl RunnerInvalidLifecycle, rn1, db)
                                 else
                                   (case bind_study_actor_runtime h i
                                           (ReconcileActorRuntime (sk_obligation key) (sp_child child)) db of
                                      (Inl e, db') \<Rightarrow> (Inl e, rn1, db')
                                    | (Inr _, db') \<Rightarrow>
                                        (case scheduled (record_runtime_reconciled key) rn1 of
                                           (Inl e, rn2) \<Rightarrow> (Inl e, rn2, db')
                                         | (Inr _, rn2) \<Rightarrow> (Inr True, rn2, db')))))))))"

definition runner_complete ::
  "(byte list \<Rightarrow> digest) \<Rightarrow> int \<Rightarrow> attempt_runner \<Rightarrow> study_db kernel_db
     \<Rightarrow> (runner_error + study_receipt) \<times> attempt_runner \<times> study_db kernel_db" where
  "runner_complete h budget rn db =
     (case rn_key rn of
        None \<Rightarrow> (Inl RunnerInvalidLifecycle, rn, db)
      | Some _ \<Rightarrow>
          if rn_completed rn then (Inl RunnerInvalidLifecycle, rn, db)
          else
            (case key_in_phase {RuntimeReconciled} rn of
               Inl e \<Rightarrow> (Inl e, rn, db)
             | Inr key \<Rightarrow>
                 (case actor_completion_command_id key of
                    Inl e \<Rightarrow> (Inl (from_scheduler_error e), rn, db)
                  | Inr i \<Rightarrow>
                      (case bind_study_actor_runtime h i
                              (CompleteActorObligation (sk_obligation key) budget) db of
                         (Inl e, db') \<Rightarrow> (Inl e, rn, db')
                       | (Inr receipt, db') \<Rightarrow> (Inr receipt, rn\<lparr>rn_completed := True\<rparr>, db')))))"

section \<open>The runner's invariant\<close>

text \<open>Any operation of the runner, with whatever answers and whatever kernel tables it meets.\<close>

inductive runner_step :: "(byte list \<Rightarrow> digest) \<Rightarrow> attempt_runner \<Rightarrow> attempt_runner \<Rightarrow> bool" for h where
  spawn: "spawn_from_launch_claim start registration rn = (r, rn') \<Longrightarrow> runner_step h rn rn'"
| bind: "bind_runtime h rn db = (r, rn', db') \<Longrightarrow> runner_step h rn rn'"
| contain: "drive_containment a rn = (r, rn') \<Longrightarrow> runner_step h rn rn'"
| adapter: "observe_adapter_ready b rn = (r, rn') \<Longrightarrow> runner_step h rn rn'"
| control: "f \<in> {begin_create, drive_create, drive_prompt, drive_forum_tool_result, drive_dispose} \<Longrightarrow>
    f p rn = (r, rn') \<Longrightarrow> runner_step h rn rn'"
| ready: "observe_session_ready b rn = (r, rn') \<Longrightarrow> runner_step h rn rn'"
| prompt: "begin_prompt p rn = (r, rn') \<Longrightarrow> runner_step h rn rn'"
| observed: "observe_prompt q rn = (r, rn') \<Longrightarrow> runner_step h rn rn'"
| forum: "route_forum_tool_call p rn = (r, rn') \<Longrightarrow> runner_step h rn rn'"
| dispose: "begin_dispose p rn = (r, rn') \<Longrightarrow> runner_step h rn rn'"
| disposed: "observe_dispose d rn = (r, rn') \<Longrightarrow> runner_step h rn rn'"
| reconcile: "runner_reconcile h reap rn db = (r, rn', db') \<Longrightarrow> runner_step h rn rn'"
| complete: "runner_complete h budget rn db = (r, rn', db') \<Longrightarrow> runner_step h rn rn'"

definition runner_reachable :: "(byte list \<Rightarrow> digest) \<Rightarrow> attempt_runner \<Rightarrow> bool" where
  "runner_reachable h = (runner_step h)\<^sup>*\<^sup>* new_from_launch_claim"

text \<open>
  The runner's seat: the key, the child it owns and the phase of the one schedule it keeps.
\<close>

definition in_phase :: "schedule_key \<Rightarrow> spawn_receipt \<Rightarrow> schedule_state \<Rightarrow> attempt_runner \<Rightarrow> bool" where
  "in_phase key child s rn \<longleftrightarrow> rn_key rn = Some key \<and> rn_child rn = Some child
     \<and> rn_scheduler rn = [key \<mapsto> \<lparr>ent_child = Some child, ent_state = s\<rparr>]"

definition runner_ok :: "attempt_runner \<Rightarrow> bool" where
  "runner_ok rn \<longleftrightarrow>
     rn_child rn = None \<and> rn_scheduler rn = Map.empty \<and> \<not> rn_completed rn
   \<or> (\<exists>key child s. in_phase key child s rn \<and> sp_attempt child = sk_attempt key
        \<and> (rn_completed rn \<longrightarrow> s = RuntimeReconciled))"

lemma in_phase_unique: "in_phase k c s rn \<Longrightarrow> in_phase k' c' s' rn \<Longrightarrow> k' = k \<and> c' = c \<and> s' = s"
  by (auto simp: in_phase_def fun_eq_iff split: if_splits)

lemma in_phase_state: "in_phase k c s rn \<Longrightarrow> runner_state rn = Some s"
  by (simp add: in_phase_def runner_state_def)

lemma in_phase_flags [simp]:
  "in_phase k c s (rn\<lparr>rn_unregistered := b\<rparr>) = in_phase k c s rn"
  "in_phase k c s (rn\<lparr>rn_prompt := b\<rparr>) = in_phase k c s rn"
  "in_phase k c s (rn\<lparr>rn_pending_forum_call := b\<rparr>) = in_phase k c s rn"
  "in_phase k c s (rn\<lparr>rn_dispose := b\<rparr>) = in_phase k c s rn"
  "in_phase k c s (rn\<lparr>rn_completed := b\<rparr>) = in_phase k c s rn"
  by (simp_all add: in_phase_def)

lemma key_in_phase_at [simp]:
  "in_phase k c s rn \<Longrightarrow> key_in_phase S rn = (if s \<in> S then Inr k else Inl RunnerInvalidLifecycle)"
  by (simp add: in_phase_def key_in_phase_def scheduler_state_def)

lemma in_phase_child: "in_phase k c s rn \<Longrightarrow> rn_child rn = Some c"
  and in_phase_key: "in_phase k c s rn \<Longrightarrow> rn_key rn = Some k"
  by (simp_all add: in_phase_def)

text \<open>Recording a phase: the scheduler moves along the edge, and nothing else changes.\<close>

definition to_phase :: "schedule_key \<Rightarrow> spawn_receipt \<Rightarrow> schedule_state \<Rightarrow> attempt_runner \<Rightarrow> attempt_runner" where
  "to_phase k c s rn = rn\<lparr>rn_scheduler := [k \<mapsto> \<lparr>ent_child = Some c, ent_state = s\<rparr>]\<rparr>"

lemma in_phase_to [simp]: "in_phase k c s rn \<Longrightarrow> in_phase k c t' (to_phase k c t rn) \<longleftrightarrow> t' = t"
  and to_phase_sel [simp]: "rn_completed (to_phase k c t rn) = rn_completed rn"
    "rn_child (to_phase k c t rn) = rn_child rn" "rn_key (to_phase k c t rn) = rn_key rn"
    "rn_unregistered (to_phase k c t rn) = rn_unregistered rn"
  by (auto simp: to_phase_def in_phase_def fun_eq_iff)

lemma scheduled_at [simp]:
  "in_phase k c s rn \<Longrightarrow> scheduled (advance S t k) rn =
     (if s \<in> S then (Inr (), to_phase k c t rn) else (Inl RunnerScheduler, rn))"
  by (simp add: in_phase_def scheduled_def advance_def set_state_def to_phase_def from_scheduler_error_def)

lemma scheduled_to_phase [simp]:
  assumes "in_phase k c s rn"
  shows "scheduled (advance S t k) (to_phase k c u rn) =
    (if u \<in> S then (Inr (), to_phase k c t rn) else (Inl RunnerScheduler, to_phase k c u rn))"
proof -
  have "in_phase k c u (to_phase k c u rn)" using assms by simp
  then show ?thesis by (simp del: in_phase_to) (simp add: to_phase_def)
qed

lemma scheduled_empty:
  "rn_scheduler rn = Map.empty \<Longrightarrow> scheduled (advance S t k) rn = (Inl RunnerScheduler, rn)"
  by (simp add: scheduled_def advance_def from_scheduler_error_def)

lemmas runner_op_defs = spawn_from_launch_claim_def runner_spawn_def record_contained_def bind_runtime_def drive_containment_def
  on_child_def observe_adapter_ready_def begin_create_def drive_create_def drive_prompt_def
  drive_forum_tool_result_def drive_dispose_def observe_session_ready_def begin_prompt_def observe_prompt_def route_forum_tool_call_def
  begin_dispose_def observe_dispose_def runner_reconcile_def runner_complete_def recording_defs Let_def

lemmas runner_op_splits = option.splits sum.splits prod.splits if_splits spawn_registration.splits
  dispose_output.splits bool.splits

lemma schedule_edges [simp]:
  "schedule_edge Spawned RuntimeBound" "schedule_edge RuntimeBound SessionReadied"
  "schedule_edge SessionReadied SessionDisposed" "schedule_edge SessionDisposed PhysicalReconciled"
  "schedule_edge ContainmentRequired PhysicalReconciled" "schedule_edge PhysicalReconciled RuntimeReconciled"
  "s \<in> {Spawned, RuntimeBound, SessionReadied, SessionDisposed} \<Longrightarrow> schedule_edge s ContainmentRequired"
  by (auto simp: schedule_edge_def)

lemma schedule_path:
  "schedule_edge s t \<Longrightarrow> schedule_edge\<^sup>*\<^sup>* s t"
  "schedule_edge s PhysicalReconciled \<Longrightarrow> schedule_edge\<^sup>*\<^sup>* s RuntimeReconciled"
  by (auto intro: rtranclp.rtrancl_into_rtrancl [OF r_into_rtranclp, of _ s PhysicalReconciled])

lemma runner_step_phase:
  assumes "in_phase k c s rn" "runner_step h rn rn'"
  shows "\<exists>t. in_phase k c t rn' \<and> schedule_edge\<^sup>*\<^sup>* s t
    \<and> (rn_completed rn' \<longrightarrow> rn_completed rn \<or> s = RuntimeReconciled)"
  using assms(2,1) in_phase_child [OF assms(1)] in_phase_key [OF assms(1)]
  by cases (auto simp: runner_op_defs schedule_path split: runner_op_splits)

lemma runner_step_stranded:
  assumes "in_phase k c PhysicalReconciled rn" "runner_step h rn rn'"
  shows "in_phase k c PhysicalReconciled rn' \<and> rn_completed rn' = rn_completed rn
    \<and> (rn_unregistered rn' \<longrightarrow> rn_unregistered rn)"
  using assms(2,1) in_phase_child [OF assms(1)] in_phase_key [OF assms(1)]
  by cases (auto simp: runner_op_defs split: runner_op_splits)

text \<open>Before a child is registered the runner has no schedule; registering one is the only way in.\<close>

lemma singleton_map_eq: "[k \<mapsto> e] = [k \<mapsto> f] \<longleftrightarrow> e = f"
  by (auto dest: map_upd_eqD1)

lemma runner_step_unregistered:
  assumes "rn_child rn = None" "rn_scheduler rn = Map.empty" "\<not> rn_completed rn" "runner_step h rn rn'"
  shows "rn_child rn' = None \<and> rn_scheduler rn' = Map.empty \<and> \<not> rn_completed rn'
    \<or> (\<exists>k c s. in_phase k c s rn' \<and> s \<in> {Spawned, ContainmentRequired} \<and> sp_attempt c = sk_attempt k
         \<and> \<not> rn_completed rn')"
  using assms(4,1-3)
  by cases (auto simp: runner_op_defs key_in_phase_def scheduler_state_def scheduled_def advance_def record_spawned_def
      set_state_def in_phase_def singleton_map_eq split: runner_op_splits)

lemma runner_step_ok: "runner_ok rn \<Longrightarrow> runner_step h rn rn' \<Longrightarrow> runner_ok rn'"
proof -
  have final: "t = RuntimeReconciled" if "schedule_edge\<^sup>*\<^sup>* RuntimeReconciled t" for t
    using that by (rule converse_rtranclpE) (auto simp: schedule_edge_def)
  assume ok: "runner_ok rn" and step: "runner_step h rn rn'"
  from ok consider (out) "rn_child rn = None" "rn_scheduler rn = Map.empty" "\<not> rn_completed rn"
    | (seat) k c s where "in_phase k c s rn" "sp_attempt c = sk_attempt k" "rn_completed rn \<longrightarrow> s = RuntimeReconciled"
    by (auto simp: runner_ok_def)
  then show "runner_ok rn'"
  proof cases
    case out
    then show ?thesis using runner_step_unregistered [OF out step] by (auto simp: runner_ok_def)
  next
    case seat
    then show ?thesis using runner_step_phase [OF seat(1) step] final by (fastforce simp: runner_ok_def)
  qed
qed

lemma runner_reachable_ok: "runner_reachable h rn \<Longrightarrow> runner_ok rn"
  unfolding runner_reachable_def
proof (induction rule: rtranclp_induct)
  case base
  show ?case by (simp add: runner_ok_def new_from_launch_claim_def runner_new_def)
next
  case (step rn rn')
  then show ?case by (blast intro: runner_step_ok)
qed

end
