(* ===== verification/Wire_Cursor.thy ===== *)
theory Wire_Cursor
  imports Study_Encoding
begin

text \<open>
  The field layer of the resident wire protocol (\<^verbatim>\<open>societyd/src/protocol.rs\<close>): the \<open>put_*\<close> writers,
  the bounded \<open>Cursor\<close> that reads the fields back, and the frame around a payload.  A reader maps the
  remaining bytes to a value and the bytes left, or to the \<open>WireError\<close> it stops with.  The locale
  \<open>wire_code\<close> is the contract of a writer and its reader: the reader accepts exactly the bytes the
  writer produces, and leaves what follows them.
\<close>

named_theorems wire_exact \<open>a reader accepts exactly what its writer produces\<close>
named_theorems wire_reads \<open>a reader returns what its writer wrote, and the bytes behind it\<close>

section \<open>Errors and readers\<close>

text \<open>\<open>WireError\<close> without \<open>Io\<close>: a stream of bytes that may end at any point raises no other error.\<close>

datatype wire_error =
    EndOfStream | ShortFrame | FrameTooLarge | MissingField | UnsupportedVersion | UnknownTag
  | InvalidCorrelation | InvalidBoolean | InvalidUtf8 | StringTooLong | BytesTooLong
  | InvalidValue | TrailingBytes

type_synonym 'a reading = "byte list \<Rightarrow> wire_error + 'a \<times> byte list"

definition yielding :: "'a \<Rightarrow> 'a reading" where
  "yielding x s = Inr (x, s)"

definition failing :: "wire_error \<Rightarrow> 'a reading" where
  "failing e s = Inl e"

text \<open>Sequencing with the early return of the operator \<^verbatim>\<open>?\<close>.\<close>

definition and_then :: "'a reading \<Rightarrow> ('a \<Rightarrow> 'b reading) \<Rightarrow> 'b reading" where
  "and_then d f s = (case d s of Inl e \<Rightarrow> Inl e | Inr (x, s') \<Rightarrow> f x s')"

text \<open>\<open>T::try_from(v).map_err(|_| WireError::InvalidValue)\<close> on the values the constructor admits.\<close>

definition admitted :: "('a \<Rightarrow> bool) \<Rightarrow> 'a reading \<Rightarrow> 'a reading" where
  "admitted ok d = and_then d (\<lambda>x. if ok x then yielding x else failing InvalidValue)"

text \<open>A closed enumeration read from its one-byte code.\<close>

definition decoded :: "('a \<Rightarrow> wire_error + 'b) \<Rightarrow> 'a reading \<Rightarrow> 'b reading" where
  "decoded f d = and_then d (\<lambda>x s. case f x of Inl e \<Rightarrow> Inl e | Inr y \<Rightarrow> Inr (y, s))"

text \<open>The loop \<^verbatim>\<open>for _ in 0..n\<close> that pushes one value after the other.\<close>

primrec repeated :: "nat \<Rightarrow> 'a reading \<Rightarrow> 'a list reading" where
  "repeated 0 d = yielding []"
| "repeated (Suc n) d = and_then d (\<lambda>x. and_then (repeated n d) (\<lambda>xs. yielding (x # xs)))"

section \<open>Integers\<close>

text \<open>\<open>to_be_bytes\<close> and \<open>from_be_bytes\<close> of an unsigned integer of \<open>n\<close> bytes.\<close>

primrec be_bytes :: "nat \<Rightarrow> int \<Rightarrow> byte list" where
  "be_bytes 0 v = []"
| "be_bytes (Suc n) v = be_bytes n (v div 256) @ [word_of_int v]"

definition be_value :: "byte list \<Rightarrow> int" where
  "be_value bs = foldl (\<lambda>v b. 256 * v + uint b) 0 bs"

definition i64_from_be_bytes :: "byte list \<Rightarrow> int" where
  "i64_from_be_bytes bs =
     (if be_value bs \<le> i64_max then be_value bs else be_value bs - 18446744073709551616)"

lemma length_be_bytes [simp]: "length (be_bytes n v) = n"
  by (induction n arbitrary: v) simp_all

lemma be_value_Nil [simp]: "be_value [] = 0"
  by (simp add: be_value_def)

lemma be_value_snoc [simp]: "be_value (bs @ [b]) = 256 * be_value bs + uint b"
  by (simp add: be_value_def)

lemma be_value_nonneg: "0 \<le> be_value bs"
  by (induction bs rule: rev_induct) simp_all

lemma uint_byte_less: "uint (b :: byte) < 256"
  using uint_lt2p [of b] by simp

lemma be_value_less: "be_value bs < 256 ^ length bs"
proof (induction bs rule: rev_induct)
  case (snoc b bs)
  then have "256 * be_value bs + 256 \<le> 256 * 256 ^ length bs" by simp
  then show ?case using uint_byte_less [of b] by simp
qed simp

lemma be_value_bytes: "be_value (be_bytes n v) = v mod 256 ^ n"
proof (induction n arbitrary: v)
  case (Suc n)
  have "uint (word_of_int v :: byte) = v mod 256" by (simp add: uint_word_of_int)
  then show ?case using Suc by (simp add: zmod_zmult2_eq)
qed simp

lemma be_bytes_value: "be_bytes (length bs) (be_value bs) = bs"
proof (induction bs rule: rev_induct)
  case (snoc b bs)
  have d: "(256 * be_value bs + uint b) div 256 = be_value bs"
    using uint_byte_less [of b] uint_ge_0 [of b] by simp
  have "(word_of_int (256 * be_value bs + uint b) :: byte) = word_of_int (uint b)"
    by (simp only: word8_eq_iff) simp
  then show ?case using snoc d by simp
qed simp

lemma be_bytes_mod: "be_bytes n (v mod 256 ^ n) = be_bytes n v"
  using be_bytes_value [of "be_bytes n v"] by (simp add: be_value_bytes)

lemma be_bytes_inverse:
  assumes "length bs = n"
  shows "be_value bs = v \<longleftrightarrow> 0 \<le> v \<and> v < 256 ^ n \<and> bs = be_bytes n v"
  using assms be_value_nonneg [of bs] be_value_less [of bs] be_bytes_value [of bs] be_value_bytes [of n v]
  by (auto simp: mod_pos_pos_trivial)


section \<open>The cursor\<close>

definition cursor_take :: "nat \<Rightarrow> byte list reading" where
  "cursor_take n s = (if length s < n then Inl MissingField else Inr (take n s, drop n s))"

definition cursor_unsigned :: "nat \<Rightarrow> int reading" where
  "cursor_unsigned n = and_then (cursor_take n) (\<lambda>b. yielding (be_value b))"

definition cursor_u8 :: "int reading" where
  "cursor_u8 = and_then (cursor_take 1) (\<lambda>b. yielding (uint (hd b)))"

definition cursor_u16 :: "int reading" where
  "cursor_u16 = cursor_unsigned 2"

definition cursor_i64 :: "int reading" where
  "cursor_i64 = and_then (cursor_take 8) (\<lambda>b. yielding (i64_from_be_bytes b))"

definition cursor_correlation :: "int reading" where
  "cursor_correlation = and_then (cursor_unsigned 8)
     (\<lambda>v. if v = 0 then failing InvalidCorrelation else yielding v)"

definition cursor_bool :: "bool reading" where
  "cursor_bool = and_then cursor_u8
     (\<lambda>v. if v = 0 then yielding False else if v = 1 then yielding True else failing InvalidBoolean)"

definition cursor_digest :: "digest reading" where
  "cursor_digest = cursor_take 32"

text \<open>A presence flag followed by the value, as in \<open>optional_i64\<close> and \<open>optional_digest\<close>.\<close>

definition cursor_optional :: "'a reading \<Rightarrow> 'a option reading" where
  "cursor_optional d = and_then cursor_bool
     (\<lambda>present. if present then and_then d (\<lambda>x. yielding (Some x)) else yielding None)"

text \<open>
  \<open>String::from_utf8\<close>: the number of bytes of the first character when they are well formed, by the
  ranges of the Unicode standard (no overlong form, no surrogate, at most U+10FFFF), and 0 otherwise.
\<close>

definition utf8_tail :: "byte \<Rightarrow> bool" where
  "utf8_tail b \<longleftrightarrow> 0x80 \<le> b \<and> b \<le> 0xBF"

fun utf8_first :: "byte list \<Rightarrow> nat" where
  "utf8_first [] = 0"
| "utf8_first (a # s) =
     (if a < 0x80 then 1
      else if 0xC2 \<le> a \<and> a \<le> 0xDF then
        (case s of b # _ \<Rightarrow> if utf8_tail b then 2 else 0 | _ \<Rightarrow> 0)
      else if 0xE0 \<le> a \<and> a \<le> 0xEF then
        (case s of b # c # _ \<Rightarrow>
             if utf8_tail b \<and> utf8_tail c \<and> (a = 0xE0 \<longrightarrow> 0xA0 \<le> b) \<and> (a = 0xED \<longrightarrow> b \<le> 0x9F) then 3 else 0
         | _ \<Rightarrow> 0)
      else if 0xF0 \<le> a \<and> a \<le> 0xF4 then
        (case s of b # c # d # _ \<Rightarrow>
             if utf8_tail b \<and> utf8_tail c \<and> utf8_tail d \<and> (a = 0xF0 \<longrightarrow> 0x90 \<le> b) \<and> (a = 0xF4 \<longrightarrow> b \<le> 0x8F)
             then 4 else 0
         | _ \<Rightarrow> 0)
      else 0)"

function utf8_valid :: "byte list \<Rightarrow> bool" where
  "utf8_valid s =
     (if s = [] then True else if utf8_first s = 0 then False else utf8_valid (drop (utf8_first s) s))"
  by auto
termination
  by (relation "measure length") simp_all

declare utf8_valid.simps [simp del]

definition cursor_bounded :: "wire_error \<Rightarrow> nat \<Rightarrow> byte list reading" where
  "cursor_bounded e maximum = and_then (cursor_unsigned 4)
     (\<lambda>n. if n > int maximum then failing e else cursor_take (nat n))"

definition cursor_string :: "nat \<Rightarrow> byte list reading" where
  "cursor_string maximum = and_then (cursor_bounded StringTooLong maximum)
     (\<lambda>b. if utf8_valid b then yielding b else failing InvalidUtf8)"

definition cursor_bytes :: "nat \<Rightarrow> byte list reading" where
  "cursor_bytes maximum = cursor_bounded BytesTooLong maximum"

definition cursor_finish :: "unit reading" where
  "cursor_finish s = (if s = [] then Inr ((), []) else Inl TrailingBytes)"

section \<open>The writers\<close>

definition wire_u8 :: "int \<Rightarrow> byte list" where
  "wire_u8 v = [word_of_int v]"

definition wire_bool :: "bool \<Rightarrow> byte list" where
  "wire_bool b = wire_u8 (if b then 1 else 0)"

definition wire_u16 :: "int \<Rightarrow> byte list" where
  "wire_u16 v = be_bytes 2 v"

definition wire_i64 :: "int \<Rightarrow> byte list" where
  "wire_i64 v = be_bytes 8 v"

definition wire_correlation :: "int \<Rightarrow> byte list" where
  "wire_correlation v = be_bytes 8 v"

text \<open>\<open>put_string\<close> and \<open>put_bytes\<close>: a 32-bit length and the bytes.\<close>

definition wire_string :: "byte list \<Rightarrow> byte list" where
  "wire_string b = be_bytes 4 (int (length b)) @ b"

definition wire_digest :: "digest \<Rightarrow> byte list" where
  "wire_digest d = d"

definition wire_optional :: "('a \<Rightarrow> byte list) \<Rightarrow> 'a option \<Rightarrow> byte list" where
  "wire_optional enc v = (case v of Some x \<Rightarrow> wire_bool True @ enc x | None \<Rightarrow> wire_bool False)"

section \<open>Frames\<close>

abbreviation MAX_FRAME_BYTES :: nat where
  "MAX_FRAME_BYTES \<equiv> 65536"

definition write_frame :: "byte list \<Rightarrow> wire_error + byte list" where
  "write_frame payload =
     (if length payload > MAX_FRAME_BYTES then Inl FrameTooLarge
      else Inr (be_bytes 4 (int (length payload)) @ payload))"

text \<open>Reading from a stream that delivers the bytes \<open>s\<close> and then ends.\<close>

definition read_frame :: "byte list reading" where
  "read_frame s =
     (if s = [] then Inl EndOfStream
      else if length s < 4 then Inl ShortFrame
      else let n = be_value (take 4 s); s' = drop 4 s in
           if n > int MAX_FRAME_BYTES then Inl FrameTooLarge
           else if length s' < nat n then Inl ShortFrame
           else Inr (take (nat n) s', drop (nat n) s'))"


section \<open>Readers accept exactly what writers produce\<close>

lemma yielding_Inr [wire_exact]: "yielding x s = Inr (y, r) \<longleftrightarrow> y = x \<and> s = r"
  by (auto simp: yielding_def)

lemma failing_Inr [wire_exact]: "failing e s \<noteq> Inr z"
  by (simp add: failing_def)

lemma and_then_Inr [wire_exact]:
  "and_then d f s = Inr z \<longleftrightarrow> (\<exists>x s'. d s = Inr (x, s') \<and> f x s' = Inr z)"
  by (auto simp: and_then_def split: sum.splits)

lemma admitted_Inr [wire_exact]: "admitted p d s = Inr (x, r) \<longleftrightarrow> p x \<and> d s = Inr (x, r)"
  by (auto simp: admitted_def and_then_Inr yielding_Inr failing_Inr split: if_splits)

lemma and_then_apply [simp]: "d s = Inr (x, s') \<Longrightarrow> and_then d f s = f x s'"
  by (simp add: and_then_def)

lemma cursor_take_Inr: "cursor_take n s = Inr (b, r) \<longleftrightarrow> length b = n \<and> s = b @ r"
  by (auto simp: cursor_take_def split: if_splits)

lemma and_then_stops [simp]: "d s = Inl e \<Longrightarrow> and_then d f s = Inl e"
  by (simp add: and_then_def)

locale wire_code =
  fixes ok :: "'a \<Rightarrow> bool" and enc :: "'a \<Rightarrow> byte list" and dec :: "'a reading"
  assumes exact: "dec s = Inr (x, r) \<longleftrightarrow> ok x \<and> s = enc x @ r"
begin

lemma read_back: "ok x \<Longrightarrow> dec (enc x @ r) = Inr (x, r)"
  by (simp add: exact)

lemma optional_exact:
  assumes bool: "\<And>b s r. cursor_bool s = Inr (b, r) \<longleftrightarrow> s = wire_bool b @ r"
  shows "cursor_optional dec s = Inr (v, r) \<longleftrightarrow> optional_ok ok v \<and> s = wire_optional enc v @ r"
  by (cases v) (auto simp: cursor_optional_def and_then_Inr yielding_Inr exact bool optional_ok_def
      wire_optional_def split: if_splits)

lemma repeated_exact:
  "repeated n dec s = Inr (xs, r) \<longleftrightarrow> length xs = n \<and> list_all ok xs \<and> s = concat (map enc xs) @ r"
  by (induction n arbitrary: s xs) (auto simp: and_then_Inr yielding_Inr exact length_Suc_conv)

lemma decoded_Inr: "decoded f dec s = Inr (y, r) \<longleftrightarrow> (\<exists>x. f x = Inr y \<and> ok x \<and> s = enc x @ r)"
proof -
  have "(case f x of Inl e \<Rightarrow> Inl e | Inr z \<Rightarrow> Inr (z, s')) = Inr (y, r) \<longleftrightarrow> f x = Inr y \<and> s' = r" for x s'
    by (cases "f x") auto
  then show ?thesis by (auto simp: decoded_def and_then_Inr exact)
qed

lemma decoded_exact:
  assumes "\<And>x y. f x = Inr y \<longleftrightarrow> x = code y" "\<And>y. ok (code y)"
  shows "decoded f dec s = Inr (y, r) \<longleftrightarrow> s = enc (code y) @ r"
  by (simp add: decoded_Inr assms)

end

sublocale wire_code \<subseteq> prefix_code ok enc
proof
  fix x y u v assume "ok x" "ok y" "enc x @ u = enc y @ v"
  then have "dec (enc x @ u) = Inr (x, u)" "dec (enc x @ u) = Inr (y, v)" by (simp_all add: exact)
  then show "x = y \<and> u = v" by simp
qed

definition u8_ok :: "int \<Rightarrow> bool" where
  "u8_ok v \<longleftrightarrow> 0 \<le> v \<and> v < 256"

definition unsigned_ok :: "nat \<Rightarrow> int \<Rightarrow> bool" where
  "unsigned_ok n v \<longleftrightarrow> 0 \<le> v \<and> v < 256 ^ n"

lemma cursor_unsigned_exact:
  "cursor_unsigned n s = Inr (v, r) \<longleftrightarrow> unsigned_ok n v \<and> s = be_bytes n v @ r"
proof
  assume "cursor_unsigned n s = Inr (v, r)"
  then obtain b where "length b = n" "s = b @ r" "be_value b = v"
    by (auto simp: cursor_unsigned_def and_then_Inr yielding_Inr cursor_take_Inr)
  then show "unsigned_ok n v \<and> s = be_bytes n v @ r" by (simp add: unsigned_ok_def be_bytes_inverse)
next
  assume "unsigned_ok n v \<and> s = be_bytes n v @ r"
  then show "cursor_unsigned n s = Inr (v, r)"
    by (auto simp: cursor_unsigned_def and_then_Inr yielding_Inr cursor_take_Inr unsigned_ok_def be_value_bytes)
qed

lemma i64_from_be_bytes_iff:
  assumes "length b = 8"
  shows "i64_from_be_bytes b = v \<longleftrightarrow> in_i64 v \<and> b = be_bytes 8 v"
proof
  have n: "0 \<le> be_value b" "be_value b < 18446744073709551616"
    using be_value_nonneg [of b] be_value_less [of b] assms by simp_all
  have w: "be_bytes 8 (be_value b) = b" using be_bytes_value [of b] assms by simp
  have "be_bytes 8 (be_value b - 18446744073709551616) = be_bytes 8 (be_value b)"
    using be_bytes_mod [of 8 "be_value b - 18446744073709551616"] be_bytes_mod [of 8 "be_value b"] by simp
  moreover assume "i64_from_be_bytes b = v"
  ultimately show "in_i64 v \<and> b = be_bytes 8 v"
    using n w by (auto simp: i64_from_be_bytes_def in_i64_def split: if_splits)
next
  assume "in_i64 v \<and> b = be_bytes 8 v"
  moreover have "v mod 18446744073709551616 = (if 0 \<le> v then v else v + 18446744073709551616)" if "in_i64 v"
    using that mod_add_self2 [of v "18446744073709551616"]
    by (auto simp: in_i64_def mod_pos_pos_trivial simp del: mod_add_self2)
  ultimately show "i64_from_be_bytes b = v"
    by (auto simp: i64_from_be_bytes_def be_value_bytes in_i64_def)
qed

interpretation w_unsigned: wire_code "unsigned_ok n" "be_bytes n" "cursor_unsigned n" for n
  by unfold_locales (rule cursor_unsigned_exact)

interpretation w_i64: wire_code in_i64 wire_i64 cursor_i64
proof
  fix s r and v :: int
  have "cursor_i64 s = Inr (v, r) \<longleftrightarrow> (\<exists>b. length b = 8 \<and> s = b @ r \<and> i64_from_be_bytes b = v)"
    by (auto simp: cursor_i64_def and_then_Inr yielding_Inr cursor_take_Inr)
  also have "\<dots> \<longleftrightarrow> in_i64 v \<and> s = wire_i64 v @ r"
    using i64_from_be_bytes_iff by (auto simp: wire_i64_def)
  finally show "cursor_i64 s = Inr (v, r) \<longleftrightarrow> in_i64 v \<and> s = wire_i64 v @ r" .
qed

interpretation w_u16: wire_code "unsigned_ok 2" wire_u16 cursor_u16
  by unfold_locales (simp add: cursor_u16_def wire_u16_def cursor_unsigned_exact)

lemma uint_hd_value: "s \<noteq> [] \<Longrightarrow> uint (hd s) = be_value (take (Suc 0) s)"
  by (cases s) (simp_all add: be_value_def)

interpretation w_u8: wire_code u8_ok wire_u8 cursor_u8
proof
  fix s r and v :: int
  have "cursor_u8 s = cursor_unsigned 1 s"
    by (auto simp: cursor_u8_def cursor_unsigned_def and_then_def cursor_take_def uint_hd_value
        split: sum.splits prod.splits if_splits)
  then show "cursor_u8 s = Inr (v, r) \<longleftrightarrow> u8_ok v \<and> s = wire_u8 v @ r"
    by (simp add: cursor_unsigned_exact wire_u8_def unsigned_ok_def u8_ok_def)
qed

lemma wire_bool_exact: "cursor_bool s = Inr (b, r) \<longleftrightarrow> s = wire_bool b @ r"
proof -
  have "cursor_bool s = Inr (b, r) \<longleftrightarrow> cursor_u8 s = Inr (if b then 1 else 0, r)"
    by (auto simp: cursor_bool_def and_then_def yielding_def failing_def split: sum.splits)
  then show ?thesis by (simp add: w_u8.exact wire_bool_def u8_ok_def)
qed

interpretation w_correlation: wire_code "\<lambda>v. unsigned_ok 8 v \<and> v \<noteq> 0" wire_correlation cursor_correlation
  by unfold_locales
    (auto simp: cursor_correlation_def wire_correlation_def and_then_Inr yielding_Inr failing_Inr
      cursor_unsigned_exact split: if_splits)

interpretation w_digest: wire_code digest_ok wire_digest cursor_digest
  by unfold_locales (auto simp: cursor_digest_def wire_digest_def cursor_take_Inr digest_ok_def)

lemma cursor_bounded_exact:
  assumes "n < 256 ^ 4"
  shows "cursor_bounded e n s = Inr (b, r) \<longleftrightarrow> length b \<le> n \<and> s = wire_string b @ r"
proof -
  have "cursor_bounded e n s = Inr (b, r) \<longleftrightarrow>
      length b \<le> n \<and> (\<exists>s'. cursor_unsigned 4 s = Inr (int (length b), s') \<and> s' = b @ r)"
  proof
    assume "cursor_bounded e n s = Inr (b, r)"
    then obtain v s' where v: "cursor_unsigned 4 s = Inr (v, s')" "v \<le> int n" "cursor_take (nat v) s' = Inr (b, r)"
      by (auto simp: cursor_bounded_def and_then_Inr failing_Inr split: if_splits)
    then have "v = int (length b)" "s' = b @ r" by (auto simp: cursor_take_Inr cursor_unsigned_exact unsigned_ok_def)
    then show "length b \<le> n \<and> (\<exists>s'. cursor_unsigned 4 s = Inr (int (length b), s') \<and> s' = b @ r)"
      using v by auto
  qed (auto simp: cursor_bounded_def cursor_take_Inr)
  then show ?thesis using assms
    by (auto simp: cursor_unsigned_exact wire_string_def unsigned_ok_def)
qed

lemma cursor_string_exact:
  assumes "n < 256 ^ 4"
  shows "cursor_string n s = Inr (b, r) \<longleftrightarrow> (length b \<le> n \<and> utf8_valid b) \<and> s = wire_string b @ r"
  using assms
  by (auto simp: cursor_string_def and_then_Inr yielding_Inr failing_Inr cursor_bounded_exact split: if_splits)

lemma cursor_finish_Inr [wire_exact]: "cursor_finish s = Inr (u, r) \<longleftrightarrow> s = [] \<and> r = []"
  by (auto simp: cursor_finish_def)

lemmas w_exact [wire_exact] = w_i64.exact w_u16.exact w_u8.exact wire_bool_exact w_correlation.exact w_digest.exact
  w_i64.optional_exact [OF wire_bool_exact] w_digest.optional_exact [OF wire_bool_exact]

section \<open>Frames\<close>

lemma read_frame_write:
  "read_frame s = Inr (payload, r) \<longleftrightarrow> (\<exists>bytes. write_frame payload = Inr bytes \<and> s = bytes @ r)"
proof
  assume a: "read_frame s = Inr (payload, r)"
  let ?n = "be_value (take 4 s)"
  have n: "length (take 4 s) = 4" "?n \<le> 65536" "nat ?n \<le> length (drop 4 s)"
    "payload = take (nat ?n) (drop 4 s)" "r = drop (nat ?n) (drop 4 s)"
    using a by (auto simp: read_frame_def Let_def split: if_splits)
  have "int (length payload) = ?n" using n be_value_nonneg [of "take 4 s"] by simp
  moreover have "take 4 s = be_bytes 4 ?n" using be_bytes_value [of "take 4 s"] n(1) by simp
  moreover have "s = take 4 s @ payload @ r" using n(4,5) by (metis append_take_drop_id)
  ultimately show "\<exists>bytes. write_frame payload = Inr bytes \<and> s = bytes @ r"
    using n(2) by (simp add: write_frame_def)
next
  assume "\<exists>bytes. write_frame payload = Inr bytes \<and> s = bytes @ r"
  then show "read_frame s = Inr (payload, r)"
    by (auto simp: write_frame_def read_frame_def be_value_bytes Let_def
        dest: arg_cong [of _ _ length] split: if_splits)
qed

end
