(* ===== verification/Cycle_Types.thy ===== *)
theory Cycle_Types
  imports Society_Prelude
begin

text \<open>
  The enumerations of \<^verbatim>\<open>domain.rs\<close> that the operating-cycle plane stores in its lifecycle columns and
  the wire protocol carries, with their predicates.
\<close>

datatype (plugins only: code) operating_cycle_state =
    Proposed | CycleAdmitted | CycleRunning | Quiescing | Drained | Reconciling | CycleClosed | Cancelling
  | Reaping | CycleCancelled | CycleFailed

definition is_nonterminal :: "operating_cycle_state \<Rightarrow> bool" where
  "is_nonterminal s \<longleftrightarrow> s \<notin> {CycleClosed, CycleCancelled, CycleFailed}"

definition admits_task_work :: "operating_cycle_state \<Rightarrow> bool" where
  "admits_task_work s \<longleftrightarrow> s = CycleRunning"

datatype (plugins only: code) operating_cycle_treatment =
    PiSdkQualificationV1 | PinnedPiSdkLiveV1 | DeterministicPiHostFixtureV1
  | DeterministicEvaluatorFixtureV1

datatype (plugins only: code) office_session_state =
    SessionReserved | SessionStarting | SessionReady | SessionTurnActive | SessionQuiescing
  | SessionProcessEnded | SessionEvidenceSealing | SessionClosed | SessionCancelling
  | SessionCancelled | SessionFailed

datatype (plugins only: code) office_turn_state =
    TurnActive | TurnSettled | TurnCancelled | TurnFailed

datatype (plugins only: code) office_turn_purpose =
    OrdinaryWork | Recovery | Cancellation | Closure

datatype (plugins only: code) office_session_terminal_state =
    SessionTerminalClosed | SessionTerminalCancelled | SessionTerminalFailed

datatype (plugins only: code) cancellation_mode =
    Quiesce | GracefulCancel | EmergencyStop

datatype (plugins only: code) cancellation_state =
    CancellationRequested | CancellationAccepted | CancellationPropagating
  | CancellationAwaitingGrace | CancellationTerminating | CancellationKilling
  | CancellationReconciling | CancellationCompleted | CancellationContainmentFailed

datatype (plugins only: code) budget_reservation_state =
    ReservationReserved | ReservationReconciled | ReservationFrozen

datatype (plugins only: code) cost_postmortem_cause =
    CauseKnownOverrun | CauseUnknownCost | CauseUnavailableCost

datatype (plugins only: code) cost_postmortem_resolution =
    ConservativeFullReservation | ChargeObservedOverrun

datatype (plugins only: code) cost_postmortem_state =
    PostmortemOpen | PostmortemClosed

datatype (plugins only: code) cost_unknown_reason =
    ProviderDidNotReport | AdapterStreamInterrupted | ReconciliationMismatch

datatype (plugins only: code) cost_unavailable_reason =
    ProviderUnavailable | CredentialUnavailable | QualificationRejected
  | AdapterAccountingUnavailable

datatype (plugins only: code) cost_observation =
    CostKnown int | CostUnknown cost_unknown_reason | CostUnavailable cost_unavailable_reason

datatype (plugins only: code) budget_freeze_reason =
    FrozenKnownOverrun int int
  | FrozenUnknown cost_unknown_reason
  | FrozenUnavailable cost_unavailable_reason

datatype (plugins only: code) expected_generation =
    NotApplicable | Exact int

text \<open>\<open>AdmissionGeneration::increment\<close>.\<close>

definition increment_generation :: "int \<Rightarrow> int option" where
  "increment_generation g = checked_add_i64 g 1"

end
