(* ===== verification/Wire_Values.thy ===== *)
theory Wire_Values
  imports Wire_Cursor Ledger Cycle_Types
begin

text \<open>
  The closed values of the resident wire protocol (\<^verbatim>\<open>societyd/src/protocol.rs\<close>) and the domain types
  they carry: client commands with the founding mission, receipts, study observations, and the two
  request vocabularies of the monitor socket and the supervisor stream.  A capability is its
  discriminant, as in the ledger.  The predicates \<open>..._ok\<close> of the values here are what the constructors
  of the Rust types admit; where a reader demands more, \<^verbatim>\<open>Wire_Exact\<close> separates the two.
\<close>

section \<open>Domain values\<close>

datatype mission_principle_kind = Purpose | Evidence | Boundary | Revision

record mission_principle =
  mp_kind :: mission_principle_kind
  mp_text :: "byte list"

record application_mission_input =
  am_identity :: "byte list"
  am_name :: "byte list"
  am_revision :: int
  am_statement :: "byte list"
  am_principles :: "mission_principle list"
  am_change :: "byte list"
  am_improvement :: "byte list"
  am_boundary :: "byte list"
  am_revisit :: "byte list"
  am_source :: digest

text \<open>\<open>SocietyName\<close>, \<open>ApplicationName\<close>, \<open>PrincipalDisplayName\<close> and the mission texts: \<open>parse\<close> on a string.\<close>

definition bounded_text :: "nat \<Rightarrow> byte list \<Rightarrow> bool" where
  "bounded_text n b \<longleftrightarrow> \<not> utf8_blank b \<and> length b \<le> n \<and> 0 \<notin> set b"

definition ascii_alphanumeric :: "byte \<Rightarrow> bool" where
  "ascii_alphanumeric b \<longleftrightarrow> (0x30 \<le> b \<and> b \<le> 0x39) \<or> (0x41 \<le> b \<and> b \<le> 0x5A) \<or> (0x61 \<le> b \<and> b \<le> 0x7A)"

definition application_identity_parse :: "byte list \<Rightarrow> bool" where
  "application_identity_parse b \<longleftrightarrow> b \<noteq> [] \<and> length b \<le> 128
     \<and> list_all (\<lambda>x. ascii_alphanumeric x \<or> x \<in> {0x2E, 0x5F, 0x2D}) b
     \<and> ascii_alphanumeric (hd b) \<and> ascii_alphanumeric (last b)"

abbreviation MAX_PRINCIPLES :: nat where
  "MAX_PRINCIPLES \<equiv> 16"

abbreviation MAX_RENDERING :: nat where
  "MAX_RENDERING \<equiv> 16384"

definition mission_source_rendering_parse :: "byte list \<Rightarrow> bool" where
  "mission_source_rendering_parse b \<longleftrightarrow> b \<noteq> [] \<and> length b \<le> MAX_RENDERING"

text \<open>\<open>UsdMicros::new\<close> and \<open>AdmissionGeneration::try_from\<close>; \<open>new\<close> of an identifier and of a revision ordinal.\<close>

definition nonnegative_ok :: "int \<Rightarrow> bool" where
  "nonnegative_ok v \<longleftrightarrow> 0 \<le> v"

definition positive_ok :: "int \<Rightarrow> bool" where
  "positive_ok v \<longleftrightarrow> 0 < v"

definition registered_pair_count_ok :: "int \<Rightarrow> bool" where
  "registered_pair_count_ok v \<longleftrightarrow> 0 \<le> v \<and> v \<le> 10000"

section \<open>Commands and requests\<close>

datatype client_command_body =
    CreateSocietyIdentity "byte list"
  | InstallRootAuthorityOffice
  | InstallFoundingMission application_mission_input "byte list"
  | AppointInitialRootAuthority "byte list"
  | SetR0HardCeiling int
  | BootstrapSociety
  | ProposeOperatingCycle operating_cycle_treatment int
  | AdmitOperatingCycle int
  | StartRootAuthorityOfficeSession int
  | OpenOfficeTurn int office_turn_purpose
  | QuiesceOperatingCycle int
  | ResumeOperatingCycle int
  | ReconcileOperatingCycle int
  | CloseOperatingCycle int
  | ReserveBudget int int
  | RequestCancellation int cancellation_mode
  | CloseCostPostmortem int cost_postmortem_resolution

primrec client_command_tag :: "client_command_body \<Rightarrow> int" where
  "client_command_tag (CreateSocietyIdentity _) = 1"
| "client_command_tag InstallRootAuthorityOffice = 2"
| "client_command_tag (InstallFoundingMission _ _) = 3"
| "client_command_tag (AppointInitialRootAuthority _) = 4"
| "client_command_tag (SetR0HardCeiling _) = 5"
| "client_command_tag BootstrapSociety = 6"
| "client_command_tag (ProposeOperatingCycle _ _) = 7"
| "client_command_tag (AdmitOperatingCycle _) = 8"
| "client_command_tag (StartRootAuthorityOfficeSession _) = 9"
| "client_command_tag (OpenOfficeTurn _ _) = 11"
| "client_command_tag (QuiesceOperatingCycle _) = 13"
| "client_command_tag (ResumeOperatingCycle _) = 15"
| "client_command_tag (ReconcileOperatingCycle _) = 16"
| "client_command_tag (CloseOperatingCycle _) = 17"
| "client_command_tag (ReserveBudget _ _) = 18"
| "client_command_tag (RequestCancellation _ _) = 20"
| "client_command_tag (CloseCostPostmortem _ _) = 23"

primrec client_required_capability :: "client_command_body \<Rightarrow> int" where
  "client_required_capability (CreateSocietyIdentity _) = 1"
| "client_required_capability InstallRootAuthorityOffice = 2"
| "client_required_capability (InstallFoundingMission _ _) = 3"
| "client_required_capability (AppointInitialRootAuthority _) = 4"
| "client_required_capability (SetR0HardCeiling _) = 5"
| "client_required_capability BootstrapSociety = 6"
| "client_required_capability (ProposeOperatingCycle _ _) = 7"
| "client_required_capability (AdmitOperatingCycle _) = 8"
| "client_required_capability (StartRootAuthorityOfficeSession _) = 13"
| "client_required_capability (OpenOfficeTurn _ _) = 14"
| "client_required_capability (QuiesceOperatingCycle _) = 9"
| "client_required_capability (ResumeOperatingCycle _) = 10"
| "client_required_capability (ReconcileOperatingCycle _) = 11"
| "client_required_capability (CloseOperatingCycle _) = 12"
| "client_required_capability (ReserveBudget _ _) = 16"
| "client_required_capability (RequestCancellation _ _) = 15"
| "client_required_capability (CloseCostPostmortem _ _) = 23"

record client_command_request =
  cr_id :: "byte list"
  cr_principal :: int
  cr_grant :: int
  cr_capability :: int
  cr_generation :: "int option"
  cr_body :: client_command_body

text \<open>The monitor vocabulary, each with its correlation first.\<close>

datatype public_request =
    PublicCommandReceipt int "byte list"
  | PublicStatus int
  | PublicStudyPairObservation int int
  | PublicStudyRunObservation int int
  | PublicStudyRunPairRegistration int int int

text \<open>The supervisor vocabulary.\<close>

datatype supervisor_request =
    SupervisorExecute int client_command_request
  | SupervisorCommandReceipt int "byte list"
  | SupervisorStatus int
  | SupervisorActiveCapabilityGrant int int int

section \<open>Responses\<close>

datatype command_receipt_view = AcceptedView int bool | RejectedView rejection bool

text \<open>\<open>From<CommandReceipt>\<close>: what the daemon answers for a receipt of the ledger.\<close>

definition receipt_view :: "command_receipt \<Rightarrow> command_receipt_view" where
  "receipt_view rc = (case rc_disposition rc of
     Accepted event \<Rightarrow> AcceptedView event (rc_idempotent rc)
   | Rejected x \<Rightarrow> RejectedView x (rc_idempotent rc))"

datatype daemon_status = FreshServing int | RecoveryFenced int

record study_run_summary =
  sr_run :: int
  sr_protocol :: int
  sr_plan_object :: int
  sr_plan_digest :: digest
  sr_pairs :: int
  sr_registered :: int
  sr_state :: study_run_lifecycle_state

record study_run_pair_registration =
  rg_ordinal :: int
  rg_pair :: int
  rg_randomization :: digest

record study_measurement_observation =
  om_slot :: int
  om_status :: study_measurement_status
  om_value :: "int option"
  om_value_digest :: "digest option"
  om_reason_digest :: "digest option"

record study_episode_observation =
  oe_episode :: int
  oe_protocol :: int
  oe_world :: int
  oe_measurement :: int
  oe_slot_count :: int
  oe_institution :: int
  oe_source_population :: int
  oe_successor_population :: "int option"
  oe_randomization :: digest
  oe_treatment :: study_treatment
  oe_state :: study_episode_state
  oe_source_obligations :: int
  oe_source_terminal :: int
  oe_successor_obligations :: int
  oe_successor_terminal :: int
  oe_failed :: int
  oe_bindings :: int
  oe_reconciled_bindings :: int
  oe_frozen_head :: "int option"
  oe_messages :: int
  oe_reads :: int
  oe_returned_bytes :: int
  oe_decisions :: int
  oe_reveal :: "digest option"
  oe_measurements :: "study_measurement_observation list"

record study_pair_observation =
  op_pair :: int
  op_retained :: study_episode_observation
  op_reset :: study_episode_observation

datatype protocol_error_code =
    ErrMalformedFrame | ErrUnsupportedVersion | ErrUnknownTag | ErrPeerNotAuthorized | ErrRecoveryFenced
  | ErrIdempotencyConflict | ErrKernelFailure | ErrDaemonStopping | ErrMissionSourceDigestMismatch

datatype response =
    ResponseCommandReceipt int command_receipt_view
  | ResponseCommandReceiptLookup int "command_receipt_view option"
  | ResponseStatus int daemon_status
  | ResponseStudyPairObservation int "study_pair_observation option"
  | ResponseStudyRunSummary int "study_run_summary option"
  | ResponseStudyRunPairRegistration int "study_run_pair_registration option"
  | ResponseActiveCapabilityGrant int "int option"
  | ResponseError int protocol_error_code

section \<open>Codes\<close>

primrec treatment_byte :: "operating_cycle_treatment \<Rightarrow> int" where
  "treatment_byte PiSdkQualificationV1 = 1"
| "treatment_byte PinnedPiSdkLiveV1 = 2"
| "treatment_byte DeterministicPiHostFixtureV1 = 3"
| "treatment_byte DeterministicEvaluatorFixtureV1 = 4"

definition operating_cycle_treatment_from_u8 :: "int \<Rightarrow> wire_error + operating_cycle_treatment" where
  "operating_cycle_treatment_from_u8 v =
     (if v = 1 then Inr PiSdkQualificationV1 else if v = 2 then Inr PinnedPiSdkLiveV1
      else if v = 3 then Inr DeterministicPiHostFixtureV1 else Inl InvalidValue)"

primrec principle_kind_byte :: "mission_principle_kind \<Rightarrow> int" where
  "principle_kind_byte Purpose = 1"
| "principle_kind_byte Evidence = 2"
| "principle_kind_byte Boundary = 3"
| "principle_kind_byte Revision = 4"

definition mission_principle_kind_from_u8 :: "int \<Rightarrow> wire_error + mission_principle_kind" where
  "mission_principle_kind_from_u8 v =
     (if v = 1 then Inr Purpose else if v = 2 then Inr Evidence else if v = 3 then Inr Boundary
      else if v = 4 then Inr Revision else Inl InvalidValue)"

primrec turn_purpose_byte :: "office_turn_purpose \<Rightarrow> int" where
  "turn_purpose_byte OrdinaryWork = 1"
| "turn_purpose_byte Recovery = 2"
| "turn_purpose_byte Cancellation = 3"
| "turn_purpose_byte Closure = 4"

definition office_turn_purpose_from_u8 :: "int \<Rightarrow> wire_error + office_turn_purpose" where
  "office_turn_purpose_from_u8 v =
     (if v = 1 then Inr OrdinaryWork else if v = 2 then Inr Recovery else if v = 3 then Inr Cancellation
      else if v = 4 then Inr Closure else Inl InvalidValue)"

primrec cancellation_mode_byte :: "cancellation_mode \<Rightarrow> int" where
  "cancellation_mode_byte Quiesce = 1"
| "cancellation_mode_byte GracefulCancel = 2"
| "cancellation_mode_byte EmergencyStop = 3"

definition cancellation_mode_from_u8 :: "int \<Rightarrow> wire_error + cancellation_mode" where
  "cancellation_mode_from_u8 v =
     (if v = 1 then Inr Quiesce else if v = 2 then Inr GracefulCancel else if v = 3 then Inr EmergencyStop
      else Inl InvalidValue)"

primrec postmortem_resolution_byte :: "cost_postmortem_resolution \<Rightarrow> int" where
  "postmortem_resolution_byte ConservativeFullReservation = 1"
| "postmortem_resolution_byte ChargeObservedOverrun = 2"

definition cost_postmortem_resolution_from_u8 :: "int \<Rightarrow> wire_error + cost_postmortem_resolution" where
  "cost_postmortem_resolution_from_u8 v =
     (if v = 1 then Inr ConservativeFullReservation else if v = 2 then Inr ChargeObservedOverrun
      else Inl InvalidValue)"

primrec protocol_error_byte :: "protocol_error_code \<Rightarrow> int" where
  "protocol_error_byte ErrMalformedFrame = 1"
| "protocol_error_byte ErrUnsupportedVersion = 2"
| "protocol_error_byte ErrUnknownTag = 3"
| "protocol_error_byte ErrPeerNotAuthorized = 4"
| "protocol_error_byte ErrRecoveryFenced = 5"
| "protocol_error_byte ErrIdempotencyConflict = 6"
| "protocol_error_byte ErrKernelFailure = 7"
| "protocol_error_byte ErrDaemonStopping = 8"
| "protocol_error_byte ErrMissionSourceDigestMismatch = 9"

definition protocol_error_from_u8 :: "int \<Rightarrow> wire_error + protocol_error_code" where
  "protocol_error_from_u8 v =
     (if v = 1 then Inr ErrMalformedFrame else if v = 2 then Inr ErrUnsupportedVersion
      else if v = 3 then Inr ErrUnknownTag else if v = 4 then Inr ErrPeerNotAuthorized
      else if v = 5 then Inr ErrRecoveryFenced else if v = 6 then Inr ErrIdempotencyConflict
      else if v = 7 then Inr ErrKernelFailure else if v = 8 then Inr ErrDaemonStopping
      else if v = 9 then Inr ErrMissionSourceDigestMismatch else Inl InvalidValue)"

definition study_treatment_from_u8 :: "int \<Rightarrow> wire_error + study_treatment" where
  "study_treatment_from_u8 v =
     (if v = 1 then Inr Retained else if v = 2 then Inr Reset else Inl InvalidValue)"

definition study_episode_state_from_u8 :: "int \<Rightarrow> wire_error + study_episode_state" where
  "study_episode_state_from_u8 v =
     (if v = 1 then Inr Admitted else if v = 2 then Inr SourceActive else if v = 3 then Inr SourceReconciled
      else if v = 4 then Inr SuccessorAdmitted else if v = 5 then Inr CorrectionReleased
      else if v = 6 then Inr SuccessorActive else if v = 7 then Inr Closed else Inl InvalidValue)"

definition study_measurement_status_from_u8 :: "int \<Rightarrow> wire_error + study_measurement_status" where
  "study_measurement_status_from_u8 v =
     (if v = 1 then Inr Observed else if v = 2 then Inr Unavailable else if v = 3 then Inr Invalidated
      else Inl InvalidValue)"

definition study_run_lifecycle_state_from_u8 :: "int \<Rightarrow> wire_error + study_run_lifecycle_state" where
  "study_run_lifecycle_state_from_u8 v =
     (if v = 1 then Inr Pairing else if v = 2 then Inr Ready else if v = 3 then Inr Running
      else if v = 4 then Inr Completed else Inl InvalidValue)"

definition rejection_from_u8 :: "int \<Rightarrow> wire_error + rejection" where
  "rejection_from_u8 v = (case rejection_try_from_u8 (word_of_int v) of Some x \<Rightarrow> Inr x | None \<Rightarrow> Inl InvalidValue)"

text \<open>The first 23 discriminants are read; the ones a supervisor may present are fewer.\<close>

definition capability_from_u8 :: "int \<Rightarrow> wire_error + int" where
  "capability_from_u8 v = (if 1 \<le> v \<and> v \<le> 23 then Inr v else Inl InvalidValue)"

definition supervisor_capability_is_representable :: "int \<Rightarrow> bool" where
  "supervisor_capability_is_representable c \<longleftrightarrow> (1 \<le> c \<and> c \<le> 16) \<or> c = 23"

end
