(* ===== verification/Attempt_Driver.thy ===== *)
theory Attempt_Driver
  imports Attempt_Runner Wire_Values
begin

text \<open>
  The application's driver of one task attempt
  (\<^verbatim>\<open>correction-latency-harness/src/native_task_driver.rs\<close>) over the runner.  A timed loop takes
  the answers of the polls that fall into its window, one per iteration: when they run out, the
  window is over and the loop times out.  Between the runner's own transitions the daemon writes the
  kernel tables as well; these writes are functions of the environment.
\<close>

section \<open>Timed loops\<close>

datatype (plugins only: code) native_drive_error =
    DriveInvalidOperationIdentity | DriveInvalidPrompt | DriveInvalidCorrelationIdentity | DriveStudyPlan
  | DriveRunner runner_error
  | AdapterHandshakeTimedOut | SessionHandshakeTimedOut | PromptTerminalTimedOut | DisposeTimedOut

text \<open>Poll until the boundary is reached.\<close>

fun await_boundary ::
  "native_drive_error \<Rightarrow> ('a \<Rightarrow> attempt_runner \<Rightarrow> (runner_error + bool) \<times> attempt_runner)
     \<Rightarrow> 'a list \<Rightarrow> attempt_runner \<Rightarrow> (native_drive_error + unit) \<times> attempt_runner" where
  "await_boundary late poll [] rn = (Inl late, rn)"
| "await_boundary late poll (a # as) rn =
     (case poll a rn of
        (Inl e, rn') \<Rightarrow> (Inl (DriveRunner e), rn')
      | (Inr True, rn') \<Rightarrow> (Inr (), rn')
      | (Inr False, rn') \<Rightarrow> await_boundary late poll as rn')"

text \<open>Drive a control write until it is delivered.\<close>

fun drive_write ::
  "native_drive_error
     \<Rightarrow> ('a \<Rightarrow> attempt_runner \<Rightarrow> (runner_error + control_write_progress) \<times> attempt_runner)
     \<Rightarrow> 'a list \<Rightarrow> control_write_progress \<Rightarrow> attempt_runner \<Rightarrow> (native_drive_error + unit) \<times> attempt_runner" where
  "drive_write late drive as Delivered rn = (Inr (), rn)"
| "drive_write late drive [] Pending rn = (Inl late, rn)"
| "drive_write late drive (a # as) Pending rn =
     (case drive a rn of
        (Inl e, rn') \<Rightarrow> (Inl (DriveRunner e), rn')
      | (Inr p, rn') \<Rightarrow> drive_write late drive as p rn')"

definition deliver ::
  "native_drive_error
     \<Rightarrow> ('a \<Rightarrow> attempt_runner \<Rightarrow> (runner_error + control_write_progress) \<times> attempt_runner)
     \<Rightarrow> ('a \<Rightarrow> attempt_runner \<Rightarrow> (runner_error + control_write_progress) \<times> attempt_runner)
     \<Rightarrow> 'a \<times> 'a list \<Rightarrow> attempt_runner \<Rightarrow> (native_drive_error + unit) \<times> attempt_runner" where
  "deliver late start drive = (\<lambda>(a, as) rn.
     case start a rn of
       (Inl e, rn') \<Rightarrow> (Inl (DriveRunner e), rn')
     | (Inr p, rn') \<Rightarrow> drive_write late drive as p rn')"

type_synonym write_answers =
  "(runner_error + control_write_progress) \<times> (runner_error + control_write_progress) list"

definition await_adapter_ready ::
  "(runner_error + bool) list \<Rightarrow> attempt_runner \<Rightarrow> (native_drive_error + unit) \<times> attempt_runner" where
  "await_adapter_ready = await_boundary AdapterHandshakeTimedOut observe_adapter_ready"

definition deliver_create :: "write_answers \<Rightarrow> attempt_runner \<Rightarrow> (native_drive_error + unit) \<times> attempt_runner" where
  "deliver_create = deliver SessionHandshakeTimedOut begin_create drive_create"

definition await_session_ready ::
  "(runner_error + bool) list \<Rightarrow> attempt_runner \<Rightarrow> (native_drive_error + unit) \<times> attempt_runner" where
  "await_session_ready = await_boundary SessionHandshakeTimedOut observe_session_ready"

definition deliver_prompt :: "write_answers \<Rightarrow> attempt_runner \<Rightarrow> (native_drive_error + unit) \<times> attempt_runner" where
  "deliver_prompt = deliver PromptTerminalTimedOut begin_prompt drive_prompt"

definition deliver_forum_result :: "write_answers \<Rightarrow> attempt_runner \<Rightarrow> (native_drive_error + unit) \<times> attempt_runner" where
  "deliver_forum_result = deliver PromptTerminalTimedOut route_forum_tool_call drive_forum_tool_result"

text \<open>Each poll of the prompt comes with the answers to a forum call it may report.\<close>

fun await_prompt_terminal ::
  "((runner_error + prompt_output option) \<times> write_answers) list \<Rightarrow> attempt_runner
     \<Rightarrow> (native_drive_error + unit) \<times> attempt_runner" where
  "await_prompt_terminal [] rn = (Inl PromptTerminalTimedOut, rn)"
| "await_prompt_terminal ((a, ws) # as) rn =
     (case observe_prompt a rn of
        (Inl e, rn') \<Rightarrow> (Inl (DriveRunner e), rn')
      | (Inr (Some ForumToolCall), rn') \<Rightarrow>
          (case deliver_forum_result ws rn' of
             (Inl e, rn'') \<Rightarrow> (Inl e, rn'')
           | (Inr _, rn'') \<Rightarrow> await_prompt_terminal as rn'')
      | (Inr (Some TerminalRecorded), rn') \<Rightarrow> (Inr (), rn')
      | (Inr (Some PromptUsageFrozen), rn') \<Rightarrow> (Inl (DriveRunner RunnerContainmentRequired), rn')
      | (Inr _, rn') \<Rightarrow> await_prompt_terminal as rn')"

section \<open>Disposal\<close>

type_synonym kernel = "study_db kernel_db"

text \<open>
  One iteration polls the disposal and, once it was seen, the reaper; the daemon's own writes of the
  iteration come before the runner's reconciliation.
\<close>

type_synonym dispose_poll =
  "(runner_error + dispose_output option) \<times> (runner_error + bool \<times> bool) \<times> (kernel \<Rightarrow> kernel)"

fun dispose_loop ::
  "(byte list \<Rightarrow> digest) \<Rightarrow> dispose_poll list \<Rightarrow> bool \<Rightarrow> attempt_runner \<Rightarrow> kernel
     \<Rightarrow> (native_drive_error + unit) \<times> attempt_runner \<times> kernel" where
  "dispose_loop h [] disposed rn db = (Inl DisposeTimedOut, rn, db)"
| "dispose_loop h ((a, reap, w) # as) disposed rn db =
     (case observe_dispose a rn of
        (Inl e, rn') \<Rightarrow> (Inl (DriveRunner e), rn', w db)
      | (Inr ev, rn') \<Rightarrow>
          if ev = Some UsageFrozen then (Inl (DriveRunner RunnerContainmentRequired), rn', w db)
          else
            (let seen = (disposed \<or> ev = Some Disposed) in
             if \<not> seen then dispose_loop h as seen rn' (w db)
             else
               (case runner_reconcile h reap rn' (w db) of
                  (Inl e, rn'', db') \<Rightarrow> (Inl (DriveRunner e), rn'', db')
                | (Inr True, rn'', db') \<Rightarrow> (Inr (), rn'', db')
                | (Inr False, rn'', db') \<Rightarrow> dispose_loop h as seen rn'' db')))"

definition dispose_and_reconcile ::
  "(byte list \<Rightarrow> digest) \<Rightarrow> write_answers \<Rightarrow> dispose_poll list \<Rightarrow> attempt_runner \<Rightarrow> kernel
     \<Rightarrow> (native_drive_error + unit) \<times> attempt_runner \<times> kernel" where
  "dispose_and_reconcile h ws polls rn db =
     (case deliver DisposeTimedOut begin_dispose drive_dispose ws rn of
        (Inl e, rn') \<Rightarrow> (Inl e, rn', db)
      | (Inr _, rn') \<Rightarrow> dispose_loop h polls False rn' db)"

text \<open>
  \<open>contain\<close>: the runner it leaves and the polls of its window it did not use.
\<close>

fun contain :: "(runner_error + bool) list \<Rightarrow> attempt_runner \<Rightarrow> attempt_runner \<times> (runner_error + bool) list" where
  "contain [] rn = (rn, [])"
| "contain (a # as) rn =
     (case drive_containment a rn of
        (Inr True, rn') \<Rightarrow> (rn', as)
      | (_, rn') \<Rightarrow> contain as rn')"

section \<open>One attempt\<close>

text \<open>What the daemon answers during one attempt, and what it writes besides.\<close>

record drive_env =
  de_start :: "(schedule_key \<times> bool) option"
  de_registration :: "runner_error + spawn_registration"
  de_spawn_writes :: "kernel \<Rightarrow> kernel"
  de_adapter :: "(runner_error + bool) list"
  de_create :: write_answers
  de_session :: "(runner_error + bool) list"
  de_prompt :: write_answers
  de_outputs :: "((runner_error + prompt_output option) \<times> write_answers) list"
  de_session_writes :: "kernel \<Rightarrow> kernel"
  de_dispose :: write_answers
  de_polls :: "dispose_poll list"
  de_contain :: "(runner_error + bool) list"

text \<open>The session between the runtime join and the disposal.\<close>

definition drive_session :: "drive_env \<Rightarrow> attempt_runner \<Rightarrow> (native_drive_error + unit) \<times> attempt_runner" where
  "drive_session dv rn =
     (case await_adapter_ready (de_adapter dv) rn of
        (Inl e, rn) \<Rightarrow> (Inl e, rn)
      | (Inr _, rn) \<Rightarrow>
          (case deliver_create (de_create dv) rn of
             (Inl e, rn) \<Rightarrow> (Inl e, rn)
           | (Inr _, rn) \<Rightarrow>
               (case await_session_ready (de_session dv) rn of
                  (Inl e, rn) \<Rightarrow> (Inl e, rn)
                | (Inr _, rn) \<Rightarrow>
                    (case deliver_prompt (de_prompt dv) rn of
                       (Inl e, rn) \<Rightarrow> (Inl e, rn)
                     | (Inr _, rn) \<Rightarrow> await_prompt_terminal (de_outputs dv) rn))))"

definition drive_attempt ::
  "(byte list \<Rightarrow> digest) \<Rightarrow> drive_env \<Rightarrow> int \<Rightarrow> attempt_runner \<Rightarrow> kernel
     \<Rightarrow> (native_drive_error + unit) \<times> attempt_runner \<times> kernel" where
  "drive_attempt h dv budget rn db =
     (case spawn_from_launch_claim (de_start dv) (de_registration dv) rn of
        (Inl e, rn) \<Rightarrow> (Inl (DriveRunner e), rn, de_spawn_writes dv db)
      | (Inr _, rn) \<Rightarrow>
          (case bind_runtime h rn (de_spawn_writes dv db) of
             (Inl e, rn, db) \<Rightarrow> (Inl (DriveRunner e), rn, db)
           | (Inr _, rn, db) \<Rightarrow>
               (case drive_session dv rn of
                  (Inl e, rn) \<Rightarrow> (Inl e, rn, de_session_writes dv db)
                | (Inr _, rn) \<Rightarrow>
                    (case dispose_and_reconcile h (de_dispose dv) (de_polls dv) rn (de_session_writes dv db) of
                       (Inl e, rn, db) \<Rightarrow> (Inl e, rn, db)
                     | (Inr _, rn, db) \<Rightarrow>
                         (case runner_complete h budget rn db of
                            (Inl e, rn, db) \<Rightarrow> (Inl (DriveRunner e), rn, db)
                          | (Inr _, rn, db) \<Rightarrow> (Inr (), rn, db))))))"

text \<open>
  The attempt, from the runner opened for its launch claim on, and its containment when it fails.
\<close>

definition driver_execute ::
  "(byte list \<Rightarrow> digest) \<Rightarrow> drive_env \<Rightarrow> int \<Rightarrow> kernel
     \<Rightarrow> (native_drive_error + unit) \<times> attempt_runner \<times> kernel" where
  "driver_execute h dv budget db =
     (case drive_attempt h dv budget new_from_launch_claim db of
        (Inl e, rn, db') \<Rightarrow> (Inl e, fst (contain (de_contain dv) rn), db')
      | (Inr _, rn, db') \<Rightarrow> (Inr (), rn, db'))"

section \<open>The entry point\<close>

definition ascii_lower :: "byte \<Rightarrow> bool" where
  "ascii_lower b \<longleftrightarrow> 97 \<le> b \<and> b \<le> 122"

definition ascii_digit :: "byte \<Rightarrow> bool" where
  "ascii_digit b \<longleftrightarrow> 48 \<le> b \<and> b \<le> 57"

definition valid_operation_label :: "byte list \<Rightarrow> bool" where
  "valid_operation_label b \<longleftrightarrow> b \<noteq> [] \<and> length b \<le> 36 \<and> ascii_alphanumeric (hd b) \<and> ascii_alphanumeric (last b)
     \<and> list_all (\<lambda>x. ascii_lower x \<or> ascii_digit x \<or> x = 45) b"

definition boundary_identity_ok :: "byte list \<Rightarrow> bool" where
  "boundary_identity_ok b \<longleftrightarrow> b \<noteq> [] \<and> length b \<le> 128
     \<and> list_all (\<lambda>x. ascii_alphanumeric x \<or> x \<in> {46, 95, 45}) b
     \<and> ascii_alphanumeric (hd b) \<and> ascii_alphanumeric (last b)"

text \<open>
  \<open>NativeTaskAttemptDriver::execute\<close>; the last argument of its checks is whether the daemon opens a
  runner for the study lifetime.
\<close>

definition native_execute ::
  "(byte list \<Rightarrow> digest) \<Rightarrow> byte list \<Rightarrow> byte list \<Rightarrow> bool \<Rightarrow> drive_env \<Rightarrow> int \<Rightarrow> kernel
     \<Rightarrow> (native_drive_error + unit) \<times> kernel" where
  "native_execute h label prompt opened dv budget db =
     (if \<not> valid_operation_label label then (Inl DriveInvalidOperationIdentity, db)
      else if \<not> utf8_valid prompt then (Inl DriveInvalidPrompt, db)
      else if \<not> boundary_identity_ok (label @ ascii ''-prompt'') \<or> \<not> boundary_identity_ok (label @ ascii ''-dispose'')
      then (Inl DriveInvalidCorrelationIdentity, db)
      else if \<not> opened then (Inl DriveStudyPlan, db)
      else (case driver_execute h dv budget db of (r, _, db') \<Rightarrow> (r, db')))"

text \<open>A valid operation label always gives valid correlation identities.\<close>

lemma operation_label_correlates:
  assumes "valid_operation_label label"
  shows "boundary_identity_ok (label @ ascii ''-prompt'')" "boundary_identity_ok (label @ ascii ''-dispose'')"
  using assms
  by (auto simp: valid_operation_label_def boundary_identity_ok_def ascii_alphanumeric_def ascii_lower_def ascii_digit_def
      ascii_def list_all_iff)

lemma native_execute_checked:
  "native_execute h label prompt opened dv budget db =
     (if \<not> valid_operation_label label then (Inl DriveInvalidOperationIdentity, db)
      else if \<not> utf8_valid prompt then (Inl DriveInvalidPrompt, db)
      else if \<not> opened then (Inl DriveStudyPlan, db)
      else (case driver_execute h dv budget db of (r, _, db') \<Rightarrow> (r, db')))"
  using operation_label_correlates by (simp add: native_execute_def)

section \<open>The phases of an attempt\<close>

text \<open>The loops of the session keep the seat; only the session handshake moves its phase.\<close>

definition kept_by :: "('s \<Rightarrow> bool) \<Rightarrow> ('a \<Rightarrow> 's \<Rightarrow> 'r \<times> 's) \<Rightarrow> bool" where
  "kept_by P f \<longleftrightarrow> (\<forall>a s. P s \<longrightarrow> P (snd (f a s)))"

lemma kept_byD: "kept_by P f \<Longrightarrow> f a s = (r, s') \<Longrightarrow> P s \<Longrightarrow> P s'"
  by (metis kept_by_def snd_conv)

lemma await_boundary_kept: "kept_by P poll \<Longrightarrow> kept_by P (await_boundary late poll)"
proof -
  assume p: "kept_by P poll"
  have "P rn \<Longrightarrow> P (snd (await_boundary late poll as rn))" for as rn
    by (induction as arbitrary: rn) (auto dest: kept_byD [OF p] split: prod.splits sum.splits bool.splits)
  then show ?thesis by (simp add: kept_by_def)
qed

lemma deliver_kept:
  assumes "kept_by P start" "kept_by P drive"
  shows "kept_by P (deliver late start drive)"
proof -
  have written: "P rn \<Longrightarrow> P (snd (drive_write late drive as p rn))" for as p rn
  proof (induction as arbitrary: p rn)
    case (Cons a as)
    then show ?case by (cases p) (auto dest: kept_byD [OF assms(2)] split: prod.splits sum.splits)
  qed (case_tac p; simp)
  show ?thesis
    by (auto simp: kept_by_def deliver_def dest: kept_byD [OF assms(1)] intro: written split: prod.splits sum.splits)
qed

text \<open>A seat in a phase, not completed.\<close>

definition seat :: "schedule_key \<Rightarrow> spawn_receipt \<Rightarrow> schedule_state \<Rightarrow> attempt_runner \<Rightarrow> bool" where
  "seat k c s rn \<longleftrightarrow> in_phase k c s rn \<and> \<not> rn_completed rn \<and> \<not> rn_unregistered rn"

lemma seat_child: "seat k c s rn \<Longrightarrow> rn_child rn = Some c"
  and seat_key: "seat k c s rn \<Longrightarrow> rn_key rn = Some k"
  by (auto simp: seat_def dest: in_phase_child in_phase_key)

lemma on_child_kept: "kept_by P (on_child handle)"
  by (simp add: kept_by_def on_child_def)

lemma begin_write_kept:
  "kept_by (seat k c s) begin_prompt" "kept_by (seat k c s) begin_dispose" "kept_by (seat k c s) route_forum_tool_call"
  "kept_by (seat k c s) observe_prompt"
  by (auto simp: kept_by_def seat_def begin_prompt_def begin_dispose_def route_forum_tool_call_def observe_prompt_def
      Let_def split: option.splits sum.splits)

lemmas writes_kept = deliver_kept [OF begin_write_kept(1) on_child_kept] deliver_kept [OF begin_write_kept(2) on_child_kept]
  deliver_kept [OF begin_write_kept(3) on_child_kept] deliver_kept [OF on_child_kept on_child_kept]

lemma session_loops_kept:
  "kept_by (seat k c s) await_adapter_ready" "kept_by (seat k c s) deliver_create"
  "kept_by (seat k c s) deliver_prompt" "kept_by (seat k c s) deliver_forum_result"
  unfolding await_adapter_ready_def observe_adapter_ready_def deliver_create_def begin_create_def drive_create_def
    deliver_prompt_def drive_prompt_def deliver_forum_result_def drive_forum_tool_result_def
  by (intro await_boundary_kept on_child_kept writes_kept)+

lemma await_prompt_terminal_kept:
  "await_prompt_terminal as rn = (r, rn') \<Longrightarrow> seat k c s rn \<Longrightarrow> seat k c s rn'"
  by (induction as rn rule: await_prompt_terminal.induct)
    (auto dest: kept_byD [OF begin_write_kept(4)] kept_byD [OF session_loops_kept(4)]
      split: prod.splits sum.splits option.splits prompt_output.splits)

lemma await_session_phase:
  "await_session_ready as rn = (r, rn') \<Longrightarrow> seat k c RuntimeBound rn \<Longrightarrow>
     seat k c (if r = Inr () then SessionReadied else RuntimeBound) rn'"
  unfolding await_session_ready_def
  by (induction SessionHandshakeTimedOut observe_session_ready as rn rule: await_boundary.induct)
    (auto simp: observe_session_ready_def record_ready_def seat_def in_phase_child
      split: prod.splits sum.splits bool.splits if_splits)

lemma drive_session_phase:
  assumes "drive_session dv rn = (r, rn')" "seat k c RuntimeBound rn"
  shows "\<exists>s. seat k c s rn' \<and> (r = Inr () \<longrightarrow> s = SessionReadied)"
  using assms
  by (auto simp: drive_session_def split: prod.splits sum.splits
      dest!: kept_byD [OF session_loops_kept(1)] kept_byD [OF session_loops_kept(2)] await_session_phase
        kept_byD [OF session_loops_kept(3)] await_prompt_terminal_kept)

text \<open>A study transition the runner submitted, with whatever disposition the kernel gave it.\<close>

definition submitted ::
  "(byte list \<Rightarrow> digest) \<Rightarrow> scheduler_error + byte list \<Rightarrow> study_command \<Rightarrow> kernel \<Rightarrow> study_receipt \<Rightarrow> kernel \<Rightarrow> bool" where
  "submitted h i cmd db rc db' \<longleftrightarrow> (\<exists>b. i = Inr b \<and> execute_study_transition h b cmd db = (Inr rc, db'))"

lemma bind_study_actor_runtime_Inr:
  "bind_study_actor_runtime h i cmd db = (Inr rc, db') \<longleftrightarrow> submitted h (Inr i) cmd db rc db'"
  by (auto simp: bind_study_actor_runtime_def submitted_def split: prod.splits sum.splits)

lemma bind_runtime_phase:
  assumes "bind_runtime h rn db = (r, rn', db')" "seat k c Spawned rn"
  shows "seat k c (case r of Inr _ \<Rightarrow> RuntimeBound | _ \<Rightarrow> Spawned) rn' \<and>
    (\<forall>rc. r = Inr rc \<longrightarrow> submitted h (runtime_binding_command_id k)
       (BindActorTaskAttemptRuntime (sk_obligation k) (sp_attempt c) (sp_child c) (sp_admission c)) db rc db')"
  using assms
  by (auto simp: bind_runtime_def record_runtime_bound_def seat_def in_phase_child bind_study_actor_runtime_Inr
      split: sum.splits prod.splits)

lemma runner_reconcile_phase:
  assumes "runner_reconcile h reap rn db = (r, rn', db')" "seat k c s rn"
  shows "(\<exists>s. seat k c s rn') \<and> (r = Inr False \<longrightarrow> seat k c s rn')
    \<and> (r = Inr True \<longrightarrow> seat k c RuntimeReconciled rn' \<and> (\<exists>rc. submitted h (runtime_reconciliation_command_id k)
         (ReconcileActorRuntime (sk_obligation k) (sp_child c)) db rc db'))"
  using assms
  by (auto simp: runner_reconcile_def record_physical_reconciled_def record_runtime_reconciled_def seat_def
      in_phase_child in_phase_key bind_study_actor_runtime_Inr split: sum.splits prod.splits if_splits bool.splits)

lemma observe_dispose_phase:
  "observe_dispose a rn = (r, rn') \<Longrightarrow> seat k c s rn \<Longrightarrow> \<exists>s. seat k c s rn'"
  by (auto simp: observe_dispose_def record_disposed_def seat_def in_phase_child in_phase_key
      split: sum.splits prod.splits option.splits dispose_output.splits if_splits)

text \<open>What the daemon writes during the first polls of the disposal.\<close>

definition poll_writes :: "nat \<Rightarrow> dispose_poll list \<Rightarrow> kernel \<Rightarrow> kernel" where
  "poll_writes n as = fold (\<lambda>(_, _, w). w) (take n as)"

lemma poll_writes_Cons: "poll_writes (Suc n) ((a, reap, w) # as) db = poll_writes n as (w db)"
  by (simp add: poll_writes_def)

lemma poll_writes_one: "poll_writes 1 ((a, reap, w) # as) db = w db"
  by (simp add: poll_writes_def)

lemma dispose_loop_phase:
  "dispose_loop h as disposed rn db = (r, rn', db') \<Longrightarrow> seat k c s rn \<Longrightarrow>
     (\<exists>s. seat k c s rn') \<and> (r = Inr () \<longrightarrow> seat k c RuntimeReconciled rn' \<and> (\<exists>n rc.
        submitted h (runtime_reconciliation_command_id k) (ReconcileActorRuntime (sk_obligation k) (sp_child c))
          (poll_writes n as db) rc db'))"
proof (induction h as disposed rn db arbitrary: s rule: dispose_loop.induct)
  case (2 h a reap w as disposed rn db)
  obtain ev rn1 where ob: "observe_dispose a rn = (ev, rn1)" by (cases "observe_dispose a rn")
  obtain s1 where s1: "seat k c s1 rn1" using observe_dispose_phase [OF ob "2.prems"(2)] by blast
  let ?seen = "disposed \<or> ev = Inr (Some Disposed)"
  have later: ?case if "dispose_loop h as d rn2 (w db) = (r, rn', db')" "seat k c s2 rn2"
      "dispose_loop h as d rn2 (w db) = (r, rn', db') \<Longrightarrow> seat k c s2 rn2 \<Longrightarrow>
        (\<exists>s. seat k c s rn') \<and> (r = Inr () \<longrightarrow> seat k c RuntimeReconciled rn' \<and> (\<exists>n rc.
          submitted h (runtime_reconciliation_command_id k) (ReconcileActorRuntime (sk_obligation k) (sp_child c))
            (poll_writes n as (w db)) rc db'))" for d rn2 s2
    using that poll_writes_Cons [of _ a reap w as db] by (auto simp: simp_thms) (metis)
  consider (stop) "(\<exists>e. ev = Inl e) \<or> ev = Inr (Some UsageFrozen)"
    | (wait) y where "ev = Inr y" "y \<noteq> Some UsageFrozen" "\<not> ?seen" | (reap) y where "ev = Inr y" "y \<noteq> Some UsageFrozen" "?seen"
    by (cases ev) auto
  then show ?case
  proof cases
    case stop
    then show ?thesis using "2.prems"(1) s1 by (auto simp: ob)
  next
    case wait
    then show ?thesis using later [OF _ s1 "2.IH"(1) [OF ob [symmetric]]] "2.prems"(1) by (auto simp: ob Let_def)
  next
    case reap
    obtain q rn2 db2 where rc: "runner_reconcile h reap rn1 (w db) = (q, rn2, db2)"
      by (cases "runner_reconcile h reap rn1 (w db)")
    note ph = runner_reconcile_phase [OF rc s1]
    show ?thesis
    proof (cases q)
      case (Inl e)
      then show ?thesis using "2.prems"(1) reap ph by (auto simp: ob rc Let_def)
    next
      case (Inr b)
      show ?thesis
      proof (cases b)
        case True
        obtain rc0 where "submitted h (runtime_reconciliation_command_id k)
            (ReconcileActorRuntime (sk_obligation k) (sp_child c)) (poll_writes 1 ((a, reap, w) # as) db) rc0 db2"
          using ph Inr True unfolding poll_writes_one by blast
        moreover have "rn' = rn2 \<and> db' = db2" using "2.prems"(1) reap Inr True by (auto simp: ob rc Let_def)
        ultimately show ?thesis using ph Inr True by blast
      next
        case False
        have db2: "db2 = w db" using rc Inr False
          by (auto simp: runner_reconcile_def split: sum.splits option.splits prod.splits if_splits bool.splits)
        have run: "dispose_loop h as True rn2 (w db) = (r, rn', db')"
          using "2.prems"(1) reap Inr False db2 by (auto simp: ob rc Let_def)
        have "seat k c s1 rn2" using ph Inr False by simp
        then show ?thesis
          using later [OF run] "2.IH"(2) [OF ob [symmetric]] reap rc Inr False db2 by (auto simp: ob Let_def)
      qed
    qed
  qed
qed auto

section \<open>Completion\<close>

lemma spawn_phase:
  assumes "spawn_from_launch_claim start registration new_from_launch_claim = (r, rn)"
  shows "\<not> rn_completed rn
    \<and> (\<forall>s. r = Inr s \<longrightarrow> (\<exists>k c. start = Some (k, True) \<and> registration = Inr (RegistrationReady c)
         \<and> sp_attempt c = sk_attempt k \<and> seat k c Spawned rn))"
  using assms
  by (auto simp: spawn_from_launch_claim_def runner_spawn_def record_contained_def new_from_launch_claim_def runner_new_def seat_def
      in_phase_def recording_defs advance_def scheduled_def record_spawned_def set_state_def split: runner_op_splits)

lemma complete_phase:
  assumes "runner_complete h budget rn db = (r, rn', db')" "seat k c s rn"
  shows "(\<forall>e. r = Inl e \<longrightarrow> \<not> rn_completed rn') \<and> (\<forall>rc. r = Inr rc \<longrightarrow> rn_completed rn' \<and> in_phase k c RuntimeReconciled rn'
    \<and> submitted h (actor_completion_command_id k) (CompleteActorObligation (sk_obligation k) budget) db rc db')"
  using assms
  by (auto simp: runner_complete_def seat_def in_phase_key bind_study_actor_runtime_Inr split: sum.splits prod.splits if_splits)

lemma drive_containment_completed: "drive_containment a rn = (r, rn') \<Longrightarrow> rn_completed rn' = rn_completed rn"
  by (auto simp: drive_containment_def scheduled_def split: if_splits option.splits sum.splits prod.splits)

lemma contain_completed: "rn_completed (fst (contain as rn)) = rn_completed rn"
  by (induction as arbitrary: rn) (auto dest: drive_containment_completed split: prod.splits sum.splits bool.splits)

lemma dispose_and_reconcile_phase:
  assumes "dispose_and_reconcile h ws polls rn db = (r, rn', db')" "seat k c s rn"
  shows "(\<exists>s. seat k c s rn') \<and> (r = Inr () \<longrightarrow> seat k c RuntimeReconciled rn' \<and> (\<exists>n rc.
    submitted h (runtime_reconciliation_command_id k) (ReconcileActorRuntime (sk_obligation k) (sp_child c))
      (poll_writes n polls db) rc db'))"
proof -
  obtain q rn1 where d: "deliver DisposeTimedOut begin_dispose drive_dispose ws rn = (q, rn1)" by fastforce
  have s: "seat k c s rn1" using kept_byD [OF writes_kept(2) d [unfolded drive_dispose_def] assms(2)] .
  show ?thesis
  proof (cases q)
    case (Inl e)
    then show ?thesis using assms(1) s by (auto simp: dispose_and_reconcile_def d)
  next
    case (Inr u)
    then have "dispose_loop h polls False rn1 db = (r, rn', db')" using assms(1) by (simp add: dispose_and_reconcile_def d)
    then show ?thesis by (rule dispose_loop_phase [OF _ s])
  qed
qed

text \<open>
  The transitions of a completed attempt, on the tables each one met: between the binding and the
  reconciliation lie the daemon's writes of the session and of the polls of the disposal, between the
  reconciliation and the completion nothing.
\<close>

definition attempt_submitted ::
  "(byte list \<Rightarrow> digest) \<Rightarrow> drive_env \<Rightarrow> int \<Rightarrow> schedule_key \<Rightarrow> spawn_receipt \<Rightarrow> study_receipt \<Rightarrow> kernel \<Rightarrow> kernel
     \<Rightarrow> kernel \<Rightarrow> bool" where
  "attempt_submitted h dv budget k c rc db db0 db' \<longleftrightarrow> (\<exists>db1 n rc1 rc2.
     submitted h (runtime_binding_command_id k)
       (BindActorTaskAttemptRuntime (sk_obligation k) (sk_attempt k) (sp_child c) (sp_admission c))
       (de_spawn_writes dv db) rc1 db1
   \<and> submitted h (runtime_reconciliation_command_id k) (ReconcileActorRuntime (sk_obligation k) (sp_child c))
       (poll_writes n (de_polls dv) (de_session_writes dv db1)) rc2 db0
   \<and> submitted h (actor_completion_command_id k) (CompleteActorObligation (sk_obligation k) budget) db0 rc db')"

text \<open>The end of an attempt: disposal, reconciliation and completion.\<close>

lemma attempt_end_phases:
  assumes "dispose_and_reconcile h ws polls rn db = (r, rn1, db1)" "seat k c s rn"
    and "runner_complete h budget rn1 db1 = (q, rn2, db2)"
  shows "\<not> rn_completed rn1" "rn_completed rn2 \<longleftrightarrow> (\<exists>rc. q = Inr rc)"
    and "r = Inr () \<Longrightarrow> q = Inr rc \<Longrightarrow> in_phase k c RuntimeReconciled rn2 \<and> (\<exists>n rc'.
      submitted h (runtime_reconciliation_command_id k) (ReconcileActorRuntime (sk_obligation k) (sp_child c))
        (poll_writes n polls db) rc' db1)
      \<and> submitted h (actor_completion_command_id k) (CompleteActorObligation (sk_obligation k) budget) db1 rc db2"
proof -
  note d = dispose_and_reconcile_phase [OF assms(1,2)]
  then obtain s1 where s1: "seat k c s1 rn1" by blast
  note q = complete_phase [OF assms(3) s1]
  show "\<not> rn_completed rn1" using s1 by (simp add: seat_def)
  show "rn_completed rn2 \<longleftrightarrow> (\<exists>rc. q = Inr rc)" using q by (cases q) auto
  show "in_phase k c RuntimeReconciled rn2 \<and> (\<exists>n rc'.
      submitted h (runtime_reconciliation_command_id k) (ReconcileActorRuntime (sk_obligation k) (sp_child c))
        (poll_writes n polls db) rc' db1)
      \<and> submitted h (actor_completion_command_id k) (CompleteActorObligation (sk_obligation k) budget) db1 rc db2"
    if "r = Inr ()" "q = Inr rc"
    using d q that by blast
qed

lemma drive_attempt_phases:
  assumes "drive_attempt h dv budget new_from_launch_claim db = (r, rn, db')"
  shows "(rn_completed rn \<longleftrightarrow> r = Inr ()) \<and> (r = Inr () \<longrightarrow> (\<exists>k c db0 rc. de_start dv = Some (k, True)
    \<and> de_registration dv = Inr (RegistrationReady c) \<and> sp_attempt c = sk_attempt k \<and> in_phase k c RuntimeReconciled rn
    \<and> attempt_submitted h dv budget k c rc db db0 db'))"
proof -
  obtain r0 rn0 where sp: "spawn_from_launch_claim (de_start dv) (de_registration dv) new_from_launch_claim = (r0, rn0)"
    by fastforce
  obtain r1 rn1 db1 where b: "bind_runtime h rn0 (de_spawn_writes dv db) = (r1, rn1, db1)" by (metis prod.exhaust)
  obtain r2 rn2 where d: "drive_session dv rn1 = (r2, rn2)" by fastforce
  obtain r3 rn3 db3 where x: "dispose_and_reconcile h (de_dispose dv) (de_polls dv) rn2 (de_session_writes dv db1)
      = (r3, rn3, db3)" by (metis prod.exhaust)
  obtain r4 rn4 db4 where y: "runner_complete h budget rn3 db3 = (r4, rn4, db4)" by (metis prod.exhaust)
  note run = assms [unfolded drive_attempt_def sp b d x y prod.case]
  show ?thesis
  proof (cases r0)
    case (Inl e)
    then show ?thesis using run spawn_phase [OF sp] by auto
  next
    case r0: (Inr s)
    then obtain k c where kc: "de_start dv = Some (k, True)" "de_registration dv = Inr (RegistrationReady c)"
        "sp_attempt c = sk_attempt k" "seat k c Spawned rn0"
      using spawn_phase [OF sp] by blast
    note bp = bind_runtime_phase [OF b kc(4), unfolded kc(3)]
    show ?thesis
    proof (cases r1)
      case (Inl e)
      then show ?thesis using run bp r0 by (auto simp: seat_def)
    next
      case r1: (Inr rc1)
      obtain s2 where s2: "seat k c s2 rn2" using drive_session_phase [OF d, of k c] bp r1 by auto
      note e = attempt_end_phases [OF x s2 y]
      consider "\<exists>e. r2 = Inl e" | "r2 = Inr ()" "\<exists>e. r3 = Inl e" | "r2 = Inr ()" "r3 = Inr ()" "\<exists>e. r4 = Inl e"
        | (finished) rc where "r2 = Inr ()" "r3 = Inr ()" "r4 = Inr rc"
        by (cases r2; cases r3; cases r4) auto
      then show ?thesis
      proof cases
        case finished
        have res: "r = Inr ()" "rn = rn4" "db' = db4" using run r0 r1 finished by simp_all
        have "attempt_submitted h dv budget k c rc db db3 db4"
          unfolding attempt_submitted_def using bp r1 e(3) [OF finished(2,3)] by blast
        then show ?thesis using kc(1-3) e(2) e(3) [OF finished(2,3)] finished(3) unfolding res by blast
      qed (use run r0 r1 s2 e(1,2) in \<open>auto simp: seat_def\<close>)
    qed
  qed
qed

lemma driver_execute_phases:
  assumes "driver_execute h dv budget db = (r, rn, db')"
  shows "(rn_completed rn \<longleftrightarrow> r = Inr ()) \<and> (r = Inr () \<longrightarrow> (\<exists>k c db0 rc. de_start dv = Some (k, True)
    \<and> de_registration dv = Inr (RegistrationReady c) \<and> sp_attempt c = sk_attempt k \<and> in_phase k c RuntimeReconciled rn
    \<and> attempt_submitted h dv budget k c rc db db0 db'))"
proof -
  obtain r1 rn1 db1 where d: "drive_attempt h dv budget new_from_launch_claim db = (r1, rn1, db1)"
    by (metis prod.exhaust)
  show ?thesis
    using drive_attempt_phases [OF d] assms contain_completed [of "de_contain dv" rn1]
    by (cases r1) (auto simp: driver_execute_def d)
qed

end
