(* ===== verification/Attempt_Answers.thy ===== *)
theory Attempt_Answers
  imports Attempt_Driver
begin

text \<open>
  What the daemon must have answered when the driver of a task attempt reports success: one predicate
  per loop of the driver, each a computable check of the list of answers the loop took, and the lemmas
  that a loop succeeds only if its predicate holds.
\<close>

section \<open>Boundaries and writes\<close>

text \<open>Answers that wait until the goal is answered.\<close>

fun reached :: "'a \<Rightarrow> 'a \<Rightarrow> 'a list \<Rightarrow> bool" where
  "reached wait goal [] = False"
| "reached wait goal (a # as) = (a = goal \<or> a = wait \<and> reached wait goal as)"

definition boundary_reached :: "(runner_error + bool) list \<Rightarrow> bool" where
  "boundary_reached = reached (Inr False) (Inr True)"

definition write_delivered :: "write_answers \<Rightarrow> bool" where
  "write_delivered = (\<lambda>(a, as). reached (Inr Pending) (Inr Delivered) (a # as))"

text \<open>An operation that passes the daemon's answer on when it does not fail.\<close>

definition reports :: "('e + 'a \<Rightarrow> 's \<Rightarrow> ('e + 'a) \<times> 's) \<Rightarrow> bool" where
  "reports f \<longleftrightarrow> (\<forall>a s x s'. f a s = (Inr x, s') \<longrightarrow> a = Inr x)"

lemma reportsD: "reports f \<Longrightarrow> f a s = (Inr x, s') \<Longrightarrow> a = Inr x"
  unfolding reports_def by blast

lemma runner_reports:
  "reports (on_child handle)" "reports observe_session_ready" "reports begin_prompt" "reports observe_prompt"
  "reports route_forum_tool_call" "reports begin_dispose"
  by (auto simp: reports_def on_child_def observe_session_ready_def begin_prompt_def observe_prompt_def
      route_forum_tool_call_def begin_dispose_def Let_def split: sum.splits if_splits bool.splits prod.splits)

lemma await_boundary_reached:
  "reports poll \<Longrightarrow> await_boundary late poll as rn = (Inr (), rn') \<Longrightarrow> boundary_reached as"
  by (induction as arbitrary: rn)
    (auto simp: boundary_reached_def split: prod.splits sum.splits bool.splits dest: reportsD)

lemma deliver_delivered:
  assumes "reports start" "reports drive" "deliver late start drive ws rn = (Inr (), rn')"
  shows "write_delivered ws"
proof -
  obtain a as where ws: "ws = (a, as)" by (cases ws)
  have *: "p = Delivered \<or> reached (Inr Pending) (Inr Delivered) bs" if "drive_write late drive bs p s = (Inr (), s')" for bs p s s'
    using that
  proof (induction bs arbitrary: p s)
    case Nil
    then show ?case by (cases p) auto
  next
    case (Cons b bs)
    then show ?case
      by (cases p) (auto split: prod.splits sum.splits dest!: reportsD [OF assms(2)] intro: control_write_progress.exhaust)
  qed
  show ?thesis
    using assms(3) unfolding ws
    by (auto simp: deliver_def write_delivered_def split: prod.splits sum.splits dest!: reportsD [OF assms(1)] *)
      (metis control_write_progress.exhaust)
qed

lemma session_loops_reached:
  "await_adapter_ready as rn = (Inr (), rn') \<Longrightarrow> boundary_reached as"
  "await_session_ready as rn = (Inr (), rn') \<Longrightarrow> boundary_reached as"
  "deliver_create ws rn = (Inr (), rn') \<Longrightarrow> write_delivered ws"
  "deliver_prompt ws rn = (Inr (), rn') \<Longrightarrow> write_delivered ws"
  "deliver_forum_result ws rn = (Inr (), rn') \<Longrightarrow> write_delivered ws"
  "deliver DisposeTimedOut begin_dispose drive_dispose ws rn = (Inr (), rn') \<Longrightarrow> write_delivered ws"
  unfolding await_adapter_ready_def await_session_ready_def deliver_create_def deliver_prompt_def deliver_forum_result_def
    observe_adapter_ready_def begin_create_def drive_create_def drive_prompt_def drive_forum_tool_result_def drive_dispose_def
  using await_boundary_reached deliver_delivered runner_reports by (metis, metis, metis, metis, metis, metis)

section \<open>The prompt\<close>

text \<open>The prompt's output up to its terminal: a forum call needs its result delivered before the next poll.\<close>

fun terminal_reached :: "((runner_error + prompt_output option) \<times> write_answers) list \<Rightarrow> bool" where
  "terminal_reached [] = False"
| "terminal_reached ((a, ws) # as) =
     (a = Inr (Some TerminalRecorded)
      \<or> (a = Inr (Some ForumToolCall) \<and> write_delivered ws
         \<or> a \<in> {Inr None, Inr (Some ControlInterleaving), Inr (Some PromptAccepted), Inr (Some PromptKnownUsage)})
        \<and> terminal_reached as)"

lemma await_prompt_reached: "await_prompt_terminal as rn = (Inr (), rn') \<Longrightarrow> terminal_reached as"
proof (induction as arbitrary: rn)
  case (Cons x as)
  obtain a ws where x: "x = (a, ws)" by (cases x)
  show ?case
    using Cons unfolding x
    by (auto split: prod.splits sum.splits option.splits prompt_output.splits
        dest!: reportsD [OF runner_reports(4)] session_loops_reached(5))
qed simp

section \<open>The disposal\<close>

text \<open>
  The disposal: usage and delivery reports until the transcript is recorded, and from that iteration on
  one answer of the reaper each, until the child is reaped and reconciled.
\<close>

definition dispose_waits :: "runner_error + dispose_output option \<Rightarrow> bool" where
  "dispose_waits a \<longleftrightarrow>
     a \<in> {Inr None, Inr (Some DisposeDeliveryRecorded), Inr (Some DisposeAccepted), Inr (Some DisposeKnownUsage)}"

fun disposal_reached :: "bool \<Rightarrow> dispose_poll list \<Rightarrow> bool" where
  "disposal_reached seen [] = False"
| "disposal_reached False ((a, reap, _) # as) =
     (if a = Inr (Some (TranscriptReady (Inr ())))
      then reap = Inr (True, True) \<or> (\<exists>b. reap = Inr (False, b)) \<and> disposal_reached True as
      else dispose_waits a \<and> disposal_reached False as)"
| "disposal_reached True ((a, reap, _) # as) =
     ((dispose_waits a \<or> a = Inr (Some AlreadyDisposed))
      \<and> (reap = Inr (True, True) \<or> (\<exists>b. reap = Inr (False, b)) \<and> disposal_reached True as))"

lemma observe_dispose_waits:
  assumes "observe_dispose a rn = (Inr ev, rn')" "seat k c s rn" "ev \<noteq> Some UsageFrozen"
  shows "(if ev = Some Disposed
     then (a = Inr (Some (TranscriptReady (Inr ()))) \<and> s = SessionReadied \<and> seat k c SessionDisposed rn')
        \<or> (a = Inr (Some AlreadyDisposed) \<and> seat k c s rn')
     else dispose_waits a \<and> seat k c s rn')"
  using assms
  by (auto simp: observe_dispose_def dispose_waits_def record_disposed_def seat_def in_phase_child in_phase_key
      split: sum.splits prod.splits option.splits dispose_output.splits if_splits)

lemma runner_reconcile_reaped:
  assumes "runner_reconcile h reap rn db = (Inr b, rn', db')" "seat k c s rn"
  shows "s \<in> {SessionDisposed, ContainmentRequired} \<and> (if b then reap = Inr (True, True)
    else (\<exists>b. reap = Inr (False, b)) \<and> seat k c s rn')"
  using assms
  by (auto simp: runner_reconcile_def key_in_phase_def scheduler_state_def seat_def in_phase_def
      split: sum.splits prod.splits if_splits bool.splits)

lemma dispose_loop_reached:
  "dispose_loop h as seen rn db = (Inr (), rn', db') \<Longrightarrow>
     seat k c (if seen then SessionDisposed else SessionReadied) rn \<Longrightarrow> disposal_reached seen as"
proof (induction as arbitrary: seen rn db)
  case (Cons x as)
  obtain a reap w where x: "x = (a, reap, w)" by (cases x)
  obtain ev rn1 where ob: "observe_dispose a rn = (Inr ev, rn1)" "ev \<noteq> Some UsageFrozen"
    using Cons.prems(1) unfolding x by (auto split: prod.splits sum.splits if_splits)
  note ph = observe_dispose_waits [OF ob(1) Cons.prems(2) ob(2)]
  show ?case
  proof (cases "seen \<or> ev = Some Disposed")
    case False
    then have "dispose_loop h as False rn1 (w db) = (Inr (), rn', db')" "dispose_waits a" "seat k c SessionReadied rn1"
      using Cons.prems(1) ob ph unfolding x by (auto simp: Let_def)
    then show ?thesis using False Cons.IH [of False rn1] unfolding x by (auto simp: dispose_waits_def)
  next
    case True
    obtain b rn2 db2 where rc: "runner_reconcile h reap rn1 (w db) = (Inr b, rn2, db2)"
      using Cons.prems(1) ob True unfolding x by (auto simp: Let_def split: prod.splits sum.splits)
    have s: "seat k c SessionDisposed rn1" "if seen then dispose_waits a \<or> a = Inr (Some AlreadyDisposed)
        else a = Inr (Some (TranscriptReady (Inr ())))"
      using ph True runner_reconcile_reaped [OF rc] by (auto split: if_splits)
    show ?thesis
      using runner_reconcile_reaped [OF rc s(1)] s(2) Cons.prems(1) Cons.IH [of True rn2 db2] ob True rc unfolding x
      by (cases seen; cases b) (auto simp: Let_def)
  qed
qed simp

section \<open>The whole attempt\<close>

text \<open>Every phase of the attempt was answered.\<close>

definition attempt_driven :: "drive_env \<Rightarrow> bool" where
  "attempt_driven dv \<longleftrightarrow> boundary_reached (de_adapter dv) \<and> write_delivered (de_create dv)
     \<and> boundary_reached (de_session dv) \<and> write_delivered (de_prompt dv) \<and> terminal_reached (de_outputs dv)
     \<and> write_delivered (de_dispose dv) \<and> disposal_reached False (de_polls dv)"

lemma drive_session_driven:
  assumes "drive_session dv rn = (Inr (), rn')"
  shows "boundary_reached (de_adapter dv) \<and> write_delivered (de_create dv) \<and> boundary_reached (de_session dv)
    \<and> write_delivered (de_prompt dv) \<and> terminal_reached (de_outputs dv)"
  using assms
  by (auto simp: drive_session_def split: prod.splits sum.splits intro: await_prompt_reached session_loops_reached)

lemma driver_success_driven:
  assumes "driver_execute h dv budget db = (Inr (), rn, db')"
  shows "attempt_driven dv"
proof -
  obtain rn0 s where sp: "spawn_from_launch_claim (de_start dv) (de_registration dv) new_from_launch_claim = (Inr s, rn0)"
    using assms by (auto simp: driver_execute_def drive_attempt_def split: prod.splits sum.splits)
  obtain rc1 rn1 db1 where b: "bind_runtime h rn0 (de_spawn_writes dv db) = (Inr rc1, rn1, db1)"
    using assms by (auto simp: driver_execute_def drive_attempt_def sp split: prod.splits sum.splits)
  obtain rn2 where d: "drive_session dv rn1 = (Inr (), rn2)"
    using assms by (auto simp: driver_execute_def drive_attempt_def sp b split: prod.splits sum.splits)
  obtain rn3 db3 where x: "dispose_and_reconcile h (de_dispose dv) (de_polls dv) rn2 (de_session_writes dv db1) = (Inr (), rn3, db3)"
    using assms by (auto simp: driver_execute_def drive_attempt_def sp b d split: prod.splits sum.splits)
  obtain k c where "seat k c Spawned rn0" using spawn_phase [OF sp] by blast
  then have "seat k c RuntimeBound rn1" using bind_runtime_phase [OF b] by simp
  then have s2: "seat k c SessionReadied rn2" using drive_session_phase [OF d] by blast
  obtain rn4 where w: "deliver DisposeTimedOut begin_dispose drive_dispose (de_dispose dv) rn2 = (Inr (), rn4)"
      "dispose_loop h (de_polls dv) False rn4 (de_session_writes dv db1) = (Inr (), rn3, db3)"
    using x by (auto simp: dispose_and_reconcile_def split: prod.splits sum.splits)
  have "seat k c SessionReadied rn4" using kept_byD [OF writes_kept(2) w(1) [unfolded drive_dispose_def] s2] .
  then have "disposal_reached False (de_polls dv)" using dispose_loop_reached [OF w(2)] by simp
  then show ?thesis
    using drive_session_driven [OF d] session_loops_reached(6) [OF w(1)] by (simp add: attempt_driven_def)
qed

end
