(* ===== verification/Attempt_Scenario.thy ===== *)
theory Attempt_Scenario
  imports Attempt_Answers
begin

text \<open>
  Two concrete attempts at which the theorems about the driver are applied: one on a kernel that rejects
  its three transitions and one on a kernel that accepts them; and what a submitted transition means
  for the kernel tables.
\<close>

section \<open>A driven attempt\<close>

text \<open>A daemon that answers every poll of the attempt at once.\<close>

definition answering :: "schedule_key \<Rightarrow> spawn_receipt \<Rightarrow> drive_env" where
  "answering k c =
     \<lparr>de_start = Some (k, True), de_registration = Inr (RegistrationReady c), de_spawn_writes = id,
      de_adapter = [Inr True], de_create = (Inr Delivered, []), de_session = [Inr True],
      de_prompt = (Inr Delivered, []), de_outputs = [(Inr (Some TerminalRecorded), (Inr Delivered, []))],
      de_session_writes = id, de_dispose = (Inr Delivered, []),
      de_polls = [(Inr (Some (TranscriptReady (Inr ()))), Inr (True, True), id)], de_contain = []\<rparr>"

lemma submittedE:
  assumes "submitted h i cmd db rc db'"
  obtains b where "i = Inr b" "bind_study_actor_runtime h b cmd db = (Inr rc, db')"
  using assms by (auto simp: submitted_def bind_study_actor_runtime_def)

lemma driver_answering_writes:
  assumes seat: "sp_attempt c = sk_attempt k"
    and sub: "submitted h (runtime_binding_command_id k)
        (BindActorTaskAttemptRuntime (sk_obligation k) (sk_attempt k) (sp_child c) (sp_admission c)) db rc1 db1"
      "submitted h (runtime_reconciliation_command_id k) (ReconcileActorRuntime (sk_obligation k) (sp_child c)) (w db1) rc2 db2"
      "submitted h (actor_completion_command_id k) (CompleteActorObligation (sk_obligation k) budget) db2 rc3 db3"
  shows "\<exists>rn. driver_execute h ((answering k c)\<lparr>de_session_writes := w\<rparr>) budget db = (Inr (), rn, db3)"
proof -
  obtain i1 i2 i3 where i: "runtime_binding_command_id k = Inr i1" "runtime_reconciliation_command_id k = Inr i2"
      "actor_completion_command_id k = Inr i3"
    and b: "bind_study_actor_runtime h i1
        (BindActorTaskAttemptRuntime (sk_obligation k) (sk_attempt k) (sp_child c) (sp_admission c)) db = (Inr rc1, db1)"
      "bind_study_actor_runtime h i2 (ReconcileActorRuntime (sk_obligation k) (sp_child c)) (w db1) = (Inr rc2, db2)"
      "bind_study_actor_runtime h i3 (CompleteActorObligation (sk_obligation k) budget) db2 = (Inr rc3, db3)"
    using sub by (elim submittedE) blast
  show ?thesis
    by (simp add: driver_execute_def drive_attempt_def answering_def spawn_from_launch_claim_def runner_spawn_def
        new_from_launch_claim_def runner_new_def bind_runtime_def key_in_phase_def scheduler_state_def recording_defs
        scheduled_def record_spawned_def advance_def set_state_def seat i b drive_session_def
        await_adapter_ready_def observe_adapter_ready_def on_child_def deliver_create_def begin_create_def drive_create_def
        deliver_def await_session_ready_def observe_session_ready_def deliver_prompt_def begin_prompt_def
        observe_prompt_def dispose_and_reconcile_def begin_dispose_def observe_dispose_def runner_reconcile_def
        runner_complete_def Let_def)
qed

lemma answering_writes_nothing: "(answering k c)\<lparr>de_session_writes := id\<rparr> = answering k c"
  by (simp add: answering_def)

lemmas driver_answering = driver_answering_writes [where w = id, unfolded answering_writes_nothing id_apply]

section \<open>Submitted transitions\<close>

lemma attempt_command_id_valid:
  "f \<in> {runtime_binding_command_id k, runtime_reconciliation_command_id k, actor_completion_command_id k} \<Longrightarrow>
     f = Inr i \<Longrightarrow> command_id_ok i"
  by (auto simp: runtime_binding_command_id_def runtime_reconciliation_command_id_def actor_completion_command_id_def
      attempt_command_id_def Let_def split: if_splits)

text \<open>The request a study transition is executed as.\<close>

lemma transition_request:
  assumes "execute_study_transition h i cmd db = (Inr rc, db')" "command_id_ok i" "study_command_exact cmd"
  obtains rq rcpt where "request_ok study_command_exact rq" "rq_body rq = cmd"
    "execute h (study_family h) rq db = (Inr rcpt, db')"
    "\<And>x. fst rc = TransitionRejected x \<Longrightarrow> rc_disposition rcpt = Rejected x"
proof -
  obtain g where g: "active_capability_grant (authorities db) KERNEL STUDY_TRANSITION = Inr (Some g)"
    using assms(1) by (auto simp: execute_study_transition_def split: sum.splits option.splits)
  let ?rq = "\<lparr>rq_id = i, rq_principal = KERNEL, rq_grant = g, rq_capability = STUDY_TRANSITION, rq_generation = None,
      rq_body = cmd\<rparr>"
  obtain rcpt where "execute h (study_family h) ?rq db = (Inr rcpt, db')"
      "\<And>x. fst rc = TransitionRejected x \<Longrightarrow> rc_disposition rcpt = Rejected x"
    using assms(1) g
    by (auto simp: execute_study_transition_def split: sum.splits prod.splits disposition.splits)
  moreover have "request_ok study_command_exact ?rq"
    using g assms(2,3)
    by (auto simp: active_capability_grant_def request_ok_def capability_ok_def STUDY_TRANSITION_def optional_ok_def
        identifier_ok_def in_i64_def study_identifier_new_def split: option.splits if_splits prod.splits)
  ultimately show thesis by (intro that) simp_all
qed

lemma submitted_request:
  assumes "f \<in> {runtime_binding_command_id k, runtime_reconciliation_command_id k, actor_completion_command_id k}"
    and "study_command_exact cmd" "submitted h f cmd db rc db'"
  obtains rq rcpt where "request_ok study_command_exact rq" "execute h (study_family h) rq db = (Inr rcpt, db')"
    "\<And>x. fst rc = TransitionRejected x \<Longrightarrow> rc_disposition rcpt = Rejected x"
proof -
  obtain i where i: "f = Inr i" "execute_study_transition h i cmd db = (Inr rc, db')"
    using assms(3) by (auto simp: submitted_def)
  then show thesis using transition_request [OF i(2) attempt_command_id_valid [OF assms(1) i(1)] assms(2)] that by metis
qed

lemma submitted_reachable:
  assumes "kernel_reachable h db"
    and "f \<in> {runtime_binding_command_id k, runtime_reconciliation_command_id k, actor_completion_command_id k}"
    and "study_command_exact cmd" "submitted h f cmd db rc db'"
  shows "kernel_reachable h db'"
  using submitted_request [OF assms(2-4)] kernel_reachable.executed [OF assms(1)] by (metis snd_conv)

lemma submitted_unique: "submitted h f cmd db rc db' \<Longrightarrow> submitted h f cmd db rc' db'' \<Longrightarrow> rc' = rc \<and> db'' = db'"
  by (auto simp: submitted_def)

lemma submitted_rejected:
  assumes d: "\<And>b. digest_ok (h b)" and reach: "kernel_reachable h db"
    and f: "f \<in> {runtime_binding_command_id k, runtime_reconciliation_command_id k, actor_completion_command_id k}"
    and cmd: "study_command_exact cmd" and sub: "submitted h f cmd db (TransitionRejected x, b) db'"
  shows "kernel_reachable h db' \<and> tb_rows (obligations (material db')) = tb_rows (obligations (material db))
    \<and> tb_rows (bindings (material db')) = tb_rows (bindings (material db))"
proof -
  obtain rq rcpt where rq: "request_ok study_command_exact rq" "execute h (study_family h) rq db = (Inr rcpt, db')"
      "rc_disposition rcpt = Rejected x"
    using submitted_request [OF f cmd sub] by (metis fst_conv)
  have "db' = db \<or> ledger_step h (study_family h) rq db (Rejected x) db'"
    using kernel.execute_Inr [of h db rq, unfolded as_digest_same [OF d],
        OF kernel_reachable_ok [OF d reach, THEN conjunct1] rq(2)] rq(3) by auto
  then show ?thesis
    using submitted_reachable [OF reach f cmd sub]
    by (auto simp: study_family_def rollback_def rollback_table_def elim!: ledger_step.cases)
qed

lemma submitted_completion:
  assumes d: "\<And>b. digest_ok (h b)" and reach: "kernel_reachable h db"
    and ok: "identifier_ok (sk_obligation k)" "budget_units_ok budget"
    and sub: "submitted h (actor_completion_command_id k) (CompleteActorObligation (sk_obligation k) budget) db
      (TransitionAccepted ev, False) db'"
  shows "\<exists>r. select_pk (obligations (material db')) (sk_obligation k) = Some r \<and> ob_state r = ObligationCompleted
    \<and> ob_charged r = budget
    \<and> (\<forall>b. select_pk (bindings (material db')) (sk_obligation k) = Some b \<longrightarrow> rb_state b = Reconciled)"
proof -
  obtain i where i: "actor_completion_command_id k = Inr i"
      "execute_study_transition h i (CompleteActorObligation (sk_obligation k) budget) db
        = (Inr (TransitionAccepted ev, False), db')"
    using sub by (auto simp: submitted_def)
  have "command_id_ok i" by (rule attempt_command_id_valid [OF _ i(1), of k]) simp
  moreover have "study_command_exact (CompleteActorObligation (sk_obligation k) budget)"
    using ok by (simp add: study_command_exact_def)
  ultimately obtain c ev' where "study_apply h c (CompleteActorObligation (sk_obligation k) budget) (material db)
      = (Inr ev', material db')"
    using transition_reported [OF d reach _ _ i(2)] by blast
  then show ?thesis
    by (auto simp: study_apply_def select_pk_update_pk dest!: complete_actor_obligation_accepted)
qed

section \<open>A first attempt\<close>

definition first_key :: schedule_key where
  "first_key = \<lparr>sk_obligation = 1, sk_attempt = 1\<rparr>"

definition first_child :: spawn_receipt where
  "first_child = \<lparr>sp_attempt = 1, sp_child = 1, sp_admission = 1\<rparr>"

lemma first_sel [simp]:
  "sk_obligation first_key = 1" "sk_attempt first_key = 1"
  "sp_attempt first_child = 1" "sp_child first_child = 1" "sp_admission first_child = 1"
  by (simp_all add: first_key_def first_child_def)

definition first_runner :: attempt_runner where
  "first_runner = snd (spawn_from_launch_claim (Some (first_key, True)) (Inr (RegistrationReady first_child))
     new_from_launch_claim)"

lemma first_runner: "runner_reachable h first_runner" "in_phase first_key first_child Spawned first_runner"
proof -
  have "spawn_from_launch_claim (Some (first_key, True)) (Inr (RegistrationReady first_child)) new_from_launch_claim
      = (Inr Spawned, first_runner)"
    by (simp add: first_runner_def spawn_from_launch_claim_def runner_spawn_def new_from_launch_claim_def runner_new_def
        scheduled_def record_spawned_def first_key_def first_child_def)
  then show "runner_reachable h first_runner"
    unfolding runner_reachable_def by (blast intro: runner_step.spawn)
qed (simp add: first_runner_def spawn_from_launch_claim_def runner_spawn_def new_from_launch_claim_def runner_new_def
    scheduled_def record_spawned_def first_key_def first_child_def in_phase_def)

text \<open>On a fresh kernel nothing of the study exists, so the three transitions are rejected.\<close>

definition first_bound :: "(store_error + study_receipt) \<times> kernel" where
  "first_bound = execute_study_transition kernel_hash (projr (runtime_binding_command_id first_key))
     (BindActorTaskAttemptRuntime 1 1 1 1) kernel_start"

definition first_reconciled :: "(store_error + study_receipt) \<times> kernel" where
  "first_reconciled = execute_study_transition kernel_hash (projr (runtime_reconciliation_command_id first_key))
     (ReconcileActorRuntime 1 1) (snd first_bound)"

definition first_completed :: "(store_error + study_receipt) \<times> kernel" where
  "first_completed = execute_study_transition kernel_hash (projr (actor_completion_command_id first_key))
     (CompleteActorObligation 1 5) (snd first_reconciled)"

lemma first_answers:
  "fst first_bound = Inr (TransitionRejected InvalidLifecycleTransition, False)"
  "fst first_reconciled = Inr (TransitionRejected SubjectNotFound, False)"
  "fst first_completed = Inr (TransitionRejected SubjectNotFound, False)"
  by code_simp+

lemma first_identifiers: "identifier_ok 1" "budget_units_ok 5"
  by (simp_all add: identifier_ok_def in_i64_def study_identifier_new_def budget_units_ok_def)

lemma first_command_ids:
  "f \<in> {runtime_binding_command_id first_key, runtime_reconciliation_command_id first_key, actor_completion_command_id first_key} \<Longrightarrow>
     f = Inr (projr f)"
  using attempt_command_id_ok [of first_key] first_identifiers(1)
  by (auto simp: runtime_binding_command_id_def runtime_reconciliation_command_id_def actor_completion_command_id_def
      first_key_def ascii_def)

lemma submitted_first:
  assumes "f \<in> {runtime_binding_command_id first_key, runtime_reconciliation_command_id first_key, actor_completion_command_id first_key}"
    and "fst (execute_study_transition h (projr f) cmd db) = Inr rc"
  shows "submitted h f cmd db rc (snd (execute_study_transition h (projr f) cmd db))"
  using first_command_ids [OF assms(1)] assms(2) by (metis prod.collapse submitted_def)

lemma first_submitted:
  "submitted kernel_hash (runtime_binding_command_id first_key) (BindActorTaskAttemptRuntime 1 1 1 1) kernel_start
     (TransitionRejected InvalidLifecycleTransition, False) (snd first_bound)"
  "submitted kernel_hash (runtime_reconciliation_command_id first_key) (ReconcileActorRuntime 1 1) (snd first_bound)
     (TransitionRejected SubjectNotFound, False) (snd first_reconciled)"
  "submitted kernel_hash (actor_completion_command_id first_key) (CompleteActorObligation 1 5) (snd first_reconciled)
     (TransitionRejected SubjectNotFound, False) (snd first_completed)"
proof -
  note sub = submitted_first
  show "submitted kernel_hash (runtime_binding_command_id first_key) (BindActorTaskAttemptRuntime 1 1 1 1) kernel_start
     (TransitionRejected InvalidLifecycleTransition, False) (snd first_bound)"
    using sub [OF _ first_answers(1) [unfolded first_bound_def]] by (simp add: first_bound_def)
  show "submitted kernel_hash (runtime_reconciliation_command_id first_key) (ReconcileActorRuntime 1 1) (snd first_bound)
     (TransitionRejected SubjectNotFound, False) (snd first_reconciled)"
    using sub [OF _ first_answers(2) [unfolded first_reconciled_def]] by (simp add: first_reconciled_def)
  show "submitted kernel_hash (actor_completion_command_id first_key) (CompleteActorObligation 1 5) (snd first_reconciled)
     (TransitionRejected SubjectNotFound, False) (snd first_completed)"
    using sub [OF _ first_answers(3) [unfolded first_completed_def]] by (simp add: first_completed_def)
qed

section \<open>An accepted attempt\<close>

text \<open>
  A study with one active obligation, built by eight requests, and a task attempt of it that runs on a
  registered child; during the session the daemon records that the child ended.  Here the kernel
  accepts all three transitions.
\<close>

definition live_env :: kernel_env where
  "live_env = (scenario_env [(1, seed 1)] ChildRunning)\<lparr>
     env_admissions := \<lparr>tb_rows = [(1, \<lparr>ad_attempt = Some 1, ad_office = None, ad_profile = Some 1\<rparr>)], tb_seq = 2\<rparr>,
     env_attempts := \<lparr>tb_rows = [(1, \<lparr>at_state = AttemptRunning, at_profile = 1, at_terminal_by = None\<rparr>)], tb_seq = 2\<rparr>\<rparr>"

definition live_commands :: "study_command list" where
  "live_commands =
     [AdmitProtocolRevision 1 (seed 1) (seed 1) (seed 236) (seed 153) (seed 1) (seed 2) (seed 3) (seed 1) 100,
      AdmitWorldRevision 1 (seed 1), AdmitMeasurementRevision 1 (seed 1) 1, AdmitInstitutionRevision 1 (seed 1),
      AdmitPopulationSnapshot 1 (seed 1) 1, AdmitEpisode 1 1 1 1 1 (seed 7), AssignTreatment 1 Retained,
      AdmitActorObligation 1 Source 1 (seed 1) (seed 236) (seed 153) 10 1 1]"

definition live_requests :: "study_command command_request list" where
  "live_requests = map (\<lambda>(i, cmd). service_request [i] cmd) (zip (map of_nat [65..<73]) live_commands)"

definition live_kernel :: kernel where
  "live_kernel = execute_all kernel_hash (study_family kernel_hash) live_requests
     (kernel_start\<lparr>authorities := authorities kernel_start, material := (material kernel_start)\<lparr>env := live_env\<rparr>\<rparr>)"

definition record_child_end :: "kernel \<Rightarrow> kernel" where
  "record_child_end db = db\<lparr>authorities := authorities db, material := (material db)\<lparr>env := live_env\<lparr>env_children :=
     \<lparr>tb_rows = [(1, \<lparr>ch_admission = 1, ch_state = ChildFinalized\<rparr>)], tb_seq = 2\<rparr>\<rparr>\<rparr>\<rparr>"

definition live_drive :: drive_env where
  "live_drive = (answering first_key first_child)\<lparr>de_session_writes := record_child_end\<rparr>"

definition live_bound :: "(store_error + study_receipt) \<times> kernel" where
  "live_bound = execute_study_transition kernel_hash (projr (runtime_binding_command_id first_key))
     (BindActorTaskAttemptRuntime 1 1 1 1) live_kernel"

definition live_reconciled :: "(store_error + study_receipt) \<times> kernel" where
  "live_reconciled = execute_study_transition kernel_hash (projr (runtime_reconciliation_command_id first_key))
     (ReconcileActorRuntime 1 1) (record_child_end (snd live_bound))"

definition live_completed :: "(store_error + study_receipt) \<times> kernel" where
  "live_completed = execute_study_transition kernel_hash (projr (actor_completion_command_id first_key))
     (CompleteActorObligation 1 5) (snd live_reconciled)"

lemma live_answers:
  "fst live_bound = Inr (TransitionAccepted (ActorTaskAttemptRuntimeBound 1 1 1 1 1), False)"
  "fst live_reconciled = Inr (TransitionAccepted (ActorRuntimeReconciled 1 1), False)"
  "fst live_completed = Inr (TransitionAccepted (ActorObligationCompleted 1), False)"
  by code_simp+

lemma live_submitted:
  "submitted kernel_hash (runtime_binding_command_id first_key) (BindActorTaskAttemptRuntime 1 1 1 1) live_kernel
     (TransitionAccepted (ActorTaskAttemptRuntimeBound 1 1 1 1 1), False) (snd live_bound)"
  "submitted kernel_hash (runtime_reconciliation_command_id first_key) (ReconcileActorRuntime 1 1)
     (record_child_end (snd live_bound)) (TransitionAccepted (ActorRuntimeReconciled 1 1), False) (snd live_reconciled)"
  "submitted kernel_hash (actor_completion_command_id first_key) (CompleteActorObligation 1 5) (snd live_reconciled)
     (TransitionAccepted (ActorObligationCompleted 1), False) (snd live_completed)"
proof -
  note sub = submitted_first
  show "submitted kernel_hash (runtime_binding_command_id first_key) (BindActorTaskAttemptRuntime 1 1 1 1) live_kernel
     (TransitionAccepted (ActorTaskAttemptRuntimeBound 1 1 1 1 1), False) (snd live_bound)"
    using sub [OF _ live_answers(1) [unfolded live_bound_def]] by (simp add: live_bound_def)
  show "submitted kernel_hash (runtime_reconciliation_command_id first_key) (ReconcileActorRuntime 1 1)
     (record_child_end (snd live_bound)) (TransitionAccepted (ActorRuntimeReconciled 1 1), False) (snd live_reconciled)"
    using sub [OF _ live_answers(2) [unfolded live_reconciled_def]] by (simp add: live_reconciled_def)
  show "submitted kernel_hash (actor_completion_command_id first_key) (CompleteActorObligation 1 5) (snd live_reconciled)
     (TransitionAccepted (ActorObligationCompleted 1), False) (snd live_completed)"
    using sub [OF _ live_answers(3) [unfolded live_completed_def]] by (simp add: live_completed_def)
qed

lemma execute_all_reachable:
  "kernel_reachable h db \<Longrightarrow> \<forall>rq \<in> set rqs. request_ok study_command_exact rq \<Longrightarrow>
     kernel_reachable h (execute_all h (study_family h) rqs db)"
  by (induction rqs arbitrary: db) (auto intro: kernel_reachable.executed)

lemma live_requests_ok: "\<forall>rq \<in> set live_requests. request_ok study_command_exact rq"
proof
  fix rq
  assume "rq \<in> set live_requests"
  then obtain p where p: "rq = service_request [fst p] (snd p)" "p \<in> set (zip (map of_nat [65..<73]) live_commands)"
    unfolding live_requests_def by fastforce
  then obtain i cmd where rq: "rq = service_request [i] cmd" and i: "i \<in> set (map of_nat [65..<73])"
    and cmd: "cmd \<in> set live_commands"
    by (metis prod.collapse set_zip_leftD set_zip_rightD)
  have "command_id_ok [i]" using i by (auto simp: command_id_ok_def upt_rec)
  moreover have "study_command_exact cmd" if "cmd \<in> set live_commands" for cmd
    using that by (auto simp: live_commands_def study_command_exact_def identifier_ok_def in_i64_def
        study_identifier_new_def digest_ok_def seed_def budget_units_ok_def ordinal64_ok_def pair_ordinal_ok_def forum_budget_ok_def)
  ultimately show "request_ok study_command_exact rq" using cmd by (simp add: rq service_request_ok)
qed

lemma live_reachable: "kernel_reachable kernel_hash live_kernel" "kernel_reachable kernel_hash (snd live_reconciled)"
proof -
  show k: "kernel_reachable kernel_hash live_kernel"
    unfolding live_kernel_def
    by (intro execute_all_reachable kernel_reachable.environment kernel_start_reachable live_requests_ok)
  have "kernel_reachable kernel_hash (snd live_bound)"
    by (rule submitted_reachable [OF k _ _ live_submitted(1), of first_key])
      (simp_all add: study_command_exact_def first_identifiers)
  then have "kernel_reachable kernel_hash (record_child_end (snd live_bound))"
    unfolding record_child_end_def by (rule kernel_reachable.environment)
  from submitted_reachable [OF this _ _ live_submitted(2), of first_key]
  show "kernel_reachable kernel_hash (snd live_reconciled)" by (simp add: study_command_exact_def first_identifiers)
qed

text \<open>The transitions of the driven attempt are the ones above.\<close>

lemma live_submission_unique:
  assumes "attempt_submitted kernel_hash live_drive 5 first_key first_child rc live_kernel db0 db'"
  shows "db0 = snd live_reconciled \<and> rc = (TransitionAccepted (ActorObligationCompleted 1), False)"
proof -
  have w: "de_spawn_writes live_drive = id" "de_session_writes live_drive = record_child_end"
      "poll_writes n (de_polls live_drive) db = db" for n db
    by (cases n; simp add: live_drive_def answering_def poll_writes_def)+
  obtain db1 rc1 rc2 where s:
      "submitted kernel_hash (runtime_binding_command_id first_key) (BindActorTaskAttemptRuntime 1 1 1 1) live_kernel rc1 db1"
      "submitted kernel_hash (runtime_reconciliation_command_id first_key) (ReconcileActorRuntime 1 1) (record_child_end db1) rc2 db0"
      "submitted kernel_hash (actor_completion_command_id first_key) (CompleteActorObligation 1 5) db0 rc db'"
    using assms by (auto simp: attempt_submitted_def w)
  have "db1 = snd live_bound" using submitted_unique [OF live_submitted(1) s(1)] by simp
  then have "db0 = snd live_reconciled" using submitted_unique [OF live_submitted(2)] s(2) by simp
  then show ?thesis using submitted_unique [OF live_submitted(3)] s(3) by simp
qed

end
