(* ===== verification/Attempt_Promises.thy ===== *)
theory Attempt_Promises
  imports Attempt_Scenario
begin

text \<open>
  What an attempt promises: its runner keeps the seat it was opened for, its driver reports success
  exactly when the completion was submitted after the whole lifecycle, and what the two do when the
  kernel rejects or fails a transition.
\<close>

section \<open>Containment\<close>

text \<open>
  Containing a registered child never answers that it is finished, so the driver polls until its
  window is over and leaves the attempt contained, but not reconciled.
\<close>

lemma contain_registered:
  "in_phase k c s rn \<Longrightarrow> \<not> rn_unregistered rn \<Longrightarrow> snd (contain as rn) = []
    \<and> in_phase k c (if as = [] \<or> s \<notin> {Spawned, RuntimeBound, SessionReadied, SessionDisposed} then s
        else ContainmentRequired) (fst (contain as rn))"
proof (induction as arbitrary: rn s)
  case (Cons a as)
  let ?s = "if s \<in> {Spawned, RuntimeBound, SessionReadied, SessionDisposed} then ContainmentRequired else s"
  obtain r rn1 where d: "drive_containment a rn = (r, rn1)" by fastforce
  have "scheduler_state k (rn_scheduler rn) = Inr s" using Cons.prems(1) by (simp add: in_phase_def scheduler_state_def)
  then have "in_phase k c ?s rn1 \<and> \<not> rn_unregistered rn1 \<and> r \<noteq> Inr True"
    using d Cons.prems in_phase_key [OF Cons.prems(1)] in_phase_child [OF Cons.prems(1)]
    by (auto simp: drive_containment_def record_containment_required_def split: if_splits sum.splits prod.splits)
  with Cons.IH [of ?s rn1] show ?case
    by (auto simp: d split: sum.splits bool.splits if_splits)
qed auto

lemma attempt_stranded_steps:
  assumes "(runner_step h)\<^sup>*\<^sup>* rn rn'" "in_phase k c PhysicalReconciled rn" "\<not> rn_completed rn" "\<not> rn_unregistered rn"
  shows "in_phase k c PhysicalReconciled rn' \<and> \<not> rn_completed rn' \<and> \<not> rn_unregistered rn'"
  using assms(1)
  by (induction rule: rtranclp_induct) (use assms(2-4) runner_step_stranded in blast)+

section \<open>The promises\<close>

text \<open>
  C29: a runner keeps its seat.  Whatever the daemon answers and whatever order its operations are called
  in, the child a reachable runner owns is the one that was registered for the actor attempt of its
  key, its schedule keeps that child and only moves forward along the lifecycle, and a completion is
  recorded only once the runtime is reconciled.
\<close>

theorem runner_keeps_its_seat:
  assumes "runner_reachable h rn" "in_phase k c s rn" "(runner_step h)\<^sup>*\<^sup>* rn rn'"
  shows "sp_attempt c = sk_attempt k \<and> (\<exists>t. in_phase k c t rn' \<and> schedule_edge\<^sup>*\<^sup>* s t
    \<and> (rn_completed rn' \<longrightarrow> t = RuntimeReconciled))"
proof -
  have "\<exists>t. in_phase k c t rn' \<and> schedule_edge\<^sup>*\<^sup>* s t"
    using assms(3)
  proof (induction rule: rtranclp_induct)
    case (step rn1 rn2)
    then show ?case by (metis (no_types, lifting) rtranclp_trans runner_step_phase)
  qed (use assms(2) in auto)
  moreover have "runner_ok rn'"
    by (rule runner_reachable_ok [of h]) (use assms(1,3) in \<open>simp add: runner_reachable_def rtranclp_trans\<close>)
  moreover have "runner_ok rn" by (rule runner_reachable_ok [OF assms(1)])
  ultimately show ?thesis using assms(2) by (auto simp: runner_ok_def in_phase_child dest: in_phase_unique)
qed

theorem runner_keeps_its_seat_witness:
  "sp_attempt first_child = sk_attempt first_key
   \<and> (\<exists>t. in_phase first_key first_child t (snd (drive_containment (Inr False) first_runner)))"
proof -
  have "runner_step kernel_hash first_runner (snd (drive_containment (Inr False) first_runner))"
    by (rule runner_step.contain) (rule prod.collapse [symmetric])
  then show ?thesis
    using runner_keeps_its_seat [OF first_runner(1) first_runner(2), of kernel_hash] by blast
qed

text \<open>
  C30: the driver reports success exactly when its runner recorded the completion, and then the whole
  lifecycle was driven.  The child was registered for the attempt of the launch claim; the adapter and
  the session became ready, the creation, the prompt and the disposal were delivered, every forum call
  was answered, the prompt's terminal and the transcript were recorded, and the child was reaped and
  reconciled.  Each of these is read off the list of answers its loop took.  The binding, the
  reconciliation and the completion were submitted in this order under the attempt's identities, each
  on the tables the one before left, but for what the daemon wrote in between.  If the kernel accepted
  the completion on a reachable state, the obligation is completed with the given charge and any
  runtime binding it has is reconciled.
\<close>

theorem driver_success_is_completion:
  assumes "driver_execute h dv budget db = (r, rn, db')"
  shows "(rn_completed rn \<longleftrightarrow> r = Inr ()) \<and> (r = Inr () \<longrightarrow> attempt_driven dv \<and> (\<exists>k c db0 rc. de_start dv = Some (k, True)
    \<and> de_registration dv = Inr (RegistrationReady c) \<and> sp_attempt c = sk_attempt k
    \<and> runner_state rn = Some RuntimeReconciled \<and> attempt_submitted h dv budget k c rc db db0 db'
    \<and> ((\<forall>b. digest_ok (h b)) \<and> kernel_reachable h db0 \<and> identifier_ok (sk_obligation k) \<and> budget_units_ok budget
         \<and> (\<exists>ev. rc = (TransitionAccepted ev, False)) \<longrightarrow>
       (\<exists>q. select_pk (obligations (material db')) (sk_obligation k) = Some q \<and> ob_state q = ObligationCompleted
          \<and> ob_charged q = budget
          \<and> (\<forall>b. select_pk (bindings (material db')) (sk_obligation k) = Some b \<longrightarrow> rb_state b = Reconciled)))))"
proof -
  note ph = driver_execute_phases [OF assms]
  show ?thesis
  proof (cases "r = Inr ()")
    case True
    then obtain k c db0 rc where o: "de_start dv = Some (k, True)" "de_registration dv = Inr (RegistrationReady c)"
        "sp_attempt c = sk_attempt k" "in_phase k c RuntimeReconciled rn" "attempt_submitted h dv budget k c rc db db0 db'"
      using ph by blast
    have "\<exists>q. select_pk (obligations (material db')) (sk_obligation k) = Some q \<and> ob_state q = ObligationCompleted
          \<and> ob_charged q = budget
          \<and> (\<forall>b. select_pk (bindings (material db')) (sk_obligation k) = Some b \<longrightarrow> rb_state b = Reconciled)"
      if "\<forall>b. digest_ok (h b)" "kernel_reachable h db0" "identifier_ok (sk_obligation k)" "budget_units_ok budget"
        "rc = (TransitionAccepted ev, False)" for ev
      using submitted_completion [of h db0 k budget ev db'] that o(5) by (auto simp: attempt_submitted_def)
    then show ?thesis
      using ph True o in_phase_state [OF o(4)] driver_success_driven [OF assms [unfolded True]] by blast
  qed (use ph in simp)
qed

theorem driver_success_is_completion_witness:
  "\<exists>rn db'. driver_execute kernel_hash live_drive 5 live_kernel = (Inr (), rn, db')
     \<and> runner_state rn = Some RuntimeReconciled \<and> rn_completed rn \<and> attempt_driven live_drive
     \<and> (\<exists>q. select_pk (obligations (material db')) 1 = Some q \<and> ob_state q = ObligationCompleted \<and> ob_charged q = 5)"
proof -
  obtain rn where run: "driver_execute kernel_hash live_drive 5 live_kernel = (Inr (), rn, snd live_completed)"
    using driver_answering_writes [where w = record_child_end, of first_child first_key, unfolded first_sel, OF refl live_submitted]
    unfolding live_drive_def by blast
  obtain k c db0 rc where o: "de_start live_drive = Some (k, True)" "de_registration live_drive = Inr (RegistrationReady c)"
      "runner_state rn = Some RuntimeReconciled"
      "attempt_submitted kernel_hash live_drive 5 k c rc live_kernel db0 (snd live_completed)"
    and completed: "(\<forall>b. digest_ok (kernel_hash b)) \<and> kernel_reachable kernel_hash db0 \<and> identifier_ok (sk_obligation k)
        \<and> budget_units_ok 5 \<and> (\<exists>ev. rc = (TransitionAccepted ev, False)) \<Longrightarrow>
      \<exists>q. select_pk (obligations (material (snd live_completed))) (sk_obligation k) = Some q
        \<and> ob_state q = ObligationCompleted \<and> ob_charged q = 5"
    using driver_success_is_completion [OF run] by blast
  have kc: "k = first_key" "c = first_child" using o(1,2) by (simp_all add: live_drive_def answering_def)
  note once = live_submission_unique [OF o(4) [unfolded kc]]
  have "\<exists>q. select_pk (obligations (material (snd live_completed))) (sk_obligation k) = Some q
        \<and> ob_state q = ObligationCompleted \<and> ob_charged q = 5"
    by (rule completed) (use once live_reachable(2) first_identifiers kernel_hash_ok in \<open>simp add: kc\<close>)
  then show ?thesis using run o(3) driver_success_is_completion [OF run] by (auto simp: kc)
qed

text \<open>
  C31: the driver does not look at the kernel's dispositions.  An attempt whose binding, reconciliation
  and completion are all rejected is still reported as done, while no obligation and no runtime
  binding of the study has changed.
\<close>

theorem rejected_attempt_reported_done:
  assumes d: "\<And>b. digest_ok (h b)" and reach: "kernel_reachable h db" and seat: "sp_attempt c = sk_attempt k"
    and ok: "identifier_ok (sk_obligation k)" "identifier_ok (sk_attempt k)" "identifier_ok (sp_child c)"
      "identifier_ok (sp_admission c)" "budget_units_ok budget"
    and sub: "submitted h (runtime_binding_command_id k)
        (BindActorTaskAttemptRuntime (sk_obligation k) (sk_attempt k) (sp_child c) (sp_admission c)) db
        (TransitionRejected x1, b1) db1"
      "submitted h (runtime_reconciliation_command_id k) (ReconcileActorRuntime (sk_obligation k) (sp_child c)) db1
        (TransitionRejected x2, b2) db2"
      "submitted h (actor_completion_command_id k) (CompleteActorObligation (sk_obligation k) budget) db2
        (TransitionRejected x3, b3) db3"
  shows "\<exists>rn. driver_execute h (answering k c) budget db = (Inr (), rn, db3) \<and> rn_completed rn
    \<and> tb_rows (obligations (material db3)) = tb_rows (obligations (material db))
    \<and> tb_rows (bindings (material db3)) = tb_rows (bindings (material db))"
proof -
  obtain rn where run: "driver_execute h (answering k c) budget db = (Inr (), rn, db3)"
    using driver_answering [OF seat sub] by blast
  have cmd: "study_command_exact (BindActorTaskAttemptRuntime (sk_obligation k) (sk_attempt k) (sp_child c) (sp_admission c))"
      "study_command_exact (ReconcileActorRuntime (sk_obligation k) (sp_child c))"
      "study_command_exact (CompleteActorObligation (sk_obligation k) budget)"
    using ok by (simp_all add: study_command_exact_def)
  note r1 = submitted_rejected [OF d reach insertI1 cmd(1) sub(1)]
  note r2 = submitted_rejected [OF d conjunct1 [OF r1] insertI2 [OF insertI1] cmd(2) sub(2)]
  note r3 = submitted_rejected [OF d conjunct1 [OF r2] insertI2 [OF insertI2 [OF insertI1]] cmd(3) sub(3)]
  show ?thesis using run driver_execute_phases [OF run] r1 r2 r3 by auto
qed

theorem rejected_attempt_reported_done_witness:
  "\<exists>rn. driver_execute kernel_hash (answering first_key first_child) 5 kernel_start = (Inr (), rn, snd first_completed)
     \<and> rn_completed rn \<and> tb_rows (obligations (material (snd first_completed))) = []"
proof -
  have "tb_rows (obligations (material kernel_start)) = []"
    by (simp add: kernel_start_def empty_kernel_def empty_study_db_def empty_table_def)
  then show ?thesis
    using rejected_attempt_reported_done [OF kernel_hash_ok kernel_start_reachable, of first_child first_key 5,
        unfolded first_sel, OF refl first_identifiers(1) first_identifiers(1) first_identifiers(1) first_identifiers(1)
        first_identifiers(2) first_submitted] by metis
qed

text \<open>
  C32: a kernel failure strands the attempt.  When the kernel fails while the reconciliation is submitted
  the child is already recorded as physically reconciled; the call fails, and after that no operation
  of the runner, in any order, reconciles or completes the attempt, and the driver's containment
  polls until its window is over.
\<close>

theorem failed_reconciliation_strands_attempt:
  assumes ph: "in_phase k c s rn" "s \<in> {SessionDisposed, ContainmentRequired}" "\<not> rn_completed rn" "\<not> rn_unregistered rn"
    and fail: "runtime_reconciliation_command_id k = Inr i"
      "execute_study_transition h i (ReconcileActorRuntime (sk_obligation k) (sp_child c)) db = (Inl e, db')"
    and run: "runner_reconcile h (Inr (True, True)) rn db = (r, rn1, db1)" "(runner_step h)\<^sup>*\<^sup>* rn1 rn2"
  shows "r = Inl RunnerKernel \<and> in_phase k c PhysicalReconciled rn2 \<and> \<not> rn_completed rn2 \<and> snd (contain as rn2) = []"
proof -
  have "r = Inl RunnerKernel \<and> rn1 = to_phase k c PhysicalReconciled rn"
    using run(1) ph fail in_phase_key [OF ph(1)] in_phase_child [OF ph(1)]
    by (auto simp: runner_reconcile_def bind_study_actor_runtime_def recording_defs)
  moreover from this have "in_phase k c PhysicalReconciled rn2 \<and> \<not> rn_completed rn2 \<and> \<not> rn_unregistered rn2"
    by (intro attempt_stranded_steps [OF run(2)]) (use ph in simp_all)
  ultimately show ?thesis using contain_registered by blast
qed

theorem failed_reconciliation_strands_attempt_witness:
  "\<exists>rn. in_phase first_key first_child PhysicalReconciled rn \<and> \<not> rn_completed rn \<and> snd (contain [Inr False, Inr False] rn) = []"
proof -
  let ?rn = "to_phase first_key first_child ContainmentRequired first_runner"
  let ?db = "kernel_start\<lparr>authorities := (authorities kernel_start)\<lparr>au_grants := empty_table\<rparr>\<rparr>"
  have ph: "in_phase first_key first_child ContainmentRequired ?rn" "\<not> rn_completed ?rn" "\<not> rn_unregistered ?rn"
    using first_runner(2) by (simp_all add: first_runner_def spawn_from_launch_claim_def runner_spawn_def
        new_from_launch_claim_def runner_new_def scheduled_def record_spawned_def first_key_def first_child_def)
  obtain i where i: "runtime_reconciliation_command_id first_key = Inr i"
    using first_submitted(2) by (auto simp: submitted_def)
  have grant: "active_capability_grant (authorities ?db) KERNEL STUDY_TRANSITION = Inr None" by code_simp
  obtain r rn1 db1 where run: "runner_reconcile kernel_hash (Inr (True, True)) ?rn ?db = (r, rn1, db1)"
    by (metis prod.exhaust)
  have "execute_study_transition kernel_hash i (ReconcileActorRuntime (sk_obligation first_key) (sp_child first_child)) ?db
      = (Inl (LedgerCorruption ''current schema has no kernel study-transition grant''), ?db)"
    unfolding execute_study_transition_def grant by simp
  from failed_reconciliation_strands_attempt [OF ph(1) _ ph(2,3) i this run rtranclp.rtrancl_refl] show ?thesis by blast
qed

end
