(* ===== verification/Pilot_Choreography.thy ===== *)
theory Pilot_Choreography
  imports Study_Types
begin

text \<open>
  The paired-arm gates of the application
  (\<^verbatim>\<open>correction-latency-harness/src/choreography.rs\<close>): the forum exposure of each population, and the
  state records in which a coordinator keeps how far each arm of a pair is.  The treatments and
  phases of the application are those of the kernel, under the same names.
\<close>

section \<open>Exposures\<close>

datatype (plugins only: code) choreography_error =
    InvalidRoleSeat | RoleContractMismatch | InvalidFrozenForumHead | InvalidArmTransition
  | ExposureDoesNotMatchTreatment | CorrectionBarrierNotReady | ChoreographyAnalysis

text \<open>A \<open>ForumExposure\<close> is its first visible message ordinal.\<close>

type_synonym forum_exposure = int

definition exposure_source :: forum_exposure where
  "exposure_source = 1"

definition retained_successor :: forum_exposure where
  "retained_successor = exposure_source"

definition reset_successor_exposure :: "int \<Rightarrow> choreography_error + forum_exposure" where
  "reset_successor_exposure frozen_forum_head =
     (if frozen_forum_head < 0 then Inl InvalidFrozenForumHead
      else
        (case checked_add_i64 frozen_forum_head 1 of
           None \<Rightarrow> Inl InvalidFrozenForumHead
         | Some x \<Rightarrow> Inr x))"

definition successor_exposure :: "study_treatment \<Rightarrow> int \<Rightarrow> choreography_error + forum_exposure" where
  "successor_exposure t frozen_forum_head = (case t of
     Retained \<Rightarrow> Inr retained_successor
   | Reset \<Rightarrow> reset_successor_exposure frozen_forum_head)"

section \<open>Arms\<close>

datatype (plugins only: code) arm_lifecycle =
    ArmPlanned | ArmSourceFrozen | ArmSuccessorExposed | ArmCorrectionReleased | ArmSuccessorClosed
  | ArmInvalidated

record arm_state =
  as_treatment :: study_treatment
  as_lifecycle :: arm_lifecycle
  as_head :: "int option"
  as_exposure :: "forum_exposure option"

definition arm_planned :: "study_treatment \<Rightarrow> arm_state" where
  "arm_planned t = \<lparr>as_treatment = t, as_lifecycle = ArmPlanned, as_head = None, as_exposure = None\<rparr>"

definition mark_source_frozen :: "int \<Rightarrow> arm_state \<Rightarrow> choreography_error + arm_state" where
  "mark_source_frozen head a =
     (if as_lifecycle a \<noteq> ArmPlanned \<or> head < 0 then Inl InvalidArmTransition
      else Inr (a\<lparr>as_head := Some head, as_lifecycle := ArmSourceFrozen\<rparr>))"

definition mark_successor_exposed :: "forum_exposure \<Rightarrow> arm_state \<Rightarrow> choreography_error + arm_state" where
  "mark_successor_exposed x a =
     (if as_lifecycle a \<noteq> ArmSourceFrozen then Inl InvalidArmTransition
      else if as_treatment a = Reset
        \<and> Some x \<noteq> (case as_head a of
                       None \<Rightarrow> None
                     | Some h \<Rightarrow> (case reset_successor_exposure h of Inl _ \<Rightarrow> None | Inr y \<Rightarrow> Some y))
      then Inl ExposureDoesNotMatchTreatment
      else if as_treatment a = Retained \<and> x \<noteq> retained_successor then Inl ExposureDoesNotMatchTreatment
      else Inr (a\<lparr>as_exposure := Some x, as_lifecycle := ArmSuccessorExposed\<rparr>))"

definition release_correction :: "arm_state \<Rightarrow> choreography_error + arm_state" where
  "release_correction a =
     (if as_lifecycle a \<noteq> ArmSuccessorExposed then Inl CorrectionBarrierNotReady
      else Inr (a\<lparr>as_lifecycle := ArmCorrectionReleased\<rparr>))"

definition mark_successor_closed :: "arm_state \<Rightarrow> choreography_error + arm_state" where
  "mark_successor_closed a =
     (if as_lifecycle a \<noteq> ArmCorrectionReleased then Inl InvalidArmTransition
      else Inr (a\<lparr>as_lifecycle := ArmSuccessorClosed\<rparr>))"

definition invalidate_arm :: "arm_state \<Rightarrow> arm_state" where
  "invalidate_arm a = a\<lparr>as_lifecycle := ArmInvalidated\<rparr>"

section \<open>Pairs\<close>

record pair_seed =
  se_pair_id :: "byte list"
  se_digest :: digest

record pair_state =
  ps_seed :: pair_seed
  ps_descriptor :: digest
  ps_retained :: arm_state
  ps_reset :: arm_state
  ps_released :: bool

definition pair_planned :: "digest \<Rightarrow> pair_seed \<Rightarrow> pair_state" where
  "pair_planned descriptor seed =
     \<lparr>ps_seed = seed, ps_descriptor = descriptor, ps_retained = arm_planned Retained, ps_reset = arm_planned Reset,
      ps_released = False\<rparr>"

definition ps_arm :: "study_treatment \<Rightarrow> pair_state \<Rightarrow> arm_state" where
  "ps_arm t p = (case t of Retained \<Rightarrow> ps_retained p | Reset \<Rightarrow> ps_reset p)"

definition ps_lifecycle :: "study_treatment \<Rightarrow> pair_state \<Rightarrow> arm_lifecycle" where
  "ps_lifecycle t p = as_lifecycle (ps_arm t p)"

text \<open>An update of one arm in place.\<close>

definition arm_mut ::
  "study_treatment \<Rightarrow> (arm_state \<Rightarrow> choreography_error + arm_state) \<Rightarrow> pair_state \<Rightarrow> choreography_error + pair_state" where
  "arm_mut t f p = (case f (ps_arm t p) of
     Inl e \<Rightarrow> Inl e
   | Inr a \<Rightarrow> Inr (case t of Retained \<Rightarrow> p\<lparr>ps_retained := a\<rparr> | Reset \<Rightarrow> p\<lparr>ps_reset := a\<rparr>))"

definition pair_source_frozen :: "study_treatment \<Rightarrow> int \<Rightarrow> pair_state \<Rightarrow> choreography_error + pair_state" where
  "pair_source_frozen t head = arm_mut t (mark_source_frozen head)"

definition pair_successor_exposed ::
  "study_treatment \<Rightarrow> forum_exposure \<Rightarrow> pair_state \<Rightarrow> choreography_error + pair_state" where
  "pair_successor_exposed t x = arm_mut t (mark_successor_exposed x)"

definition pair_correction_released :: "pair_state \<Rightarrow> choreography_error + pair_state" where
  "pair_correction_released p =
     (if ps_released p \<or> ps_lifecycle Retained p \<noteq> ArmSuccessorExposed \<or> ps_lifecycle Reset p \<noteq> ArmSuccessorExposed
      then Inl CorrectionBarrierNotReady
      else
        (case arm_mut Retained release_correction p of
           Inl e \<Rightarrow> Inl e
         | Inr p1 \<Rightarrow>
             (case arm_mut Reset release_correction p1 of
                Inl e \<Rightarrow> Inl e
              | Inr p2 \<Rightarrow> Inr (p2\<lparr>ps_released := True\<rparr>))))"

definition pair_successor_closed :: "study_treatment \<Rightarrow> pair_state \<Rightarrow> choreography_error + pair_state" where
  "pair_successor_closed t = arm_mut t mark_successor_closed"

definition pair_invalidate :: "pair_state \<Rightarrow> pair_state" where
  "pair_invalidate p = p\<lparr>ps_retained := invalidate_arm (ps_retained p), ps_reset := invalidate_arm (ps_reset p)\<rparr>"

text \<open>What an update does to each arm.\<close>

lemma ps_arm_mut:
  "arm_mut t f p = Inr q \<Longrightarrow>
     \<exists>a. f (ps_arm t p) = Inr a \<and> (\<forall>u. ps_arm u q = (if u = t then a else ps_arm u p)) \<and> ps_released q = ps_released p"
  by (cases t) (auto simp: arm_mut_def ps_arm_def split: sum.splits study_treatment.splits)

lemma pair_correction_released_arms:
  assumes "pair_correction_released p = Inr q"
  shows "\<not> ps_released p \<and> ps_released q
    \<and> (\<forall>t. ps_lifecycle t p = ArmSuccessorExposed \<and> ps_arm t q = (ps_arm t p)\<lparr>as_lifecycle := ArmCorrectionReleased\<rparr>)"
proof -
  have "ps_lifecycle t p = ArmSuccessorExposed \<and> ps_arm t q = (ps_arm t p)\<lparr>as_lifecycle := ArmCorrectionReleased\<rparr>" for t
    using assms
    by (cases t) (auto simp: pair_correction_released_def release_correction_def arm_mut_def ps_lifecycle_def ps_arm_def
        split: if_splits sum.splits)
  then show ?thesis
    using assms by (auto simp: pair_correction_released_def split: if_splits sum.splits dest!: ps_arm_mut)
qed

end
