(* ===== verification/Pilot_Runner.thy ===== *)
theory Pilot_Runner
  imports Pilot_Choreography
begin

text \<open>
  The coordinator of the feasibility pilot (\<^verbatim>\<open>CanonicalPilotRunner\<close> of
  \<^verbatim>\<open>correction-latency-harness/src/pilot_runner.rs\<close>).  The backend is a trait of the source; here it is
  a record of functions over a state of its own.  Of the plan the runner only uses the pair seeds, the
  role seats, the prompts of the seats and the analysis; the last two are functions of the plan.
\<close>

section \<open>Plan, backend and state\<close>

record actor_lifetime =
  lt_pair :: nat
  lt_pair_id :: "byte list"
  lt_treatment :: study_treatment
  lt_phase :: study_population_phase
  lt_role :: nat
  lt_prompt :: "byte list"

definition schedule_index :: "actor_lifetime \<Rightarrow> nat" where
  "schedule_index l =
     lt_pair l * 32 + (case lt_treatment l of Retained \<Rightarrow> 0 | Reset \<Rightarrow> 1) * 16
       + (case lt_phase l of Source \<Rightarrow> 0 | Successor \<Rightarrow> 1) * 8 + lt_role l - 1"

record ('o, 'a) pilot_plan =
  pl_pairs :: "pair_seed list"
  pl_descriptor :: digest
  pl_source_roles :: "nat list"
  pl_successor_roles :: "nat list"
  pl_prompt :: "study_population_phase \<Rightarrow> nat \<Rightarrow> forum_exposure \<Rightarrow> choreography_error + byte list"
  pl_digest :: digest
  pl_analyse :: "'o list \<Rightarrow> 'a option"

definition pl_roles :: "('o, 'a) pilot_plan \<Rightarrow> study_population_phase \<Rightarrow> nat list" where
  "pl_roles plan ph = (case ph of Source \<Rightarrow> pl_source_roles plan | Successor \<Rightarrow> pl_successor_roles plan)"

record ('b, 'e, 'o) pilot_backend =
  be_admit_study_run :: "'b \<Rightarrow> ('e + unit) \<times> 'b"
  be_register_pair :: "nat \<Rightarrow> pair_seed \<Rightarrow> 'b \<Rightarrow> ('e + unit) \<times> 'b"
  be_start_study_run :: "'b \<Rightarrow> ('e + unit) \<times> 'b"
  be_execute_actor_lifetime :: "actor_lifetime \<Rightarrow> 'b \<Rightarrow> ('e + unit) \<times> 'b"
  be_freeze_source :: "nat \<Rightarrow> study_treatment \<Rightarrow> 'b \<Rightarrow> ('e + int) \<times> 'b"
  be_expose_successor :: "nat \<Rightarrow> study_treatment \<Rightarrow> forum_exposure \<Rightarrow> 'b \<Rightarrow> ('e + unit) \<times> 'b"
  be_release_matched_correction :: "nat \<Rightarrow> 'b \<Rightarrow> ('e + unit) \<times> 'b"
  be_close_successor :: "nat \<Rightarrow> study_treatment \<Rightarrow> 'b \<Rightarrow> ('e + unit) \<times> 'b"
  be_complete_study_run :: "'b \<Rightarrow> ('e + unit) \<times> 'b"
  be_closed_pair_observations :: "'b \<Rightarrow> ('e + 'o list) \<times> 'b"

datatype (plugins only: code) pilot_lifecycle =
    PilotPrepared | PilotSealed | PilotRunning | PilotClosed | PilotCompleted

datatype (plugins only: code) 'e pilot_error =
    PilotAdmission | PilotBackend 'e | PilotChoreography choreography_error | PilotAnalysis
  | PilotInvalidLifecycle pilot_lifecycle pilot_lifecycle | PilotPairOrdinal nat
  | SealedPlanMismatch | SealedPlanMissing

record ('o, 'a) pilot =
  pi_plan :: "('o, 'a) pilot_plan"
  pi_sealed :: bool
  pi_lifecycle :: pilot_lifecycle
  pi_states :: "pair_state list"
  pi_executed :: "(nat \<times> study_treatment \<times> study_population_phase \<times> nat) set"
  pi_artifact :: "'a option"

definition pilot_new :: "('o, 'a) pilot_plan \<Rightarrow> ('o, 'a) pilot" where
  "pilot_new plan =
     \<lparr>pi_plan = plan, pi_sealed = False, pi_lifecycle = PilotPrepared,
      pi_states = map (pair_planned (pl_descriptor plan)) (pl_pairs plan), pi_executed = {}, pi_artifact = None\<rparr>"

definition pair_state_at :: "nat \<Rightarrow> ('o, 'a) pilot \<Rightarrow> 'e pilot_error + pair_state" where
  "pair_state_at i p = (if i < length (pi_states p) then Inr (pi_states p ! i) else Inl (PilotPairOrdinal i))"

definition population_complete ::
  "nat \<Rightarrow> study_treatment \<Rightarrow> study_population_phase \<Rightarrow> ('o, 'a) pilot \<Rightarrow> bool" where
  "population_complete i t ph p \<longleftrightarrow> list_all (\<lambda>r. (i, t, ph, r) \<in> pi_executed p) (pl_roles (pi_plan p) ph)"

text \<open>The guard \<open>require_running\<close> followed by the pair's state.\<close>

definition running_pair :: "nat \<Rightarrow> ('o, 'a) pilot \<Rightarrow> 'e pilot_error + pair_state" where
  "running_pair i p =
     (if pi_lifecycle p \<noteq> PilotRunning then Inl (PilotInvalidLifecycle PilotRunning (pi_lifecycle p))
      else pair_state_at i p)"

text \<open>Recording a choreography fact of one pair after the backend has answered.\<close>

definition record_fact ::
  "nat \<Rightarrow> (pair_state \<Rightarrow> choreography_error + pair_state) \<Rightarrow> ('o, 'a) pilot \<Rightarrow> ('e pilot_error + unit) \<times> ('o, 'a) pilot" where
  "record_fact i f p =
     (if i < length (pi_states p)
      then (case f (pi_states p ! i) of
              Inl e \<Rightarrow> (Inl (PilotChoreography e), p)
            | Inr q \<Rightarrow> (Inr (), p\<lparr>pi_states := (pi_states p)[i := q]\<rparr>))
      else (Inl (PilotPairOrdinal i), p))"

section \<open>Sealing and starting\<close>

text \<open>The answer of the daemon: the digest and the pair count of the sealed plan.\<close>

definition pilot_seal ::
  "(digest \<times> nat) option \<Rightarrow> ('o, 'a) pilot \<Rightarrow> ('e pilot_error + unit) \<times> ('o, 'a) pilot" where
  "pilot_seal answer p =
     (if pi_lifecycle p \<noteq> PilotPrepared
      then (Inl (PilotInvalidLifecycle PilotPrepared (pi_lifecycle p)), p)
      else
        (case answer of
           None \<Rightarrow> (Inl PilotAdmission, p)
         | Some (d, n) \<Rightarrow>
             if d \<noteq> pl_digest (pi_plan p) \<or> n \<noteq> length (pl_pairs (pi_plan p)) then (Inl SealedPlanMismatch, p)
             else (Inr (), p\<lparr>pi_sealed := True, pi_lifecycle := PilotSealed\<rparr>)))"

fun register_pairs ::
  "('b, 'e, 'o) pilot_backend \<Rightarrow> nat \<Rightarrow> pair_seed list \<Rightarrow> 'b \<Rightarrow> ('e pilot_error + unit) \<times> 'b" where
  "register_pairs be i [] b = (Inr (), b)"
| "register_pairs be i (s # ss) b =
     (case be_register_pair be i s b of
        (Inl e, b') \<Rightarrow> (Inl (PilotBackend e), b')
      | (Inr _, b') \<Rightarrow> register_pairs be (Suc i) ss b')"

definition pilot_start ::
  "('b, 'e, 'o) pilot_backend \<Rightarrow> ('o, 'a) pilot \<times> 'b \<Rightarrow> ('e pilot_error + unit) \<times> ('o, 'a) pilot \<times> 'b" where
  "pilot_start be = (\<lambda>(p, b).
     if pi_lifecycle p \<noteq> PilotSealed then (Inl (PilotInvalidLifecycle PilotSealed (pi_lifecycle p)), p, b)
     else if \<not> pi_sealed p then (Inl SealedPlanMissing, p, b)
     else
       (case be_admit_study_run be b of
          (Inl e, b1) \<Rightarrow> (Inl (PilotBackend e), p, b1)
        | (Inr _, b1) \<Rightarrow>
            (case register_pairs be 0 (pl_pairs (pi_plan p)) b1 of
               (Inl e, b2) \<Rightarrow> (Inl e, p, b2)
             | (Inr _, b2) \<Rightarrow>
                 (case be_start_study_run be b2 of
                    (Inl e, b3) \<Rightarrow> (Inl (PilotBackend e), p, b3)
                  | (Inr _, b3) \<Rightarrow> (Inr (), p\<lparr>pi_lifecycle := PilotRunning\<rparr>, b3)))))"

section \<open>Populations\<close>

fun collect_lifetimes ::
  "(nat \<Rightarrow> 'e pilot_error + actor_lifetime) \<Rightarrow> nat list \<Rightarrow> 'e pilot_error + actor_lifetime list" where
  "collect_lifetimes f [] = Inr []"
| "collect_lifetimes f (r # rs) =
     (case f r of
        Inl e \<Rightarrow> Inl e
      | Inr l \<Rightarrow> (case collect_lifetimes f rs of Inl e \<Rightarrow> Inl e | Inr ls \<Rightarrow> Inr (l # ls)))"

definition planned_actor_lifetimes ::
  "nat \<Rightarrow> study_treatment \<Rightarrow> study_population_phase \<Rightarrow> ('o, 'a) pilot \<Rightarrow> 'e pilot_error + actor_lifetime list" where
  "planned_actor_lifetimes i t ph p =
     (let plan = pi_plan p in
      if i \<ge> length (pl_pairs plan) then Inl (PilotPairOrdinal i)
      else
        (case pair_state_at i p of
           Inl e \<Rightarrow> Inl e
         | Inr s \<Rightarrow>
             (case (case ph of
                      Source \<Rightarrow> Some exposure_source
                    | Successor \<Rightarrow> as_exposure (ps_arm t s)) of
                None \<Rightarrow> Inl (PilotChoreography InvalidArmTransition)
              | Some x \<Rightarrow>
                  collect_lifetimes
                    (\<lambda>r. case pl_prompt plan ph r x of
                            Inl e \<Rightarrow> Inl (PilotChoreography e)
                          | Inr prompt \<Rightarrow>
                              Inr \<lparr>lt_pair = i, lt_pair_id = se_pair_id (pl_pairs plan ! i), lt_treatment = t,
                                   lt_phase = ph, lt_role = r, lt_prompt = prompt\<rparr>)
                    (pl_roles plan ph))))"

definition lifetime_key :: "actor_lifetime \<Rightarrow> nat \<times> study_treatment \<times> study_population_phase \<times> nat" where
  "lifetime_key l = (lt_pair l, lt_treatment l, lt_phase l, lt_role l)"

fun run_lifetimes ::
  "('b, 'e, 'o) pilot_backend \<Rightarrow> actor_lifetime list \<Rightarrow> ('o, 'a) pilot \<times> 'b
     \<Rightarrow> ('e pilot_error + unit) \<times> ('o, 'a) pilot \<times> 'b" where
  "run_lifetimes be [] (p, b) = (Inr (), p, b)"
| "run_lifetimes be (l # ls) (p, b) =
     (if lifetime_key l \<in> pi_executed p then run_lifetimes be ls (p, b)
      else
        (case be_execute_actor_lifetime be l b of
           (Inl e, b') \<Rightarrow> (Inl (PilotBackend e), p, b')
         | (Inr _, b') \<Rightarrow>
             run_lifetimes be ls (p\<lparr>pi_executed := insert (lifetime_key l) (pi_executed p)\<rparr>, b')))"

definition execute_population ::
  "('b, 'e, 'o) pilot_backend \<Rightarrow> nat \<Rightarrow> study_treatment \<Rightarrow> study_population_phase \<Rightarrow> ('o, 'a) pilot \<times> 'b
     \<Rightarrow> ('e pilot_error + unit) \<times> ('o, 'a) pilot \<times> 'b" where
  "execute_population be i t ph = (\<lambda>(p, b).
     case running_pair i p of
       Inl e \<Rightarrow> (Inl e, p, b)
     | Inr s \<Rightarrow>
         if ph = Source \<and> ps_lifecycle t s \<noteq> ArmPlanned \<or> ph = Successor \<and> ps_lifecycle t s \<noteq> ArmCorrectionReleased
         then (Inl (PilotChoreography InvalidArmTransition), p, b)
         else
           (case planned_actor_lifetimes i t ph p of
              Inl e \<Rightarrow> (Inl e, p, b)
            | Inr ls \<Rightarrow> run_lifetimes be ls (p, b)))"

section \<open>The gates\<close>

definition pilot_freeze_source ::
  "('b, 'e, 'o) pilot_backend \<Rightarrow> nat \<Rightarrow> study_treatment \<Rightarrow> ('o, 'a) pilot \<times> 'b
     \<Rightarrow> ('e pilot_error + int) \<times> ('o, 'a) pilot \<times> 'b" where
  "pilot_freeze_source be i t = (\<lambda>(p, b).
     case running_pair i p of
       Inl e \<Rightarrow> (Inl e, p, b)
     | Inr s \<Rightarrow>
         if ps_lifecycle t s \<noteq> ArmPlanned \<or> \<not> population_complete i t Source p
         then (Inl (PilotChoreography InvalidArmTransition), p, b)
         else
           (case be_freeze_source be i t b of
              (Inl e, b') \<Rightarrow> (Inl (PilotBackend e), p, b')
            | (Inr head, b') \<Rightarrow>
                (case record_fact i (pair_source_frozen t head) p of
                   (Inl e, p') \<Rightarrow> (Inl e, p', b') | (Inr _, p') \<Rightarrow> (Inr head, p', b'))))"

definition other_treatment :: "study_treatment \<Rightarrow> study_treatment" where
  "other_treatment t = (case t of Retained \<Rightarrow> Reset | Reset \<Rightarrow> Retained)"

definition pilot_expose_successor ::
  "('b, 'e, 'o) pilot_backend \<Rightarrow> nat \<Rightarrow> study_treatment \<Rightarrow> ('o, 'a) pilot \<times> 'b
     \<Rightarrow> ('e pilot_error + forum_exposure) \<times> ('o, 'a) pilot \<times> 'b" where
  "pilot_expose_successor be i t = (\<lambda>(p, b).
     if pi_lifecycle p \<noteq> PilotRunning then (Inl (PilotInvalidLifecycle PilotRunning (pi_lifecycle p)), p, b)
     else if i \<ge> length (pl_pairs (pi_plan p)) then (Inl (PilotPairOrdinal i), p, b)
     else
       (case pair_state_at i p of
          Inl e \<Rightarrow> (Inl e, p, b)
        | Inr s \<Rightarrow>
            if ps_lifecycle t s \<noteq> ArmSourceFrozen
              \<or> ps_lifecycle (other_treatment t) s \<notin> {ArmSourceFrozen, ArmSuccessorExposed}
            then (Inl (PilotChoreography InvalidArmTransition), p, b)
            else
              (case as_head (ps_arm t s) of
                 None \<Rightarrow> (Inl (PilotChoreography InvalidArmTransition), p, b)
               | Some head \<Rightarrow>
                   (case successor_exposure t head of
                      Inl e \<Rightarrow> (Inl (PilotChoreography e), p, b)
                    | Inr x \<Rightarrow>
                        (case be_expose_successor be i t x b of
                           (Inl e, b') \<Rightarrow> (Inl (PilotBackend e), p, b')
                         | (Inr _, b') \<Rightarrow>
                             (case record_fact i (pair_successor_exposed t x) p of
                                (Inl e, p') \<Rightarrow> (Inl e, p', b') | (Inr _, p') \<Rightarrow> (Inr x, p', b')))))))"

definition pilot_release_correction ::
  "('b, 'e, 'o) pilot_backend \<Rightarrow> nat \<Rightarrow> ('o, 'a) pilot \<times> 'b \<Rightarrow> ('e pilot_error + unit) \<times> ('o, 'a) pilot \<times> 'b" where
  "pilot_release_correction be i = (\<lambda>(p, b).
     case running_pair i p of
       Inl e \<Rightarrow> (Inl e, p, b)
     | Inr s \<Rightarrow>
         if ps_lifecycle Retained s \<noteq> ArmSuccessorExposed \<or> ps_lifecycle Reset s \<noteq> ArmSuccessorExposed
         then (Inl (PilotChoreography CorrectionBarrierNotReady), p, b)
         else
           (case be_release_matched_correction be i b of
              (Inl e, b') \<Rightarrow> (Inl (PilotBackend e), p, b')
            | (Inr _, b') \<Rightarrow> (case record_fact i pair_correction_released p of (r, p') \<Rightarrow> (r, p', b'))))"

definition pilot_close_successor ::
  "('b, 'e, 'o) pilot_backend \<Rightarrow> nat \<Rightarrow> study_treatment \<Rightarrow> ('o, 'a) pilot \<times> 'b
     \<Rightarrow> ('e pilot_error + unit) \<times> ('o, 'a) pilot \<times> 'b" where
  "pilot_close_successor be i t = (\<lambda>(p, b).
     case running_pair i p of
       Inl e \<Rightarrow> (Inl e, p, b)
     | Inr s \<Rightarrow>
         if ps_lifecycle t s \<noteq> ArmCorrectionReleased \<or> \<not> population_complete i t Successor p
         then (Inl (PilotChoreography InvalidArmTransition), p, b)
         else
           (case be_close_successor be i t b of
              (Inl e, b') \<Rightarrow> (Inl (PilotBackend e), p, b')
            | (Inr _, b') \<Rightarrow> (case record_fact i (pair_successor_closed t) p of (r, p') \<Rightarrow> (r, p', b'))))"

definition pilot_complete ::
  "('b, 'e, 'o) pilot_backend \<Rightarrow> ('o, 'a) pilot \<times> 'b \<Rightarrow> ('e pilot_error + 'a) \<times> ('o, 'a) pilot \<times> 'b" where
  "pilot_complete be = (\<lambda>(p, b).
     if pi_lifecycle p \<noteq> PilotRunning then (Inl (PilotInvalidLifecycle PilotRunning (pi_lifecycle p)), p, b)
     else if \<not> list_all (\<lambda>s. ps_lifecycle Retained s = ArmSuccessorClosed \<and> ps_lifecycle Reset s = ArmSuccessorClosed)
               (pi_states p)
     then (Inl (PilotChoreography InvalidArmTransition), p, b)
     else
       (case be_complete_study_run be b of
          (Inl e, b1) \<Rightarrow> (Inl (PilotBackend e), p, b1)
        | (Inr _, b1) \<Rightarrow>
            (let p1 = p\<lparr>pi_lifecycle := PilotClosed\<rparr> in
             case be_closed_pair_observations be b1 of
               (Inl e, b2) \<Rightarrow> (Inl (PilotBackend e), p1, b2)
             | (Inr obs, b2) \<Rightarrow>
                 (case pl_analyse (pi_plan p) obs of
                    None \<Rightarrow> (Inl PilotAnalysis, p1, b2)
                  | Some a \<Rightarrow> (Inr a, p1\<lparr>pi_artifact := Some a, pi_lifecycle := PilotCompleted\<rparr>, b2)))))"

end
