(* ===== verification/Pilot_Barriers.thy ===== *)
theory Pilot_Barriers
  imports Pilot_Runner
begin

text \<open>
  What a pilot asks of its backend, whatever the backend answers: the calls that succeeded obey the
  barriers of the matched design.  A backend that records its successful calls is itself a backend, so
  the order is stated on its log.
\<close>

section \<open>The record of successful calls\<close>

datatype (plugins only: code) pilot_call =
    CallAdmit | CallRegister nat | CallStart
  | CallLive nat study_treatment study_population_phase nat
  | CallFreeze nat study_treatment int | CallExpose nat study_treatment int | CallRelease nat
  | CallClose nat study_treatment | CallComplete

definition recorded :: "('x \<Rightarrow> pilot_call) \<Rightarrow> ('b \<Rightarrow> ('e + 'x) \<times> 'b) \<Rightarrow> 'b \<times> pilot_call list
    \<Rightarrow> ('e + 'x) \<times> 'b \<times> pilot_call list" where
  "recorded call f = (\<lambda>(b, log). case f b of
     (Inl e, b') \<Rightarrow> (Inl e, b', log) | (Inr x, b') \<Rightarrow> (Inr x, b', log @ [call x]))"

definition recording :: "('b, 'e, 'o) pilot_backend \<Rightarrow> ('b \<times> pilot_call list, 'e, 'o) pilot_backend" where
  "recording be =
     \<lparr>be_admit_study_run = recorded (\<lambda>_. CallAdmit) (be_admit_study_run be),
      be_register_pair = (\<lambda>i s. recorded (\<lambda>_. CallRegister i) (be_register_pair be i s)),
      be_start_study_run = recorded (\<lambda>_. CallStart) (be_start_study_run be),
      be_execute_actor_lifetime = (\<lambda>l. recorded (\<lambda>_. CallLive (lt_pair l) (lt_treatment l) (lt_phase l) (lt_role l))
        (be_execute_actor_lifetime be l)),
      be_freeze_source = (\<lambda>i t. recorded (CallFreeze i t) (be_freeze_source be i t)),
      be_expose_successor = (\<lambda>i t x. recorded (\<lambda>_. CallExpose i t x) (be_expose_successor be i t x)),
      be_release_matched_correction = (\<lambda>i. recorded (\<lambda>_. CallRelease i) (be_release_matched_correction be i)),
      be_close_successor = (\<lambda>i t. recorded (\<lambda>_. CallClose i t) (be_close_successor be i t)),
      be_complete_study_run = recorded (\<lambda>_. CallComplete) (be_complete_study_run be),
      be_closed_pair_observations = (\<lambda>(b, log). case be_closed_pair_observations be b of (r, b') \<Rightarrow> (r, b', log))\<rparr>"

lemma recorded_Inl: "recorded call f (b, log) = (Inl e, b', log') \<Longrightarrow> log' = log"
  and recorded_Inr: "recorded call f (b, log) = (Inr x, b', log') \<Longrightarrow> log' = log @ [call x]"
  by (auto simp: recorded_def split: prod.splits sum.splits)

section \<open>The barriers\<close>

definition frozen_in :: "pilot_call set \<Rightarrow> nat \<Rightarrow> study_treatment \<Rightarrow> int \<Rightarrow> bool" where
  "frozen_in cs i t h \<longleftrightarrow> CallFreeze i t h \<in> cs \<and> 0 \<le> h"

text \<open>
  When a call may succeed, given the calls before it.  An answered frozen head below zero is refused by
  the runner and counts for nothing.
\<close>

definition allowed :: "('o, 'a) pilot_plan \<Rightarrow> pilot_call set \<Rightarrow> pilot_call \<Rightarrow> bool" where
  "allowed plan cs call = (case call of
     CallAdmit \<Rightarrow> CallStart \<notin> cs
   | CallRegister i \<Rightarrow> CallAdmit \<in> cs \<and> i < length (pl_pairs plan) \<and> CallStart \<notin> cs
   | CallStart \<Rightarrow> CallAdmit \<in> cs \<and> (\<forall>i<length (pl_pairs plan). CallRegister i \<in> cs) \<and> CallStart \<notin> cs
   | CallLive i t ph r \<Rightarrow> CallStart \<in> cs \<and> i < length (pl_pairs plan) \<and> r \<in> set (pl_roles plan ph) \<and> call \<notin> cs
       \<and> (case ph of Source \<Rightarrow> \<not> (\<exists>h. frozen_in cs i t h)
                   | Successor \<Rightarrow> CallRelease i \<in> cs \<and> CallClose i t \<notin> cs)
   | CallFreeze i t _ \<Rightarrow> (\<forall>r\<in>set (pl_source_roles plan). CallLive i t Source r \<in> cs) \<and> \<not> (\<exists>h. frozen_in cs i t h)
   | CallExpose i t x \<Rightarrow> (\<exists>h. frozen_in cs i t h \<and> x = (case t of Retained \<Rightarrow> 1 | Reset \<Rightarrow> h + 1))
       \<and> (\<exists>h. frozen_in cs i (other_treatment t) h) \<and> \<not> (\<exists>y. CallExpose i t y \<in> cs)
   | CallRelease i \<Rightarrow> (\<forall>t. \<exists>x. CallExpose i t x \<in> cs) \<and> call \<notin> cs
   | CallClose i t \<Rightarrow> CallRelease i \<in> cs \<and> (\<forall>r\<in>set (pl_successor_roles plan). CallLive i t Successor r \<in> cs) \<and> call \<notin> cs
   | CallComplete \<Rightarrow> CallStart \<in> cs \<and> (\<forall>i<length (pl_pairs plan). \<forall>t. CallClose i t \<in> cs) \<and> call \<notin> cs)"

fun in_order :: "('o, 'a) pilot_plan \<Rightarrow> pilot_call set \<Rightarrow> pilot_call list \<Rightarrow> bool" where
  "in_order plan cs [] = True"
| "in_order plan cs (c # log) \<longleftrightarrow> allowed plan cs c \<and> in_order plan (insert c cs) log"

lemma in_order_snoc: "in_order plan cs (log @ [c]) \<longleftrightarrow> in_order plan cs log \<and> allowed plan (cs \<union> set log) c"
  by (induction log arbitrary: cs) auto

section \<open>The runner's state and the log\<close>

definition arm_agrees :: "pilot_call set \<Rightarrow> nat \<Rightarrow> study_treatment \<Rightarrow> arm_state \<Rightarrow> bool" where
  "arm_agrees cs i t a \<longleftrightarrow> as_treatment a = t \<and> as_lifecycle a \<noteq> ArmInvalidated
     \<and> (\<forall>h. as_head a = Some h \<longrightarrow> frozen_in cs i t h)
     \<and> ((\<exists>h. frozen_in cs i t h) \<longrightarrow> as_lifecycle a \<noteq> ArmPlanned) \<and> (as_lifecycle a \<noteq> ArmPlanned \<longrightarrow> as_head a \<noteq> None)
     \<and> ((\<exists>x. CallExpose i t x \<in> cs)
          \<longleftrightarrow> as_lifecycle a \<in> {ArmSuccessorExposed, ArmCorrectionReleased, ArmSuccessorClosed})
     \<and> (CallRelease i \<in> cs \<longleftrightarrow> as_lifecycle a \<in> {ArmCorrectionReleased, ArmSuccessorClosed})
     \<and> (CallClose i t \<in> cs \<longleftrightarrow> as_lifecycle a = ArmSuccessorClosed)"

definition pair_agrees :: "pilot_call set \<Rightarrow> nat \<Rightarrow> pair_state \<Rightarrow> bool" where
  "pair_agrees cs i s \<longleftrightarrow> (\<forall>t. arm_agrees cs i t (ps_arm t s)) \<and> (ps_released s \<longleftrightarrow> CallRelease i \<in> cs)"

definition agrees :: "('o, 'a) pilot_plan \<Rightarrow> ('o, 'a) pilot \<Rightarrow> pilot_call set \<Rightarrow> bool" where
  "agrees plan p cs \<longleftrightarrow> pi_plan p = plan \<and> length (pi_states p) = length (pl_pairs plan)
     \<and> (pi_lifecycle p \<in> {PilotRunning, PilotClosed, PilotCompleted} \<longleftrightarrow> CallStart \<in> cs)
     \<and> (CallComplete \<in> cs \<longleftrightarrow> pi_lifecycle p \<in> {PilotClosed, PilotCompleted})
     \<and> (\<forall>i t ph r. (i, t, ph, r) \<in> pi_executed p \<longleftrightarrow> CallLive i t ph r \<in> cs)
     \<and> (\<forall>i<length (pl_pairs plan). pair_agrees cs i (pi_states p ! i))"

definition pilot_ok :: "('o, 'a) pilot_plan \<Rightarrow> ('o, 'a) pilot \<times> 'b \<times> pilot_call list \<Rightarrow> bool" where
  "pilot_ok plan = (\<lambda>(p, b, log). in_order plan {} log \<and> agrees plan p (set log))"

text \<open>A gate call of one pair leaves what is known of the other pairs.\<close>

definition gate_call :: "nat \<Rightarrow> pilot_call \<Rightarrow> bool" where
  "gate_call i c = (case c of CallFreeze j _ _ \<Rightarrow> j = i | CallExpose j _ _ \<Rightarrow> j = i | CallRelease j \<Rightarrow> j = i
     | CallClose j _ \<Rightarrow> j = i | _ \<Rightarrow> False)"

lemma pair_agrees_other:
  "gate_call i c \<Longrightarrow> j \<noteq> i \<Longrightarrow> pair_agrees (insert c cs) j s = pair_agrees cs j s"
  by (cases c) (auto simp: gate_call_def pair_agrees_def arm_agrees_def frozen_in_def)

lemma pair_agrees_plain:
  "\<not> (\<exists>i. gate_call i c) \<Longrightarrow> pair_agrees (insert c cs) j s = pair_agrees cs j s"
  by (cases c) (auto simp: gate_call_def pair_agrees_def arm_agrees_def frozen_in_def)

lemma agrees_gate:
  assumes "agrees plan p cs" "i < length (pl_pairs plan)" "gate_call i c" "pair_agrees (insert c cs) i q"
  shows "agrees plan (p\<lparr>pi_states := (pi_states p)[i := q]\<rparr>) (insert c cs)"
  using assms pair_agrees_other [OF assms(3)]
  by (auto simp: agrees_def nth_list_update gate_call_def split: pilot_call.splits)

lemma pilot_okI:
  "pilot_ok plan (p, b, log) \<Longrightarrow> allowed plan (set log) c \<Longrightarrow> agrees plan p' (insert c (set log)) \<Longrightarrow>
     pilot_ok plan (p', b', log @ [c])"
  by (simp add: pilot_ok_def in_order_snoc)

lemma running_pair_Inr:
  "running_pair i p = Inr s \<longleftrightarrow> pi_lifecycle p = PilotRunning \<and> i < length (pi_states p) \<and> s = pi_states p ! i"
  by (auto simp: running_pair_def pair_state_at_def split: if_splits)

lemma agreesD:
  assumes "agrees plan p cs"
  shows "pi_plan p = plan" "length (pi_states p) = length (pl_pairs plan)"
    and "pi_lifecycle p = PilotRunning \<Longrightarrow> CallStart \<in> cs \<and> CallComplete \<notin> cs"
    and "(i, t, ph, r) \<in> pi_executed p \<longleftrightarrow> CallLive i t ph r \<in> cs"
    and "i < length (pl_pairs plan) \<Longrightarrow> arm_agrees cs i t (ps_arm t (pi_states p ! i))"
    and "i < length (pl_pairs plan) \<Longrightarrow> ps_released (pi_states p ! i) \<longleftrightarrow> CallRelease i \<in> cs"
  using assms by (auto simp: agrees_def pair_agrees_def)

text \<open>The recording of a fact after its call.\<close>

definition fact_state :: "nat \<Rightarrow> (pair_state \<Rightarrow> choreography_error + pair_state) \<Rightarrow> ('o, 'a) pilot \<Rightarrow> ('o, 'a) pilot" where
  "fact_state i f p = (case f (pi_states p ! i) of
     Inl _ \<Rightarrow> p | Inr q \<Rightarrow> p\<lparr>pi_states := (pi_states p)[i := q]\<rparr>)"

lemma record_fact_state: "record_fact i f p = (r, p') \<Longrightarrow> i < length (pi_states p) \<Longrightarrow> p' = fact_state i f p"
  by (auto simp: record_fact_def fact_state_def split: sum.splits)

lemma record_fact_ok:
  assumes ok: "pilot_ok plan (p, b, log)" and i: "i < length (pl_pairs plan)"
    and call: "gate_call i c" "allowed plan (set log) c"
    and fact: "\<And>q. f (pi_states p ! i) = Inr q \<Longrightarrow> pair_agrees (insert c (set log)) i q"
    and refused: "\<And>e. f (pi_states p ! i) = Inl e \<Longrightarrow> pair_agrees (insert c (set log)) i (pi_states p ! i)"
  shows "pilot_ok plan (fact_state i f p, b', log @ [c])"
proof -
  have ag: "agrees plan p (set log)" using ok by (simp add: pilot_ok_def)
  have keep: "p\<lparr>pi_states := (pi_states p)[i := pi_states p ! i]\<rparr> = p" by simp
  show ?thesis
  proof (cases "f (pi_states p ! i)")
    case (Inl e)
    then show ?thesis
      using agrees_gate [OF ag i call(1) refused [OF Inl]] unfolding keep
      by (simp add: fact_state_def pilot_okI [OF ok call(2)])
  next
    case (Inr q)
    then show ?thesis
      using agrees_gate [OF ag i call(1) fact [OF Inr]] by (simp add: fact_state_def pilot_okI [OF ok call(2)])
  qed
qed

lemma all_treatments: "(\<forall>t. P t) \<longleftrightarrow> P Retained \<and> P Reset"
  by (metis study_treatment.exhaust)

lemma recordedE:
  assumes "recorded call f (b, log) = (r, b', log')"
  obtains e where "r = Inl e" "log' = log" | x where "r = Inr x" "log' = log @ [call x]"
  using assms by (auto simp: recorded_def split: prod.splits sum.splits)

lemma pilot_ok_same: "pilot_ok plan (p, b, log) \<Longrightarrow> pilot_ok plan (p, b', log)"
  by (simp add: pilot_ok_def)

text \<open>Each gate leaves the log, or extends it by its own call and records the fact.\<close>

lemma freeze_cases:
  assumes "pilot_freeze_source (recording be) i t (p, b, log) = (r, p', b', log')"
  shows "p' = p \<and> log' = log \<or> (\<exists>head. pi_lifecycle p = PilotRunning \<and> i < length (pi_states p)
    \<and> ps_lifecycle t (pi_states p ! i) = ArmPlanned \<and> population_complete i t Source p
    \<and> log' = log @ [CallFreeze i t head] \<and> p' = fact_state i (pair_source_frozen t head) p)"
  using assms
  by (auto simp: pilot_freeze_source_def recording_def running_pair_Inr split: sum.splits prod.splits if_splits
      elim!: recordedE dest!: record_fact_state)

lemma expose_cases:
  assumes "pilot_expose_successor (recording be) i t (p, b, log) = (r, p', b', log')"
  shows "p' = p \<and> log' = log \<or> (\<exists>head x. pi_lifecycle p = PilotRunning \<and> i < length (pi_states p)
    \<and> ps_lifecycle t (pi_states p ! i) = ArmSourceFrozen
    \<and> ps_lifecycle (other_treatment t) (pi_states p ! i) \<in> {ArmSourceFrozen, ArmSuccessorExposed}
    \<and> as_head (ps_arm t (pi_states p ! i)) = Some head \<and> successor_exposure t head = Inr x
    \<and> log' = log @ [CallExpose i t x] \<and> p' = fact_state i (pair_successor_exposed t x) p)"
  using assms
  by (auto simp: pilot_expose_successor_def recording_def pair_state_at_def split: sum.splits prod.splits if_splits option.splits
      elim!: recordedE dest!: record_fact_state)

lemma release_cases:
  assumes "pilot_release_correction (recording be) i (p, b, log) = (r, p', b', log')"
  shows "p' = p \<and> log' = log \<or> (pi_lifecycle p = PilotRunning \<and> i < length (pi_states p)
    \<and> (\<forall>t. ps_lifecycle t (pi_states p ! i) = ArmSuccessorExposed)
    \<and> log' = log @ [CallRelease i] \<and> p' = fact_state i pair_correction_released p)"
  using assms
  by (auto simp: pilot_release_correction_def recording_def running_pair_Inr all_treatments split: sum.splits prod.splits if_splits
      elim!: recordedE dest!: record_fact_state)

lemma close_cases:
  assumes "pilot_close_successor (recording be) i t (p, b, log) = (r, p', b', log')"
  shows "p' = p \<and> log' = log \<or> (pi_lifecycle p = PilotRunning \<and> i < length (pi_states p)
    \<and> ps_lifecycle t (pi_states p ! i) = ArmCorrectionReleased \<and> population_complete i t Successor p
    \<and> log' = log @ [CallClose i t] \<and> p' = fact_state i (pair_successor_closed t) p)"
  using assms
  by (auto simp: pilot_close_successor_def recording_def running_pair_Inr split: sum.splits prod.splits if_splits
      elim!: recordedE dest!: record_fact_state)

section \<open>Every operation keeps the order\<close>

lemma arm_agrees_other:
  assumes "c \<in> {CallFreeze i t h, CallExpose i t x, CallClose i t}" "u \<noteq> t"
  shows "arm_agrees (insert c cs) i u a = arm_agrees cs i u a"
  using assms(1) assms(2) [symmetric] by (elim insertE emptyE) (simp_all add: arm_agrees_def frozen_in_def)

lemma pair_agrees_mut:
  assumes pa: "pair_agrees cs i s" and c: "c \<in> {CallFreeze i t h, CallExpose i t x, CallClose i t}"
    and q: "arm_mut t f s = Inr q" and f: "\<And>a. f (ps_arm t s) = Inr a \<Longrightarrow> arm_agrees (insert c cs) i t a"
  shows "pair_agrees (insert c cs) i q"
proof -
  obtain a where a: "f (ps_arm t s) = Inr a" "\<And>u. ps_arm u q = (if u = t then a else ps_arm u s)" "ps_released q = ps_released s"
    using ps_arm_mut [OF q] by blast
  have "arm_agrees (insert c cs) i u (ps_arm u q)" for u
    using a(2) [of u] f [OF a(1)] pa arm_agrees_other [OF c, of u] by (cases "u = t") (auto simp: pair_agrees_def)
  then show ?thesis using pa c a(3) by (auto simp: pair_agrees_def)
qed

lemma arm_agrees_marked:
  assumes "arm_agrees cs i t a"
  shows "mark_source_frozen h a = Inr a' \<Longrightarrow> arm_agrees (insert (CallFreeze i t h) cs) i t a'"
    and "mark_successor_exposed x a = Inr a' \<Longrightarrow> arm_agrees (insert (CallExpose i t x) cs) i t a'"
    and "mark_successor_closed a = Inr a' \<Longrightarrow> arm_agrees (insert (CallClose i t) cs) i t a'"
    and "h < 0 \<Longrightarrow> arm_agrees (insert (CallFreeze i t h) cs) i t a"
  using assms
  by (auto simp: arm_agrees_def frozen_in_def mark_source_frozen_def mark_successor_exposed_def mark_successor_closed_def
      split: if_splits)

lemma pair_agrees_frozen:
  assumes pa: "pair_agrees cs i s"
  shows "pair_source_frozen t h s = Inr q \<Longrightarrow> pair_agrees (insert (CallFreeze i t h) cs) i q"
    and "h < 0 \<Longrightarrow> pair_agrees (insert (CallFreeze i t h) cs) i s"
proof -
  have arm: "arm_agrees cs i u (ps_arm u s)" for u using pa by (simp add: pair_agrees_def)
  show "pair_agrees (insert (CallFreeze i t h) cs) i q" if "pair_source_frozen t h s = Inr q"
    by (rule pair_agrees_mut [OF pa _ that [unfolded pair_source_frozen_def]]) (auto intro: arm_agrees_marked(1) [OF arm])
  show "pair_agrees (insert (CallFreeze i t h) cs) i s" if "h < 0"
    using pa that by (auto simp: pair_agrees_def arm_agrees_def frozen_in_def)
qed

lemma freeze_ok:
  assumes ok: "pilot_ok plan (p, b, log)"
    and run: "pilot_freeze_source (recording be) i t (p, b, log) = (r, p', b', log')"
  shows "pilot_ok plan (p', b', log')"
  using freeze_cases [OF run]
proof (elim disjE exE conjE)
  fix h
  assume g: "i < length (pi_states p)" "ps_lifecycle t (pi_states p ! i) = ArmPlanned" "population_complete i t Source p"
  have ag: "agrees plan p (set log)" using ok by (simp add: pilot_ok_def)
  then have i: "i < length (pl_pairs plan)" and pa: "pair_agrees (set log) i (pi_states p ! i)"
    using g(1) by (auto simp: agrees_def)
  have "allowed plan (set log) (CallFreeze i t h)"
    using g agreesD(1,4) [OF ag] agreesD(5) [OF ag i, of t]
    by (auto simp: allowed_def population_complete_def pl_roles_def list_all_iff arm_agrees_def ps_lifecycle_def)
  moreover have "h < 0" if "pair_source_frozen t h (pi_states p ! i) = Inl e" for e
    using that g(2) by (auto simp: pair_source_frozen_def arm_mut_def mark_source_frozen_def ps_lifecycle_def
        split: sum.splits if_splits)
  ultimately have "pilot_ok plan (fact_state i (pair_source_frozen t h) p, b', log @ [CallFreeze i t h])"
    using pair_agrees_frozen [OF pa] by (intro record_fact_ok [OF ok i]) (auto simp: gate_call_def)
  then show "log' = log @ [CallFreeze i t h] \<Longrightarrow> p' = fact_state i (pair_source_frozen t h) p \<Longrightarrow> pilot_ok plan (p', b', log')"
    by simp
qed (use ok in \<open>auto intro: pilot_ok_same\<close>)

lemma pair_agrees_exposed:
  assumes "pair_agrees cs i s" "pair_successor_exposed t x s = Inr q"
  shows "pair_agrees (insert (CallExpose i t x) cs) i q"
  by (rule pair_agrees_mut [OF assms(1) _ assms(2) [unfolded pair_successor_exposed_def]]) (use assms(1) in \<open>auto simp: pair_agrees_def intro: arm_agrees_marked(2)\<close>)

lemma successor_exposure_marks:
  assumes "arm_agrees cs i t (ps_arm t s)" "ps_lifecycle t s = ArmSourceFrozen" "as_head (ps_arm t s) = Some head"
    and "successor_exposure t head = Inr x"
  shows "\<exists>q. pair_successor_exposed t x s = Inr q" and "x = (case t of Retained \<Rightarrow> 1 | Reset \<Rightarrow> head + 1)"
  using assms
  by (cases t; auto simp: arm_agrees_def pair_successor_exposed_def arm_mut_def mark_successor_exposed_def
      successor_exposure_def reset_successor_exposure_def retained_successor_def exposure_source_def ps_lifecycle_def
      checked_add_i64_def split: if_splits option.splits)+

lemma expose_ok:
  assumes ok: "pilot_ok plan (p, b, log)"
    and run: "pilot_expose_successor (recording be) i t (p, b, log) = (r, p', b', log')"
  shows "pilot_ok plan (p', b', log')"
  using expose_cases [OF run]
proof (elim disjE exE conjE)
  fix head x
  assume g: "i < length (pi_states p)" "ps_lifecycle t (pi_states p ! i) = ArmSourceFrozen"
    "ps_lifecycle (other_treatment t) (pi_states p ! i) \<in> {ArmSourceFrozen, ArmSuccessorExposed}"
    "as_head (ps_arm t (pi_states p ! i)) = Some head" "successor_exposure t head = Inr x"
  have ag: "agrees plan p (set log)" using ok by (simp add: pilot_ok_def)
  then have i: "i < length (pl_pairs plan)" and pa: "pair_agrees (set log) i (pi_states p ! i)"
    using g(1) by (auto simp: agrees_def)
  note arm = agreesD(5) [OF ag i]
  note x = successor_exposure_marks [OF arm g(2,4,5)]
  have "frozen_in (set log) i t head" using arm [of t] g(4) by (simp add: arm_agrees_def)
  moreover have "\<exists>h. frozen_in (set log) i (other_treatment t) h"
    using arm [of "other_treatment t"] g(3) by (auto simp: arm_agrees_def ps_lifecycle_def)
  moreover have "\<not> (\<exists>y. CallExpose i t y \<in> set log)" using arm [of t] g(2) by (auto simp: arm_agrees_def ps_lifecycle_def)
  ultimately have "allowed plan (set log) (CallExpose i t x)" using x(2) by (auto simp: allowed_def)
  then have "pilot_ok plan (fact_state i (pair_successor_exposed t x) p, b', log @ [CallExpose i t x])"
    using pair_agrees_exposed [OF pa] x(1) by (intro record_fact_ok [OF ok i]) (auto simp: gate_call_def)
  then show "log' = log @ [CallExpose i t x] \<Longrightarrow> p' = fact_state i (pair_successor_exposed t x) p \<Longrightarrow> pilot_ok plan (p', b', log')"
    by simp
qed (use ok in \<open>auto intro: pilot_ok_same\<close>)

lemma release_ok:
  assumes ok: "pilot_ok plan (p, b, log)" and run: "pilot_release_correction (recording be) i (p, b, log) = (r, p', b', log')"
  shows "pilot_ok plan (p', b', log')"
  using release_cases [OF run]
proof (elim disjE conjE)
  assume g: "i < length (pi_states p)" "\<forall>t. ps_lifecycle t (pi_states p ! i) = ArmSuccessorExposed"
  have ag: "agrees plan p (set log)" using ok by (simp add: pilot_ok_def)
  then have i: "i < length (pl_pairs plan)" and pa: "pair_agrees (set log) i (pi_states p ! i)"
    using g(1) by (auto simp: agrees_def)
  have al: "allowed plan (set log) (CallRelease i)" and nr: "\<not> ps_released (pi_states p ! i)"
    using pa g(2) by (auto simp: allowed_def pair_agrees_def arm_agrees_def ps_lifecycle_def)
  have "pair_agrees (insert (CallRelease i) (set log)) i q" if "pair_correction_released (pi_states p ! i) = Inr q" for q
    using pair_correction_released_arms [OF that] pa g(2)
    by (auto simp: pair_agrees_def arm_agrees_def frozen_in_def ps_lifecycle_def)
  moreover have "pair_correction_released (pi_states p ! i) \<noteq> Inl e" for e
    using nr g(2) by (auto simp: pair_correction_released_def arm_mut_def release_correction_def ps_lifecycle_def ps_arm_def
        split: sum.splits if_splits study_treatment.splits)
  ultimately have "pilot_ok plan (fact_state i pair_correction_released p, b', log @ [CallRelease i])"
    using al by (intro record_fact_ok [OF ok i]) (auto simp: gate_call_def)
  then show "log' = log @ [CallRelease i] \<Longrightarrow> p' = fact_state i pair_correction_released p \<Longrightarrow> pilot_ok plan (p', b', log')"
    by simp
qed (use ok in \<open>auto intro: pilot_ok_same\<close>)

lemma close_ok:
  assumes ok: "pilot_ok plan (p, b, log)" and run: "pilot_close_successor (recording be) i t (p, b, log) = (r, p', b', log')"
  shows "pilot_ok plan (p', b', log')"
  using close_cases [OF run]
proof (elim disjE conjE)
  assume g: "i < length (pi_states p)" "ps_lifecycle t (pi_states p ! i) = ArmCorrectionReleased"
    "population_complete i t Successor p"
  have ag: "agrees plan p (set log)" using ok by (simp add: pilot_ok_def)
  then have i: "i < length (pl_pairs plan)" and pa: "pair_agrees (set log) i (pi_states p ! i)"
    using g(1) by (auto simp: agrees_def)
  have al: "allowed plan (set log) (CallClose i t)"
    using g(2,3) agreesD(1,4) [OF ag] agreesD(5) [OF ag i, of t]
    by (auto simp: allowed_def arm_agrees_def ps_lifecycle_def population_complete_def pl_roles_def list_all_iff)
  have "pair_agrees (insert (CallClose i t) (set log)) i q" if "pair_successor_closed t (pi_states p ! i) = Inr q" for q
    by (rule pair_agrees_mut [OF pa _ that [unfolded pair_successor_closed_def]]) (auto intro: arm_agrees_marked(3) [OF agreesD(5) [OF ag i]])
  moreover have "pair_successor_closed t (pi_states p ! i) \<noteq> Inl e" for e
    using g(2) by (auto simp: pair_successor_closed_def arm_mut_def mark_successor_closed_def ps_lifecycle_def)
  ultimately have "pilot_ok plan (fact_state i (pair_successor_closed t) p, b', log @ [CallClose i t])"
    using al by (intro record_fact_ok [OF ok i]) (auto simp: gate_call_def)
  then show "log' = log @ [CallClose i t] \<Longrightarrow> p' = fact_state i (pair_successor_closed t) p \<Longrightarrow> pilot_ok plan (p', b', log')"
    by simp
qed (use ok in \<open>auto intro: pilot_ok_same\<close>)

text \<open>Populations.\<close>

lemma agrees_live:
  assumes "agrees plan p cs"
  shows "agrees plan (p\<lparr>pi_executed := insert (i, t, ph, r) (pi_executed p)\<rparr>) (insert (CallLive i t ph r) cs)"
proof -
  have "pair_agrees (insert (CallLive i t ph r) cs) j s = pair_agrees cs j s" for j s
    by (rule pair_agrees_plain) (simp add: gate_call_def)
  then show ?thesis using assms by (auto simp: agrees_def)
qed

lemma run_lifetimes_ok:
  assumes "pilot_ok plan (p, b, log)" "pi_lifecycle p = PilotRunning" "i < length (pl_pairs plan)"
    and "\<forall>l\<in>set ls. lt_pair l = i \<and> lt_treatment l = t \<and> lt_phase l = ph \<and> lt_role l \<in> set (pl_roles plan ph)"
    and "ps_lifecycle t (pi_states p ! i) = (case ph of Source \<Rightarrow> ArmPlanned | Successor \<Rightarrow> ArmCorrectionReleased)"
    and "run_lifetimes (recording be) ls (p, b, log) = (r, p', b', log')"
  shows "pilot_ok plan (p', b', log')"
  using assms
proof (induction ls arbitrary: p b log)
  case (Cons l ls)
  have l: "lt_pair l = i" "lt_treatment l = t" "lt_phase l = ph" "lt_role l \<in> set (pl_roles plan ph)"
    using Cons.prems(4) by simp_all
  show ?case
  proof (cases "lifetime_key l \<in> pi_executed p")
    case True
    then show ?thesis using Cons.prems by (intro Cons.IH [of p b log]) auto
  next
    case False
    have ag: "agrees plan p (set log)" using Cons.prems(1) by (simp add: pilot_ok_def)
    have "allowed plan (set log) (CallLive i t ph (lt_role l))"
      using False l Cons.prems(2,3,5) agreesD(3,4) [OF ag] agreesD(5) [OF ag Cons.prems(3), of t]
      by (auto simp: allowed_def lifetime_key_def arm_agrees_def ps_lifecycle_def split: study_population_phase.splits)
    then have next_ok: "pilot_ok plan (p\<lparr>pi_executed := insert (lifetime_key l) (pi_executed p)\<rparr>, b1,
        log @ [CallLive i t ph (lt_role l)])" for b1
      using pilot_okI [OF Cons.prems(1) _ agrees_live [OF ag]] by (simp add: lifetime_key_def l)
    obtain q b1 log1 where q: "be_execute_actor_lifetime (recording be) l (b, log) = (q, b1, log1)"
      by (metis prod.exhaust)
    then consider e where "q = Inl e" "log1 = log" | "q = Inr ()" "log1 = log @ [CallLive i t ph (lt_role l)]"
      by (auto simp: recording_def l elim!: recordedE)
    then show ?thesis
    proof cases
      case 1
      then show ?thesis using Cons.prems(1,6) False q by (auto intro: pilot_ok_same)
    next
      case 2
      then show ?thesis
        using Cons.prems(2-6) False q
        by (intro Cons.IH [OF next_ok [of b1]]) auto
    qed
  qed
qed simp

lemma collect_lifetimes_Inr:
  "collect_lifetimes f rs = Inr ls \<Longrightarrow> l \<in> set ls \<Longrightarrow> \<exists>r\<in>set rs. f r = Inr l"
  by (induction rs arbitrary: ls) (auto split: sum.splits)

lemma population_ok:
  assumes ok: "pilot_ok plan (p, b, log)"
    and run: "execute_population (recording be) i t ph (p, b, log) = (r :: 'e pilot_error + unit, p', b', log')"
  shows "pilot_ok plan (p', b', log')"
proof -
  have ag: "agrees plan p (set log)" using ok by (simp add: pilot_ok_def)
  from run consider "p' = p" "log' = log"
    | ls where "pi_lifecycle p = PilotRunning" "i < length (pi_states p)"
        "ps_lifecycle t (pi_states p ! i) = (case ph of Source \<Rightarrow> ArmPlanned | Successor \<Rightarrow> ArmCorrectionReleased)"
        "planned_actor_lifetimes i t ph p = (Inr ls :: 'e pilot_error + _)"
        "run_lifetimes (recording be) ls (p, b, log) = (r, p', b', log')"
    by (cases ph) (auto simp: execute_population_def running_pair_Inr split: sum.splits if_splits)
  then show ?thesis
  proof cases
    case (2 ls)
    have "lt_pair l = i \<and> lt_treatment l = t \<and> lt_phase l = ph \<and> lt_role l \<in> set (pl_roles plan ph)" if "l \<in> set ls" for l
      using 2(4) agreesD(1) [OF ag] that
      by (auto simp: planned_actor_lifetimes_def Let_def dest!: collect_lifetimes_Inr
          split: if_splits sum.splits option.splits)
    then show ?thesis using 2 agreesD(2) [OF ag] by (intro run_lifetimes_ok [OF ok]) auto
  qed (use ok in \<open>auto intro: pilot_ok_same\<close>)
qed

text \<open>Sealing, starting and completing.\<close>

lemma seal_ok:
  assumes ok: "pilot_ok plan (p, b, log)" and run: "pilot_seal answer p = (r, p')"
  shows "pilot_ok plan (p', b, log)"
  using assms by (auto simp: pilot_seal_def pilot_ok_def agrees_def split: if_splits option.splits)

lemma agrees_plain:
  assumes "agrees plan p cs" "c \<in> {CallAdmit, CallRegister i}"
  shows "agrees plan p (insert c cs)"
proof -
  have "pair_agrees (insert c cs) j s = pair_agrees cs j s" for j s
    by (rule pair_agrees_plain) (use assms(2) in \<open>auto simp: gate_call_def\<close>)
  then show ?thesis using assms by (auto simp: agrees_def)
qed

lemma register_pairs_ok:
  assumes "pilot_ok plan (p, b, log)" "CallAdmit \<in> set log" "CallStart \<notin> set log" "k + length ss \<le> length (pl_pairs plan)"
    and "register_pairs (recording be) k ss (b, log) = (r, b', log')"
  shows "pilot_ok plan (p, b', log') \<and> CallAdmit \<in> set log' \<and> CallStart \<notin> set log' \<and> set log \<subseteq> set log'
    \<and> (r = Inr () \<longrightarrow> (\<forall>i. k \<le> i \<and> i < k + length ss \<longrightarrow> CallRegister i \<in> set log'))"
  using assms
proof (induction ss arbitrary: k b log)
  case (Cons s ss)
  obtain q b1 log1 where q: "be_register_pair (recording be) k s (b, log) = (q, b1, log1)" by (metis prod.exhaust)
  then consider e where "q = Inl e" "log1 = log" | "q = Inr ()" "log1 = log @ [CallRegister k]"
    by (auto simp: recording_def elim!: recordedE)
  then show ?case
  proof cases
    case 1
    then show ?thesis using Cons.prems q by (auto intro: pilot_ok_same)
  next
    case 2
    have "agrees plan p (set log)" using Cons.prems(1) by (simp add: pilot_ok_def)
    then have "agrees plan p (insert (CallRegister k) (set log))" by (rule agrees_plain) simp
    then have "pilot_ok plan (p, b1, log1)"
      using Cons.prems(2-4) 2(2) by (simp add: pilot_okI [OF Cons.prems(1)] allowed_def)
    from Cons.IH [OF this, of "Suc k"] show ?thesis
      using Cons.prems(2-5) q 2 by (auto simp: Suc_le_eq nat_less_le)
  qed
qed auto

lemma start_ok:
  assumes ok: "pilot_ok plan (p, b, log)" and run: "pilot_start (recording be) (p, b, log) = (r, p', b', log')"
  shows "pilot_ok plan (p', b', log')"
proof (cases "pi_lifecycle p = PilotSealed \<and> pi_sealed p")
  case False
  then show ?thesis using ok run by (auto simp: pilot_start_def split: if_splits)
next
  case True
  have ag: "agrees plan p (set log)" using ok by (simp add: pilot_ok_def)
  obtain q b1 log1 where q: "be_admit_study_run (recording be) (b, log) = (q, b1, log1)" by (metis prod.exhaust)
  then consider e where "q = Inl e" "log1 = log" | "q = Inr ()" "log1 = log @ [CallAdmit]"
    by (auto simp: recording_def elim!: recordedE)
  then show ?thesis
  proof cases
    case 1
    then show ?thesis using ok run True q by (auto simp: pilot_start_def intro: pilot_ok_same)
  next
    case 2
    have ns: "CallStart \<notin> set log" using ag True by (simp add: agrees_def)
    have "agrees plan p (insert CallAdmit (set log))" by (rule agrees_plain [OF ag]) simp
    then have ok1: "pilot_ok plan (p, b1, log1)" using ns 2(2) by (simp add: pilot_okI [OF ok] allowed_def)
    obtain q2 b2 log2 where q2: "register_pairs (recording be) 0 (pl_pairs plan) (b1, log1) = (q2, b2, log2)"
      by (metis prod.exhaust)
    have reg: "pilot_ok plan (p, b2, log2)" "CallAdmit \<in> set log2" "CallStart \<notin> set log2"
        "q2 = Inr () \<longrightarrow> (\<forall>i<length (pl_pairs plan). CallRegister i \<in> set log2)"
      using register_pairs_ok [OF ok1 _ _ _ q2] 2(2) ns by auto
    obtain q3 b3 log3 where q3: "be_start_study_run (recording be) (b2, log2) = (q3, b3, log3)" by (metis prod.exhaust)
    then consider e where "q3 = Inl e" "log3 = log2" | "q3 = Inr ()" "log3 = log2 @ [CallStart]"
      by (auto simp: recording_def elim!: recordedE)
    note q3c = this
    have ag2: "agrees plan p (set log2)" using reg(1) by (simp add: pilot_ok_def)
    have "agrees plan (p\<lparr>pi_lifecycle := PilotRunning\<rparr>) (insert CallStart (set log2))"
      using ag2 True pair_agrees_plain [of CallStart] by (auto simp: agrees_def gate_call_def)
    then have "q2 = Inr () \<Longrightarrow> pilot_ok plan (p\<lparr>pi_lifecycle := PilotRunning\<rparr>, b3, log2 @ [CallStart])"
      using reg by (intro pilot_okI [OF reg(1)]) (auto simp: allowed_def)
    then show ?thesis
      using q3c run True q 2(1) q2 q3 agreesD(1) [OF ag] reg(1)
      by (auto simp: pilot_start_def intro: pilot_ok_same split: sum.splits)
  qed
qed

lemma complete_cases:
  assumes run: "pilot_complete (recording be) (p, b, log) = (r, p', b', log')"
  shows "p' = p \<and> log' = log \<or> pi_lifecycle p = PilotRunning \<and> pi_lifecycle p' \<in> {PilotClosed, PilotCompleted}
    \<and> (\<forall>s\<in>set (pi_states p). \<forall>t. ps_lifecycle t s = ArmSuccessorClosed) \<and> log' = log @ [CallComplete]
    \<and> pi_plan p' = pi_plan p \<and> pi_states p' = pi_states p \<and> pi_executed p' = pi_executed p"
proof (cases "pi_lifecycle p = PilotRunning \<and> list_all (\<lambda>s. ps_lifecycle Retained s = ArmSuccessorClosed
    \<and> ps_lifecycle Reset s = ArmSuccessorClosed) (pi_states p)")
  case False
  then show ?thesis using run by (auto simp: pilot_complete_def split: if_splits)
next
  case True
  obtain q b1 log1 where q: "be_complete_study_run (recording be) (b, log) = (q, b1, log1)" by (metis prod.exhaust)
  then have c: "(\<exists>e. q = Inl e) \<and> log1 = log \<or> q = Inr () \<and> log1 = log @ [CallComplete]"
    by (auto simp: recording_def elim!: recordedE)
  obtain o' b2 where o: "be_closed_pair_observations (recording be) (b1, log1) = (o', b2, log1)"
    by (cases "be_closed_pair_observations be b1") (auto simp: recording_def)
  show ?thesis
    using run True q c o
    by (cases o') (auto simp: pilot_complete_def all_treatments list_all_iff Let_def split: option.splits)
qed

lemma complete_ok:
  assumes ok: "pilot_ok plan (p, b, log)" and run: "pilot_complete (recording be) (p, b, log) = (r, p', b', log')"
  shows "pilot_ok plan (p', b', log')"
proof -
  have ag: "agrees plan p (set log)" using ok by (simp add: pilot_ok_def)
  from complete_cases [OF run] consider "p' = p" "log' = log"
    | "pi_lifecycle p = PilotRunning" "pi_lifecycle p' \<in> {PilotClosed, PilotCompleted}"
        "\<forall>s\<in>set (pi_states p). \<forall>t. ps_lifecycle t s = ArmSuccessorClosed"
        "log' = log @ [CallComplete]" "pi_plan p' = pi_plan p" "pi_states p' = pi_states p" "pi_executed p' = pi_executed p"
    by blast
  then show ?thesis
  proof cases
    case 2
    have "CallClose i t \<in> set log" if "i < length (pl_pairs plan)" for i t
      using 2(3) that agreesD(2) [OF ag] agreesD(5) [OF ag that, of t] by (auto simp: arm_agrees_def ps_lifecycle_def)
    then have "allowed plan (set log) CallComplete" using agreesD(3) [OF ag 2(1)] by (simp add: allowed_def)
    moreover have "agrees plan p' (insert CallComplete (set log))"
      using ag 2 pair_agrees_plain [of CallComplete] by (auto simp: agrees_def gate_call_def)
    ultimately show ?thesis using 2(4) by (simp add: pilot_okI [OF ok])
  qed (use ok in \<open>auto intro: pilot_ok_same\<close>)
qed

section \<open>The order of a pilot\<close>

text \<open>Any operation of the coordinator, in any order and with any answer of the backend.\<close>

inductive pilot_step ::
  "('b, 'e, 'o) pilot_backend \<Rightarrow> ('o, 'a) pilot \<times> 'b \<Rightarrow> ('o, 'a) pilot \<times> 'b \<Rightarrow> bool" for be where
  seal: "pilot_seal answer p = (r :: 'e pilot_error + unit, p') \<Longrightarrow> pilot_step be (p, b) (p', b)"
| start: "pilot_start be st = (r, st') \<Longrightarrow> pilot_step be st st'"
| population: "execute_population be i t ph st = (r, st') \<Longrightarrow> pilot_step be st st'"
| freeze: "pilot_freeze_source be i t st = (r, st') \<Longrightarrow> pilot_step be st st'"
| expose: "pilot_expose_successor be i t st = (r, st') \<Longrightarrow> pilot_step be st st'"
| release: "pilot_release_correction be i st = (r, st') \<Longrightarrow> pilot_step be st st'"
| close: "pilot_close_successor be i t st = (r, st') \<Longrightarrow> pilot_step be st st'"
| complete: "pilot_complete be st = (r, st') \<Longrightarrow> pilot_step be st st'"

lemma pilot_step_ok: "pilot_step (recording be) st st' \<Longrightarrow> pilot_ok plan st \<Longrightarrow> pilot_ok plan st'"
proof (induction rule: pilot_step.induct)
  case (seal answer p r p' b)
  then show ?case by (cases b) (auto intro: seal_ok)
qed (metis prod.exhaust start_ok population_ok freeze_ok expose_ok release_ok close_ok complete_ok)+

lemma pilot_new_ok: "pilot_ok plan (pilot_new plan, b, [])"
  by (auto simp: pilot_ok_def agrees_def pilot_new_def pair_agrees_def arm_agrees_def frozen_in_def pair_planned_def
      arm_planned_def ps_arm_def split: study_treatment.splits)

text \<open>
  C33: the pilot obeys the barriers of the matched design.  Whatever order the coordinator's operations are
  called in and whatever the backend answers, the calls of the backend that succeeded come in an order
  the design allows: a run starts once every pair is registered; an actor lives once, a source actor
  before its arm is frozen and a successor after the correction is released and before its arm is
  closed; an arm is frozen after all its source actors; it is exposed after both arms are frozen, from
  the message its treatment prescribes; the correction is released once, after both exposures; an arm
  is closed after all its successors, and the run completed after every arm.
\<close>

theorem pilot_respects_barriers:
  assumes "(pilot_step (recording be))\<^sup>*\<^sup>* (pilot_new plan, b, []) (p, b', log)"
  shows "in_order plan {} log"
proof -
  have "pilot_ok plan (p, b', log)"
    using assms by (induction rule: rtranclp_induct) (auto intro: pilot_new_ok pilot_step_ok)
  then show ?thesis by (simp add: pilot_ok_def)
qed

text \<open>A pilot of one pair with one role per population, run to its end on a backend that accepts everything.\<close>

definition small_plan :: "(nat, nat) pilot_plan" where
  "small_plan = \<lparr>pl_pairs = [\<lparr>se_pair_id = [65], se_digest = []\<rparr>], pl_descriptor = [], pl_source_roles = [1],
     pl_successor_roles = [1], pl_prompt = (\<lambda>_ r _. Inr [of_nat r]), pl_digest = [], pl_analyse = (\<lambda>obs. Some (length obs))\<rparr>"

definition accepting :: "(unit, unit, nat) pilot_backend" where
  "accepting =
     \<lparr>be_admit_study_run = Pair (Inr ()), be_register_pair = (\<lambda>_ _. Pair (Inr ())), be_start_study_run = Pair (Inr ()),
      be_execute_actor_lifetime = (\<lambda>_. Pair (Inr ())), be_freeze_source = (\<lambda>_ _. Pair (Inr 8)),
      be_expose_successor = (\<lambda>_ _ _. Pair (Inr ())), be_release_matched_correction = (\<lambda>_. Pair (Inr ())),
      be_close_successor = (\<lambda>_ _. Pair (Inr ())), be_complete_study_run = Pair (Inr ()),
      be_closed_pair_observations = Pair (Inr [7])\<rparr>"

type_synonym small_state = "(nat, nat) pilot \<times> unit \<times> pilot_call list"

definition small_run :: "(small_state \<Rightarrow> small_state) list" where
  "small_run = (let be = recording accepting in
     [\<lambda>st. (snd (pilot_seal (Some ([], 1)) (fst st) :: (unit pilot_error + unit) \<times> _), snd st), snd \<circ> pilot_start be]
     @ [snd \<circ> execute_population be 0 Retained Source, snd \<circ> execute_population be 0 Reset Source,
        snd \<circ> pilot_freeze_source be 0 Retained, snd \<circ> pilot_freeze_source be 0 Reset,
        snd \<circ> pilot_expose_successor be 0 Reset, snd \<circ> pilot_expose_successor be 0 Retained,
        snd \<circ> pilot_release_correction be 0,
        snd \<circ> execute_population be 0 Retained Successor, snd \<circ> execute_population be 0 Reset Successor,
        snd \<circ> pilot_close_successor be 0 Retained, snd \<circ> pilot_close_successor be 0 Reset, snd \<circ> pilot_complete be])"

definition small_end :: small_state where
  "small_end = fold (\<lambda>f. f) small_run (pilot_new small_plan, (), [])"

lemma small_log:
  "snd (snd small_end) = [CallAdmit, CallRegister 0, CallStart, CallLive 0 Retained Source 1, CallLive 0 Reset Source 1,
     CallFreeze 0 Retained 8, CallFreeze 0 Reset 8, CallExpose 0 Reset 9, CallExpose 0 Retained 1, CallRelease 0,
     CallLive 0 Retained Successor 1, CallLive 0 Reset Successor 1, CallClose 0 Retained, CallClose 0 Reset, CallComplete]"
  "pi_artifact (fst small_end) = Some 1"
  by code_simp+

lemma fold_steps: "\<forall>f\<in>set fs. \<forall>st. pilot_step be st (f st) \<Longrightarrow> (pilot_step be)\<^sup>*\<^sup>* st (fold (\<lambda>f. f) fs st)"
proof (induction fs arbitrary: st)
  case (Cons f fs)
  then have "pilot_step be st (f st)" "(pilot_step be)\<^sup>*\<^sup>* (f st) (fold (\<lambda>f. f) fs (f st))"
    by (auto simp del: split_paired_All)
  then show ?case by (simp add: converse_rtranclp_into_rtranclp)
qed simp

lemmas pilot_step_snd = pilot_step.start [OF prod.collapse [symmetric]] pilot_step.population [OF prod.collapse [symmetric]]
  pilot_step.freeze [OF prod.collapse [symmetric]] pilot_step.expose [OF prod.collapse [symmetric]]
  pilot_step.release [OF prod.collapse [symmetric]] pilot_step.close [OF prod.collapse [symmetric]]
  pilot_step.complete [OF prod.collapse [symmetric]]

lemma pilot_seal_step:
  "pilot_step be (p, b) (snd (pilot_seal answer p :: ('e pilot_error + unit) \<times> _), b)" for be :: "('b, 'e, 'o) pilot_backend"
  by (rule pilot_step.seal) (rule prod.collapse [symmetric])

lemma small_steps: "(pilot_step (recording accepting))\<^sup>*\<^sup>* (pilot_new small_plan, (), []) small_end"
proof -
  have "pilot_step (recording accepting) st (f st)" if "f \<in> set small_run" for f st
    using that
    by (cases st) (auto simp: small_run_def Let_def pilot_step_snd pilot_seal_step)
  then show ?thesis unfolding small_end_def by (intro fold_steps) blast
qed

theorem pilot_respects_barriers_witness:
  "in_order small_plan {} (snd (snd small_end)) \<and> CallExpose 0 Reset 9 \<in> set (snd (snd small_end))"
proof -
  obtain p b log where e: "small_end = (p, b, log)" by (metis prod.exhaust)
  then have "in_order small_plan {} log" using pilot_respects_barriers small_steps by metis
  moreover have "CallExpose 0 Reset 9 \<in> set (snd (snd small_end))" by (simp add: small_log(1))
  ultimately show ?thesis by (simp add: e)
qed

section \<open>Schedule positions and the end of a run\<close>

text \<open>The position of a lifetime in the schedule, from which its operation label is made, determines it.\<close>

lemma low_digit_unique:
  fixes a :: nat
  assumes "a + k * b = a' + k * b'" "a < k" "a' < k"
  shows "a = a' \<and> b = b'"
proof -
  have "a = a'" using assms by (metis mod_less mod_mult_self2)
  then show ?thesis using assms by simp
qed

lemma schedule_index_inject:
  assumes "1 \<le> lt_role l" "lt_role l \<le> 8" "1 \<le> lt_role m" "lt_role m \<le> 8" "schedule_index l = schedule_index m"
  shows "lifetime_key l = lifetime_key m"
proof -
  define x y where "x = (case lt_treatment l of Retained \<Rightarrow> 0 | Reset \<Rightarrow> (1 :: nat))"
    and "y = (case lt_treatment m of Retained \<Rightarrow> 0 | Reset \<Rightarrow> (1 :: nat))"
  define v w where "v = (case lt_phase l of Source \<Rightarrow> 0 | Successor \<Rightarrow> (1 :: nat))"
    and "w = (case lt_phase m of Source \<Rightarrow> 0 | Successor \<Rightarrow> (1 :: nat))"
  have le: "x \<le> 1" "y \<le> 1" "v \<le> 1" "w \<le> 1"
    by (simp_all add: x_def y_def v_def w_def split: study_treatment.split study_population_phase.split)
  have "lt_pair l * 32 + x * 16 + v * 8 + lt_role l = lt_pair m * 32 + y * 16 + w * 8 + lt_role m"
    using assms by (simp add: schedule_index_def x_def y_def v_def w_def)
  then have "(lt_role l - 1) + 8 * (v + 2 * (x + 2 * lt_pair l)) = (lt_role m - 1) + 8 * (w + 2 * (y + 2 * lt_pair m))"
    using assms(1,3) by simp
  moreover have "lt_role l - 1 < 8" "lt_role m - 1 < 8" using assms(1-4) by simp_all
  ultimately have "lt_role l - 1 = lt_role m - 1" "v + 2 * (x + 2 * lt_pair l) = w + 2 * (y + 2 * lt_pair m)"
    using low_digit_unique [of "lt_role l - 1" 8] by blast+
  moreover from this(2) have "v = w" "x + 2 * lt_pair l = y + 2 * lt_pair m"
    using low_digit_unique [of v 2] le by fastforce+
  moreover from this(2) have "x = y" "lt_pair l = lt_pair m"
    using low_digit_unique [of x 2] le by fastforce+
  ultimately have "lt_pair l = lt_pair m \<and> x = y \<and> v = w \<and> lt_role l = lt_role m" using assms(1,3) by simp
  then show ?thesis
    by (auto simp: lifetime_key_def x_def y_def v_def w_def split: study_treatment.splits study_population_phase.splits)
qed

text \<open>
  A run that is closed but whose observations could not be read or analysed stays closed: no operation
  reads them again, so no artifact is ever produced.
\<close>

lemma closed_pilot_stays:
  "pilot_step be (p, b) (p', b') \<Longrightarrow> pi_lifecycle p = PilotClosed \<Longrightarrow> p' = p"
  by (auto simp: pilot_seal_def pilot_start_def execute_population_def pilot_freeze_source_def pilot_expose_successor_def
      pilot_release_correction_def pilot_close_successor_def pilot_complete_def running_pair_def elim!: pilot_step.cases
      split: if_splits)

end
