(* ===== verification/Wire_Protocol.thy ===== *)
theory Wire_Protocol
  imports Wire_Values
begin

text \<open>
  The codec of the resident wire protocol (\<^verbatim>\<open>societyd/src/protocol.rs\<close>): the writer and the reader of
  each compound value, of the two request vocabularies and of the responses.
\<close>

abbreviation PROTOCOL_VERSION :: int where
  "PROTOCOL_VERSION \<equiv> 8"

abbreviation identifier_reading :: "int reading" where
  "identifier_reading \<equiv> admitted positive_ok cursor_i64"

abbreviation text_reading :: "nat \<Rightarrow> byte list reading" where
  "text_reading n \<equiv> admitted (bounded_text n) (cursor_string n)"

section \<open>Receipts and generations\<close>

definition encode_expected_generation :: "int option \<Rightarrow> byte list" where
  "encode_expected_generation g = (case g of None \<Rightarrow> wire_u8 0 | Some v \<Rightarrow> wire_u8 1 @ wire_i64 v)"

definition decode_expected_generation :: "int option reading" where
  "decode_expected_generation = and_then cursor_u8 (\<lambda>k.
     if k = 0 then yielding None
     else if k = 1 then and_then (admitted nonnegative_ok cursor_i64) (\<lambda>v. yielding (Some v))
     else failing InvalidValue)"

primrec encode_receipt :: "command_receipt_view \<Rightarrow> byte list" where
  "encode_receipt (AcceptedView event idem) = wire_u8 1 @ wire_i64 event @ wire_bool idem"
| "encode_receipt (RejectedView x idem) = wire_u8 2 @ [rejection_as_u8 x] @ wire_bool idem"

definition decode_receipt :: "command_receipt_view reading" where
  "decode_receipt = and_then cursor_u8 (\<lambda>k.
     if k = 1 then and_then identifier_reading (\<lambda>event. and_then cursor_bool (\<lambda>idem.
       yielding (AcceptedView event idem)))
     else if k = 2 then and_then (decoded rejection_from_u8 cursor_u8) (\<lambda>x. and_then cursor_bool (\<lambda>idem.
       yielding (RejectedView x idem)))
     else failing InvalidValue)"

section \<open>Study observations\<close>

definition encode_study_measurement_observation :: "study_measurement_observation \<Rightarrow> byte list" where
  "encode_study_measurement_observation m =
     wire_u8 (om_slot m) @ wire_u8 (measurement_status_code (om_status m))
     @ wire_optional wire_i64 (om_value m) @ wire_optional wire_digest (om_value_digest m)
     @ wire_optional wire_digest (om_reason_digest m)"

definition decode_study_measurement_observation :: "study_measurement_observation reading" where
  "decode_study_measurement_observation =
     and_then (admitted ordinal64_ok cursor_u8) (\<lambda>slot.
     and_then (decoded study_measurement_status_from_u8 cursor_u8) (\<lambda>status.
     and_then (cursor_optional cursor_i64) (\<lambda>v.
     and_then (cursor_optional cursor_digest) (\<lambda>vd.
     and_then (cursor_optional cursor_digest) (\<lambda>rd.
       yielding \<lparr>om_slot = slot, om_status = status, om_value = v, om_value_digest = vd, om_reason_digest = rd\<rparr>)))))"

text \<open>The fixed part of an episode observation, up to the number of its measurements.\<close>

definition episode_columns :: "study_episode_observation \<Rightarrow> byte list" where
  "episode_columns e =
     wire_i64 (oe_episode e) @ wire_i64 (oe_protocol e) @ wire_i64 (oe_world e) @ wire_i64 (oe_measurement e)
     @ wire_u8 (oe_slot_count e) @ wire_i64 (oe_institution e) @ wire_i64 (oe_source_population e)
     @ wire_optional wire_i64 (oe_successor_population e) @ wire_digest (oe_randomization e)
     @ wire_u8 (treatment_code (oe_treatment e)) @ wire_u8 (episode_state_code (oe_state e))
     @ wire_i64 (oe_source_obligations e) @ wire_i64 (oe_source_terminal e)
     @ wire_i64 (oe_successor_obligations e) @ wire_i64 (oe_successor_terminal e) @ wire_i64 (oe_failed e)
     @ wire_i64 (oe_bindings e) @ wire_i64 (oe_reconciled_bindings e)
     @ wire_optional wire_i64 (oe_frozen_head e) @ wire_i64 (oe_messages e) @ wire_i64 (oe_reads e)
     @ wire_i64 (oe_returned_bytes e) @ wire_i64 (oe_decisions e) @ wire_optional wire_digest (oe_reveal e)"

definition encode_study_episode_observation :: "study_episode_observation \<Rightarrow> wire_error + byte list" where
  "encode_study_episode_observation e =
     (if length (oe_measurements e) > 255 then Inl InvalidValue
      else Inr (episode_columns e @ wire_u8 (int (length (oe_measurements e)))
                @ concat (map encode_study_measurement_observation (oe_measurements e))))"

definition decode_episode_columns :: "study_episode_observation reading" where
  "decode_episode_columns =
     and_then identifier_reading (\<lambda>episode. and_then identifier_reading (\<lambda>protocol.
     and_then identifier_reading (\<lambda>world. and_then identifier_reading (\<lambda>measurement.
     and_then (admitted ordinal64_ok cursor_u8) (\<lambda>slots.
     and_then identifier_reading (\<lambda>institution. and_then identifier_reading (\<lambda>source.
     and_then (admitted (optional_ok positive_ok) (cursor_optional cursor_i64)) (\<lambda>successor.
     and_then cursor_digest (\<lambda>randomization.
     and_then (decoded study_treatment_from_u8 cursor_u8) (\<lambda>treatment.
     and_then (decoded study_episode_state_from_u8 cursor_u8) (\<lambda>state.
     and_then cursor_i64 (\<lambda>so. and_then cursor_i64 (\<lambda>st. and_then cursor_i64 (\<lambda>co. and_then cursor_i64 (\<lambda>ct.
     and_then cursor_i64 (\<lambda>failed. and_then cursor_i64 (\<lambda>bindings. and_then cursor_i64 (\<lambda>reconciled.
     and_then (cursor_optional cursor_i64) (\<lambda>frozen.
     and_then cursor_i64 (\<lambda>messages. and_then cursor_i64 (\<lambda>reads. and_then cursor_i64 (\<lambda>returned.
     and_then cursor_i64 (\<lambda>decisions. and_then (cursor_optional cursor_digest) (\<lambda>reveal.
       yielding \<lparr>oe_episode = episode, oe_protocol = protocol, oe_world = world, oe_measurement = measurement,
         oe_slot_count = slots, oe_institution = institution, oe_source_population = source,
         oe_successor_population = successor, oe_randomization = randomization, oe_treatment = treatment,
         oe_state = state, oe_source_obligations = so, oe_source_terminal = st, oe_successor_obligations = co,
         oe_successor_terminal = ct, oe_failed = failed, oe_bindings = bindings, oe_reconciled_bindings = reconciled,
         oe_frozen_head = frozen, oe_messages = messages, oe_reads = reads, oe_returned_bytes = returned,
         oe_decisions = decisions, oe_reveal = reveal, oe_measurements = []\<rparr>))))))))))))))))))))))))"

definition decode_study_episode_observation :: "study_episode_observation reading" where
  "decode_study_episode_observation =
     and_then decode_episode_columns (\<lambda>e.
     and_then cursor_u8 (\<lambda>n.
       if n > oe_slot_count e then failing InvalidValue
       else and_then (repeated (nat n) decode_study_measurement_observation) (\<lambda>ms.
         yielding (e\<lparr>oe_measurements := ms\<rparr>))))"

definition encode_study_pair_observation :: "study_pair_observation \<Rightarrow> wire_error + byte list" where
  "encode_study_pair_observation p =
     (case encode_study_episode_observation (op_retained p) of
        Inl x \<Rightarrow> Inl x
      | Inr retained \<Rightarrow>
          (case encode_study_episode_observation (op_reset p) of
             Inl x \<Rightarrow> Inl x
           | Inr reset \<Rightarrow> Inr (wire_i64 (op_pair p) @ retained @ reset)))"

definition decode_study_pair_observation :: "study_pair_observation reading" where
  "decode_study_pair_observation =
     and_then identifier_reading (\<lambda>pair.
     and_then decode_study_episode_observation (\<lambda>retained.
     and_then decode_study_episode_observation (\<lambda>reset.
       yielding \<lparr>op_pair = pair, op_retained = retained, op_reset = reset\<rparr>)))"

definition encode_study_run_summary :: "study_run_summary \<Rightarrow> byte list" where
  "encode_study_run_summary r =
     wire_i64 (sr_run r) @ wire_i64 (sr_protocol r) @ wire_i64 (sr_plan_object r) @ wire_digest (sr_plan_digest r)
     @ wire_u16 (sr_pairs r) @ wire_u16 (sr_registered r) @ wire_u8 (run_lifecycle_code (sr_state r))"

definition decode_study_run_summary :: "study_run_summary reading" where
  "decode_study_run_summary =
     and_then identifier_reading (\<lambda>run. and_then identifier_reading (\<lambda>protocol.
     and_then identifier_reading (\<lambda>object. and_then cursor_digest (\<lambda>digest.
     and_then (admitted pair_ordinal_ok cursor_u16) (\<lambda>pairs.
     and_then (admitted registered_pair_count_ok cursor_u16) (\<lambda>registered.
     and_then (decoded study_run_lifecycle_state_from_u8 cursor_u8) (\<lambda>state.
       yielding \<lparr>sr_run = run, sr_protocol = protocol, sr_plan_object = object, sr_plan_digest = digest,
         sr_pairs = pairs, sr_registered = registered, sr_state = state\<rparr>)))))))"

definition encode_study_run_pair_registration :: "study_run_pair_registration \<Rightarrow> byte list" where
  "encode_study_run_pair_registration g =
     wire_u16 (rg_ordinal g) @ wire_i64 (rg_pair g) @ wire_digest (rg_randomization g)"

definition decode_study_run_pair_registration :: "study_run_pair_registration reading" where
  "decode_study_run_pair_registration =
     and_then (admitted pair_ordinal_ok cursor_u16) (\<lambda>n. and_then identifier_reading (\<lambda>pair.
     and_then cursor_digest (\<lambda>d. yielding \<lparr>rg_ordinal = n, rg_pair = pair, rg_randomization = d\<rparr>)))"

section \<open>Commands\<close>

definition encode_mission_principle :: "mission_principle \<Rightarrow> byte list" where
  "encode_mission_principle p = wire_u8 (principle_kind_byte (mp_kind p)) @ wire_string (mp_text p)"

definition decode_mission_principle :: "mission_principle reading" where
  "decode_mission_principle =
     and_then (decoded mission_principle_kind_from_u8 cursor_u8) (\<lambda>k.
     and_then (text_reading 4096) (\<lambda>t. yielding \<lparr>mp_kind = k, mp_text = t\<rparr>))"

definition encode_application_mission_input :: "application_mission_input \<Rightarrow> byte list" where
  "encode_application_mission_input m =
     wire_string (am_identity m) @ wire_string (am_name m) @ wire_i64 (am_revision m) @ wire_string (am_statement m)
     @ wire_u8 (int (length (am_principles m))) @ concat (map encode_mission_principle (am_principles m))
     @ wire_string (am_change m) @ wire_string (am_improvement m) @ wire_string (am_boundary m)
     @ wire_string (am_revisit m) @ wire_digest (am_source m)"

definition decode_application_mission_input :: "application_mission_input reading" where
  "decode_application_mission_input =
     and_then (admitted application_identity_parse (cursor_string 128)) (\<lambda>identity.
     and_then (text_reading 160) (\<lambda>name. and_then identifier_reading (\<lambda>revision.
     and_then (text_reading 4096) (\<lambda>statement. and_then cursor_u8 (\<lambda>n.
       if n = 0 \<or> n > int MAX_PRINCIPLES then failing InvalidValue
       else and_then (repeated (nat n) decode_mission_principle) (\<lambda>principles.
     and_then (text_reading 4096) (\<lambda>change. and_then (text_reading 4096) (\<lambda>improvement.
     and_then (text_reading 4096) (\<lambda>boundary. and_then (text_reading 4096) (\<lambda>revisit.
     and_then cursor_digest (\<lambda>source.
       yielding \<lparr>am_identity = identity, am_name = name, am_revision = revision, am_statement = statement,
         am_principles = principles, am_change = change, am_improvement = improvement, am_boundary = boundary,
         am_revisit = revisit, am_source = source\<rparr>)))))))))))"

primrec client_body_bytes :: "client_command_body \<Rightarrow> byte list" where
  "client_body_bytes (CreateSocietyIdentity name) = wire_string name"
| "client_body_bytes InstallRootAuthorityOffice = []"
| "client_body_bytes (InstallFoundingMission m rendering) =
     encode_application_mission_input m @ wire_string rendering"
| "client_body_bytes (AppointInitialRootAuthority name) = wire_string name"
| "client_body_bytes (SetR0HardCeiling ceiling) = wire_i64 ceiling"
| "client_body_bytes BootstrapSociety = []"
| "client_body_bytes (ProposeOperatingCycle t budget) = wire_u8 (treatment_byte t) @ wire_i64 budget"
| "client_body_bytes (AdmitOperatingCycle c) = wire_i64 c"
| "client_body_bytes (StartRootAuthorityOfficeSession c) = wire_i64 c"
| "client_body_bytes (OpenOfficeTurn session p) = wire_i64 session @ wire_u8 (turn_purpose_byte p)"
| "client_body_bytes (QuiesceOperatingCycle c) = wire_i64 c"
| "client_body_bytes (ResumeOperatingCycle c) = wire_i64 c"
| "client_body_bytes (ReconcileOperatingCycle c) = wire_i64 c"
| "client_body_bytes (CloseOperatingCycle c) = wire_i64 c"
| "client_body_bytes (ReserveBudget c amount) = wire_i64 c @ wire_i64 amount"
| "client_body_bytes (RequestCancellation c m) = wire_i64 c @ wire_u8 (cancellation_mode_byte m)"
| "client_body_bytes (CloseCostPostmortem p res) = wire_i64 p @ wire_u8 (postmortem_resolution_byte res)"

definition decode_client_command_body :: "int \<Rightarrow> client_command_body reading" where
  "decode_client_command_body k =
     (if k = 1 then and_then (text_reading 160) (\<lambda>n. yielding (CreateSocietyIdentity n))
      else if k = 2 then yielding InstallRootAuthorityOffice
      else if k = 3 then and_then decode_application_mission_input (\<lambda>m.
        and_then (admitted mission_source_rendering_parse (cursor_bytes MAX_RENDERING)) (\<lambda>b.
          yielding (InstallFoundingMission m b)))
      else if k = 4 then and_then (text_reading 160) (\<lambda>n. yielding (AppointInitialRootAuthority n))
      else if k = 5 then and_then (admitted nonnegative_ok cursor_i64) (\<lambda>v. yielding (SetR0HardCeiling v))
      else if k = 6 then yielding BootstrapSociety
      else if k = 7 then and_then (decoded operating_cycle_treatment_from_u8 cursor_u8) (\<lambda>t.
        and_then (admitted nonnegative_ok cursor_i64) (\<lambda>v. yielding (ProposeOperatingCycle t v)))
      else if k = 8 then and_then identifier_reading (\<lambda>c. yielding (AdmitOperatingCycle c))
      else if k = 9 then and_then identifier_reading (\<lambda>c. yielding (StartRootAuthorityOfficeSession c))
      else if k = 11 then and_then identifier_reading (\<lambda>s.
        and_then (decoded office_turn_purpose_from_u8 cursor_u8) (\<lambda>p. yielding (OpenOfficeTurn s p)))
      else if k = 13 then and_then identifier_reading (\<lambda>c. yielding (QuiesceOperatingCycle c))
      else if k = 15 then and_then identifier_reading (\<lambda>c. yielding (ResumeOperatingCycle c))
      else if k = 16 then and_then identifier_reading (\<lambda>c. yielding (ReconcileOperatingCycle c))
      else if k = 17 then and_then identifier_reading (\<lambda>c. yielding (CloseOperatingCycle c))
      else if k = 18 then and_then identifier_reading (\<lambda>c.
        and_then (admitted nonnegative_ok cursor_i64) (\<lambda>v. yielding (ReserveBudget c v)))
      else if k = 20 then and_then identifier_reading (\<lambda>c.
        and_then (decoded cancellation_mode_from_u8 cursor_u8) (\<lambda>m. yielding (RequestCancellation c m)))
      else if k = 23 then and_then identifier_reading (\<lambda>p.
        and_then (decoded cost_postmortem_resolution_from_u8 cursor_u8) (\<lambda>r. yielding (CloseCostPostmortem p r)))
      else failing UnknownTag)"

definition command_request_bytes :: "client_command_request \<Rightarrow> byte list" where
  "command_request_bytes r =
     wire_string (cr_id r) @ wire_i64 (cr_principal r) @ wire_i64 (cr_grant r) @ wire_u8 (cr_capability r)
     @ encode_expected_generation (cr_generation r) @ wire_u8 (client_command_tag (cr_body r))
     @ client_body_bytes (cr_body r)"

definition encode_command_request :: "client_command_request \<Rightarrow> wire_error + byte list" where
  "encode_command_request r =
     (if \<not> supervisor_capability_is_representable (cr_capability r)
         \<or> cr_capability r \<noteq> client_required_capability (cr_body r) then Inl InvalidValue
      else Inr (command_request_bytes r))"

definition decode_command_request :: "client_command_request reading" where
  "decode_command_request =
     and_then (admitted command_id_ok (cursor_string 128)) (\<lambda>i.
     and_then identifier_reading (\<lambda>principal. and_then identifier_reading (\<lambda>grant.
     and_then (decoded capability_from_u8 cursor_u8) (\<lambda>cap. and_then decode_expected_generation (\<lambda>g.
     and_then cursor_u8 (\<lambda>k. and_then (decode_client_command_body k) (\<lambda>body.
       yielding \<lparr>cr_id = i, cr_principal = principal, cr_grant = grant, cr_capability = cap, cr_generation = g,
         cr_body = body\<rparr>)))))))"

section \<open>Messages\<close>

text \<open>Version, tag and correlation, which open every payload.\<close>

definition message_head :: "int \<Rightarrow> int \<Rightarrow> byte list" where
  "message_head tag correlation = wire_u16 PROTOCOL_VERSION @ wire_u8 tag @ wire_correlation correlation"

text \<open>
  What the three readers share: the frame, the version check, the tag and the correlation, the body of
  the tag, and the check that nothing is left in the frame.
\<close>

definition message_reading :: "(int \<Rightarrow> int \<Rightarrow> 'a reading) \<Rightarrow> 'a reading" where
  "message_reading body =
     and_then cursor_u16 (\<lambda>version.
       if version \<noteq> PROTOCOL_VERSION then failing UnsupportedVersion
       else and_then cursor_u8 (\<lambda>tag. and_then cursor_correlation (\<lambda>correlation.
         and_then (body tag correlation) (\<lambda>x. and_then cursor_finish (\<lambda>_. yielding x)))))"

definition read_message :: "(int \<Rightarrow> int \<Rightarrow> 'a reading) \<Rightarrow> 'a reading" where
  "read_message body s =
     (case read_frame s of
        Inl e \<Rightarrow> Inl e
      | Inr (frame, rest) \<Rightarrow>
          (case message_reading body frame of Inl e \<Rightarrow> Inl e | Inr (x, _) \<Rightarrow> Inr (x, rest)))"

primrec public_request_payload :: "public_request \<Rightarrow> byte list" where
  "public_request_payload (PublicCommandReceipt c i) = message_head 0x21 c @ wire_string i"
| "public_request_payload (PublicStatus c) = message_head 0x22 c"
| "public_request_payload (PublicStudyPairObservation c pair) = message_head 0x23 c @ wire_i64 pair"
| "public_request_payload (PublicStudyRunObservation c run) = message_head 0x24 c @ wire_i64 run"
| "public_request_payload (PublicStudyRunPairRegistration c run n) =
     message_head 0x25 c @ wire_i64 run @ wire_u16 n"

definition write_public_request :: "public_request \<Rightarrow> wire_error + byte list" where
  "write_public_request r = write_frame (public_request_payload r)"

definition public_request_body :: "int \<Rightarrow> int \<Rightarrow> public_request reading" where
  "public_request_body tag c =
     (if tag = 0x21 then and_then (admitted command_id_ok (cursor_string 128)) (\<lambda>i.
        yielding (PublicCommandReceipt c i))
      else if tag = 0x22 then yielding (PublicStatus c)
      else if tag = 0x23 then and_then identifier_reading (\<lambda>p. yielding (PublicStudyPairObservation c p))
      else if tag = 0x24 then and_then identifier_reading (\<lambda>r. yielding (PublicStudyRunObservation c r))
      else if tag = 0x25 then and_then identifier_reading (\<lambda>r. and_then (admitted pair_ordinal_ok cursor_u16) (\<lambda>n.
        yielding (PublicStudyRunPairRegistration c r n)))
      else failing UnknownTag)"

definition read_public_request :: "public_request reading" where
  "read_public_request = read_message public_request_body"

primrec supervisor_request_payload :: "supervisor_request \<Rightarrow> wire_error + byte list" where
  "supervisor_request_payload (SupervisorExecute c r) =
     (case encode_command_request r of Inl e \<Rightarrow> Inl e | Inr b \<Rightarrow> Inr (message_head 0x41 c @ b))"
| "supervisor_request_payload (SupervisorCommandReceipt c i) = Inr (message_head 0x42 c @ wire_string i)"
| "supervisor_request_payload (SupervisorStatus c) = Inr (message_head 0x43 c)"
| "supervisor_request_payload (SupervisorActiveCapabilityGrant c p cap) =
     (if \<not> supervisor_capability_is_representable cap then Inl InvalidValue
      else Inr (message_head 0x44 c @ wire_i64 p @ wire_u8 cap))"

definition write_supervisor_request :: "supervisor_request \<Rightarrow> wire_error + byte list" where
  "write_supervisor_request r =
     (case supervisor_request_payload r of Inl e \<Rightarrow> Inl e | Inr payload \<Rightarrow> write_frame payload)"

definition supervisor_request_body :: "int \<Rightarrow> int \<Rightarrow> supervisor_request reading" where
  "supervisor_request_body tag c =
     (if tag = 0x41 then and_then decode_command_request (\<lambda>r. yielding (SupervisorExecute c r))
      else if tag = 0x42 then and_then (admitted command_id_ok (cursor_string 128)) (\<lambda>i.
        yielding (SupervisorCommandReceipt c i))
      else if tag = 0x43 then yielding (SupervisorStatus c)
      else if tag = 0x44 then and_then identifier_reading (\<lambda>p.
        and_then (decoded capability_from_u8 cursor_u8) (\<lambda>cap. yielding (SupervisorActiveCapabilityGrant c p cap)))
      else failing UnknownTag)"

definition read_supervisor_request :: "supervisor_request reading" where
  "read_supervisor_request = read_message supervisor_request_body"

primrec status_bytes :: "daemon_status \<Rightarrow> byte list" where
  "status_bytes (FreshServing n) = wire_u8 1 @ wire_i64 n"
| "status_bytes (RecoveryFenced n) = wire_u8 2 @ wire_i64 n"

primrec response_payload :: "response \<Rightarrow> wire_error + byte list" where
  "response_payload (ResponseCommandReceipt c v) = Inr (message_head 1 c @ encode_receipt v)"
| "response_payload (ResponseCommandReceiptLookup c v) = Inr (message_head 2 c @ wire_optional encode_receipt v)"
| "response_payload (ResponseStatus c v) = Inr (message_head 3 c @ status_bytes v)"
| "response_payload (ResponseStudyPairObservation c v) =
     (case v of
        None \<Rightarrow> Inr (message_head 6 c @ wire_bool False)
      | Some p \<Rightarrow>
          (case encode_study_pair_observation p of
             Inl e \<Rightarrow> Inl e
           | Inr b \<Rightarrow> Inr (message_head 6 c @ wire_bool True @ b)))"
| "response_payload (ResponseStudyRunSummary c v) = Inr (message_head 7 c @ wire_optional encode_study_run_summary v)"
| "response_payload (ResponseStudyRunPairRegistration c v) =
     Inr (message_head 8 c @ wire_optional encode_study_run_pair_registration v)"
| "response_payload (ResponseActiveCapabilityGrant c v) = Inr (message_head 5 c @ wire_optional wire_i64 v)"
| "response_payload (ResponseError c v) = Inr (message_head 4 c @ wire_u8 (protocol_error_byte v))"

definition write_response :: "response \<Rightarrow> wire_error + byte list" where
  "write_response r = (case response_payload r of Inl e \<Rightarrow> Inl e | Inr payload \<Rightarrow> write_frame payload)"

definition response_body :: "int \<Rightarrow> int \<Rightarrow> response reading" where
  "response_body tag c =
     (if tag = 1 then and_then decode_receipt (\<lambda>v. yielding (ResponseCommandReceipt c v))
      else if tag = 2 then and_then (cursor_optional decode_receipt) (\<lambda>v.
        yielding (ResponseCommandReceiptLookup c v))
      else if tag = 3 then and_then cursor_u8 (\<lambda>k. and_then cursor_i64 (\<lambda>n.
        if k = 1 then yielding (ResponseStatus c (FreshServing n))
        else if k = 2 then yielding (ResponseStatus c (RecoveryFenced n)) else failing InvalidValue))
      else if tag = 4 then and_then (decoded protocol_error_from_u8 cursor_u8) (\<lambda>v. yielding (ResponseError c v))
      else if tag = 5 then and_then (cursor_optional identifier_reading) (\<lambda>v.
        yielding (ResponseActiveCapabilityGrant c v))
      else if tag = 6 then and_then (cursor_optional decode_study_pair_observation) (\<lambda>v.
        yielding (ResponseStudyPairObservation c v))
      else if tag = 7 then and_then (cursor_optional decode_study_run_summary) (\<lambda>v.
        yielding (ResponseStudyRunSummary c v))
      else if tag = 8 then and_then (cursor_optional decode_study_run_pair_registration) (\<lambda>v.
        yielding (ResponseStudyRunPairRegistration c v))
      else failing UnknownTag)"

definition read_response :: "response reading" where
  "read_response = read_message response_body"

end
