(* ===== verification/Wire_Laws.thy ===== *)
theory Wire_Laws
  imports Wire_Protocol
begin

text \<open>
  The codec is exact: each reader accepts the bytes its writer produces for the values the Rust types
  admit, and no others.  Every compound codec is an interpretation of \<open>wire_code\<close>.
\<close>

section \<open>Fields\<close>

lemma code_bytes [simp]:
  "u8_ok (treatment_byte t)" "u8_ok (principle_kind_byte k)" "u8_ok (turn_purpose_byte p)"
  "u8_ok (cancellation_mode_byte m)" "u8_ok (postmortem_resolution_byte r)" "u8_ok (protocol_error_byte e)"
  "u8_ok (treatment_code st)" "u8_ok (episode_state_code es)" "u8_ok (measurement_status_code ms)"
  "u8_ok (run_lifecycle_code rl)" "u8_ok (client_command_tag body)"
  subgoal by (cases t) (simp_all add: u8_ok_def)
  subgoal by (cases k) (simp_all add: u8_ok_def)
  subgoal by (cases p) (simp_all add: u8_ok_def)
  subgoal by (cases m) (simp_all add: u8_ok_def)
  subgoal by (cases r) (simp_all add: u8_ok_def)
  subgoal by (cases e) (simp_all add: u8_ok_def)
  subgoal by (cases st) (simp_all add: u8_ok_def)
  subgoal by (cases es) (simp_all add: u8_ok_def)
  subgoal by (cases ms) (simp_all add: u8_ok_def)
  subgoal by (cases rl) (simp_all add: u8_ok_def)
  subgoal by (cases body) (simp_all add: u8_ok_def)
  done

lemma closed_codes:
  "mission_principle_kind_from_u8 v = Inr k \<longleftrightarrow> v = principle_kind_byte k"
  "office_turn_purpose_from_u8 v = Inr p \<longleftrightarrow> v = turn_purpose_byte p"
  "cancellation_mode_from_u8 v = Inr m \<longleftrightarrow> v = cancellation_mode_byte m"
  "cost_postmortem_resolution_from_u8 v = Inr r \<longleftrightarrow> v = postmortem_resolution_byte r"
  "protocol_error_from_u8 v = Inr e \<longleftrightarrow> v = protocol_error_byte e"
  "study_treatment_from_u8 v = Inr st \<longleftrightarrow> v = treatment_code st"
  "study_episode_state_from_u8 v = Inr es \<longleftrightarrow> v = episode_state_code es"
  "study_measurement_status_from_u8 v = Inr ms \<longleftrightarrow> v = measurement_status_code ms"
  "study_run_lifecycle_state_from_u8 v = Inr rl \<longleftrightarrow> v = run_lifecycle_code rl"
  subgoal by (cases k; simp add: mission_principle_kind_from_u8_def)
  subgoal by (cases p; simp add: office_turn_purpose_from_u8_def)
  subgoal by (cases m; simp add: cancellation_mode_from_u8_def)
  subgoal by (cases r; simp add: cost_postmortem_resolution_from_u8_def)
  subgoal by (cases e; simp add: protocol_error_from_u8_def)
  subgoal by (cases st; simp add: study_treatment_from_u8_def)
  subgoal by (cases es; simp add: study_episode_state_from_u8_def)
  subgoal by (cases ms; simp add: study_measurement_status_from_u8_def)
  subgoal by (cases rl; simp add: study_run_lifecycle_state_from_u8_def)
  done

lemma rejection_from_u8_iff:
  assumes "u8_ok v"
  shows "rejection_from_u8 v = Inr x \<longleftrightarrow> v = rejection_as_i64 x"
proof -
  have "uint (word_of_int v :: byte) = v" using assms by (simp add: u8_ok_def uint_word_of_int)
  then show ?thesis
    using rejection_try_from_as_i64 rejection_try_from_Some
    by (auto simp: rejection_from_u8_def rejection_try_from_u8_def split: option.splits)
qed

lemmas enum_exact [wire_exact] =
  w_u8.decoded_exact [OF closed_codes(1) code_bytes(2)] w_u8.decoded_exact [OF closed_codes(2) code_bytes(3)]
  w_u8.decoded_exact [OF closed_codes(3) code_bytes(4)] w_u8.decoded_exact [OF closed_codes(4) code_bytes(5)]
  w_u8.decoded_exact [OF closed_codes(5) code_bytes(6)] w_u8.decoded_exact [OF closed_codes(6) code_bytes(7)]
  w_u8.decoded_exact [OF closed_codes(7) code_bytes(8)] w_u8.decoded_exact [OF closed_codes(8) code_bytes(9)]
  w_u8.decoded_exact [OF closed_codes(9) code_bytes(10)]

lemma rejection_exact [wire_exact]:
  "decoded rejection_from_u8 cursor_u8 s = Inr (x, r) \<longleftrightarrow> s = rejection_as_u8 x # r"
proof -
  have "u8_ok (rejection_as_i64 x)" using rejection_code_bounds [of x] by (simp add: u8_ok_def)
  then show ?thesis using rejection_from_u8_iff
    by (auto simp: w_u8.decoded_Inr wire_u8_def rejection_as_u8_def)
qed

lemma treatment_from_u8_iff:
  "operating_cycle_treatment_from_u8 v = Inr t \<longleftrightarrow> v = treatment_byte t \<and> t \<noteq> DeterministicEvaluatorFixtureV1"
  by (cases t) (simp_all add: operating_cycle_treatment_from_u8_def)

lemma treatment_exact [wire_exact]:
  "decoded operating_cycle_treatment_from_u8 cursor_u8 s = Inr (t, r) \<longleftrightarrow>
     t \<noteq> DeterministicEvaluatorFixtureV1 \<and> s = wire_u8 (treatment_byte t) @ r"
  by (auto simp: w_u8.decoded_Inr treatment_from_u8_iff)

lemma capability_exact [wire_exact]:
  "decoded capability_from_u8 cursor_u8 s = Inr (c, r) \<longleftrightarrow> (1 \<le> c \<and> c \<le> 23) \<and> s = wire_u8 c @ r"
  by (auto simp: w_u8.decoded_Inr capability_from_u8_def u8_ok_def split: if_splits)


section \<open>Checked fields\<close>

lemma wire_codeI:
  assumes "\<And>s x r. dec s = Inr (x, r) \<Longrightarrow> ok x \<and> s = enc x @ r" "\<And>x r. ok x \<Longrightarrow> dec (enc x @ r) = Inr (x, r)"
  shows "wire_code ok enc dec"
  by unfold_locales (use assms in blast)

interpretation w_id: wire_code identifier_ok wire_i64 identifier_reading
  by unfold_locales (auto simp: wire_exact identifier_ok_def positive_ok_def study_identifier_new_def split: if_splits)

interpretation w_money: wire_code generation_ok wire_i64 "admitted nonnegative_ok cursor_i64"
  by unfold_locales (auto simp: wire_exact generation_ok_def nonnegative_ok_def)

interpretation w_slot: wire_code ordinal64_ok wire_u8 "admitted ordinal64_ok cursor_u8"
  by unfold_locales (auto simp: wire_exact ordinal64_ok_def u8_ok_def)

interpretation w_pairs: wire_code pair_ordinal_ok wire_u16 "admitted pair_ordinal_ok cursor_u16"
  by unfold_locales (auto simp: wire_exact pair_ordinal_ok_def unsigned_ok_def)

interpretation w_registered: wire_code registered_pair_count_ok wire_u16 "admitted registered_pair_count_ok cursor_u16"
  by unfold_locales (auto simp: wire_exact registered_pair_count_ok_def unsigned_ok_def)

interpretation w_capability: wire_code "\<lambda>c. 1 \<le> c \<and> c \<le> 23" wire_u8 "decoded capability_from_u8 cursor_u8"
  by unfold_locales (rule capability_exact)

lemma ascii_utf8_valid: "list_all p b \<Longrightarrow> (\<And>x. p x \<Longrightarrow> x < 0x80) \<Longrightarrow> utf8_valid b"
  by (induction b) (simp_all add: utf8_valid.simps)

lemma command_id_utf8: "command_id_ok b \<Longrightarrow> utf8_valid b"
  by (rule ascii_utf8_valid [of "\<lambda>x. 33 \<le> x \<and> x \<le> 126"]) (simp_all add: command_id_ok_def word_le_def word_less_def)

lemma application_identity_utf8: "application_identity_parse b \<Longrightarrow> utf8_valid b"
  by (rule ascii_utf8_valid [of "\<lambda>x. ascii_alphanumeric x \<or> x \<in> {0x2E, 0x5F, 0x2D}"])
    (auto simp: application_identity_parse_def ascii_alphanumeric_def word_le_def word_less_def)

definition text_ok :: "nat \<Rightarrow> byte list \<Rightarrow> bool" where
  "text_ok n b \<longleftrightarrow> utf8_valid b \<and> bounded_text n b"

lemma text_exact: "n < 256 ^ 4 \<Longrightarrow> text_reading n s = Inr (b, r) \<longleftrightarrow> text_ok n b \<and> s = wire_string b @ r"
  by (auto simp: admitted_Inr cursor_string_exact text_ok_def bounded_text_def)

interpretation w_name: wire_code "text_ok 160" wire_string "text_reading 160"
  by unfold_locales (simp add: text_exact)

interpretation w_mission: wire_code "text_ok 4096" wire_string "text_reading 4096"
  by unfold_locales (simp add: text_exact)

interpretation w_command_id: wire_code command_id_ok wire_string "admitted command_id_ok (cursor_string 128)"
  by unfold_locales (auto simp: admitted_Inr cursor_string_exact command_id_utf8, simp_all add: command_id_ok_def)

interpretation w_identity:
  wire_code application_identity_parse wire_string "admitted application_identity_parse (cursor_string 128)"
  by unfold_locales
    (auto simp: admitted_Inr cursor_string_exact application_identity_utf8, simp_all add: application_identity_parse_def)

interpretation w_rendering: wire_code mission_source_rendering_parse wire_string
    "admitted mission_source_rendering_parse (cursor_bytes MAX_RENDERING)"
  by unfold_locales
    (auto simp: admitted_Inr cursor_bytes_def cursor_bounded_exact mission_source_rendering_parse_def)

lemmas checked_exact [wire_exact] = w_name.exact w_mission.exact w_command_id.exact w_identity.exact w_rendering.exact

lemma enum_reads [wire_reads]:
  "decoded mission_principle_kind_from_u8 cursor_u8 (wire_u8 (principle_kind_byte k) @ s) = Inr (k, s)"
  "decoded office_turn_purpose_from_u8 cursor_u8 (wire_u8 (turn_purpose_byte p) @ s) = Inr (p, s)"
  "decoded cancellation_mode_from_u8 cursor_u8 (wire_u8 (cancellation_mode_byte m) @ s) = Inr (m, s)"
  "decoded cost_postmortem_resolution_from_u8 cursor_u8 (wire_u8 (postmortem_resolution_byte r) @ s) = Inr (r, s)"
  "decoded protocol_error_from_u8 cursor_u8 (wire_u8 (protocol_error_byte e) @ s) = Inr (e, s)"
  "decoded study_treatment_from_u8 cursor_u8 (wire_u8 (treatment_code st) @ s) = Inr (st, s)"
  "decoded study_episode_state_from_u8 cursor_u8 (wire_u8 (episode_state_code es) @ s) = Inr (es, s)"
  "decoded study_measurement_status_from_u8 cursor_u8 (wire_u8 (measurement_status_code ms) @ s) = Inr (ms, s)"
  "decoded study_run_lifecycle_state_from_u8 cursor_u8 (wire_u8 (run_lifecycle_code rl) @ s) = Inr (rl, s)"
  "decoded rejection_from_u8 cursor_u8 (rejection_as_u8 x # s) = Inr (x, s)"
  "t \<noteq> DeterministicEvaluatorFixtureV1 \<Longrightarrow>
     decoded operating_cycle_treatment_from_u8 cursor_u8 (wire_u8 (treatment_byte t) @ s) = Inr (t, s)"
  by (simp_all add: wire_exact)

lemma bool_read [wire_reads]: "cursor_bool (wire_bool b @ s) = Inr (b, s)"
  by (simp add: wire_bool_exact)

lemmas field_reads [wire_reads] = w_i64.read_back w_u16.read_back w_u8.read_back w_correlation.read_back
  w_digest.read_back w_id.read_back w_money.read_back w_slot.read_back w_pairs.read_back w_registered.read_back
  w_capability.read_back w_name.read_back w_mission.read_back w_command_id.read_back w_identity.read_back
  w_rendering.read_back

lemma optional_read [wire_reads]:
  assumes "wire_code ok enc dec"
  shows "optional_ok ok v \<Longrightarrow> cursor_optional dec (wire_optional enc v @ s) = Inr (v, s)"
  by (simp add: wire_code.optional_exact [OF assms wire_bool_exact])

end
