(* ===== verification/Wire_Exact.thy ===== *)
theory Wire_Exact
  imports Wire_Laws
begin

text \<open>
  The compound values of the wire protocol: what their types admit and what their readers demand
  beyond it, and that each codec is exact on what its reader admits.  A reader is taken apart by \<open>and_then_Inr\<close> and the exact fields, and put together again by the
  collection \<open>wire_reads\<close>.
\<close>

lemmas wire_simps = yielding_def failing_def wire_reads u8_ok_def

lemma identifier_ok_iff: "identifier_ok v \<longleftrightarrow> in_i64 v \<and> positive_ok v"
  by (auto simp: identifier_ok_def positive_ok_def study_identifier_new_def split: if_splits)

lemma generation_ok_iff: "generation_ok v \<longleftrightarrow> in_i64 v \<and> nonnegative_ok v"
  by (simp add: generation_ok_def nonnegative_ok_def)

section \<open>Receipts and generations\<close>

primrec receipt_view_ok :: "command_receipt_view \<Rightarrow> bool" where
  "receipt_view_ok (AcceptedView event _) = identifier_ok event"
| "receipt_view_ok (RejectedView _ _) = True"

interpretation w_receipt: wire_code receipt_view_ok encode_receipt decode_receipt
proof (rule wire_codeI)
  fix s x r assume "decode_receipt s = Inr (x, r)"
  then show "receipt_view_ok x \<and> s = encode_receipt x @ r"
    by (auto simp: decode_receipt_def wire_exact identifier_ok_iff split: if_splits)
next
  fix x r assume "receipt_view_ok x"
  then show "decode_receipt (encode_receipt x @ r) = Inr (x, r)"
    by (cases x) (simp_all add: decode_receipt_def wire_simps)
qed

interpretation w_generation:
  wire_code "optional_ok generation_ok" encode_expected_generation decode_expected_generation
proof (rule wire_codeI)
  fix s x r assume "decode_expected_generation s = Inr (x, r)"
  then show "optional_ok generation_ok x \<and> s = encode_expected_generation x @ r"
    by (auto simp: decode_expected_generation_def encode_expected_generation_def wire_exact
        optional_ok_def generation_ok_iff split: if_splits)
next
  fix x r assume "optional_ok generation_ok x"
  then show "decode_expected_generation (encode_expected_generation x @ r) = Inr (x, r)"
    by (cases x) (simp_all add: decode_expected_generation_def encode_expected_generation_def optional_ok_def wire_simps)
qed

section \<open>Observations\<close>

definition measurement_observation_ok :: "study_measurement_observation \<Rightarrow> bool" where
  "measurement_observation_ok m \<longleftrightarrow> ordinal64_ok (om_slot m) \<and> optional_ok in_i64 (om_value m)
     \<and> optional_ok digest_ok (om_value_digest m) \<and> optional_ok digest_ok (om_reason_digest m)"

lemmas optional_reads = optional_read [OF w_i64.wire_code_axioms] optional_read [OF w_digest.wire_code_axioms]
  optional_read [OF w_id.wire_code_axioms] optional_read [OF w_receipt.wire_code_axioms]

interpretation w_measurement: wire_code measurement_observation_ok encode_study_measurement_observation
    decode_study_measurement_observation
proof (rule wire_codeI)
  fix s x r assume "decode_study_measurement_observation s = Inr (x, r)"
  then show "measurement_observation_ok x \<and> s = encode_study_measurement_observation x @ r"
    by (clarsimp simp: decode_study_measurement_observation_def encode_study_measurement_observation_def
        measurement_observation_ok_def wire_exact)
next
  fix x r assume "measurement_observation_ok x"
  then show "decode_study_measurement_observation (encode_study_measurement_observation x @ r) = Inr (x, r)"
    by (simp add: decode_study_measurement_observation_def encode_study_measurement_observation_def
        measurement_observation_ok_def wire_simps optional_reads)
qed

definition run_summary_ok :: "study_run_summary \<Rightarrow> bool" where
  "run_summary_ok x \<longleftrightarrow> identifier_ok (sr_run x) \<and> identifier_ok (sr_protocol x) \<and> identifier_ok (sr_plan_object x)
     \<and> digest_ok (sr_plan_digest x) \<and> pair_ordinal_ok (sr_pairs x) \<and> registered_pair_count_ok (sr_registered x)"

interpretation w_summary: wire_code run_summary_ok encode_study_run_summary decode_study_run_summary
proof (rule wire_codeI)
  fix s x r assume "decode_study_run_summary s = Inr (x, r)"
  then show "run_summary_ok x \<and> s = encode_study_run_summary x @ r"
    by (clarsimp simp: decode_study_run_summary_def encode_study_run_summary_def run_summary_ok_def and_then_Inr
        w_id.exact w_pairs.exact w_registered.exact w_digest.exact enum_exact yielding_Inr)
next
  fix x r assume "run_summary_ok x"
  then show "decode_study_run_summary (encode_study_run_summary x @ r) = Inr (x, r)"
    by (simp add: decode_study_run_summary_def encode_study_run_summary_def run_summary_ok_def wire_simps)
qed

definition registration_ok :: "study_run_pair_registration \<Rightarrow> bool" where
  "registration_ok x \<longleftrightarrow> pair_ordinal_ok (rg_ordinal x) \<and> identifier_ok (rg_pair x) \<and> digest_ok (rg_randomization x)"

interpretation w_registration: wire_code registration_ok encode_study_run_pair_registration
    decode_study_run_pair_registration
proof (rule wire_codeI)
  fix s x r assume "decode_study_run_pair_registration s = Inr (x, r)"
  then show "registration_ok x \<and> s = encode_study_run_pair_registration x @ r"
    by (clarsimp simp: decode_study_run_pair_registration_def encode_study_run_pair_registration_def
        registration_ok_def and_then_Inr w_id.exact w_pairs.exact w_digest.exact yielding_Inr)
next
  fix x r assume "registration_ok x"
  then show "decode_study_run_pair_registration (encode_study_run_pair_registration x @ r) = Inr (x, r)"
    by (simp add: decode_study_run_pair_registration_def encode_study_run_pair_registration_def
        registration_ok_def wire_simps)
qed


definition episode_columns_ok :: "study_episode_observation \<Rightarrow> bool" where
  "episode_columns_ok e \<longleftrightarrow> identifier_ok (oe_episode e) \<and> identifier_ok (oe_protocol e) \<and> identifier_ok (oe_world e)
     \<and> identifier_ok (oe_measurement e) \<and> ordinal64_ok (oe_slot_count e) \<and> identifier_ok (oe_institution e)
     \<and> identifier_ok (oe_source_population e) \<and> optional_ok identifier_ok (oe_successor_population e)
     \<and> digest_ok (oe_randomization e) \<and> in_i64 (oe_source_obligations e) \<and> in_i64 (oe_source_terminal e)
     \<and> in_i64 (oe_successor_obligations e) \<and> in_i64 (oe_successor_terminal e) \<and> in_i64 (oe_failed e)
     \<and> in_i64 (oe_bindings e) \<and> in_i64 (oe_reconciled_bindings e) \<and> optional_ok in_i64 (oe_frozen_head e)
     \<and> in_i64 (oe_messages e) \<and> in_i64 (oe_reads e) \<and> in_i64 (oe_returned_bytes e) \<and> in_i64 (oe_decisions e)
     \<and> optional_ok digest_ok (oe_reveal e)"

text \<open>
  What the field types admit; their measurements are a vector of any length.  The reader also demands
  that they are no more than the slots of the revision.
\<close>

definition episode_observation_typed :: "study_episode_observation \<Rightarrow> bool" where
  "episode_observation_typed e \<longleftrightarrow> episode_columns_ok e \<and> list_all measurement_observation_ok (oe_measurements e)"

definition episode_observation_ok :: "study_episode_observation \<Rightarrow> bool" where
  "episode_observation_ok e \<longleftrightarrow> episode_columns_ok e \<and> int (length (oe_measurements e)) \<le> oe_slot_count e
     \<and> list_all measurement_observation_ok (oe_measurements e)"

lemma episode_observation_okI:
  "episode_observation_typed e \<Longrightarrow> int (length (oe_measurements e)) \<le> oe_slot_count e \<Longrightarrow> episode_observation_ok e"
  by (simp add: episode_observation_typed_def episode_observation_ok_def)

definition episode_bytes :: "study_episode_observation \<Rightarrow> byte list" where
  "episode_bytes e = episode_columns e @ wire_u8 (int (length (oe_measurements e)))
     @ concat (map encode_study_measurement_observation (oe_measurements e))"

lemma optional_identifier_exact:
  "admitted (optional_ok positive_ok) (cursor_optional cursor_i64) s = Inr (v, r) \<longleftrightarrow>
     optional_ok identifier_ok v \<and> s = wire_optional wire_i64 v @ r"
  by (cases v) (auto simp: wire_exact optional_ok_def identifier_ok_iff)

lemma decode_episode_columns_Inr:
  assumes "decode_episode_columns s = Inr (e, r)"
  shows "episode_columns_ok e \<and> oe_measurements e = [] \<and> s = episode_columns e @ r"
  using assms
  by (clarsimp simp: decode_episode_columns_def episode_columns_def episode_columns_ok_def and_then_Inr
      w_id.exact w_slot.exact optional_identifier_exact w_exact enum_exact yielding_Inr)

lemma decode_episode_columns_read:
  assumes "episode_columns_ok e"
  shows "decode_episode_columns (episode_columns e @ r) = Inr (e\<lparr>oe_measurements := []\<rparr>, r)"
proof -
  note [simp] = optional_identifier_exact [THEN iffD2, OF conjI [OF _ refl]]
  show ?thesis using assms
    by (simp add: decode_episode_columns_def episode_columns_def episode_columns_ok_def wire_simps optional_reads)
qed

lemma episode_columns_update [simp]:
  "episode_columns (e\<lparr>oe_measurements := ms\<rparr>) = episode_columns e"
  "episode_columns_ok (e\<lparr>oe_measurements := ms\<rparr>) = episode_columns_ok e"
  by (simp_all add: episode_columns_def episode_columns_ok_def)

interpretation w_episode: wire_code episode_observation_ok episode_bytes decode_study_episode_observation
proof (rule wire_codeI)
  fix s x r assume "decode_study_episode_observation s = Inr (x, r)"
  then show "episode_observation_ok x \<and> s = episode_bytes x @ r"
    by (auto simp: decode_study_episode_observation_def and_then_Inr failing_Inr yielding_Inr w_u8.exact u8_ok_def
        w_measurement.repeated_exact episode_observation_ok_def episode_bytes_def dest!: decode_episode_columns_Inr
        split: if_splits)
next
  fix x r assume x: "episode_observation_ok x"
  let ?n = "int (length (oe_measurements x))"
  have "?n \<le> 64" using x by (simp add: episode_observation_ok_def episode_columns_ok_def ordinal64_ok_def)
  then have "cursor_u8 (wire_u8 ?n @ t) = Inr (?n, t)" for t by (simp add: w_u8.exact u8_ok_def)
  moreover have "repeated (length (oe_measurements x)) decode_study_measurement_observation
      (concat (map encode_study_measurement_observation (oe_measurements x)) @ r) = Inr (oe_measurements x, r)"
    using x by (simp add: w_measurement.repeated_exact episode_observation_ok_def)
  ultimately show "decode_study_episode_observation (episode_bytes x @ r) = Inr (x, r)"
    using x by (simp add: decode_study_episode_observation_def episode_bytes_def decode_episode_columns_read
        episode_observation_ok_def yielding_def)
qed

lemma encode_episode_observation:
  "episode_observation_ok e \<Longrightarrow> encode_study_episode_observation e = Inr (episode_bytes e)"
  by (simp add: encode_study_episode_observation_def episode_bytes_def episode_observation_ok_def
      episode_columns_ok_def ordinal64_ok_def)

definition pair_observation_typed :: "study_pair_observation \<Rightarrow> bool" where
  "pair_observation_typed p \<longleftrightarrow> identifier_ok (op_pair p) \<and> episode_observation_typed (op_retained p)
     \<and> episode_observation_typed (op_reset p)"

definition pair_observation_ok :: "study_pair_observation \<Rightarrow> bool" where
  "pair_observation_ok p \<longleftrightarrow> identifier_ok (op_pair p) \<and> episode_observation_ok (op_retained p)
     \<and> episode_observation_ok (op_reset p)"

definition pair_bytes :: "study_pair_observation \<Rightarrow> byte list" where
  "pair_bytes p = wire_i64 (op_pair p) @ episode_bytes (op_retained p) @ episode_bytes (op_reset p)"

lemma encode_pair_observation:
  "pair_observation_ok p \<Longrightarrow> encode_study_pair_observation p = Inr (pair_bytes p)"
  by (simp add: encode_study_pair_observation_def pair_bytes_def pair_observation_ok_def encode_episode_observation)

interpretation w_pair: wire_code pair_observation_ok pair_bytes decode_study_pair_observation
proof (rule wire_codeI)
  fix s x r assume "decode_study_pair_observation s = Inr (x, r)"
  then show "pair_observation_ok x \<and> s = pair_bytes x @ r"
    by (clarsimp simp: decode_study_pair_observation_def pair_bytes_def pair_observation_ok_def and_then_Inr
        w_id.exact w_episode.exact yielding_Inr)
next
  fix x r assume "pair_observation_ok x"
  then show "decode_study_pair_observation (pair_bytes x @ r) = Inr (x, r)"
    by (simp add: decode_study_pair_observation_def pair_bytes_def pair_observation_ok_def wire_simps
        w_episode.read_back)
qed

end
