(* ===== verification/Wire_Messages.thy ===== *)
theory Wire_Messages
  imports Wire_Exact
begin

text \<open>
  Client commands, requests and responses: the codecs of the two request vocabularies and of the
  responses are exact, and the two vocabularies do not overlap.
\<close>

section \<open>Commands\<close>

definition mission_principle_ok :: "mission_principle \<Rightarrow> bool" where
  "mission_principle_ok p \<longleftrightarrow> text_ok 4096 (mp_text p)"

interpretation w_principle: wire_code mission_principle_ok encode_mission_principle decode_mission_principle
proof (rule wire_codeI)
  fix s x r assume "decode_mission_principle s = Inr (x, r)"
  then show "mission_principle_ok x \<and> s = encode_mission_principle x @ r"
    by (clarsimp simp: decode_mission_principle_def encode_mission_principle_def mission_principle_ok_def and_then_Inr
        w_mission.exact enum_exact yielding_Inr)
next
  fix x r assume "mission_principle_ok x"
  then show "decode_mission_principle (encode_mission_principle x @ r) = Inr (x, r)"
    by (simp add: decode_mission_principle_def encode_mission_principle_def mission_principle_ok_def wire_simps)
qed

definition application_mission_ok :: "application_mission_input \<Rightarrow> bool" where
  "application_mission_ok m \<longleftrightarrow> application_identity_parse (am_identity m) \<and> text_ok 160 (am_name m)
     \<and> identifier_ok (am_revision m) \<and> text_ok 4096 (am_statement m)
     \<and> am_principles m \<noteq> [] \<and> length (am_principles m) \<le> MAX_PRINCIPLES \<and> list_all mission_principle_ok (am_principles m)
     \<and> text_ok 4096 (am_change m) \<and> text_ok 4096 (am_improvement m) \<and> text_ok 4096 (am_boundary m)
     \<and> text_ok 4096 (am_revisit m) \<and> digest_ok (am_source m)"

interpretation w_mission_input: wire_code application_mission_ok encode_application_mission_input
    decode_application_mission_input
proof (rule wire_codeI)
  fix s x r assume "decode_application_mission_input s = Inr (x, r)"
  then show "application_mission_ok x \<and> s = encode_application_mission_input x @ r"
    by (auto simp: decode_application_mission_input_def encode_application_mission_input_def application_mission_ok_def
        and_then_Inr failing_Inr w_identity.exact w_name.exact w_id.exact w_mission.exact w_u8.exact u8_ok_def
        w_principle.repeated_exact w_digest.exact yielding_Inr split: if_splits)
next
  fix x r assume x: "application_mission_ok x"
  let ?n = "int (length (am_principles x))"
  have "cursor_u8 (wire_u8 ?n @ t) = Inr (?n, t)" for t
    using x by (simp add: w_u8.exact u8_ok_def application_mission_ok_def)
  moreover have "repeated (length (am_principles x)) decode_mission_principle
      (concat (map encode_mission_principle (am_principles x)) @ t) = Inr (am_principles x, t)" for t
    using x by (simp add: w_principle.repeated_exact application_mission_ok_def)
  ultimately show "decode_application_mission_input (encode_application_mission_input x @ r) = Inr (x, r)"
    using x by (simp add: decode_application_mission_input_def encode_application_mission_input_def
        application_mission_ok_def field_reads yielding_def)
qed

primrec client_body_ok :: "client_command_body \<Rightarrow> bool" where
  "client_body_ok (CreateSocietyIdentity name) = text_ok 160 name"
| "client_body_ok InstallRootAuthorityOffice = True"
| "client_body_ok (InstallFoundingMission m b) = (application_mission_ok m \<and> mission_source_rendering_parse b)"
| "client_body_ok (AppointInitialRootAuthority name) = text_ok 160 name"
| "client_body_ok (SetR0HardCeiling v) = generation_ok v"
| "client_body_ok BootstrapSociety = True"
| "client_body_ok (ProposeOperatingCycle _ v) = generation_ok v"
| "client_body_ok (AdmitOperatingCycle c) = identifier_ok c"
| "client_body_ok (StartRootAuthorityOfficeSession c) = identifier_ok c"
| "client_body_ok (OpenOfficeTurn s _) = identifier_ok s"
| "client_body_ok (QuiesceOperatingCycle c) = identifier_ok c"
| "client_body_ok (ResumeOperatingCycle c) = identifier_ok c"
| "client_body_ok (ReconcileOperatingCycle c) = identifier_ok c"
| "client_body_ok (CloseOperatingCycle c) = identifier_ok c"
| "client_body_ok (ReserveBudget c v) = (identifier_ok c \<and> generation_ok v)"
| "client_body_ok (RequestCancellation c _) = identifier_ok c"
| "client_body_ok (CloseCostPostmortem p _) = identifier_ok p"

text \<open>The evaluator fixture treatment is written with a code the reader does not know.\<close>

definition body_readable :: "client_command_body \<Rightarrow> bool" where
  "body_readable b = (case b of ProposeOperatingCycle t _ \<Rightarrow> t \<noteq> DeterministicEvaluatorFixtureV1 | _ \<Rightarrow> True)"

lemmas part_exact = and_then_Inr yielding_Inr failing_Inr w_id.exact w_name.exact w_money.exact enum_exact
  treatment_exact w_mission_input.exact w_rendering.exact

lemma decode_body_Inr:
  assumes "decode_client_command_body k s = Inr (b, r)"
  shows "client_body_ok b \<and> body_readable b \<and> k = client_command_tag b \<and> s = client_body_bytes b @ r"
  using assms unfolding decode_client_command_body_def
  by (clarsimp simp: part_exact body_readable_def split: if_splits)

lemma decode_body_read:
  "client_body_ok b \<Longrightarrow> body_readable b \<Longrightarrow>
     decode_client_command_body (client_command_tag b) (client_body_bytes b @ r) = Inr (b, r)"
  by (cases b) (simp_all add: decode_client_command_body_def body_readable_def wire_reads w_mission_input.read_back yielding_def)

definition command_request_ok :: "client_command_request \<Rightarrow> bool" where
  "command_request_ok x \<longleftrightarrow> command_id_ok (cr_id x) \<and> identifier_ok (cr_principal x) \<and> identifier_ok (cr_grant x)
     \<and> optional_ok generation_ok (cr_generation x) \<and> client_body_ok (cr_body x)"

definition command_request_readable :: "client_command_request \<Rightarrow> bool" where
  "command_request_readable x \<longleftrightarrow> command_request_ok x \<and> body_readable (cr_body x)
     \<and> 1 \<le> cr_capability x \<and> cr_capability x \<le> 23"

interpretation w_command: wire_code command_request_readable command_request_bytes decode_command_request
proof (rule wire_codeI)
  fix s x r assume "decode_command_request s = Inr (x, r)"
  then show "command_request_readable x \<and> s = command_request_bytes x @ r"
    by (auto simp: decode_command_request_def command_request_bytes_def command_request_readable_def
        command_request_ok_def and_then_Inr w_command_id.exact w_id.exact w_capability.exact w_generation.exact
        w_u8.exact yielding_Inr dest!: decode_body_Inr)
next
  fix x r assume "command_request_readable x"
  then show "decode_command_request (command_request_bytes x @ r) = Inr (x, r)"
    by (simp add: decode_command_request_def command_request_bytes_def command_request_readable_def
        command_request_ok_def field_reads w_generation.read_back decode_body_read yielding_def)
qed


section \<open>Messages\<close>

abbreviation correlation_ok :: "int \<Rightarrow> bool" where
  "correlation_ok c \<equiv> unsigned_ok 8 c \<and> c \<noteq> 0"

text \<open>
  A closed vocabulary of messages: each message has a one-byte tag, a correlation and a content, and
  the reader of a tag accepts exactly the contents of the messages of that tag.
\<close>

locale vocabulary =
  fixes ok :: "'a \<Rightarrow> bool" and tag corr :: "'a \<Rightarrow> int" and content :: "'a \<Rightarrow> byte list"
    and body :: "int \<Rightarrow> int \<Rightarrow> 'a reading"
  assumes body_exact: "correlation_ok c \<Longrightarrow>
      body t c s = Inr (x, r) \<longleftrightarrow> ok x \<and> t = tag x \<and> c = corr x \<and> s = content x @ r"
    and tag_u8: "u8_ok (tag x)" and correlated: "ok x \<Longrightarrow> correlation_ok (corr x)"
begin

definition payload :: "'a \<Rightarrow> byte list" where
  "payload x = message_head (tag x) (corr x) @ content x"

lemma frame_exact:
  "message_reading body frame = Inr (x, y) \<longleftrightarrow> ok x \<and> frame = payload x \<and> y = []"
proof
  assume "message_reading body frame = Inr (x, y)"
  then show "ok x \<and> frame = payload x \<and> y = []"
    by (auto simp: message_reading_def and_then_Inr failing_Inr yielding_Inr w_u16.exact w_u8.exact
        w_correlation.exact cursor_finish_Inr body_exact payload_def message_head_def split: if_splits)
next
  assume x: "ok x \<and> frame = payload x \<and> y = []"
  have v: "cursor_u16 (wire_u16 8 @ s) = Inr (8, s)" for s by (simp add: w_u16.exact unsigned_ok_def)
  have b: "body (tag x) (corr x) (content x) = Inr (x, [])" using x by (simp add: body_exact correlated)
  show "message_reading body frame = Inr (x, y)"
    using x v b by (simp add: message_reading_def payload_def message_head_def w_u8.read_back
        w_correlation.read_back tag_u8 correlated cursor_finish_def yielding_def)
qed

lemma read_exact:
  "read_message body s = Inr (x, rest) \<longleftrightarrow>
     ok x \<and> (\<exists>bytes. write_frame (payload x) = Inr bytes \<and> s = bytes @ rest)"
proof (cases "read_frame s")
  case (Inl e)
  then have "\<not> (\<exists>bytes. write_frame p = Inr bytes \<and> s = bytes @ r)" for p r
    using read_frame_write [of s] by (metis Inl_Inr_False)
  then show ?thesis using Inl by (auto simp: read_message_def)
next
  case (Inr fr)
  obtain frame r where fr: "fr = (frame, r)" by fastforce
  have "(\<exists>bytes. write_frame p = Inr bytes \<and> s = bytes @ r') \<longleftrightarrow> p = frame \<and> r' = r" for p r'
    using read_frame_write [of s p r'] Inr fr by auto
  moreover have "read_message body s = Inr (x, rest) \<longleftrightarrow> (\<exists>y. message_reading body frame = Inr (x, y)) \<and> rest = r"
    using Inr fr by (cases "message_reading body frame") (auto simp: read_message_def)
  ultimately show ?thesis by (auto simp: frame_exact)
qed

lemma written_back:
  "ok x \<Longrightarrow> write_frame (payload x) = Inr bytes \<Longrightarrow> read_message body (bytes @ rest) = Inr (x, rest)"
  by (auto simp: read_exact)

end

subsection \<open>The monitor\<close>

primrec public_request_ok :: "public_request \<Rightarrow> bool" where
  "public_request_ok (PublicCommandReceipt c i) = (correlation_ok c \<and> command_id_ok i)"
| "public_request_ok (PublicStatus c) = correlation_ok c"
| "public_request_ok (PublicStudyPairObservation c p) = (correlation_ok c \<and> identifier_ok p)"
| "public_request_ok (PublicStudyRunObservation c r) = (correlation_ok c \<and> identifier_ok r)"
| "public_request_ok (PublicStudyRunPairRegistration c r n) =
     (correlation_ok c \<and> identifier_ok r \<and> pair_ordinal_ok n)"

primrec public_tag :: "public_request \<Rightarrow> int" where
  "public_tag (PublicCommandReceipt _ _) = 0x21"
| "public_tag (PublicStatus _) = 0x22"
| "public_tag (PublicStudyPairObservation _ _) = 0x23"
| "public_tag (PublicStudyRunObservation _ _) = 0x24"
| "public_tag (PublicStudyRunPairRegistration _ _ _) = 0x25"

primrec public_correlation :: "public_request \<Rightarrow> int" where
  "public_correlation (PublicCommandReceipt c _) = c"
| "public_correlation (PublicStatus c) = c"
| "public_correlation (PublicStudyPairObservation c _) = c"
| "public_correlation (PublicStudyRunObservation c _) = c"
| "public_correlation (PublicStudyRunPairRegistration c _ _) = c"

primrec public_content :: "public_request \<Rightarrow> byte list" where
  "public_content (PublicCommandReceipt _ i) = wire_string i"
| "public_content (PublicStatus _) = []"
| "public_content (PublicStudyPairObservation _ p) = wire_i64 p"
| "public_content (PublicStudyRunObservation _ r) = wire_i64 r"
| "public_content (PublicStudyRunPairRegistration _ r n) = wire_i64 r @ wire_u16 n"

interpretation monitor: vocabulary public_request_ok public_tag public_correlation public_content public_request_body
proof
  fix t c :: int and s r and x :: public_request
  assume c: "correlation_ok c"
  show "public_request_body t c s = Inr (x, r) \<longleftrightarrow>
      public_request_ok x \<and> t = public_tag x \<and> c = public_correlation x \<and> s = public_content x @ r"
    using c by (cases x) (auto simp: public_request_body_def and_then_Inr yielding_Inr failing_Inr w_command_id.exact
        w_id.exact w_pairs.exact)
next
  fix x show "u8_ok (public_tag x)" by (cases x) (simp_all add: u8_ok_def)
next
  fix x assume "public_request_ok x" then show "correlation_ok (public_correlation x)" by (cases x) simp_all
qed

lemma public_payload: "public_request_payload x = monitor.payload x"
  by (cases x) (simp_all add: monitor.payload_def)


lemma read_public_exact:
  "read_public_request s = Inr (x, rest) \<longleftrightarrow>
     public_request_ok x \<and> (\<exists>bytes. write_public_request x = Inr bytes \<and> s = bytes @ rest)"
  by (simp add: read_public_request_def write_public_request_def public_payload monitor.read_exact)

subsection \<open>The supervisor stream\<close>

primrec supervisor_request_ok :: "supervisor_request \<Rightarrow> bool" where
  "supervisor_request_ok (SupervisorExecute c x) = (correlation_ok c \<and> command_request_ok x)"
| "supervisor_request_ok (SupervisorCommandReceipt c i) = (correlation_ok c \<and> command_id_ok i)"
| "supervisor_request_ok (SupervisorStatus c) = correlation_ok c"
| "supervisor_request_ok (SupervisorActiveCapabilityGrant c p cap) = (correlation_ok c \<and> identifier_ok p)"

text \<open>What the reader accepts: the capabilities it knows, whether or not a supervisor may present them.\<close>

primrec supervisor_request_readable :: "supervisor_request \<Rightarrow> bool" where
  "supervisor_request_readable (SupervisorExecute c x) = (correlation_ok c \<and> command_request_readable x)"
| "supervisor_request_readable (SupervisorCommandReceipt c i) = (correlation_ok c \<and> command_id_ok i)"
| "supervisor_request_readable (SupervisorStatus c) = correlation_ok c"
| "supervisor_request_readable (SupervisorActiveCapabilityGrant c p cap) =
     (correlation_ok c \<and> identifier_ok p \<and> 1 \<le> cap \<and> cap \<le> 23)"

primrec supervisor_tag :: "supervisor_request \<Rightarrow> int" where
  "supervisor_tag (SupervisorExecute _ _) = 0x41"
| "supervisor_tag (SupervisorCommandReceipt _ _) = 0x42"
| "supervisor_tag (SupervisorStatus _) = 0x43"
| "supervisor_tag (SupervisorActiveCapabilityGrant _ _ _) = 0x44"

primrec supervisor_correlation :: "supervisor_request \<Rightarrow> int" where
  "supervisor_correlation (SupervisorExecute c _) = c"
| "supervisor_correlation (SupervisorCommandReceipt c _) = c"
| "supervisor_correlation (SupervisorStatus c) = c"
| "supervisor_correlation (SupervisorActiveCapabilityGrant c _ _) = c"

primrec supervisor_content :: "supervisor_request \<Rightarrow> byte list" where
  "supervisor_content (SupervisorExecute _ x) = command_request_bytes x"
| "supervisor_content (SupervisorCommandReceipt _ i) = wire_string i"
| "supervisor_content (SupervisorStatus _) = []"
| "supervisor_content (SupervisorActiveCapabilityGrant _ p cap) = wire_i64 p @ wire_u8 cap"

interpretation supervisor: vocabulary supervisor_request_readable supervisor_tag supervisor_correlation
    supervisor_content supervisor_request_body
proof
  fix t c :: int and s r and x :: supervisor_request
  assume c: "correlation_ok c"
  show "supervisor_request_body t c s = Inr (x, r) \<longleftrightarrow>
      supervisor_request_readable x \<and> t = supervisor_tag x \<and> c = supervisor_correlation x \<and> s = supervisor_content x @ r"
    using c by (cases x) (auto simp: supervisor_request_body_def and_then_Inr yielding_Inr failing_Inr w_command.exact
        w_command_id.exact w_id.exact w_capability.exact)
next
  fix x show "u8_ok (supervisor_tag x)" by (cases x) (simp_all add: u8_ok_def)
next
  fix x assume "supervisor_request_readable x"
  then show "correlation_ok (supervisor_correlation x)" by (cases x) simp_all
qed

text \<open>What the writer lets through, and the treatment the reader does not know.\<close>

primrec supervisor_presentable :: "supervisor_request \<Rightarrow> bool" where
  "supervisor_presentable (SupervisorExecute _ x) =
     (supervisor_capability_is_representable (cr_capability x) \<and> cr_capability x = client_required_capability (cr_body x))"
| "supervisor_presentable (SupervisorCommandReceipt _ _) = True"
| "supervisor_presentable (SupervisorStatus _) = True"
| "supervisor_presentable (SupervisorActiveCapabilityGrant _ _ cap) = supervisor_capability_is_representable cap"

primrec proposes_evaluator_cycle :: "supervisor_request \<Rightarrow> bool" where
  "proposes_evaluator_cycle (SupervisorExecute _ x) = (\<not> body_readable (cr_body x))"
| "proposes_evaluator_cycle (SupervisorCommandReceipt _ _) = False"
| "proposes_evaluator_cycle (SupervisorStatus _) = False"
| "proposes_evaluator_cycle (SupervisorActiveCapabilityGrant _ _ _) = False"

lemma supervisor_payload:
  "supervisor_request_payload x = (if supervisor_presentable x then Inr (supervisor.payload x) else Inl InvalidValue)"
  by (cases x) (auto simp: supervisor.payload_def encode_command_request_def)

lemma presentable_readable:
  "supervisor_request_ok x \<Longrightarrow> supervisor_presentable x \<Longrightarrow> \<not> proposes_evaluator_cycle x \<Longrightarrow> supervisor_request_readable x"
  by (cases x) (auto simp: supervisor_capability_is_representable_def command_request_readable_def)

lemma write_supervisor_Inr:
  "write_supervisor_request x = Inr bytes \<longleftrightarrow> supervisor_presentable x \<and> write_frame (supervisor.payload x) = Inr bytes"
  by (simp add: write_supervisor_request_def supervisor_payload)

lemma read_supervisor_written:
  "supervisor_request_ok x \<Longrightarrow> \<not> proposes_evaluator_cycle x \<Longrightarrow> write_supervisor_request x = Inr bytes \<Longrightarrow>
     read_supervisor_request (bytes @ rest) = Inr (x, rest)"
  by (simp add: write_supervisor_Inr read_supervisor_request_def supervisor.written_back presentable_readable)

text \<open>The reader stops at the treatment it does not know.\<close>

lemma decode_evaluator_cycle:
  assumes "command_request_ok x" "1 \<le> cr_capability x" "cr_capability x \<le> 23" "\<not> body_readable (cr_body x)"
  shows "decode_command_request (command_request_bytes x @ r) = Inl InvalidValue"
proof -
  obtain v where b: "cr_body x = ProposeOperatingCycle DeterministicEvaluatorFixtureV1 v"
    using assms(4) by (auto simp: body_readable_def split: client_command_body.splits)
  have "decoded operating_cycle_treatment_from_u8 cursor_u8 (wire_u8 4 @ s) = Inl InvalidValue" for s
    by (simp add: decoded_def w_u8.read_back u8_ok_def operating_cycle_treatment_from_u8_def)
  then have "decode_client_command_body 7 (client_body_bytes (cr_body x) @ r) = Inl InvalidValue"
    using b by (simp add: decode_client_command_body_def)
  moreover have "cursor_u8 (wire_u8 7 @ s) = Inr (7, s)" for s by (simp add: w_u8.read_back u8_ok_def)
  ultimately show ?thesis using assms(1-3) b
    by (simp add: decode_command_request_def command_request_bytes_def command_request_ok_def field_reads
        w_generation.read_back)
qed

lemma read_message_stops:
  assumes "write_frame (message_head t c @ content) = Inr bytes" "correlation_ok c" "u8_ok t"
    and "body t c content = Inl e"
  shows "read_message body (bytes @ rest) = Inl e"
proof -
  have "read_frame (bytes @ rest) = Inr (message_head t c @ content, rest)" using assms(1) read_frame_write by blast
  moreover have "cursor_u16 (wire_u16 8 @ s) = Inr (8, s)" for s by (simp add: w_u16.exact unsigned_ok_def)
  ultimately show ?thesis
    using assms(2-4) by (simp add: read_message_def message_reading_def message_head_def w_u8.read_back
        w_correlation.read_back)
qed

lemma read_evaluator_cycle:
  assumes "supervisor_request_ok x" "proposes_evaluator_cycle x" "write_supervisor_request x = Inr bytes"
  shows "read_supervisor_request (bytes @ rest) = Inl InvalidValue"
proof -
  obtain c y where x: "x = SupervisorExecute c y" using assms(2) by (cases x) simp_all
  have p: "supervisor_presentable x" "write_frame (supervisor.payload x) = Inr bytes"
    using assms(3) by (simp_all add: write_supervisor_Inr)
  have "supervisor_request_body 65 c (command_request_bytes y) = Inl InvalidValue"
    using decode_evaluator_cycle [of y "[]"] x assms(1,2) p(1)
    by (auto simp: supervisor_request_body_def supervisor_capability_is_representable_def)
  then show ?thesis unfolding read_supervisor_request_def
    using x p(2) assms(1)
    by (intro read_message_stops [where t = 65 and c = c and content = "command_request_bytes y"])
      (simp_all add: supervisor.payload_def u8_ok_def)
qed

text \<open>A frame of another vocabulary stops at its tag.\<close>

lemma supervisor_frame_not_public:
  assumes "supervisor_request_ok x" "write_supervisor_request x = Inr bytes"
  shows "read_public_request (bytes @ rest) = Inl UnknownTag"
proof -
  have c: "correlation_ok (supervisor_correlation x)" using assms(1) by (cases x) simp_all
  have b: "public_request_body (supervisor_tag x) (supervisor_correlation x) s = Inl UnknownTag" for s
    by (cases x) (simp_all add: public_request_body_def failing_def)
  have w: "write_frame (message_head (supervisor_tag x) (supervisor_correlation x) @ supervisor_content x) = Inr bytes"
    using assms(2) by (simp add: write_supervisor_Inr supervisor.payload_def)
  show ?thesis unfolding read_public_request_def by (rule read_message_stops [where body = public_request_body, OF w c supervisor.tag_u8 b])
qed

subsection \<open>Responses\<close>

text \<open>The responses the reader admits, and those the field types admit.\<close>

primrec response_ok :: "response \<Rightarrow> bool" where
  "response_ok (ResponseCommandReceipt c v) = (correlation_ok c \<and> receipt_view_ok v)"
| "response_ok (ResponseCommandReceiptLookup c v) = (correlation_ok c \<and> optional_ok receipt_view_ok v)"
| "response_ok (ResponseStatus c v) = (correlation_ok c \<and> in_i64 (case v of FreshServing n \<Rightarrow> n | RecoveryFenced n \<Rightarrow> n))"
| "response_ok (ResponseStudyPairObservation c v) = (correlation_ok c \<and> optional_ok pair_observation_ok v)"
| "response_ok (ResponseStudyRunSummary c v) = (correlation_ok c \<and> optional_ok run_summary_ok v)"
| "response_ok (ResponseStudyRunPairRegistration c v) = (correlation_ok c \<and> optional_ok registration_ok v)"
| "response_ok (ResponseActiveCapabilityGrant c v) = (correlation_ok c \<and> optional_ok identifier_ok v)"
| "response_ok (ResponseError c v) = correlation_ok c"

definition response_typed :: "response \<Rightarrow> bool" where
  "response_typed r \<longleftrightarrow> (case r of
     ResponseStudyPairObservation c v \<Rightarrow> correlation_ok c \<and> optional_ok pair_observation_typed v
   | _ \<Rightarrow> response_ok r)"

primrec response_tag :: "response \<Rightarrow> int" where
  "response_tag (ResponseCommandReceipt _ _) = 1"
| "response_tag (ResponseCommandReceiptLookup _ _) = 2"
| "response_tag (ResponseStatus _ _) = 3"
| "response_tag (ResponseStudyPairObservation _ _) = 6"
| "response_tag (ResponseStudyRunSummary _ _) = 7"
| "response_tag (ResponseStudyRunPairRegistration _ _) = 8"
| "response_tag (ResponseActiveCapabilityGrant _ _) = 5"
| "response_tag (ResponseError _ _) = 4"

primrec response_correlation :: "response \<Rightarrow> int" where
  "response_correlation (ResponseCommandReceipt c _) = c"
| "response_correlation (ResponseCommandReceiptLookup c _) = c"
| "response_correlation (ResponseStatus c _) = c"
| "response_correlation (ResponseStudyPairObservation c _) = c"
| "response_correlation (ResponseStudyRunSummary c _) = c"
| "response_correlation (ResponseStudyRunPairRegistration c _) = c"
| "response_correlation (ResponseActiveCapabilityGrant c _) = c"
| "response_correlation (ResponseError c _) = c"

primrec response_content :: "response \<Rightarrow> byte list" where
  "response_content (ResponseCommandReceipt _ v) = encode_receipt v"
| "response_content (ResponseCommandReceiptLookup _ v) = wire_optional encode_receipt v"
| "response_content (ResponseStatus _ v) = status_bytes v"
| "response_content (ResponseStudyPairObservation _ v) = wire_optional pair_bytes v"
| "response_content (ResponseStudyRunSummary _ v) = wire_optional encode_study_run_summary v"
| "response_content (ResponseStudyRunPairRegistration _ v) = wire_optional encode_study_run_pair_registration v"
| "response_content (ResponseActiveCapabilityGrant _ v) = wire_optional wire_i64 v"
| "response_content (ResponseError _ v) = wire_u8 (protocol_error_byte v)"

lemma status_exact:
  "and_then cursor_u8 (\<lambda>k. and_then cursor_i64 (\<lambda>n. if k = 1 then yielding (ResponseStatus c (FreshServing n))
     else if k = 2 then yielding (ResponseStatus c (RecoveryFenced n)) else failing InvalidValue)) s = Inr (x, r) \<longleftrightarrow>
   (\<exists>v. x = ResponseStatus c v \<and> in_i64 (case v of FreshServing n \<Rightarrow> n | RecoveryFenced n \<Rightarrow> n) \<and> s = status_bytes v @ r)"
  (is "?d s = _ \<longleftrightarrow> ?R")
proof
  assume "?d s = Inr (x, r)"
  then show ?R by (auto simp: and_then_Inr yielding_Inr failing_Inr w_u8.exact w_i64.exact split: if_splits)
next
  assume ?R
  then obtain v where "x = ResponseStatus c v" "in_i64 (case v of FreshServing n \<Rightarrow> n | RecoveryFenced n \<Rightarrow> n)"
    "s = status_bytes v @ r" by blast
  then show "?d s = Inr (x, r)"
    by (cases v) (simp_all add: w_u8.read_back w_i64.read_back u8_ok_def yielding_def)
qed

lemmas optional_parts = w_receipt.optional_exact [OF wire_bool_exact] w_pair.optional_exact [OF wire_bool_exact]
  w_summary.optional_exact [OF wire_bool_exact] w_registration.optional_exact [OF wire_bool_exact]
  w_id.optional_exact [OF wire_bool_exact]

interpretation answers: vocabulary response_ok response_tag response_correlation response_content response_body
proof
  fix t c :: int and s r and x :: response
  assume c: "correlation_ok c"
  show "response_body t c s = Inr (x, r) \<longleftrightarrow>
      response_ok x \<and> t = response_tag x \<and> c = response_correlation x \<and> s = response_content x @ r"
    using c by (cases x) (auto simp: response_body_def status_exact and_then_Inr [of decode_receipt]
        and_then_Inr [of "cursor_optional _"] and_then_Inr [of "decoded _ _"] yielding_Inr failing_Inr
        w_receipt.exact optional_parts enum_exact)
next
  fix x show "u8_ok (response_tag x)" by (cases x) (simp_all add: u8_ok_def)
next
  fix x assume "response_ok x"
  then show "correlation_ok (response_correlation x)" by (cases x) simp_all
qed

lemma response_payload_ok: "response_ok x \<Longrightarrow> response_payload x = Inr (answers.payload x)"
  by (cases x) (auto simp: answers.payload_def wire_optional_def optional_ok_def encode_pair_observation
      split: option.splits)

lemma read_response_exact:
  "read_response s = Inr (x, rest) \<longleftrightarrow>
     response_ok x \<and> (\<exists>bytes. write_response x = Inr bytes \<and> s = bytes @ rest)"
  by (auto simp: read_response_def write_response_def response_payload_ok answers.read_exact)


subsection \<open>Every response fits a frame\<close>

lemma wire_lengths [simp]:
  "length (wire_u8 v) = 1" "length (wire_u16 v) = 2" "length (wire_i64 v) = 8" "length (wire_bool b) = 1"
  "length (wire_correlation v) = 8" "length (message_head t c) = 11"
  by (simp_all add: wire_u8_def wire_u16_def wire_i64_def wire_bool_def wire_correlation_def message_head_def)

lemma optional_length:
  "optional_ok ok v \<Longrightarrow> (\<And>x. ok x \<Longrightarrow> length (enc x) \<le> n) \<Longrightarrow> length (wire_optional enc v) \<le> Suc n"
  by (cases v) (simp_all add: wire_optional_def optional_ok_def)

lemma digest_length: "digest_ok d \<Longrightarrow> length (wire_digest d) = 32"
  by (simp add: digest_ok_def wire_digest_def)

lemma optional_lengths:
  "length (wire_optional wire_i64 i) \<le> 9" "optional_ok digest_ok d \<Longrightarrow> length (wire_optional wire_digest d) \<le> 33"
  using optional_length [of "\<lambda>_. True" i wire_i64 8] optional_length [of digest_ok d wire_digest 32]
  by (simp_all add: optional_ok_def digest_length split: option.splits)

lemma measurement_length:
  "measurement_observation_ok m \<Longrightarrow> length (encode_study_measurement_observation m) \<le> 77"
  using optional_lengths(1) [of "om_value m"] optional_lengths(2) [of "om_value_digest m"]
    optional_lengths(2) [of "om_reason_digest m"]
  by (simp add: encode_study_measurement_observation_def measurement_observation_ok_def)

lemma concat_length_le: "list_all ok xs \<Longrightarrow> (\<And>x. ok x \<Longrightarrow> length (f x) \<le> n) \<Longrightarrow> length (concat (map f xs)) \<le> length xs * n"
  by (induction xs) (auto intro: add_mono)

lemma episode_length: "episode_observation_ok e \<Longrightarrow> length (episode_bytes e) \<le> 5200"
proof -
  assume e: "episode_observation_ok e"
  have "length (concat (map encode_study_measurement_observation (oe_measurements e))) \<le> length (oe_measurements e) * 77"
    using e by (intro concat_length_le [of measurement_observation_ok] measurement_length)
      (simp_all add: episode_observation_ok_def)
  moreover have "length (oe_measurements e) \<le> 64"
    using e by (simp add: episode_observation_ok_def episode_columns_ok_def ordinal64_ok_def)
  moreover have "length (episode_columns e) \<le> 230"
    using e optional_lengths(1) [of "oe_successor_population e"] optional_lengths(1) [of "oe_frozen_head e"]
      optional_lengths(2) [of "oe_reveal e"] digest_length [of "oe_randomization e"]
    by (simp add: episode_columns_def episode_observation_ok_def episode_columns_ok_def)
  ultimately show ?thesis by (simp add: episode_bytes_def)
qed

lemma response_length: "response_ok x \<Longrightarrow> length (response_content x) \<le> 10409"
proof (cases x)
  case (ResponseCommandReceipt c v)
  then show ?thesis by (cases v) simp_all
next
  case (ResponseCommandReceiptLookup c v)
  have "length (encode_receipt w) \<le> 10" for w by (cases w) simp_all
  then have "length (wire_optional encode_receipt v) \<le> Suc 10"
    by (intro optional_length [of "\<lambda>_. True"]) (simp_all add: optional_ok_def split: option.splits)
  then show ?thesis using ResponseCommandReceiptLookup by simp
next
  case (ResponseStatus c v)
  then show ?thesis by (cases v) simp_all
next
  case (ResponseStudyPairObservation c v)
  assume "response_ok x"
  then have "length (wire_optional pair_bytes v) \<le> Suc 10408"
    using ResponseStudyPairObservation episode_length
    by (intro optional_length [of pair_observation_ok])
      (auto simp: pair_bytes_def pair_observation_ok_def intro: add_mono order.trans [OF add_mono [of _ 5200 _ 5200]])
  then show ?thesis using ResponseStudyPairObservation by simp
next
  case (ResponseStudyRunSummary c v)
  assume "response_ok x"
  then have "length (wire_optional encode_study_run_summary v) \<le> Suc 61"
    using ResponseStudyRunSummary
    by (intro optional_length [of run_summary_ok])
      (auto simp: encode_study_run_summary_def run_summary_ok_def digest_length)
  then show ?thesis using ResponseStudyRunSummary by simp
next
  case (ResponseStudyRunPairRegistration c v)
  assume "response_ok x"
  then have "length (wire_optional encode_study_run_pair_registration v) \<le> Suc 42"
    using ResponseStudyRunPairRegistration
    by (intro optional_length [of registration_ok])
      (auto simp: encode_study_run_pair_registration_def registration_ok_def digest_length)
  then show ?thesis using ResponseStudyRunPairRegistration by simp
next
  case (ResponseActiveCapabilityGrant c v)
  then show ?thesis using optional_lengths(1) [of v] by simp
qed simp

lemma response_written:
  assumes "response_ok x"
  shows "\<exists>bytes. write_response x = Inr bytes \<and> length bytes \<le> 10424 \<and> read_response (bytes @ rest) = Inr (x, rest)"
proof -
  have l: "length (answers.payload x) \<le> 10420" using response_length [OF assms] by (simp add: answers.payload_def)
  then have "write_response x = Inr (be_bytes 4 (int (length (answers.payload x))) @ answers.payload x)"
    using assms by (simp add: write_response_def response_payload_ok write_frame_def)
  then show ?thesis using assms l by (auto simp: read_response_exact)
qed

end
