(* ===== verification/Study_Observation.thy ===== *)
theory Study_Observation
  imports Study_Outcome Ledger Wire_Values
begin

text \<open>
  The read model of a matched pair (\<open>pair_observation\<close> and \<open>episode_observation\<close> of
  \<^verbatim>\<open>study.rs\<close>) and the daemon's query over it: one row joined from the tables of an episode, the
  counts of its obligations, bindings, messages, reads and decisions, and its measurement results in
  slot order.  In every reachable database an observation has at most as many measurements as its
  revision has slots.
\<close>

section \<open>Columns\<close>

text \<open>The \<open>?\<close> of a query.\<close>

definition queried :: "store_error + 'a \<Rightarrow> ('a \<Rightarrow> store_error + 'b) \<Rightarrow> store_error + 'b" where
  "queried x f = (case x of Inl err \<Rightarrow> Inl err | Inr v \<Rightarrow> f v)"

lemma queried_Inr: "queried x f = Inr w \<longleftrightarrow> (\<exists>v. x = Inr v \<and> f v = Inr w)"
  by (cases x) (simp_all add: queried_def)

text \<open>
  \<open>try_from\<close> of an identifier, of a slot and of a slot count, \<open>exact_digest\<close>, and \<open>COUNT\<close> or
  \<open>SUM(...)::BIGINT\<close>, which the database refuses outside \<open>BIGINT\<close>.
\<close>

definition stored_value :: "('a \<Rightarrow> bool) \<Rightarrow> 'a \<Rightarrow> store_error + 'a" where
  "stored_value ok v = (if ok v then Inr v else Inl InvalidStoredValue)"

definition stored_optional :: "('a \<Rightarrow> bool) \<Rightarrow> 'a option \<Rightarrow> store_error + 'a option" where
  "stored_optional ok v = stored_value (optional_ok ok) v"

definition bigint_aggregate :: "int \<Rightarrow> store_error + int" where
  "bigint_aggregate v = (if in_i64 v then Inr v else Inl DatabaseFailure)"

section \<open>Aggregates of one episode\<close>

text \<open>The obligations of an episode, and those in a terminal lifecycle state (2 or 3).\<close>

definition obligations_counted :: "study_db \<Rightarrow> int \<Rightarrow> (obligation_row \<Rightarrow> bool) \<Rightarrow> int" where
  "obligations_counted db e p = count_where (\<lambda>_ r. ob_episode r = e \<and> p r) (obligations db)"

definition terminal_obligation :: "obligation_row \<Rightarrow> bool" where
  "terminal_obligation r \<longleftrightarrow> ob_state r \<in> {ObligationCompleted, ObligationFailed}"

text \<open>\<open>study_actor_obligations\<close> joined with a table, for the rows of one episode.\<close>

definition of_episode :: "study_db \<Rightarrow> int \<Rightarrow> int \<Rightarrow> bool" where
  "of_episode db e ob \<longleftrightarrow> (case select_pk (obligations db) ob of Some r \<Rightarrow> ob_episode r = e | None \<Rightarrow> False)"

text \<open>\<open>study_episode_forums\<close> joined with its threads and their messages.\<close>

definition thread_of_episode :: "study_db \<Rightarrow> int \<Rightarrow> int \<Rightarrow> bool" where
  "thread_of_episode db e t \<longleftrightarrow> (case forum_of_thread db t of Some (_, _, f) \<Rightarrow> fo_episode f = e | None \<Rightarrow> False)"

section \<open>Measurement results\<close>

definition measurement_observed :: "result_row \<Rightarrow> store_error + study_measurement_observation" where
  "measurement_observed r =
     queried (stored_value ordinal64_ok (me_slot r)) (\<lambda>slot.
     queried (stored_optional digest_ok (me_value_digest r)) (\<lambda>value_digest.
     queried (stored_optional digest_ok (me_reason r)) (\<lambda>reason_digest.
       Inr \<lparr>om_slot = slot, om_status = me_status r, om_value = me_value r, om_value_digest = value_digest,
            om_reason_digest = reason_digest\<rparr>)))"

primrec measurements_observed :: "result_row list \<Rightarrow> store_error + study_measurement_observation list" where
  "measurements_observed [] = Inr []"
| "measurements_observed (r # rs) =
     queried (measurement_observed r) (\<lambda>m. queried (measurements_observed rs) (\<lambda>ms. Inr (m # ms)))"

text \<open>\<open>SELECT ... WHERE study_episode_id = $1 ORDER BY measurement_slot\<close>.\<close>

definition results_of :: "study_db \<Rightarrow> int \<Rightarrow> result_row list" where
  "results_of db e = sort_key me_slot (map snd (filter (\<lambda>(_, r). me_episode r = e) (tb_rows (results db))))"

section \<open>One episode and one pair\<close>

text \<open>
  \<open>episode_observation\<close>.  The join of the episode with its assignment, measurement revision, successor
  population and frozen head answers at most one row; every aggregate is a query of its own.
\<close>

definition episode_observation :: "study_db \<Rightarrow> int \<Rightarrow> store_error + study_episode_observation" where
  "episode_observation db e =
     (case Option.bind (select_pk (episodes db) e) (\<lambda>er. Option.bind (treatment_of db e) (\<lambda>(_, a).
             map_option (\<lambda>mr. (er, a, mr)) (select_pk (measurements db) (ep_measurement er)))) of
        None \<Rightarrow> Inl InvalidStoredValue
      | Some (er, a, mr) \<Rightarrow>
          queried (bigint_aggregate (obligations_counted db e (\<lambda>r. ob_phase r = Source))) (\<lambda>source.
          queried (bigint_aggregate (obligations_counted db e (\<lambda>r. ob_phase r = Source \<and> terminal_obligation r)))
            (\<lambda>source_terminal.
          queried (bigint_aggregate (obligations_counted db e (\<lambda>r. ob_phase r = Successor))) (\<lambda>successor.
          queried (bigint_aggregate (obligations_counted db e (\<lambda>r. ob_phase r = Successor \<and> terminal_obligation r)))
            (\<lambda>successor_terminal.
          queried (bigint_aggregate (obligations_counted db e (\<lambda>r. ob_state r = ObligationFailed))) (\<lambda>failed.
          queried (bigint_aggregate (count_where (\<lambda>ob _. of_episode db e ob) (bindings db))) (\<lambda>bound.
          queried (bigint_aggregate (count_where (\<lambda>ob r. of_episode db e ob \<and> rb_state r = Reconciled) (bindings db)))
            (\<lambda>reconciled.
          queried (bigint_aggregate (count_where (\<lambda>_ m. thread_of_episode db e (ms_thread m)) (messages db)))
            (\<lambda>posted.
          queried (bigint_aggregate (count_where (\<lambda>_ r. of_episode db e (rr_obligation r)) (receipts db))) (\<lambda>reads.
          queried (bigint_aggregate (sum_where (\<lambda>_ r. of_episode db e (rr_obligation r)) rr_bytes (receipts db)))
            (\<lambda>returned.
          queried (bigint_aggregate (count_where (\<lambda>ob _. of_episode db e ob) (decisions db))) (\<lambda>decided.
          queried (measurements_observed (results_of db e)) (\<lambda>measured.
          queried (stored_value identifier_ok (ep_protocol er)) (\<lambda>protocol.
          queried (stored_value identifier_ok (ep_world er)) (\<lambda>world.
          queried (stored_value identifier_ok (ep_measurement er)) (\<lambda>measurement.
          queried (stored_value ordinal64_ok (mr_slots mr)) (\<lambda>slots.
          queried (stored_value identifier_ok (ep_institution er)) (\<lambda>institution.
          queried (stored_value identifier_ok (ep_population er)) (\<lambda>population.
          queried (stored_optional identifier_ok (map_option su_population (select_pk (successors db) e)))
            (\<lambda>successor_population.
          queried (stored_value digest_ok (ep_randomization er)) (\<lambda>randomization.
          queried (stored_optional digest_ok (map_option gt_digest (select_pk (reveals db) e))) (\<lambda>reveal.
            Inr \<lparr>oe_episode = e, oe_protocol = protocol, oe_world = world, oe_measurement = measurement,
                 oe_slot_count = slots, oe_institution = institution, oe_source_population = population,
                 oe_successor_population = successor_population, oe_randomization = randomization,
                 oe_treatment = ta_treatment a, oe_state = ep_state er, oe_source_obligations = source,
                 oe_source_terminal = source_terminal, oe_successor_obligations = successor,
                 oe_successor_terminal = successor_terminal, oe_failed = failed, oe_bindings = bound,
                 oe_reconciled_bindings = reconciled,
                 oe_frozen_head = map_option fz_head (select_pk (frozen db) e), oe_messages = posted,
                 oe_reads = reads, oe_returned_bytes = returned, oe_decisions = decided, oe_reveal = reveal,
                 oe_measurements = measured\<rparr>))))))))))))))))))))))"

text \<open>\<open>pair_observation\<close>: \<open>Inr None\<close> is \<open>StudyPairNotFound\<close>, which the daemon's
  \<open>study_pair_observation\<close> answers as an absent pair.\<close>

definition study_pair_observation :: "study_db \<Rightarrow> int \<Rightarrow> store_error + study_pair_observation option" where
  "study_pair_observation db p =
     (case select_pk (pairs db) p of
        None \<Rightarrow> Inr None
      | Some pr \<Rightarrow>
          queried (stored_value identifier_ok (pa_retained pr)) (\<lambda>a.
          queried (episode_observation db a) (\<lambda>retained.
          queried (stored_value identifier_ok (pa_reset pr)) (\<lambda>b.
          queried (episode_observation db b) (\<lambda>reset.
            if oe_treatment retained \<noteq> Retained \<or> oe_treatment reset \<noteq> Reset
            then Inl (LedgerCorruption ''study pair treatment assignments do not match retained/reset membership'')
            else Inr (Some \<lparr>op_pair = p, op_retained = retained, op_reset = reset\<rparr>))))))"

section \<open>As many measurements as slots at most\<close>

lemma measurements_observed_length: "measurements_observed rs = Inr ms \<Longrightarrow> length ms = length rs"
  by (induction rs arbitrary: ms) (auto simp: queried_Inr)

lemma results_of_count: "int (length (results_of db e)) = result_count db e"
  by (simp add: results_of_def result_count_def count_where_def)

text \<open>The results of an episode fill distinct slots of its revision.\<close>

lemma results_within_slots:
  assumes s: "structure_ok h db" and e: "select_pk (episodes db) e = Some er"
    and mr: "select_pk (measurements db) (ep_measurement er) = Some mr"
  shows "result_count db e \<le> max 0 (mr_slots mr)"
proof -
  have wf: "wf_table (results db)" using structureD(1) [OF s] by (simp add: tables_wf_def)
  have u: "unique_on (\<lambda>r. (me_episode r, me_slot r)) (results db)"
    using structureD(2) [OF s] by (simp add: uniques_def)
  let ?K = "{k. \<exists>r. select_pk (results db) k = Some r \<and> me_episode r = e}"
  let ?slot = "\<lambda>k. me_slot (the (select_pk (results db) k))"
  have inj: "inj_on ?slot ?K"
    using unique_onD [OF u] by (fastforce simp: inj_on_def)
  have "?slot ` ?K \<subseteq> {1..mr_slots mr}"
    using rows_okD(17) [OF structureD(3) [OF s]] e mr by (fastforce simp: result_ok_def)
  then have "card ?K \<le> card {1..mr_slots mr}"
    using card_mono [of "{1..mr_slots mr}" "?slot ` ?K"] card_image [OF inj] by simp
  then show ?thesis by (simp add: result_count_def count_where_card [OF wf])
qed

lemma episode_observation_within_slots:
  assumes s: "structure_ok h db" and o: "episode_observation db e = Inr obs"
  shows "int (length (oe_measurements obs)) \<le> oe_slot_count obs"
proof -
  obtain er mr where r: "select_pk (episodes db) e = Some er"
      "select_pk (measurements db) (ep_measurement er) = Some mr" "ordinal64_ok (mr_slots mr)"
      "oe_slot_count obs = mr_slots mr" "measurements_observed (results_of db e) = Inr (oe_measurements obs)"
    using o by (auto simp: episode_observation_def queried_Inr stored_value_def bind_eq_Some_conv
        split: option.splits if_splits)
  have "int (length (oe_measurements obs)) = result_count db e"
    using measurements_observed_length [OF r(5)] results_of_count [of db e] by simp
  then show ?thesis using results_within_slots [OF s r(1,2)] r(3,4) by (simp add: ordinal64_ok_def)
qed

end
