(* ===== verification/Wire_Contract.thy ===== *)
theory Wire_Contract
  imports Wire_Messages Study_Observation Kernel_Scenario
begin

text \<open>
  What the resident wire protocol promises its two ends: the monitor codec is exact, what a
  supervisor writes is read back, every answer of the daemon can be delivered, and the monitor
  socket cannot carry a command.
\<close>

section \<open>Concrete observations\<close>

text \<open>A matched pair measured in both arms, under digests of 32 bytes.\<close>

definition measured_script :: "(study_command + kernel_env) list" where
  "measured_script = [
     Inl (AdmitProtocolRevision 1 (seed 1) (seed 1) (seed 236) (seed 153) (seed 1) (seed 2) (seed 3) (seed 1) 100),
     Inl (AdmitWorldRevision 1 (seed 1)),
     Inl (AdmitMeasurementRevision 1 (seed 1) 1),
     Inl (AdmitInstitutionRevision 1 (seed 1)),
     Inl (AdmitPopulationSnapshot 1 (seed 1) 1),
     Inl (AdmitPopulationSnapshot 1 (seed 1) 1),
     Inl (AdmitEpisode 1 1 1 1 1 (seed 7)),
     Inl (AdmitEpisode 1 1 1 1 1 (seed 7)),
     Inl (AssignTreatment 1 Retained),
     Inl (AssignTreatment 2 Reset),
     Inl (AdmitMatchedPair 1 2),
     Inl (CreateEpisodeForum 1 (seed 1)),
     Inl (CreateEpisodeForum 2 (seed 1)),
     Inl (OpenForumThread 1 [1]),
     Inl (OpenForumThread 2 [1]),
     Inl (AdmitActorObligation 1 Source 1 (seed 1) (seed 236) (seed 153) 10 1 1),
     Inl (AdmitActorObligation 2 Source 1 (seed 1) (seed 236) (seed 153) 10 1 1),
     Inl (AdmitForumExposure 1 1 1),
     Inl (AdmitForumExposure 2 2 1),
     Inl (PublishForumMessage 1 Finding [1] None None),
     Inl (PublishForumMessage 2 Finding [1] None None),
     Inl (CompleteActorObligation 1 5),
     Inl (CompleteActorObligation 2 5),
     Inl (FreezeForumHead 1 1),
     Inl (FreezeForumHead 2 2),
     Inl (ReplacePopulation 1 2),
     Inl (ReplacePopulation 2 2),
     Inl (AdmitActorObligation 1 Successor 1 (seed 1) (seed 236) (seed 153) 10 2 2),
     Inl (AdmitActorObligation 2 Successor 1 (seed 1) (seed 236) (seed 153) 10 2 2),
     Inl (AdmitForumExposure 3 1 1),
     Inl (AdmitForumExposure 4 2 2),
     Inl (ReleaseMatchedCorrection 1 1 2 [1,2,3]),
     Inl (FailActorObligation 3 (seed 9)),
     Inl (FailActorObligation 4 (seed 9)),
     Inl (RevealGroundTruth 1 [1,2]),
     Inl (RevealGroundTruth 2 [1,2]),
     Inl (RecordMeasurementResult 1 1 Observed (Some 1) (Some (seed 1)) None),
     Inl (RecordMeasurementResult 2 1 Unavailable None None (Some (seed 1)))]"

definition measured_pair :: study_pair_observation where
  "measured_pair = (let e = \<lparr>oe_episode = 1, oe_protocol = 1, oe_world = 1, oe_measurement = 1, oe_slot_count = 1,
       oe_institution = 1, oe_source_population = 1, oe_successor_population = Some 2, oe_randomization = seed 7,
       oe_treatment = Retained, oe_state = CorrectionReleased, oe_source_obligations = 1, oe_source_terminal = 1,
       oe_successor_obligations = 1, oe_successor_terminal = 1, oe_failed = 1, oe_bindings = 0,
       oe_reconciled_bindings = 0, oe_frozen_head = Some 1, oe_messages = 2, oe_reads = 0, oe_returned_bytes = 0,
       oe_decisions = 0, oe_reveal = Some (seed 2),
       oe_measurements = [\<lparr>om_slot = 1, om_status = Observed, om_value = Some 1, om_value_digest = Some (seed 1),
          om_reason_digest = None\<rparr>]\<rparr>
     in \<lparr>op_pair = 1, op_retained = e, op_reset = e\<lparr>oe_episode := 2, oe_treatment := Reset,
          oe_measurements := [\<lparr>om_slot = 1, om_status = Unavailable, om_value = None, om_value_digest = None,
          om_reason_digest = Some (seed 1)\<rparr>]\<rparr>\<rparr>)"

lemma measured_run:
  "(case run_script kernel_hash 1 measured_script (empty_study_db (scenario_env [(1, seed 1)] ChildRunning)) of
      Some db \<Rightarrow> study_pair_observation db 1 = Inr (Some measured_pair)
    | None \<Rightarrow> False)"
  by code_simp

lemma measured_reachable:
  obtains db where "study_reachable kernel_hash db" "study_pair_observation db 1 = Inr (Some measured_pair)"
  using measured_run run_script_reachable [OF study_reachable.initial, where ops = measured_script]
  by (fastforce split: option.splits)

section \<open>Promises\<close>

text \<open>
  C35: the monitor codec is exact.  A stream is read as a request exactly when it starts with the bytes
  that are written for this request, which then satisfies every constructor of its field types; what
  follows the frame is left.
\<close>

theorem public_request_exact:
  "read_public_request s = Inr (r, rest) \<longleftrightarrow>
     public_request_ok r \<and> (\<exists>bytes. write_public_request r = Inr bytes \<and> s = bytes @ rest)"
  by (rule read_public_exact)

text \<open>
  C36: what a supervisor writes, the daemon reads back as the same request and leaves the bytes behind
  it, with one exception: a proposal of a cycle under the evaluator fixture treatment is written
  without an error and refused by the reader.
\<close>

theorem supervisor_request_roundtrip:
  assumes "supervisor_request_ok r" "write_supervisor_request r = Inr bytes"
  shows "read_supervisor_request (bytes @ rest) =
    (if proposes_evaluator_cycle r then Inl InvalidValue else Inr (r, rest))"
  using read_supervisor_written [OF assms(1) _ assms(2)] read_evaluator_cycle [OF assms(1) _ assms(2)] by simp

theorem supervisor_request_roundtrip_witness:
  "let body = ProposeOperatingCycle DeterministicEvaluatorFixtureV1 5;
       r = SupervisorExecute 1 \<lparr>cr_id = ascii ''cycle'', cr_principal = 1, cr_grant = 7, cr_capability = 7,
             cr_generation = Some 0, cr_body = body\<rparr>
   in \<exists>bytes. write_supervisor_request r = Inr bytes \<and> read_supervisor_request bytes = Inl InvalidValue"
proof -
  define r where "r = SupervisorExecute 1 \<lparr>cr_id = ascii ''cycle'', cr_principal = 1, cr_grant = 7,
    cr_capability = 7, cr_generation = Some 0, cr_body = ProposeOperatingCycle DeterministicEvaluatorFixtureV1 5\<rparr>"
  have "supervisor_request_ok r"
    by (simp add: r_def unsigned_ok_def command_request_ok_def command_id_ok_def ascii_def identifier_ok_def
        study_identifier_new_def optional_ok_def generation_ok_def in_i64_def)
  moreover obtain bytes where "write_supervisor_request r = Inr bytes"
    by (simp add: r_def write_supervisor_request_def encode_command_request_def command_request_bytes_def
        supervisor_capability_is_representable_def write_frame_def wire_string_def ascii_def encode_expected_generation_def)
  moreover have "proposes_evaluator_cycle r" by (simp add: r_def body_readable_def)
  ultimately have "\<exists>bytes. write_supervisor_request r = Inr bytes \<and> read_supervisor_request bytes = Inl InvalidValue"
    using supervisor_request_roundtrip [of r bytes "[]"] by simp
  then show ?thesis by (simp only: r_def Let_def)
qed

text \<open>
  \<open>dispatch_public_query\<close>: a pair observation in an answer is the one the database holds under its
  identifier.
\<close>

definition daemon_answers :: "study_db \<Rightarrow> response \<Rightarrow> bool" where
  "daemon_answers db r \<longleftrightarrow> (case r of
     ResponseStudyPairObservation _ (Some o') \<Rightarrow> study_pair_observation db (op_pair o') = Inr (Some o')
   | _ \<Rightarrow> True)"

lemma loaded_pair_readable:
  assumes reach: "study_reachable h db" and typed: "pair_observation_typed ob"
    and loaded: "study_pair_observation db p = Inr (Some ob)"
  shows "pair_observation_ok ob"
proof -
  have e: "\<exists>a. episode_observation db a = Inr (op_retained ob)" "\<exists>b. episode_observation db b = Inr (op_reset ob)"
    using loaded by (auto simp: study_pair_observation_def queried_Inr split: option.splits if_splits)
  show ?thesis
    using typed e episode_observation_within_slots [OF structure_reachable [OF reach]]
    by (auto simp: pair_observation_typed_def pair_observation_ok_def intro: episode_observation_okI)
qed

text \<open>
  C37: every answer of the daemon can be delivered.  The reader refuses a pair observation with more
  measurements than slots, which the types of its fields do not exclude and the writer does not check;
  no observation the daemon loads from a reachable study database is of this kind.  So every answer
  whose fields are well typed, and whose pair observation, if it carries one, is the one the database
  holds, is written, fits a frame, and is read back by the client as the same answer.
\<close>

theorem response_delivered:
  assumes "study_reachable h db" "response_typed r" "daemon_answers db r"
  shows "\<exists>bytes. write_response r = Inr bytes \<and> length bytes \<le> 10424 \<and> read_response (bytes @ rest) = Inr (r, rest)"
proof (rule response_written)
  show "response_ok r"
    using assms by (auto simp: response_typed_def daemon_answers_def optional_ok_def
        split: response.splits option.splits intro: loaded_pair_readable)
qed

theorem response_delivered_witness:
  "\<exists>bytes. write_response (ResponseStudyPairObservation 9 (Some measured_pair)) = Inr bytes
     \<and> read_response bytes = Inr (ResponseStudyPairObservation 9 (Some measured_pair), [])"
proof -
  obtain db where db: "study_reachable kernel_hash db" "study_pair_observation db 1 = Inr (Some measured_pair)"
    by (rule measured_reachable)
  have "response_typed (ResponseStudyPairObservation 9 (Some measured_pair))" by code_simp
  moreover have "daemon_answers db (ResponseStudyPairObservation 9 (Some measured_pair))"
    using db(2) by (simp add: daemon_answers_def measured_pair_def)
  ultimately show ?thesis using response_delivered [OF db(1), of _ "[]"] by fastforce
qed

text \<open>
  The monitor socket cannot carry a command.  Whatever a supervisor writes, the monitor reader
  stops at its tag, before it looks at a command.
\<close>

lemma monitor_refuses_supervisor_frames:
  assumes "supervisor_request_ok r" "write_supervisor_request r = Inr bytes"
  shows "read_public_request (bytes @ rest) = Inl UnknownTag"
  by (rule supervisor_frame_not_public [OF assms])

end
