(* ===== verification/Provider_Cost.thy ===== *)
theory Provider_Cost
  imports Society_Prelude Complex_Main
begin

text \<open>
  Provider-cost accounting at the two boundaries that compute it: \<^verbatim>\<open>society-pi/src/cost.rs\<close> reads the
  raw IEEE-754 bits of a cumulative cost and rounds it up to micro-dollars in 128-bit integers, and
  \<^verbatim>\<open>society-kernel/src/domain.rs\<close> recomputes the same ceiling in its own types.  \<open>UsageTracker\<close> turns
  cumulative snapshots into charges.  The reference is the real number the bits denote.
\<close>

unbundle bit_operations_syntax

section \<open>Decoding\<close>

datatype cost_decode_error =
    InvalidHex | NonFiniteOrNegative | CostOverflow | InconsistentUsage | RegressedUsage | UnavailableUsage

definition hex_digit :: "byte \<Rightarrow> int option" where
  "hex_digit b =
     (if 0x30 \<le> b \<and> b \<le> 0x39 then Some (uint b - 0x30)
      else if 0x41 \<le> b \<and> b \<le> 0x46 then Some (uint b - 0x37)
      else if 0x61 \<le> b \<and> b \<le> 0x66 then Some (uint b - 0x57) else None)"

fun hex_value :: "int \<Rightarrow> byte list \<Rightarrow> int option" where
  "hex_value acc [] = Some acc"
| "hex_value acc (b # s) =
     (case hex_digit b of
        None \<Rightarrow> None
      | Some d \<Rightarrow> if 16 * acc + d < 18446744073709551616 then hex_value (16 * acc + d) s else None)"

text \<open>\<open>u64::from_str_radix(s, 16)\<close>, which admits a leading plus sign.\<close>

definition u64_from_str_radix_16 :: "byte list \<Rightarrow> int option" where
  "u64_from_str_radix_16 s =
     (let digits = (case s of b # r \<Rightarrow> if b = 0x2B \<and> r \<noteq> [] then r else s | [] \<Rightarrow> []) in
      if digits = [] then None else hex_value 0 digits)"

text \<open>\<open>ProviderCost::from_observation\<close> and \<open>ProviderCostBinary64::from_big_endian\<close> share the sign and exponent test.\<close>

definition negative_or_nonfinite :: "64 word \<Rightarrow> bool" where
  "negative_or_nonfinite bits \<longleftrightarrow> drop_bit 63 bits \<noteq> 0 \<or> drop_bit 52 bits AND 0x7FF = 0x7FF"

definition provider_cost_from_observation :: "byte list \<Rightarrow> cost_decode_error + 64 word" where
  "provider_cost_from_observation hex =
     (case u64_from_str_radix_16 hex of
        None \<Rightarrow> Inl InvalidHex
      | Some v \<Rightarrow>
          let bits = word_of_int v in
          if negative_or_nonfinite bits then Inl NonFiniteOrNegative else Inr bits)"

section \<open>The ceiling\<close>

definition cost_exponent :: "64 word \<Rightarrow> int" where
  "cost_exponent bits = uint (drop_bit 52 bits AND 0x7FF)"

definition cost_fraction :: "64 word \<Rightarrow> 64 word" where
  "cost_fraction bits = bits AND (push_bit 52 1 - 1)"

definition cost_significand :: "64 word \<Rightarrow> 128 word" where
  "cost_significand bits =
     (if cost_exponent bits = 0 then ucast (cost_fraction bits) else ucast (push_bit 52 1 OR cost_fraction bits))"

definition cost_binary_exponent :: "64 word \<Rightarrow> int" where
  "cost_binary_exponent bits = (if cost_exponent bits = 0 then - 1074 else cost_exponent bits - 1023 - 52)"

text \<open>\<open>u128::checked_mul\<close> tests the product; \<open>u128::checked_shl\<close> tests only the shift amount.\<close>

definition u128_checked_mul :: "128 word \<Rightarrow> 128 word \<Rightarrow> 128 word option" where
  "u128_checked_mul a b = (if uint a * uint b < 2 ^ 128 then Some (a * b) else None)"

definition u128_checked_shl :: "128 word \<Rightarrow> int \<Rightarrow> 128 word option" where
  "u128_checked_shl a n = (if n < 128 then Some (push_bit (nat n) a) else None)"

definition ceil_to_micro_usd :: "64 word \<Rightarrow> cost_decode_error + 128 word" where
  "ceil_to_micro_usd bits =
     (if cost_exponent bits = 0 \<and> cost_fraction bits = 0 then Inr 0
      else case u128_checked_mul (cost_significand bits) 1000000 of
        None \<Rightarrow> Inl CostOverflow
      | Some numerator \<Rightarrow>
          if cost_binary_exponent bits \<ge> 0 then
            (case u128_checked_shl numerator (cost_binary_exponent bits) of
               None \<Rightarrow> Inl CostOverflow
             | Some v \<Rightarrow> Inr v)
          else let shift = - cost_binary_exponent bits in
            if shift \<ge> 128 then Inr 1
            else let denominator = push_bit (nat shift) 1 :: 128 word in
              Inr (numerator div denominator + (if numerator mod denominator \<noteq> 0 then 1 else 0)))"

text \<open>\<open>ProviderCostBinary64::ceil_micro_usd\<close> of the kernel, with its final conversion to \<open>i64\<close>.\<close>

definition kernel_ceil_micro_usd :: "64 word \<Rightarrow> int option" where
  "kernel_ceil_micro_usd bits =
     (if cost_exponent bits = 0 \<and> cost_fraction bits = 0 then Some 0
      else case u128_checked_mul (cost_significand bits) 1000000 of
        None \<Rightarrow> None
      | Some numerator \<Rightarrow>
          (case (if cost_binary_exponent bits \<ge> 0 then u128_checked_shl numerator (cost_binary_exponent bits)
                 else let shift = - cost_binary_exponent bits in
                   if shift \<ge> 128 then Some 1
                   else let denominator = push_bit (nat shift) 1 :: 128 word in
                     Some (numerator div denominator + (if numerator mod denominator \<noteq> 0 then 1 else 0))) of
             None \<Rightarrow> None
           | Some v \<Rightarrow> if uint v \<le> i64_max then Some (uint v) else None))"

section \<open>Usage\<close>

record usage_totals =
  ut_input :: int
  ut_output :: int
  ut_cache_read :: int
  ut_cache_write :: int
  ut_total :: int
  ut_cost :: "byte list"

datatype usage_observation = KnownUsage usage_totals | UnavailableUsageObservation

record normalized_usage =
  nu_input :: int
  nu_output :: int
  nu_cache_read :: int
  nu_cache_write :: int
  nu_total :: int
  nu_cost :: "64 word"
  nu_ceiling :: "128 word"

definition u64_checked_add :: "int \<Rightarrow> int \<Rightarrow> int option" where
  "u64_checked_add a b = (if a + b < 18446744073709551616 then Some (a + b) else None)"

definition calculated_total :: "usage_totals \<Rightarrow> int option" where
  "calculated_total t =
     Option.bind (u64_checked_add (ut_input t) (ut_output t)) (\<lambda>v.
     Option.bind (u64_checked_add v (ut_cache_read t)) (\<lambda>v. u64_checked_add v (ut_cache_write t)))"

definition normalized_from_totals :: "usage_totals \<Rightarrow> cost_decode_error + normalized_usage" where
  "normalized_from_totals t =
     (case calculated_total t of
        None \<Rightarrow> Inl InconsistentUsage
      | Some n \<Rightarrow>
          if n \<noteq> ut_total t then Inl InconsistentUsage
          else
            (case provider_cost_from_observation (ut_cost t) of
               Inl e \<Rightarrow> Inl e
             | Inr bits \<Rightarrow>
                 (case ceil_to_micro_usd bits of
                    Inl e \<Rightarrow> Inl e
                  | Inr m \<Rightarrow> Inr \<lparr>nu_input = ut_input t, nu_output = ut_output t, nu_cache_read = ut_cache_read t,
                      nu_cache_write = ut_cache_write t, nu_total = n, nu_cost = bits, nu_ceiling = m\<rparr>)))"

record usage_delta =
  ud_input :: int
  ud_output :: int
  ud_cache_read :: int
  ud_cache_write :: int
  ud_total :: int
  ud_micro :: "128 word"
  ud_idempotent :: bool

type_synonym usage_tracker = "normalized_usage option"

definition usage_regressed :: "normalized_usage \<Rightarrow> normalized_usage \<Rightarrow> bool" where
  "usage_regressed current previous \<longleftrightarrow>
     nu_input current < nu_input previous \<or> nu_output current < nu_output previous
     \<or> nu_cache_read current < nu_cache_read previous \<or> nu_cache_write current < nu_cache_write previous
     \<or> nu_total current < nu_total previous \<or> nu_cost current < nu_cost previous
     \<or> nu_ceiling current < nu_ceiling previous"

definition tracker_observe :: "usage_observation \<Rightarrow> usage_tracker \<Rightarrow> (cost_decode_error + usage_delta) \<times> usage_tracker" where
  "tracker_observe observation latest =
     (case observation of
        UnavailableUsageObservation \<Rightarrow> (Inl UnavailableUsage, latest)
      | KnownUsage totals \<Rightarrow>
          (case normalized_from_totals totals of
             Inl e \<Rightarrow> (Inl e, latest)
           | Inr current \<Rightarrow>
               if (case latest of None \<Rightarrow> False | Some previous \<Rightarrow> usage_regressed current previous)
               then (Inl RegressedUsage, latest)
               else
                 let before = (\<lambda>f. case latest of None \<Rightarrow> 0 | Some previous \<Rightarrow> f previous) in
                 (Inr \<lparr>ud_input = nu_input current - before nu_input,
                       ud_output = nu_output current - before nu_output,
                       ud_cache_read = nu_cache_read current - before nu_cache_read,
                       ud_cache_write = nu_cache_write current - before nu_cache_write,
                       ud_total = nu_total current - before nu_total,
                       ud_micro = nu_ceiling current - (case latest of None \<Rightarrow> 0 | Some previous \<Rightarrow> nu_ceiling previous),
                       ud_idempotent = (latest = Some current)\<rparr>, Some current)))"

text \<open>\<open>PiCumulativeUsage::is_internally_consistent\<close> of the kernel.\<close>

record pi_cumulative_usage =
  pu_input :: int
  pu_output :: int
  pu_cache_read :: int
  pu_cache_write :: int
  pu_total :: int
  pu_cost :: "64 word"
  pu_ceiling :: int

definition is_internally_consistent :: "pi_cumulative_usage \<Rightarrow> bool" where
  "is_internally_consistent u \<longleftrightarrow>
     Option.bind (checked_add_i64 (pu_input u) (pu_output u)) (\<lambda>v.
     Option.bind (checked_add_i64 v (pu_cache_read u)) (\<lambda>v. checked_add_i64 v (pu_cache_write u))) = Some (pu_total u)
     \<and> kernel_ceil_micro_usd (pu_cost u) = Some (pu_ceiling u)"

end
