(* ===== verification/Provider_Charges.thy ===== *)
theory Provider_Charges
  imports Provider_Cost
begin

text \<open>
  The cost arithmetic against its reference: the real number a binary64 pattern denotes, rounded up to
  micro-dollars; and the charges of a tracker against the snapshots it has seen.
\<close>

section \<open>The reference value\<close>

text \<open>The exponent field, the fraction and the value of a non-negative binary64 number.\<close>

definition binary64_exponent :: "64 word \<Rightarrow> int" where
  "binary64_exponent bits = uint bits div 2 ^ 52 mod 2 ^ 11"

definition binary64_fraction :: "64 word \<Rightarrow> int" where
  "binary64_fraction bits = uint bits mod 2 ^ 52"

definition binary64_value :: "64 word \<Rightarrow> real" where
  "binary64_value bits =
     (if binary64_exponent bits = 0 then of_int (binary64_fraction bits) * 2 powi (- 1074)
      else of_int (2 ^ 52 + binary64_fraction bits) * 2 powi (binary64_exponent bits - 1023 - 52))"

definition micro_usd :: "64 word \<Rightarrow> int" where
  "micro_usd bits = \<lceil>binary64_value bits * 1000000\<rceil>"

section \<open>Fields\<close>

lemma cost_exponent_eq: "cost_exponent bits = binary64_exponent bits"
proof -
  have "drop_bit 52 bits AND 0x7FF = take_bit 11 (drop_bit 52 bits)"
    by (simp add: take_bit_eq_mask mask_eq_exp_minus_1)
  then have "cost_exponent bits = take_bit 11 (drop_bit 52 (uint bits))"
    using uint_lt2p [of bits]
    by (simp only: cost_exponent_def unsigned_take_bit_eq unsigned_drop_bit_eq) (simp add: take_bit_int_eq_self)
  then show ?thesis by (simp only: binary64_exponent_def take_bit_eq_mod drop_bit_eq_div)
qed

lemma cost_fraction_take: "cost_fraction bits = take_bit 52 bits"
  by (simp add: cost_fraction_def take_bit_eq_mask mask_eq_exp_minus_1)

lemma cost_fraction_eq: "uint (cost_fraction bits) = binary64_fraction bits"
  by (simp only: cost_fraction_take unsigned_take_bit_eq) (simp only: binary64_fraction_def take_bit_eq_mod)

lemma fraction_bounds: "0 \<le> binary64_fraction bits" "binary64_fraction bits < 4503599627370496"
  by (simp_all add: binary64_fraction_def)

lemma hidden_bit_eq: "uint (push_bit 52 1 OR cost_fraction bits) = 4503599627370496 + binary64_fraction bits"
proof -
  have "uint (push_bit 52 1 OR cost_fraction bits) = concat_bit 52 (uint bits) 1"
    by (simp only: unsigned_or_eq cost_fraction_take unsigned_take_bit_eq concat_bit_def) (simp add: or.commute)
  also have "\<dots> = 4503599627370496 + binary64_fraction bits"
    by (simp only: concat_bit_eq take_bit_eq_mod binary64_fraction_def) simp
  finally show ?thesis .
qed

lemma significand_eq:
  "uint (cost_significand bits) = (if binary64_exponent bits = 0 then 0 else 2 ^ 52) + binary64_fraction bits"
proof (cases "binary64_exponent bits = 0")
  case True
  then have "uint (cost_significand bits) = take_bit 128 (binary64_fraction bits)"
    by (simp add: cost_significand_def cost_exponent_eq unsigned_ucast_eq cost_fraction_eq)
  then show ?thesis using True fraction_bounds [of bits] by (simp add: take_bit_int_eq_self)
next
  case False
  then have "uint (cost_significand bits) = take_bit 128 (uint (push_bit 52 1 OR cost_fraction bits))"
    by (simp add: cost_significand_def cost_exponent_eq unsigned_ucast_eq del: push_bit_numeral push_bit_of_1)
  then show ?thesis using False fraction_bounds [of bits] by (simp only: hidden_bit_eq) (simp add: take_bit_int_eq_self)
qed

lemma significand_bounds: "0 \<le> uint (cost_significand bits)" "uint (cost_significand bits) < 9007199254740992"
  using fraction_bounds [of bits] by (simp_all add: significand_eq)

lemma binary64_value_eq:
  "binary64_value bits = of_int (uint (cost_significand bits)) * 2 powi cost_binary_exponent bits"
  by (simp only: binary64_value_def significand_eq cost_binary_exponent_def cost_exponent_eq split: if_split) simp


section \<open>The ceiling is exact while it fits\<close>

definition micro_numerator :: "64 word \<Rightarrow> int" where
  "micro_numerator bits = uint (cost_significand bits) * 1000000"

lemma micro_numerator_bounds: "0 \<le> micro_numerator bits" "micro_numerator bits < 2 ^ 73"
  using significand_bounds [of bits] by (simp_all add: micro_numerator_def)

lemma numerator_word:
  "u128_checked_mul (cost_significand bits) 1000000 = Some (word_of_int (micro_numerator bits))"
  using significand_bounds [of bits] by (simp add: u128_checked_mul_def micro_numerator_def)

lemma uint_small: "0 \<le> v \<Longrightarrow> v < 2 ^ 128 \<Longrightarrow> uint (word_of_int v :: 128 word) = v"
  by (simp add: uint_word_of_int)

lemma micro_numerator_zero:
  "cost_exponent bits = 0 \<and> cost_fraction bits = 0 \<longleftrightarrow> micro_numerator bits = 0"
  using fraction_bounds [of bits] cost_fraction_eq [of bits]
  by (auto simp: micro_numerator_def significand_eq cost_exponent_eq uint_0_iff)

lemma micro_usd_eq:
  "micro_usd bits =
     (if cost_binary_exponent bits \<ge> 0 then micro_numerator bits * 2 ^ nat (cost_binary_exponent bits)
      else - (- micro_numerator bits div 2 ^ nat (- cost_binary_exponent bits)))"
proof -
  let ?n = "nat \<bar>cost_binary_exponent bits\<bar>"
  have v: "binary64_value bits * 1000000 = of_int (micro_numerator bits) * 2 powi cost_binary_exponent bits"
    by (simp add: binary64_value_eq micro_numerator_def)
  show ?thesis
  proof (cases "cost_binary_exponent bits \<ge> 0")
    case True
    then have "binary64_value bits * 1000000 = of_int (micro_numerator bits * 2 ^ nat (cost_binary_exponent bits))"
      by (simp add: v power_int_def)
    then show ?thesis using True unfolding micro_usd_def by (simp only: ceiling_of_int if_True)
  next
    case False
    then have "(2 :: real) powi cost_binary_exponent bits = 1 / of_int (2 ^ nat (- cost_binary_exponent bits))"
      by (simp add: power_int_def inverse_eq_divide power_one_over)
    then have "binary64_value bits * 1000000 =
        of_int (micro_numerator bits) / of_int (2 ^ nat (- cost_binary_exponent bits))"
      by (simp only: v) simp
    then show ?thesis using False unfolding micro_usd_def by (simp only: ceiling_divide_eq_div if_False)
  qed
qed

lemma ceiling_div:
  assumes "0 < (b :: int)"
  shows "- (- a div b) = a div b + (if a mod b \<noteq> 0 then 1 else 0)"
  using assms by (simp add: zdiv_zminus1_eq_if)

lemma uint_two_power:
  assumes "n < 128"
  shows "uint (2 ^ n :: 128 word) = 2 ^ n"
proof -
  have "(2 :: int) ^ n < 2 ^ 128" using assms by (rule power_strict_increasing) simp
  then show ?thesis using uint_small [of "2 ^ n"] by simp
qed

text \<open>The quotient rounded up, in 128-bit words, is the one of the integers.\<close>

lemma word_ceiling:
  assumes "0 \<le> a" "a < 2 ^ 127" "n < 128"
  defines "w \<equiv> word_of_int a :: 128 word" and "d \<equiv> push_bit n 1 :: 128 word"
  shows "uint (w div d + (if w mod d \<noteq> 0 then 1 else 0)) = - (- a div 2 ^ n)"
proof -
  have u: "uint w = a" "uint d = 2 ^ n" using assms(1-3) by (simp_all add: w_def d_def uint_small uint_two_power)
  have q: "uint (w div d) = a div 2 ^ n" "w mod d = 0 \<longleftrightarrow> a mod 2 ^ n = 0"
    by (simp_all add: uint_div_distrib word_uint_eq_iff uint_mod_distrib u)
  have "a div 2 ^ n \<le> a" using assms(1) zdiv_mono2 [of a 1 "2 ^ n"] by simp
  then have "uint (w div d) + 1 < 2 ^ 128" using q(1) assms(2) by simp
  then have "uint (w div d + 1) = uint (w div d) + 1" using uint_add_lem [of "w div d" 1] by simp
  then show ?thesis using q by (simp add: ceiling_div)
qed


text \<open>
  While the cost fits 128-bit micro-dollars, the boundary computes the exact ceiling; the kernel agrees
  whenever the result is a 64-bit amount.
\<close>

lemma exponent_small:
  assumes "cost_binary_exponent bits \<ge> 0" "micro_usd bits < 2 ^ 128" "micro_numerator bits \<noteq> 0"
  shows "cost_binary_exponent bits < 128"
proof (rule ccontr)
  assume "\<not> cost_binary_exponent bits < 128"
  then have "(2 :: int) ^ 128 \<le> 2 ^ nat (cost_binary_exponent bits)" by (intro power_increasing) simp_all
  also have "\<dots> \<le> micro_numerator bits * 2 ^ nat (cost_binary_exponent bits)"
    using assms(3) micro_numerator_bounds(1) [of bits] by simp
  finally show False using assms(1,2) by (simp add: micro_usd_eq)
qed

lemma micro_usd_nonneg: "0 \<le> micro_usd bits"
proof -
  have "0 \<le> binary64_value bits" by (simp only: binary64_value_eq) (intro mult_nonneg_nonneg, simp only: of_int_0_le_iff uint_ge_0, simp)
  then show ?thesis by (simp add: micro_usd_def)
qed

lemma ceil_to_micro_usd_exact:
  assumes "micro_usd bits < 2 ^ 128"
  shows "\<exists>m. ceil_to_micro_usd bits = Inr m \<and> uint m = micro_usd bits"
proof (cases "micro_numerator bits = 0")
  case True
  then show ?thesis using micro_numerator_zero [of bits]
    by (auto simp: ceil_to_micro_usd_def micro_usd_eq)
next
  case nz: False
  let ?e = "cost_binary_exponent bits" and ?w = "word_of_int (micro_numerator bits) :: 128 word"
  note b = micro_numerator_bounds [of bits]
  have c: "ceil_to_micro_usd bits =
      (if ?e \<ge> 0 then case u128_checked_shl ?w ?e of None \<Rightarrow> Inl CostOverflow | Some v \<Rightarrow> Inr v
       else let shift = - ?e in if shift \<ge> 128 then Inr 1
         else let denominator = push_bit (nat shift) 1 in
           Inr (?w div denominator + (if ?w mod denominator \<noteq> 0 then 1 else 0)))"
    using nz micro_numerator_zero [of bits] by (simp only: ceil_to_micro_usd_def numerator_word if_False option.simps)
  consider (left) "?e \<ge> 0" | (tiny) "?e \<le> - 128" | (right) "- 128 < ?e" "?e < 0" by linarith
  then show ?thesis
  proof cases
    case left
    then have m: "micro_usd bits = micro_numerator bits * 2 ^ nat ?e" by (simp add: micro_usd_eq)
    have "?e < 128" using exponent_small [OF left assms nz] .
    moreover have "uint (push_bit (nat ?e) ?w) = take_bit 128 (micro_usd bits)"
      using b by (simp only: unsigned_push_bit_eq) (simp add: m push_bit_eq_mult uint_small)
    ultimately show ?thesis
      using left assms micro_usd_nonneg [of bits] by (simp add: c u128_checked_shl_def take_bit_int_eq_self)
  next
    case tiny
    have "(2 :: int) ^ 73 \<le> 2 ^ nat (- ?e)" using tiny by (intro power_increasing) simp_all
    then have "- (- micro_numerator bits div 2 ^ nat (- ?e)) = 1"
      using b nz by (subst ceiling_div) (simp_all add: div_pos_pos_trivial mod_pos_pos_trivial)
    then show ?thesis using tiny by (simp add: c micro_usd_eq)
  next
    case right
    then show ?thesis
      using word_ceiling [of "micro_numerator bits" "nat (- ?e)"] b by (simp add: c micro_usd_eq Let_def)
  qed
qed

lemma kernel_ceil_agrees:
  "kernel_ceil_micro_usd bits =
     (case ceil_to_micro_usd bits of Inl _ \<Rightarrow> None | Inr m \<Rightarrow> if uint m \<le> i64_max then Some (uint m) else None)"
  by (simp add: kernel_ceil_micro_usd_def ceil_to_micro_usd_def Let_def split: option.splits)

section \<open>Larger costs\<close>

lemma binary64_value_significand:
  obtains s where "uint (cost_significand bits) = s" "binary64_value bits = of_int s * 2 powi cost_binary_exponent bits"
    "0 \<le> s" "s < 2 ^ 53" "0 \<le> cost_binary_exponent bits \<longrightarrow> 2 ^ 52 \<le> s"
proof
  show "0 \<le> cost_binary_exponent bits \<longrightarrow> 2 ^ 52 \<le> uint (cost_significand bits)"
    using fraction_bounds [of bits] by (auto simp: significand_eq cost_binary_exponent_def cost_exponent_eq)
  show "uint (cost_significand bits) < 2 ^ 53" using significand_bounds [of bits] by simp
qed (simp_all only: binary64_value_eq uint_ge_0)

lemma binary64_value_bounds:
  assumes "0 \<le> cost_binary_exponent bits"
  shows "2 ^ 52 * 2 ^ nat (cost_binary_exponent bits) \<le> binary64_value bits"
    "binary64_value bits < 2 ^ 53 * 2 ^ nat (cost_binary_exponent bits)"
proof -
  obtain s where v: "binary64_value bits = of_int s * 2 powi cost_binary_exponent bits" and s: "s < 2 ^ 53" "2 ^ 52 \<le> s"
    using binary64_value_significand [of bits] assms by metis
  have p: "(2 :: real) powi cost_binary_exponent bits = 2 ^ nat (cost_binary_exponent bits)"
    using assms by (simp add: power_int_def)
  show "2 ^ 52 * 2 ^ nat (cost_binary_exponent bits) \<le> binary64_value bits" unfolding v p
    by (rule mult_right_mono) (use s in simp_all)
  show "binary64_value bits < 2 ^ 53 * 2 ^ nat (cost_binary_exponent bits)" unfolding v p
    by (rule mult_strict_right_mono) (use s in simp_all)
qed

text \<open>The costs whose shift amount does not fit 128 bits are those of 2 to the 180 dollars and more.\<close>

lemma large_cost_iff: "2 ^ 180 \<le> binary64_value bits \<longleftrightarrow> 128 \<le> cost_binary_exponent bits"
proof (cases "128 \<le> cost_binary_exponent bits")
  case True
  then have "(2 :: real) ^ 128 \<le> 2 ^ nat (cost_binary_exponent bits)" by (intro power_increasing) simp_all
  then show ?thesis using binary64_value_bounds(1) [of bits] True by simp
next
  case False
  have "binary64_value bits < 2 ^ 180"
  proof (cases "0 \<le> cost_binary_exponent bits")
    case True
    have "(2 :: real) ^ nat (cost_binary_exponent bits) \<le> 2 ^ 127" using False by (intro power_increasing) simp_all
    then show ?thesis using binary64_value_bounds(2) [OF True] by simp
  next
    case neg: False
    obtain s where v: "binary64_value bits = of_int s * 2 powi cost_binary_exponent bits" and s: "0 \<le> s" "s < 2 ^ 53"
      by (rule binary64_value_significand)
    have "(2 :: real) powi cost_binary_exponent bits \<le> 1" using neg by (simp add: power_int_def power_le_one inverse_le_1_iff)
    then have "binary64_value bits \<le> of_int s * 1" unfolding v by (rule mult_left_mono) (simp add: s)
    also have "\<dots> < 2 ^ 53" using s(2) by simp
    finally show ?thesis by simp
  qed
  then show ?thesis using False by simp
qed

lemma ceil_to_micro_usd_shifted:
  assumes "0 \<le> cost_binary_exponent bits"
  shows "ceil_to_micro_usd bits =
     (if 128 \<le> cost_binary_exponent bits then Inl CostOverflow else Inr (word_of_int (micro_usd bits)))"
proof -
  have nz: "cost_exponent bits \<noteq> 0" using assms by (auto simp: cost_binary_exponent_def)
  show ?thesis
    using nz assms
    by (simp add: ceil_to_micro_usd_def numerator_word u128_checked_shl_def micro_usd_eq push_bit_eq_mult
        del: push_bit_of_1)
qed

lemma ceil_to_micro_usd_law:
  "ceil_to_micro_usd bits =
     (if 2 ^ 180 \<le> binary64_value bits then Inl CostOverflow else Inr (word_of_int (micro_usd bits)))"
proof (cases "0 \<le> cost_binary_exponent bits")
  case True
  then show ?thesis using ceil_to_micro_usd_shifted [OF True] by (simp only: large_cost_iff)
next
  case False
  have "micro_numerator bits div 2 ^ nat (- cost_binary_exponent bits) \<le> micro_numerator bits"
    using micro_numerator_bounds(1) [of bits] zdiv_mono2 [of "micro_numerator bits" 1] by simp
  then have "micro_usd bits \<le> micro_numerator bits + 1" using False by (simp add: micro_usd_eq ceiling_div)
  then have "micro_usd bits < 2 ^ 128" using micro_numerator_bounds(2) [of bits] by simp
  then obtain m where m: "ceil_to_micro_usd bits = Inr m" "uint m = micro_usd bits"
    using ceil_to_micro_usd_exact by blast
  have "m = word_of_int (micro_usd bits)" unfolding m(2) [symmetric] by simp
  moreover have "\<not> 2 ^ 180 \<le> binary64_value bits" using False by (simp only: large_cost_iff)
  ultimately show ?thesis using m(1) by (simp only: if_False)
qed

text \<open>So is the amount of the kernel, which a 64-bit integer has to hold.\<close>

lemma kernel_ceil_law:
  "kernel_ceil_micro_usd bits =
     (if 2 ^ 180 \<le> binary64_value bits \<or> i64_max < micro_usd bits mod 2 ^ 128 then None
      else Some (micro_usd bits mod 2 ^ 128))"
  by (simp only: kernel_ceil_agrees ceil_to_micro_usd_law) (auto simp: uint_word_of_int)

text \<open>A finite cost whose micro-dollars are a multiple of 2 to the 128 is charged as nothing.\<close>

lemma dropped_cost_free:
  assumes "binary64_value bits < 2 ^ 180" "2 ^ 128 dvd micro_usd bits"
  shows "ceil_to_micro_usd bits = Inr 0" "kernel_ceil_micro_usd bits = Some 0"
  using assms by (simp_all add: ceil_to_micro_usd_law kernel_ceil_law dvd_eq_mod_eq_0 word_uint_eq_iff uint_word_of_int)

text \<open>For instance, 2 to the 179 dollars are charged as nothing.\<close>

definition dropped_cost :: "64 word" where
  "dropped_cost = 0x4B20000000000000"

lemma dropped_cost_charge: "ceil_to_micro_usd dropped_cost = Inr 0"
  by (simp add: dropped_cost_def ceil_to_micro_usd_def cost_exponent_def cost_fraction_def cost_significand_def
      cost_binary_exponent_def u128_checked_mul_def u128_checked_shl_def)

lemma dropped_cost_value: "binary64_value dropped_cost = 2 ^ 179"
  by (simp add: dropped_cost_def binary64_value_def binary64_exponent_def binary64_fraction_def power_int_def)

section \<open>Charges of a tracker\<close>

definition charged_so_far :: "usage_tracker \<Rightarrow> int" where
  "charged_so_far t = (case t of None \<Rightarrow> 0 | Some u \<Rightarrow> uint (nu_ceiling u))"

definition charge_of :: "cost_decode_error + usage_delta \<Rightarrow> int" where
  "charge_of r = (case r of Inl _ \<Rightarrow> 0 | Inr d \<Rightarrow> uint (ud_micro d))"

fun track :: "usage_observation list \<Rightarrow> usage_tracker \<Rightarrow> (cost_decode_error + usage_delta) list \<times> usage_tracker" where
  "track [] t = ([], t)"
| "track (x # xs) t =
     (let (r, t1) = tracker_observe x t; (rs, t2) = track xs t1 in (r # rs, t2))"

lemma uint_diff_le: "b \<le> a \<Longrightarrow> uint (a - b) = uint a - uint (b :: 128 word)"
  using uint_sub_lem [of b a] by (simp add: word_le_def)

lemma observe_charges:
  assumes "tracker_observe x t = (r, t')"
  shows "charged_so_far t' = charged_so_far t + charge_of r"
  using assms
  by (auto simp: tracker_observe_def charged_so_far_def charge_of_def usage_regressed_def uint_diff_le not_less
      split: usage_observation.splits sum.splits option.splits if_splits)

lemma track_charges:
  "track xs t = (rs, t') \<Longrightarrow> charged_so_far t' = charged_so_far t + sum_list (map charge_of rs)"
proof (induction xs arbitrary: t rs)
  case (Cons x xs)
  obtain r t1 rs' where s: "tracker_observe x t = (r, t1)" "track xs t1 = (rs', t')" "rs = r # rs'"
    using Cons.prems by (auto split: prod.splits)
  then show ?case using Cons.IH [OF s(2)] observe_charges [OF s(1)] by simp
qed simp

text \<open>What a tracker holds is a snapshot it accepted, so its ceiling is the one of that snapshot's cost.\<close>

definition tracker_ok :: "usage_tracker \<Rightarrow> bool" where
  "tracker_ok t \<longleftrightarrow> (case t of None \<Rightarrow> True | Some u \<Rightarrow>
     ceil_to_micro_usd (nu_cost u) = Inr (nu_ceiling u) \<and>
     nu_total u = nu_input u + nu_output u + nu_cache_read u + nu_cache_write u)"

lemma normalized_ok: "normalized_from_totals totals = Inr u \<Longrightarrow> tracker_ok (Some u)"
  by (auto simp: normalized_from_totals_def tracker_ok_def calculated_total_def u64_checked_add_def bind_eq_Some_conv
      split: option.splits sum.splits if_splits)

lemma observe_ok: "tracker_observe x t = (r, t') \<Longrightarrow> tracker_ok t \<Longrightarrow> tracker_ok t'"
  using normalized_ok
  by (auto simp: tracker_observe_def Let_def split: usage_observation.splits sum.splits if_splits)

lemma track_ok: "track xs t = (rs, t') \<Longrightarrow> tracker_ok t \<Longrightarrow> tracker_ok t'"
  by (induction xs arbitrary: t rs) (auto split: prod.splits dest: observe_ok)

text \<open>A repeated snapshot is accepted once more and charges nothing.\<close>

lemma observe_again:
  assumes "tracker_observe x t = (Inr d, t')"
  shows "\<exists>d'. tracker_observe x t' = (Inr d', t') \<and> ud_idempotent d' \<and> charge_of (Inr d') = 0 \<and> ud_total d' = 0"
  using assms
  by (auto simp: tracker_observe_def charge_of_def usage_regressed_def
      split: usage_observation.splits sum.splits option.splits if_splits)

end
