(* ===== verification/Cycle_Store.thy ===== *)
theory Cycle_Store
  imports Rejections Cycle_Types
begin

text \<open>
  The state of the operating-cycle and budget plane of \<^verbatim>\<open>society-kernel/src/store.rs\<close>: one record per row type of
  \<^verbatim>\<open>schema/postgres/kernel.sql\<close>, the record \<open>cycle_db\<close> of the tables, and the row readers its
  transitions share.  Money is in micro-dollars, an \<open>i64\<close> the type \<^verbatim>\<open>UsdMicros\<close> keeps non-negative.
  Stored identifiers and amounts are read back as they were written: the CHECK constraints of the
  schema and the identity sequences keep them in the range of the types that read them.
  The record \<open>cycle_env\<close> is what the transitions read of tables other parts of the kernel write.
\<close>

section \<open>Rows\<close>

record society_row =
  sy_name :: string
  sy_state :: int

record bootstrap_row =
  bs_mission :: int
  bs_office :: int
  bs_occupancy :: int
  bs_ceiling :: int
  bs_by :: int

record cycle_row =
  cy_society :: int
  cy_mission :: int
  cy_occupancy :: int
  cy_treatment :: operating_cycle_treatment
  cy_ceiling :: int
  cy_state :: operating_cycle_state
  cy_generation :: int
  cy_proposed :: int
  cy_last :: int

record cycle_admission_row =
  ca_admitted :: int
  ca_started :: "int option"

record cycle_reconciliation_row =
  cr_started :: int
  cr_closed :: "int option"

record session_row =
  se_cycle :: int
  se_occupancy :: int
  se_state :: office_session_state
  se_started :: int
  se_last :: int

record turn_row =
  tu_session :: int
  tu_state :: office_turn_state
  tu_purpose :: office_turn_purpose
  tu_opened :: int
  tu_settled :: "int option"

record envelope_row =
  en_ceiling :: int
  en_reserved :: int
  en_spent :: int
  en_by :: int

text \<open>The two nullable columns of a constraint row, exactly one of which is set.\<close>

datatype (plugins only: code) constraint_scope = SocietyScope int | CycleScope int

record constraint_row =
  ct_envelope :: int
  ct_scope :: constraint_scope

record reservation_row =
  rs_cycle :: int
  rs_amount :: int
  rs_charged :: int
  rs_state :: budget_reservation_state
  rs_by :: int
  rs_reconciled :: "int option"

record charge_row =
  ch_reservation :: int
  ch_envelope :: int
  ch_amount :: int

record cancellation_row =
  cn_cycle :: int
  cn_mode :: cancellation_mode
  cn_state :: cancellation_state
  cn_generation :: int
  cn_by :: int
  cn_reconciled :: "int option"

record postmortem_row =
  pm_reservation :: int
  pm_cycle :: int
  pm_cancellation :: int
  pm_cause :: cost_postmortem_cause
  pm_observed :: "int option"
  pm_reserved :: int
  pm_unknown :: "cost_unknown_reason option"
  pm_unavailable :: "cost_unavailable_reason option"
  pm_state :: cost_postmortem_state
  pm_opened :: int
  pm_closed :: "int option"

record resolution_row =
  re_kind :: cost_postmortem_resolution
  re_charged :: int
  re_by :: int

record checkpoint_row =
  ck_session :: int
  ck_reservation :: int
  ck_baseline :: int
  ck_by :: int
  ck_settled :: "int option"
  ck_settled_by :: "int option"

record launch_claim_row =
  lc_cycle :: int
  lc_reservation :: int
  lc_profile :: int
  lc_epoch :: int
  lc_epoch_identity :: string
  lc_workspace :: string
  lc_path :: string
  lc_generation :: int
  lc_by :: int

text \<open>\<open>ExecutionProfileId::NATIVE_PINNED_PI_SDK_V1\<close>.\<close>

definition native_pinned_pi_sdk_v1 :: int where
  "native_pinned_pi_sdk_v1 = 2"

section \<open>The database\<close>

text \<open>
  The terminal receipt of an Office turn joined with its final usage receipt, as
  \<open>settle_office_turn\<close> reads them.
\<close>

record settlement_evidence =
  sv_completed :: bool
  sv_observed_stop :: bool
  sv_child :: int
  sv_cumulative :: int

record cycle_env =
  ce_mission :: "int \<Rightarrow> int option"
  ce_office :: "int option"
  ce_occupancy :: "int option"
  ce_hard_ceiling :: "int option"
  ce_live_attempts :: "int \<Rightarrow> int"
  ce_active_leases :: "int \<Rightarrow> int"
  ce_live_children :: "int \<Rightarrow> int"
  ce_undisposed_workspaces :: "int \<Rightarrow> int"
  ce_spawn_admission :: "int \<Rightarrow> int option"
  ce_child_ready :: "int \<Rightarrow> bool"
  ce_cycle_has_child :: "int \<Rightarrow> bool"
  ce_propagation_reconciled :: "int \<Rightarrow> bool"
  ce_office_parent :: "int \<Rightarrow> bool"
  ce_settlement :: "int \<Rightarrow> int \<Rightarrow> settlement_evidence option"
  ce_authorized_generation :: "int \<Rightarrow> int option"
  ce_child_live :: "int \<Rightarrow> bool"
  ce_profile_unqualified :: bool
  ce_epoch :: "int \<Rightarrow> string \<Rightarrow> bool"

record cycle_db =
  societies :: "(int, society_row) table"
  bootstraps :: "(int, bootstrap_row) table"
  cycles :: "(int, cycle_row) table"
  cycle_admissions :: "(int, cycle_admission_row) table"
  cycle_reconciliations :: "(int, cycle_reconciliation_row) table"
  sessions :: "(int, session_row) table"
  turns :: "(int, turn_row) table"
  envelopes :: "(int, envelope_row) table"
  constraints :: "(int, constraint_row) table"
  reservations :: "(int, reservation_row) table"
  charges :: "(int, charge_row) table"
  cancellations :: "(int, cancellation_row) table"
  postmortems :: "(int, postmortem_row) table"
  resolutions :: "(int, resolution_row) table"
  checkpoints :: "(int, checkpoint_row) table"
  launch_claims :: "(int, launch_claim_row) table"
  workspaces :: "(string, string) table"
  cenv :: cycle_env

type_synonym 'a cycle_result = "(rejection + 'a) \<times> cycle_db"

definition empty_cycle_db :: "cycle_env \<Rightarrow> cycle_db" where
  "empty_cycle_db e = \<lparr>
     societies = empty_table, bootstraps = empty_table, cycles = empty_table,
     cycle_admissions = empty_table, cycle_reconciliations = empty_table, sessions = empty_table,
     turns = empty_table, envelopes = empty_table, constraints = empty_table,
     reservations = empty_table, charges = empty_table, cancellations = empty_table,
     postmortems = empty_table, resolutions = empty_table, checkpoints = empty_table,
     launch_claims = empty_table, workspaces = empty_table, cenv = e\<rparr>"

text \<open>Rows are restored by the savepoint; identity values stay drawn.\<close>

definition cycle_rollback :: "cycle_db \<Rightarrow> cycle_db \<Rightarrow> cycle_db" where
  "cycle_rollback old new = \<lparr>
     societies = rollback_table (societies old) (societies new),
     bootstraps = rollback_table (bootstraps old) (bootstraps new),
     cycles = rollback_table (cycles old) (cycles new),
     cycle_admissions = rollback_table (cycle_admissions old) (cycle_admissions new),
     cycle_reconciliations = rollback_table (cycle_reconciliations old) (cycle_reconciliations new),
     sessions = rollback_table (sessions old) (sessions new),
     turns = rollback_table (turns old) (turns new),
     envelopes = rollback_table (envelopes old) (envelopes new),
     constraints = rollback_table (constraints old) (constraints new),
     reservations = rollback_table (reservations old) (reservations new),
     charges = rollback_table (charges old) (charges new),
     cancellations = rollback_table (cancellations old) (cancellations new),
     postmortems = rollback_table (postmortems old) (postmortems new),
     resolutions = rollback_table (resolutions old) (resolutions new),
     checkpoints = rollback_table (checkpoints old) (checkpoints new),
     launch_claims = rollback_table (launch_claims old) (launch_claims new),
     workspaces = rollback_table (workspaces old) (workspaces new),
     cenv = cenv old\<rparr>"

section \<open>Row readers\<close>

definition only_society_id :: "cycle_db \<Rightarrow> rejection + int" where
  "only_society_id db = (case select_where (\<lambda>_ _. True) (societies db) of
     None \<Rightarrow> Inl SubjectNotFound | Some (s, _) \<Rightarrow> Inr s)"

definition hard_ceiling_from_event_body :: "cycle_db \<Rightarrow> rejection + int" where
  "hard_ceiling_from_event_body db = (case ce_hard_ceiling (cenv db) of
     None \<Rightarrow> Inl FoundingInvariant
   | Some v \<Rightarrow> if 0 \<le> v then Inr v else Inl FoundingInvariant)"

text \<open>The bootstrapped society, its mission, its Root Authority occupancy and its hard ceiling.\<close>

definition bootstrapped_constitution :: "cycle_db \<Rightarrow> rejection + int \<times> int \<times> int \<times> int" where
  "bootstrapped_constitution db = (case select_where (\<lambda>_ _. True) (bootstraps db) of
     None \<Rightarrow> Inl FoundingInvariant
   | Some (s, b) \<Rightarrow> Inr (s, bs_mission b, bs_occupancy b, bs_ceiling b))"

definition cycle_row_of :: "cycle_db \<Rightarrow> int \<Rightarrow> rejection + cycle_row" where
  "cycle_row_of db k = (case select_pk (cycles db) k of
     None \<Rightarrow> Inl SubjectNotFound | Some r \<Rightarrow> Inr r)"

text \<open>
  The fence of the commands of this plane that name a generation.  Receipts about native children have
  checks of their own (\<open>child_cycle_for_generation\<close>, the generation a disposal was authorised under).
\<close>

definition cycle_for_generation ::
  "cycle_db \<Rightarrow> int \<Rightarrow> expected_generation \<Rightarrow> rejection + cycle_row" where
  "cycle_for_generation db k x = (case cycle_row_of db k of
     Inl r \<Rightarrow> Inl r
   | Inr cycle \<Rightarrow>
       (case x of
          NotApplicable \<Rightarrow> Inl InvalidExpectedGeneration
        | Exact g \<Rightarrow>
            if g \<noteq> cy_generation cycle then Inl StaleAdmissionGeneration else Inr cycle))"

definition coordination_cycle ::
  "cycle_db \<Rightarrow> expected_generation \<Rightarrow> int \<Rightarrow> rejection + cycle_row" where
  "coordination_cycle db x k = (case cycle_for_generation db k x of
     Inl r \<Rightarrow> Inl r
   | Inr cycle \<Rightarrow>
       if admits_task_work (cy_state cycle) then Inr cycle else Inl InvalidLifecycleTransition)"

definition session_row_of :: "cycle_db \<Rightarrow> int \<Rightarrow> rejection + office_session_state \<times> int" where
  "session_row_of db s = (case select_pk (sessions db) s of
     None \<Rightarrow> Inl SubjectNotFound | Some r \<Rightarrow> Inr (se_state r, se_cycle r))"

definition transition_cycle ::
  "int \<Rightarrow> int \<Rightarrow> operating_cycle_state \<Rightarrow> int \<Rightarrow> cycle_db \<Rightarrow> cycle_db" where
  "transition_cycle c k s g db = db\<lparr>cycles := update_pk k
     (\<lambda>r. r\<lparr>cy_state := s, cy_generation := g, cy_last := c\<rparr>) (cycles db)\<rparr>"

text \<open>The update the starting transitions issue: the generation column is not written.\<close>

definition set_cycle_state :: "int \<Rightarrow> int \<Rightarrow> operating_cycle_state \<Rightarrow> cycle_db \<Rightarrow> cycle_db" where
  "set_cycle_state c k s db = db\<lparr>cycles := update_pk k
     (\<lambda>r. r\<lparr>cy_state := s, cy_last := c\<rparr>) (cycles db)\<rparr>"

definition set_session_state :: "int \<Rightarrow> int \<Rightarrow> office_session_state \<Rightarrow> cycle_db \<Rightarrow> cycle_db" where
  "set_session_state c s st db = db\<lparr>sessions := update_pk s
     (\<lambda>r. r\<lparr>se_state := st, se_last := c\<rparr>) (sessions db)\<rparr>"

definition create_budget_envelope :: "int \<Rightarrow> int \<Rightarrow> cycle_db \<Rightarrow> int cycle_result" where
  "create_budget_envelope c ceiling db =
     (case insert_identity (0 \<le> ceiling)
             \<lparr>en_ceiling = ceiling, en_reserved = 0, en_spent = 0, en_by = c\<rparr> (envelopes db) of
        (None, t) \<Rightarrow> (Inl BudgetCeilingExceeded, db\<lparr>envelopes := t\<rparr>)
      | (Some e, t) \<Rightarrow> (Inr e, db\<lparr>envelopes := t\<rparr>))"

definition insert_constraint :: "int \<Rightarrow> constraint_scope \<Rightarrow> cycle_db \<Rightarrow> bool \<times> cycle_db" where
  "insert_constraint e scope db =
     (case insert_identity
             (\<not> exists_where (\<lambda>_ r. ct_envelope r = e) (constraints db)
              \<and> \<not> exists_where (\<lambda>_ r. ct_scope r = scope) (constraints db))
             \<lparr>ct_envelope = e, ct_scope = scope\<rparr> (constraints db) of
        (None, t) \<Rightarrow> (False, db\<lparr>constraints := t\<rparr>)
      | (Some _, t) \<Rightarrow> (True, db\<lparr>constraints := t\<rparr>))"

definition budget_envelopes_for_cycle :: "cycle_db \<Rightarrow> int \<Rightarrow> int \<Rightarrow> rejection + int \<times> int" where
  "budget_envelopes_for_cycle db society k =
     (case select_where (\<lambda>_ r. ct_scope r = SocietyScope society) (constraints db) of
        None \<Rightarrow> Inl SubjectNotFound
      | Some (_, a) \<Rightarrow>
          (case select_where (\<lambda>_ r. ct_scope r = CycleScope k) (constraints db) of
             None \<Rightarrow> Inl SubjectNotFound
           | Some (_, b) \<Rightarrow> Inr (ct_envelope a, ct_envelope b)))"

definition budget_amounts :: "cycle_db \<Rightarrow> int \<Rightarrow> rejection + int \<times> int \<times> int" where
  "budget_amounts db e = (case select_pk (envelopes db) e of
     None \<Rightarrow> Inl SubjectNotFound
   | Some r \<Rightarrow> Inr (en_ceiling r, en_reserved r, en_spent r))"

definition session_live :: "office_session_state \<Rightarrow> bool" where
  "session_live s \<longleftrightarrow> s \<notin> {SessionClosed, SessionCancelled, SessionFailed}"

definition cancellation_active :: "cancellation_state \<Rightarrow> bool" where
  "cancellation_active s \<longleftrightarrow> s \<notin> {CancellationCompleted, CancellationContainmentFailed}"

definition active_office_turn_count :: "cycle_db \<Rightarrow> int \<Rightarrow> int" where
  "active_office_turn_count db k = count_where
     (\<lambda>_ t. tu_state t = TurnActive
        \<and> (case select_pk (sessions db) (tu_session t) of None \<Rightarrow> False | Some s \<Rightarrow> se_cycle s = k))
     (turns db)"

definition session_has_active_turn :: "cycle_db \<Rightarrow> int \<Rightarrow> bool" where
  "session_has_active_turn db s = exists_where
     (\<lambda>_ t. tu_session t = s \<and> tu_state t = TurnActive) (turns db)"

definition live_office_session_count :: "cycle_db \<Rightarrow> int \<Rightarrow> int" where
  "live_office_session_count db k = count_where
     (\<lambda>_ s. se_cycle s = k \<and> session_live (se_state s)) (sessions db)"

definition unreconciled_reservation_count :: "cycle_db \<Rightarrow> int \<Rightarrow> int" where
  "unreconciled_reservation_count db k = count_where
     (\<lambda>_ r. rs_cycle r = k \<and> rs_state r \<noteq> ReservationReconciled) (reservations db)"

definition active_cancellation_count :: "cycle_db \<Rightarrow> int \<Rightarrow> int" where
  "active_cancellation_count db k = count_where
     (\<lambda>_ r. cn_cycle r = k \<and> cancellation_active (cn_state r)) (cancellations db)"

text \<open>\<open>ORDER BY cancellation_request_id ASC LIMIT 1\<close>.\<close>

definition active_cancellation_for_cycle :: "cycle_db \<Rightarrow> int \<Rightarrow> int option" where
  "active_cancellation_for_cycle db k =
     (case map fst (filter (\<lambda>(_, r). cn_cycle r = k \<and> cancellation_active (cn_state r))
                      (tb_rows (cancellations db))) of
        [] \<Rightarrow> None
      | i # is \<Rightarrow> Some (fold min is i))"

text \<open>
  \<open>INSERT INTO cancellation_requests\<close>; the index \<open>one_active_cancellation_per_cycle\<close> refuses a
  second active request.
\<close>

definition insert_cancellation ::
  "int \<Rightarrow> int \<Rightarrow> cancellation_mode \<Rightarrow> int \<Rightarrow> cycle_db \<Rightarrow> int cycle_result" where
  "insert_cancellation c k mode g db =
     (case insert_identity
             (\<not> exists_where (\<lambda>_ r. cn_cycle r = k \<and> cancellation_active (cn_state r))
                 (cancellations db))
             \<lparr>cn_cycle = k, cn_mode = mode, cn_state = CancellationAccepted, cn_generation = g,
              cn_by = c, cn_reconciled = None\<rparr> (cancellations db) of
        (None, t) \<Rightarrow> (Inl InvalidLifecycleTransition, db\<lparr>cancellations := t\<rparr>)
      | (Some i, t) \<Rightarrow> (Inr i, db\<lparr>cancellations := t\<rparr>))"

section \<open>Envelope accounts\<close>

text \<open>
  \<open>UPDATE budget_envelopes SET reserved_micros = reserved_micros - $1, spent_micros = spent_micros
  + $2 WHERE budget_envelope_id = $3\<close> under the CHECK constraints of the table and the range of
  \<open>BIGINT\<close>; a reservation is the same statement with a negative release.
\<close>

definition adjust_envelope ::
  "int \<Rightarrow> int \<Rightarrow> int \<Rightarrow> (int, envelope_row) table \<Rightarrow> (int, envelope_row) table option" where
  "adjust_envelope e released spent t = (case select_pk t e of
     None \<Rightarrow> Some t
   | Some r \<Rightarrow>
       if 0 \<le> en_reserved r - released \<and> en_reserved r - released \<le> en_ceiling r
          \<and> 0 \<le> en_spent r + spent \<and> en_spent r + spent \<le> i64_max
       then Some (update_pk e
              (\<lambda>r. r\<lparr>en_reserved := en_reserved r - released, en_spent := en_spent r + spent\<rparr>) t)
       else None)"

text \<open>\<open>SELECT budget_envelope_id, amount_micros ... ORDER BY budget_envelope_id\<close>.\<close>

definition charges_of :: "cycle_db \<Rightarrow> int \<Rightarrow> (int \<times> int) list" where
  "charges_of db r = sort_key fst
     (map (\<lambda>(_, x). (ch_envelope x, ch_amount x))
        (filter (\<lambda>(_, x). ch_reservation x = r) (tb_rows (charges db))))"

text \<open>The loop that releases each charge in full and books the same spending on each envelope.\<close>

fun release_charges ::
  "(int \<times> int) list \<Rightarrow> int \<Rightarrow> (int, envelope_row) table \<Rightarrow> (int, envelope_row) table option" where
  "release_charges [] spent t = Some t"
| "release_charges ((e, a) # xs) spent t = (case adjust_envelope e a spent t of
     None \<Rightarrow> None | Some t' \<Rightarrow> release_charges xs spent t')"

definition insert_charge ::
  "int \<Rightarrow> int \<Rightarrow> int \<Rightarrow> (int, charge_row) table \<Rightarrow> bool \<times> (int, charge_row) table" where
  "insert_charge r e a t =
     (case insert_identity
             (0 \<le> a \<and> \<not> exists_where (\<lambda>_ x. ch_reservation x = r \<and> ch_envelope x = e) t)
             \<lparr>ch_reservation = r, ch_envelope = e, ch_amount = a\<rparr> t of
        (None, t') \<Rightarrow> (False, t') | (Some _, t') \<Rightarrow> (True, t'))"

definition insert_reservation :: "int \<Rightarrow> int \<Rightarrow> int \<Rightarrow> cycle_db \<Rightarrow> int cycle_result" where
  "insert_reservation c k amount db =
     (case insert_identity (0 \<le> amount)
             \<lparr>rs_cycle = k, rs_amount = amount, rs_charged = 0, rs_state = ReservationReserved,
              rs_by = c, rs_reconciled = None\<rparr> (reservations db) of
        (None, t) \<Rightarrow> (Inl BudgetCeilingExceeded, db\<lparr>reservations := t\<rparr>)
      | (Some i, t) \<Rightarrow> (Inr i, db\<lparr>reservations := t\<rparr>))"

end
