(* ===== verification/Cycle_Budget.thy ===== *)
theory Cycle_Budget
  imports Cycle_Store
begin

text \<open>
  Reservation, settlement, freezing and resolution of operating budgets
  (\<^verbatim>\<open>reserve_budget\<close>, \<^verbatim>\<open>reserve_attempt_budget\<close>, \<^verbatim>\<open>settle_office_turn\<close>, \<^verbatim>\<open>reconcile_budget\<close>,
  \<^verbatim>\<open>reconcile_task_attempt_reservation\<close>, the budget part of
  \<^verbatim>\<open>record_pi_office_session_disposed\<close>, \<^verbatim>\<open>freeze_budget_admission\<close> and
  \<^verbatim>\<open>close_cost_postmortem\<close> of \<^verbatim>\<open>store.rs\<close>).  Every transition takes the row identifier of its
  command and the database and returns the event or the rejection with the database it leaves; a
  rejected one is rolled back to the savepoint by its caller.
\<close>

section \<open>Events\<close>

datatype (plugins only: code) budget_disposition =
    DispositionReconciled int
  | DispositionFrozen int int

datatype (plugins only: code) cycle_event =
    SocietyIdentityCreated int
  | R0HardCeilingSet int int
  | SocietyBootstrapped int
  | OperatingCycleProposed int int operating_cycle_treatment int
  | OperatingCycleStateChanged int operating_cycle_state int
  | RootAuthorityOfficeSessionStarted int int
  | NativeExecutionProfileQualificationStarted int int
  | NativeExecutionProfileQualificationLaunchClaimed int int int int int
  | RootAuthorityOfficeSessionStateChanged int office_session_state
  | OfficeTurnOpened int int office_turn_purpose
  | OfficeTurnSettled int int int
  | BudgetReserved int int int
  | BudgetReconciled int int
  | BudgetAdmissionFrozen int int int int budget_freeze_reason
  | CancellationWasRequested int int cancellation_mode int
  | CancellationReconciled int int
  | CostPostmortemClosed int int int cost_postmortem_resolution int

section \<open>Reservation\<close>

text \<open>The admission test of both envelopes: \<open>reserved + amount + spent\<close> within the ceiling.\<close>

definition envelope_admits :: "cycle_db \<Rightarrow> int \<Rightarrow> int \<Rightarrow> rejection option" where
  "envelope_admits db amount e = (case budget_amounts db e of
     Inl x \<Rightarrow> Some x
   | Inr (ceiling, reserved, spent) \<Rightarrow>
       (case checked_add_i64 reserved amount of
          None \<Rightarrow> Some BudgetCeilingExceeded
        | Some next \<Rightarrow>
            (case checked_add_i64 next spent of
               None \<Rightarrow> Some BudgetCeilingExceeded
             | Some used \<Rightarrow> if used > ceiling then Some BudgetCeilingExceeded else None)))"

text \<open>One turn of the loop that holds the amount on an envelope and records the charge.\<close>

definition hold_on_envelope :: "int \<Rightarrow> int \<Rightarrow> int \<Rightarrow> cycle_db \<Rightarrow> unit cycle_result" where
  "hold_on_envelope r amount e db = (case adjust_envelope e (- amount) 0 (envelopes db) of
     None \<Rightarrow> (Inl BudgetCeilingExceeded, db)
   | Some t \<Rightarrow>
       (case insert_charge r e amount (charges db) of
          (False, u) \<Rightarrow> (Inl BudgetCeilingExceeded, db\<lparr>charges := u\<rparr>)
        | (True, u) \<Rightarrow> (Inr (), db\<lparr>envelopes := t, charges := u\<rparr>)))"

definition reserve_attempt_budget ::
  "int \<Rightarrow> cycle_row \<Rightarrow> int \<Rightarrow> int \<Rightarrow> cycle_db \<Rightarrow> int cycle_result" where
  "reserve_attempt_budget c cycle k amount db =
     (if amount = 0 then (Inl BudgetCeilingExceeded, db)
      else
        (case budget_envelopes_for_cycle db (cy_society cycle) k of
           Inl x \<Rightarrow> (Inl x, db)
         | Inr (society_budget, cycle_budget) \<Rightarrow>
             (case envelope_admits db amount society_budget of
                Some x \<Rightarrow> (Inl x, db)
              | None \<Rightarrow>
                  (case envelope_admits db amount cycle_budget of
                     Some x \<Rightarrow> (Inl x, db)
                   | None \<Rightarrow>
                       (case insert_reservation c k amount db of
                          (Inl x, db1) \<Rightarrow> (Inl x, db1)
                        | (Inr r, db1) \<Rightarrow>
                            (case hold_on_envelope r amount society_budget db1 of
                               (Inl x, db2) \<Rightarrow> (Inl x, db2)
                             | (Inr _, db2) \<Rightarrow>
                                 (case hold_on_envelope r amount cycle_budget db2 of
                                    (Inl x, db3) \<Rightarrow> (Inl x, db3)
                                  | (Inr _, db3) \<Rightarrow> (Inr r, db3))))))))"

text \<open>
  \<open>reserve_budget\<close>: the checks of the cycle come first; from the envelopes on, the statements are
  those of \<open>reserve_attempt_budget\<close>.
\<close>

definition reserve_budget ::
  "int \<Rightarrow> expected_generation \<Rightarrow> int \<Rightarrow> int \<Rightarrow> cycle_db \<Rightarrow> cycle_event cycle_result" where
  "reserve_budget c x k amount db =
     (case cycle_for_generation db k x of
        Inl y \<Rightarrow> (Inl y, db)
      | Inr cycle \<Rightarrow>
          if amount = 0 then (Inl BudgetCeilingExceeded, db)
          else if \<not> admits_task_work (cy_state cycle) then (Inl InvalidLifecycleTransition, db)
          else
            (case reserve_attempt_budget c cycle k amount db of
               (Inl y, db1) \<Rightarrow> (Inl y, db1)
             | (Inr r, db1) \<Rightarrow> (Inr (BudgetReserved r k amount), db1)))"

section \<open>Freezing\<close>

definition freeze_columns ::
  "budget_freeze_reason \<Rightarrow> cost_postmortem_cause \<times> int option \<times> cost_unknown_reason option
     \<times> cost_unavailable_reason option" where
  "freeze_columns reason = (case reason of
     FrozenKnownOverrun observed _ \<Rightarrow> (CauseKnownOverrun, Some observed, None, None)
   | FrozenUnknown u \<Rightarrow> (CauseUnknownCost, None, Some u, None)
   | FrozenUnavailable u \<Rightarrow> (CauseUnavailableCost, None, None, Some u))"

definition open_cost_postmortem ::
  "int \<Rightarrow> int \<Rightarrow> int \<Rightarrow> int \<Rightarrow> int \<Rightarrow> budget_freeze_reason \<Rightarrow> cycle_db \<Rightarrow> cycle_event cycle_result" where
  "open_cost_postmortem c r k cancellation held reason db =
     (case freeze_columns reason of (cause, observed, unknown, unavailable) \<Rightarrow>
        (case insert_identity
                (\<not> exists_where (\<lambda>_ p. pm_reservation p = r) (postmortems db) \<and> 0 \<le> held
                 \<and> (case observed of None \<Rightarrow> True | Some v \<Rightarrow> 0 \<le> v))
                \<lparr>pm_reservation = r, pm_cycle = k, pm_cancellation = cancellation, pm_cause = cause,
                 pm_observed = observed, pm_reserved = held, pm_unknown = unknown,
                 pm_unavailable = unavailable, pm_state = PostmortemOpen, pm_opened = c,
                 pm_closed = None\<rparr> (postmortems db) of
           (None, t) \<Rightarrow> (Inl InvalidLifecycleTransition, db\<lparr>postmortems := t\<rparr>)
         | (Some p, t) \<Rightarrow>
             (Inr (BudgetAdmissionFrozen r k cancellation p reason), db\<lparr>postmortems := t\<rparr>)))"

definition freeze_budget_admission ::
  "int \<Rightarrow> int \<Rightarrow> int \<Rightarrow> int \<Rightarrow> budget_freeze_reason \<Rightarrow> cycle_db \<Rightarrow> cycle_event cycle_result" where
  "freeze_budget_admission c r k held reason db =
     (let db1 = db\<lparr>reservations := update_pk r (\<lambda>v. v\<lparr>rs_state := ReservationFrozen\<rparr>)
                     (reservations db)\<rparr> in
      case cycle_row_of db1 k of
        Inl x \<Rightarrow> (Inl x, db1)
      | Inr cycle \<Rightarrow>
          (case increment_generation (cy_generation cycle) of
             None \<Rightarrow> (Inl InvalidLifecycleTransition, db1)
           | Some g \<Rightarrow>
               (let db2 = transition_cycle c k Cancelling g db1 in
                case active_cancellation_for_cycle db2 k of
                  Some i \<Rightarrow> open_cost_postmortem c r k i held reason db2
                | None \<Rightarrow>
                    (case insert_cancellation c k GracefulCancel (cy_generation cycle) db2 of
                       (Inl x, db3) \<Rightarrow> (Inl x, db3)
                     | (Inr i, db3) \<Rightarrow> open_cost_postmortem c r k i held reason db3))))"

section \<open>Settlement\<close>

text \<open>
  The loop of \<open>settle_office_turn\<close>: the increment leaves each charge and its envelope's
  reservation and becomes spending.
\<close>

fun settle_charges ::
  "int \<Rightarrow> int \<Rightarrow> (int \<times> int) list \<Rightarrow> cycle_db \<Rightarrow> unit cycle_result" where
  "settle_charges r delta [] db = (Inr (), db)"
| "settle_charges r delta ((e, remaining) # xs) db =
     (if remaining < delta then (Inl PiOfficeTurnUsageNotMonotonic, db)
      else
        (case adjust_envelope e delta delta (envelopes db) of
           None \<Rightarrow> (Inl BudgetCeilingExceeded, db)
         | Some t \<Rightarrow>
             settle_charges r delta xs
               (db\<lparr>envelopes := t,
                   charges := update_where (\<lambda>_ x. ch_reservation x = r \<and> ch_envelope x = e)
                     (\<lambda>x. x\<lparr>ch_amount := ch_amount x - delta\<rparr>) (charges db)\<rparr>)))"

text \<open>
  The guard of \<open>settle_office_turn\<close>: the session is in its turn, the cycle runs under the
  generation the prompt was authorised for, and no cancellation is active.
\<close>

definition turn_settleable :: "cycle_db \<Rightarrow> int \<Rightarrow> int \<Rightarrow> bool" where
  "turn_settleable db turn session =
     (case select_pk (sessions db) session of
        None \<Rightarrow> False
      | Some s \<Rightarrow>
          (case select_pk (cycles db) (se_cycle s) of
             None \<Rightarrow> False
           | Some cycle \<Rightarrow>
               se_state s = SessionTurnActive \<and> cy_state cycle = CycleRunning
               \<and> ce_authorized_generation (cenv db) turn = Some (cy_generation cycle)
               \<and> active_cancellation_count db (se_cycle s) = 0))"

definition settle_office_turn ::
  "int \<Rightarrow> int \<Rightarrow> int \<Rightarrow> cycle_db \<Rightarrow> cycle_event cycle_result" where
  "settle_office_turn c turn receipt db =
     (case (select_pk (turns db) turn, ce_settlement (cenv db) turn receipt,
            select_pk (checkpoints db) turn) of
        (Some t, Some ev, Some ck) \<Rightarrow>
          if tu_state t \<noteq> TurnActive \<or> \<not> sv_completed ev \<or> \<not> sv_observed_stop ev
          then (Inl PiOfficeTurnNotReconciled, db)
          else if \<not> turn_settleable db turn (tu_session t) then (Inl PiOfficeTurnNotReconciled, db)
          else if \<not> ce_child_live (cenv db) (sv_child ev)
          then (Inl ChildLifecycleReceiptMissing, db)
          else
            (case select_pk (reservations db) (ck_reservation ck) of
               None \<Rightarrow> (Inl ReservationNotActive, db)
             | Some v \<Rightarrow>
                 if rs_state v \<noteq> ReservationReserved \<or> rs_amount v < rs_charged v
                    \<or> sv_cumulative ev < rs_charged v \<or> ck_baseline ck \<noteq> rs_charged v
                 then (Inl PiOfficeTurnUsageNotMonotonic, db)
                 else if sv_cumulative ev > rs_amount v
                 then freeze_budget_admission c (ck_reservation ck) (rs_cycle v)
                        (rs_amount v - rs_charged v)
                        (FrozenKnownOverrun (sv_cumulative ev) (rs_amount v - rs_charged v)) db
                 else
                   (let delta = sv_cumulative ev - rs_charged v in
                    case settle_charges (ck_reservation ck) delta
                           (charges_of db (ck_reservation ck)) db of
                      (Inl x, db1) \<Rightarrow> (Inl x, db1)
                    | (Inr _, db1) \<Rightarrow>
                        (Inr (OfficeTurnSettled turn (tu_session t) delta),
                         set_session_state c (tu_session t) SessionReady
                           (db1\<lparr>reservations := update_pk (ck_reservation ck)
                                  (\<lambda>w. w\<lparr>rs_charged := rs_charged w + delta\<rparr>) (reservations db1),
                                checkpoints := update_where
                                  (\<lambda>i k. i = turn \<and> ck_settled k = None)
                                  (\<lambda>k. k\<lparr>ck_settled := Some (sv_cumulative ev),
                                         ck_settled_by := Some c\<rparr>) (checkpoints db1),
                                turns := update_pk turn
                                  (\<lambda>u. u\<lparr>tu_state := TurnSettled, tu_settled := Some c\<rparr>)
                                  (turns db1)\<rparr>))))
      | _ \<Rightarrow> (Inl PiOfficeTurnTerminalEvidenceMissing, db))"

section \<open>Reconciliation\<close>

text \<open>The final statement of every reconciliation: the reservation is closed at its full charge.\<close>

definition reconcile_reservation :: "int \<Rightarrow> int \<Rightarrow> int \<Rightarrow> cycle_db \<Rightarrow> cycle_db" where
  "reconcile_reservation c r charged db = db\<lparr>reservations := update_pk r
     (\<lambda>v. v\<lparr>rs_state := ReservationReconciled, rs_charged := charged, rs_reconciled := Some c\<rparr>)
     (reservations db)\<rparr>"

definition reconcile_budget ::
  "int \<Rightarrow> int \<Rightarrow> cost_observation \<Rightarrow> cycle_db \<Rightarrow> cycle_event cycle_result" where
  "reconcile_budget c r observation db =
     (case select_pk (reservations db) r of
        None \<Rightarrow> (Inl SubjectNotFound, db)
      | Some v \<Rightarrow>
          if rs_state v \<noteq> ReservationReserved then (Inl ReservationNotActive, db)
          else if ce_office_parent (cenv db) r then (Inl OfficeSessionBudgetRequiresDispose, db)
          else if rs_charged v > rs_amount v then (Inl ReservationNotActive, db)
          else
            (let remaining = rs_amount v - rs_charged v in
             case observation of
               CostKnown observed \<Rightarrow>
                 if observed < rs_charged v then (Inl PiOfficeTurnUsageNotMonotonic, db)
                 else if observed > rs_amount v
                 then freeze_budget_admission c r (rs_cycle v) remaining
                        (FrozenKnownOverrun observed remaining) db
                 else
                   (case release_charges (charges_of db r) (observed - rs_charged v)
                           (envelopes db) of
                      None \<Rightarrow> (Inl BudgetCeilingExceeded, db)
                    | Some t \<Rightarrow>
                        (Inr (BudgetReconciled r observed),
                         reconcile_reservation c r observed (db\<lparr>envelopes := t\<rparr>)))
             | CostUnknown reason \<Rightarrow>
                 freeze_budget_admission c r (rs_cycle v) remaining (FrozenUnknown reason) db
             | CostUnavailable reason \<Rightarrow>
                 freeze_budget_admission c r (rs_cycle v) remaining (FrozenUnavailable reason) db))"

definition frozen_disposition ::
  "rejection \<Rightarrow> cycle_event cycle_result \<Rightarrow> budget_disposition cycle_result" where
  "frozen_disposition otherwise res = (case res of
     (Inl x, db) \<Rightarrow> (Inl x, db)
   | (Inr (BudgetAdmissionFrozen _ _ cancellation postmortem _), db) \<Rightarrow>
       (Inr (DispositionFrozen cancellation postmortem), db)
   | (Inr _, db) \<Rightarrow> (Inl otherwise, db))"

definition reconcile_task_attempt_reservation ::
  "int \<Rightarrow> int \<Rightarrow> int \<Rightarrow> cycle_db \<Rightarrow> budget_disposition cycle_result" where
  "reconcile_task_attempt_reservation c r observed db =
     (case select_pk (reservations db) r of
        None \<Rightarrow> (Inl ReservationNotActive, db)
      | Some v \<Rightarrow>
          if rs_state v \<noteq> ReservationReserved \<or> observed < rs_charged v \<or> rs_amount v < rs_charged v
          then (Inl PiTaskAttemptNotReconciled, db)
          else if observed > rs_amount v
          then frozen_disposition PiTaskAttemptNotReconciled
                 (freeze_budget_admission c r (rs_cycle v) (rs_amount v - rs_charged v)
                    (FrozenKnownOverrun observed (rs_amount v - rs_charged v)) db)
          else
            (case release_charges (charges_of db r) (observed - rs_charged v) (envelopes db) of
               None \<Rightarrow> (Inl BudgetCeilingExceeded, db)
             | Some t \<Rightarrow>
                 (Inr (DispositionReconciled observed),
                  reconcile_reservation c r observed (db\<lparr>envelopes := t\<rparr>))))"

text \<open>The loop of the disposal of an Office session: the charge rows are cleared as well.\<close>

fun dispose_charges ::
  "int \<Rightarrow> int \<Rightarrow> (int \<times> int) list \<Rightarrow> cycle_db \<Rightarrow> unit cycle_result" where
  "dispose_charges r delta [] db = (Inr (), db)"
| "dispose_charges r delta ((e, held) # xs) db =
     (if held < delta then (Inl PiOfficeSessionDisposeUsageNotMonotonic, db)
      else
        (case adjust_envelope e held delta (envelopes db) of
           None \<Rightarrow> (Inl BudgetCeilingExceeded, db)
         | Some t \<Rightarrow>
             dispose_charges r delta xs
               (db\<lparr>envelopes := t,
                   charges := update_where (\<lambda>_ x. ch_reservation x = r \<and> ch_envelope x = e)
                     (\<lambda>x. x\<lparr>ch_amount := 0\<rparr>) (charges db)\<rparr>)))"

text \<open>
  The budget part of \<open>record_pi_office_session_disposed\<close>, from the reading of the reservation to
  the session's next state.
\<close>

definition dispose_session_budget ::
  "int \<Rightarrow> int \<Rightarrow> int \<Rightarrow> int \<Rightarrow> cycle_db \<Rightarrow>
     (budget_disposition \<times> office_session_state) cycle_result" where
  "dispose_session_budget c r k observed db =
     (case select_pk (reservations db) r of
        None \<Rightarrow> (Inl ReservationNotActive, db)
      | Some v \<Rightarrow>
          if rs_state v \<noteq> ReservationReserved \<or> rs_amount v < rs_charged v \<or> observed < rs_charged v
          then (Inl PiOfficeSessionDisposeUsageNotMonotonic, db)
          else if observed > rs_amount v
          then
            (case frozen_disposition PiOfficeSessionDisposeReceiptMissing
                    (freeze_budget_admission c r k (rs_amount v - rs_charged v)
                       (FrozenKnownOverrun observed (rs_amount v - rs_charged v)) db) of
               (Inl x, db1) \<Rightarrow> (Inl x, db1)
             | (Inr d, db1) \<Rightarrow> (Inr (d, SessionCancelled), db1))
          else
            (case dispose_charges r (observed - rs_charged v) (charges_of db r) db of
               (Inl x, db1) \<Rightarrow> (Inl x, db1)
             | (Inr _, db1) \<Rightarrow>
                 (Inr (DispositionReconciled observed, SessionClosed),
                  reconcile_reservation c r observed db1)))"

section \<open>Resolution of a cost postmortem\<close>

text \<open>What a resolution charges: closed over the cause of the postmortem.\<close>

definition resolution_charge ::
  "postmortem_row \<Rightarrow> cost_postmortem_resolution \<Rightarrow> int \<Rightarrow> int option" where
  "resolution_charge p resolution charged =
     (case (pm_cause p, resolution, pm_observed p) of
        (CauseKnownOverrun, ChargeObservedOverrun, Some observed) \<Rightarrow>
          if 0 \<le> observed - charged then Some (observed - charged) else None
      | (CauseUnknownCost, ConservativeFullReservation, None) \<Rightarrow> Some (pm_reserved p)
      | (CauseUnavailableCost, ConservativeFullReservation, None) \<Rightarrow> Some (pm_reserved p)
      | _ \<Rightarrow> None)"

definition close_cost_postmortem ::
  "int \<Rightarrow> expected_generation \<Rightarrow> int \<Rightarrow> cost_postmortem_resolution \<Rightarrow> cycle_db
     \<Rightarrow> cycle_event cycle_result" where
  "close_cost_postmortem c x i resolution db =
     (case select_pk (postmortems db) i of
        None \<Rightarrow> (Inl SubjectNotFound, db)
      | Some p \<Rightarrow>
          if pm_state p \<noteq> PostmortemOpen then (Inl CostPostmortemNotOpen, db)
          else
            (case cycle_for_generation db (pm_cycle p) x of
               Inl y \<Rightarrow> (Inl y, db)
             | Inr cycle \<Rightarrow>
                 if cy_state cycle \<notin> {Drained, Reconciling}
                    \<or> active_cancellation_count db (pm_cycle p) \<noteq> 0
                 then (Inl IncompleteCycleReconciliation, db)
                 else
                   (case select_pk (reservations db) (pm_reservation p) of
                      None \<Rightarrow> (Inl SubjectNotFound, db)
                    | Some v \<Rightarrow>
                        if rs_state v \<noteq> ReservationFrozen then (Inl ReservationNotActive, db)
                        else if rs_amount v < rs_charged v
                                \<or> rs_amount v - rs_charged v \<noteq> pm_reserved p
                        then (Inl ReservationNotActive, db)
                        else
                          (case resolution_charge p resolution (rs_charged v) of
                             None \<Rightarrow> (Inl InvalidCostPostmortemResolution, db)
                           | Some charged \<Rightarrow>
                               if charged < pm_reserved p \<and> pm_cause p = CauseKnownOverrun
                               then (Inl ReservationNotActive, db)
                               else
                                 (case release_charges (charges_of db (pm_reservation p)) charged
                                         (envelopes db) of
                                    None \<Rightarrow> (Inl BudgetCeilingExceeded, db)
                                  | Some t \<Rightarrow>
                                      (case checked_add_i64 (rs_charged v) charged of
                                         None \<Rightarrow> (Inl BudgetCeilingExceeded, db)
                                       | Some all \<Rightarrow>
                                           (case insert_key True i
                                                   \<lparr>re_kind = resolution, re_charged = charged,
                                                    re_by = c\<rparr> (resolutions db) of
                                              None \<Rightarrow> (Inl CostPostmortemNotOpen, db)
                                            | Some u \<Rightarrow>
                                                (Inr (CostPostmortemClosed i (pm_reservation p)
                                                        (pm_cycle p) resolution charged),
                                                 (reconcile_reservation c (pm_reservation p) all
                                                    (db\<lparr>envelopes := t, resolutions := u\<rparr>))
                                                   \<lparr>postmortems := update_pk i
                                                      (\<lambda>q. q\<lparr>pm_state := PostmortemClosed,
                                                             pm_closed := Some c\<rparr>)
                                                      (postmortems db)\<rparr>))))))))"

end
