(* ===== verification/Cycle_Lifecycle.thy ===== *)
theory Cycle_Lifecycle
  imports Cycle_Budget
begin

text \<open>
  The founding of a society and the lifecycle of its operating cycles, Office sessions and Office
  turns (\<^verbatim>\<open>store.rs\<close>): the transitions from \<open>create_society\<close> to \<open>close_cycle\<close>, the two
  cancellation transitions, the dispatcher of these commands, and the states the kernel reaches
  with them.
\<close>

section \<open>Founding\<close>

definition create_society :: "int \<Rightarrow> string \<Rightarrow> cycle_db \<Rightarrow> cycle_event cycle_result" where
  "create_society c name db =
     (if exists_where (\<lambda>_ _. True) (societies db) then (Inl FoundingInvariant, db)
      else
        (case insert_identity (\<not> exists_where (\<lambda>_ r. sy_name r = name) (societies db))
                \<lparr>sy_name = name, sy_state = 1\<rparr> (societies db) of
           (None, t) \<Rightarrow> (Inl FoundingInvariant, db\<lparr>societies := t\<rparr>)
         | (Some s, t) \<Rightarrow> (Inr (SocietyIdentityCreated s), db\<lparr>societies := t\<rparr>)))"

definition set_r0_hard_ceiling :: "int \<Rightarrow> int \<Rightarrow> cycle_db \<Rightarrow> cycle_event cycle_result" where
  "set_r0_hard_ceiling c amount db =
     (case only_society_id db of
        Inl x \<Rightarrow> (Inl x, db)
      | Inr s \<Rightarrow>
          if exists_where (\<lambda>_ _. True) (bootstraps db) then (Inl FoundingInvariant, db)
          else if amount = 0 then (Inl BudgetPolicyViolation, db)
          else (Inr (R0HardCeilingSet s amount), db))"

definition bootstrap_society :: "int \<Rightarrow> cycle_db \<Rightarrow> cycle_event cycle_result" where
  "bootstrap_society c db =
     (case only_society_id db of
        Inl x \<Rightarrow> (Inl x, db)
      | Inr s \<Rightarrow>
          if exists_where (\<lambda>_ _. True) (bootstraps db) then (Inl FoundingInvariant, db)
          else
            (case (ce_mission (cenv db) s, ce_office (cenv db), ce_occupancy (cenv db)) of
               (Some mission, Some office, Some occupancy) \<Rightarrow>
                 (case hard_ceiling_from_event_body db of
                    Inl x \<Rightarrow> (Inl x, db)
                  | Inr amount \<Rightarrow>
                      (case insert_key (0 < amount) s
                              \<lparr>bs_mission = mission, bs_office = office, bs_occupancy = occupancy,
                               bs_ceiling = amount, bs_by = c\<rparr> (bootstraps db) of
                         None \<Rightarrow> (Inl FoundingInvariant, db)
                       | Some t \<Rightarrow>
                           (case create_budget_envelope c amount
                                   (db\<lparr>bootstraps := t,
                                       societies := update_pk s (\<lambda>r. r\<lparr>sy_state := 2\<rparr>)
                                         (societies db)\<rparr>) of
                              (Inl x, db1) \<Rightarrow> (Inl x, db1)
                            | (Inr e, db1) \<Rightarrow>
                                (case insert_constraint e (SocietyScope s) db1 of
                                   (False, db2) \<Rightarrow> (Inl FoundingInvariant, db2)
                                 | (True, db2) \<Rightarrow> (Inr (SocietyBootstrapped s), db2)))))
             | _ \<Rightarrow> (Inl SubjectNotFound, db)))"

section \<open>Cycles\<close>

definition propose_operating_cycle ::
  "int \<Rightarrow> operating_cycle_treatment \<Rightarrow> int \<Rightarrow> cycle_db \<Rightarrow> cycle_event cycle_result" where
  "propose_operating_cycle c treatment amount db =
     (case bootstrapped_constitution db of
        Inl x \<Rightarrow> (Inl x, db)
      | Inr (society, mission, occupancy, hard_ceiling) \<Rightarrow>
          if amount = 0 \<or> amount > hard_ceiling then (Inl BudgetPolicyViolation, db)
          else if exists_where (\<lambda>_ r. is_nonterminal (cy_state r)) (cycles db)
          then (Inl ActiveCycleAlreadyExists, db)
          else
            (case insert_identity (0 < amount)
                    \<lparr>cy_society = society, cy_mission = mission, cy_occupancy = occupancy,
                     cy_treatment = treatment, cy_ceiling = amount, cy_state = Proposed,
                     cy_generation = 0, cy_proposed = c, cy_last = c\<rparr> (cycles db) of
               (None, t) \<Rightarrow> (Inl ActiveCycleAlreadyExists, db\<lparr>cycles := t\<rparr>)
             | (Some k, t) \<Rightarrow>
                 (case create_budget_envelope c amount (db\<lparr>cycles := t\<rparr>) of
                    (Inl x, db1) \<Rightarrow> (Inl x, db1)
                  | (Inr e, db1) \<Rightarrow>
                      (case insert_constraint e (CycleScope k) db1 of
                         (False, db2) \<Rightarrow> (Inl FoundingInvariant, db2)
                       | (True, db2) \<Rightarrow>
                           (Inr (OperatingCycleProposed k 0 treatment amount), db2)))))"

definition admit_operating_cycle ::
  "int \<Rightarrow> expected_generation \<Rightarrow> int \<Rightarrow> cycle_db \<Rightarrow> cycle_event cycle_result" where
  "admit_operating_cycle c x k db =
     (case cycle_for_generation db k x of
        Inl y \<Rightarrow> (Inl y, db)
      | Inr cycle \<Rightarrow>
          if cy_state cycle \<noteq> Proposed then (Inl InvalidLifecycleTransition, db)
          else
            (let db1 = set_cycle_state c k CycleAdmitted db in
             case insert_key True k \<lparr>ca_admitted = c, ca_started = None\<rparr> (cycle_admissions db1) of
               None \<Rightarrow> (Inl InvalidLifecycleTransition, db1)
             | Some t \<Rightarrow>
                 (Inr (OperatingCycleStateChanged k CycleAdmitted (cy_generation cycle)),
                  db1\<lparr>cycle_admissions := t\<rparr>)))"

text \<open>The two statements that start an admitted cycle.\<close>

definition start_cycle :: "int \<Rightarrow> int \<Rightarrow> cycle_db \<Rightarrow> cycle_db" where
  "start_cycle c k db = (set_cycle_state c k CycleRunning db)
     \<lparr>cycle_admissions := update_pk k (\<lambda>r. r\<lparr>ca_started := Some c\<rparr>) (cycle_admissions db)\<rparr>"

definition start_office_session ::
  "int \<Rightarrow> expected_generation \<Rightarrow> int \<Rightarrow> cycle_db \<Rightarrow> cycle_event cycle_result" where
  "start_office_session c x k db =
     (case cycle_for_generation db k x of
        Inl y \<Rightarrow> (Inl y, db)
      | Inr cycle \<Rightarrow>
          if cy_state cycle \<noteq> CycleAdmitted then (Inl InvalidLifecycleTransition, db)
          else
            (let db1 = start_cycle c k db in
             case insert_identity
                    (\<not> exists_where (\<lambda>_ r. se_cycle r = k \<and> session_live (se_state r))
                        (sessions db1))
                    \<lparr>se_cycle = k, se_occupancy = cy_occupancy cycle, se_state = SessionReserved,
                     se_started = c, se_last = c\<rparr> (sessions db1) of
               (None, t) \<Rightarrow> (Inl InvalidLifecycleTransition, db1\<lparr>sessions := t\<rparr>)
             | (Some s, t) \<Rightarrow>
                 (Inr (RootAuthorityOfficeSessionStarted s k), db1\<lparr>sessions := t\<rparr>)))"

definition start_native_execution_profile_qualification ::
  "int \<Rightarrow> expected_generation \<Rightarrow> int \<Rightarrow> cycle_db \<Rightarrow> cycle_event cycle_result" where
  "start_native_execution_profile_qualification c x k db =
     (case cycle_for_generation db k x of
        Inl y \<Rightarrow> (Inl y, db)
      | Inr cycle \<Rightarrow>
          if cy_treatment cycle \<noteq> PiSdkQualificationV1
          then (Inl QualificationTreatmentRestricted, db)
          else if cy_state cycle \<noteq> CycleAdmitted then (Inl InvalidLifecycleTransition, db)
          else (Inr (NativeExecutionProfileQualificationStarted k (cy_generation cycle)),
                start_cycle c k db))"

text \<open>
  \<open>INSERT INTO workspaces ... ON CONFLICT (native_workspace_id) DO NOTHING\<close>; a path registered
  under another identity violates its own UNIQUE constraint.
\<close>

definition register_workspace :: "string \<Rightarrow> string \<Rightarrow> cycle_db \<Rightarrow> cycle_db option" where
  "register_workspace w path db = (case select_pk (workspaces db) w of
     Some _ \<Rightarrow> Some db
   | None \<Rightarrow>
       (case insert_key (\<not> exists_where (\<lambda>_ p. p = path) (workspaces db)) w path (workspaces db) of
          None \<Rightarrow> None | Some t \<Rightarrow> Some (db\<lparr>workspaces := t\<rparr>)))"

definition claim_native_execution_profile_qualification_launch ::
  "int \<Rightarrow> expected_generation \<Rightarrow> int \<Rightarrow> int \<Rightarrow> int \<Rightarrow> string \<Rightarrow> string \<Rightarrow> string \<Rightarrow> cycle_db
     \<Rightarrow> cycle_event cycle_result" where
  "claim_native_execution_profile_qualification_launch c x k amount epoch identity w path db =
     (case cycle_for_generation db k x of
        Inl y \<Rightarrow> (Inl y, db)
      | Inr cycle \<Rightarrow>
          if cy_state cycle \<noteq> CycleAdmitted \<or> cy_treatment cycle \<noteq> PiSdkQualificationV1
          then (Inl QualificationTreatmentRestricted, db)
          else if exists_where (\<lambda>_ r. lc_cycle r = k) (launch_claims db)
          then (Inl InvalidLifecycleTransition, db)
          else if \<not> ce_profile_unqualified (cenv db) then (Inl ExecutionProfileIneligible, db)
          else if amount = 0 then (Inl BudgetCeilingExceeded, db)
          else if \<not> ce_epoch (cenv db) epoch identity then (Inl ChildSpawnAdmissionInvalid, db)
          else
            (case register_workspace w path db of
               None \<Rightarrow> (Inl ChildSpawnAdmissionInvalid, db)
             | Some db1 \<Rightarrow>
                 if select_pk (workspaces db1) w \<noteq> Some path
                 then (Inl ChildSpawnAdmissionInvalid, db1)
                 else
                   (case reserve_budget c x k amount (start_cycle c k db1) of
                      (Inr (BudgetReserved r _ _), db2) \<Rightarrow>
                        (case insert_identity
                                (\<not> exists_where (\<lambda>_ q. lc_cycle q = k \<or> lc_reservation q = r
                                     \<or> lc_profile q = native_pinned_pi_sdk_v1
                                     \<or> lc_workspace q = w \<or> lc_path q = path) (launch_claims db2))
                                \<lparr>lc_cycle = k, lc_reservation = r,
                                 lc_profile = native_pinned_pi_sdk_v1, lc_epoch = epoch,
                                 lc_epoch_identity = identity, lc_workspace = w, lc_path = path,
                                 lc_generation = cy_generation cycle, lc_by = c\<rparr>
                                (launch_claims db2) of
                           (None, t) \<Rightarrow> (Inl InvalidLifecycleTransition, db2\<lparr>launch_claims := t\<rparr>)
                         | (Some i, t) \<Rightarrow>
                             (Inr (NativeExecutionProfileQualificationLaunchClaimed i k r epoch
                                     (cy_generation cycle)), db2\<lparr>launch_claims := t\<rparr>))
                    | (Inr _, db2) \<Rightarrow> (Inl InvalidLifecycleTransition, db2)
                    | (Inl y, db2) \<Rightarrow> (Inl y, db2))))"

section \<open>Office sessions and turns\<close>

definition record_office_session_ready ::
  "int \<Rightarrow> expected_generation \<Rightarrow> int \<Rightarrow> cycle_db \<Rightarrow> cycle_event cycle_result" where
  "record_office_session_ready c x s db =
     (case session_row_of db s of
        Inl y \<Rightarrow> (Inl y, db)
      | Inr (state, k) \<Rightarrow>
          (case cycle_for_generation db k x of
             Inl y \<Rightarrow> (Inl y, db)
           | Inr cycle \<Rightarrow>
               if state \<noteq> SessionReserved \<or> cy_state cycle \<noteq> CycleRunning
               then (Inl InvalidLifecycleTransition, db)
               else
                 (case ce_spawn_admission (cenv db) s of
                    None \<Rightarrow> (Inl ChildLifecycleReceiptMissing, db)
                  | Some admission \<Rightarrow>
                      if \<not> ce_child_ready (cenv db) admission
                      then (Inl ChildLifecycleReceiptMissing, db)
                      else (Inr (RootAuthorityOfficeSessionStateChanged s SessionReady),
                            set_session_state c s SessionReady db))))"

text \<open>The observed terminal classification a session in a cycle may take.\<close>

definition terminal_session_state ::
  "office_session_terminal_state \<Rightarrow> office_session_state \<Rightarrow> operating_cycle_state
     \<Rightarrow> office_session_state option" where
  "terminal_session_state terminal state cycle_state = (case terminal of
     SessionTerminalClosed \<Rightarrow>
       if state = SessionReady \<and> cycle_state = Reconciling then Some SessionClosed else None
   | SessionTerminalCancelled \<Rightarrow>
       if state \<in> {SessionReserved, SessionReady} \<and> cycle_state = Cancelling
       then Some SessionCancelled else None
   | SessionTerminalFailed \<Rightarrow>
       if session_live state \<and> is_nonterminal cycle_state then Some SessionFailed else None)"

definition record_office_session_terminal ::
  "int \<Rightarrow> expected_generation \<Rightarrow> int \<Rightarrow> office_session_terminal_state \<Rightarrow> cycle_db
     \<Rightarrow> cycle_event cycle_result" where
  "record_office_session_terminal c x s terminal db =
     (case session_row_of db s of
        Inl y \<Rightarrow> (Inl y, db)
      | Inr (state, k) \<Rightarrow>
          (case cycle_for_generation db k x of
             Inl y \<Rightarrow> (Inl y, db)
           | Inr cycle \<Rightarrow>
               if session_has_active_turn db s then (Inl InvalidLifecycleTransition, db)
               else if ce_spawn_admission (cenv db) s \<noteq> None
               then (Inl SupervisedTerminalReceiptRequired, db)
               else
                 (case terminal_session_state terminal state (cy_state cycle) of
                    None \<Rightarrow> (Inl InvalidLifecycleTransition, db)
                  | Some next_state \<Rightarrow>
                      (Inr (RootAuthorityOfficeSessionStateChanged s next_state),
                       set_session_state c s next_state db))))"

definition purpose_is_admitted :: "office_turn_purpose \<Rightarrow> operating_cycle_state \<Rightarrow> bool" where
  "purpose_is_admitted purpose state = (case purpose of
     OrdinaryWork \<Rightarrow> admits_task_work state
   | _ \<Rightarrow> state \<in> {Quiescing, Drained, Reconciling})"

definition open_office_turn ::
  "int \<Rightarrow> expected_generation \<Rightarrow> int \<Rightarrow> office_turn_purpose \<Rightarrow> cycle_db
     \<Rightarrow> cycle_event cycle_result" where
  "open_office_turn c x s purpose db =
     (case session_row_of db s of
        Inl y \<Rightarrow> (Inl y, db)
      | Inr (state, k) \<Rightarrow>
          (case cycle_for_generation db k x of
             Inl y \<Rightarrow> (Inl y, db)
           | Inr cycle \<Rightarrow>
               (case ce_spawn_admission (cenv db) s of
                  None \<Rightarrow> (Inl ChildLifecycleReceiptMissing, db)
                | Some admission \<Rightarrow>
                    if \<not> ce_child_ready (cenv db) admission
                    then (Inl InvalidLifecycleTransition, db)
                    else if state \<noteq> SessionReady \<or> \<not> purpose_is_admitted purpose (cy_state cycle)
                    then (Inl InvalidLifecycleTransition, db)
                    else
                      (let db1 = set_session_state c s SessionTurnActive db in
                       case insert_identity (\<not> session_has_active_turn db1 s)
                              \<lparr>tu_session = s, tu_state = TurnActive, tu_purpose = purpose,
                               tu_opened = c, tu_settled = None\<rparr> (turns db1) of
                         (None, t) \<Rightarrow> (Inl SessionTurnAlreadyActive, db1\<lparr>turns := t\<rparr>)
                       | (Some i, t) \<Rightarrow>
                           (Inr (OfficeTurnOpened i s purpose), db1\<lparr>turns := t\<rparr>)))))"

section \<open>Quiescence, reconciliation and closure\<close>

definition quiesce_cycle ::
  "int \<Rightarrow> expected_generation \<Rightarrow> int \<Rightarrow> cycle_db \<Rightarrow> cycle_event cycle_result" where
  "quiesce_cycle c x k db =
     (case cycle_for_generation db k x of
        Inl y \<Rightarrow> (Inl y, db)
      | Inr cycle \<Rightarrow>
          if cy_state cycle \<notin> {CycleAdmitted, CycleRunning} then (Inl InvalidLifecycleTransition, db)
          else
            (case increment_generation (cy_generation cycle) of
               None \<Rightarrow> (Inl InvalidLifecycleTransition, db)
             | Some g \<Rightarrow>
                 (Inr (OperatingCycleStateChanged k Quiescing g),
                  transition_cycle c k Quiescing g db)))"

text \<open>No Office turn, actor attempt, work lease or native child of the cycle is active.\<close>

definition no_owned_execution :: "cycle_db \<Rightarrow> int \<Rightarrow> bool" where
  "no_owned_execution db k \<longleftrightarrow>
     ce_live_attempts (cenv db) k = 0 \<and> ce_active_leases (cenv db) k = 0
     \<and> ce_live_children (cenv db) k = 0"

definition record_cycle_drained :: "int \<Rightarrow> int \<Rightarrow> cycle_db \<Rightarrow> cycle_event cycle_result" where
  "record_cycle_drained c k db =
     (case cycle_row_of db k of
        Inl y \<Rightarrow> (Inl y, db)
      | Inr cycle \<Rightarrow>
          if cy_state cycle \<noteq> Quiescing \<or> active_office_turn_count db k \<noteq> 0
             \<or> \<not> no_owned_execution db k
          then (Inl InvalidLifecycleTransition, db)
          else
            (let next_state = if active_cancellation_count db k \<noteq> 0 then Cancelling else Drained in
             (Inr (OperatingCycleStateChanged k next_state (cy_generation cycle)),
              transition_cycle c k next_state (cy_generation cycle) db)))"

definition resume_cycle ::
  "int \<Rightarrow> expected_generation \<Rightarrow> int \<Rightarrow> cycle_db \<Rightarrow> cycle_event cycle_result" where
  "resume_cycle c x k db =
     (case cycle_for_generation db k x of
        Inl y \<Rightarrow> (Inl y, db)
      | Inr cycle \<Rightarrow>
          if cy_state cycle \<noteq> Drained then (Inl InvalidLifecycleTransition, db)
          else if unreconciled_reservation_count db k \<noteq> 0 \<or> active_cancellation_count db k \<noteq> 0
                  \<or> \<not> no_owned_execution db k \<or> ce_undisposed_workspaces (cenv db) k \<noteq> 0
          then (Inl IncompleteCycleReconciliation, db)
          else
            (Inr (OperatingCycleStateChanged k CycleRunning (cy_generation cycle)),
             transition_cycle c k CycleRunning (cy_generation cycle) db))"

definition begin_reconciliation ::
  "int \<Rightarrow> expected_generation \<Rightarrow> int \<Rightarrow> cycle_db \<Rightarrow> cycle_event cycle_result" where
  "begin_reconciliation c x k db =
     (case cycle_for_generation db k x of
        Inl y \<Rightarrow> (Inl y, db)
      | Inr cycle \<Rightarrow>
          if cy_state cycle \<noteq> Drained then (Inl InvalidLifecycleTransition, db)
          else
            (let db1 = transition_cycle c k Reconciling (cy_generation cycle) db in
             case insert_key True k \<lparr>cr_started = c, cr_closed = None\<rparr>
                    (cycle_reconciliations db1) of
               None \<Rightarrow> (Inl InvalidLifecycleTransition, db1)
             | Some t \<Rightarrow>
                 (Inr (OperatingCycleStateChanged k Reconciling (cy_generation cycle)),
                  db1\<lparr>cycle_reconciliations := t\<rparr>)))"

definition close_cycle ::
  "int \<Rightarrow> expected_generation \<Rightarrow> int \<Rightarrow> cycle_db \<Rightarrow> cycle_event cycle_result" where
  "close_cycle c x k db =
     (case cycle_for_generation db k x of
        Inl y \<Rightarrow> (Inl y, db)
      | Inr cycle \<Rightarrow>
          if cy_state cycle \<noteq> Reconciling \<or> active_office_turn_count db k \<noteq> 0
             \<or> live_office_session_count db k \<noteq> 0 \<or> unreconciled_reservation_count db k \<noteq> 0
             \<or> active_cancellation_count db k \<noteq> 0 \<or> \<not> no_owned_execution db k
          then (Inl IncompleteCycleReconciliation, db)
          else
            (Inr (OperatingCycleStateChanged k CycleClosed (cy_generation cycle)),
             (transition_cycle c k CycleClosed (cy_generation cycle) db)
               \<lparr>cycle_reconciliations := update_pk k (\<lambda>r. r\<lparr>cr_closed := Some c\<rparr>)
                  (cycle_reconciliations db)\<rparr>))"

section \<open>Cancellation\<close>

definition cancellation_cycle_state :: "cancellation_mode \<Rightarrow> operating_cycle_state" where
  "cancellation_cycle_state mode = (case mode of Quiesce \<Rightarrow> Quiescing | _ \<Rightarrow> Cancelling)"

definition request_cancellation ::
  "int \<Rightarrow> expected_generation \<Rightarrow> int \<Rightarrow> cancellation_mode \<Rightarrow> cycle_db
     \<Rightarrow> cycle_event cycle_result" where
  "request_cancellation c x k mode db =
     (case cycle_for_generation db k x of
        Inl y \<Rightarrow> (Inl y, db)
      | Inr cycle \<Rightarrow>
          if \<not> is_nonterminal (cy_state cycle)
             \<or> cy_state cycle \<in> {Reconciling, Cancelling, Reaping}
          then (Inl InvalidLifecycleTransition, db)
          else
            (case increment_generation (cy_generation cycle) of
               None \<Rightarrow> (Inl InvalidLifecycleTransition, db)
             | Some g \<Rightarrow>
                 (case insert_cancellation c k mode (cy_generation cycle)
                         (transition_cycle c k (cancellation_cycle_state mode) g db) of
                    (Inl y, db1) \<Rightarrow> (Inl y, db1)
                  | (Inr i, db1) \<Rightarrow> (Inr (CancellationWasRequested i k mode g), db1))))"

definition reconcile_cancellation :: "int \<Rightarrow> int \<Rightarrow> cycle_db \<Rightarrow> cycle_event cycle_result" where
  "reconcile_cancellation c i db =
     (case select_pk (cancellations db) i of
        None \<Rightarrow> (Inl SubjectNotFound, db)
      | Some r \<Rightarrow>
          if \<not> cancellation_active (cn_state r) then (Inl CancellationAlreadyTerminal, db)
          else
            (case cycle_row_of db (cn_cycle r) of
               Inl y \<Rightarrow> (Inl y, db)
             | Inr cycle \<Rightarrow>
                 if cy_state cycle \<noteq> Cancelling then (Inl InvalidLifecycleTransition, db)
                 else if active_office_turn_count db (cn_cycle r) \<noteq> 0
                         \<or> live_office_session_count db (cn_cycle r) \<noteq> 0
                 then (Inl IncompleteCycleReconciliation, db)
                 else if ce_cycle_has_child (cenv db) (cn_cycle r)
                         \<and> \<not> ce_propagation_reconciled (cenv db) i
                 then (Inl CancellationPropagationIncomplete, db)
                 else
                   (Inr (CancellationReconciled i (cn_cycle r)),
                    transition_cycle c (cn_cycle r) Drained (cy_generation cycle)
                      (db\<lparr>cancellations := update_pk i
                            (\<lambda>q. q\<lparr>cn_state := CancellationCompleted, cn_reconciled := Some c\<rparr>)
                            (cancellations db)\<rparr>))))"

section \<open>Commands\<close>

datatype (plugins only: code) cycle_command =
    CreateSocietyIdentity string
  | SetR0HardCeiling int
  | BootstrapSociety
  | ProposeOperatingCycle operating_cycle_treatment int
  | AdmitOperatingCycle int
  | StartRootAuthorityOfficeSession int
  | StartNativeExecutionProfileQualification int
  | ClaimNativeExecutionProfileQualificationLaunch int int int string string string
  | RecordOfficeSessionReady int
  | RecordOfficeSessionTerminal int office_session_terminal_state
  | OpenOfficeTurn int office_turn_purpose
  | SettleOfficeTurn int int
  | QuiesceOperatingCycle int
  | RecordCycleDrained int
  | ResumeOperatingCycle int
  | ReconcileOperatingCycle int
  | CloseOperatingCycle int
  | ReserveBudget int int
  | ReconcileBudget int cost_observation
  | RequestCancellation int cancellation_mode
  | ReconcileCancellation int
  | CloseCostPostmortem int cost_postmortem_resolution

text \<open>Amounts are \<open>UsdMicros\<close>.\<close>

definition cycle_command_typed :: "cycle_command \<Rightarrow> bool" where
  "cycle_command_typed cmd = (case cmd of
     SetR0HardCeiling v \<Rightarrow> 0 \<le> v \<and> v \<le> i64_max
   | ProposeOperatingCycle _ v \<Rightarrow> 0 \<le> v \<and> v \<le> i64_max
   | ClaimNativeExecutionProfileQualificationLaunch _ v _ _ _ _ \<Rightarrow> 0 \<le> v \<and> v \<le> i64_max
   | ReserveBudget _ v \<Rightarrow> 0 \<le> v \<and> v \<le> i64_max
   | ReconcileBudget _ (CostKnown v) \<Rightarrow> 0 \<le> v \<and> v \<le> i64_max
   | _ \<Rightarrow> True)"

text \<open>The commands whose request names the admission generation it was formed under.\<close>

definition carries_generation :: "cycle_command \<Rightarrow> bool" where
  "carries_generation cmd = (case cmd of
     AdmitOperatingCycle _ \<Rightarrow> True
   | StartRootAuthorityOfficeSession _ \<Rightarrow> True
   | StartNativeExecutionProfileQualification _ \<Rightarrow> True
   | ClaimNativeExecutionProfileQualificationLaunch _ _ _ _ _ _ \<Rightarrow> True
   | RecordOfficeSessionReady _ \<Rightarrow> True
   | RecordOfficeSessionTerminal _ _ \<Rightarrow> True
   | OpenOfficeTurn _ _ \<Rightarrow> True
   | QuiesceOperatingCycle _ \<Rightarrow> True
   | ResumeOperatingCycle _ \<Rightarrow> True
   | ReconcileOperatingCycle _ \<Rightarrow> True
   | CloseOperatingCycle _ \<Rightarrow> True
   | ReserveBudget _ _ \<Rightarrow> True
   | RequestCancellation _ _ \<Rightarrow> True
   | CloseCostPostmortem _ _ \<Rightarrow> True
   | _ \<Rightarrow> False)"

definition cycle_dispatch ::
  "int \<Rightarrow> expected_generation \<Rightarrow> cycle_command \<Rightarrow> cycle_db \<Rightarrow> cycle_event cycle_result" where
  "cycle_dispatch c x cmd db = (case cmd of
     CreateSocietyIdentity name \<Rightarrow> create_society c name db
   | SetR0HardCeiling v \<Rightarrow> set_r0_hard_ceiling c v db
   | BootstrapSociety \<Rightarrow> bootstrap_society c db
   | ProposeOperatingCycle treatment v \<Rightarrow> propose_operating_cycle c treatment v db
   | AdmitOperatingCycle k \<Rightarrow> admit_operating_cycle c x k db
   | StartRootAuthorityOfficeSession k \<Rightarrow> start_office_session c x k db
   | StartNativeExecutionProfileQualification k \<Rightarrow>
       start_native_execution_profile_qualification c x k db
   | ClaimNativeExecutionProfileQualificationLaunch k v epoch identity w path \<Rightarrow>
       claim_native_execution_profile_qualification_launch c x k v epoch identity w path db
   | RecordOfficeSessionReady s \<Rightarrow> record_office_session_ready c x s db
   | RecordOfficeSessionTerminal s terminal \<Rightarrow> record_office_session_terminal c x s terminal db
   | OpenOfficeTurn s purpose \<Rightarrow> open_office_turn c x s purpose db
   | SettleOfficeTurn turn receipt \<Rightarrow> settle_office_turn c turn receipt db
   | QuiesceOperatingCycle k \<Rightarrow> quiesce_cycle c x k db
   | RecordCycleDrained k \<Rightarrow> record_cycle_drained c k db
   | ResumeOperatingCycle k \<Rightarrow> resume_cycle c x k db
   | ReconcileOperatingCycle k \<Rightarrow> begin_reconciliation c x k db
   | CloseOperatingCycle k \<Rightarrow> close_cycle c x k db
   | ReserveBudget k v \<Rightarrow> reserve_budget c x k v db
   | ReconcileBudget r observation \<Rightarrow> reconcile_budget c r observation db
   | RequestCancellation k mode \<Rightarrow> request_cancellation c x k mode db
   | ReconcileCancellation i \<Rightarrow> reconcile_cancellation c i db
   | CloseCostPostmortem i resolution \<Rightarrow> close_cost_postmortem c x i resolution db)"

text \<open>
  The part of \<open>apply_command\<close> that concerns these commands: the generation check of the request,
  then the transition.  The checks of the grant, the target occupancy and the treatment, which come
  between the two, are in \<^verbatim>\<open>Cycle_Requests\<close>: a request they let through is a command accepted here.
\<close>

definition cycle_apply ::
  "int \<Rightarrow> expected_generation \<Rightarrow> cycle_command \<Rightarrow> cycle_db \<Rightarrow> cycle_event cycle_result" where
  "cycle_apply c x cmd db =
     (if carries_generation cmd = (x = NotApplicable) then (Inl InvalidExpectedGeneration, db)
      else cycle_dispatch c x cmd db)"

end
