(* ===== verification/Cycle_Machine.thy ===== *)
theory Cycle_Machine
  imports Cycle_Lifecycle
begin

text \<open>
  The states the kernel reaches on the operating-cycle plane, and the explicit effect of the
  transitions that write several tables.  Besides the commands of \<open>cycle_apply\<close> the step relation
  has the transitions of other parts of the kernel that touch these tables: actor attempts reserve
  and reconcile budget, a usage failure freezes a reservation, an idle Office session is disposed,
  and a cancellation is propagated.  Rejected and aborted transactions restore every row.
\<close>

section \<open>Steps\<close>

inductive cycle_step :: "cycle_db \<Rightarrow> cycle_db \<Rightarrow> bool" where
  accepted: "\<lbrakk>cycle_command_typed cmd; cycle_apply c x cmd db = (Inr ev, db')\<rbrakk> \<Longrightarrow> cycle_step db db'"
| rolled_back: "cycle_step db (cycle_rollback db db')"
| attempt_reserves:
    "\<lbrakk>coordination_cycle db x k = Inr cycle; 0 \<le> amount; amount \<le> i64_max;
      reserve_attempt_budget c cycle k amount db = (Inr r, db')\<rbrakk> \<Longrightarrow> cycle_step db db'"
| attempt_reconciles:
    "\<lbrakk>0 \<le> observed; reconcile_task_attempt_reservation c r observed db = (Inr d, db')\<rbrakk>
     \<Longrightarrow> cycle_step db db'"
| usage_fails:
    "\<lbrakk>select_pk (reservations db) r = Some v; rs_state v = ReservationReserved;
      rs_charged v \<le> rs_amount v;
      reason = FrozenUnknown u \<or> reason = FrozenUnavailable w;
      freeze_budget_admission c r (rs_cycle v) (rs_amount v - rs_charged v) reason db = (Inr ev, db')\<rbrakk>
     \<Longrightarrow> cycle_step db db'"
| session_quiesces:
    "\<lbrakk>select_pk (sessions db) s = Some row; se_state row = SessionReady;
      \<not> session_has_active_turn db s\<rbrakk>
     \<Longrightarrow> cycle_step db (set_session_state c s SessionQuiescing db)"
| session_disposed:
    "\<lbrakk>select_pk (sessions db) s = Some row; se_state row = SessionQuiescing;
      \<not> session_has_active_turn db s; 0 \<le> observed;
      select_pk (reservations db) r = Some v; rs_cycle v = se_cycle row;
      dispose_session_budget c r (se_cycle row) observed db = (Inr (d, state), db')\<rbrakk>
     \<Longrightarrow> cycle_step db (set_session_state c s state db')"
| cancellation_propagates:
    "\<lbrakk>select_pk (cancellations db) i = Some n; cancellation_active (cn_state n)\<rbrakk>
     \<Longrightarrow> cycle_step db (db\<lparr>cancellations := update_pk i
           (\<lambda>q. q\<lparr>cn_state := CancellationPropagating\<rparr>) (cancellations db)\<rparr>)"
| kernel: "cycle_step db (db\<lparr>checkpoints := ck, workspaces := ws, cenv := e\<rparr>)"

inductive cycle_reachable :: "cycle_db \<Rightarrow> bool" where
  initial: "cycle_reachable (empty_cycle_db e)"
| step: "\<lbrakk>cycle_reachable db; cycle_step db db'\<rbrakk> \<Longrightarrow> cycle_reachable db'"

lemma cycle_reachable_steps: "cycle_step\<^sup>*\<^sup>* db db' \<Longrightarrow> cycle_reachable db \<Longrightarrow> cycle_reachable db'"
  by (induction rule: rtranclp_induct) (auto intro: cycle_reachable.step)

text \<open>What holds initially and is kept by every step holds of every reachable state.\<close>

locale cycle_invariant =
  fixes I :: "cycle_db \<Rightarrow> bool"
  assumes initially: "I (empty_cycle_db e)"
    and kept: "I db \<Longrightarrow> cycle_step db db' \<Longrightarrow> I db'"
begin

lemma holds: "cycle_reachable db \<Longrightarrow> I db"
  by (induction rule: cycle_reachable.induct) (auto intro: initially kept)

lemma holds_after: "cycle_reachable db \<Longrightarrow> cycle_step\<^sup>*\<^sup>* db db' \<Longrightarrow> I db'"
  by (blast intro: holds cycle_reachable_steps)

end

text \<open>A property of one state that every later state has too.\<close>

locale cycle_stable = cycle_invariant I for I +
  fixes P :: "cycle_db \<Rightarrow> bool"
  assumes stays: "I db \<Longrightarrow> P db \<Longrightarrow> cycle_step db db' \<Longrightarrow> P db'"
begin

lemma forever: "cycle_reachable db \<Longrightarrow> P db \<Longrightarrow> cycle_step\<^sup>*\<^sup>* db db' \<Longrightarrow> P db'"
proof -
  assume r: "cycle_reachable db" and p: "P db" and s: "cycle_step\<^sup>*\<^sup>* db db'"
  from s p show "P db'"
  proof (induction rule: rtranclp_induct)
    case (step y z)
    then show ?case using holds_after [OF r] stays by blast
  qed
qed

end

section \<open>Tables as lookups\<close>

lemma select_pk_update_pk_fun:
  "select_pk (update_pk k f t) = (\<lambda>j. if j = k then map_option f (select_pk t j) else select_pk t j)"
  by (rule ext) (simp add: select_pk_update_pk)

lemma adds_select_fun: "adds t k r t' \<Longrightarrow> select_pk t' = (select_pk t)(k \<mapsto> r)"
  by (rule ext) (simp add: adds_select)

lemma cycle_row_of_Inr [simp]: "cycle_row_of db k = Inr cy \<longleftrightarrow> select_pk (cycles db) k = Some cy"
  by (simp add: cycle_row_of_def split: option.split)

lemma cycle_for_generation_Inr:
  "cycle_for_generation db k x = Inr cy \<longleftrightarrow>
     select_pk (cycles db) k = Some cy \<and> x = Exact (cy_generation cy)"
  by (auto simp: cycle_for_generation_def cycle_row_of_def split: sum.splits option.splits
        expected_generation.splits)

lemma coordination_cycle_Inr:
  "coordination_cycle db x k = Inr cy \<longleftrightarrow>
     select_pk (cycles db) k = Some cy \<and> x = Exact (cy_generation cy) \<and> cy_state cy = CycleRunning"
  by (auto simp: coordination_cycle_def cycle_for_generation_def cycle_row_of_def
        admits_task_work_def split: sum.splits option.splits if_splits expected_generation.splits)

lemma session_row_of_Inr:
  "session_row_of db s = Inr (st, k) \<longleftrightarrow>
     (\<exists>row. select_pk (sessions db) s = Some row \<and> st = se_state row \<and> k = se_cycle row)"
  by (auto simp: session_row_of_def split: option.splits)

lemma increment_generation_Some:
  "increment_generation g = Some g' \<longleftrightarrow> g' = g + 1 \<and> in_i64 (g + 1)"
  by (auto simp: increment_generation_def checked_add_i64_def)

lemma insert_cancellation_Inr:
  "insert_cancellation c k mode g db = (Inr i, db') \<Longrightarrow>
     \<exists>t. db' = db\<lparr>cancellations := t\<rparr>
       \<and> adds (cancellations db) i \<lparr>cn_cycle = k, cn_mode = mode, cn_state = CancellationAccepted,
           cn_generation = g, cn_by = c, cn_reconciled = None\<rparr> t
       \<and> \<not> exists_where (\<lambda>_ r. cn_cycle r = k \<and> cancellation_active (cn_state r)) (cancellations db)"
  by (auto simp: insert_cancellation_def split: prod.splits option.splits
        dest!: insert_identity_adds)

lemma fold_min_in: "fold min xs (x :: int) \<in> insert x (set xs)"
  by (induction xs arbitrary: x) (auto, (metis min_def)+)

lemma active_cancellation_for_cycle_Some:
  assumes "active_cancellation_for_cycle db k = Some i" "wf_table (cancellations db)"
  shows "\<exists>r. select_pk (cancellations db) i = Some r \<and> cn_cycle r = k
           \<and> cancellation_active (cn_state r)"
proof -
  let ?l = "map fst (filter (\<lambda>(_, r). cn_cycle r = k \<and> cancellation_active (cn_state r))
                       (tb_rows (cancellations db)))"
  obtain a as where l: "?l = a # as" and i: "i = fold min as a"
    using assms(1) by (auto simp: active_cancellation_for_cycle_def split: list.splits)
  have "i \<in> set ?l" using fold_min_in [of as a] by (simp add: l i)
  then show ?thesis using assms(2) by (auto simp: in_set_rows_select)
qed

lemma active_cancellation_for_cycle_None:
  "active_cancellation_for_cycle db k = None \<Longrightarrow>
     \<not> exists_where (\<lambda>_ r. cn_cycle r = k \<and> cancellation_active (cn_state r)) (cancellations db)"
  by (auto simp: active_cancellation_for_cycle_def exists_where_def list_ex_iff filter_empty_conv
        split: list.splits)

section \<open>The effect of a freeze\<close>

definition frozen_rows :: "int \<Rightarrow> (int, reservation_row) table \<Rightarrow> (int, reservation_row) table" where
  "frozen_rows r t = update_pk r (\<lambda>v. v\<lparr>rs_state := ReservationFrozen\<rparr>) t"

definition postmortem_of ::
  "int \<Rightarrow> int \<Rightarrow> int \<Rightarrow> int \<Rightarrow> int \<Rightarrow> budget_freeze_reason \<Rightarrow> postmortem_row" where
  "postmortem_of c r k n held reason =
     (case freeze_columns reason of (cause, observed, unknown, unavailable) \<Rightarrow>
        \<lparr>pm_reservation = r, pm_cycle = k, pm_cancellation = n, pm_cause = cause,
         pm_observed = observed, pm_reserved = held, pm_unknown = unknown,
         pm_unavailable = unavailable, pm_state = PostmortemOpen, pm_opened = c,
         pm_closed = None\<rparr>)"

lemma open_cost_postmortem_Inr:
  "open_cost_postmortem c r k n held reason db = (Inr ev, db') \<Longrightarrow>
     \<exists>p t. ev = BudgetAdmissionFrozen r k n p reason \<and> db' = db\<lparr>postmortems := t\<rparr>
       \<and> adds (postmortems db) p (postmortem_of c r k n held reason) t
       \<and> \<not> exists_where (\<lambda>_ q. pm_reservation q = r) (postmortems db) \<and> 0 \<le> held"
  by (auto simp: open_cost_postmortem_def postmortem_of_def
        split: prod.splits option.splits dest!: insert_identity_adds)

text \<open>
  The cancellation duty after a freeze: the active one of the cycle if there is one, a new graceful
  cancellation otherwise.
\<close>

definition cancellation_duty ::
  "int \<Rightarrow> int \<Rightarrow> int \<Rightarrow> (int, cancellation_row) table \<Rightarrow> int \<Rightarrow> (int, cancellation_row) table \<Rightarrow> bool" where
  "cancellation_duty c k g t i t' \<longleftrightarrow>
     (t' = t \<and> (\<exists>r. select_pk t i = Some r \<and> cn_cycle r = k \<and> cancellation_active (cn_state r)))
   \<or> (adds t i \<lparr>cn_cycle = k, cn_mode = GracefulCancel, cn_state = CancellationAccepted,
                cn_generation = g, cn_by = c, cn_reconciled = None\<rparr> t'
      \<and> \<not> exists_where (\<lambda>_ r. cn_cycle r = k \<and> cancellation_active (cn_state r)) t)"

lemma freeze_effect:
  assumes "freeze_budget_admission c r k held reason db = (Inr ev, db')"
    and "wf_table (cancellations db)"
  shows "\<exists>cy n p N P. select_pk (cycles db) k = Some cy \<and> in_i64 (cy_generation cy + 1)
      \<and> ev = BudgetAdmissionFrozen r k n p reason
      \<and> cancellation_duty c k (cy_generation cy) (cancellations db) n N
      \<and> adds (postmortems db) p (postmortem_of c r k n held reason) P
      \<and> \<not> exists_where (\<lambda>_ q. pm_reservation q = r) (postmortems db) \<and> 0 \<le> held
      \<and> db' = (transition_cycle c k Cancelling (cy_generation cy + 1) db)
                \<lparr>reservations := frozen_rows r (reservations db), cancellations := N, postmortems := P\<rparr>"
proof -
  let ?db1 = "db\<lparr>reservations := frozen_rows r (reservations db)\<rparr>"
  obtain cy where cy: "select_pk (cycles db) k = Some cy" and g: "in_i64 (cy_generation cy + 1)"
    and rest: "(case active_cancellation_for_cycle
                  (transition_cycle c k Cancelling (cy_generation cy + 1) ?db1) k of
        Some i \<Rightarrow> open_cost_postmortem c r k i held reason
                    (transition_cycle c k Cancelling (cy_generation cy + 1) ?db1)
      | None \<Rightarrow> (case insert_cancellation c k GracefulCancel (cy_generation cy)
                         (transition_cycle c k Cancelling (cy_generation cy + 1) ?db1) of
            (Inl x, db3) \<Rightarrow> (Inl x, db3)
          | (Inr i, db3) \<Rightarrow> open_cost_postmortem c r k i held reason db3)) = (Inr ev, db')"
    using assms(1)
    by (auto simp: freeze_budget_admission_def Let_def cycle_row_of_def increment_generation_Some
          simp flip: frozen_rows_def split: sum.splits option.splits)
  have wf: "wf_table (cancellations (transition_cycle c k Cancelling (cy_generation cy + 1) ?db1))"
    using assms(2) by (simp add: transition_cycle_def)
  show ?thesis
  proof (cases "active_cancellation_for_cycle
                  (transition_cycle c k Cancelling (cy_generation cy + 1) ?db1) k")
    case None
    obtain n db3 where ins: "insert_cancellation c k GracefulCancel (cy_generation cy)
          (transition_cycle c k Cancelling (cy_generation cy + 1) ?db1) = (Inr n, db3)"
      and pm: "open_cost_postmortem c r k n held reason db3 = (Inr ev, db')"
      using rest None by (auto split: prod.splits sum.splits)
    from insert_cancellation_Inr [OF ins] open_cost_postmortem_Inr [OF pm] cy g show ?thesis
      by (fastforce simp: transition_cycle_def cancellation_duty_def)
  next
    case (Some i)
    then show ?thesis
      using rest cy g active_cancellation_for_cycle_Some [OF Some wf]
      by (fastforce simp: transition_cycle_def cancellation_duty_def
            dest!: open_cost_postmortem_Inr)
  qed
qed

end
