(* ===== verification/Cycle_Protocol.thy ===== *)
theory Cycle_Protocol
  imports Cycle_Store
begin

text \<open>
  The abstract protocol of operating cycles: what the transitions of the kernel promise about the
  state and generation of cycles, the reservations charged to them, the cancellations pending on
  them and the cycles whose reconciliation has begun, with no tables, identifiers' sequences, money
  or evidence.  Its invariants are proved here, on lookups; the kernel's transitions refine it.
\<close>

record lifecycle =
  lf_cycles :: "int \<Rightarrow> (operating_cycle_state \<times> int) option"
  lf_reservations :: "int \<Rightarrow> (int \<times> budget_reservation_state) option"
  lf_cancellations :: "int \<Rightarrow> (int \<times> bool) option"
  lf_reconciliations :: "int set"

definition lifecycle_init :: lifecycle where
  "lifecycle_init = \<lparr>lf_cycles = Map.empty, lf_reservations = Map.empty,
     lf_cancellations = Map.empty, lf_reconciliations = {}\<rparr>"

text \<open>A cancellation of the cycle is pending; every reservation of the cycle is settled.\<close>

definition cancel_pending :: "lifecycle \<Rightarrow> int \<Rightarrow> bool" where
  "cancel_pending a k \<longleftrightarrow> (\<exists>i. lf_cancellations a i = Some (k, True))"

definition all_settled :: "lifecycle \<Rightarrow> int \<Rightarrow> bool" where
  "all_settled a k \<longleftrightarrow>
     (\<forall>i s. lf_reservations a i = Some (k, s) \<longrightarrow> s = ReservationReconciled)"

inductive lifecycle_step :: "lifecycle \<Rightarrow> lifecycle \<Rightarrow> bool" where
  propose: "\<lbrakk>\<And>j s g. lf_cycles a j = Some (s, g) \<Longrightarrow> \<not> is_nonterminal s; lf_cycles a k = None\<rbrakk> \<Longrightarrow>
     lifecycle_step a (a\<lparr>lf_cycles := (lf_cycles a)(k \<mapsto> (Proposed, 0))\<rparr>)"
| admit: "lf_cycles a k = Some (Proposed, g) \<Longrightarrow>
     lifecycle_step a (a\<lparr>lf_cycles := (lf_cycles a)(k \<mapsto> (CycleAdmitted, g))\<rparr>)"
| start: "lf_cycles a k = Some (CycleAdmitted, g) \<Longrightarrow>
     lifecycle_step a (a\<lparr>lf_cycles := (lf_cycles a)(k \<mapsto> (CycleRunning, g))\<rparr>)"
| quiesce: "\<lbrakk>lf_cycles a k = Some (s, g); s \<in> {CycleAdmitted, CycleRunning}\<rbrakk> \<Longrightarrow>
     lifecycle_step a (a\<lparr>lf_cycles := (lf_cycles a)(k \<mapsto> (Quiescing, g + 1))\<rparr>)"
| drain: "lf_cycles a k = Some (Quiescing, g) \<Longrightarrow>
     lifecycle_step a (a\<lparr>lf_cycles := (lf_cycles a)
       (k \<mapsto> (if cancel_pending a k then Cancelling else Drained, g))\<rparr>)"
| resume: "\<lbrakk>lf_cycles a k = Some (Drained, g); all_settled a k; \<not> cancel_pending a k\<rbrakk> \<Longrightarrow>
     lifecycle_step a (a\<lparr>lf_cycles := (lf_cycles a)(k \<mapsto> (CycleRunning, g))\<rparr>)"
| reconcile: "\<lbrakk>lf_cycles a k = Some (Drained, g); k \<notin> lf_reconciliations a\<rbrakk> \<Longrightarrow>
     lifecycle_step a (a\<lparr>lf_cycles := (lf_cycles a)(k \<mapsto> (Reconciling, g)),
       lf_reconciliations := insert k (lf_reconciliations a)\<rparr>)"
| close: "\<lbrakk>lf_cycles a k = Some (Reconciling, g); all_settled a k; \<not> cancel_pending a k\<rbrakk> \<Longrightarrow>
     lifecycle_step a (a\<lparr>lf_cycles := (lf_cycles a)(k \<mapsto> (CycleClosed, g))\<rparr>)"
| reserve: "\<lbrakk>lf_cycles a k = Some (CycleRunning, g); lf_reservations a r = None\<rbrakk> \<Longrightarrow>
     lifecycle_step a (a\<lparr>lf_reservations := (lf_reservations a)(r \<mapsto> (k, ReservationReserved))\<rparr>)"
| settle: "\<lbrakk>lf_reservations a r = Some (k, s); s \<noteq> ReservationReconciled\<rbrakk> \<Longrightarrow>
     lifecycle_step a (a\<lparr>lf_reservations := (lf_reservations a)(r \<mapsto> (k, ReservationReconciled))\<rparr>)"
| freeze_pending: "\<lbrakk>lf_reservations a r = Some (k, ReservationReserved); lf_cycles a k = Some (s, g);
     cancel_pending a k\<rbrakk> \<Longrightarrow>
     lifecycle_step a (a\<lparr>lf_reservations := (lf_reservations a)(r \<mapsto> (k, ReservationFrozen)),
       lf_cycles := (lf_cycles a)(k \<mapsto> (Cancelling, g + 1))\<rparr>)"
| freeze: "\<lbrakk>lf_reservations a r = Some (k, ReservationReserved); lf_cycles a k = Some (s, g);
     \<not> cancel_pending a k; lf_cancellations a n = None\<rbrakk> \<Longrightarrow>
     lifecycle_step a (a\<lparr>lf_reservations := (lf_reservations a)(r \<mapsto> (k, ReservationFrozen)),
       lf_cycles := (lf_cycles a)(k \<mapsto> (Cancelling, g + 1)),
       lf_cancellations := (lf_cancellations a)(n \<mapsto> (k, True))\<rparr>)"
| cancel: "\<lbrakk>lf_cycles a k = Some (s, g); s \<in> {Proposed, CycleAdmitted, CycleRunning, Quiescing, Drained};
     t \<in> {Quiescing, Cancelling}; \<not> cancel_pending a k; lf_cancellations a n = None\<rbrakk> \<Longrightarrow>
     lifecycle_step a (a\<lparr>lf_cycles := (lf_cycles a)(k \<mapsto> (t, g + 1)),
       lf_cancellations := (lf_cancellations a)(n \<mapsto> (k, True))\<rparr>)"
| cancelled: "\<lbrakk>lf_cycles a k = Some (Cancelling, g); lf_cancellations a n = Some (k, True)\<rbrakk> \<Longrightarrow>
     lifecycle_step a (a\<lparr>lf_cycles := (lf_cycles a)(k \<mapsto> (Drained, g)),
       lf_cancellations := (lf_cancellations a)(n \<mapsto> (k, False))\<rparr>)"

inductive_cases lifecycle_stepE: "lifecycle_step a b"

section \<open>Invariant\<close>

text \<open>The states in which a reservation of the given kind can stand.\<close>

definition reservation_fits :: "budget_reservation_state \<Rightarrow> operating_cycle_state \<Rightarrow> bool" where
  "reservation_fits r s = (case r of
     ReservationReserved \<Rightarrow> s \<in> {CycleRunning, Quiescing, Drained, Reconciling, Cancelling}
   | ReservationFrozen \<Rightarrow> s \<in> {Quiescing, Drained, Reconciling, Cancelling}
   | ReservationReconciled \<Rightarrow> True)"

definition cycles_ok :: "lifecycle \<Rightarrow> bool" where
  "cycles_ok a \<longleftrightarrow> (\<forall>k s g. lf_cycles a k = Some (s, g) \<longrightarrow>
     s \<notin> {Reaping, CycleCancelled, CycleFailed}
     \<and> (s = Cancelling \<longrightarrow> cancel_pending a k)
     \<and> (s \<in> {Reconciling, CycleClosed} \<longrightarrow> k \<in> lf_reconciliations a))"

definition reservations_ok :: "lifecycle \<Rightarrow> bool" where
  "reservations_ok a \<longleftrightarrow> (\<forall>i k r. lf_reservations a i = Some (k, r) \<longrightarrow>
     (\<exists>s g. lf_cycles a k = Some (s, g) \<and> reservation_fits r s))"

definition cancellations_ok :: "lifecycle \<Rightarrow> bool" where
  "cancellations_ok a \<longleftrightarrow> (\<forall>i k. lf_cancellations a i = Some (k, True) \<longrightarrow>
     (\<exists>s g. lf_cycles a k = Some (s, g) \<and> s \<in> {Cancelling, Quiescing}))"

definition one_cancellation :: "lifecycle \<Rightarrow> bool" where
  "one_cancellation a \<longleftrightarrow> (\<forall>i j k. lf_cancellations a i = Some (k, True) \<longrightarrow>
     lf_cancellations a j = Some (k, True) \<longrightarrow> i = j)"

definition one_open_cycle :: "lifecycle \<Rightarrow> bool" where
  "one_open_cycle a \<longleftrightarrow> (\<forall>i j s t g h. lf_cycles a i = Some (s, g) \<longrightarrow>
     lf_cycles a j = Some (t, h) \<longrightarrow> is_nonterminal s \<longrightarrow> is_nonterminal t \<longrightarrow> i = j)"

definition protocol_ok :: "lifecycle \<Rightarrow> bool" where
  "protocol_ok a \<longleftrightarrow> cycles_ok a \<and> reservations_ok a \<and> cancellations_ok a \<and> one_cancellation a
     \<and> one_open_cycle a"

lemmas lifecycle_parts = cycles_ok_def reservations_ok_def cancellations_ok_def
  one_cancellation_def one_open_cycle_def

lemma protocol_ok_init: "protocol_ok lifecycle_init"
  by (simp add: protocol_ok_def lifecycle_parts lifecycle_init_def)

text \<open>What is known of the row of one cycle, of a reservation and of a pending cancellation.\<close>

lemma lifecycle_cycleD:
  "protocol_ok a \<Longrightarrow> lf_cycles a k = Some (s, g) \<Longrightarrow>
     s \<notin> {Reaping, CycleCancelled, CycleFailed} \<and> (s = Cancelling \<longrightarrow> cancel_pending a k)
     \<and> (s \<in> {Reconciling, CycleClosed} \<longrightarrow> k \<in> lf_reconciliations a)"
  unfolding protocol_ok_def cycles_ok_def by blast

lemma lifecycle_reservationD:
  "protocol_ok a \<Longrightarrow> lf_reservations a i = Some (k, r) \<Longrightarrow>
     \<exists>s g. lf_cycles a k = Some (s, g) \<and> reservation_fits r s"
  by (simp add: protocol_ok_def reservations_ok_def)

lemma lifecycle_fits:
  "protocol_ok a \<Longrightarrow> lf_reservations a i = Some (k, r) \<Longrightarrow> lf_cycles a k = Some (s, g) \<Longrightarrow>
     reservation_fits r s"
  using lifecycle_reservationD by fastforce

lemma lifecycle_cancellationD:
  "protocol_ok a \<Longrightarrow> lf_cancellations a i = Some (k, True) \<Longrightarrow>
     \<exists>s g. lf_cycles a k = Some (s, g) \<and> s \<in> {Cancelling, Quiescing}"
  by (simp add: protocol_ok_def cancellations_ok_def)

lemma lifecycle_cancels:
  "protocol_ok a \<Longrightarrow> lf_cancellations a i = Some (k, True) \<Longrightarrow> lf_cycles a k = Some (s, g) \<Longrightarrow>
     s \<in> {Cancelling, Quiescing}"
  using lifecycle_cancellationD by fastforce

lemma lifecycle_one_cancellationD:
  "protocol_ok a \<Longrightarrow> lf_cancellations a i = Some (k, True) \<Longrightarrow> lf_cancellations a j = Some (k, True)
     \<Longrightarrow> i = j"
  unfolding protocol_ok_def one_cancellation_def by blast

lemma lifecycle_one_cycleD:
  "protocol_ok a \<Longrightarrow> lf_cycles a i = Some (s, g) \<Longrightarrow> lf_cycles a j = Some (t, h) \<Longrightarrow>
     is_nonterminal s \<Longrightarrow> is_nonterminal t \<Longrightarrow> i = j"
  unfolding protocol_ok_def one_open_cycle_def by blast

text \<open>The invariant after the row of one cycle has moved.\<close>

lemma protocol_ok_move:
  assumes ok: "protocol_ok a" and k: "lf_cycles a k = Some (s, g)"
    and C: "lf_cycles b = (lf_cycles a)(k \<mapsto> (s', g'))"
    and used: "s' \<notin> {Reaping, CycleCancelled, CycleFailed}"
    and fin: "is_nonterminal s' \<Longrightarrow> is_nonterminal s"
    and R: "\<And>i j r. lf_reservations b i = Some (j, r) \<Longrightarrow>
              j \<noteq> k \<and> lf_reservations a i = Some (j, r) \<or> j = k \<and> reservation_fits r s'"
    and N: "\<And>i j. lf_cancellations b i = Some (j, True) \<Longrightarrow>
              j \<noteq> k \<and> lf_cancellations a i = Some (j, True) \<or> j = k \<and> s' \<in> {Cancelling, Quiescing}"
    and N1: "\<And>i j. lf_cancellations b i = Some (k, True) \<Longrightarrow>
              lf_cancellations b j = Some (k, True) \<Longrightarrow> i = j"
    and P: "s' = Cancelling \<Longrightarrow> cancel_pending b k"
    and K: "\<And>i j. j \<noteq> k \<Longrightarrow> lf_cancellations a i = Some (j, True) \<Longrightarrow>
              lf_cancellations b i = Some (j, True)"
    and Q: "lf_reconciliations a \<subseteq> lf_reconciliations b"
      "s' \<in> {Reconciling, CycleClosed} \<Longrightarrow> k \<in> lf_reconciliations b"
  shows "protocol_ok b"
proof -
  have other: "lf_cycles b j = Some (t, h) \<longleftrightarrow>
      (if j = k then t = s' \<and> h = g' else lf_cycles a j = Some (t, h))" for j t h
    by (auto simp: C)
  have keep: "j \<noteq> k \<Longrightarrow> cancel_pending a j \<Longrightarrow> cancel_pending b j" for j
    using K unfolding cancel_pending_def by blast
  have "cycles_ok b"
    unfolding cycles_ok_def
  proof (intro allI impI)
    fix j t h
    assume "lf_cycles b j = Some (t, h)"
    then show "t \<notin> {Reaping, CycleCancelled, CycleFailed} \<and> (t = Cancelling \<longrightarrow> cancel_pending b j)
        \<and> (t \<in> {Reconciling, CycleClosed} \<longrightarrow> j \<in> lf_reconciliations b)"
      using used P Q keep lifecycle_cycleD [OF ok, of j t h] by (cases "j = k") (auto simp: other)
  qed
  moreover have "reservations_ok b"
    unfolding reservations_ok_def other
    using R lifecycle_reservationD [OF ok] by fastforce
  moreover have "cancellations_ok b"
    unfolding cancellations_ok_def other
    using N lifecycle_cancellationD [OF ok] by fastforce
  moreover have "one_cancellation b"
    unfolding one_cancellation_def
    using N N1 lifecycle_one_cancellationD [OF ok] by metis
  moreover have "one_open_cycle b"
    unfolding one_open_cycle_def other
    using fin k lifecycle_one_cycleD [OF ok] by metis
  ultimately show ?thesis by (simp add: protocol_ok_def)
qed

lemma protocol_ok_move_only:
  assumes ok: "protocol_ok a" and k: "lf_cycles a k = Some (s, g)"
    and C: "lf_cycles b = (lf_cycles a)(k \<mapsto> (s', g'))"
    and same: "lf_reservations b = lf_reservations a" "lf_cancellations b = lf_cancellations a"
    and used: "s' \<notin> {Reaping, CycleCancelled, CycleFailed}"
    and fin: "is_nonterminal s' \<Longrightarrow> is_nonterminal s"
    and R: "\<And>i r. lf_reservations a i = Some (k, r) \<Longrightarrow> reservation_fits r s \<Longrightarrow>
              reservation_fits r s'"
    and N: "cancel_pending a k \<Longrightarrow> s \<in> {Cancelling, Quiescing} \<Longrightarrow> s' \<in> {Cancelling, Quiescing}"
    and P: "s' = Cancelling \<Longrightarrow> cancel_pending a k"
    and Q: "lf_reconciliations a \<subseteq> lf_reconciliations b"
      "s' \<in> {Reconciling, CycleClosed} \<Longrightarrow> k \<in> lf_reconciliations b"
  shows "protocol_ok b"
proof (rule protocol_ok_move [OF ok k C used fin _ _ _ _ _ Q])
  fix i j
  assume n: "lf_cancellations b i = Some (j, True)"
  show "j \<noteq> k \<and> lf_cancellations a i = Some (j, True) \<or> j = k \<and> s' \<in> {Cancelling, Quiescing}"
    using n N lifecycle_cancels [OF ok _ k] by (auto simp: same cancel_pending_def)
qed (use R lifecycle_fits [OF ok _ k] lifecycle_one_cancellationD [OF ok] P in
      \<open>auto simp: same cancel_pending_def\<close>)

lemma protocol_ok_set:
  assumes "protocol_ok a" "lf_cycles a k = Some (s, g)"
    and "s' \<in> {CycleAdmitted, CycleRunning, Quiescing, Drained, Cancelling}" "is_nonterminal s"
    and "\<And>i r. lf_reservations a i = Some (k, r) \<Longrightarrow> reservation_fits r s \<Longrightarrow> reservation_fits r s'"
    and "cancel_pending a k \<Longrightarrow> s \<in> {Cancelling, Quiescing} \<Longrightarrow> s' \<in> {Cancelling, Quiescing}"
    and "s' = Cancelling \<Longrightarrow> cancel_pending a k"
  shows "protocol_ok (a\<lparr>lf_cycles := (lf_cycles a)(k \<mapsto> (s', g'))\<rparr>)"
  by (rule protocol_ok_move_only [OF assms(1,2), where s' = s' and g' = g']) (use assms(3-) in auto)

lemma protocol_ok_step: "lifecycle_step a b \<Longrightarrow> protocol_ok a \<Longrightarrow> protocol_ok b"
proof (induction rule: lifecycle_step.induct)
  case (propose a k)
  then show ?case
    unfolding protocol_ok_def lifecycle_parts cancel_pending_def by (auto split: if_splits) (fastforce+)
next
  case (reserve a k g r)
  then show ?case
    by (auto simp: protocol_ok_def lifecycle_parts cancel_pending_def reservation_fits_def
          split: if_splits)
next
  case (settle a r k s)
  then show ?case
    unfolding protocol_ok_def lifecycle_parts cancel_pending_def
    by (auto simp: reservation_fits_def split: if_splits) (fastforce+)
next
  case (freeze_pending a r k s g)
  show ?case
    by (rule protocol_ok_move [OF freeze_pending.prems freeze_pending.hyps(2),
          where s' = Cancelling and g' = "g + 1"])
      (use freeze_pending lifecycle_fits [OF freeze_pending.prems]
         lifecycle_fits [OF freeze_pending.prems freeze_pending.hyps(1,2)]
         lifecycle_one_cancellationD [OF freeze_pending.prems] in
        \<open>auto simp: is_nonterminal_def reservation_fits_def cancel_pending_def
           split: budget_reservation_state.splits if_splits\<close>)
next
  case (freeze a r k s g n)
  show ?case
    by (rule protocol_ok_move [OF freeze.prems freeze.hyps(2), where s' = Cancelling and g' = "g + 1"])
      (use freeze lifecycle_fits [OF freeze.prems]
         lifecycle_fits [OF freeze.prems freeze.hyps(1,2)] in
        \<open>auto simp: is_nonterminal_def reservation_fits_def cancel_pending_def
           split: budget_reservation_state.splits if_splits\<close>)
next
  case (cancel a k s g t n)
  show ?case
    by (rule protocol_ok_move [OF cancel.prems cancel.hyps(1), where s' = t and g' = "g + 1"])
      (use cancel lifecycle_fits [OF cancel.prems _ cancel.hyps(1)] in
        \<open>auto simp: is_nonterminal_def reservation_fits_def cancel_pending_def
           split: budget_reservation_state.splits if_splits\<close>)
next
  case (cancelled a k g n)
  have one: "lf_cancellations a j = Some (k, True) \<Longrightarrow> j = n" for j
    using lifecycle_one_cancellationD [OF cancelled.prems] cancelled.hyps(2) by blast
  have fits: "lf_reservations a i = Some (k, r) \<Longrightarrow> reservation_fits r Drained" for i r
    using lifecycle_fits [OF cancelled.prems _ cancelled.hyps(1), of i r]
    by (cases r) (simp_all add: reservation_fits_def)
  show ?case
    by (rule protocol_ok_move [OF cancelled.prems cancelled.hyps(1), where s' = Drained and g' = g])
      (use cancelled.hyps fits in \<open>auto simp: is_nonterminal_def split: if_splits dest: one\<close>)
next
  case (reconcile a k g)
  show ?case
    by (rule protocol_ok_move_only [OF reconcile.prems reconcile.hyps(1),
          where s' = Reconciling and g' = g])
      (auto simp: is_nonterminal_def reservation_fits_def split: budget_reservation_state.splits)
next
  case (close a k g)
  show ?case
    by (rule protocol_ok_move_only [OF close.prems close.hyps(1), where s' = CycleClosed and g' = g])
      (use close lifecycle_cycleD [OF close.prems close.hyps(1)] in
        \<open>auto simp: is_nonterminal_def reservation_fits_def all_settled_def
           split: budget_reservation_state.splits\<close>)
qed (rule protocol_ok_set, assumption, assumption,
     auto simp: is_nonterminal_def reservation_fits_def all_settled_def
       split: budget_reservation_state.splits if_splits)+

section \<open>What a step does to one cycle\<close>

text \<open>
  Cycles are never forgotten, generations never fall, a closed cycle stays as it was closed, and
  only a reconciling cycle is closed.
\<close>

lemma lifecycle_step_cycle:
  assumes "lifecycle_step a b" "protocol_ok a" "lf_cycles a k = Some (s, g)"
  shows "\<exists>s' g'. lf_cycles b k = Some (s', g') \<and> g \<le> g'
     \<and> (s' = Reconciling \<and> s \<noteq> Reconciling \<longrightarrow> k \<notin> lf_reconciliations a)
     \<and> (s = CycleClosed \<longrightarrow> s' = CycleClosed \<and> g' = g)
     \<and> (s' = CycleClosed \<longrightarrow> s \<in> {Reconciling, CycleClosed})
     \<and> (s' = CycleRunning \<and> s \<noteq> CycleRunning \<longrightarrow> s \<in> {CycleAdmitted, Drained} \<and> g' = g)
     \<and> (s = CycleRunning \<and> s' \<noteq> CycleRunning \<longrightarrow> g' = g + 1)"
proof -
  have "lf_reservations a i = Some (k, ReservationReserved) \<Longrightarrow>
      s \<in> {CycleRunning, Quiescing, Drained, Reconciling, Cancelling}" for i
    using lifecycle_fits [OF assms(2) _ assms(3)] by (fastforce simp: reservation_fits_def)
  with assms(1) show ?thesis
    using assms(3) by (cases rule: lifecycle_step.cases) (auto split: if_splits)
qed

text \<open>
  A cycle that left reconciliation without being closed: reconciliation has begun once, and cannot
  begin again.
\<close>

definition stranded :: "lifecycle \<Rightarrow> int \<Rightarrow> bool" where
  "stranded a k \<longleftrightarrow> k \<in> lf_reconciliations a
     \<and> (\<exists>s g. lf_cycles a k = Some (s, g) \<and> is_nonterminal s \<and> s \<noteq> Reconciling)"

lemma stranded_step:
  assumes "lifecycle_step a b" "protocol_ok a" "stranded a k"
  shows "stranded b k"
proof -
  obtain s g where k: "lf_cycles a k = Some (s, g)" "is_nonterminal s" "s \<noteq> Reconciling"
    and r: "k \<in> lf_reconciliations a"
    using assms(3) by (auto simp: stranded_def)
  have "lf_reconciliations a \<subseteq> lf_reconciliations b"
    using assms(1) by (cases rule: lifecycle_step.cases) auto
  moreover obtain s' g' where b: "lf_cycles b k = Some (s', g')"
    "s' = CycleClosed \<longrightarrow> s \<in> {Reconciling, CycleClosed}"
    "s' = Reconciling \<and> s \<noteq> Reconciling \<longrightarrow> k \<notin> lf_reconciliations a"
    using lifecycle_step_cycle [OF assms(1,2) k(1)] by blast
  ultimately show ?thesis
    using r k lifecycle_cycleD [OF protocol_ok_step [OF assms(1,2)] b(1)]
    by (auto simp: stranded_def is_nonterminal_def)
qed

end
