(* ===== verification/Cycle_Refinement.thy ===== *)
theory Cycle_Refinement
  imports Cycle_Machine Cycle_Protocol
begin

text \<open>
  The kernel's transitions refine the abstract protocol of operating cycles: every step of the
  machine is a sequence of protocol steps between the abstractions of its states, so the invariant
  of the protocol holds of the tables.
\<close>

section \<open>Abstraction\<close>

definition lifecycle_of :: "cycle_db \<Rightarrow> lifecycle" where
  "lifecycle_of db = \<lparr>
     lf_cycles = (\<lambda>k. map_option (\<lambda>r. (cy_state r, cy_generation r)) (select_pk (cycles db) k)),
     lf_reservations = (\<lambda>i. map_option (\<lambda>r. (rs_cycle r, rs_state r)) (select_pk (reservations db) i)),
     lf_cancellations = (\<lambda>i. map_option (\<lambda>r. (cn_cycle r, cancellation_active (cn_state r)))
                               (select_pk (cancellations db) i)),
     lf_reconciliations = {k. select_pk (cycle_reconciliations db) k \<noteq> None}\<rparr>"

definition tables_ok :: "cycle_db \<Rightarrow> bool" where
  "tables_ok db \<longleftrightarrow> wf_table (cycles db) \<and> wf_table (reservations db) \<and> wf_table (cancellations db)
     \<and> wf_table (cycle_reconciliations db) \<and> wf_table (sessions db) \<and> wf_table (turns db)
     \<and> wf_table (envelopes db) \<and> wf_table (constraints db) \<and> wf_table (charges db)
     \<and> wf_table (postmortems db)"

text \<open>A step of the machine that is a sequence of steps of the protocol.\<close>

definition simulates :: "cycle_db \<Rightarrow> cycle_db \<Rightarrow> bool" where
  "simulates db db' \<longleftrightarrow> tables_ok db' \<and> lifecycle_step\<^sup>*\<^sup>* (lifecycle_of db) (lifecycle_of db')"

lemma simulates_same:
  "tables_ok db' \<Longrightarrow> lifecycle_of db' = lifecycle_of db \<Longrightarrow> simulates db db'"
  by (simp add: simulates_def)

lemma simulates_step:
  "tables_ok db' \<Longrightarrow> lifecycle_step (lifecycle_of db) b \<Longrightarrow> lifecycle_of db' = b \<Longrightarrow> simulates db db'"
  by (simp add: simulates_def r_into_rtranclp)

lemma simulates_trans: "simulates db db1 \<Longrightarrow> simulates db1 db2 \<Longrightarrow> simulates db db2"
  unfolding simulates_def by (meson rtranclp_trans)

text \<open>Only four tables are seen by the abstraction.\<close>

lemma lifecycle_of_cong:
  "select_pk (cycles db') = select_pk (cycles db) \<Longrightarrow>
   select_pk (reservations db') = select_pk (reservations db) \<Longrightarrow>
   select_pk (cancellations db') = select_pk (cancellations db) \<Longrightarrow>
   select_pk (cycle_reconciliations db') = select_pk (cycle_reconciliations db) \<Longrightarrow>
   lifecycle_of db' = lifecycle_of db"
  by (simp add: lifecycle_of_def)

lemma lifecycle_of_cycles:
  "lf_cycles (lifecycle_of db) k = Some (s, g) \<longleftrightarrow>
     (\<exists>r. select_pk (cycles db) k = Some r \<and> s = cy_state r \<and> g = cy_generation r)"
  by (auto simp: lifecycle_of_def)

lemma lifecycle_of_reservations:
  "lf_reservations (lifecycle_of db) i = Some (k, s) \<longleftrightarrow>
     (\<exists>r. select_pk (reservations db) i = Some r \<and> k = rs_cycle r \<and> s = rs_state r)"
  by (auto simp: lifecycle_of_def)

lemma cancel_pending_count:
  "wf_table (cancellations db) \<Longrightarrow>
     cancel_pending (lifecycle_of db) k \<longleftrightarrow> active_cancellation_count db k \<noteq> 0"
  by (fastforce simp: cancel_pending_def lifecycle_of_def active_cancellation_count_def
        count_where_zero_iff)

lemma cancel_pending_exists:
  "wf_table (cancellations db) \<Longrightarrow>
     cancel_pending (lifecycle_of db) k \<longleftrightarrow>
     exists_where (\<lambda>_ r. cn_cycle r = k \<and> cancellation_active (cn_state r)) (cancellations db)"
  by (fastforce simp: cancel_pending_def lifecycle_of_def exists_where_iff)

lemma all_settled_count:
  "wf_table (reservations db) \<Longrightarrow>
     all_settled (lifecycle_of db) k \<longleftrightarrow> unreconciled_reservation_count db k = 0"
  by (fastforce simp: all_settled_def lifecycle_of_def unreconciled_reservation_count_def
        count_where_zero_iff)

lemma lifecycle_of_empty [simp]: "lifecycle_of (empty_cycle_db e) = lifecycle_init"
  by (simp add: lifecycle_of_def empty_cycle_db_def lifecycle_init_def)

lemma lifecycle_of_rollback [simp]: "lifecycle_of (cycle_rollback db db') = lifecycle_of db"
  by (simp add: lifecycle_of_def cycle_rollback_def)

lemma tables_ok_rollback [simp]: "tables_ok (cycle_rollback db db') = tables_ok db"
  by (simp add: tables_ok_def cycle_rollback_def)

text \<open>The primitive updates, on tables and on the abstraction.\<close>

lemma lifecycle_of_transition:
  "select_pk (cycles db) k = Some cy \<Longrightarrow> lifecycle_of (transition_cycle c k s g db)
     = (lifecycle_of db)\<lparr>lf_cycles := (lf_cycles (lifecycle_of db))(k \<mapsto> (s, g))\<rparr>"
  by (auto simp: lifecycle_of_def transition_cycle_def select_pk_update_pk_fun)

lemma lifecycle_of_set_state:
  "select_pk (cycles db) k = Some cy \<Longrightarrow> lifecycle_of (set_cycle_state c k s db)
     = (lifecycle_of db)\<lparr>lf_cycles := (lf_cycles (lifecycle_of db))(k \<mapsto> (s, cy_generation cy))\<rparr>"
  by (auto simp: lifecycle_of_def set_cycle_state_def select_pk_update_pk_fun)

lemma lifecycle_of_start:
  "select_pk (cycles db) k = Some cy \<Longrightarrow> lifecycle_of (start_cycle c k db)
     = (lifecycle_of db)\<lparr>lf_cycles := (lf_cycles (lifecycle_of db))(k \<mapsto> (CycleRunning, cy_generation cy))\<rparr>"
  by (auto simp: lifecycle_of_def start_cycle_def set_cycle_state_def select_pk_update_pk_fun)

lemma tables_ok_transition [simp]: "tables_ok (transition_cycle c k s g db) = tables_ok db"
  by (simp add: tables_ok_def transition_cycle_def)

lemma tables_ok_start [simp]: "tables_ok (start_cycle c k db) = tables_ok db"
  by (simp add: tables_ok_def start_cycle_def set_cycle_state_def)

lemma tables_ok_session [simp]: "tables_ok (set_session_state c s st db) = tables_ok db"
  by (simp add: tables_ok_def set_session_state_def)

lemma lifecycle_of_session [simp]: "lifecycle_of (set_session_state c s st db) = lifecycle_of db"
  by (simp add: lifecycle_of_def set_session_state_def)

lemma lifecycle_of_reconcile:
  "select_pk (reservations db) r = Some v \<Longrightarrow> lifecycle_of (reconcile_reservation c r x db)
     = (lifecycle_of db)\<lparr>lf_reservations :=
          (lf_reservations (lifecycle_of db))(r \<mapsto> (rs_cycle v, ReservationReconciled))\<rparr>"
  by (auto simp: lifecycle_of_def reconcile_reservation_def select_pk_update_pk_fun)

lemma tables_ok_reconcile [simp]: "tables_ok (reconcile_reservation c r x db) = tables_ok db"
  by (simp add: tables_ok_def reconcile_reservation_def)

section \<open>Compound effects\<close>

lemma adjust_envelope_wf: "adjust_envelope e a b t = Some t' \<Longrightarrow> wf_table t' = wf_table t"
  by (auto simp: adjust_envelope_def split: option.splits if_splits)

lemma release_charges_wf: "release_charges xs d t = Some t' \<Longrightarrow> wf_table t' = wf_table t"
  by (induction xs d t rule: release_charges.induct)
    (auto split: option.splits simp: adjust_envelope_wf)

lemma insert_charge_True:
  "insert_charge r e a t = (True, t') \<Longrightarrow>
     \<exists>i. adds t i \<lparr>ch_reservation = r, ch_envelope = e, ch_amount = a\<rparr> t' \<and> 0 \<le> a
       \<and> \<not> exists_where (\<lambda>_ x. ch_reservation x = r \<and> ch_envelope x = e) t"
  by (auto simp: insert_charge_def split: prod.splits option.splits dest!: insert_identity_adds)

lemma hold_on_envelope_Inr:
  "hold_on_envelope r amount e db = (Inr u, db') \<Longrightarrow>
     \<exists>t h. adjust_envelope e (- amount) 0 (envelopes db) = Some t
       \<and> insert_charge r e amount (charges db) = (True, h)
       \<and> db' = db\<lparr>envelopes := t, charges := h\<rparr>"
  by (auto simp: hold_on_envelope_def split: option.splits prod.splits bool.splits)

definition reserved_row :: "int \<Rightarrow> int \<Rightarrow> int \<Rightarrow> reservation_row" where
  "reserved_row c k amount = \<lparr>rs_cycle = k, rs_amount = amount, rs_charged = 0,
     rs_state = ReservationReserved, rs_by = c, rs_reconciled = None\<rparr>"

lemma insert_reservation_Inr:
  "insert_reservation c k amount db = (Inr r, db') \<Longrightarrow>
     \<exists>t. adds (reservations db) r (reserved_row c k amount) t \<and> 0 \<le> amount
       \<and> db' = db\<lparr>reservations := t\<rparr>"
  by (auto simp: insert_reservation_def reserved_row_def split: prod.splits option.splits
        dest!: insert_identity_adds)

lemma reserve_effect:
  assumes "reserve_attempt_budget c cycle k amount db = (Inr r, db')"
  shows "\<exists>es ec R E1 E2 H1 H2.
       budget_envelopes_for_cycle db (cy_society cycle) k = Inr (es, ec) \<and> amount \<noteq> 0 \<and> 0 \<le> amount
     \<and> envelope_admits db amount es = None \<and> envelope_admits db amount ec = None
     \<and> adds (reservations db) r (reserved_row c k amount) R
     \<and> adjust_envelope es (- amount) 0 (envelopes db) = Some E1
     \<and> insert_charge r es amount (charges db) = (True, H1)
     \<and> adjust_envelope ec (- amount) 0 E1 = Some E2
     \<and> insert_charge r ec amount H1 = (True, H2)
     \<and> db' = db\<lparr>reservations := R, envelopes := E2, charges := H2\<rparr>"
proof -
  obtain es ec db1 db2 where *: "amount \<noteq> 0"
    "budget_envelopes_for_cycle db (cy_society cycle) k = Inr (es, ec)"
    "envelope_admits db amount es = None" "envelope_admits db amount ec = None"
    "insert_reservation c k amount db = (Inr r, db1)"
    "hold_on_envelope r amount es db1 = (Inr (), db2)"
    "hold_on_envelope r amount ec db2 = (Inr (), db')"
    using assms unfolding reserve_attempt_budget_def
    by (auto split: if_splits sum.splits prod.splits option.splits)
  from insert_reservation_Inr [OF *(5)] hold_on_envelope_Inr [OF *(6)] hold_on_envelope_Inr [OF *(7)]
  show ?thesis using *(1-4) by auto
qed

lemma settle_charges_frame:
  "settle_charges r d xs db = (Inr u, db') \<Longrightarrow>
     \<exists>E H. db' = db\<lparr>envelopes := E, charges := H\<rparr> \<and> wf_table E = wf_table (envelopes db)
       \<and> wf_table H = wf_table (charges db)"
proof (induction xs arbitrary: db)
  case (Cons x xs)
  then show ?case
    by (cases x) (fastforce split: if_splits option.splits simp: adjust_envelope_wf)
qed (force intro: exI [of _ "envelopes db"])

lemma dispose_charges_frame:
  "dispose_charges r d xs db = (Inr u, db') \<Longrightarrow>
     \<exists>E H. db' = db\<lparr>envelopes := E, charges := H\<rparr> \<and> wf_table E = wf_table (envelopes db)
       \<and> wf_table H = wf_table (charges db)"
proof (induction xs arbitrary: db)
  case (Cons x xs)
  then show ?case
    by (cases x) (fastforce split: if_splits option.splits simp: adjust_envelope_wf)
qed (force intro: exI [of _ "envelopes db"])

section \<open>Budget transitions\<close>

lemma tables_okD:
  assumes "tables_ok db"
  shows "wf_table (cycles db)" "wf_table (reservations db)" "wf_table (cancellations db)"
    "wf_table (cycle_reconciliations db)" "wf_table (sessions db)" "wf_table (turns db)"
    "wf_table (envelopes db)" "wf_table (constraints db)" "wf_table (charges db)"
    "wf_table (postmortems db)"
  using assms by (simp_all add: tables_ok_def)

lemma reserve_simulates:
  assumes ok: "tables_ok db"
    and cy: "select_pk (cycles db) k = Some cy" "cy_state cy = CycleRunning"
    and res: "reserve_attempt_budget c cycle k amount db = (Inr r, db')"
  shows "simulates db db'"
proof -
  obtain es ec R E1 E2 H1 H2 where *:
    "adds (reservations db) r (reserved_row c k amount) R"
    "adjust_envelope es (- amount) 0 (envelopes db) = Some E1"
    "insert_charge r es amount (charges db) = (True, H1)"
    "adjust_envelope ec (- amount) 0 E1 = Some E2"
    "insert_charge r ec amount H1 = (True, H2)"
    and db': "db' = db\<lparr>reservations := R, envelopes := E2, charges := H2\<rparr>"
    using reserve_effect [OF res] by blast
  have ok': "tables_ok db'"
    using ok adds_wf [OF *(1)] adjust_envelope_wf [OF *(2)] adjust_envelope_wf [OF *(4)]
      insert_charge_True [OF *(3)] insert_charge_True [OF *(5)]
    by (auto simp: tables_ok_def db' dest: adds_wf)
  have "lf_cycles (lifecycle_of db) k = Some (CycleRunning, cy_generation cy)"
    using cy by (simp add: lifecycle_of_def)
  moreover have "lf_reservations (lifecycle_of db) r = None"
    using adds_fresh [OF *(1)] by (simp add: lifecycle_of_def)
  ultimately show ?thesis
    by (rule simulates_step [OF ok' lifecycle_step.reserve])
      (auto simp: lifecycle_of_def db' adds_select_fun [OF *(1)] reserved_row_def)
qed

lemma cancellation_duty_wf: "cancellation_duty c k g t i t' \<Longrightarrow> wf_table t' = wf_table t"
  by (auto simp: cancellation_duty_def adds_wf)

lemma freeze_simulates:
  assumes ok: "tables_ok db"
    and v: "select_pk (reservations db) r = Some v" "rs_state v = ReservationReserved"
    and fr: "freeze_budget_admission c r (rs_cycle v) held reason db = (Inr ev, db')"
  shows "simulates db db'"
proof -
  obtain cy n p N P where cy: "select_pk (cycles db) (rs_cycle v) = Some cy"
    and duty: "cancellation_duty c (rs_cycle v) (cy_generation cy) (cancellations db) n N"
    and pm: "adds (postmortems db) p (postmortem_of c r (rs_cycle v) n held reason) P"
    and db': "db' = (transition_cycle c (rs_cycle v) Cancelling (cy_generation cy + 1) db)
        \<lparr>reservations := frozen_rows r (reservations db), cancellations := N, postmortems := P\<rparr>"
    using freeze_effect [OF fr tables_okD(3) [OF ok]] by blast
  have ok': "tables_ok db'"
    using ok adds_wf [OF pm] cancellation_duty_wf [OF duty]
    by (auto simp: tables_ok_def db' transition_cycle_def frozen_rows_def)
  have r: "lf_reservations (lifecycle_of db) r = Some (rs_cycle v, ReservationReserved)"
    and k: "lf_cycles (lifecycle_of db) (rs_cycle v) = Some (cy_state cy, cy_generation cy)"
    using v cy by (simp_all add: lifecycle_of_def)
  from duty show ?thesis unfolding cancellation_duty_def
  proof (elim disjE conjE)
    assume same: "N = cancellations db"
      and ex: "\<exists>q. select_pk (cancellations db) n = Some q \<and> cn_cycle q = rs_cycle v
                 \<and> cancellation_active (cn_state q)"
    have "cancel_pending (lifecycle_of db) (rs_cycle v)"
      using ex by (force simp: cancel_pending_def lifecycle_of_def)
    with r k show ?thesis
      by (rule simulates_step [OF ok' lifecycle_step.freeze_pending])
        (use cy v in \<open>auto simp: lifecycle_of_def db' same transition_cycle_def frozen_rows_def
           select_pk_update_pk_fun\<close>)
  next
    assume new: "adds (cancellations db) n
        \<lparr>cn_cycle = rs_cycle v, cn_mode = GracefulCancel, cn_state = CancellationAccepted,
         cn_generation = cy_generation cy, cn_by = c, cn_reconciled = None\<rparr> N"
      and none: "\<not> exists_where (\<lambda>_ q. cn_cycle q = rs_cycle v \<and> cancellation_active (cn_state q))
                  (cancellations db)"
    have "\<not> cancel_pending (lifecycle_of db) (rs_cycle v)"
      using none cancel_pending_exists [OF tables_okD(3) [OF ok]] by simp
    moreover have "lf_cancellations (lifecycle_of db) n = None"
      using adds_fresh [OF new] by (simp add: lifecycle_of_def)
    ultimately show ?thesis
      by (rule simulates_step [OF ok' lifecycle_step.freeze [OF r k]])
        (use cy v in \<open>auto simp: lifecycle_of_def db' transition_cycle_def frozen_rows_def
           select_pk_update_pk_fun adds_select_fun [OF new] cancellation_active_def\<close>)
  qed
qed

lemma settled_simulates:
  assumes "tables_ok db'" "select_pk (reservations db) r = Some v" "rs_state v \<noteq> ReservationReconciled"
    and "lifecycle_of db' = (lifecycle_of db)\<lparr>lf_reservations :=
           (lf_reservations (lifecycle_of db))(r \<mapsto> (rs_cycle v, ReservationReconciled))\<rparr>"
  shows "simulates db db'"
  using assms by (intro simulates_step [OF assms(1) lifecycle_step.settle [where s = "rs_state v"]])
    (auto simp: lifecycle_of_def)

lemma lifecycle_of_accounts [simp]:
  "lifecycle_of (db\<lparr>envelopes := E\<rparr>) = lifecycle_of db"
  "lifecycle_of (db\<lparr>envelopes := E, charges := H\<rparr>) = lifecycle_of db"
  "lifecycle_of (db\<lparr>envelopes := E, resolutions := U\<rparr>) = lifecycle_of db"
  "lifecycle_of (db\<lparr>postmortems := P\<rparr>) = lifecycle_of db"
  by (simp_all add: lifecycle_of_def)

lemma release_simulates:
  assumes ok: "tables_ok db" and rel: "release_charges xs d (envelopes db) = Some E"
    and v: "select_pk (reservations db) r = Some v" "rs_state v \<noteq> ReservationReconciled"
  shows "simulates db (reconcile_reservation c r x (db\<lparr>envelopes := E\<rparr>))"
  by (rule settled_simulates [OF _ v])
    (use ok release_charges_wf [OF rel] v in
      \<open>simp_all add: lifecycle_of_reconcile, simp add: tables_ok_def\<close>)

lemma reconcile_budget_simulates:
  assumes ok: "tables_ok db" and res: "reconcile_budget c r observation db = (Inr ev, db')"
  shows "simulates db db'"
  using res unfolding reconcile_budget_def Let_def
  by (auto split: option.splits if_splits cost_observation.splits
        intro!: freeze_simulates [OF ok] release_simulates [OF ok])

lemma frozen_disposition_Inr:
  "frozen_disposition x res = (Inr d, db') \<Longrightarrow> \<exists>ev. res = (Inr ev, db')"
  by (auto simp: frozen_disposition_def split: prod.splits sum.splits cycle_event.splits)

lemma reconcile_attempt_simulates:
  assumes ok: "tables_ok db" and res: "reconcile_task_attempt_reservation c r observed db = (Inr d, db')"
  shows "simulates db db'"
  using res unfolding reconcile_task_attempt_reservation_def
  by (auto split: option.splits if_splits dest!: frozen_disposition_Inr
        intro!: freeze_simulates [OF ok] release_simulates [OF ok])

lemma tables_ok_accounts:
  "tables_ok db \<Longrightarrow> wf_table E = wf_table (envelopes db) \<Longrightarrow> wf_table H = wf_table (charges db) \<Longrightarrow>
     tables_ok (db\<lparr>envelopes := E, charges := H\<rparr>)"
  by (simp add: tables_ok_def)

lemma dispose_simulates:
  assumes ok: "tables_ok db"
    and v: "select_pk (reservations db) r = Some v" "rs_cycle v = k"
    and res: "dispose_session_budget c r k observed db = (Inr (d, st), db')"
  shows "simulates db db'"
proof (cases "rs_state v \<noteq> ReservationReserved \<or> rs_amount v < rs_charged v \<or> observed < rs_charged v")
  case True
  then show ?thesis using res v by (simp add: dispose_session_budget_def)
next
  case act: False
  show ?thesis
  proof (cases "rs_amount v < observed")
    case True
    then obtain ev where "freeze_budget_admission c r (rs_cycle v) (rs_amount v - rs_charged v)
        (FrozenKnownOverrun observed (rs_amount v - rs_charged v)) db = (Inr ev, db')"
      using res act v
      by (auto simp: dispose_session_budget_def split: prod.splits sum.splits
            dest: frozen_disposition_Inr)
    then show ?thesis using freeze_simulates [OF ok v(1)] act by simp
  next
    case False
    then obtain db1 where disp: "dispose_charges r (observed - rs_charged v) (charges_of db r) db = (Inr (), db1)"
      and db': "db' = reconcile_reservation c r observed db1"
      using res act v
      by (auto simp: dispose_session_budget_def split: prod.splits sum.splits)
    obtain E H where "db1 = db\<lparr>envelopes := E, charges := H\<rparr>"
      "wf_table E = wf_table (envelopes db)" "wf_table H = wf_table (charges db)"
      using dispose_charges_frame [OF disp] by blast
    then show ?thesis
      using act v tables_ok_accounts [OF ok, of E H]
      by (intro settled_simulates [OF _ v(1)]) (auto simp: db' lifecycle_of_reconcile)
  qed
qed

lemma lifecycle_of_settle:
  "select_pk (reservations db') = (\<lambda>i. if i = r then map_option (\<lambda>w. w\<lparr>rs_charged := f w\<rparr>) (select_pk (reservations db) i)
                                  else select_pk (reservations db) i) \<Longrightarrow>
   cycles db' = cycles db \<Longrightarrow> cancellations db' = cancellations db \<Longrightarrow>
   cycle_reconciliations db' = cycle_reconciliations db \<Longrightarrow> lifecycle_of db' = lifecycle_of db"
  by (auto simp: lifecycle_of_def fun_eq_iff map_option.compositionality comp_def)

lemma settle_turn_cases:
  assumes "settle_office_turn c turn receipt db = (Inr ev, db')"
  obtains (frozen) r v held reason where
      "select_pk (reservations db) r = Some v" "rs_state v = ReservationReserved"
      "held = rs_amount v - rs_charged v" "rs_charged v \<le> rs_amount v"
      "freeze_budget_admission c r (rs_cycle v) held reason db = (Inr ev, db')"
  | (settled) t s r v d db1 where
      "select_pk (turns db) turn = Some t" "tu_state t = TurnActive" "tu_session t = s"
      "select_pk (reservations db) r = Some v" "rs_state v = ReservationReserved"
      "0 \<le> d" "rs_charged v + d \<le> rs_amount v"
      "settle_charges r d (charges_of db r) db = (Inr (), db1)"
      "ev = OfficeTurnSettled turn s d"
      "\<exists>f p. db' = set_session_state c s SessionReady
         (db1\<lparr>reservations := update_pk r (\<lambda>w. w\<lparr>rs_charged := rs_charged w + d\<rparr>) (reservations db1),
              checkpoints := update_where p f (checkpoints db1),
              turns := update_pk turn (\<lambda>u. u\<lparr>tu_state := TurnSettled, tu_settled := Some c\<rparr>) (turns db1)\<rparr>)"
proof -
  obtain t e k where row: "select_pk (turns db) turn = Some t"
      "ce_settlement (cenv db) turn receipt = Some e" "select_pk (checkpoints db) turn = Some k"
      "tu_state t = TurnActive"
    using assms by (auto simp: settle_office_turn_def split: option.splits if_splits)
  obtain v where v: "select_pk (reservations db) (ck_reservation k) = Some v"
      "rs_state v = ReservationReserved" "rs_charged v \<le> rs_amount v" "rs_charged v \<le> sv_cumulative e"
    using assms row
    by (auto simp: settle_office_turn_def linorder_not_less split: option.splits if_splits)
  show ?thesis
  proof (cases "rs_amount v < sv_cumulative e")
    case True
    then have "freeze_budget_admission c (ck_reservation k) (rs_cycle v) (rs_amount v - rs_charged v)
        (FrozenKnownOverrun (sv_cumulative e) (rs_amount v - rs_charged v)) db = (Inr ev, db')"
      using assms row v by (simp add: settle_office_turn_def split: if_splits)
    then show ?thesis by (rule frozen [OF v(1,2) refl v(3)])
  next
    case False
    let ?d = "sv_cumulative e - rs_charged v"
    obtain db1 where db1: "settle_charges (ck_reservation k) ?d (charges_of db (ck_reservation k)) db
          = (Inr (), db1)"
      and ev: "ev = OfficeTurnSettled turn (tu_session t) ?d"
      and db': "db' = set_session_state c (tu_session t) SessionReady
         (db1\<lparr>reservations := update_pk (ck_reservation k) (\<lambda>w. w\<lparr>rs_charged := rs_charged w + ?d\<rparr>)
                (reservations db1),
              checkpoints := update_where (\<lambda>i k. i = turn \<and> ck_settled k = None)
                (\<lambda>k. k\<lparr>ck_settled := Some (sv_cumulative e), ck_settled_by := Some c\<rparr>) (checkpoints db1),
              turns := update_pk turn (\<lambda>u. u\<lparr>tu_state := TurnSettled, tu_settled := Some c\<rparr>) (turns db1)\<rparr>)"
      using assms row v False
      by (auto simp: settle_office_turn_def Let_def split: if_splits prod.splits sum.splits)
    show ?thesis
      by (rule settled [OF row(1,4) refl v(1,2) _ _ db1 ev]) (use v False db' in auto)
  qed
qed

lemma settle_turn_simulates:
  assumes ok: "tables_ok db" and res: "settle_office_turn c turn receipt db = (Inr ev, db')"
  shows "simulates db db'"
  using res
proof (cases rule: settle_turn_cases)
  case (frozen r v held reason)
  then show ?thesis using freeze_simulates [OF ok] by simp
next
  case (settled t s r v d db1)
  obtain E H where db1: "db1 = db\<lparr>envelopes := E, charges := H\<rparr>"
    "wf_table E = wf_table (envelopes db)" "wf_table H = wf_table (charges db)"
    using settle_charges_frame [OF settled(8)] by blast
  from settled(10) show ?thesis
    by (intro simulates_same lifecycle_of_settle [of _ r "\<lambda>w. rs_charged w + d"])
      (use ok db1 in \<open>auto simp: tables_ok_def set_session_state_def select_pk_update_pk_fun\<close>)
qed

lemma close_postmortem_effect:
  assumes "close_cost_postmortem c x i resolution db = (Inr ev, db')"
  obtains p cy v charged E U where
    "select_pk (postmortems db) i = Some p" "pm_state p = PostmortemOpen"
    "select_pk (cycles db) (pm_cycle p) = Some cy" "cy_state cy \<in> {Drained, Reconciling}"
    "active_cancellation_count db (pm_cycle p) = 0"
    "select_pk (reservations db) (pm_reservation p) = Some v" "rs_state v = ReservationFrozen"
    "rs_charged v \<le> rs_amount v" "pm_reserved p = rs_amount v - rs_charged v"
    "resolution_charge p resolution (rs_charged v) = Some charged"
    "pm_cause p = CauseKnownOverrun \<longrightarrow> pm_reserved p \<le> charged"
    "release_charges (charges_of db (pm_reservation p)) charged (envelopes db) = Some E"
    "ev = CostPostmortemClosed i (pm_reservation p) (pm_cycle p) resolution charged"
    "db' = (reconcile_reservation c (pm_reservation p) (rs_charged v + charged)
              (db\<lparr>envelopes := E, resolutions := U\<rparr>))
              \<lparr>postmortems := update_pk i (\<lambda>q. q\<lparr>pm_state := PostmortemClosed, pm_closed := Some c\<rparr>)
                 (postmortems db)\<rparr>"
proof -
  obtain p where p: "select_pk (postmortems db) i = Some p" "pm_state p = PostmortemOpen"
    using assms by (auto simp: close_cost_postmortem_def split: option.splits if_splits)
  obtain cy where cy: "cycle_for_generation db (pm_cycle p) x = Inr cy" "cy_state cy \<in> {Drained, Reconciling}"
    "active_cancellation_count db (pm_cycle p) = 0"
    using assms p by (auto simp: close_cost_postmortem_def split: sum.splits if_splits)
  obtain v where v: "select_pk (reservations db) (pm_reservation p) = Some v" "rs_state v = ReservationFrozen"
    "rs_charged v \<le> rs_amount v" "pm_reserved p = rs_amount v - rs_charged v"
    using assms p cy
    by (auto simp: close_cost_postmortem_def linorder_not_less split: option.splits if_splits)
  obtain charged where ch: "resolution_charge p resolution (rs_charged v) = Some charged"
    "\<not> (charged < pm_reserved p \<and> pm_cause p = CauseKnownOverrun)"
    using assms p cy v
    by (simp add: close_cost_postmortem_def split: option.splits if_splits)
  obtain E U where E: "release_charges (charges_of db (pm_reservation p)) charged (envelopes db) = Some E"
    and "ev = CostPostmortemClosed i (pm_reservation p) (pm_cycle p) resolution charged"
    and "db' = (reconcile_reservation c (pm_reservation p) (rs_charged v + charged)
              (db\<lparr>envelopes := E, resolutions := U\<rparr>))
              \<lparr>postmortems := update_pk i (\<lambda>q. q\<lparr>pm_state := PostmortemClosed, pm_closed := Some c\<rparr>)
                 (postmortems db)\<rparr>"
    using assms p cy v ch
    by (auto simp: close_cost_postmortem_def checked_add_i64_def split: option.splits if_splits)
  with p cy v ch show ?thesis
    using that by (auto simp: cycle_for_generation_Inr)
qed

lemma close_postmortem_simulates:
  assumes ok: "tables_ok db" and res: "close_cost_postmortem c x i resolution db = (Inr ev, db')"
  shows "simulates db db'"
  using res
proof (cases rule: close_postmortem_effect)
  case (1 p cy v charged E U)
  have "tables_ok db'"
    using ok release_charges_wf [OF 1(12)] by (simp add: 1(14) tables_ok_def reconcile_reservation_def)
  then show ?thesis
    by (rule settled_simulates [OF _ 1(6)]) (use 1 in \<open>simp_all add: lifecycle_of_reconcile\<close>)
qed

section \<open>Lifecycle transitions\<close>

lemma create_envelope_Inr:
  "create_budget_envelope c amount db = (Inr e, db') \<Longrightarrow>
     \<exists>t. db' = db\<lparr>envelopes := t\<rparr> \<and> 0 \<le> amount
       \<and> adds (envelopes db) e \<lparr>en_ceiling = amount, en_reserved = 0, en_spent = 0, en_by = c\<rparr> t"
  by (auto simp: create_budget_envelope_def split: prod.splits option.splits
        dest!: insert_identity_adds)

lemma insert_constraint_True:
  "insert_constraint e scope db = (True, db') \<Longrightarrow>
     \<exists>i t. db' = db\<lparr>constraints := t\<rparr>
       \<and> adds (constraints db) i \<lparr>ct_envelope = e, ct_scope = scope\<rparr> t
       \<and> \<not> exists_where (\<lambda>_ r. ct_envelope r = e) (constraints db)
       \<and> \<not> exists_where (\<lambda>_ r. ct_scope r = scope) (constraints db)"
  by (auto simp: insert_constraint_def split: prod.splits option.splits
        dest!: insert_identity_adds)

lemma bootstrap_effect:
  assumes "bootstrap_society c db = (Inr ev, db')"
  obtains s e amount B S E i K where
    "0 < amount" "\<not> exists_where (\<lambda>_ _. True) (bootstraps db)"
    "adds (envelopes db) e \<lparr>en_ceiling = amount, en_reserved = 0, en_spent = 0, en_by = c\<rparr> E"
    "adds (constraints db) i \<lparr>ct_envelope = e, ct_scope = SocietyScope s\<rparr> K"
    "\<not> exists_where (\<lambda>_ r. ct_envelope r = e) (constraints db)"
    "\<not> exists_where (\<lambda>_ r. ct_scope r = SocietyScope s) (constraints db)"
    "db' = db\<lparr>bootstraps := B, societies := S, envelopes := E, constraints := K\<rparr>"
proof -
  obtain s amount B S db1 e where *: "\<not> exists_where (\<lambda>_ _. True) (bootstraps db)" "0 < amount"
    "create_budget_envelope c amount (db\<lparr>bootstraps := B, societies := S\<rparr>) = (Inr e, db1)"
    "insert_constraint e (SocietyScope s) db1 = (True, db')"
    using assms
    by (auto simp: bootstrap_society_def insert_key_def
          split: sum.splits if_splits option.splits prod.splits bool.splits)
  from create_envelope_Inr [OF *(3)] insert_constraint_True [OF *(4)] show ?thesis
    using *(1,2) that by auto
qed

definition proposed_row ::
  "int \<Rightarrow> int \<Rightarrow> int \<Rightarrow> int \<Rightarrow> operating_cycle_treatment \<Rightarrow> int \<Rightarrow> cycle_row" where
  "proposed_row c society mission occupancy treatment amount =
     \<lparr>cy_society = society, cy_mission = mission, cy_occupancy = occupancy, cy_treatment = treatment,
      cy_ceiling = amount, cy_state = Proposed, cy_generation = 0, cy_proposed = c, cy_last = c\<rparr>"

lemma propose_effect:
  assumes "propose_operating_cycle c treatment amount db = (Inr ev, db')"
  obtains k e society mission occupancy hard C E i K where
    "bootstrapped_constitution db = Inr (society, mission, occupancy, hard)" "0 < amount" "amount \<le> hard"
    "\<not> exists_where (\<lambda>_ r. is_nonterminal (cy_state r)) (cycles db)"
    "adds (cycles db) k (proposed_row c society mission occupancy treatment amount) C"
    "adds (envelopes db) e \<lparr>en_ceiling = amount, en_reserved = 0, en_spent = 0, en_by = c\<rparr> E"
    "adds (constraints db) i \<lparr>ct_envelope = e, ct_scope = CycleScope k\<rparr> K"
    "\<not> exists_where (\<lambda>_ r. ct_envelope r = e) (constraints db)"
    "\<not> exists_where (\<lambda>_ r. ct_scope r = CycleScope k) (constraints db)"
    "ev = OperatingCycleProposed k 0 treatment amount"
    "db' = db\<lparr>cycles := C, envelopes := E, constraints := K\<rparr>"
proof -
  obtain society mission occupancy hard k C db1 e where
    *: "bootstrapped_constitution db = Inr (society, mission, occupancy, hard)"
      "amount \<le> hard" "\<not> exists_where (\<lambda>_ r. is_nonterminal (cy_state r)) (cycles db)"
      "insert_identity (0 < amount) (proposed_row c society mission occupancy treatment amount)
         (cycles db) = (Some k, C)"
      "create_budget_envelope c amount (db\<lparr>cycles := C\<rparr>) = (Inr e, db1)"
      "insert_constraint e (CycleScope k) db1 = (True, db')"
      "ev = OperatingCycleProposed k 0 treatment amount"
    using assms
    by (auto simp: propose_operating_cycle_def proposed_row_def linorder_not_less
          split: sum.splits if_splits option.splits prod.splits bool.splits)
  from insert_identity_adds [OF *(4)] create_envelope_Inr [OF *(5)] insert_constraint_True [OF *(6)]
  show ?thesis using *(1-3,7) that by auto
qed

lemma propose_simulates:
  assumes ok: "tables_ok db" and res: "propose_operating_cycle c treatment amount db = (Inr ev, db')"
  shows "simulates db db'"
  using res
proof (cases rule: propose_effect)
  case (1 k e society mission occupancy hard C E i K)
  have ok': "tables_ok db'"
    using ok adds_wf [OF 1(5)] adds_wf [OF 1(6)] adds_wf [OF 1(7)] by (simp add: 1(11) tables_ok_def)
  have "\<not> is_nonterminal s" if "lf_cycles (lifecycle_of db) j = Some (s, g)" for j s g
    using that 1(4) exists_where_iff [OF tables_okD(1) [OF ok]] by (force simp: lifecycle_of_cycles)
  moreover have "lf_cycles (lifecycle_of db) k = None"
    using adds_fresh [OF 1(5)] by (simp add: lifecycle_of_def)
  ultimately show ?thesis
    by (rule simulates_step [OF ok' lifecycle_step.propose])
      (auto simp: 1(11) lifecycle_of_def adds_select_fun [OF 1(5)] proposed_row_def)
qed

lemma bootstrap_simulates:
  assumes ok: "tables_ok db" and res: "bootstrap_society c db = (Inr ev, db')"
  shows "simulates db db'"
  using res
proof (cases rule: bootstrap_effect)
  case (1 s e amount B S E i K)
  show ?thesis
    by (rule simulates_same)
      (use ok adds_wf [OF 1(3)] adds_wf [OF 1(4)] in \<open>simp_all add: 1(7) tables_ok_def lifecycle_of_def\<close>)
qed

text \<open>Transitions that move one cycle and leave the rest of the abstraction alone.\<close>

lemma lifecycle_of_cycle:
  "select_pk (cycles db) k = Some cy \<Longrightarrow>
     lf_cycles (lifecycle_of db) k = Some (cy_state cy, cy_generation cy)"
  by (simp add: lifecycle_of_def)

lemma move_simulates:
  assumes "tables_ok db" "select_pk (cycles db) k = Some cy"
    and "lifecycle_step (lifecycle_of db)
           ((lifecycle_of db)\<lparr>lf_cycles := (lf_cycles (lifecycle_of db))(k \<mapsto> (s, g))\<rparr>)"
  shows "simulates db (transition_cycle c k s g db)"
  by (rule simulates_step [OF _ assms(3)]) (use assms in \<open>simp_all add: lifecycle_of_transition\<close>)

lemma admit_simulates:
  assumes ok: "tables_ok db" and res: "admit_operating_cycle c x k db = (Inr ev, db')"
  shows "simulates db db'"
proof -
  obtain cy t where cy: "select_pk (cycles db) k = Some cy" "cy_state cy = Proposed"
    and db': "db' = (set_cycle_state c k CycleAdmitted db)\<lparr>cycle_admissions := t\<rparr>"
    using res by (auto simp: admit_operating_cycle_def Let_def cycle_for_generation_Inr
        split: sum.splits if_splits option.splits)
  have "lifecycle_of db' = lifecycle_of (set_cycle_state c k CycleAdmitted db)"
    by (simp add: db' lifecycle_of_def)
  moreover have "tables_ok db'"
    using ok by (simp add: db' tables_ok_def set_cycle_state_def)
  ultimately show ?thesis
    by (intro simulates_step [OF _ lifecycle_step.admit [of _ k "cy_generation cy"]])
      (use cy in \<open>simp_all add: lifecycle_of_set_state [OF cy(1)] lifecycle_of_cycle\<close>)
qed

lemma start_simulates:
  assumes ok: "tables_ok db" and cy: "select_pk (cycles db) k = Some cy" "cy_state cy = CycleAdmitted"
  shows "simulates db (start_cycle c k db)"
  by (rule simulates_step [OF _ lifecycle_step.start [of _ k "cy_generation cy"]])
    (use ok cy in \<open>simp_all add: lifecycle_of_start [OF cy(1)] lifecycle_of_cycle\<close>)

lemma start_office_simulates:
  assumes ok: "tables_ok db" and res: "start_office_session c x k db = (Inr ev, db')"
  shows "simulates db db'"
proof -
  obtain cy s t row where cy: "select_pk (cycles db) k = Some cy" "cy_state cy = CycleAdmitted"
    and ins: "adds (sessions (start_cycle c k db)) s row t"
    and db': "db' = (start_cycle c k db)\<lparr>sessions := t\<rparr>"
    using res by (auto simp: start_office_session_def Let_def cycle_for_generation_Inr
        split: sum.splits if_splits option.splits prod.splits dest!: insert_identity_adds)
  have "simulates (start_cycle c k db) db'"
    by (rule simulates_same)
      (use ok adds_wf [OF ins] in
        \<open>simp_all add: db' lifecycle_of_def tables_ok_def start_cycle_def set_cycle_state_def\<close>)
  with start_simulates [OF ok cy] show ?thesis by (rule simulates_trans)
qed

lemma reserve_budget_simulates:
  assumes ok: "tables_ok db" and res: "reserve_budget c x k amount db = (Inr ev, db')"
  shows "simulates db db'"
proof -
  obtain cy r where "select_pk (cycles db) k = Some cy" "cy_state cy = CycleRunning"
    "reserve_attempt_budget c cy k amount db = (Inr r, db')"
    using res by (auto simp: reserve_budget_def cycle_for_generation_Inr admits_task_work_def
        split: sum.splits if_splits prod.splits)
  then show ?thesis by (rule reserve_simulates [OF ok])
qed

lemma register_workspace_frame:
  "register_workspace w path db = Some db1 \<Longrightarrow> \<exists>t. db1 = db\<lparr>workspaces := t\<rparr>"
  by (auto simp: register_workspace_def split: option.splits intro: exI [of _ "workspaces db"])

lemma claim_effect:
  assumes "claim_native_execution_profile_qualification_launch c x k amount epoch identity w path db
             = (Inr ev, db')"
  obtains cy W r db2 t where
    "select_pk (cycles db) k = Some cy" "cy_state cy = CycleAdmitted"
    "reserve_budget c x k amount (start_cycle c k (db\<lparr>workspaces := W\<rparr>))
       = (Inr (BudgetReserved r k amount), db2)"
    "db' = db2\<lparr>launch_claims := t\<rparr>"
proof -
  obtain cy db1 where cy: "select_pk (cycles db) k = Some cy" "cy_state cy = CycleAdmitted"
    and w: "register_workspace w path db = Some db1"
    using assms
    by (auto simp: claim_native_execution_profile_qualification_launch_def cycle_for_generation_Inr
          split: sum.splits if_splits option.splits)
  obtain W where W: "db1 = db\<lparr>workspaces := W\<rparr>" using register_workspace_frame [OF w] by blast
  obtain r k' a' db2 t where "reserve_budget c x k amount (start_cycle c k db1) = (Inr (BudgetReserved r k' a'), db2)"
    "db' = db2\<lparr>launch_claims := t\<rparr>"
    using assms cy w
    by (auto simp: claim_native_execution_profile_qualification_launch_def cycle_for_generation_Inr
          split: sum.splits if_splits option.splits prod.splits cycle_event.splits)
  moreover from this(1) have "k' = k" "a' = amount"
    by (auto simp: reserve_budget_def split: sum.splits if_splits prod.splits)
  ultimately show ?thesis using that cy W by blast
qed

lemma claim_simulates:
  assumes ok: "tables_ok db"
    and res: "claim_native_execution_profile_qualification_launch c x k amount epoch identity w path db
                = (Inr ev, db')"
  shows "simulates db db'"
  using res
proof (cases rule: claim_effect)
  case (1 cy W r db2 t)
  let ?db1 = "db\<lparr>workspaces := W\<rparr>"
  have ok1: "tables_ok ?db1" using ok by (simp add: tables_ok_def)
  then have "simulates db ?db1" by (rule simulates_same) (simp add: lifecycle_of_def)
  moreover have "simulates ?db1 (start_cycle c k ?db1)"
    by (rule start_simulates [OF ok1, of _ cy]) (use 1 in simp_all)
  moreover have s2: "simulates (start_cycle c k ?db1) db2"
    by (rule reserve_budget_simulates [OF _ 1(3)]) (simp add: ok1)
  moreover have "simulates db2 db'"
    by (rule simulates_same) (use s2 in \<open>simp_all add: 1(4) simulates_def tables_ok_def lifecycle_of_def\<close>)
  ultimately show ?thesis by (blast intro: simulates_trans)
qed

lemma open_turn_effect:
  assumes "open_office_turn c x s purpose db = (Inr ev, db')"
  obtains row cy i t where
    "select_pk (sessions db) s = Some row" "se_state row = SessionReady"
    "select_pk (cycles db) (se_cycle row) = Some cy" "purpose_is_admitted purpose (cy_state cy)"
    "adds (turns db) i \<lparr>tu_session = s, tu_state = TurnActive, tu_purpose = purpose,
        tu_opened = c, tu_settled = None\<rparr> t"
    "\<not> session_has_active_turn db s" "ev = OfficeTurnOpened i s purpose"
    "db' = (set_session_state c s SessionTurnActive db)\<lparr>turns := t\<rparr>"
proof -
  have frame: "session_has_active_turn (set_session_state c s SessionTurnActive db) s
      = session_has_active_turn db s" "turns (set_session_state c s SessionTurnActive db) = turns db"
    by (simp_all add: session_has_active_turn_def set_session_state_def)
  show ?thesis
    using assms that
    by (auto simp: open_office_turn_def Let_def session_row_of_Inr cycle_for_generation_Inr frame
          split: sum.splits if_splits option.splits prod.splits dest!: insert_identity_adds)
qed

lemma open_turn_simulates:
  assumes ok: "tables_ok db" and res: "open_office_turn c x s purpose db = (Inr ev, db')"
  shows "simulates db db'"
  using res
proof (cases rule: open_turn_effect)
  case (1 row cy i t)
  show ?thesis
    by (rule simulates_same)
      (use ok adds_wf [OF 1(5)] in \<open>simp_all add: 1(8) tables_ok_def lifecycle_of_def set_session_state_def\<close>)
qed

lemma begin_reconciliation_effect:
  assumes "begin_reconciliation c x k db = (Inr ev, db')"
  obtains cy t where "select_pk (cycles db) k = Some cy" "cy_state cy = Drained"
    "adds (cycle_reconciliations db) k \<lparr>cr_started = c, cr_closed = None\<rparr> t"
    "db' = (transition_cycle c k Reconciling (cy_generation cy) db)\<lparr>cycle_reconciliations := t\<rparr>"
  using assms
  by (auto simp: begin_reconciliation_def Let_def cycle_for_generation_Inr transition_cycle_def
        split: sum.splits if_splits option.splits dest!: insert_key_adds)

lemma begin_reconciliation_simulates:
  assumes ok: "tables_ok db" and res: "begin_reconciliation c x k db = (Inr ev, db')"
  shows "simulates db db'"
  using res
proof (cases rule: begin_reconciliation_effect)
  case (1 cy t)
  have "tables_ok db'" using ok adds_wf [OF 1(3)] by (simp add: 1(4) tables_ok_def transition_cycle_def)
  moreover have "lf_cycles (lifecycle_of db) k = Some (Drained, cy_generation cy)"
    using 1 by (simp add: lifecycle_of_def)
  moreover have "k \<notin> lf_reconciliations (lifecycle_of db)"
    using adds_fresh [OF 1(3)] by (simp add: lifecycle_of_def)
  ultimately show ?thesis
    by (rule simulates_step [OF _ lifecycle_step.reconcile])
      (use 1 in \<open>auto simp: lifecycle_of_def transition_cycle_def select_pk_update_pk_fun
         adds_select_fun [OF 1(3)]\<close>)
qed

lemma close_effect:
  assumes "close_cycle c x k db = (Inr ev, db')"
  obtains cy where "select_pk (cycles db) k = Some cy" "cy_state cy = Reconciling"
    "active_office_turn_count db k = 0" "live_office_session_count db k = 0"
    "unreconciled_reservation_count db k = 0" "active_cancellation_count db k = 0"
    "ev = OperatingCycleStateChanged k CycleClosed (cy_generation cy)"
    "db' = (transition_cycle c k CycleClosed (cy_generation cy) db)
       \<lparr>cycle_reconciliations := update_pk k (\<lambda>r. r\<lparr>cr_closed := Some c\<rparr>) (cycle_reconciliations db)\<rparr>"
  using assms
  by (auto simp: close_cycle_def cycle_for_generation_Inr split: sum.splits if_splits)

lemma close_simulates:
  assumes ok: "tables_ok db" and res: "close_cycle c x k db = (Inr ev, db')"
  shows "simulates db db'"
  using res
proof (cases rule: close_effect)
  case (1 cy)
  have "tables_ok db'" using ok by (simp add: 1(8) tables_ok_def transition_cycle_def)
  moreover have "lf_cycles (lifecycle_of db) k = Some (Reconciling, cy_generation cy)"
    using 1 by (simp add: lifecycle_of_def)
  moreover have "all_settled (lifecycle_of db) k" "\<not> cancel_pending (lifecycle_of db) k"
    using 1 ok by (simp_all add: all_settled_count cancel_pending_count tables_okD)
  ultimately show ?thesis
    by (rule simulates_step [OF _ lifecycle_step.close])
      (use 1 in \<open>auto simp: lifecycle_of_def transition_cycle_def select_pk_update_pk_fun\<close>)
qed

lemma request_cancellation_effect:
  assumes "request_cancellation c x k mode db = (Inr ev, db')"
  obtains cy i t where "select_pk (cycles db) k = Some cy" "is_nonterminal (cy_state cy)"
    "cy_state cy \<notin> {Reconciling, Cancelling, Reaping}" "in_i64 (cy_generation cy + 1)"
    "adds (cancellations db) i \<lparr>cn_cycle = k, cn_mode = mode, cn_state = CancellationAccepted,
       cn_generation = cy_generation cy, cn_by = c, cn_reconciled = None\<rparr> t"
    "\<not> exists_where (\<lambda>_ r. cn_cycle r = k \<and> cancellation_active (cn_state r)) (cancellations db)"
    "ev = CancellationWasRequested i k mode (cy_generation cy + 1)"
    "db' = (transition_cycle c k (cancellation_cycle_state mode) (cy_generation cy + 1) db)
       \<lparr>cancellations := t\<rparr>"
proof -
  have frame: "cancellations (transition_cycle c k s g db) = cancellations db" for s g
    by (simp add: transition_cycle_def)
  obtain cy i db1 where *: "select_pk (cycles db) k = Some cy" "is_nonterminal (cy_state cy)"
    "cy_state cy \<notin> {Reconciling, Cancelling, Reaping}" "in_i64 (cy_generation cy + 1)"
    "insert_cancellation c k mode (cy_generation cy)
       (transition_cycle c k (cancellation_cycle_state mode) (cy_generation cy + 1) db) = (Inr i, db')"
    "ev = CancellationWasRequested i k mode (cy_generation cy + 1)"
    using assms
    by (auto simp: request_cancellation_def cycle_for_generation_Inr increment_generation_Some
          split: sum.splits if_splits option.splits prod.splits)
  from insert_cancellation_Inr [OF *(5)] show ?thesis
    using *(1-4,6) that by (auto simp: frame)
qed

lemma request_cancellation_simulates:
  assumes ok: "tables_ok db" and res: "request_cancellation c x k mode db = (Inr ev, db')"
  shows "simulates db db'"
  using res
proof (cases rule: request_cancellation_effect)
  case (1 cy i t)
  have ok': "tables_ok db'" using ok adds_wf [OF 1(5)] by (simp add: 1(8) tables_ok_def transition_cycle_def)
  have k: "lf_cycles (lifecycle_of db) k = Some (cy_state cy, cy_generation cy)"
    using 1 by (simp add: lifecycle_of_def)
  have s: "cy_state cy \<in> {Proposed, CycleAdmitted, CycleRunning, Quiescing, Drained}"
    using 1(2,3) by (cases "cy_state cy") (auto simp: is_nonterminal_def)
  have t: "cancellation_cycle_state mode \<in> {Quiescing, Cancelling}"
    by (cases mode) (simp_all add: cancellation_cycle_state_def)
  have "\<not> cancel_pending (lifecycle_of db) k"
    using 1(6) cancel_pending_exists [OF tables_okD(3) [OF ok]] by simp
  moreover have "lf_cancellations (lifecycle_of db) i = None"
    using adds_fresh [OF 1(5)] by (simp add: lifecycle_of_def)
  ultimately show ?thesis
    by (rule simulates_step [OF ok' lifecycle_step.cancel [OF k s t]])
      (use 1 in \<open>auto simp: lifecycle_of_def transition_cycle_def select_pk_update_pk_fun
         adds_select_fun [OF 1(5)] cancellation_active_def\<close>)
qed

lemma reconcile_cancellation_effect:
  assumes "reconcile_cancellation c i db = (Inr ev, db')"
  obtains n cy where "select_pk (cancellations db) i = Some n" "cancellation_active (cn_state n)"
    "select_pk (cycles db) (cn_cycle n) = Some cy" "cy_state cy = Cancelling"
    "active_office_turn_count db (cn_cycle n) = 0" "live_office_session_count db (cn_cycle n) = 0"
    "ev = CancellationReconciled i (cn_cycle n)"
    "db' = transition_cycle c (cn_cycle n) Drained (cy_generation cy)
       (db\<lparr>cancellations := update_pk i
          (\<lambda>q. q\<lparr>cn_state := CancellationCompleted, cn_reconciled := Some c\<rparr>) (cancellations db)\<rparr>)"
  using assms
  by (auto simp: reconcile_cancellation_def split: sum.splits if_splits option.splits)

lemma reconcile_cancellation_simulates:
  assumes ok: "tables_ok db" and res: "reconcile_cancellation c i db = (Inr ev, db')"
  shows "simulates db db'"
  using res
proof (cases rule: reconcile_cancellation_effect)
  case (1 n cy)
  have "tables_ok db'" using ok by (simp add: 1(8) tables_ok_def transition_cycle_def)
  moreover have "lf_cycles (lifecycle_of db) (cn_cycle n) = Some (Cancelling, cy_generation cy)"
    using 1 by (simp add: lifecycle_of_def)
  moreover have "lf_cancellations (lifecycle_of db) i = Some (cn_cycle n, True)"
    using 1 by (simp add: lifecycle_of_def)
  ultimately show ?thesis
    by (rule simulates_step [OF _ lifecycle_step.cancelled])
      (use 1 in \<open>auto simp: lifecycle_of_def transition_cycle_def select_pk_update_pk_fun
         cancellation_active_def\<close>)
qed

lemma quiesce_simulates:
  assumes ok: "tables_ok db" and res: "quiesce_cycle c x k db = (Inr ev, db')"
  shows "simulates db db'"
proof -
  obtain cy where cy: "select_pk (cycles db) k = Some cy" "cy_state cy \<in> {CycleAdmitted, CycleRunning}"
    and db': "db' = transition_cycle c k Quiescing (cy_generation cy + 1) db"
    using res by (auto simp: quiesce_cycle_def cycle_for_generation_Inr increment_generation_Some
        split: sum.splits if_splits option.splits)
  show ?thesis unfolding db'
    by (rule move_simulates [OF ok cy(1) lifecycle_step.quiesce])
      (use cy in \<open>simp_all add: lifecycle_of_cycle\<close>)
qed

lemma drained_simulates:
  assumes ok: "tables_ok db" and res: "record_cycle_drained c k db = (Inr ev, db')"
  shows "simulates db db'"
proof -
  obtain cy where cy: "select_pk (cycles db) k = Some cy" "cy_state cy = Quiescing"
    and db': "db' = transition_cycle c k
        (if active_cancellation_count db k \<noteq> 0 then Cancelling else Drained) (cy_generation cy) db"
    using res by (auto simp: record_cycle_drained_def Let_def split: sum.splits if_splits)
  show ?thesis unfolding db' cancel_pending_count [OF tables_okD(3) [OF ok], symmetric]
    by (rule move_simulates [OF ok cy(1) lifecycle_step.drain])
      (use cy in \<open>simp_all add: lifecycle_of_cycle\<close>)
qed

lemma resume_simulates:
  assumes ok: "tables_ok db" and res: "resume_cycle c x k db = (Inr ev, db')"
  shows "simulates db db'"
proof -
  obtain cy where cy: "select_pk (cycles db) k = Some cy" "cy_state cy = Drained"
    "unreconciled_reservation_count db k = 0" "active_cancellation_count db k = 0"
    and db': "db' = transition_cycle c k CycleRunning (cy_generation cy) db"
    using res by (auto simp: resume_cycle_def cycle_for_generation_Inr split: sum.splits if_splits)
  show ?thesis unfolding db'
    by (rule move_simulates [OF ok cy(1) lifecycle_step.resume])
      (use cy ok in \<open>simp_all add: lifecycle_of_cycle all_settled_count cancel_pending_count tables_okD\<close>)
qed

lemma start_qualification_simulates:
  assumes ok: "tables_ok db"
    and res: "start_native_execution_profile_qualification c x k db = (Inr ev, db')"
  shows "simulates db db'"
  using res start_simulates [OF ok]
  by (auto simp: start_native_execution_profile_qualification_def cycle_for_generation_Inr
        split: sum.splits if_splits)

lemma session_ready_simulates:
  assumes ok: "tables_ok db" and res: "record_office_session_ready c x s db = (Inr ev, db')"
  shows "simulates db db'"
  using res ok
  by (auto simp: record_office_session_ready_def split: sum.splits if_splits option.splits
        intro!: simulates_same)

lemma session_terminal_simulates:
  assumes ok: "tables_ok db" and res: "record_office_session_terminal c x s terminal db = (Inr ev, db')"
  shows "simulates db db'"
  using res ok
  by (auto simp: record_office_session_terminal_def split: sum.splits if_splits option.splits
        intro!: simulates_same)

lemma create_society_simulates:
  assumes ok: "tables_ok db" and res: "create_society c name db = (Inr ev, db')"
  shows "simulates db db'"
  using res ok
  by (auto simp: create_society_def tables_ok_def lifecycle_of_def
        split: if_splits option.splits prod.splits intro!: simulates_same)

lemma set_ceiling_simulates:
  assumes ok: "tables_ok db" and res: "set_r0_hard_ceiling c v db = (Inr ev, db')"
  shows "simulates db db'"
  using res ok
  by (auto simp: set_r0_hard_ceiling_def split: sum.splits if_splits intro!: simulates_same)

section \<open>Refinement\<close>

lemmas command_simulates = create_society_simulates set_ceiling_simulates bootstrap_simulates
  propose_simulates admit_simulates start_office_simulates start_qualification_simulates
  claim_simulates session_ready_simulates session_terminal_simulates open_turn_simulates
  settle_turn_simulates quiesce_simulates drained_simulates resume_simulates
  begin_reconciliation_simulates close_simulates reserve_budget_simulates
  reconcile_budget_simulates request_cancellation_simulates reconcile_cancellation_simulates
  close_postmortem_simulates

lemma apply_simulates:
  assumes "tables_ok db" "cycle_apply c x cmd db = (Inr ev, db')"
  shows "simulates db db'"
proof -
  have "cycle_dispatch c x cmd db = (Inr ev, db')"
    using assms(2) by (simp add: cycle_apply_def split: if_splits)
  then show ?thesis
    by (cases cmd) (auto simp: cycle_dispatch_def intro: command_simulates [OF assms(1)])
qed

lemma step_simulates:
  assumes "cycle_step db db'" "tables_ok db"
  shows "simulates db db'"
  using assms
proof (induction rule: cycle_step.induct)
  case (accepted cmd c x db ev db')
  then show ?case by (blast intro: apply_simulates)
next
  case (rolled_back db db')
  then show ?case by (simp add: simulates_same)
next
  case (attempt_reserves db x k cycle amount c r db')
  then show ?case by (auto simp: coordination_cycle_Inr intro: reserve_simulates)
next
  case (attempt_reconciles observed c r db d db')
  then show ?case by (blast intro: reconcile_attempt_simulates)
next
  case (usage_fails db r v reason u w c ev db')
  then show ?case by (blast intro: freeze_simulates)
next
  case (session_quiesces db s row c)
  then show ?case by (simp add: simulates_same)
next
  case (session_disposed db s row observed r v c d state db')
  have "simulates db db'"
    by (rule dispose_simulates [OF session_disposed.prems session_disposed.hyps(5,6,7)])
  then show ?case by (simp add: simulates_def)
next
  case (cancellation_propagates db i n)
  then show ?case
    by (intro simulates_same)
      (auto simp: tables_ok_def lifecycle_of_def select_pk_update_pk_fun cancellation_active_def
         fun_eq_iff)
next
  case (kernel db ck ws e)
  then show ?case by (intro simulates_same) (auto simp: tables_ok_def lifecycle_of_def)
qed

definition cycles_inv :: "cycle_db \<Rightarrow> bool" where
  "cycles_inv db \<longleftrightarrow> tables_ok db \<and> protocol_ok (lifecycle_of db)"

lemma protocol_ok_steps: "lifecycle_step\<^sup>*\<^sup>* a b \<Longrightarrow> protocol_ok a \<Longrightarrow> protocol_ok b"
  by (induction rule: rtranclp_induct) (auto intro: protocol_ok_step)

interpretation cycle_lifecycle: cycle_invariant cycles_inv
proof
  show "cycles_inv (empty_cycle_db e)" for e
    by (simp add: cycles_inv_def protocol_ok_init) (simp add: tables_ok_def empty_cycle_db_def)
  show "cycles_inv db'" if "cycles_inv db" "cycle_step db db'" for db db'
    using step_simulates [OF that(2)] that(1) protocol_ok_steps
    by (auto simp: cycles_inv_def simulates_def)
qed

end
