(* ===== verification/Cycle_Accounts.thy ===== *)
theory Cycle_Accounts
  imports Cycle_Refinement
begin

text \<open>
  The budget accounts.  The columns \<open>reserved_micros\<close> and \<open>spent_micros\<close> of an envelope are running
  totals the transitions maintain; here they are shown to equal what the reservations charged to
  the envelope add up to, and the two together to stay within the ceiling but for the known
  overruns that were charged.
\<close>

section \<open>Sums over a table\<close>

definition total_of :: "('r \<Rightarrow> int) \<Rightarrow> ('k, 'r) table \<Rightarrow> int" where
  "total_of f t = sum_list (map (\<lambda>(i, r). f r) (tb_rows t))"

lemma sum_where_total:
  fixes t :: "('k, 'r) table"
  shows "sum_where (\<lambda>_ r. p r) f t = total_of (\<lambda>r. if p r then f r else 0) t"
proof -
  have "sum_list (map (\<lambda>(i, r). f r) (filter (\<lambda>(i, r). p r) xs))
      = sum_list (map (\<lambda>(i, r). if p r then f r else 0) xs)" for xs :: "('k \<times> 'r) list"
    by (induction xs) auto
  then show ?thesis by (simp add: sum_where_def total_of_def)
qed

lemma total_of_adds: "adds t k r t' \<Longrightarrow> total_of f t' = total_of f t + f r"
  by (simp add: adds_def total_of_def)

lemma total_of_rollback [simp]: "total_of f (rollback_table t u) = total_of f t"
  by (simp add: total_of_def rollback_table_def)

lemma total_of_empty [simp]: "total_of f empty_table = 0"
  by (simp add: total_of_def empty_table_def)

lemma sum_list_update_rows:
  "distinct (map fst xs) \<Longrightarrow> map_of xs k = Some r \<Longrightarrow>
     sum_list (map (\<lambda>(i, r). f r) (map (\<lambda>(i, r). (i, if i = k then g r else r)) xs))
     = sum_list (map (\<lambda>(i, r). f r) xs) - f r + (f (g r) :: int)"
proof (induction xs)
  case (Cons x xs)
  show ?case
  proof (cases "fst x = k")
    case True
    have "map (\<lambda>(i, r). (i, if i = k then g r else r)) xs = xs"
      using Cons.prems(1) True by (intro map_idI) (auto simp: image_iff)
    then show ?thesis using Cons.prems True by (cases x) simp
  next
    case False
    then show ?thesis using Cons by (cases x) (auto split: if_splits)
  qed
qed simp

lemma total_of_update_pk:
  "wf_table t \<Longrightarrow> select_pk t k = Some r \<Longrightarrow>
     total_of f (update_pk k g t) = total_of f t - f r + f (g r)"
  using sum_list_update_rows [of "tb_rows t" k r f g]
  by (simp add: total_of_def update_pk_def update_where_def wf_table_def select_pk_def)

section \<open>Accounts\<close>

text \<open>The reservations an envelope's constraint covers: those of its cycle, or of its society's cycles.\<close>

definition covers :: "cycle_db \<Rightarrow> constraint_scope \<Rightarrow> reservation_row \<Rightarrow> bool" where
  "covers db scope v = (case scope of
     CycleScope k \<Rightarrow> rs_cycle v = k
   | SocietyScope s \<Rightarrow> (case select_pk (cycles db) (rs_cycle v) of
       None \<Rightarrow> False | Some cy \<Rightarrow> cy_society cy = s))"

definition outstanding :: "cycle_db \<Rightarrow> constraint_scope \<Rightarrow> int" where
  "outstanding db scope = sum_where
     (\<lambda>_ v. covers db scope v \<and> rs_state v \<noteq> ReservationReconciled)
     (\<lambda>v. rs_amount v - rs_charged v) (reservations db)"

definition charged_to :: "cycle_db \<Rightarrow> constraint_scope \<Rightarrow> int" where
  "charged_to db scope = sum_where (\<lambda>_ v. covers db scope v) rs_charged (reservations db)"

definition overrun :: "cycle_db \<Rightarrow> constraint_scope \<Rightarrow> int" where
  "overrun db scope = sum_where (\<lambda>_ v. covers db scope v)
     (\<lambda>v. max 0 (rs_charged v - rs_amount v)) (reservations db)"

text \<open>What one reservation contributes to the three totals.\<close>

definition held_of :: "reservation_row \<Rightarrow> int" where
  "held_of v = (if rs_state v = ReservationReconciled then 0 else rs_amount v - rs_charged v)"

definition excess_of :: "reservation_row \<Rightarrow> int" where
  "excess_of v = max 0 (rs_charged v - rs_amount v)"

lemma accounts_total:
  "outstanding db scope = total_of (\<lambda>v. if covers db scope v then held_of v else 0) (reservations db)"
  "charged_to db scope = total_of (\<lambda>v. if covers db scope v then rs_charged v else 0) (reservations db)"
  "overrun db scope = total_of (\<lambda>v. if covers db scope v then excess_of v else 0) (reservations db)"
proof -
  have eq: "(\<lambda>v. if covers db scope v \<and> rs_state v \<noteq> ReservationReconciled
               then rs_amount v - rs_charged v else 0)
      = (\<lambda>v. if covers db scope v then held_of v else 0)"
    by (auto simp: held_of_def fun_eq_iff)
  show "outstanding db scope = total_of (\<lambda>v. if covers db scope v then held_of v else 0) (reservations db)"
    unfolding outstanding_def eq [symmetric] by (rule sum_where_total)
  show "charged_to db scope = total_of (\<lambda>v. if covers db scope v then rs_charged v else 0) (reservations db)"
    unfolding charged_to_def by (rule sum_where_total)
  show "overrun db scope = total_of (\<lambda>v. if covers db scope v then excess_of v else 0) (reservations db)"
    unfolding overrun_def excess_of_def by (rule sum_where_total)
qed

definition balanced :: "cycle_db \<Rightarrow> constraint_scope \<Rightarrow> envelope_row \<Rightarrow> bool" where
  "balanced db scope en \<longleftrightarrow>
     en_reserved en = outstanding db scope \<and> en_spent en = charged_to db scope
     \<and> en_reserved en + en_spent en \<le> en_ceiling en + overrun db scope"

text \<open>The charge rows of a reservation, in insertion order.\<close>

definition charge_list :: "(int, charge_row) table \<Rightarrow> int \<Rightarrow> (int \<times> int) list" where
  "charge_list t r = map (\<lambda>(_, x). (ch_envelope x, ch_amount x))
     (filter (\<lambda>(_, x). ch_reservation x = r) (tb_rows t))"

lemma charges_of_list: "charges_of db r = sort_key fst (charge_list (charges db) r)"
  by (simp add: charges_of_def charge_list_def)

definition envelope_for :: "cycle_db \<Rightarrow> constraint_scope \<Rightarrow> int \<Rightarrow> bool" where
  "envelope_for db scope e \<longleftrightarrow>
     (\<exists>i ct. select_pk (constraints db) i = Some ct \<and> ct_scope ct = scope \<and> ct_envelope ct = e)"

text \<open>
  A live reservation has one charge on the envelope of its society and one on that of its cycle,
  both for what is left of it.
\<close>

definition charged_twice :: "cycle_db \<Rightarrow> int \<Rightarrow> reservation_row \<Rightarrow> bool" where
  "charged_twice db r v \<longleftrightarrow> (\<exists>cy es ec. select_pk (cycles db) (rs_cycle v) = Some cy
     \<and> envelope_for db (SocietyScope (cy_society cy)) es \<and> envelope_for db (CycleScope (rs_cycle v)) ec
     \<and> charge_list (charges db) r = [(es, held_of v), (ec, held_of v)])"

definition reservation_sound :: "cycle_db \<Rightarrow> int \<Rightarrow> reservation_row \<Rightarrow> bool" where
  "reservation_sound db r v \<longleftrightarrow> 0 \<le> rs_charged v
     \<and> (rs_state v \<noteq> ReservationReconciled \<longrightarrow> rs_charged v \<le> rs_amount v \<and> charged_twice db r v)"

definition accounts_inv :: "cycle_db \<Rightarrow> bool" where
  "accounts_inv db \<longleftrightarrow>
     unique_on ct_envelope (constraints db) \<and> unique_on ct_scope (constraints db)
   \<and> (\<forall>scope e. envelope_for db scope e \<longrightarrow>
        (\<exists>en. select_pk (envelopes db) e = Some en \<and> balanced db scope en))
   \<and> (\<forall>r v. select_pk (reservations db) r = Some v \<longrightarrow> reservation_sound db r v)
   \<and> (\<forall>i x. select_pk (charges db) i = Some x \<longrightarrow> select_pk (reservations db) (ch_reservation x) \<noteq> None)"

lemma accounts_envelopeD:
  "accounts_inv db \<Longrightarrow> envelope_for db scope e \<Longrightarrow>
     \<exists>en. select_pk (envelopes db) e = Some en \<and> balanced db scope en"
  unfolding accounts_inv_def by blast

lemma accounts_reservationD:
  "accounts_inv db \<Longrightarrow> select_pk (reservations db) r = Some v \<Longrightarrow> reservation_sound db r v"
  unfolding accounts_inv_def by blast

lemma accounts_chargeD:
  "accounts_inv db \<Longrightarrow> select_pk (charges db) i = Some x \<Longrightarrow>
     select_pk (reservations db) (ch_reservation x) \<noteq> None"
  unfolding accounts_inv_def by blast

section \<open>Adjusting two envelopes\<close>

definition both_adjusted ::
  "int \<Rightarrow> int \<Rightarrow> int \<Rightarrow> int \<Rightarrow> (int, envelope_row) table \<Rightarrow> (int, envelope_row) table \<Rightarrow> bool" where
  "both_adjusted es ec a b t t' \<longleftrightarrow> (\<forall>e. select_pk t' e =
     (if e \<in> {es, ec}
      then map_option (\<lambda>r. r\<lparr>en_reserved := en_reserved r - a, en_spent := en_spent r + b\<rparr>) (select_pk t e)
      else select_pk t e))"

lemma adjust_envelope_select:
  "adjust_envelope e a b t = Some t' \<Longrightarrow> select_pk t' j =
     (if j = e then map_option (\<lambda>r. r\<lparr>en_reserved := en_reserved r - a, en_spent := en_spent r + b\<rparr>) (select_pk t j)
      else select_pk t j)"
  by (auto simp: adjust_envelope_def select_pk_update_pk split: option.splits if_splits)

lemma adjust_both:
  assumes "adjust_envelope es a b t = Some t1" "adjust_envelope ec a b t1 = Some t2" "es \<noteq> ec"
  shows "both_adjusted es ec a b t t2"
  unfolding both_adjusted_def
  using adjust_envelope_select [OF assms(1)] adjust_envelope_select [OF assms(2)] assms(3) by auto

lemma both_adjusted_sym: "both_adjusted es ec a b t t' = both_adjusted ec es a b t t'"
  by (simp add: both_adjusted_def insert_commute)

lemma both_adjusted_same: "both_adjusted es ec 0 0 t t"
  by (auto simp: both_adjusted_def split: option.splits intro: option.map_ident [symmetric])

lemma sort_two: "sort_key fst [(a, x), (b, y)] = (if a \<le> b then [(a, x), (b, y)] else [(b, y), (a, x)])"
  by simp

lemma release_both:
  assumes "release_charges (sort_key fst [(es, x), (ec, x)]) d t = Some t'" "es \<noteq> ec"
  shows "both_adjusted es ec x d t t'"
proof (cases "es \<le> ec")
  case True
  then show ?thesis using assms adjust_both [of es x d t _ ec t']
    by (auto split: option.splits)
next
  case False
  then show ?thesis using assms adjust_both [of ec x d t _ es t'] both_adjusted_sym
    by (auto split: option.splits)
qed

section \<open>One reservation changes\<close>

lemma envelope_for_unique:
  assumes "accounts_inv db" "envelope_for db scope e"
  shows "envelope_for db scope' e \<Longrightarrow> scope' = scope" "envelope_for db scope e' \<Longrightarrow> e' = e"
  using assms unfolding accounts_inv_def envelope_for_def by (metis unique_onD)+

lemma covers_scope:
  assumes "select_pk (cycles db) (rs_cycle v) = Some cy"
  shows "covers db scope v \<longleftrightarrow> scope \<in> {SocietyScope (cy_society cy), CycleScope (rs_cycle v)}"
  using assms by (auto simp: covers_def split: constraint_scope.splits)

lemma covers_cong:
  "rs_cycle v' = rs_cycle v \<Longrightarrow>
   (\<And>k. map_option cy_society (select_pk (cycles db') k) = map_option cy_society (select_pk (cycles db) k)) \<Longrightarrow>
   covers db' scope v' = covers db scope v"
  by (auto simp: covers_def split: constraint_scope.splits option.splits)
    (metis option.map_disc_iff option.distinct(1), metis option.map_disc_iff option.distinct(1),
     metis option.inject option.map(2), metis option.inject option.map(2))

text \<open>
  A reservation changes from \<open>v\<close> to \<open>v'\<close> and both its envelopes release \<open>a\<close> and book \<open>b\<close>:
  every account stays balanced when \<open>a\<close> and \<open>b\<close> are the differences of what is held and charged.
\<close>

lemma balanced_change:
  assumes inv: "accounts_inv db" and env: "envelope_for db scope e"
    and cy: "select_pk (cycles db) (rs_cycle v) = Some cy"
    and es: "envelope_for db (SocietyScope (cy_society cy)) es"
    and ec: "envelope_for db (CycleScope (rs_cycle v)) ec"
    and cycles: "\<And>k. map_option cy_society (select_pk (cycles db') k)
                   = map_option cy_society (select_pk (cycles db) k)"
    and same: "rs_cycle v' = rs_cycle v"
    and rows: "\<And>f. total_of f (reservations db') = total_of f (reservations db) - f v + f v'"
    and adj: "both_adjusted es ec (held_of v - held_of v') (rs_charged v' - rs_charged v)
                (envelopes db) (envelopes db')"
    and excess: "held_of v' + rs_charged v' - excess_of v' \<le> held_of v + rs_charged v - excess_of v"
  shows "\<exists>en. select_pk (envelopes db') e = Some en \<and> balanced db' scope en"
proof -
  obtain en where en: "select_pk (envelopes db) e = Some en" "balanced db scope en"
    using accounts_envelopeD [OF inv env] by blast
  have cov: "covers db' scope = covers db scope"
    using covers_cong [OF refl cycles] by (simp add: fun_eq_iff)
  have cov': "covers db scope v' = covers db scope v"
    using covers_cong [OF same refl] .
  have tot: "total_of (\<lambda>w. if covers db' scope w then f w else 0) (reservations db')
      = total_of (\<lambda>w. if covers db scope w then f w else 0) (reservations db)
        + (if covers db scope v then f v' - f v else 0)" for f
    unfolding rows cov by (simp add: cov')
  show ?thesis
  proof (cases "covers db scope v")
    case True
    then have "scope = SocietyScope (cy_society cy) \<or> scope = CycleScope (rs_cycle v)"
      using covers_scope [OF cy] by auto
    then have "e \<in> {es, ec}"
      using envelope_for_unique(2) [OF inv] env es ec by blast
    then have "select_pk (envelopes db') e = Some (en\<lparr>en_reserved := en_reserved en - (held_of v - held_of v'),
        en_spent := en_spent en + (rs_charged v' - rs_charged v)\<rparr>)"
      using adj en(1) by (auto simp: both_adjusted_def)
    then show ?thesis
      using en(2) True excess by (auto simp: balanced_def accounts_total tot)
  next
    case False
    then have "scope \<noteq> SocietyScope (cy_society cy)" "scope \<noteq> CycleScope (rs_cycle v)"
      using covers_scope [OF cy] by auto
    then have "e \<notin> {es, ec}"
      using envelope_for_unique(1) [OF inv] env es ec by blast
    then have "select_pk (envelopes db') e = Some en"
      using adj en(1) by (auto simp: both_adjusted_def)
    then show ?thesis
      using en(2) False by (auto simp: balanced_def accounts_total tot)
  qed
qed

text \<open>Preservation of the whole invariant when one reservation changes.\<close>

lemma accounts_change:
  assumes inv: "accounts_inv db" and v: "select_pk (reservations db) r = Some v"
    and live: "rs_state v \<noteq> ReservationReconciled" and wf: "wf_table (reservations db)"
    and R: "reservations db' = update_pk r f (reservations db)" and v': "f v = v'"
    and same: "rs_cycle v' = rs_cycle v" "0 \<le> rs_charged v'"
    and fin: "rs_state v' \<noteq> ReservationReconciled \<Longrightarrow> rs_charged v' \<le> rs_amount v'"
    and K: "constraints db' = constraints db"
    and cycles: "\<And>k. map_option cy_society (select_pk (cycles db') k)
                   = map_option cy_society (select_pk (cycles db) k)"
    and adj: "\<And>es ec. charge_list (charges db) r = [(es, held_of v), (ec, held_of v)] \<Longrightarrow> es \<noteq> ec \<Longrightarrow>
        both_adjusted es ec (held_of v - held_of v') (rs_charged v' - rs_charged v)
          (envelopes db) (envelopes db')
        \<and> (rs_state v' \<noteq> ReservationReconciled \<longrightarrow>
             charge_list (charges db') r = [(es, held_of v'), (ec, held_of v')])"
    and others: "\<And>s. s \<noteq> r \<Longrightarrow> charge_list (charges db') s = charge_list (charges db) s"
    and refs: "\<And>i x. select_pk (charges db') i = Some x \<Longrightarrow>
        \<exists>y. select_pk (charges db) i = Some y \<and> ch_reservation y = ch_reservation x"
    and excess: "held_of v' + rs_charged v' - excess_of v' \<le> held_of v + rs_charged v - excess_of v"
  shows "accounts_inv db'"
proof -
  have sound: "reservation_sound db r v" using inv v by (simp add: accounts_inv_def)
  then obtain cy es ec where cy: "select_pk (cycles db) (rs_cycle v) = Some cy"
    and es: "envelope_for db (SocietyScope (cy_society cy)) es"
    and ec: "envelope_for db (CycleScope (rs_cycle v)) ec"
    and list: "charge_list (charges db) r = [(es, held_of v), (ec, held_of v)]"
    using live by (auto simp: reservation_sound_def charged_twice_def)
  have ne: "es \<noteq> ec" using envelope_for_unique(1) [OF inv es] ec by blast
  note adj' = adj [OF list ne]
  have envf: "envelope_for db' scope e = envelope_for db scope e" for scope e
    by (simp add: envelope_for_def K)
  have cyc: "\<exists>c'. select_pk (cycles db') k = Some c' \<and> cy_society c' = cy_society c"
    if "select_pk (cycles db) k = Some c" for k c
    using cycles [of k] that by (cases "select_pk (cycles db') k") auto
  have rows: "total_of g (reservations db') = total_of g (reservations db) - g v + g v'" for g
    by (simp add: R total_of_update_pk [OF wf v] v')
  have "\<exists>en. select_pk (envelopes db') e = Some en \<and> balanced db' scope en"
    if "envelope_for db' scope e" for scope e
    using balanced_change [OF inv _ cy es ec cycles same(1) rows _ excess, of scope e]
      that adj' by (simp add: envf)
  moreover have "reservation_sound db' s w" if s: "select_pk (reservations db') s = Some w" for s w
  proof (cases "s = r")
    case True
    then have w: "w = v'" using s v v' by (simp add: R select_pk_update_pk)
    obtain c' where c': "select_pk (cycles db') (rs_cycle v) = Some c'" "cy_society c' = cy_society cy"
      using cyc [OF cy] by blast
    show ?thesis
      unfolding reservation_sound_def charged_twice_def w
      using same fin adj' es ec c' by (auto simp: envf True)
  next
    case False
    then have old: "select_pk (reservations db) s = Some w"
      using s by (simp add: R select_pk_update_pk)
    then have "reservation_sound db s w" using inv by (simp add: accounts_inv_def)
    then show ?thesis
      unfolding reservation_sound_def charged_twice_def
      using cyc others [OF False] by (auto simp: envf) metis
  qed
  moreover have "select_pk (reservations db') (ch_reservation x) \<noteq> None"
    if "select_pk (charges db') i = Some x" for i x
    using refs [OF that] accounts_chargeD [OF inv] by (fastforce simp: R select_pk_update_pk)
  ultimately show ?thesis
    using inv by (simp add: accounts_inv_def K)
qed

end
