(* ===== verification/Cycle_Balance.thy ===== *)
theory Cycle_Balance
  imports Cycle_Accounts
begin

text \<open>
  Every transition of the operating-cycle plane keeps the budget accounts balanced, and with them
  the invariant \<open>accounts_inv\<close> holds of every reachable state.
\<close>

section \<open>Transitions that leave the accounts alone\<close>

lemma accounts_frame:
  assumes inv: "accounts_inv db" and "reservations db' = reservations db" "charges db' = charges db"
    "envelopes db' = envelopes db" "constraints db' = constraints db"
    and cycles: "\<And>k. map_option cy_society (select_pk (cycles db') k)
                   = map_option cy_society (select_pk (cycles db) k)"
  shows "accounts_inv db'"
proof -
  have cov: "covers db' = covers db"
    using covers_cong [OF refl cycles] by (simp add: fun_eq_iff)
  have envf: "envelope_for db' = envelope_for db" by (simp add: envelope_for_def fun_eq_iff assms)
  have bal: "balanced db' = balanced db"
    by (simp add: balanced_def fun_eq_iff outstanding_def charged_to_def overrun_def cov assms)
  have "reservation_sound db' r v" if "reservation_sound db r v" for r v
  proof -
    have "\<exists>c'. select_pk (cycles db') (rs_cycle v) = Some c' \<and> cy_society c' = cy_society cy"
      if "select_pk (cycles db) (rs_cycle v) = Some cy" for cy
      using cycles [of "rs_cycle v"] that by (cases "select_pk (cycles db') (rs_cycle v)") auto
    with that show ?thesis
      unfolding reservation_sound_def charged_twice_def envf assms(3) by metis
  qed
  then show ?thesis
    using inv by (simp add: accounts_inv_def assms envf bal)
qed

lemma society_transition [simp]:
  "map_option cy_society (select_pk (cycles (transition_cycle c k s g db)) j)
   = map_option cy_society (select_pk (cycles db) j)"
  by (simp add: transition_cycle_def select_pk_update_pk map_option.compositionality comp_def)

lemma society_set_state [simp]:
  "map_option cy_society (select_pk (cycles (set_cycle_state c k s db)) j)
   = map_option cy_society (select_pk (cycles db) j)"
  by (simp add: set_cycle_state_def select_pk_update_pk map_option.compositionality comp_def)

lemma society_start [simp]:
  "map_option cy_society (select_pk (cycles (start_cycle c k db)) j)
   = map_option cy_society (select_pk (cycles db) j)"
  by (simp add: start_cycle_def)

lemma transition_frame [simp]:
  "reservations (transition_cycle c k s g db) = reservations db"
  "charges (transition_cycle c k s g db) = charges db"
  "envelopes (transition_cycle c k s g db) = envelopes db"
  "constraints (transition_cycle c k s g db) = constraints db"
  "bootstraps (transition_cycle c k s g db) = bootstraps db"
  by (simp_all add: transition_cycle_def)

lemma start_frame [simp]:
  "reservations (start_cycle c k db) = reservations db" "charges (start_cycle c k db) = charges db"
  "envelopes (start_cycle c k db) = envelopes db" "constraints (start_cycle c k db) = constraints db"
  "bootstraps (start_cycle c k db) = bootstraps db"
  by (simp_all add: start_cycle_def set_cycle_state_def)

lemma session_frame [simp]:
  "reservations (set_session_state c s st db) = reservations db"
  "charges (set_session_state c s st db) = charges db"
  "envelopes (set_session_state c s st db) = envelopes db"
  "constraints (set_session_state c s st db) = constraints db"
  "cycles (set_session_state c s st db) = cycles db"
  "bootstraps (set_session_state c s st db) = bootstraps db"
  by (simp_all add: set_session_state_def)

lemma reconcile_frame [simp]:
  "charges (reconcile_reservation c r x db) = charges db"
  "envelopes (reconcile_reservation c r x db) = envelopes db"
  "constraints (reconcile_reservation c r x db) = constraints db"
  "cycles (reconcile_reservation c r x db) = cycles db"
  "bootstraps (reconcile_reservation c r x db) = bootstraps db"
  by (simp_all add: reconcile_reservation_def)

section \<open>New envelopes\<close>

lemma total_of_cong:
  "wf_table t \<Longrightarrow> (\<And>i r. select_pk t i = Some r \<Longrightarrow> f r = g r) \<Longrightarrow> total_of f t = total_of g t"
  unfolding total_of_def by (rule arg_cong [of _ _ sum_list]) (auto simp: in_set_rows_select)

lemma total_of_zero:
  fixes t :: "('k, 'r) table"
  assumes "wf_table t" "\<And>i r. select_pk t i = Some r \<Longrightarrow> f r = 0"
  shows "total_of f t = 0"
proof -
  have "total_of f t = total_of (\<lambda>_. 0) t" by (rule total_of_cong) (use assms in auto)
  moreover have "sum_list (map (\<lambda>(i, r). 0 :: int) xs) = 0" for xs :: "('k \<times> 'r) list"
    by (induction xs) auto
  ultimately show ?thesis by (simp add: total_of_def)
qed

text \<open>An envelope is opened for a scope that covers no reservation yet.\<close>

lemma accounts_open:
  assumes inv: "accounts_inv db" and wf: "wf_table (reservations db)"
    and E: "adds (envelopes db) e \<lparr>en_ceiling = amount, en_reserved = 0, en_spent = 0, en_by = c\<rparr> E"
    and K: "adds (constraints db) i \<lparr>ct_envelope = e, ct_scope = scope\<rparr> K"
      "\<not> exists_where (\<lambda>_ q. ct_envelope q = e) (constraints db)"
      "\<not> exists_where (\<lambda>_ q. ct_scope q = scope) (constraints db)"
    and db': "envelopes db' = E" "constraints db' = K" "reservations db' = reservations db"
      "charges db' = charges db"
    and cycles: "\<And>r v. select_pk (reservations db) r = Some v \<Longrightarrow>
        select_pk (cycles db') (rs_cycle v) = select_pk (cycles db) (rs_cycle v)"
    and none: "\<And>r v. select_pk (reservations db) r = Some v \<Longrightarrow> \<not> covers db' scope v"
    and pos: "0 \<le> amount"
  shows "accounts_inv db'"
proof -
  have envf: "envelope_for db' sc x \<longleftrightarrow> envelope_for db sc x \<or> sc = scope \<and> x = e" for sc x
    by (auto simp: envelope_for_def db' adds_select [OF K(1)]) (metis adds_fresh [OF K(1)] option.distinct(1))
  have cov: "covers db' sc v = covers db sc v" if "select_pk (reservations db) r = Some v" for r v sc
    using cycles [OF that] by (simp add: covers_def split: constraint_scope.splits)
  have tot: "total_of (\<lambda>v. if covers db' sc v then f v else 0) (reservations db)
      = total_of (\<lambda>v. if covers db sc v then f v else 0) (reservations db)" for sc f
    by (rule total_of_cong [OF wf]) (simp add: cov)
  have zero: "total_of (\<lambda>v. if covers db' scope v then f v else 0) (reservations db) = 0" for f
    by (rule total_of_zero [OF wf]) (simp add: none)
  have "\<exists>en. select_pk (envelopes db') x = Some en \<and> balanced db' sc en" if "envelope_for db' sc x" for sc x
  proof (cases "envelope_for db sc x")
    case True
    obtain en where "select_pk (envelopes db) x = Some en" "balanced db sc en"
      using accounts_envelopeD [OF inv True] by blast
    then show ?thesis
      using adds_fresh [OF E] by (auto simp: db' adds_select [OF E] balanced_def accounts_total tot)
  next
    case False
    with that have "sc = scope" "x = e" by (simp_all add: envf)
    then show ?thesis using pos by (simp add: db' adds_select [OF E] balanced_def accounts_total zero)
  qed
  moreover have "reservation_sound db' r v" if "select_pk (reservations db) r = Some v" for r v
    using accounts_reservationD [OF inv that] cycles [OF that]
    by (auto simp: reservation_sound_def charged_twice_def envf db')
  moreover have "unique_on ct_envelope K" "unique_on ct_scope K"
    using inv K by (auto simp: accounts_inv_def intro: unique_on_adds)
  ultimately show ?thesis
    using accounts_chargeD [OF inv] by (simp add: accounts_inv_def db')
qed

section \<open>Reservation\<close>

lemma envelope_lookup:
  assumes "wf_table (constraints db)" "budget_envelopes_for_cycle db s k = Inr (es, ec)"
  shows "envelope_for db (SocietyScope s) es" "envelope_for db (CycleScope k) ec"
  using assms
  by (fastforce simp: budget_envelopes_for_cycle_def envelope_for_def split: option.splits
        dest!: select_where_Some [OF assms(1)])+

lemma envelope_admits_None:
  "envelope_admits db amount e = None \<Longrightarrow> select_pk (envelopes db) e = Some en \<Longrightarrow>
     en_reserved en + amount + en_spent en \<le> en_ceiling en"
  by (auto simp: envelope_admits_def budget_amounts_def checked_add_i64_def
        split: option.splits if_splits)

lemma charge_list_adds:
  "adds t i x t' \<Longrightarrow> charge_list t' r
     = charge_list t r @ (if ch_reservation x = r then [(ch_envelope x, ch_amount x)] else [])"
  by (simp add: adds_def charge_list_def)

lemma charge_list_fresh:
  "wf_table (charges db) \<Longrightarrow> accounts_inv db \<Longrightarrow> select_pk (reservations db) r = None \<Longrightarrow>
     charge_list (charges db) r = []"
  using accounts_chargeD [of db]
  by (fastforce simp: charge_list_def filter_empty_conv in_set_rows_select)

lemma reserve_accounts:
  assumes inv: "accounts_inv db" and ok: "tables_ok db"
    and cy: "select_pk (cycles db) k = Some cy"
    and res: "reserve_attempt_budget c cy k amount db = (Inr r, db')"
  shows "accounts_inv db'"
proof -
  obtain es ec R E1 E2 H1 H2 i1 i2 where
    look: "budget_envelopes_for_cycle db (cy_society cy) k = Inr (es, ec)"
    and pos: "0 \<le> amount"
    and adm: "envelope_admits db amount es = None" "envelope_admits db amount ec = None"
    and R: "adds (reservations db) r (reserved_row c k amount) R"
    and E: "adjust_envelope es (- amount) 0 (envelopes db) = Some E1"
      "adjust_envelope ec (- amount) 0 E1 = Some E2"
    and H: "adds (charges db) i1 \<lparr>ch_reservation = r, ch_envelope = es, ch_amount = amount\<rparr> H1"
      "adds H1 i2 \<lparr>ch_reservation = r, ch_envelope = ec, ch_amount = amount\<rparr> H2"
    and db': "db' = db\<lparr>reservations := R, envelopes := E2, charges := H2\<rparr>"
    using reserve_effect [OF res] by (blast dest!: insert_charge_True)
  let ?v = "reserved_row c k amount"
  note env = envelope_lookup [OF tables_okD(8) [OF ok] look]
  have ne: "es \<noteq> ec" using envelope_for_unique(1) [OF inv env(1)] env(2) by blast
  have adj: "both_adjusted es ec (- amount) 0 (envelopes db) E2" by (rule adjust_both [OF E ne])
  have [simp]: "rs_cycle ?v = k" "held_of ?v = amount" "rs_charged ?v = 0" "excess_of ?v = 0"
    "rs_amount ?v = amount" "rs_state ?v = ReservationReserved"
    using pos by (simp_all add: reserved_row_def held_of_def excess_of_def)
  have envf: "envelope_for db' = envelope_for db" by (simp add: envelope_for_def fun_eq_iff db')
  have cov: "covers db' = covers db" by (simp add: covers_def fun_eq_iff db' split: constraint_scope.splits)
  have tot: "total_of (\<lambda>w. if covers db' scope w then f w else 0) (reservations db')
      = total_of (\<lambda>w. if covers db scope w then f w else 0) (reservations db)
        + (if covers db scope ?v then f ?v else 0)" for f scope
    unfolding cov by (simp add: db' total_of_adds [OF R])
  have "\<exists>en. select_pk (envelopes db') e = Some en \<and> balanced db' scope en"
    if e: "envelope_for db scope e" for scope e
  proof -
    obtain en where en: "select_pk (envelopes db) e = Some en" "balanced db scope en"
      using accounts_envelopeD [OF inv e] by blast
    show ?thesis
    proof (cases "covers db scope ?v")
      case True
      then have "scope = SocietyScope (cy_society cy) \<or> scope = CycleScope k"
        using covers_scope [of db ?v cy] cy by auto
      then have "e \<in> {es, ec}" using envelope_for_unique(2) [OF inv] e env by blast
      moreover from this have "en_reserved en + amount + en_spent en \<le> en_ceiling en"
        using adm envelope_admits_None en(1) by blast
      moreover have "0 \<le> overrun db scope"
        unfolding overrun_def sum_where_def by (intro sum_list_nonneg) auto
      ultimately show ?thesis
        using adj en True by (auto simp: both_adjusted_def db' balanced_def accounts_total tot [unfolded db', simplified])
    next
      case False
      then have "scope \<noteq> SocietyScope (cy_society cy)" "scope \<noteq> CycleScope k"
        using covers_scope [of db ?v cy] cy by auto
      then have "e \<notin> {es, ec}" using envelope_for_unique(1) [OF inv] e env by blast
      then show ?thesis
        using adj en False by (auto simp: both_adjusted_def db' balanced_def accounts_total tot [unfolded db', simplified])
    qed
  qed
  moreover have "reservation_sound db' s w" if "select_pk (reservations db') s = Some w" for s w
  proof (cases "s = r")
    case True
    then have "w = ?v" using that by (simp add: db' adds_select [OF R])
    then show ?thesis
      unfolding reservation_sound_def charged_twice_def envf
      using pos cy env charge_list_fresh [OF tables_okD(9) [OF ok] inv adds_fresh [OF R]]
      by (simp add: db' True charge_list_adds [OF H(2)] charge_list_adds [OF H(1)])
  next
    case False
    then have "select_pk (reservations db) s = Some w" using that by (simp add: db' adds_select [OF R])
    then show ?thesis
      using accounts_reservationD [OF inv] False
      unfolding reservation_sound_def charged_twice_def envf
      by (simp add: db' charge_list_adds [OF H(2)] charge_list_adds [OF H(1)])
  qed
  moreover have "select_pk (reservations db') (ch_reservation x) \<noteq> None"
    if "select_pk (charges db') i = Some x" for i x
    using that accounts_chargeD [OF inv]
    by (auto simp: db' adds_select [OF R] adds_select [OF H(1)] adds_select [OF H(2)] split: if_splits)
  ultimately show ?thesis
    using inv by (simp add: accounts_inv_def envf) (simp add: db')
qed

section \<open>Settlement\<close>

lemma freeze_accounts:
  assumes inv: "accounts_inv db" and ok: "tables_ok db"
    and v: "select_pk (reservations db) r = Some v" "rs_state v = ReservationReserved"
    and fr: "freeze_budget_admission c r k held reason db = (Inr ev, db')"
  shows "accounts_inv db'"
proof -
  obtain cy :: cycle_row and N P where
    db': "db' = (transition_cycle c k Cancelling (cy_generation cy + 1) db)
      \<lparr>reservations := frozen_rows r (reservations db), cancellations := N, postmortems := P\<rparr>"
    using freeze_effect [OF fr tables_okD(3) [OF ok]] by blast
  have "held_of (v\<lparr>rs_state := ReservationFrozen\<rparr>) = held_of v"
    "excess_of (v\<lparr>rs_state := ReservationFrozen\<rparr>) = excess_of v"
    using v(2) by (simp_all add: held_of_def excess_of_def)
  then show ?thesis
    by (intro accounts_change [OF inv v(1) _ tables_okD(2) [OF ok],
          where f = "\<lambda>v. v\<lparr>rs_state := ReservationFrozen\<rparr>"
            and v' = "v\<lparr>rs_state := ReservationFrozen\<rparr>"])
      (use v accounts_reservationD [OF inv v(1)] in
        \<open>auto simp: db' frozen_rows_def both_adjusted_same reservation_sound_def transition_cycle_def
           select_pk_update_pk map_option.compositionality comp_def\<close>)
qed

text \<open>A reservation is reconciled: its charges are released and the rest of its cost is booked.\<close>

lemma release_accounts:
  assumes inv: "accounts_inv db" and ok: "tables_ok db"
    and v: "select_pk (reservations db) r = Some v" "rs_state v \<noteq> ReservationReconciled"
    and rel: "release_charges (charges_of db r) d (envelopes db) = Some E"
    and d: "0 \<le> d" "d \<le> held_of v + max 0 (rs_charged v + d - rs_amount v)"
  shows "accounts_inv (reconcile_reservation c r (rs_charged v + d) (db\<lparr>envelopes := E\<rparr>))"
proof -
  let ?f = "\<lambda>v'. v'\<lparr>rs_state := ReservationReconciled, rs_charged := rs_charged v + d, rs_reconciled := Some c\<rparr>"
  have s: "0 \<le> rs_charged v" "rs_charged v \<le> rs_amount v"
    using accounts_reservationD [OF inv v(1)] v(2) by (simp_all add: reservation_sound_def)
  show ?thesis
  proof (rule accounts_change [OF inv v tables_okD(2) [OF ok], where f = ?f])
    fix es ec
    assume "charge_list (charges db) r = [(es, held_of v), (ec, held_of v)]" "es \<noteq> ec"
    then have "both_adjusted es ec (held_of v) d (envelopes db) E"
      using rel by (intro release_both) (simp_all add: charges_of_list)
    then show "both_adjusted es ec (held_of v - held_of (?f v)) (rs_charged (?f v) - rs_charged v)
          (envelopes db) (envelopes (reconcile_reservation c r (rs_charged v + d) (db\<lparr>envelopes := E\<rparr>)))
        \<and> (rs_state (?f v) \<noteq> ReservationReconciled \<longrightarrow>
           charge_list (charges (reconcile_reservation c r (rs_charged v + d) (db\<lparr>envelopes := E\<rparr>))) r
             = [(es, held_of (?f v)), (ec, held_of (?f v))])"
      by (simp add: held_of_def reconcile_reservation_def)
  qed (use s d v(2) in \<open>auto simp: reconcile_reservation_def held_of_def excess_of_def\<close>)
qed

lemma sound_live:
  assumes "accounts_inv db" "select_pk (reservations db) r = Some v" "rs_state v \<noteq> ReservationReconciled"
  shows "0 \<le> rs_charged v" "rs_charged v \<le> rs_amount v" "held_of v = rs_amount v - rs_charged v"
  using accounts_reservationD [OF assms(1,2)] assms(3) by (simp_all add: reservation_sound_def held_of_def)

lemma reconcile_accounts:
  assumes inv: "accounts_inv db" and ok: "tables_ok db"
    and v: "select_pk (reservations db) r = Some v" "rs_state v = ReservationReserved"
    and rel: "release_charges (charges_of db r) (observed - rs_charged v) (envelopes db) = Some E"
    and obs: "rs_charged v \<le> observed" "observed \<le> rs_amount v"
  shows "accounts_inv (reconcile_reservation c r observed (db\<lparr>envelopes := E\<rparr>))"
  using release_accounts [OF inv ok v(1) _ rel] v(2) obs sound_live [OF inv v(1)] by simp

lemma reconcile_budget_accounts:
  assumes inv: "accounts_inv db" and ok: "tables_ok db"
    and res: "reconcile_budget c r observation db = (Inr ev, db')"
  shows "accounts_inv db'"
  using res unfolding reconcile_budget_def Let_def
  by (auto split: option.splits if_splits cost_observation.splits
        intro: freeze_accounts [OF inv ok] reconcile_accounts [OF inv ok])

lemma reconcile_attempt_accounts:
  assumes inv: "accounts_inv db" and ok: "tables_ok db"
    and res: "reconcile_task_attempt_reservation c r observed db = (Inr d, db')"
  shows "accounts_inv db'"
  using res unfolding reconcile_task_attempt_reservation_def
  by (auto split: option.splits if_splits dest!: frozen_disposition_Inr
        intro: freeze_accounts [OF inv ok] reconcile_accounts [OF inv ok])

lemma close_postmortem_accounts:
  assumes inv: "accounts_inv db" and ok: "tables_ok db"
    and res: "close_cost_postmortem c x i resolution db = (Inr ev, db')"
  shows "accounts_inv db'"
  using res
proof (cases rule: close_postmortem_effect)
  case (1 p cy v charged E U)
  note live = sound_live [OF inv 1(6)]
  have "0 \<le> charged \<and> charged \<le> held_of v + max 0 (rs_charged v + charged - rs_amount v)"
    using 1(7-11) live
    by (auto simp: resolution_charge_def split: cost_postmortem_cause.splits
          cost_postmortem_resolution.splits option.splits if_splits)
  then have "accounts_inv (reconcile_reservation c (pm_reservation p) (rs_charged v + charged)
      (db\<lparr>envelopes := E\<rparr>))"
    using release_accounts [OF inv ok 1(6) _ 1(12)] 1(7) by simp
  then show ?thesis
    by (rule accounts_frame) (simp_all add: 1(14) reconcile_reservation_def)
qed

text \<open>The loops that also rewrite the charge rows.\<close>

definition rewrite_charge ::
  "int \<Rightarrow> int \<Rightarrow> (int \<Rightarrow> int) \<Rightarrow> (int, charge_row) table \<Rightarrow> (int, charge_row) table" where
  "rewrite_charge r e g t = update_where (\<lambda>_ x. ch_reservation x = r \<and> ch_envelope x = e)
     (\<lambda>x. x\<lparr>ch_amount := g (ch_amount x)\<rparr>) t"

lemma charge_list_rewrite:
  "charge_list (rewrite_charge r e g t) s
   = map (\<lambda>(e', a). (e', if s = r \<and> e' = e then g a else a)) (charge_list t s)"
proof -
  have "map (\<lambda>(_, x). (ch_envelope x, ch_amount x)) (filter (\<lambda>(_, x). ch_reservation x = s)
          (map (\<lambda>(i, x). (i, if ch_reservation x = r \<and> ch_envelope x = e
             then x\<lparr>ch_amount := g (ch_amount x)\<rparr> else x)) xs))
      = map (\<lambda>(e', a). (e', if s = r \<and> e' = e then g a else a))
          (map (\<lambda>(_, x). (ch_envelope x, ch_amount x)) (filter (\<lambda>(_, x). ch_reservation x = s) xs))"
    for xs :: "(int \<times> charge_row) list"
    by (induction xs) (auto split: if_splits)
  then show ?thesis by (simp add: charge_list_def rewrite_charge_def update_where_def)
qed

lemma rewrite_charge_refs:
  "select_pk (rewrite_charge r e g t) i = Some x \<Longrightarrow>
     \<exists>y. select_pk t i = Some y \<and> ch_reservation y = ch_reservation x"
  by (auto simp: rewrite_charge_def select_pk_update_where split: option.splits if_splits)

lemma settle_two:
  assumes "settle_charges r d [(e1, x), (e2, x)] db = (Inr u, db1)"
  shows "\<exists>E1 E2. adjust_envelope e1 d d (envelopes db) = Some E1 \<and> adjust_envelope e2 d d E1 = Some E2
    \<and> db1 = db\<lparr>envelopes := E2, charges :=
         rewrite_charge r e2 (\<lambda>a. a - d) (rewrite_charge r e1 (\<lambda>a. a - d) (charges db))\<rparr>"
  using assms by (auto simp: rewrite_charge_def split: if_splits option.splits)

lemma dispose_two:
  assumes "dispose_charges r d [(e1, x), (e2, x)] db = (Inr u, db1)"
  shows "\<exists>E1 E2. adjust_envelope e1 x d (envelopes db) = Some E1 \<and> adjust_envelope e2 x d E1 = Some E2
    \<and> db1 = db\<lparr>envelopes := E2, charges :=
         rewrite_charge r e2 (\<lambda>_. 0) (rewrite_charge r e1 (\<lambda>_. 0) (charges db))\<rparr>"
  using assms by (auto simp: rewrite_charge_def split: if_splits option.splits)

text \<open>A live reservation has exactly two charges, on different envelopes.\<close>

lemma live_charges:
  assumes inv: "accounts_inv db" and v: "select_pk (reservations db) r = Some v"
    and live: "rs_state v \<noteq> ReservationReconciled"
  obtains es ec where "charge_list (charges db) r = [(es, held_of v), (ec, held_of v)]" "es \<noteq> ec"
proof -
  obtain cy :: cycle_row and es ec where
    list: "charge_list (charges db) r = [(es, held_of v), (ec, held_of v)]"
    and env: "envelope_for db (SocietyScope (cy_society cy)) es" "envelope_for db (CycleScope (rs_cycle v)) ec"
    using accounts_reservationD [OF inv v] live by (auto simp: reservation_sound_def charged_twice_def)
  moreover have "es \<noteq> ec" using envelope_for_unique(1) [OF inv env(1)] env(2) by blast
  ultimately show ?thesis using that by blast
qed

lemma settle_accounts:
  assumes inv: "accounts_inv db" and ok: "tables_ok db"
    and v: "select_pk (reservations db) r = Some v" "rs_state v = ReservationReserved"
    and d: "0 \<le> d" "rs_charged v + d \<le> rs_amount v"
    and loop: "settle_charges r d (charges_of db r) db = (Inr u, db1)"
    and db': "reservations db' = update_pk r (\<lambda>w. w\<lparr>rs_charged := rs_charged w + d\<rparr>) (reservations db)"
      "envelopes db' = envelopes db1" "charges db' = charges db1" "constraints db' = constraints db"
      "cycles db' = cycles db"
  shows "accounts_inv db'"
proof -
  note live = sound_live [OF inv v(1)]
  let ?f = "\<lambda>w. w\<lparr>rs_charged := rs_charged w + d\<rparr>"
  obtain es ec where list: "charge_list (charges db) r = [(es, held_of v), (ec, held_of v)]"
    and ne: "es \<noteq> ec"
    using live_charges [OF inv v(1)] v(2) by auto
  obtain e1 e2 E1 E2 where e: "(e1, e2) = (es, ec) \<or> (e1, e2) = (ec, es)"
    and E: "adjust_envelope e1 d d (envelopes db) = Some E1" "adjust_envelope e2 d d E1 = Some E2"
    and db1: "envelopes db1 = E2" "charges db1 =
         rewrite_charge r e2 (\<lambda>a. a - d) (rewrite_charge r e1 (\<lambda>a. a - d) (charges db))"
    using loop settle_two [of r d es "held_of v" ec db u db1] settle_two [of r d ec "held_of v" es db u db1]
    unfolding charges_of_list list sort_two by (auto split: if_splits)
  have adj: "both_adjusted es ec d d (envelopes db) E2"
    using e adjust_both [OF E] ne both_adjusted_sym by auto
  show ?thesis
  proof (rule accounts_change [OF inv v(1) _ tables_okD(2) [OF ok] db'(1)])
    fix es' ec'
    assume "charge_list (charges db) r = [(es', held_of v), (ec', held_of v)]"
    then show "both_adjusted es' ec' (held_of v - held_of (?f v)) (rs_charged (?f v) - rs_charged v)
          (envelopes db) (envelopes db')
        \<and> (rs_state (?f v) \<noteq> ReservationReconciled \<longrightarrow>
             charge_list (charges db') r = [(es', held_of (?f v)), (ec', held_of (?f v))])"
      using list adj e ne v(2) by (auto simp: db' db1 held_of_def charge_list_rewrite)
  next
    fix i x
    assume "select_pk (charges db') i = Some x"
    then show "\<exists>y. select_pk (charges db) i = Some y \<and> ch_reservation y = ch_reservation x"
      unfolding db'(3) db1(2) by (metis rewrite_charge_refs)
  qed (use v live d in \<open>auto simp: db' db1 charge_list_rewrite held_of_def excess_of_def\<close>)
qed

lemma dispose_accounts:
  assumes inv: "accounts_inv db" and ok: "tables_ok db"
    and v: "select_pk (reservations db) r = Some v" "rs_state v = ReservationReserved"
    and d: "0 \<le> d" "rs_charged v + d \<le> rs_amount v"
    and loop: "dispose_charges r d (charges_of db r) db = (Inr u, db1)"
  shows "accounts_inv (reconcile_reservation c r (rs_charged v + d) db1)"
proof -
  note live = sound_live [OF inv v(1)]
  let ?f = "\<lambda>v'. v'\<lparr>rs_state := ReservationReconciled, rs_charged := rs_charged v + d, rs_reconciled := Some c\<rparr>"
  let ?db' = "reconcile_reservation c r (rs_charged v + d) db1"
  obtain es ec where list: "charge_list (charges db) r = [(es, held_of v), (ec, held_of v)]"
    and ne: "es \<noteq> ec"
    using live_charges [OF inv v(1)] v(2) by auto
  obtain e1 e2 E1 E2 where e: "(e1, e2) = (es, ec) \<or> (e1, e2) = (ec, es)"
    and E: "adjust_envelope e1 (held_of v) d (envelopes db) = Some E1" "adjust_envelope e2 (held_of v) d E1 = Some E2"
    and db1: "db1 = db\<lparr>envelopes := E2, charges :=
         rewrite_charge r e2 (\<lambda>_. 0) (rewrite_charge r e1 (\<lambda>_. 0) (charges db))\<rparr>"
    using loop dispose_two [of r d es "held_of v" ec db u db1] dispose_two [of r d ec "held_of v" es db u db1]
    unfolding charges_of_list list sort_two by (auto split: if_splits)
  have adj: "both_adjusted es ec (held_of v) d (envelopes db) E2"
    using e adjust_both [OF E] ne both_adjusted_sym by auto
  show ?thesis
  proof (rule accounts_change [OF inv v(1) _ tables_okD(2) [OF ok], where f = ?f and v' = "?f v"])
    fix es' ec'
    assume "charge_list (charges db) r = [(es', held_of v), (ec', held_of v)]"
    then show "both_adjusted es' ec' (held_of v - held_of (?f v)) (rs_charged (?f v) - rs_charged v)
          (envelopes db) (envelopes ?db')
        \<and> (rs_state (?f v) \<noteq> ReservationReconciled \<longrightarrow>
             charge_list (charges ?db') r = [(es', held_of (?f v)), (ec', held_of (?f v))])"
      using list adj by (auto simp: db1 held_of_def)
  next
    fix i x
    assume "select_pk (charges ?db') i = Some x"
    then show "\<exists>y. select_pk (charges db) i = Some y \<and> ch_reservation y = ch_reservation x"
      by (simp add: db1) (metis rewrite_charge_refs)
  qed (use v live d in \<open>auto simp: db1 charge_list_rewrite held_of_def excess_of_def reconcile_reservation_def\<close>)
qed

section \<open>Every step\<close>

text \<open>Cycles exist only in a bootstrapped society.\<close>

definition founded :: "cycle_db \<Rightarrow> bool" where
  "founded db \<longleftrightarrow> exists_where (\<lambda>_ _. True) (bootstraps db) \<or> (\<forall>k. select_pk (cycles db) k = None)"

definition books_ok :: "cycle_db \<Rightarrow> bool" where
  "books_ok db \<longleftrightarrow> founded db \<and> accounts_inv db"

definition budget_inv :: "cycle_db \<Rightarrow> bool" where
  "budget_inv db \<longleftrightarrow> cycles_inv db \<and> books_ok db"

text \<open>A step that writes no row of the accounts.\<close>

definition unbooked :: "cycle_db \<Rightarrow> cycle_db \<Rightarrow> bool" where
  "unbooked db db' \<longleftrightarrow> reservations db' = reservations db \<and> charges db' = charges db
     \<and> envelopes db' = envelopes db \<and> constraints db' = constraints db \<and> bootstraps db' = bootstraps db
     \<and> (\<forall>k. map_option cy_society (select_pk (cycles db') k)
              = map_option cy_society (select_pk (cycles db) k))"

lemma unbooked_accounts: "unbooked db db' \<Longrightarrow> accounts_inv db \<Longrightarrow> accounts_inv db'"
  by (rule accounts_frame) (simp_all add: unbooked_def)

lemma founded_cong:
  "bootstraps db' = bootstraps db \<Longrightarrow>
   (\<And>k. map_option cy_society (select_pk (cycles db') k) = map_option cy_society (select_pk (cycles db) k))
   \<Longrightarrow> founded db \<Longrightarrow> founded db'"
  unfolding founded_def by (metis option.map_disc_iff)

lemma unbooked_founded: "unbooked db db' \<Longrightarrow> founded db \<Longrightarrow> founded db'"
  by (rule founded_cong [of db' db]) (simp_all add: unbooked_def)

lemma unbooked_books: "books_ok db \<Longrightarrow> unbooked db db' \<Longrightarrow> books_ok db'"
  by (simp add: books_ok_def unbooked_accounts unbooked_founded)

lemma unbooked_commands:
  "create_society c name db = (Inr ev, db') \<Longrightarrow> unbooked db db'"
  "set_r0_hard_ceiling c amount db = (Inr ev, db') \<Longrightarrow> unbooked db db'"
  "start_native_execution_profile_qualification c x k db = (Inr ev, db') \<Longrightarrow> unbooked db db'"
  "record_office_session_ready c x s db = (Inr ev, db') \<Longrightarrow> unbooked db db'"
  "record_office_session_terminal c x s terminal db = (Inr ev, db') \<Longrightarrow> unbooked db db'"
  "quiesce_cycle c x k db = (Inr ev, db') \<Longrightarrow> unbooked db db'"
  "record_cycle_drained c k db = (Inr ev, db') \<Longrightarrow> unbooked db db'"
  "resume_cycle c x k db = (Inr ev, db') \<Longrightarrow> unbooked db db'"
  by (auto simp: unbooked_def create_society_def set_r0_hard_ceiling_def quiesce_cycle_def
        start_native_execution_profile_qualification_def record_office_session_ready_def
        record_office_session_terminal_def record_cycle_drained_def resume_cycle_def Let_def
        split: sum.splits if_splits option.splits prod.splits)

lemma unbooked_more:
  "admit_operating_cycle c x k db = (Inr ev, db') \<Longrightarrow> unbooked db db'"
  "start_office_session c x k db = (Inr ev, db') \<Longrightarrow> unbooked db db'"
  by (auto simp: unbooked_def admit_operating_cycle_def start_office_session_def Let_def
        split: sum.splits if_splits option.splits prod.splits) (simp_all add: set_cycle_state_def)

lemma unbooked_effects:
  "open_office_turn c x s purpose db = (Inr ev, db') \<Longrightarrow> unbooked db db'"
  "begin_reconciliation c x k db = (Inr ev, db') \<Longrightarrow> unbooked db db'"
  "close_cycle c x k db = (Inr ev, db') \<Longrightarrow> unbooked db db'"
  "request_cancellation c x k mode db = (Inr ev, db') \<Longrightarrow> unbooked db db'"
  "reconcile_cancellation c i db = (Inr ev, db') \<Longrightarrow> unbooked db db'"
  by (auto simp: unbooked_def elim!: open_turn_effect begin_reconciliation_effect close_effect
        request_cancellation_effect reconcile_cancellation_effect)

text \<open>Budget transitions change neither the founding nor the society of a cycle.\<close>

definition same_society :: "cycle_db \<Rightarrow> cycle_db \<Rightarrow> bool" where
  "same_society db db' \<longleftrightarrow> bootstraps db' = bootstraps db
     \<and> (\<forall>k. map_option cy_society (select_pk (cycles db') k)
              = map_option cy_society (select_pk (cycles db) k))"

lemma same_society_founded: "same_society db db' \<Longrightarrow> founded db \<Longrightarrow> founded db'"
  by (rule founded_cong [of db' db]) (simp_all add: same_society_def)

lemma same_society_books: "books_ok db \<Longrightarrow> same_society db db' \<Longrightarrow> accounts_inv db' \<Longrightarrow> books_ok db'"
  by (simp add: books_ok_def same_society_founded)

lemma freeze_society:
  "freeze_budget_admission c r k held reason db = (Inr ev, db') \<Longrightarrow> tables_ok db \<Longrightarrow> same_society db db'"
  by (frule (1) freeze_effect [OF _ tables_okD(3)]) (auto simp: same_society_def)

lemma reserve_society:
  "reserve_attempt_budget c cy k amount db = (Inr r, db') \<Longrightarrow> same_society db db'"
  by (drule reserve_effect) (auto simp: same_society_def)

lemma reconcile_society:
  "reconcile_budget c r observation db = (Inr ev, db') \<Longrightarrow> tables_ok db \<Longrightarrow> same_society db db'"
  "reconcile_task_attempt_reservation c r observed db = (Inr d, db') \<Longrightarrow> tables_ok db \<Longrightarrow> same_society db db'"
  by (auto simp: reconcile_budget_def reconcile_task_attempt_reservation_def Let_def same_society_def
        split: option.splits if_splits cost_observation.splits dest!: frozen_disposition_Inr
        dest: freeze_society [unfolded same_society_def])

lemma settle_society:
  assumes "settle_office_turn c turn receipt db = (Inr ev, db')" "tables_ok db"
  shows "same_society db db'"
  using assms(1)
proof (cases rule: settle_turn_cases)
  case (frozen r v held reason)
  then show ?thesis using freeze_society assms(2) by blast
next
  case (settled t s r v d db1)
  then show ?thesis using settle_charges_frame [OF settled(8)] by (auto simp: same_society_def)
qed

lemma postmortem_society:
  "close_cost_postmortem c x i resolution db = (Inr ev, db') \<Longrightarrow> same_society db db'"
  by (erule close_postmortem_effect) (simp add: same_society_def)

lemma dispose_society:
  "dispose_session_budget c r k observed db = (Inr (d, st), db') \<Longrightarrow> tables_ok db \<Longrightarrow> same_society db db'"
  by (auto simp: dispose_session_budget_def same_society_def
        split: option.splits if_splits prod.splits sum.splits dest!: frozen_disposition_Inr dispose_charges_frame
        dest: freeze_society [unfolded same_society_def])

lemma settle_turn_accounts:
  assumes inv: "accounts_inv db" and ok: "tables_ok db"
    and res: "settle_office_turn c turn receipt db = (Inr ev, db')"
  shows "accounts_inv db'"
  using res
proof (cases rule: settle_turn_cases)
  case (frozen r v held reason)
  then show ?thesis using freeze_accounts [OF inv ok] by blast
next
  case (settled t s r v d db1)
  obtain E H where "db1 = db\<lparr>envelopes := E, charges := H\<rparr>"
    using settle_charges_frame [OF settled(8)] by blast
  then show ?thesis
    using settled(10) by (intro settle_accounts [OF inv ok settled(4-8)]) auto
qed

lemma dispose_budget_accounts:
  assumes inv: "accounts_inv db" and ok: "tables_ok db"
    and res: "dispose_session_budget c r k observed db = (Inr (d, st), db')"
  shows "accounts_inv db'"
proof -
  have "accounts_inv (reconcile_reservation c r observed db1)"
    if "select_pk (reservations db) r = Some v" "rs_state v = ReservationReserved"
      "\<not> rs_amount v < observed" "\<not> observed < rs_charged v"
      "dispose_charges r (observed - rs_charged v) (charges_of db r) db = (Inr (), db1)" for v db1
    using dispose_accounts [OF inv ok that(1,2) _ _ that(5)] that(3,4) by simp
  then show ?thesis
    using res by (auto simp: dispose_session_budget_def split: option.splits if_splits prod.splits
        sum.splits dest!: frozen_disposition_Inr intro: freeze_accounts [OF inv ok])
qed

lemma propose_accounts:
  assumes inv: "budget_inv db" and res: "propose_operating_cycle c treatment amount db = (Inr ev, db')"
  shows "books_ok db'"
  using res
proof (cases rule: propose_effect)
  case (1 k e society mission occupancy hard C E i K)
  have acc: "accounts_inv db" and ok: "tables_ok db" and lf: "protocol_ok (lifecycle_of db)"
    using inv by (simp_all add: budget_inv_def books_ok_def cycles_inv_def)
  have ne: "rs_cycle v \<noteq> k" if "select_pk (reservations db) r = Some v" for r v
    using lifecycle_reservationD [OF lf, of r "rs_cycle v" "rs_state v"] that adds_fresh [OF 1(5)]
    by (auto simp: lifecycle_of_def)
  have "accounts_inv db'"
    by (rule accounts_open [OF acc tables_okD(2) [OF ok] 1(6-9)])
      (use 1 ne in \<open>auto simp: covers_def adds_select [OF 1(5)]\<close>)
  moreover have "exists_where (\<lambda>_ _. True) (bootstraps db)"
    using 1(1) by (auto simp: bootstrapped_constitution_def select_where_def exists_where_def
        list_ex_iff find_Some_iff split: option.splits) (metis nth_mem)
  ultimately show ?thesis by (simp add: books_ok_def founded_def 1(11))
qed

lemma bootstrap_accounts:
  assumes inv: "budget_inv db" and res: "bootstrap_society c db = (Inr ev, db')"
  shows "books_ok db'"
  using res
proof (cases rule: bootstrap_effect)
  case (1 s e amount B S E i K)
  have acc: "accounts_inv db" and ok: "tables_ok db" and none: "select_pk (cycles db) k = None" for k
    using inv 1(2) by (simp_all add: budget_inv_def books_ok_def cycles_inv_def founded_def)
  have "accounts_inv db'"
    by (rule accounts_open [OF acc tables_okD(2) [OF ok] 1(3-6)])
      (use 1 none in \<open>auto simp: covers_def\<close>)
  then show ?thesis using none by (simp add: books_ok_def founded_def 1(7))
qed

lemma reserve_budget_accounts:
  assumes "accounts_inv db" "tables_ok db" "reserve_budget c x k amount db = (Inr ev, db')"
  shows "accounts_inv db' \<and> same_society db db'"
  using assms(3)
  by (auto simp: reserve_budget_def cycle_for_generation_Inr split: sum.splits if_splits prod.splits
        dest: reserve_accounts [OF assms(1,2)] reserve_society)

lemma claim_accounts:
  assumes inv: "accounts_inv db" and ok: "tables_ok db"
    and res: "claim_native_execution_profile_qualification_launch c x k amount epoch identity w path db
                = (Inr ev, db')"
  shows "accounts_inv db' \<and> same_society db db'"
  using res
proof (cases rule: claim_effect)
  case (1 cy W r db2 t)
  let ?db1 = "start_cycle c k (db\<lparr>workspaces := W\<rparr>)"
  have "accounts_inv ?db1" by (rule accounts_frame [OF inv]) simp_all
  moreover have "tables_ok ?db1" using ok by (simp only: tables_ok_start) (simp add: tables_ok_def)
  ultimately have "accounts_inv db2 \<and> same_society ?db1 db2"
    using reserve_budget_accounts [OF _ _ 1(3)] by blast
  then have "accounts_inv db2" "same_society db db2" by (simp_all add: same_society_def)
  then show ?thesis
    using accounts_frame [of db2 db'] by (simp add: 1(4) same_society_def)
qed

lemmas unbooked_all = unbooked_commands unbooked_more unbooked_effects

lemma apply_accounts:
  assumes inv: "budget_inv db" and res: "cycle_apply c x cmd db = (Inr ev, db')"
  shows "books_ok db'"
proof -
  have acc: "accounts_inv db" and ok: "tables_ok db" and f: "founded db"
    using inv by (simp_all add: budget_inv_def books_ok_def cycles_inv_def)
  have books: "books_ok db" using inv by (simp add: budget_inv_def)
  note plain = unbooked_books [OF books]
  note booked = same_society_books [OF books]
  have "cycle_dispatch c x cmd db = (Inr ev, db')"
    using res by (simp add: cycle_apply_def split: if_splits)
  then show ?thesis
    by (cases cmd; simp add: cycle_dispatch_def)
      (blast intro: plain unbooked_all booked settle_turn_accounts [OF acc ok] settle_society [OF _ ok]
         reconcile_budget_accounts [OF acc ok] reconcile_society(1) [OF _ ok]
         close_postmortem_accounts [OF acc ok] postmortem_society
         propose_accounts [OF inv] bootstrap_accounts [OF inv]
       dest: reserve_budget_accounts [OF acc ok] claim_accounts [OF acc ok])+
qed

lemma cycle_rollback_fields [simp]:
  "cycles (cycle_rollback db u) = rollback_table (cycles db) (cycles u)"
  "reservations (cycle_rollback db u) = rollback_table (reservations db) (reservations u)"
  "charges (cycle_rollback db u) = rollback_table (charges db) (charges u)"
  "envelopes (cycle_rollback db u) = rollback_table (envelopes db) (envelopes u)"
  "constraints (cycle_rollback db u) = rollback_table (constraints db) (constraints u)"
  "bootstraps (cycle_rollback db u) = rollback_table (bootstraps db) (bootstraps u)"
  by (simp_all add: cycle_rollback_def)

lemma rollback_books: "books_ok (cycle_rollback db u) = books_ok db"
proof -
  have "covers (cycle_rollback db u) = covers db"
    by (simp add: covers_def fun_eq_iff split: constraint_scope.splits)
  then have "balanced (cycle_rollback db u) = balanced db"
    by (simp add: balanced_def outstanding_def charged_to_def overrun_def fun_eq_iff)
  moreover have "envelope_for (cycle_rollback db u) = envelope_for db"
    by (simp add: envelope_for_def fun_eq_iff)
  moreover from this have "reservation_sound (cycle_rollback db u) = reservation_sound db"
    by (simp add: reservation_sound_def charged_twice_def charge_list_def fun_eq_iff)
  ultimately show ?thesis
    by (simp add: books_ok_def accounts_inv_def founded_def)
qed

lemma step_books:
  assumes "cycle_step db db'" "budget_inv db"
  shows "books_ok db'"
proof -
  have acc: "accounts_inv db" and ok: "tables_ok db" and books: "books_ok db"
    using assms(2) by (simp_all add: budget_inv_def books_ok_def cycles_inv_def)
  from assms(1) show ?thesis
  proof (cases rule: cycle_step.cases)
    case (accepted cmd c x ev)
    then show ?thesis using apply_accounts [OF assms(2)] by blast
  next
    case (rolled_back db'')
    then show ?thesis using books by (simp add: rollback_books)
  next
    case (attempt_reserves x k cycle amount c r)
    then show ?thesis
      using reserve_accounts [OF acc ok] reserve_society same_society_books [OF books]
      by (auto simp: coordination_cycle_Inr)
  next
    case (attempt_reconciles observed c r d)
    then show ?thesis
      using reconcile_attempt_accounts [OF acc ok] reconcile_society(2) [OF _ ok]
        same_society_books [OF books] by blast
  next
    case (usage_fails r v reason u w c ev)
    then show ?thesis
      using freeze_accounts [OF acc ok] freeze_society [OF _ ok] same_society_books [OF books] by blast
  next
    case (session_disposed s row observed r v c d state db1)
    have "books_ok db1"
      using session_disposed dispose_budget_accounts [OF acc ok] dispose_society [OF _ ok]
        same_society_books [OF books] by blast
    then show ?thesis
      by (rule unbooked_books) (simp add: session_disposed unbooked_def)
  qed (rule unbooked_books [OF books], simp add: unbooked_def)+
qed

interpretation cycle_budget: cycle_invariant budget_inv
proof
  show "budget_inv (empty_cycle_db e)" for e
    using cycle_lifecycle.initially [of e]
    by (auto simp: budget_inv_def books_ok_def founded_def accounts_inv_def envelope_for_def
          empty_cycle_db_def)
  show "budget_inv db'" if "budget_inv db" "cycle_step db db'" for db db'
    using that step_books cycle_lifecycle.kept by (auto simp: budget_inv_def)
qed

end
