(* ===== verification/Cycle_Office.thy ===== *)
theory Cycle_Office
  imports Cycle_Balance
begin

text \<open>
  Office sessions and turns against the lifecycle of their cycle: an active turn keeps its session
  in its turn, a live session keeps its cycle open, and a turn that is active when its cycle starts
  cancelling is never settled.
\<close>

section \<open>Turns, sessions and open cycles\<close>

definition turns_held :: "cycle_db \<Rightarrow> bool" where
  "turns_held db \<longleftrightarrow> (\<forall>t u. select_pk (turns db) t = Some u \<and> tu_state u = TurnActive \<longrightarrow>
     (\<exists>s. select_pk (sessions db) (tu_session u) = Some s \<and> se_state s = SessionTurnActive))"

definition one_turn :: "cycle_db \<Rightarrow> bool" where
  "one_turn db \<longleftrightarrow> (\<forall>t t' u u'. select_pk (turns db) t = Some u \<and> tu_state u = TurnActive
     \<and> select_pk (turns db) t' = Some u' \<and> tu_state u' = TurnActive
     \<and> tu_session u = tu_session u' \<longrightarrow> t = t')"

definition sessions_open :: "cycle_db \<Rightarrow> bool" where
  "sessions_open db \<longleftrightarrow> (\<forall>s r. select_pk (sessions db) s = Some r \<and> session_live (se_state r) \<longrightarrow>
     (\<exists>cy. select_pk (cycles db) (se_cycle r) = Some cy \<and> is_nonterminal (cy_state cy)))"

definition office_ok :: "cycle_db \<Rightarrow> bool" where
  "office_ok db \<longleftrightarrow> turns_held db \<and> one_turn db \<and> sessions_open db"

lemma one_turnD:
  "office_ok db \<Longrightarrow> select_pk (turns db) a = Some u \<Longrightarrow> tu_state u = TurnActive \<Longrightarrow>
     select_pk (turns db) b = Some w \<Longrightarrow> tu_state w = TurnActive \<Longrightarrow> tu_session u = tu_session w \<Longrightarrow> a = b"
  unfolding office_ok_def one_turn_def by blast

text \<open>Steps that leave sessions and turns alone and keep open cycles open.\<close>

definition office_same :: "cycle_db \<Rightarrow> cycle_db \<Rightarrow> bool" where
  "office_same db db' \<longleftrightarrow>
     select_pk (turns db') = select_pk (turns db) \<and> select_pk (sessions db') = select_pk (sessions db)
   \<and> (\<forall>k cy. select_pk (cycles db) k = Some cy \<and> is_nonterminal (cy_state cy) \<longrightarrow>
        (\<exists>cy'. select_pk (cycles db') k = Some cy' \<and> is_nonterminal (cy_state cy')))"

lemma office_same_ok: "office_ok db \<Longrightarrow> office_same db db' \<Longrightarrow> office_ok db'"
proof -
  assume ok: "office_ok db" and same: "office_same db db'"
  have "turns_held db'" using ok same unfolding office_ok_def office_same_def turns_held_def by metis
  moreover have "one_turn db'" using ok same by (simp add: office_ok_def office_same_def one_turn_def)
  moreover have "sessions_open db'"
    using ok same unfolding office_ok_def sessions_open_def office_same_def by metis
  ultimately show "office_ok db'" by (simp add: office_ok_def)
qed

lemma office_same_transition:
  "is_nonterminal s \<Longrightarrow> office_same db (transition_cycle c k s g db)"
  by (auto simp: office_same_def transition_cycle_def select_pk_update_pk)

lemma office_same_trans: "office_same db db1 \<Longrightarrow> office_same db1 db2 \<Longrightarrow> office_same db db2"
  unfolding office_same_def by metis

lemma office_same_fields:
  "turns db' = turns db \<Longrightarrow> sessions db' = sessions db \<Longrightarrow> cycles db' = cycles db \<Longrightarrow> office_same db db'"
  by (simp add: office_same_def)

lemma office_same_start: "office_same db (start_cycle c k db)"
  by (auto simp: office_same_def start_cycle_def set_cycle_state_def select_pk_update_pk is_nonterminal_def)

lemma freeze_office:
  assumes "freeze_budget_admission c r k held reason db = (Inr ev, db')" "tables_ok db"
  shows "office_same db db'"
  using freeze_effect [OF assms(1) tables_okD(3) [OF assms(2)]]
  by (auto simp: office_same_def transition_cycle_def select_pk_update_pk is_nonterminal_def)

lemma reserve_office:
  "reserve_attempt_budget c cy k amount db = (Inr r, db') \<Longrightarrow> office_same db db'"
  by (drule reserve_effect) (auto intro!: office_same_fields)

lemma reserve_budget_office:
  "reserve_budget c x k amount db = (Inr ev, db') \<Longrightarrow> office_same db db'"
  by (auto simp: reserve_budget_def split: sum.splits if_splits prod.splits dest: reserve_office)

lemma reconcile_office:
  "reconcile_budget c r observation db = (Inr ev, db') \<Longrightarrow> tables_ok db \<Longrightarrow> office_same db db'"
  "reconcile_task_attempt_reservation c r observed db = (Inr d, db') \<Longrightarrow> tables_ok db \<Longrightarrow> office_same db db'"
  by (auto simp: reconcile_budget_def reconcile_task_attempt_reservation_def Let_def
        reconcile_reservation_def split: option.splits if_splits cost_observation.splits
        dest!: frozen_disposition_Inr dest: freeze_office intro: office_same_fields)

lemma dispose_office:
  "dispose_session_budget c r k observed db = (Inr (d, st), db') \<Longrightarrow> tables_ok db \<Longrightarrow>
     office_same db db' \<and> st \<in> {SessionClosed, SessionCancelled}"
  by (auto simp: dispose_session_budget_def reconcile_reservation_def
        split: option.splits if_splits prod.splits sum.splits
        dest!: frozen_disposition_Inr dispose_charges_frame dest: freeze_office intro: office_same_fields)

lemma office_same_commands:
  "create_society c name db = (Inr ev, db') \<Longrightarrow> office_same db db'"
  "set_r0_hard_ceiling c amount db = (Inr ev, db') \<Longrightarrow> office_same db db'"
  "start_native_execution_profile_qualification c x k db = (Inr ev, db') \<Longrightarrow> office_same db db'"
  "quiesce_cycle c x k db = (Inr ev, db') \<Longrightarrow> office_same db db'"
  "record_cycle_drained c k db = (Inr ev, db') \<Longrightarrow> office_same db db'"
  "resume_cycle c x k db = (Inr ev, db') \<Longrightarrow> office_same db db'"
  by (auto simp: create_society_def set_r0_hard_ceiling_def quiesce_cycle_def
        start_native_execution_profile_qualification_def record_cycle_drained_def resume_cycle_def Let_def
        is_nonterminal_def split: sum.splits if_splits option.splits prod.splits
        intro!: office_same_transition office_same_start intro: office_same_fields)

lemma office_same_effects:
  "bootstrap_society c db = (Inr ev, db') \<Longrightarrow> office_same db db'"
  "begin_reconciliation c x k db = (Inr ev, db') \<Longrightarrow> office_same db db'"
  "request_cancellation c x k mode db = (Inr ev, db') \<Longrightarrow> office_same db db'"
  "reconcile_cancellation c i db = (Inr ev, db') \<Longrightarrow> office_same db db'"
  "close_cost_postmortem c x i resolution db = (Inr ev, db') \<Longrightarrow> office_same db db'"
  by (auto elim!: bootstrap_effect begin_reconciliation_effect request_cancellation_effect
        reconcile_cancellation_effect close_postmortem_effect
        simp: office_same_def transition_cycle_def reconcile_reservation_def select_pk_update_pk
          is_nonterminal_def cancellation_cycle_state_def split: cancellation_mode.splits)

lemma office_same_admit: "admit_operating_cycle c x k db = (Inr ev, db') \<Longrightarrow> office_same db db'"
  by (auto simp: admit_operating_cycle_def office_same_def Let_def set_cycle_state_def
        select_pk_update_pk is_nonterminal_def split: sum.splits if_splits option.splits)

lemma office_same_propose: "propose_operating_cycle c t amount db = (Inr ev, db') \<Longrightarrow> office_same db db'"
  by (erule propose_effect) (auto simp: office_same_def adds_select dest: adds_fresh)

lemma office_same_claim:
  "claim_native_execution_profile_qualification_launch c x k amount epoch identity w path db
     = (Inr ev, db') \<Longrightarrow> office_same db db'"
proof (erule claim_effect)
  fix W r db2 t
  assume res: "reserve_budget c x k amount (start_cycle c k (db\<lparr>workspaces := W\<rparr>))
       = (Inr (BudgetReserved r k amount), db2)" and db': "db' = db2\<lparr>launch_claims := t\<rparr>"
  have "office_same db (db\<lparr>workspaces := W\<rparr>)" by (rule office_same_fields) simp_all
  then show "office_same db db'"
    using office_same_start reserve_budget_office [OF res] office_same_fields [of db' db2]
    by (simp add: db') (blast intro: office_same_trans)
qed

section \<open>Steps that move a session or a turn\<close>

text \<open>A session changes state; \<open>free\<close> says that it is in no turn before and after.\<close>

lemma session_change_ok:
  assumes ok: "office_ok db" and row: "select_pk (sessions db) s = Some row"
    and free: "\<And>t u. select_pk (turns db) t = Some u \<Longrightarrow> tu_session u = s \<Longrightarrow> tu_state u \<noteq> TurnActive"
    and live: "session_live st \<Longrightarrow> session_live (se_state row)"
  shows "office_ok (set_session_state c s st db)"
proof -
  have "turns_held (set_session_state c s st db)"
    using ok free unfolding office_ok_def turns_held_def
    by (auto simp: set_session_state_def select_pk_update_pk)
  moreover have "one_turn (set_session_state c s st db)"
    using ok by (simp add: office_ok_def one_turn_def set_session_state_def)
  moreover have "sessions_open (set_session_state c s st db)"
    using ok row live unfolding office_ok_def sessions_open_def
    by (fastforce simp: set_session_state_def select_pk_update_pk split: if_splits)
  ultimately show ?thesis by (simp add: office_ok_def)
qed

lemma not_in_turn:
  assumes "office_ok db" "select_pk (sessions db) s = Some row" "se_state row \<noteq> SessionTurnActive"
    "select_pk (turns db) t = Some u" "tu_session u = s"
  shows "tu_state u \<noteq> TurnActive"
  using assms unfolding office_ok_def turns_held_def by fastforce

lemma session_ready_office:
  assumes ok: "office_ok db" and res: "record_office_session_ready c x s db = (Inr ev, db')"
  shows "office_ok db'"
proof -
  obtain row where row: "select_pk (sessions db) s = Some row" "se_state row = SessionReserved"
    and db': "db' = set_session_state c s SessionReady db"
    using res by (auto simp: record_office_session_ready_def session_row_of_Inr
        split: sum.splits if_splits option.splits)
  show ?thesis unfolding db'
    by (rule session_change_ok [OF ok row(1)])
      (use not_in_turn [OF ok row(1)] row(2) in \<open>auto simp: session_live_def\<close>)
qed

lemma session_terminal_office:
  assumes ok: "office_ok db" and wf: "tables_ok db"
    and res: "record_office_session_terminal c x s terminal db = (Inr ev, db')"
  shows "office_ok db'"
proof -
  have dead: "terminal_session_state terminal a b = Some st \<Longrightarrow> \<not> session_live st" for a b st
    by (auto simp: terminal_session_state_def session_live_def
          split: office_session_terminal_state.splits if_splits)
  obtain row st where row: "select_pk (sessions db) s = Some row" "\<not> session_has_active_turn db s"
    and st: "\<not> session_live st" and db': "db' = set_session_state c s st db"
    using res by (auto simp: record_office_session_terminal_def session_row_of_Inr
        split: sum.splits if_splits option.splits dest!: dead)
  show ?thesis unfolding db'
    by (rule session_change_ok [OF ok row(1)])
      (use row(2) st exists_where_iff [OF tables_okD(6) [OF wf]] in
        \<open>auto simp: session_live_def session_has_active_turn_def\<close>)
qed

lemma start_office_office:
  assumes ok: "office_ok db" and res: "start_office_session c x k db = (Inr ev, db')"
  shows "office_ok db'"
proof -
  obtain cy s t where cy: "select_pk (cycles db) k = Some cy"
    and ins: "adds (sessions db) s \<lparr>se_cycle = k, se_occupancy = cy_occupancy cy, se_state = SessionReserved,
         se_started = c, se_last = c\<rparr> t"
    and db': "db' = (start_cycle c k db)\<lparr>sessions := t\<rparr>"
    using res by (auto simp: start_office_session_def Let_def cycle_for_generation_Inr start_cycle_def
        set_cycle_state_def split: sum.splits if_splits option.splits prod.splits dest!: insert_identity_adds)
  have ok1: "office_ok (start_cycle c k db)" by (rule office_same_ok [OF ok office_same_start])
  have "turns_held db'"
    using ok1 adds_fresh [OF ins] unfolding office_ok_def turns_held_def db'
    by (auto simp: adds_select [OF ins] start_cycle_def set_cycle_state_def) (metis option.distinct(1))
  moreover have "one_turn db'" using ok1 by (simp add: office_ok_def one_turn_def db')
  moreover have "sessions_open db'"
    using ok1 cy unfolding office_ok_def sessions_open_def db'
    by (auto simp: adds_select [OF ins] start_cycle_def set_cycle_state_def select_pk_update_pk
          is_nonterminal_def split: if_splits)
  ultimately show ?thesis by (simp add: office_ok_def)
qed

lemma open_turn_office:
  assumes ok: "office_ok db" and wf: "tables_ok db" and res: "open_office_turn c x s purpose db = (Inr ev, db')"
  shows "office_ok db'"
  using res
proof (cases rule: open_turn_effect)
  case (1 row cy i t)
  have free: "\<not> (select_pk (turns db) j = Some u \<and> tu_session u = s \<and> tu_state u = TurnActive)" for j u
    using 1(6) exists_where_iff [OF tables_okD(6) [OF wf]] by (auto simp: session_has_active_turn_def)
  have "turns_held db'"
    using ok free 1(1) unfolding office_ok_def turns_held_def 1(8)
    by (auto simp: adds_select [OF 1(5)] set_session_state_def select_pk_update_pk split: if_splits)
  moreover have "one_turn db'"
    unfolding one_turn_def
  proof (intro allI impI, elim conjE)
    fix a b u w
    assume h: "select_pk (turns db') a = Some u" "tu_state u = TurnActive"
      "select_pk (turns db') b = Some w" "tu_state w = TurnActive" "tu_session u = tu_session w"
    have sel: "j = i \<and> tu_session q = s \<or> select_pk (turns db) j = Some q"
      if "select_pk (turns db') j = Some q" for j q
      using that by (auto simp: 1(8) adds_select [OF 1(5)] split: if_splits)
    show "a = b"
      using sel [OF h(1)] sel [OF h(3)] h(2,4,5) free one_turnD [OF ok] by metis
  qed
  moreover have "sessions_open db'"
    using ok 1(1,2) unfolding office_ok_def sessions_open_def 1(8)
    by (fastforce simp: set_session_state_def select_pk_update_pk session_live_def split: if_splits)
  ultimately show ?thesis by (simp add: office_ok_def)
qed

lemma settle_turn_office:
  assumes ok: "office_ok db" and wf: "tables_ok db"
    and res: "settle_office_turn c turn receipt db = (Inr ev, db')"
  shows "office_ok db'"
  using res
proof (cases rule: settle_turn_cases)
  case (frozen r v held reason)
  then show ?thesis using freeze_office [OF _ wf] office_same_ok [OF ok] by blast
next
  case (settled t s r v d db1)
  obtain E H where db1: "db1 = db\<lparr>envelopes := E, charges := H\<rparr>"
    using settle_charges_frame [OF settled(8)] by blast
  obtain R K where db': "db' = set_session_state c s SessionReady
      (db\<lparr>envelopes := E, charges := H, reservations := R, checkpoints := K,
          turns := update_pk turn (\<lambda>u. u\<lparr>tu_state := TurnSettled, tu_settled := Some c\<rparr>) (turns db)\<rparr>)"
    using settled(10) db1 by auto
  obtain row where row: "select_pk (sessions db) s = Some row" "se_state row = SessionTurnActive"
    using ok settled(1-3) unfolding office_ok_def turns_held_def by blast
  have only: "j = turn" if "select_pk (turns db) j = Some u" "tu_state u = TurnActive" "tu_session u = s" for j u
    using ok settled(1-3) that unfolding office_ok_def one_turn_def by blast
  have "turns_held db'"
    using ok only unfolding office_ok_def turns_held_def db'
    by (auto simp: set_session_state_def select_pk_update_pk split: if_splits)
  moreover have "one_turn db'"
    using ok unfolding office_ok_def one_turn_def db'
    by (auto simp: set_session_state_def select_pk_update_pk split: if_splits)
  moreover have "sessions_open db'"
    using ok row unfolding office_ok_def sessions_open_def db'
    by (fastforce simp: set_session_state_def select_pk_update_pk session_live_def split: if_splits)
  ultimately show ?thesis by (simp add: office_ok_def)
qed

lemma close_office:
  assumes ok: "office_ok db" and wf: "tables_ok db" and res: "close_cycle c x k db = (Inr ev, db')"
  shows "office_ok db'"
  using res
proof (cases rule: close_effect)
  case (1 cy)
  have none: "\<not> (select_pk (sessions db) s = Some r \<and> se_cycle r = k \<and> session_live (se_state r))" for s r
    using 1(4) count_where_zero_iff [OF tables_okD(5) [OF wf]] by (auto simp: live_office_session_count_def)
  have "turns db' = turns db" "sessions db' = sessions db" by (simp_all add: 1(8) transition_cycle_def)
  then have "turns_held db'" using ok unfolding office_ok_def turns_held_def by metis
  moreover have "one_turn db'" using ok by (simp add: office_ok_def one_turn_def 1(8) transition_cycle_def)
  moreover have "sessions_open db'"
    using ok none unfolding office_ok_def sessions_open_def 1(8)
    by (auto simp: transition_cycle_def select_pk_update_pk)
  ultimately show ?thesis by (simp add: office_ok_def)
qed

lemmas office_same_all = office_same_commands office_same_effects office_same_admit office_same_propose
  office_same_claim reserve_budget_office

lemma apply_office:
  assumes ok: "office_ok db" and wf: "tables_ok db" and res: "cycle_apply c x cmd db = (Inr ev, db')"
  shows "office_ok db'"
proof -
  have "cycle_dispatch c x cmd db = (Inr ev, db')"
    using res by (simp add: cycle_apply_def split: if_splits)
  then show ?thesis
    by (cases cmd; simp add: cycle_dispatch_def)
      (blast intro: office_same_ok [OF ok] office_same_all reconcile_office(1) [OF _ wf]
         session_ready_office [OF ok] session_terminal_office [OF ok wf] start_office_office [OF ok]
         open_turn_office [OF ok wf] settle_turn_office [OF ok wf] close_office [OF ok wf])+
qed

definition office_inv :: "cycle_db \<Rightarrow> bool" where
  "office_inv db \<longleftrightarrow> cycles_inv db \<and> office_ok db"

lemma step_office:
  assumes "cycle_step db db'" "office_inv db"
  shows "office_ok db'"
proof -
  have ok: "office_ok db" and wf: "tables_ok db"
    using assms(2) by (simp_all add: office_inv_def cycles_inv_def)
  note same = office_same_ok [OF ok]
  from assms(1) show ?thesis
  proof (cases rule: cycle_step.cases)
    case (accepted cmd c x ev)
    then show ?thesis using apply_office [OF ok wf] by blast
  next
    case (rolled_back u)
    then show ?thesis by (intro same) (simp add: office_same_def cycle_rollback_def fun_eq_iff)
  next
    case (attempt_reserves x k cycle amount c r)
    then show ?thesis using same reserve_office by blast
  next
    case (attempt_reconciles observed c r d)
    then show ?thesis using same reconcile_office(2) [OF _ wf] by blast
  next
    case (usage_fails r v reason u w c ev)
    then show ?thesis using same freeze_office [OF _ wf] by blast
  next
    case (session_quiesces s row c)
    show ?thesis unfolding session_quiesces(1)
      by (rule session_change_ok [OF ok session_quiesces(2)])
        (use not_in_turn [OF ok session_quiesces(2)] session_quiesces(3) in \<open>auto simp: session_live_def\<close>)
  next
    case (session_disposed s row observed r v c d state db1)
    have db1: "office_same db db1" and st: "state \<in> {SessionClosed, SessionCancelled}"
      using dispose_office [OF session_disposed(8) wf] by simp_all
    then have row: "select_pk (sessions db1) s = Some row"
      using session_disposed(2) by (simp add: office_same_def)
    show ?thesis unfolding session_disposed(1)
      by (rule session_change_ok [OF same [OF db1] row])
        (use not_in_turn [OF same [OF db1] row] session_disposed(3) st in \<open>auto simp: session_live_def\<close>)
  qed (intro same, simp add: office_same_def)+
qed

interpretation cycle_office: cycle_invariant office_inv
proof
  show "office_inv (empty_cycle_db e)" for e
    using cycle_lifecycle.initially [of e]
    by (simp add: office_inv_def office_ok_def turns_held_def one_turn_def sessions_open_def)
      (simp add: empty_cycle_db_def)
  show "office_inv db'" if "office_inv db" "cycle_step db db'" for db db'
    using that step_office cycle_lifecycle.kept by (auto simp: office_inv_def)
qed

section \<open>A turn overtaken by cancellation\<close>

definition cancelling :: "cycle_db \<Rightarrow> int \<Rightarrow> bool" where
  "cancelling db k \<longleftrightarrow> (\<exists>cy. select_pk (cycles db) k = Some cy \<and> cy_state cy = Cancelling)"

definition overtaken :: "cycle_db \<Rightarrow> int \<Rightarrow> int \<Rightarrow> bool" where
  "overtaken db t k \<longleftrightarrow> (\<exists>u s. select_pk (turns db) t = Some u \<and> tu_state u = TurnActive
     \<and> select_pk (sessions db) (tu_session u) = Some s \<and> se_cycle s = k) \<and> cancelling db k"

definition duty_kept :: "cycle_db \<Rightarrow> cycle_db \<Rightarrow> bool" where
  "duty_kept db db' \<longleftrightarrow> keeps (turns db) (turns db') \<and> keeps_on se_cycle (sessions db) (sessions db')
     \<and> (\<forall>k. cancelling db k \<longrightarrow> cancelling db' k)"

lemma duty_kept_overtaken: "overtaken db t k \<Longrightarrow> duty_kept db db' \<Longrightarrow> overtaken db' t k"
  unfolding overtaken_def duty_kept_def keeps_on_def by metis

lemma duty_kept_trans: "duty_kept db db1 \<Longrightarrow> duty_kept db1 db2 \<Longrightarrow> duty_kept db db2"
  by (auto simp: duty_kept_def intro: keeps_on_trans)

lemma duty_kept_fields:
  "turns db' = turns db \<Longrightarrow> sessions db' = sessions db \<Longrightarrow> cycles db' = cycles db \<Longrightarrow> duty_kept db db'"
  by (simp add: duty_kept_def cancelling_def)

lemma duty_kept_transition:
  "select_pk (cycles db) k = Some cy \<Longrightarrow> s = Cancelling \<or> cy_state cy \<noteq> Cancelling \<Longrightarrow>
     duty_kept db (transition_cycle c k s g db)"
  by (auto simp: duty_kept_def keeps_on_def cancelling_def transition_cycle_def select_pk_update_pk)

lemma duty_kept_start:
  "select_pk (cycles db) k = Some cy \<Longrightarrow> cy_state cy = CycleAdmitted \<Longrightarrow> duty_kept db (start_cycle c k db)"
  by (auto simp: duty_kept_def keeps_on_def cancelling_def start_cycle_def set_cycle_state_def select_pk_update_pk)

lemma duty_kept_session: "duty_kept db (set_session_state c s st db)"
  by (auto simp: duty_kept_def keeps_on_def cancelling_def set_session_state_def select_pk_update_pk)

lemma freeze_duty:
  assumes "freeze_budget_admission c r k held reason db = (Inr ev, db')" "tables_ok db"
  shows "duty_kept db db'"
  using freeze_effect [OF assms(1) tables_okD(3) [OF assms(2)]]
  by (auto simp: duty_kept_def keeps_on_def cancelling_def transition_cycle_def select_pk_update_pk)

lemma reserve_duty: "reserve_attempt_budget c cy k amount db = (Inr r, db') \<Longrightarrow> duty_kept db db'"
  by (drule reserve_effect) (auto intro!: duty_kept_fields)

lemma reserve_budget_duty: "reserve_budget c x k amount db = (Inr ev, db') \<Longrightarrow> duty_kept db db'"
  by (auto simp: reserve_budget_def split: sum.splits if_splits prod.splits dest: reserve_duty)

lemma reconcile_duty:
  "reconcile_budget c r observation db = (Inr ev, db') \<Longrightarrow> tables_ok db \<Longrightarrow> duty_kept db db'"
  "reconcile_task_attempt_reservation c r observed db = (Inr d, db') \<Longrightarrow> tables_ok db \<Longrightarrow> duty_kept db db'"
  by (auto simp: reconcile_budget_def reconcile_task_attempt_reservation_def Let_def
        reconcile_reservation_def split: option.splits if_splits cost_observation.splits
        dest!: frozen_disposition_Inr dest: freeze_duty intro: duty_kept_fields)

lemma dispose_duty:
  "dispose_session_budget c r k observed db = (Inr (d, st), db') \<Longrightarrow> tables_ok db \<Longrightarrow> duty_kept db db'"
  by (auto simp: dispose_session_budget_def reconcile_reservation_def
        split: option.splits if_splits prod.splits sum.splits
        dest!: frozen_disposition_Inr dispose_charges_frame dest: freeze_duty intro: duty_kept_fields)

lemma duty_commands:
  "create_society c name db = (Inr ev, db') \<Longrightarrow> duty_kept db db'"
  "set_r0_hard_ceiling c amount db = (Inr ev, db') \<Longrightarrow> duty_kept db db'"
  "start_native_execution_profile_qualification c x k db = (Inr ev, db') \<Longrightarrow> duty_kept db db'"
  "quiesce_cycle c x k db = (Inr ev, db') \<Longrightarrow> duty_kept db db'"
  "record_cycle_drained c k db = (Inr ev, db') \<Longrightarrow> duty_kept db db'"
  "resume_cycle c x k db = (Inr ev, db') \<Longrightarrow> duty_kept db db'"
  "record_office_session_ready c x s db = (Inr ev, db') \<Longrightarrow> duty_kept db db'"
  "record_office_session_terminal c x s terminal db = (Inr ev, db') \<Longrightarrow> duty_kept db db'"
  by (auto simp: create_society_def set_r0_hard_ceiling_def quiesce_cycle_def
        start_native_execution_profile_qualification_def record_cycle_drained_def resume_cycle_def Let_def
        record_office_session_ready_def record_office_session_terminal_def cycle_for_generation_Inr
        split: sum.splits if_splits option.splits prod.splits
        intro!: duty_kept_transition duty_kept_start duty_kept_session intro: duty_kept_fields)

lemma duty_effects:
  "bootstrap_society c db = (Inr ev, db') \<Longrightarrow> duty_kept db db'"
  "begin_reconciliation c x k db = (Inr ev, db') \<Longrightarrow> duty_kept db db'"
  "close_cycle c x k db = (Inr ev, db') \<Longrightarrow> duty_kept db db'"
  "request_cancellation c x k mode db = (Inr ev, db') \<Longrightarrow> duty_kept db db'"
  "close_cost_postmortem c x i resolution db = (Inr ev, db') \<Longrightarrow> duty_kept db db'"
  by (auto elim!: bootstrap_effect begin_reconciliation_effect request_cancellation_effect
        close_effect close_postmortem_effect
        simp: duty_kept_def keeps_on_def cancelling_def transition_cycle_def reconcile_reservation_def select_pk_update_pk)

lemma duty_admit: "admit_operating_cycle c x k db = (Inr ev, db') \<Longrightarrow> duty_kept db db'"
  by (auto simp: admit_operating_cycle_def duty_kept_def keeps_on_def cancelling_def Let_def set_cycle_state_def
        cycle_for_generation_Inr select_pk_update_pk split: sum.splits if_splits option.splits)

lemma duty_propose: "propose_operating_cycle c t amount db = (Inr ev, db') \<Longrightarrow> duty_kept db db'"
  by (erule propose_effect) (auto simp: duty_kept_def keeps_on_def cancelling_def adds_select dest: adds_fresh)

lemma duty_open: "open_office_turn c x s purpose db = (Inr ev, db') \<Longrightarrow> duty_kept db db'"
  by (erule open_turn_effect)
    (auto simp: duty_kept_def keeps_on_def cancelling_def adds_select set_session_state_def select_pk_update_pk dest: adds_fresh)

lemma duty_start_office: "start_office_session c x k db = (Inr ev, db') \<Longrightarrow> duty_kept db db'"
  by (auto simp: start_office_session_def duty_kept_def cancelling_def Let_def start_cycle_def
        set_cycle_state_def cycle_for_generation_Inr select_pk_update_pk
        split: sum.splits if_splits option.splits prod.splits
        dest!: insert_identity_adds intro: adds_keeps)

lemma duty_claim:
  "claim_native_execution_profile_qualification_launch c x k amount epoch identity w path db
     = (Inr ev, db') \<Longrightarrow> duty_kept db db'"
proof (erule claim_effect)
  fix cy W r db2 t
  assume cy: "select_pk (cycles db) k = Some cy" "cy_state cy = CycleAdmitted"
    and res: "reserve_budget c x k amount (start_cycle c k (db\<lparr>workspaces := W\<rparr>))
       = (Inr (BudgetReserved r k amount), db2)" and db': "db' = db2\<lparr>launch_claims := t\<rparr>"
  have "duty_kept db (db\<lparr>workspaces := W\<rparr>)" by (rule duty_kept_fields) simp_all
  moreover have "duty_kept (db\<lparr>workspaces := W\<rparr>) (start_cycle c k (db\<lparr>workspaces := W\<rparr>))"
    by (rule duty_kept_start) (use cy in simp_all)
  moreover have "duty_kept db2 db'" unfolding db' by (rule duty_kept_fields) simp_all
  ultimately show "duty_kept db db'"
    using reserve_budget_duty [OF res] by (blast intro: duty_kept_trans)
qed

text \<open>The two transitions that could end it are refused.\<close>

lemma settle_duty:
  assumes ov: "overtaken db t k" and ok: "office_inv db"
    and res: "settle_office_turn c turn receipt db = (Inr ev, db')"
  shows "overtaken db' t k"
proof -
  have wf: "tables_ok db" using ok by (simp add: office_inv_def cycles_inv_def)
  have run: "turn \<noteq> t"
  proof
    assume "turn = t"
    then obtain u where "select_pk (turns db) t = Some u" "turn_settleable db t (tu_session u)"
      using res by (auto simp: settle_office_turn_def split: option.splits if_splits)
    then show False
      using ov by (auto simp: overtaken_def cancelling_def turn_settleable_def split: option.splits)
  qed
  from res show ?thesis
  proof (cases rule: settle_turn_cases)
    case (frozen r v held reason)
    then show ?thesis using freeze_duty [OF _ wf] duty_kept_overtaken [OF ov] by blast
  next
    case (settled u s r v d db1)
    obtain E H where "db1 = db\<lparr>envelopes := E, charges := H\<rparr>"
      using settle_charges_frame [OF settled(8)] by blast
    then show ?thesis
      using ov settled(10) run
      by (auto simp: overtaken_def cancelling_def set_session_state_def select_pk_update_pk)
  qed
qed

lemma reconcile_cancellation_duty:
  assumes ov: "overtaken db t k" and ok: "office_inv db"
    and res: "reconcile_cancellation c i db = (Inr ev, db')"
  shows "overtaken db' t k"
  using res
proof (cases rule: reconcile_cancellation_effect)
  case (1 n cy)
  have wf: "tables_ok db" using ok by (simp add: office_inv_def cycles_inv_def)
  have "cn_cycle n \<noteq> k"
    using ov 1(5) count_where_zero_iff [OF tables_okD(6) [OF wf]]
    by (fastforce simp: overtaken_def active_office_turn_count_def split: option.splits)
  then show ?thesis
    using ov by (auto simp: 1(8) overtaken_def cancelling_def transition_cycle_def select_pk_update_pk)
qed

lemmas duty_all = duty_commands duty_effects duty_admit duty_propose duty_open duty_start_office
  duty_claim reserve_budget_duty

lemma overtaken_step:
  assumes ok: "office_inv db" and ov: "overtaken db t k" and st: "cycle_step db db'"
  shows "overtaken db' t k"
proof -
  have wf: "tables_ok db" using ok by (simp add: office_inv_def cycles_inv_def)
  note kept = duty_kept_overtaken [OF ov]
  from st show ?thesis
  proof (cases rule: cycle_step.cases)
    case (accepted cmd c x ev)
    have "cycle_dispatch c x cmd db = (Inr ev, db')"
      using accepted by (simp add: cycle_apply_def split: if_splits)
    then show ?thesis
      by (cases cmd; simp add: cycle_dispatch_def)
        (blast intro: kept duty_all reconcile_duty(1) [OF _ wf] settle_duty [OF ov ok]
           reconcile_cancellation_duty [OF ov ok])+
  next
    case (rolled_back u)
    then show ?thesis
      by (intro kept) (simp add: duty_kept_def keeps_on_def cancelling_def cycle_rollback_def)
  next
    case (attempt_reserves x k cycle amount c r)
    then show ?thesis using kept reserve_duty by blast
  next
    case (attempt_reconciles observed c r d)
    then show ?thesis using kept reconcile_duty(2) [OF _ wf] by blast
  next
    case (usage_fails r v reason u w c ev)
    then show ?thesis using kept freeze_duty [OF _ wf] by blast
  next
    case (session_quiesces s row c)
    then show ?thesis using kept duty_kept_session by blast
  next
    case (session_disposed s row observed r v c d state db1)
    then show ?thesis
      using kept dispose_duty [OF _ wf] duty_kept_session duty_kept_trans by blast
  qed (intro kept, simp add: duty_kept_def cancelling_def)+
qed

interpretation overtaken_turn: cycle_stable office_inv "\<lambda>db. overtaken db t k" for t k
  by unfold_locales (rule overtaken_step)

text \<open>A cycle that left its reconciliation for a cancellation is never closed.\<close>

lemma protocol_steps:
  "cycles_inv db \<Longrightarrow> cycle_step db db' \<Longrightarrow> lifecycle_step\<^sup>*\<^sup>* (lifecycle_of db) (lifecycle_of db')"
  using step_simulates by (auto simp: cycles_inv_def simulates_def)

lemma stranded_steps: "lifecycle_step\<^sup>*\<^sup>* a b \<Longrightarrow> protocol_ok a \<Longrightarrow> stranded a k \<Longrightarrow> stranded b k"
proof (induction rule: rtranclp_induct)
  case (step y z)
  then show ?case using protocol_ok_steps stranded_step by blast
qed

interpretation stranded_cycle: cycle_stable cycles_inv "\<lambda>db. stranded (lifecycle_of db) k" for k
proof unfold_locales
  fix db db'
  assume inv: "cycles_inv db" and p: "stranded (lifecycle_of db) k" and st: "cycle_step db db'"
  show "stranded (lifecycle_of db') k"
    by (rule stranded_steps [OF protocol_steps [OF inv st] _ p]) (use inv in \<open>simp add: cycles_inv_def\<close>)
qed

text \<open>A closed cycle stays closed under its generation.\<close>

definition closed_at :: "cycle_db \<Rightarrow> int \<Rightarrow> int \<Rightarrow> bool" where
  "closed_at db k g \<longleftrightarrow> lf_cycles (lifecycle_of db) k = Some (CycleClosed, g)"

lemma closed_steps:
  "lifecycle_step\<^sup>*\<^sup>* a b \<Longrightarrow> protocol_ok a \<Longrightarrow> lf_cycles a k = Some (CycleClosed, g) \<Longrightarrow>
     lf_cycles b k = Some (CycleClosed, g)"
proof (induction rule: rtranclp_induct)
  case (step y z)
  have "lf_cycles y k = Some (CycleClosed, g)" using step by blast
  with lifecycle_step_cycle [OF step.hyps(2) protocol_ok_steps [OF step.hyps(1) step.prems(1)]]
  show ?case by fastforce
qed

interpretation closed_cycle: cycle_stable cycles_inv "\<lambda>db. closed_at db k g" for k g
proof unfold_locales
  fix db db'
  assume inv: "cycles_inv db" and p: "closed_at db k g" and st: "cycle_step db db'"
  show "closed_at db' k g"
    using closed_steps [OF protocol_steps [OF inv st]] inv p by (simp add: cycles_inv_def closed_at_def)
qed

end
