(* ===== verification/Cycle_Promises.thy ===== *)
theory Cycle_Promises
  imports Cycle_Office
begin

text \<open>
  What the operating-cycle and budget plane promises, stated over its tables: exact accounts, the
  fence behind a frozen cost, generations that never come back, closed cycles that stay settled, the
  run that closes a quiet cycle, and the two ways in which a cycle can be left open for ever.
\<close>

section \<open>Runs of commands\<close>

fun cycle_run ::
  "(int \<times> expected_generation \<times> cycle_command) list \<Rightarrow> cycle_db \<Rightarrow> cycle_db option" where
  "cycle_run [] db = Some db"
| "cycle_run ((c, x, cmd) # rest) db =
     (if \<not> cycle_command_typed cmd then None
      else (case cycle_apply c x cmd db of
              (Inl _, _) \<Rightarrow> None
            | (Inr _, db') \<Rightarrow> cycle_run rest db'))"

lemma cycle_run_steps: "cycle_run xs db = Some db' \<Longrightarrow> cycle_step\<^sup>*\<^sup>* db db'"
proof (induction xs arbitrary: db)
  case (Cons a rest)
  obtain c x cmd where a: "a = (c, x, cmd)" by (cases a)
  with Cons.prems obtain ev db1 where ev: "cycle_command_typed cmd"
    "cycle_apply c x cmd db = (Inr ev, db1)" "cycle_run rest db1 = Some db'"
    by (auto split: if_splits prod.splits sum.splits)
  from cycle_step.accepted [OF ev(1,2)] Cons.IH [OF ev(3)] show ?case
    by (rule converse_rtranclp_into_rtranclp)
qed simp

lemma cycle_run_reachable: "cycle_run xs (empty_cycle_db e) = Some db \<Longrightarrow> cycle_reachable db"
  using cycle_run_steps cycle_reachable_steps cycle_reachable.initial by blast

section \<open>Consequences of the invariants\<close>

lemma reachable_lifecycle: "cycle_reachable db \<Longrightarrow> tables_ok db \<and> protocol_ok (lifecycle_of db)"
  using cycle_lifecycle.holds by (simp add: cycles_inv_def)

lemma unreconciled_exists:
  "tables_ok db \<Longrightarrow> select_pk (reservations db) r = Some v \<Longrightarrow> rs_state v \<noteq> ReservationReconciled \<Longrightarrow>
     unreconciled_reservation_count db (rs_cycle v) \<noteq> 0"
  by (auto simp: unreconciled_reservation_count_def count_where_zero_iff tables_okD)

lemma generation_steps:
  "lifecycle_step\<^sup>*\<^sup>* a b \<Longrightarrow> protocol_ok a \<Longrightarrow> lf_cycles a k = Some (s, g) \<Longrightarrow>
     \<exists>s' g'. lf_cycles b k = Some (s', g') \<and> g \<le> g' \<and> (s = CycleRunning \<and> s' \<noteq> CycleRunning \<longrightarrow> g < g')"
proof (induction rule: rtranclp_induct)
  case (step y z)
  then obtain s1 g1 where y: "lf_cycles y k = Some (s1, g1)" "g \<le> g1" "s = CycleRunning \<and> s1 \<noteq> CycleRunning \<longrightarrow> g < g1"
    by blast
  obtain s2 g2 where "lf_cycles z k = Some (s2, g2)" "g1 \<le> g2" "s1 = CycleRunning \<and> s2 \<noteq> CycleRunning \<longrightarrow> g2 = g1 + 1"
    using lifecycle_step_cycle [OF step.hyps(2) protocol_ok_steps [OF step.hyps(1) step.prems(1)] y(1)]
    by blast
  with y show ?case by (cases "s1 = CycleRunning") auto
qed auto

lemma protocol_path:
  "cycle_reachable db \<Longrightarrow> cycle_step\<^sup>*\<^sup>* db db' \<Longrightarrow> lifecycle_step\<^sup>*\<^sup>* (lifecycle_of db) (lifecycle_of db')"
proof (rotate_tac, induction rule: rtranclp_induct)
  case (step y z)
  then show ?case
    using protocol_steps [OF cycle_lifecycle.holds_after [of db y]] rtranclp_trans by fast
qed simp

text \<open>A cycle that is not terminal refuses every proposal.\<close>

lemma open_cycle_refuses_proposal:
  assumes "tables_ok db" "select_pk (cycles db) k = Some cy" "is_nonterminal (cy_state cy)"
  shows "isl (fst (propose_operating_cycle c treatment amount db))"
proof -
  have "exists_where (\<lambda>_ r. is_nonterminal (cy_state r)) (cycles db)"
    using assms by (intro exists_whereI)
  then show ?thesis
    by (auto simp: propose_operating_cycle_def split: sum.splits prod.splits)
qed

text \<open>The cycle a live turn or session belongs to is open.\<close>

lemma cycle_counts_zero:
  "tables_ok db \<Longrightarrow> unreconciled_reservation_count db k = 0 \<longleftrightarrow>
     (\<forall>i v. select_pk (reservations db) i = Some v \<longrightarrow> rs_cycle v = k \<longrightarrow> rs_state v = ReservationReconciled)"
  "tables_ok db \<Longrightarrow> active_cancellation_count db k = 0 \<longleftrightarrow>
     (\<forall>i n. select_pk (cancellations db) i = Some n \<longrightarrow> cn_cycle n = k \<longrightarrow> \<not> cancellation_active (cn_state n))"
  "tables_ok db \<Longrightarrow> live_office_session_count db k = 0 \<longleftrightarrow>
     (\<forall>i s. select_pk (sessions db) i = Some s \<longrightarrow> se_cycle s = k \<longrightarrow> \<not> session_live (se_state s))"
  by (auto simp: unreconciled_reservation_count_def active_cancellation_count_def
        live_office_session_count_def count_where_zero_iff tables_okD)

lemma active_turns_zero:
  assumes "tables_ok db" "office_ok db" "live_office_session_count db k = 0"
  shows "active_office_turn_count db k = 0"
proof -
  have "\<not> (tu_state u = TurnActive \<and> (case select_pk (sessions db) (tu_session u) of
      None \<Rightarrow> False | Some s \<Rightarrow> se_cycle s = k))" if "select_pk (turns db) t = Some u" for t u
    using assms that
    by (auto simp: cycle_counts_zero office_ok_def turns_held_def session_live_def split: option.splits)
      fastforce
  then show ?thesis using assms(1) by (simp add: active_office_turn_count_def count_where_zero_iff tables_okD)
qed

lemma closed_reservation:
  "protocol_ok a \<Longrightarrow> lf_cycles a k = Some (CycleClosed, g) \<Longrightarrow> lf_reservations a i = Some (k, r) \<Longrightarrow>
     r = ReservationReconciled"
  by (drule (2) lifecycle_fits) (cases r, simp_all add: reservation_fits_def)

lemma no_cancellation_unless_stopping:
  assumes "cycle_reachable db" "select_pk (cycles db) k = Some cy" "cy_state cy \<notin> {Cancelling, Quiescing}"
  shows "active_cancellation_count db k = 0"
  using reachable_lifecycle [OF assms(1)] assms(2,3) lifecycle_cancels [of "lifecycle_of db" _ k]
  by (auto simp: cycle_counts_zero lifecycle_of_def)

section \<open>Scenarios\<close>

text \<open>
  What the rest of the kernel provides in the scenarios: a founding mission, office and occupancy, a
  recorded hard ceiling and no work outside these tables; in the last scenario the Office session also
  has a ready child.
\<close>

definition founding_env :: cycle_env where
  "founding_env = \<lparr>ce_mission = (\<lambda>_. Some 1), ce_office = Some 1, ce_occupancy = Some 1,
     ce_hard_ceiling = Some 1000000, ce_live_attempts = (\<lambda>_. 0), ce_active_leases = (\<lambda>_. 0),
     ce_live_children = (\<lambda>_. 0), ce_undisposed_workspaces = (\<lambda>_. 0), ce_spawn_admission = (\<lambda>_. None),
     ce_child_ready = (\<lambda>_. False), ce_cycle_has_child = (\<lambda>_. False),
     ce_propagation_reconciled = (\<lambda>_. False), ce_office_parent = (\<lambda>_. False),
     ce_settlement = (\<lambda>_ _. None), ce_authorized_generation = (\<lambda>_. None),
     ce_child_live = (\<lambda>_. False), ce_profile_unqualified = True, ce_epoch = (\<lambda>_ _. True)\<rparr>"

definition busy_env :: cycle_env where
  "busy_env = founding_env\<lparr>ce_spawn_admission := (\<lambda>_. Some 1), ce_child_ready := (\<lambda>_. True)\<rparr>"

definition admitted_run :: "(int \<times> expected_generation \<times> cycle_command) list" where
  "admitted_run =
     [(1, NotApplicable, CreateSocietyIdentity ''society''), (2, NotApplicable, BootstrapSociety),
      (3, NotApplicable, ProposeOperatingCycle PinnedPiSdkLiveV1 500000),
      (4, Exact 0, AdmitOperatingCycle 1)]"

definition reserved_run :: "(int \<times> expected_generation \<times> cycle_command) list" where
  "reserved_run = admitted_run @
     [(5, Exact 0, StartRootAuthorityOfficeSession 1), (6, Exact 0, ReserveBudget 1 1000)]"

definition reconciling_run :: "(int \<times> expected_generation \<times> cycle_command) list" where
  "reconciling_run = reserved_run @
     [(7, Exact 0, QuiesceOperatingCycle 1), (8, Exact 1, RecordOfficeSessionTerminal 1 SessionTerminalFailed),
      (9, NotApplicable, RecordCycleDrained 1), (10, Exact 1, ReconcileOperatingCycle 1)]"

definition frozen_run :: "(int \<times> expected_generation \<times> cycle_command) list" where
  "frozen_run = reconciling_run @ [(11, NotApplicable, ReconcileBudget 1 (CostUnknown ProviderDidNotReport))]"

definition stranded_run :: "(int \<times> expected_generation \<times> cycle_command) list" where
  "stranded_run = frozen_run @ [(12, NotApplicable, ReconcileCancellation 1)]"

definition closed_run :: "(int \<times> expected_generation \<times> cycle_command) list" where
  "closed_run = reconciling_run @
     [(11, NotApplicable, ReconcileBudget 1 (CostKnown 400)), (12, Exact 1, CloseOperatingCycle 1)]"

definition started_run :: "(int \<times> expected_generation \<times> cycle_command) list" where
  "started_run = admitted_run @ [(5, Exact 0, StartRootAuthorityOfficeSession 1)]"

definition stopping_run :: "(int \<times> expected_generation \<times> cycle_command) list" where
  "stopping_run = [(6, Exact 0, QuiesceOperatingCycle 1)]"

definition resuming_run :: "(int \<times> expected_generation \<times> cycle_command) list" where
  "resuming_run = [(7, NotApplicable, RecordCycleDrained 1), (8, Exact 1, ResumeOperatingCycle 1)]"

definition overtaken_run :: "(int \<times> expected_generation \<times> cycle_command) list" where
  "overtaken_run = reserved_run @
     [(7, Exact 0, RecordOfficeSessionReady 1), (8, Exact 0, OpenOfficeTurn 1 OrdinaryWork),
      (9, Exact 0, RequestCancellation 1 GracefulCancel)]"

text \<open>The states these runs reach.\<close>

definition after_run :: "cycle_env \<Rightarrow> (int \<times> expected_generation \<times> cycle_command) list \<Rightarrow> cycle_db" where
  "after_run e xs = (case cycle_run xs (empty_cycle_db e) of None \<Rightarrow> empty_cycle_db e | Some db \<Rightarrow> db)"

lemma after_run_reachable: "cycle_reachable (after_run e xs)"
  by (auto simp: after_run_def intro: cycle_reachable.initial cycle_run_reachable split: option.split)

lemma cycle_run_append:
  "cycle_run (xs @ ys) db = (case cycle_run xs db of None \<Rightarrow> None | Some db' \<Rightarrow> cycle_run ys db')"
proof (induction xs arbitrary: db)
  case (Cons a xs)
  then show ?case by (cases a) (simp split: prod.split sum.split)
qed simp

lemma after_run_append:
  assumes "cycle_run (xs @ ys) (empty_cycle_db e) \<noteq> None"
  shows "cycle_step\<^sup>*\<^sup>* (after_run e xs) (after_run e (xs @ ys))"
  using assms cycle_run_steps by (auto simp: after_run_def cycle_run_append split: option.splits)

section \<open>Promises\<close>

text \<open>
  C16: the budget accounts are exact.  Of every envelope, that of the society and that of each cycle,
  the reserved column is what its live reservations still hold, the spent column is what its
  reservations have been charged, and both together stay within the ceiling but for the known
  overruns that a closed postmortem charged in full.
\<close>

theorem budget_accounts_exact:
  assumes "cycle_reachable db" "select_pk (constraints db) i = Some ct"
  shows "\<exists>en. select_pk (envelopes db) (ct_envelope ct) = Some en
     \<and> en_reserved en = outstanding db (ct_scope ct) \<and> en_spent en = charged_to db (ct_scope ct)
     \<and> en_reserved en + en_spent en \<le> en_ceiling en + overrun db (ct_scope ct)"
proof -
  have "accounts_inv db" using cycle_budget.holds [OF assms(1)] by (simp add: budget_inv_def books_ok_def)
  moreover have "envelope_for db (ct_scope ct) (ct_envelope ct)" using assms(2) by (auto simp: envelope_for_def)
  ultimately show ?thesis using accounts_envelopeD by (fastforce simp: balanced_def)
qed

theorem budget_accounts_exact_witness:
  "\<exists>en. select_pk (envelopes (after_run founding_env closed_run)) 2 = Some en
     \<and> en_reserved en = outstanding (after_run founding_env closed_run) (CycleScope 1)
     \<and> en_spent en = charged_to (after_run founding_env closed_run) (CycleScope 1)
     \<and> en_reserved en + en_spent en
         \<le> en_ceiling en + overrun (after_run founding_env closed_run) (CycleScope 1)"
proof -
  have "select_pk (constraints (after_run founding_env closed_run)) 2
      = Some \<lparr>ct_envelope = 2, ct_scope = CycleScope 1\<rparr>"
    by code_simp
  from budget_accounts_exact [OF after_run_reachable this] show ?thesis by simp
qed

text \<open>
  C17: the tables refine the lifecycle protocol.  Every step of the kernel is a sequence of protocol
  steps on the abstract lifecycle, and in every reachable state the protocol's invariant holds: a
  cancelling cycle has its one pending cancellation, a live reservation sits in a cycle that may
  carry it, and at most one cycle is open.
\<close>

theorem cycle_refines_protocol:
  assumes "cycle_reachable db" "cycle_step db db'"
  shows "lifecycle_step\<^sup>*\<^sup>* (lifecycle_of db) (lifecycle_of db') \<and> protocol_ok (lifecycle_of db')"
  using protocol_steps [OF cycle_lifecycle.holds [OF assms(1)] assms(2)]
    reachable_lifecycle [OF cycle_reachable.step [OF assms]] by blast

theorem cycle_refines_protocol_witness:
  "lifecycle_step\<^sup>*\<^sup>* (lifecycle_of (empty_cycle_db founding_env))
     (lifecycle_of (snd (cycle_apply 1 NotApplicable (CreateSocietyIdentity ''a'') (empty_cycle_db founding_env))))
   \<and> protocol_ok
     (lifecycle_of (snd (cycle_apply 1 NotApplicable (CreateSocietyIdentity ''a'') (empty_cycle_db founding_env))))"
proof (rule cycle_refines_protocol [OF cycle_reachable.initial cycle_step.accepted])
  show "cycle_command_typed (CreateSocietyIdentity ''a'')" by code_simp
  show "cycle_apply 1 NotApplicable (CreateSocietyIdentity ''a'') (empty_cycle_db founding_env) =
      (Inr (SocietyIdentityCreated 1),
       snd (cycle_apply 1 NotApplicable (CreateSocietyIdentity ''a'') (empty_cycle_db founding_env)))"
    by (simp add: prod_eq_iff) code_simp
qed

text \<open>
  C18: a frozen cost fences its cycle.  While a reservation is frozen its cycle is stopping, stopped
  or being reconciled; no budget is reserved in it, it is neither resumed nor closed, and no other
  cycle is proposed.
\<close>

theorem frozen_cost_fences_cycle:
  assumes "cycle_reachable db" "select_pk (reservations db) r = Some v" "rs_state v = ReservationFrozen"
  shows "(\<exists>cy. select_pk (cycles db) (rs_cycle v) = Some cy
       \<and> cy_state cy \<in> {Quiescing, Drained, Reconciling, Cancelling})
     \<and> isl (fst (reserve_budget c x (rs_cycle v) amount db))
     \<and> isl (fst (resume_cycle c x (rs_cycle v) db)) \<and> isl (fst (close_cycle c x (rs_cycle v) db))
     \<and> isl (fst (propose_operating_cycle c treatment amount db))"
proof -
  have ok: "tables_ok db" and life: "protocol_ok (lifecycle_of db)"
    using reachable_lifecycle [OF assms(1)] by auto
  obtain cy where cy: "select_pk (cycles db) (rs_cycle v) = Some cy"
    "cy_state cy \<in> {Quiescing, Drained, Reconciling, Cancelling}"
    using lifecycle_reservationD [OF life, of r "rs_cycle v" ReservationFrozen] assms(2,3)
    by (auto simp: lifecycle_of_def reservation_fits_def)
  have count: "unreconciled_reservation_count db (rs_cycle v) \<noteq> 0"
    using unreconciled_exists [OF ok assms(2)] assms(3) by simp
  have "isl (fst (propose_operating_cycle c treatment amount db))"
    by (rule open_cycle_refuses_proposal [OF ok cy(1)]) (use cy(2) in \<open>auto simp: is_nonterminal_def\<close>)
  moreover have "isl (fst (reserve_budget c x (rs_cycle v) amount db))"
    using cy by (auto simp: reserve_budget_def cycle_for_generation_def cycle_row_of_def admits_task_work_def
        split: sum.splits if_splits expected_generation.splits)
  moreover have "isl (fst (resume_cycle c x (rs_cycle v) db))"
    using count by (simp add: resume_cycle_def split: sum.split)
  moreover have "isl (fst (close_cycle c x (rs_cycle v) db))"
    using count by (simp add: close_cycle_def split: sum.split)
  ultimately show ?thesis using cy by blast
qed

theorem frozen_cost_fences_cycle_witness:
  "(\<exists>cy. select_pk (cycles (after_run founding_env frozen_run)) 1 = Some cy
       \<and> cy_state cy \<in> {Quiescing, Drained, Reconciling, Cancelling})
     \<and> isl (fst (reserve_budget 13 (Exact 2) 1 10 (after_run founding_env frozen_run)))
     \<and> isl (fst (resume_cycle 13 (Exact 2) 1 (after_run founding_env frozen_run)))
     \<and> isl (fst (close_cycle 13 (Exact 2) 1 (after_run founding_env frozen_run)))
     \<and> isl (fst (propose_operating_cycle 13 PinnedPiSdkLiveV1 10 (after_run founding_env frozen_run)))"
proof -
  have "select_pk (reservations (after_run founding_env frozen_run)) 1
      = Some \<lparr>rs_cycle = 1, rs_amount = 1000, rs_charged = 0, rs_state = ReservationFrozen, rs_by = 6,
          rs_reconciled = None\<rparr>"
    by code_simp
  from frozen_cost_fences_cycle [OF after_run_reachable this] show ?thesis by simp
qed

text \<open>
  A generation that was left never comes back: once a running cycle has stopped running, the generation
  it then had is stale for the cycle whatever happens later, a resumption included.
\<close>

lemma left_generation_stale:
  assumes "cycle_reachable db" "select_pk (cycles db) k = Some cy" "cy_state cy = CycleRunning"
    and "cycle_step\<^sup>*\<^sup>* db db1" "select_pk (cycles db1) k = Some cy1" "cy_state cy1 \<noteq> CycleRunning"
    and "cycle_step\<^sup>*\<^sup>* db1 db2"
  shows "cycle_for_generation db2 k (Exact (cy_generation cy)) = Inl StaleAdmissionGeneration"
proof -
  have r1: "cycle_reachable db1" by (rule cycle_reachable_steps [OF assms(4,1)])
  have "cy_generation cy < cy_generation cy1"
    using generation_steps [OF protocol_path [OF assms(1,4)], of k CycleRunning "cy_generation cy"]
      reachable_lifecycle [OF assms(1)] assms(2,3,5,6) by (auto simp: lifecycle_of_def)
  moreover obtain cy2 where "select_pk (cycles db2) k = Some cy2" "cy_generation cy1 \<le> cy_generation cy2"
    using generation_steps [OF protocol_path [OF r1 assms(7)], of k "cy_state cy1" "cy_generation cy1"]
      reachable_lifecycle [OF r1] assms(5) by (auto simp: lifecycle_of_def)
  ultimately show ?thesis by (simp add: cycle_for_generation_def cycle_row_of_def)
qed

text \<open>
  C20: a closed cycle is settled for good.  It stays closed under the generation it was closed with, and
  in every later state it has no live reservation, no pending cancellation, no live Office session and
  no active turn.
\<close>

theorem closed_cycle_stays_settled:
  assumes "cycle_reachable db" "select_pk (cycles db) k = Some cy" "cy_state cy = CycleClosed"
    and "cycle_step\<^sup>*\<^sup>* db db'"
  shows "(\<exists>cy'. select_pk (cycles db') k = Some cy' \<and> cy_state cy' = CycleClosed
       \<and> cy_generation cy' = cy_generation cy)
     \<and> unreconciled_reservation_count db' k = 0 \<and> active_cancellation_count db' k = 0
     \<and> live_office_session_count db' k = 0 \<and> active_office_turn_count db' k = 0"
proof -
  have r: "cycle_reachable db'" by (rule cycle_reachable_steps [OF assms(4,1)])
  have ok: "tables_ok db'" and life: "protocol_ok (lifecycle_of db')" and office: "office_ok db'"
    using reachable_lifecycle [OF r] cycle_office.holds [OF r] by (auto simp: office_inv_def)
  obtain cy' where cy': "select_pk (cycles db') k = Some cy'" "cy_state cy' = CycleClosed"
    "cy_generation cy' = cy_generation cy"
    using closed_cycle.forever [OF assms(1) _ assms(4), of k "cy_generation cy"] assms(2,3)
    by (auto simp: closed_at_def lifecycle_of_def)
  have "unreconciled_reservation_count db' k = 0"
    using closed_reservation [OF life, of k "cy_generation cy'"] cy'
    by (auto simp: cycle_counts_zero [OF ok] lifecycle_of_def)
  moreover have sessions: "live_office_session_count db' k = 0"
    using office cy' by (fastforce simp: cycle_counts_zero [OF ok] office_ok_def sessions_open_def is_nonterminal_def)
  ultimately show ?thesis
    using cy' no_cancellation_unless_stopping [OF r cy'(1)] active_turns_zero [OF ok office sessions] by simp
qed

theorem closed_cycle_stays_settled_witness:
  "(\<exists>cy. select_pk (cycles (after_run founding_env closed_run)) 1 = Some cy \<and> cy_state cy = CycleClosed
       \<and> cy_generation cy = 1)
     \<and> unreconciled_reservation_count (after_run founding_env closed_run) 1 = 0
     \<and> active_cancellation_count (after_run founding_env closed_run) 1 = 0
     \<and> live_office_session_count (after_run founding_env closed_run) 1 = 0
     \<and> active_office_turn_count (after_run founding_env closed_run) 1 = 0"
proof -
  have "select_pk (cycles (after_run founding_env closed_run)) 1 = Some \<lparr>cy_society = 1, cy_mission = 1,
      cy_occupancy = 1, cy_treatment = PinnedPiSdkLiveV1, cy_ceiling = 500000, cy_state = CycleClosed,
      cy_generation = 1, cy_proposed = 3, cy_last = 12\<rparr>"
    by code_simp
  from closed_cycle_stays_settled [OF after_run_reachable this _ rtranclp.rtrancl_refl]
  show ?thesis by simp
qed

text \<open>The four commands that close a cycle, and the tables they leave.\<close>

definition closing_run ::
  "int \<Rightarrow> int \<Rightarrow> int \<Rightarrow> (int \<times> expected_generation \<times> cycle_command) list" where
  "closing_run c k g =
     [(c, Exact g, QuiesceOperatingCycle k), (c + 1, NotApplicable, RecordCycleDrained k),
      (c + 2, Exact (g + 1), ReconcileOperatingCycle k), (c + 3, Exact (g + 1), CloseOperatingCycle k)]"

definition closed_tables :: "int \<Rightarrow> int \<Rightarrow> int \<Rightarrow> (int, cycle_reconciliation_row) table \<Rightarrow> cycle_db \<Rightarrow> cycle_db" where
  "closed_tables c k g t db =
     (transition_cycle (c + 3) k CycleClosed g (transition_cycle (c + 2) k Reconciling g
       (transition_cycle (c + 1) k Drained g (transition_cycle c k Quiescing g db))))
       \<lparr>cycle_reconciliations := update_pk k (\<lambda>r. r\<lparr>cr_closed := Some (c + 3)\<rparr>) t\<rparr>"

lemma transition_counts [simp]:
  "active_office_turn_count (transition_cycle c k s g db) j = active_office_turn_count db j"
  "live_office_session_count (transition_cycle c k s g db) j = live_office_session_count db j"
  "unreconciled_reservation_count (transition_cycle c k s g db) j = unreconciled_reservation_count db j"
  "active_cancellation_count (transition_cycle c k s g db) j = active_cancellation_count db j"
  "no_owned_execution (transition_cycle c k s g db) j = no_owned_execution db j"
  "cycle_reconciliations (transition_cycle c k s g db) = cycle_reconciliations db"
  by (simp_all add: transition_cycle_def active_office_turn_count_def live_office_session_count_def
        unreconciled_reservation_count_def active_cancellation_count_def no_owned_execution_def)

lemma reconciliation_counts [simp]:
  "active_office_turn_count (db\<lparr>cycle_reconciliations := t\<rparr>) j = active_office_turn_count db j"
  "live_office_session_count (db\<lparr>cycle_reconciliations := t\<rparr>) j = live_office_session_count db j"
  "unreconciled_reservation_count (db\<lparr>cycle_reconciliations := t\<rparr>) j = unreconciled_reservation_count db j"
  "active_cancellation_count (db\<lparr>cycle_reconciliations := t\<rparr>) j = active_cancellation_count db j"
  "no_owned_execution (db\<lparr>cycle_reconciliations := t\<rparr>) j = no_owned_execution db j"
  by (simp_all add: active_office_turn_count_def live_office_session_count_def
        unreconciled_reservation_count_def active_cancellation_count_def no_owned_execution_def)

lemma transition_reconciliations:
  "transition_cycle c k s g (db\<lparr>cycle_reconciliations := t\<rparr>)
     = (transition_cycle c k s g db)\<lparr>cycle_reconciliations := t\<rparr>"
  by (simp add: transition_cycle_def)

lemma transition_cycle_row:
  "select_pk (cycles (transition_cycle c k s g db)) k
     = map_option (\<lambda>r. r\<lparr>cy_state := s, cy_generation := g, cy_last := c\<rparr>) (select_pk (cycles db) k)"
  by (simp add: transition_cycle_def select_pk_update_pk)

lemma closing_run_accepted:
  assumes "select_pk (cycles db) k = Some cy" "cy_state cy \<in> {CycleAdmitted, CycleRunning}"
    and "in_i64 (cy_generation cy + 1)" "active_office_turn_count db k = 0" "live_office_session_count db k = 0"
    and "unreconciled_reservation_count db k = 0" "active_cancellation_count db k = 0" "no_owned_execution db k"
    and "select_pk (cycle_reconciliations db) k = None"
  shows "\<exists>t. cycle_run (closing_run c k (cy_generation cy)) db = Some (closed_tables c k (cy_generation cy + 1) t db)"
proof -
  obtain t where t: "insert_key True k \<lparr>cr_started = c + 2, cr_closed = None\<rparr> (cycle_reconciliations db) = Some t"
    using assms(9) by (auto simp: insert_key_def)
  show ?thesis
    by (rule exI [of _ t])
      (use assms t in \<open>auto simp: closing_run_def closed_tables_def cycle_command_typed_def cycle_apply_def
        carries_generation_def cycle_dispatch_def quiesce_cycle_def record_cycle_drained_def
        begin_reconciliation_def close_cycle_def cycle_for_generation_def cycle_row_of_def
        increment_generation_Some transition_cycle_row transition_reconciliations Let_def split: option.split\<close>)
qed

lemma closed_tables_row:
  "select_pk (cycles (closed_tables c k g t db)) j = (if j = k
     then map_option (\<lambda>r. r\<lparr>cy_state := CycleClosed, cy_generation := g, cy_last := c + 3\<rparr>) (select_pk (cycles db) j)
     else select_pk (cycles db) j)"
  by (cases "j = k"; cases "select_pk (cycles db) k")
    (simp_all add: closed_tables_def transition_cycle_def select_pk_update_pk)

text \<open>The transitions of the closing run are accepted on a quiet cycle, and afterwards no cycle is open.\<close>

lemma quiet_cycle_closing_run:
  assumes "cycle_reachable db" "select_pk (cycles db) k = Some cy" "cy_state cy \<in> {CycleAdmitted, CycleRunning}"
    and "in_i64 (cy_generation cy + 1)" "live_office_session_count db k = 0"
    and "unreconciled_reservation_count db k = 0" "no_owned_execution db k"
    and "select_pk (cycle_reconciliations db) k = None"
  shows "\<exists>db'. cycle_run (closing_run c k (cy_generation cy)) db = Some db'
     \<and> (\<exists>cy'. select_pk (cycles db') k = Some cy' \<and> cy_state cy' = CycleClosed)
     \<and> \<not> exists_where (\<lambda>_ r. is_nonterminal (cy_state r)) (cycles db')"
proof -
  have ok: "tables_ok db" and office: "office_ok db"
    using cycle_office.holds [OF assms(1)] by (auto simp: office_inv_def cycles_inv_def)
  have cancels: "active_cancellation_count db k = 0"
    by (rule no_cancellation_unless_stopping [OF assms(1,2)]) (use assms(3) in auto)
  obtain t where run: "cycle_run (closing_run c k (cy_generation cy)) db
      = Some (closed_tables c k (cy_generation cy + 1) t db)"
    using closing_run_accepted [OF assms(2-4) active_turns_zero [OF ok office assms(5)] assms(5,6)
        cancels assms(7,8)] by blast
  have others: "\<not> is_nonterminal (cy_state r)" if "select_pk (cycles db) j = Some r" "j \<noteq> k" for j r
  proof
    assume "is_nonterminal (cy_state r)"
    then have "j = k"
      using lifecycle_one_cycleD [of "lifecycle_of db" j "cy_state r" "cy_generation r" k "cy_state cy"]
        reachable_lifecycle [OF assms(1)] assms(2,3) that(1) by (auto simp: lifecycle_of_def is_nonterminal_def)
    with that(2) show False ..
  qed
  note closed = closed_tables_row [of c k _ _ db]
  have "wf_table (cycles (closed_tables c k (cy_generation cy + 1) t db))"
    using tables_okD(1) [OF ok] by (simp add: closed_tables_def transition_cycle_def)
  then have "\<not> exists_where (\<lambda>_ r. is_nonterminal (cy_state r)) (cycles (closed_tables c k (cy_generation cy + 1) t db))"
    using others by (auto simp: exists_where_iff closed is_nonterminal_def split: if_splits)
  with run closed assms(2) show ?thesis by auto
qed

text \<open>
  C22: a cycle whose reconciliation was interrupted is never closed.  The cost of a reservation may
  turn out unknown while its cycle is reconciling, which sends the cycle back to cancelling; its
  reconciliation cannot begin a second time, so in every later state it is still open, both its
  reconciliation and its closing are refused, and no other cycle can ever be proposed.
\<close>

theorem interrupted_reconciliation_strands_cycle:
  assumes "cycle_reachable db" "select_pk (cycle_reconciliations db) k \<noteq> None"
    and "select_pk (cycles db) k = Some cy" "is_nonterminal (cy_state cy)" "cy_state cy \<noteq> Reconciling"
    and "cycle_step\<^sup>*\<^sup>* db db'"
  shows "(\<exists>cy'. select_pk (cycles db') k = Some cy' \<and> is_nonterminal (cy_state cy'))
     \<and> isl (fst (begin_reconciliation c x k db')) \<and> isl (fst (close_cycle c x k db'))
     \<and> isl (fst (propose_operating_cycle c treatment amount db'))"
proof -
  have ok: "tables_ok db'" by (simp add: reachable_lifecycle [OF cycle_reachable_steps [OF assms(6,1)]])
  have "stranded (lifecycle_of db') k"
    by (rule stranded_cycle.forever [OF assms(1) _ assms(6)])
      (use assms(2-5) in \<open>auto simp: stranded_def lifecycle_of_def\<close>)
  then obtain cy' where cy': "select_pk (cycles db') k = Some cy'" "is_nonterminal (cy_state cy')"
      "cy_state cy' \<noteq> Reconciling" and again: "select_pk (cycle_reconciliations db') k \<noteq> None"
    by (auto simp: stranded_def lifecycle_of_def)
  have "insert_key True k r (cycle_reconciliations db') = None" for r
    using again by (auto simp: insert_key_def split: option.splits)
  then have "isl (fst (begin_reconciliation c x k db'))"
    by (simp add: begin_reconciliation_def Let_def split: sum.split)
  moreover have "isl (fst (close_cycle c x k db'))"
    using cy' by (simp add: close_cycle_def cycle_for_generation_def cycle_row_of_def
        split: expected_generation.split)
  ultimately show ?thesis using cy' open_cycle_refuses_proposal [OF ok cy'(1,2)] by blast
qed

theorem interrupted_reconciliation_strands_cycle_witness:
  "(\<exists>cy. select_pk (cycles (after_run founding_env stranded_run)) 1 = Some cy \<and> is_nonterminal (cy_state cy))
     \<and> isl (fst (begin_reconciliation 13 (Exact 2) 1 (after_run founding_env stranded_run)))
     \<and> isl (fst (close_cycle 13 (Exact 2) 1 (after_run founding_env stranded_run)))
     \<and> isl (fst (propose_operating_cycle 13 PinnedPiSdkLiveV1 10 (after_run founding_env stranded_run)))"
proof -
  have "select_pk (cycle_reconciliations (after_run founding_env stranded_run)) 1 \<noteq> None"
    "select_pk (cycles (after_run founding_env stranded_run)) 1 = Some \<lparr>cy_society = 1, cy_mission = 1,
      cy_occupancy = 1, cy_treatment = PinnedPiSdkLiveV1, cy_ceiling = 500000, cy_state = Drained,
      cy_generation = 2, cy_proposed = 3, cy_last = 12\<rparr>"
    by code_simp+
  from interrupted_reconciliation_strands_cycle [OF after_run_reachable this _ _ rtranclp.rtrancl_refl]
  show ?thesis by (simp add: is_nonterminal_def)
qed

text \<open>
  C23: a turn that a cancellation overtakes is never settled.  An Office turn that is active when its
  cycle is cancelling stays active; in every later state the turn's settlement and the cancellation's
  reconciliation are refused, the cycle stays cancelling, and no other cycle can ever be proposed.
\<close>

theorem overtaken_turn_blocks_cancellation:
  assumes "cycle_reachable db" "select_pk (turns db) t = Some u" "tu_state u = TurnActive"
    and "select_pk (sessions db) (tu_session u) = Some s"
    and "select_pk (cycles db) (se_cycle s) = Some cy" "cy_state cy = Cancelling"
    and "cycle_step\<^sup>*\<^sup>* db db'" and "select_pk (cancellations db') i = Some n" "cn_cycle n = se_cycle s"
  shows "(\<exists>u'. select_pk (turns db') t = Some u' \<and> tu_state u' = TurnActive)
     \<and> (\<exists>cy'. select_pk (cycles db') (se_cycle s) = Some cy' \<and> cy_state cy' = Cancelling)
     \<and> isl (fst (settle_office_turn c t receipt db')) \<and> isl (fst (reconcile_cancellation c i db'))
     \<and> isl (fst (propose_operating_cycle c treatment amount db'))"
proof -
  have ok: "tables_ok db'" by (simp add: reachable_lifecycle [OF cycle_reachable_steps [OF assms(7,1)]])
  have "overtaken db' t (se_cycle s)"
    by (rule overtaken_turn.forever [OF assms(1) _ assms(7)])
      (use assms(2-6) in \<open>auto simp: overtaken_def cancelling_def\<close>)
  then obtain u' s' cy' where u': "select_pk (turns db') t = Some u'" "tu_state u' = TurnActive"
      and s': "select_pk (sessions db') (tu_session u') = Some s'" "se_cycle s' = se_cycle s"
      and cy': "select_pk (cycles db') (se_cycle s) = Some cy'" "cy_state cy' = Cancelling"
    by (auto simp: overtaken_def cancelling_def)
  have "active_office_turn_count db' (se_cycle s) \<noteq> 0"
    using u' s' by (force simp: active_office_turn_count_def count_where_zero_iff tables_okD [OF ok])
  then have "isl (fst (reconcile_cancellation c i db'))"
    using assms(8,9) cy' by (simp add: reconcile_cancellation_def cycle_row_of_def)
  moreover have "isl (fst (settle_office_turn c t receipt db'))"
    using u' s' cy' by (simp add: settle_office_turn_def turn_settleable_def split: option.split)
  ultimately show ?thesis
    using u' cy' open_cycle_refuses_proposal [OF ok cy'(1)] by (simp add: is_nonterminal_def)
qed

theorem overtaken_turn_blocks_cancellation_witness:
  "(\<exists>u. select_pk (turns (after_run busy_env overtaken_run)) 1 = Some u \<and> tu_state u = TurnActive)
     \<and> (\<exists>cy. select_pk (cycles (after_run busy_env overtaken_run)) 1 = Some cy \<and> cy_state cy = Cancelling)
     \<and> isl (fst (settle_office_turn 10 1 1 (after_run busy_env overtaken_run)))
     \<and> isl (fst (reconcile_cancellation 10 1 (after_run busy_env overtaken_run)))
     \<and> isl (fst (propose_operating_cycle 10 PinnedPiSdkLiveV1 10 (after_run busy_env overtaken_run)))"
proof -
  have rows: "select_pk (turns (after_run busy_env overtaken_run)) 1 = Some \<lparr>tu_session = 1,
      tu_state = TurnActive, tu_purpose = OrdinaryWork, tu_opened = 8, tu_settled = None\<rparr>"
    "select_pk (sessions (after_run busy_env overtaken_run)) 1 = Some \<lparr>se_cycle = 1, se_occupancy = 1,
      se_state = SessionTurnActive, se_started = 5, se_last = 8\<rparr>"
    "select_pk (cycles (after_run busy_env overtaken_run)) 1 = Some \<lparr>cy_society = 1, cy_mission = 1,
      cy_occupancy = 1, cy_treatment = PinnedPiSdkLiveV1, cy_ceiling = 500000, cy_state = Cancelling,
      cy_generation = 1, cy_proposed = 3, cy_last = 9\<rparr>"
    "select_pk (cancellations (after_run busy_env overtaken_run)) 1 = Some \<lparr>cn_cycle = 1,
      cn_mode = GracefulCancel, cn_state = CancellationAccepted, cn_generation = 0, cn_by = 9,
      cn_reconciled = None\<rparr>"
    by code_simp+
  show ?thesis
    using overtaken_turn_blocks_cancellation [OF after_run_reachable rows(1) _ _ _ _ rtranclp.rtrancl_refl rows(4)]
      rows(2,3) by simp
qed

end
