(* ===== verification/Cycle_Requests.thy ===== *)
theory Cycle_Requests
  imports Cycle_Promises Ledger
begin

text \<open>
  Requests on the operating-cycle plane as \<open>apply_command\<close> of \<^verbatim>\<open>store.rs\<close> sees them: the capability of
  each command, the Office occupancy it targets, the fence around qualification cycles, the grant of
  the principal, and only then the transition.  An accepted request is a step of the plane, a request
  under a generation its cycle has left is never accepted, and the kernel can close a quiet cycle with
  the grants its schema seeds.
\<close>

section \<open>What a command asks for\<close>

text \<open>\<open>CommandBody::required_capability\<close>.\<close>

definition cycle_capability :: "cycle_command \<Rightarrow> int" where
  "cycle_capability cmd = (case cmd of
     CreateSocietyIdentity _ \<Rightarrow> 1
   | SetR0HardCeiling _ \<Rightarrow> 5
   | BootstrapSociety \<Rightarrow> 6
   | ProposeOperatingCycle _ _ \<Rightarrow> 7
   | AdmitOperatingCycle _ \<Rightarrow> 8
   | StartRootAuthorityOfficeSession _ \<Rightarrow> 13
   | StartNativeExecutionProfileQualification _ \<Rightarrow> 115
   | ClaimNativeExecutionProfileQualificationLaunch _ _ _ _ _ _ \<Rightarrow> 117
   | RecordOfficeSessionReady _ \<Rightarrow> 19
   | RecordOfficeSessionTerminal _ _ \<Rightarrow> 22
   | OpenOfficeTurn _ _ \<Rightarrow> 14
   | SettleOfficeTurn _ _ \<Rightarrow> 20
   | QuiesceOperatingCycle _ \<Rightarrow> 9
   | RecordCycleDrained _ \<Rightarrow> 18
   | ResumeOperatingCycle _ \<Rightarrow> 10
   | ReconcileOperatingCycle _ \<Rightarrow> 11
   | CloseOperatingCycle _ \<Rightarrow> 12
   | ReserveBudget _ _ \<Rightarrow> 16
   | ReconcileBudget _ _ \<Rightarrow> 17
   | RequestCancellation _ _ \<Rightarrow> 15
   | ReconcileCancellation _ \<Rightarrow> 21
   | CloseCostPostmortem _ _ \<Rightarrow> 23)"

definition session_occupancy_id :: "cycle_db \<Rightarrow> int \<Rightarrow> rejection + int" where
  "session_occupancy_id db s =
     (case Option.bind (select_pk (sessions db) s) (\<lambda>r. study_identifier_new (se_occupancy r)) of
        None \<Rightarrow> Inl SubjectNotFound | Some o' \<Rightarrow> Inr o')"

text \<open>The occupancy an actor's grant has to hang on.\<close>

definition cycle_occupancy :: "cycle_db \<Rightarrow> int \<Rightarrow> rejection + int option" where
  "cycle_occupancy db k = map_sum id (\<lambda>r. Some (cy_occupancy r)) (cycle_row_of db k)"

definition command_target_occupancy :: "cycle_db \<Rightarrow> cycle_command \<Rightarrow> rejection + int option" where
  "command_target_occupancy db cmd = (case cmd of
     ProposeOperatingCycle _ _ \<Rightarrow>
       map_sum id (\<lambda>(_, _, occupancy, _). Some occupancy) (bootstrapped_constitution db)
   | AdmitOperatingCycle k \<Rightarrow> cycle_occupancy db k
   | StartRootAuthorityOfficeSession k \<Rightarrow> cycle_occupancy db k
   | QuiesceOperatingCycle k \<Rightarrow> cycle_occupancy db k
   | ResumeOperatingCycle k \<Rightarrow> cycle_occupancy db k
   | ReconcileOperatingCycle k \<Rightarrow> cycle_occupancy db k
   | CloseOperatingCycle k \<Rightarrow> cycle_occupancy db k
   | ReserveBudget k _ \<Rightarrow> cycle_occupancy db k
   | RequestCancellation k _ \<Rightarrow> cycle_occupancy db k
   | OpenOfficeTurn s _ \<Rightarrow> map_sum id Some (session_occupancy_id db s)
   | CloseCostPostmortem i _ \<Rightarrow>
       (case Option.bind (select_pk (postmortems db) i) (\<lambda>p. study_identifier_new (pm_cycle p)) of
          None \<Rightarrow> Inl SubjectNotFound | Some k \<Rightarrow> cycle_occupancy db k)
   | _ \<Rightarrow> Inr None)"

text \<open>The cycle whose treatment decides whether a command is fenced.\<close>

definition command_operating_cycle_for_treatment ::
  "cycle_db \<Rightarrow> cycle_command \<Rightarrow> store_error + int option" where
  "command_operating_cycle_for_treatment db cmd =
     (let found = (\<lambda>k. case k of
                None \<Rightarrow> Inr None
              | Some v \<Rightarrow> (case study_identifier_new v of None \<Rightarrow> Inl InvalidStoredValue | Some k \<Rightarrow> Inr (Some k)));
          of_session = (\<lambda>s. map_option se_cycle (select_pk (sessions db) s))
      in
      case cmd of
        AdmitOperatingCycle k \<Rightarrow> Inr (Some k)
      | StartRootAuthorityOfficeSession k \<Rightarrow> Inr (Some k)
      | StartNativeExecutionProfileQualification k \<Rightarrow> Inr (Some k)
      | ClaimNativeExecutionProfileQualificationLaunch k _ _ _ _ _ \<Rightarrow> Inr (Some k)
      | QuiesceOperatingCycle k \<Rightarrow> Inr (Some k)
      | RecordCycleDrained k \<Rightarrow> Inr (Some k)
      | ResumeOperatingCycle k \<Rightarrow> Inr (Some k)
      | ReconcileOperatingCycle k \<Rightarrow> Inr (Some k)
      | CloseOperatingCycle k \<Rightarrow> Inr (Some k)
      | ReserveBudget k _ \<Rightarrow> Inr (Some k)
      | RequestCancellation k _ \<Rightarrow> Inr (Some k)
      | RecordOfficeSessionReady s \<Rightarrow> found (of_session s)
      | RecordOfficeSessionTerminal s _ \<Rightarrow> found (of_session s)
      | OpenOfficeTurn s _ \<Rightarrow> found (of_session s)
      | SettleOfficeTurn t _ \<Rightarrow> found (Option.bind (select_pk (turns db) t) (\<lambda>u. of_session (tu_session u)))
      | ReconcileBudget r _ \<Rightarrow> found (map_option rs_cycle (select_pk (reservations db) r))
      | ReconcileCancellation i \<Rightarrow> found (map_option cn_cycle (select_pk (cancellations db) i))
      | CloseCostPostmortem i _ \<Rightarrow> found (map_option pm_cycle (select_pk (postmortems db) i))
      | _ \<Rightarrow> Inr None)"

text \<open>The commands a principal may issue on a qualification cycle.\<close>

definition qualification_permitted :: "int \<Rightarrow> cycle_command \<Rightarrow> bool" where
  "qualification_permitted principal_id cmd =
     (if principal_id = BOOTSTRAP then (case cmd of AdmitOperatingCycle _ \<Rightarrow> True | _ \<Rightarrow> False)
      else if principal_id = KERNEL then
        (case cmd of
           RecordCycleDrained _ \<Rightarrow> True
         | QuiesceOperatingCycle _ \<Rightarrow> True
         | ReconcileOperatingCycle _ \<Rightarrow> True
         | CloseOperatingCycle _ \<Rightarrow> True
         | RecordOfficeSessionReady _ \<Rightarrow> True
         | RecordOfficeSessionTerminal _ _ \<Rightarrow> True
         | SettleOfficeTurn _ _ \<Rightarrow> True
         | ReconcileBudget _ _ \<Rightarrow> True
         | ReconcileCancellation _ \<Rightarrow> True
         | ReserveBudget _ _ \<Rightarrow> True
         | StartNativeExecutionProfileQualification _ \<Rightarrow> True
         | ClaimNativeExecutionProfileQualificationLaunch _ _ _ _ _ _ \<Rightarrow> True
         | _ \<Rightarrow> False)
      else False)"

definition qualification_treatment_fences_request ::
  "cycle_db \<Rightarrow> int \<Rightarrow> cycle_command \<Rightarrow> store_error + bool" where
  "qualification_treatment_fences_request db principal_id cmd =
     (case cmd of
        ProposeOperatingCycle PiSdkQualificationV1 _ \<Rightarrow> Inr (principal_id \<noteq> BOOTSTRAP)
      | _ \<Rightarrow>
          (case command_operating_cycle_for_treatment db cmd of
             Inl e \<Rightarrow> Inl e
           | Inr None \<Rightarrow> Inr False
           | Inr (Some k) \<Rightarrow>
               if map_option cy_treatment (select_pk (cycles db) k) \<noteq> Some PiSdkQualificationV1 then Inr False
               else Inr (\<not> qualification_permitted principal_id cmd)))"

section \<open>Requests\<close>

type_synonym cycle_request = "cycle_command command_request"

definition expected_generation_of :: "int option \<Rightarrow> expected_generation" where
  "expected_generation_of g = (case g of None \<Rightarrow> NotApplicable | Some v \<Rightarrow> Exact v)"

definition authorize_cycle :: "cycle_request \<Rightarrow> authority \<times> cycle_db \<Rightarrow> store_error + (rejection + unit)" where
  "authorize_cycle rq = (\<lambda>(au, db).
     if rq_capability rq \<noteq> cycle_capability (rq_body rq) then Inr (Inl CapabilityMismatch)
     else if carries_generation (rq_body rq) \<noteq> (rq_generation rq \<noteq> None) then Inr (Inl InvalidExpectedGeneration)
     else grant_allows au (rq_principal rq) (rq_capability rq) (rq_grant rq)
            (command_target_occupancy db (rq_body rq))
            (qualification_treatment_fences_request db (rq_principal rq) (rq_body rq)))"

text \<open>\<open>apply_command\<close> on the commands of this plane, over the grants and the tables of the plane.\<close>

definition apply_cycle_request ::
  "int \<Rightarrow> cycle_request \<Rightarrow> authority \<times> cycle_db \<Rightarrow> (store_error + (rejection + cycle_event)) \<times> authority \<times> cycle_db" where
  "apply_cycle_request c rq = (\<lambda>(au, db).
     case authorize_cycle rq (au, db) of
       Inl e \<Rightarrow> (Inl e, au, db)
     | Inr (Inl x) \<Rightarrow> (Inr (Inl x), au, db)
     | Inr (Inr _) \<Rightarrow>
         (case cycle_dispatch c (expected_generation_of (rq_generation rq)) (rq_body rq) db of
            (Inl x, db') \<Rightarrow> (Inr (Inl x), au, db')
          | (Inr ev, db') \<Rightarrow> (Inr (Inr ev), consume_grant c rq au, db')))"

text \<open>An accepted request is an accepted command of the plane, so a step of it.\<close>

lemma apply_cycle_request_accepted:
  assumes "apply_cycle_request c rq (au, db) = (Inr (Inr ev), au', db')"
  shows "authorize_cycle rq (au, db) = Inr (Inr ()) \<and> au' = consume_grant c rq au
    \<and> cycle_apply c (expected_generation_of (rq_generation rq)) (rq_body rq) db = (Inr ev, db')"
  using assms
  by (auto simp: apply_cycle_request_def cycle_apply_def authorize_cycle_def expected_generation_of_def
      split: sum.splits prod.splits if_splits option.splits)

lemma accepted_request_steps:
  assumes "cycle_command_typed (rq_body rq)" "apply_cycle_request c rq (au, db) = (Inr (Inr ev), au', db')"
  shows "cycle_step db db'"
  using apply_cycle_request_accepted [OF assms(2)] assms(1) by (blast intro: cycle_step.accepted)

section \<open>Requests under a generation that was left\<close>

text \<open>The commands that name their generation and belong to a cycle check it before they write.\<close>

lemma dispatch_stale:
  assumes "cycle_for_generation db k x = Inl StaleAdmissionGeneration"
    and "carries_generation cmd" "command_operating_cycle_for_treatment db cmd = Inr (Some k)"
  shows "cycle_dispatch c x cmd db \<in> {(Inl StaleAdmissionGeneration, db), (Inl CostPostmortemNotOpen, db)}"
  using assms
  by (cases cmd)
    (auto simp: carries_generation_def command_operating_cycle_for_treatment_def cycle_dispatch_def Let_def
      study_identifier_new_def session_row_of_def
      admit_operating_cycle_def start_office_session_def start_native_execution_profile_qualification_def
      claim_native_execution_profile_qualification_launch_def record_office_session_ready_def
      record_office_session_terminal_def open_office_turn_def quiesce_cycle_def resume_cycle_def
      begin_reconciliation_def close_cycle_def reserve_budget_def request_cancellation_def close_cost_postmortem_def
      split: option.splits if_splits)

lemma stale_request_refused:
  assumes "cycle_for_generation db k (expected_generation_of (rq_generation rq)) = Inl StaleAdmissionGeneration"
    and "carries_generation (rq_body rq)" "command_operating_cycle_for_treatment db (rq_body rq) = Inr (Some k)"
  shows "(\<forall>ev. fst (apply_cycle_request c rq (au, db)) \<noteq> Inr (Inr ev)) \<and> snd (apply_cycle_request c rq (au, db)) = (au, db)"
    and "authorize_cycle rq (au, db) = Inr (Inr ()) \<Longrightarrow>
      fst (apply_cycle_request c rq (au, db)) \<in> {Inr (Inl StaleAdmissionGeneration), Inr (Inl CostPostmortemNotOpen)}"
  using dispatch_stale [OF assms, of c] by (auto simp: apply_cycle_request_def split: sum.split)

text \<open>
  C19: a generation that was left never comes back.  Take a running cycle, let it stop running and let
  anything happen after that, a resumption included.  Every request that names the generation the
  cycle had and whose command is about the cycle, one of its Office sessions, turns, reservations or
  cancellations or one of its cost postmortems, is refused and changes neither the tables nor the
  grants; when its principal is authorised and its command is formed under a generation at all, it is
  refused as stale (or, for a postmortem that is no longer open, as not open).  The commands are those
  of this plane; receipts about native children (recovery, disposal) are not among them, and the
  kernel accepts those under the generation the child was admitted with.
\<close>

theorem left_generation_is_stale:
  assumes "cycle_reachable db" "select_pk (cycles db) k = Some cy" "cy_state cy = CycleRunning"
    and "cycle_step\<^sup>*\<^sup>* db db1" "select_pk (cycles db1) k = Some cy1" "cy_state cy1 \<noteq> CycleRunning"
    and "cycle_step\<^sup>*\<^sup>* db1 db2"
    and "rq_generation rq = Some (cy_generation cy)"
    and "command_operating_cycle_for_treatment db2 (rq_body rq) = Inr (Some k)"
  shows "(\<forall>ev. fst (apply_cycle_request c rq (au, db2)) \<noteq> Inr (Inr ev))
    \<and> snd (apply_cycle_request c rq (au, db2)) = (au, db2)
    \<and> (authorize_cycle rq (au, db2) = Inr (Inr ()) \<longrightarrow>
         fst (apply_cycle_request c rq (au, db2)) \<in> {Inr (Inl StaleAdmissionGeneration), Inr (Inl CostPostmortemNotOpen)})"
proof -
  have stale: "cycle_for_generation db2 k (expected_generation_of (rq_generation rq)) = Inl StaleAdmissionGeneration"
    using left_generation_stale [OF assms(1-7)] assms(8) by (simp add: expected_generation_of_def)
  show ?thesis
  proof (cases "carries_generation (rq_body rq)")
    case True
    then show ?thesis using stale_request_refused [OF stale True assms(9), where au = au and c = c] by blast
  next
    case False
    then show ?thesis using assms(8) by (simp add: apply_cycle_request_def authorize_cycle_def)
  qed
qed

section \<open>Scenarios\<close>

text \<open>The grants the schema seeds for the kernel service on this plane (\<^verbatim>\<open>kernel.sql\<close>).\<close>

definition kernel_grant :: "int \<Rightarrow> grant_row" where
  "kernel_grant capability = \<lparr>gr_principal = 2, gr_capability = capability, gr_state = 1, gr_office = None,
     gr_actor = None, gr_consumed = None\<rparr>"

definition seeded_authority :: authority where
  "seeded_authority = \<lparr>au_grants = \<lparr>tb_rows = [(9, kernel_grant 17), (10, kernel_grant 18), (11, kernel_grant 19),
       (12, kernel_grant 20), (13, kernel_grant 21), (14, kernel_grant 22), (72, kernel_grant 16),
       (73, kernel_grant 115), (75, kernel_grant 9), (76, kernel_grant 11), (77, kernel_grant 12),
       (78, kernel_grant 117)], tb_seq = 79\<rparr>,
     au_occupancies = empty_table, au_actors = empty_table, au_principals = empty_table\<rparr>"

definition kernel_request :: "int \<Rightarrow> int option \<Rightarrow> cycle_command \<Rightarrow> cycle_request" where
  "kernel_request grant generation cmd = \<lparr>rq_id = [65], rq_principal = 2, rq_grant = grant,
     rq_capability = cycle_capability cmd, rq_generation = generation, rq_body = cmd\<rparr>"

theorem left_generation_is_stale_witness:
  "fst (apply_cycle_request 9 (kernel_request 72 (Some 0) (ReserveBudget 1 1000))
      (seeded_authority, after_run founding_env ((started_run @ stopping_run) @ resuming_run)))
     = Inr (Inl StaleAdmissionGeneration)"
proof -
  let ?db = "after_run founding_env ((started_run @ stopping_run) @ resuming_run)"
  let ?rq = "kernel_request 72 (Some 0) (ReserveBudget 1 1000)"
  let ?row = "\<lambda>s g last. \<lparr>cy_society = 1, cy_mission = 1, cy_occupancy = 1, cy_treatment = PinnedPiSdkLiveV1,
    cy_ceiling = 500000, cy_state = s, cy_generation = g, cy_proposed = 3, cy_last = last\<rparr>"
  have rows: "select_pk (cycles (after_run founding_env started_run)) 1 = Some (?row CycleRunning 0 5)"
    "select_pk (cycles (after_run founding_env (started_run @ stopping_run))) 1 = Some (?row Quiescing 1 6)"
    by code_simp+
  have runs: "cycle_run (started_run @ stopping_run) (empty_cycle_db founding_env) \<noteq> None"
    "cycle_run ((started_run @ stopping_run) @ resuming_run) (empty_cycle_db founding_env) \<noteq> None"
    by code_simp+
  have "authorize_cycle ?rq (seeded_authority, ?db) = Inr (Inr ())" by code_simp
  moreover have "command_operating_cycle_for_treatment ?db (rq_body ?rq) = Inr (Some 1)"
    by (simp add: kernel_request_def command_operating_cycle_for_treatment_def Let_def)
  moreover have "fst (apply_cycle_request 9 ?rq (seeded_authority, ?db)) \<noteq> Inr (Inl CostPostmortemNotOpen)" by code_simp
  ultimately show ?thesis
    using left_generation_is_stale [OF after_run_reachable rows(1) _ after_run_append [OF runs(1)] rows(2) _
      after_run_append [OF runs(2)], of ?rq 9 seeded_authority]
    by (simp add: kernel_request_def)
qed

section \<open>Closing a quiet cycle\<close>

text \<open>Requests one after the other, under the command rows \<open>c\<close>, \<open>c + 1\<close>, ...; \<open>None\<close> when one is refused.\<close>

fun run_requests :: "int \<Rightarrow> cycle_request list \<Rightarrow> authority \<times> cycle_db \<Rightarrow> (authority \<times> cycle_db) option" where
  "run_requests c [] s = Some s"
| "run_requests c (rq # rqs) s =
     (case apply_cycle_request c rq s of
        (Inr (Inr _), s') \<Rightarrow> run_requests (c + 1) rqs s'
      | _ \<Rightarrow> None)"

text \<open>
  A grant that governs a cycle: an active grant of the kernel service for the command, or an active
  grant of the principal who holds the Office occupancy the cycle is pinned to.  Only the kernel
  service governs a qualification cycle.
\<close>

definition governs :: "authority \<Rightarrow> cycle_row \<Rightarrow> cycle_request \<Rightarrow> bool" where
  "governs au cy rq \<longleftrightarrow> rq_capability rq = cycle_capability (rq_body rq)
     \<and> (\<exists>g. select_pk (au_grants au) (rq_grant rq) = Some g \<and> gr_principal g = rq_principal rq
          \<and> gr_capability g = rq_capability rq \<and> gr_state g = 1 \<and> gr_actor g = None
          \<and> (rq_principal rq = KERNEL \<and> gr_office g = None
             \<or> rq_principal rq \<notin> {BOOTSTRAP, KERNEL} \<and> cy_treatment cy \<noteq> PiSdkQualificationV1
               \<and> 0 < cy_occupancy cy \<and> gr_office g = Some (cy_occupancy cy)
               \<and> select_pk (au_occupancies au) (cy_occupancy cy) = Some (True, rq_principal rq)))"

definition closing_command :: "int \<Rightarrow> cycle_command \<Rightarrow> bool" where
  "closing_command k cmd \<longleftrightarrow>
     cmd \<in> {QuiesceOperatingCycle k, RecordCycleDrained k, ReconcileOperatingCycle k, CloseOperatingCycle k}"

text \<open>The columns of a cycle that authorisation reads.\<close>

definition pinned :: "int \<Rightarrow> cycle_row \<Rightarrow> cycle_db \<Rightarrow> bool" where
  "pinned k cy db \<longleftrightarrow> (\<exists>r. select_pk (cycles db) k = Some r \<and> cy_occupancy r = cy_occupancy cy
     \<and> cy_treatment r = cy_treatment cy)"

lemma closing_target:
  assumes "pinned k cy db" "closing_command k cmd"
  shows "command_target_occupancy db cmd \<in> {Inr None, Inr (Some (cy_occupancy cy))}"
  using assms by (auto simp: pinned_def closing_command_def command_target_occupancy_def cycle_occupancy_def cycle_row_of_def)

lemma closing_fence:
  assumes "pinned k cy db" "closing_command k cmd"
  shows "qualification_treatment_fences_request db p cmd = Inr (cy_treatment cy = PiSdkQualificationV1 \<and> p \<noteq> KERNEL)"
  using assms
  by (auto simp: pinned_def closing_command_def qualification_treatment_fences_request_def
      command_operating_cycle_for_treatment_def qualification_permitted_def Let_def)

lemma governing_grant_allows:
  assumes "governs au cy rq" "target \<in> {Inr None, Inr (Some (cy_occupancy cy))}"
  shows "grant_allows au (rq_principal rq) (rq_capability rq) (rq_grant rq) target
    (Inr (cy_treatment cy = PiSdkQualificationV1 \<and> rq_principal rq \<noteq> KERNEL)) = Inr (Inr ())"
proof -
  obtain g where g: "select_pk (au_grants au) (rq_grant rq) = Some g" "gr_principal g = rq_principal rq"
      "gr_capability g = rq_capability rq" "gr_state g = 1" "gr_actor g = None"
    and seat: "rq_principal rq = KERNEL \<and> gr_office g = None
      \<or> rq_principal rq \<notin> {BOOTSTRAP, KERNEL} \<and> cy_treatment cy \<noteq> PiSdkQualificationV1
        \<and> 0 < cy_occupancy cy \<and> gr_office g = Some (cy_occupancy cy)
        \<and> select_pk (au_occupancies au) (cy_occupancy cy) = Some (True, rq_principal rq)"
    using assms(1) by (auto simp: governs_def)
  have "capability_grant au (rq_principal rq) (rq_capability rq) (rq_grant rq) = Inr (Some (GrantActive (gr_office g) None))"
    using g seat by (auto simp: capability_grant_def stored_optional_def study_identifier_new_def)
  moreover have "grant_has_active_occupancy au (rq_grant rq)" if "rq_principal rq \<noteq> KERNEL"
    using g seat that by (simp add: grant_has_active_occupancy_def)
  ultimately show ?thesis using seat assms(2) by (auto simp: grant_allows_def)
qed

lemma governing_request_authorized:
  assumes "governs au cy rq" "pinned k cy db" "closing_command k (rq_body rq)"
    and "carries_generation (rq_body rq) \<longleftrightarrow> rq_generation rq \<noteq> None"
  shows "authorize_cycle rq (au, db) = Inr (Inr ())"
  using governing_grant_allows [OF assms(1) closing_target [OF assms(2,3)]] assms(1,4)
  by (simp add: authorize_cycle_def closing_fence [OF assms(2,3)] governs_def)

lemma closing_dispatch_pinned:
  assumes "closing_command k cmd" "cycle_dispatch c x cmd db = (Inr ev, db')" "pinned k cy db"
  shows "pinned k cy db'"
  using assms
  by (auto simp: closing_command_def pinned_def cycle_dispatch_def quiesce_cycle_def record_cycle_drained_def
      begin_reconciliation_def close_cycle_def transition_cycle_def select_pk_update_pk Let_def
      split: sum.splits option.splits if_splits)

lemma closing_request_applied:
  assumes "governs au cy rq" "pinned k cy db" "closing_command k (rq_body rq)"
    and "cycle_apply c (expected_generation_of (rq_generation rq)) (rq_body rq) db = (Inr ev, db')"
  shows "apply_cycle_request c rq (au, db) = (Inr (Inr ev), au, db') \<and> pinned k cy db'"
proof -
  have g: "carries_generation (rq_body rq) \<longleftrightarrow> rq_generation rq \<noteq> None"
    and d: "cycle_dispatch c (expected_generation_of (rq_generation rq)) (rq_body rq) db = (Inr ev, db')"
    using assms(4) by (auto simp: cycle_apply_def expected_generation_of_def split: if_splits option.splits)
  have "consume_grant c rq au = au"
    using assms(1,3) by (auto simp: governs_def closing_command_def consume_grant_def requires_consumption_def cycle_capability_def)
  then show ?thesis
    using governing_request_authorized [OF assms(1-3) g] d closing_dispatch_pinned [OF assms(3) d assms(2)]
    by (simp add: apply_cycle_request_def)
qed

lemma closing_requests_run:
  assumes "cycle_run xs db = Some db'" "\<forall>rq \<in> set rqs. governs au cy rq \<and> closing_command k (rq_body rq)" "pinned k cy db"
    and "xs = map (\<lambda>(i, rq). (i, expected_generation_of (rq_generation rq), rq_body rq)) (zip [c..c + int (length rqs) - 1] rqs)"
  shows "run_requests c rqs (au, db) = Some (au, db')"
  using assms
proof (induction rqs arbitrary: c db xs)
  case (Cons rq rqs)
  have z: "zip [c..c + int (length (rq # rqs)) - 1] (rq # rqs) = (c, rq) # zip [c + 1..c + 1 + int (length rqs) - 1] rqs"
    by (simp add: upto_rec1 add.assoc add.commute)
  obtain ev db1 where ev: "cycle_apply c (expected_generation_of (rq_generation rq)) (rq_body rq) db = (Inr ev, db1)"
      "cycle_run (map (\<lambda>(i, rq). (i, expected_generation_of (rq_generation rq), rq_body rq))
         (zip [c + 1..c + 1 + int (length rqs) - 1] rqs)) db1 = Some db'"
    using Cons.prems(1,4) unfolding z by (auto split: if_splits prod.splits sum.splits)
  have ap: "apply_cycle_request c rq (au, db) = (Inr (Inr ev), au, db1) \<and> pinned k cy db1"
    using closing_request_applied [OF _ Cons.prems(3) _ ev(1)] Cons.prems(2) by auto
  then show ?case using Cons.IH [OF ev(2) _ _ refl] Cons.prems(2) by simp
qed simp

text \<open>
  C21: a quiet cycle can be closed.  Take a reachable admitted or running cycle that has no live Office
  session, no live reservation and no owned execution, whose reconciliation was never begun and whose
  generation can still be incremented.  When each of the four requests that quiesce, drain, reconcile
  and close it carries an active grant of the kernel service, or of the holder of the occupancy the
  cycle is pinned to, all four are accepted one after the other with every check of \<open>apply_command\<close>;
  no grant is used up, the cycle is closed and no cycle is open.
\<close>

theorem quiet_cycle_can_be_closed:
  assumes "cycle_reachable db" "select_pk (cycles db) k = Some cy" "cy_state cy \<in> {CycleAdmitted, CycleRunning}"
    and "in_i64 (cy_generation cy + 1)" "live_office_session_count db k = 0"
    and "unreconciled_reservation_count db k = 0" "no_owned_execution db k"
    and "select_pk (cycle_reconciliations db) k = None"
    and "map (\<lambda>rq. (rq_generation rq, rq_body rq)) rqs =
      [(Some (cy_generation cy), QuiesceOperatingCycle k), (None, RecordCycleDrained k),
       (Some (cy_generation cy + 1), ReconcileOperatingCycle k), (Some (cy_generation cy + 1), CloseOperatingCycle k)]"
    and "\<forall>rq \<in> set rqs. governs au cy rq"
  shows "\<exists>db'. run_requests c rqs (au, db) = Some (au, db')
     \<and> (\<exists>cy'. select_pk (cycles db') k = Some cy' \<and> cy_state cy' = CycleClosed)
     \<and> \<not> exists_where (\<lambda>_ r. is_nonterminal (cy_state r)) (cycles db')"
proof -
  obtain db' where run: "cycle_run (closing_run c k (cy_generation cy)) db = Some db'"
    and closed: "\<exists>cy'. select_pk (cycles db') k = Some cy' \<and> cy_state cy' = CycleClosed"
      "\<not> exists_where (\<lambda>_ r. is_nonterminal (cy_state r)) (cycles db')"
    using quiet_cycle_closing_run [OF assms(1-8)] by blast
  obtain q1 q2 q3 q4 where q: "rqs = [q1, q2, q3, q4]"
      "rq_generation q1 = Some (cy_generation cy)" "rq_body q1 = QuiesceOperatingCycle k"
      "rq_generation q2 = None" "rq_body q2 = RecordCycleDrained k"
      "rq_generation q3 = Some (cy_generation cy + 1)" "rq_body q3 = ReconcileOperatingCycle k"
      "rq_generation q4 = Some (cy_generation cy + 1)" "rq_body q4 = CloseOperatingCycle k"
    using assms(9) by (auto simp: map_eq_Cons_conv)
  have "[c..c + int (length rqs) - 1] = [c, c + 1, c + 2, c + 3]" by (simp add: q(1) upto_rec1)
  then have "closing_run c k (cy_generation cy) =
      map (\<lambda>(i, rq). (i, expected_generation_of (rq_generation rq), rq_body rq)) (zip [c..c + int (length rqs) - 1] rqs)"
    using q by (simp add: closing_run_def expected_generation_of_def)
  moreover have "pinned k cy db" using assms(2) by (simp add: pinned_def)
  moreover have "\<forall>rq \<in> set rqs. governs au cy rq \<and> closing_command k (rq_body rq)"
    using assms(10) q by (simp add: closing_command_def)
  ultimately have "run_requests c rqs (au, db) = Some (au, db')" using closing_requests_run [OF run] by blast
  with closed show ?thesis by blast
qed

theorem quiet_cycle_can_be_closed_witness:
  "\<exists>db'. run_requests 5 [kernel_request 75 (Some 0) (QuiesceOperatingCycle 1), kernel_request 10 None (RecordCycleDrained 1),
       kernel_request 76 (Some 1) (ReconcileOperatingCycle 1), kernel_request 77 (Some 1) (CloseOperatingCycle 1)]
       (seeded_authority, after_run founding_env admitted_run) = Some (seeded_authority, db')
     \<and> (\<exists>cy'. select_pk (cycles db') 1 = Some cy' \<and> cy_state cy' = CycleClosed)
     \<and> \<not> exists_where (\<lambda>_ r. is_nonterminal (cy_state r)) (cycles db')"
proof -
  let ?cy = "\<lparr>cy_society = 1, cy_mission = 1,
      cy_occupancy = 1, cy_treatment = PinnedPiSdkLiveV1, cy_ceiling = 500000, cy_state = CycleAdmitted,
      cy_generation = 0, cy_proposed = 3, cy_last = 4\<rparr>"
  have "select_pk (cycles (after_run founding_env admitted_run)) 1 = Some ?cy"
    "live_office_session_count (after_run founding_env admitted_run) 1 = 0"
    "unreconciled_reservation_count (after_run founding_env admitted_run) 1 = 0"
    "no_owned_execution (after_run founding_env admitted_run) 1"
    "select_pk (cycle_reconciliations (after_run founding_env admitted_run)) 1 = None"
    by code_simp+
  from quiet_cycle_can_be_closed [OF after_run_reachable this(1) _ _ this(2-5), where
      rqs = "[kernel_request 75 (Some 0) (QuiesceOperatingCycle 1), kernel_request 10 None (RecordCycleDrained 1),
       kernel_request 76 (Some 1) (ReconcileOperatingCycle 1), kernel_request 77 (Some 1) (CloseOperatingCycle 1)]"
      and au = seeded_authority and c = 5]
  show ?thesis
    by (simp add: in_i64_def kernel_request_def governs_def cycle_capability_def seeded_authority_def kernel_grant_def
        select_pk_def)
qed

end
