(* ===== verification/Spec2Isabelle.thy ===== *)
theory Spec2Isabelle
  imports Kernel_Scenario Attempt_Promises Pilot_Barriers Wire_Contract Provider_Charges Cycle_Requests
begin

text \<open>
  Verification of the Society kernel (\<^verbatim>\<open>crates/society-kernel\<close>) and of the boundaries its requests and
  costs come through: the experimental-control plane, in which matched pairs of study episodes are run
  and measured; the operating-cycle and budget plane, under which all work is admitted and paid; the
  command ledger in front of them; the daemon's runner of task attempts, the application's driver of it
  and the coordinator of the application's pilot; the wire protocol of the resident daemon
  (\<^verbatim>\<open>societyd/src/protocol.rs\<close>); and the arithmetic of provider costs (\<^verbatim>\<open>society-pi/src/cost.rs\<close>).

  \<^bold>\<open>The program.\<close>  A client sends a command: an identity, a capability grant, an expected generation
  and a typed body.  \<^verbatim>\<open>store.rs\<close> (\<open>execute\<close>, \<open>execute_in_transaction\<close>) looks the identity up,
  answers a repeated request with its first receipt, refuses a changed one, and otherwise stores the
  request as a rejected placeholder, checks the authority of the grant and dispatches the body.  For a
  study transition it calls \<open>apply\<close> of \<^verbatim>\<open>study.rs\<close>, which checks the guards of the command against
  its tables, writes them and returns an event or a rejection.  A rejection rolls the tables back to a
  savepoint; an event is numbered, committed to and linked to the command.  Request and event
  commitments are BLAKE3 over canonical bytes; the bodies are stored as typed rows and read back.

  \<^bold>\<open>Values and rejections.\<close>  \<^verbatim>\<open>Society_Prelude\<close> has the byte writers, tables with identity columns
  and the lemmas on them that the components share.  \<^verbatim>\<open>Rejections\<close> is the enumeration \<open>Rejection\<close> of
  \<^verbatim>\<open>domain.rs\<close> with its one-byte codes.  \<^verbatim>\<open>Study_Types\<close> has the enumerations, newtypes, commands and
  events of \<^verbatim>\<open>study.rs\<close>; integers are \<open>int\<close>, and \<open>study_command_typed\<close> says that every field passes
  the constructor of its Rust type.

  \<^bold>\<open>The control plane.\<close>  \<^verbatim>\<open>Study_Store\<close> has one record per row type and \<open>study_db\<close>, the record of all
  tables; \<open>kernel_env\<close> is what the transitions read of tables other kernel parts write.
  \<^verbatim>\<open>Study_Admission\<close> (protocols, worlds, measurements, institutions, episodes, pairs, runs),
  \<^verbatim>\<open>Study_Obligation\<close> (actors and their native children), \<^verbatim>\<open>Study_Forum\<close> (freeze, exposure, messages,
  correction, reads) and \<^verbatim>\<open>Study_Measurement\<close> (decisions, reveal, results, closure, forks) have one
  definition per alternative of \<open>apply\<close>, with its guards in the order of the code; each maps a
  database to a result and a database, so that what a rejected transition had written is visible.
  \<^verbatim>\<open>Study_Machine\<close> has the dispatcher \<open>study_apply\<close> and \<open>study_reachable\<close>, the states reached by
  accepted commands, by rejected or aborted ones with their rollback, and by changes of \<open>kernel_env\<close>.

  \<^bold>\<open>Its theorems.\<close>  \<^verbatim>\<open>Study_Step\<close> is an abstract event system; the dispatcher refines it, and every
  invariant is proved by cases on its steps.  \<^verbatim>\<open>Study_Persistence\<close>: the tables are append-only.
  \<^verbatim>\<open>Study_Integrity\<close>: uniqueness and references; its locale \<open>study_invariant\<close> is the proof rule the
  later theories interpret.  \<^verbatim>\<open>Study_Thread\<close>: threads are gapless logs.  \<^verbatim>\<open>Study_Lifecycle\<close>,
  \<^verbatim>\<open>Study_Treatment\<close>, \<^verbatim>\<open>Study_Budget\<close>: episode states, the place of each kind of message relative to
  the frozen head, and the counters of an obligation.  \<^verbatim>\<open>Study_Isolation\<close>: what a reset successor
  reads, answers and cites.  \<^verbatim>\<open>Study_Outcome\<close>, \<^verbatim>\<open>Study_Control\<close>, \<^verbatim>\<open>Study_Pair\<close>: reveal, results and
  closure; runs and native children; the release of the correction in both arms.
  \<^verbatim>\<open>Study_Scenario\<close> runs one matched study from admission to closure; the theorems are applied to its
  states.

  \<^bold>\<open>Encodings.\<close>  \<^verbatim>\<open>Study_Encoding\<close> has the fingerprints of commands and events
  (\<open>append_command_fingerprint\<close>, \<open>append_event_fingerprint\<close>), each a prefix code; its locale states
  what a writer promises.  \<^verbatim>\<open>Study_Stored\<close> has the rows the bodies are stored in and their decoders.
  A fixed-width writer is injective on the range of its type only, hence the hypothesis
  \<open>study_command_exact\<close>: every integer is in the range of its Rust type.

  \<^bold>\<open>The ledger.\<close>  \<^verbatim>\<open>Ledger\<close> models \<open>execute\<close> and what it calls, generic in the family of bodies (record
  \<open>command_family\<close>), with the consumption of bootstrap grants; \<^verbatim>\<open>Ledger_Laws\<close> proves its guarantees in the locale \<open>ledgered\<close>; \<^verbatim>\<open>Kernel\<close>
  instantiates the family with the study transitions, interprets the locale on it and shows that the
  study tables of every kernel state are a reachable state of the control plane.
  \<^verbatim>\<open>Kernel_Scenario\<close> has the concrete requests.

  \<^bold>\<open>Task attempts.\<close>  An actor of a study works in a native process, one attempt per launch claim.
  \<^verbatim>\<open>Attempt_Scheduler\<close> has the schedule of \<^verbatim>\<open>task_attempt_scheduler.rs\<close>: its phases, the operations that
  record them, the kernel commands of an attempt and their identities, which are valid and pairwise
  distinct; every operation moves a schedule along one edge of the lifecycle or leaves it.
  \<^verbatim>\<open>Attempt_Runner\<close> has \<open>TaskAttemptRunner\<close>, one definition per operation: what the daemon answers about the
  process is an argument, and the three study transitions go through \<open>execute_study_transition\<close>.
  \<^verbatim>\<open>Attempt_Driver\<close> has \<open>NativeTaskAttemptDriver::execute\<close> (\<^verbatim>\<open>native_task_driver.rs\<close>): a timed loop takes the
  list of the answers to the polls of its window, and the daemon's own writes between the runner's
  transitions and during its polls are functions of the environment.  \<^verbatim>\<open>Attempt_Answers\<close> states which
  answers of the daemon take a driver through all its phases and shows that a driver that returns success
  had them; \<^verbatim>\<open>Attempt_Scenario\<close> has the concrete attempts, one refused by the kernel and one accepted.
  \<^verbatim>\<open>Attempt_Promises\<close> has the theorems: the runner keeps its seat, success is the whole lifecycle and a
  recorded completion, and what happens when the kernel rejects or fails a transition.

  \<^bold>\<open>The pilot.\<close>  The application runs matched pairs through a backend.  \<^verbatim>\<open>Pilot_Choreography\<close> has the
  exposures and the state records of arms and pairs (\<^verbatim>\<open>choreography.rs\<close>), \<^verbatim>\<open>Pilot_Runner\<close> the
  coordinator \<open>CanonicalPilotRunner\<close> (\<^verbatim>\<open>pilot_runner.rs\<close>) over any backend; the prompts of the seats and the
  analysis are functions of the plan.  \<^verbatim>\<open>Pilot_Barriers\<close> states on the log of a recording backend, itself
  a backend, that the successful calls obey the barriers of the matched design.

  \<^bold>\<open>Operating cycles and budgets.\<close>  A society admits one operating cycle at a time.  Work in it is paid
  from reservations charged to two envelopes, that of the society and that of the cycle; every change
  of a cycle's state that ends its work advances its admission generation, so that requests formed
  earlier are stale.  \<^verbatim>\<open>Cycle_Types\<close> has the enumerations, \<^verbatim>\<open>Cycle_Store\<close> the rows of the schema,
  \<open>cycle_db\<close> and the shared readers of \<^verbatim>\<open>store.rs\<close>, \<^verbatim>\<open>Cycle_Budget\<close> reservation, settlement, freezing
  and postmortems (\<open>reserve_budget\<close> to \<open>close_cost_postmortem\<close>), \<^verbatim>\<open>Cycle_Lifecycle\<close> the other
  transitions (\<open>create_society\<close> to \<open>reconcile_cancellation\<close>) and the \<open>match\<close> of \<open>apply_command\<close> that
  dispatches them.  \<open>cycle_env\<close> is what they read of other tables.  \<^verbatim>\<open>Cycle_Machine\<close> has the step
  relation: accepted commands, rollbacks, the writes other kernel parts make to these tables, and
  changes of \<open>cycle_env\<close>; its locales \<open>cycle_invariant\<close> and \<open>cycle_stable\<close> are the proof rules for what
  always holds and for what never ends.  \<^verbatim>\<open>Cycle_Protocol\<close> is the abstract lifecycle;
  \<^verbatim>\<open>Cycle_Refinement\<close> shows that every step refines it, \<^verbatim>\<open>Cycle_Accounts\<close> and \<^verbatim>\<open>Cycle_Balance\<close> that
  the running totals of every envelope are exact, \<^verbatim>\<open>Cycle_Office\<close> how turns and sessions hold their
  cycle open.  \<^verbatim>\<open>Cycle_Promises\<close> has the theorems: accounts, refinement, the fence behind a frozen cost,
  closed cycles, and the two situations from which a cycle is never closed.  \<^verbatim>\<open>Cycle_Requests\<close> puts
  the checks of \<open>apply_command\<close> in front of the transitions: the grant and its generation, the office
  occupancy the command is bound to, and the fence of the qualification treatment.  Its theorems are
  about requests: those under a generation the cycle has left are refused, and the requests that close a
  quiet cycle are all accepted.

  \<^bold>\<open>The wire protocol.\<close>  \<^verbatim>\<open>Wire_Cursor\<close> has the byte cursor, the writers and the frames, with the locale
  \<open>wire_code\<close> of what a reader and writer promise each other (each interpretation is also a
  \<open>prefix_code\<close>); \<^verbatim>\<open>Wire_Values\<close> the commands, receipts and observations it carries, with the codes of
  the closed enumerations; \<^verbatim>\<open>Wire_Protocol\<close> the requests and responses.  \<^verbatim>\<open>Wire_Laws\<close>, \<^verbatim>\<open>Wire_Exact\<close> and
  \<^verbatim>\<open>Wire_Messages\<close> prove that values are read back and that only written bytes are read;
  \<^verbatim>\<open>Study_Observation\<close> is the query behind a pair observation (\<open>pair_observation\<close> of \<^verbatim>\<open>study.rs\<close>);
  \<^verbatim>\<open>Wire_Contract\<close> has the theorems.  Strings are their UTF-8 bytes, a capability is its discriminant,
  and a stream is a byte list that may end anywhere: socket errors and \<open>into_kernel\<close> are left out; the
  latter renames a client command into the kernel command of the same fields, except that it drops the
  \<open>source_rendering\<close> of a founding mission.

  \<^bold>\<open>Provider costs.\<close>  \<^verbatim>\<open>Provider_Cost\<close> decodes a binary64 cost and takes its ceiling in micro-dollars, at
  the provider boundary and in the kernel, with \<open>u64\<close> and \<open>u128\<close> as 64- and 128-bit words, and has the
  tracker of cumulative usage; \<^verbatim>\<open>Provider_Charges\<close> relates them to the real value of the cost, below the range where the shift
  of the significand loses bits and, with the law of the bits it loses, above it.

  \<^bold>\<open>Parameters and bounds.\<close>  BLAKE3 is the parameter \<open>h\<close>; the ledger theorems assume only that its
  values have 32 bytes, and no theorem assumes that it has no collisions.  Every definition is total:
  there is no fuel.  Integers are unbounded where the database would refuse an overflow; such a
  refusal aborts the transaction, which \<open>study_reachable\<close> and \<open>cycle_step\<close> cover with their rollback rules.

  \<^bold>\<open>Not modelled.\<close>  The other command families of \<^verbatim>\<open>store.rs\<close> (projects, work items, actors and their
  attempts, native children, provider sessions, evaluation, products) are seen only through
  \<open>kernel_env\<close>, \<open>cycle_env\<close> and the authority tables.  The replay of the ledger into a fresh schema and
  the observation queries other than that of a pair are not modelled.  Below the runner, the daemon's operations on the native
  process are answers, not definitions.  \<^verbatim>\<open>postgres.rs\<close>, the content store, the daemon with its supervision, the provider peer, the product writer and the command line are input and output around
  processes, sockets and files.
\<close>

section \<open>The reset treatment hides the source population\<close>

text \<open>
  C1: what a successor of the reset arm has read, according to its durable read receipts, never
  includes a message of the source population.
\<close>

theorem reset_reads_hide_source:
  assumes "study_reachable h db"
    and "select_pk (receipts db) k = Some r" "reset_successor db (rr_obligation r)"
    and "select_pk (messages db) j = Some m" "ms_thread m = rr_thread r"
    and "rr_first r \<le> ms_ordinal m" "ms_ordinal m \<le> rr_through r"
  shows "\<not> source_message db m"
  using reset_receipt_clean [OF structure_reachable log.reachable] assms by blast

theorem reset_reads_hide_source_witness:
  "reset_successor final_db 4 \<and> (\<exists>m. select_pk (messages final_db) 4 = Some m \<and> \<not> source_message final_db m)"
  using reset_reads_hide_source [OF final_reachable, of 1 _ 4]
  by (simp add: scenario scenario_rows select_pk_def reset_successor_def exists_where_def)

text \<open>
  C2: a reset successor never refers to the source population.  No message of it replies to or
  supersedes a source message, and its decision cites none.
\<close>

theorem reset_references_hide_source:
  assumes reach: "study_reachable h db" and reset: "reset_successor db ob"
  shows "(\<forall>k m q. select_pk (messages db) k = Some m \<and> authored db ob m
        \<and> (ms_reply m = Some q \<or> ms_supersedes m = Some q) \<longrightarrow>
      (\<exists>mq. select_pk (messages db) q = Some mq \<and> ms_thread mq = ms_thread m \<and> \<not> source_message db mq))
    \<and> (\<forall>d q. select_pk (decisions db) ob = Some d \<and> de_cited d = Some q \<longrightarrow>
      (\<exists>m. select_pk (messages db) q = Some m \<and> \<not> source_message db m))"
proof (intro conjI allI impI)
  note inv = structure_reachable [OF reach] log.reachable [OF reach]
  show "\<exists>mq. select_pk (messages db) q = Some mq \<and> ms_thread mq = ms_thread m \<and> \<not> source_message db mq"
    if "select_pk (messages db) k = Some m \<and> authored db ob m
        \<and> (ms_reply m = Some q \<or> ms_supersedes m = Some q)" for k m q
    by (rule reset_target_clean [OF inv, of k m ob q]) (use that reset in blast)+
  show "\<exists>m. select_pk (messages db) q = Some m \<and> \<not> source_message db m"
    if "select_pk (decisions db) ob = Some d \<and> de_cited d = Some q" for d q
    by (rule reset_citation_clean [OF inv, of ob d q]) (use that reset in blast)+
qed

theorem reset_references_hide_source_witness:
  "\<exists>m d mq. select_pk (messages final_db) 5 = Some m \<and> ms_reply m = Some 4
     \<and> select_pk (decisions final_db) 4 = Some d \<and> de_cited d = Some 4
     \<and> select_pk (messages final_db) 4 = Some mq \<and> \<not> source_message final_db mq"
proof -
  have reset: "reset_successor final_db 4"
    by (simp add: scenario scenario_rows select_pk_def reset_successor_def exists_where_def)
  obtain m d where md: "select_pk (messages final_db) 5 = Some m" "authored final_db 4 m" "ms_reply m = Some 4"
    "select_pk (decisions final_db) 4 = Some d" "de_cited d = Some 4"
    by (auto simp: scenario scenario_rows select_pk_def authored_def)
  show ?thesis using reset_references_hide_source [OF final_reachable reset] md by blast
qed

text \<open>
  C3: the bytes prepared for a forum read are the rendering of the requested range of the actor's
  thread: every ordinal of the range exactly once, in order; and for a reset successor none of the
  rendered messages is a source message.
\<close>

theorem forum_read_renders_exact_range:
  assumes reach: "study_reachable h db" and "prepare_forum_read db ob first through = Some bytes"
  shows "\<exists>t. forum_read_thread db ob first through = Inr t
    \<and> bytes = forum_rendering db t first through
    \<and> map ms_ordinal (messages_between db t first through) = [first..through]
    \<and> (reset_successor db ob \<longrightarrow> list_all (\<lambda>m. \<not> source_message db m) (messages_between db t first through))"
proof -
  note s = structure_reachable [OF reach]
  have w: "windows_ok db" using control_reachable [OF reach] by (simp add: control_ok_def)
  have wf: "wf_table (messages db)" using structureD(1) [OF s] by (simp add: tables_wf_def)
  obtain t where t: "forum_read_thread db ob first through = Inr t"
      "bytes = forum_rendering db t first through"
    using assms(2) by (auto simp: prepare_forum_read_def split: sum.splits)
  obtain r x xr tr where o: "select_pk (exposures db) x = Some xr" "ex_obligation xr = ob"
      "ex_from xr \<le> first" "select_pk (threads db) t = Some tr" "th_forum tr = ex_forum xr"
      "1 \<le> first" "through \<le> th_head tr"
    by (rule read_window [OF s w t(1)])
  have "\<not> source_message db m"
    if "reset_successor db ob" "m \<in> set (messages_between db t first through)" for m
    using that o reset_window_clean [OF s log.reachable [OF reach] o(1), of _ m tr]
    by (auto simp: messages_between_set [OF wf])
  then show ?thesis
    using t messages_between_ordinals [OF s o(4,6,7)] by (auto simp: list_all_iff)
qed

theorem forum_read_renders_exact_range_witness:
  "prepare_forum_read released_db 4 2 2 \<noteq> None
   \<and> map ms_ordinal (messages_between released_db 2 2 2) = [2..2]"
proof -
  have t: "forum_read_thread released_db 4 2 2 = Inr 2" by code_simp
  then obtain b where b: "prepare_forum_read released_db 4 2 2 = Some b"
    by (simp add: prepare_forum_read_def)
  show ?thesis
    using forum_read_renders_exact_range [OF released_reachable b] t b by auto
qed

section \<open>The matched correction\<close>

text \<open>
  C4: the correction reaches both arms of a matched pair or neither.  As soon as one arm is past the
  release, each arm has, right after its frozen head, a published service message of kind
  \<open>Correction\<close> whose digest is the one the arms' common protocol committed to.
\<close>

theorem matched_correction:
  assumes reach: "study_reachable h db" and pa: "select_pk (pairs db) p = Some pa"
    and e: "e = pa_retained pa \<or> e = pa_reset pa" and s: "st db e = Some s" "released s"
  shows "\<exists>pr. \<forall>a \<in> {pa_retained pa, pa_reset pa}. \<exists>er fz k m.
      select_pk (episodes db) a = Some er \<and> released (ep_state er)
    \<and> select_pk (protocols db) (ep_protocol er) = Some pr
    \<and> select_pk (frozen db) a = Some fz \<and> select_pk (messages db) k = Some m
    \<and> ms_thread m = fz_thread fz \<and> ms_ordinal m = fz_head fz + 1
    \<and> ms_service m \<and> ms_kind m = Correction \<and> ms_state m = Published
    \<and> ms_digest m = pr_correction pr \<and> ms_digest m = h (ms_body m)"
proof -
  note str = structure_reachable [OF reach] and rows = structureD(3) [OF structure_reachable [OF reach]]
  have life: "lifecycle_ok db" using control_reachable [OF reach] by (simp add: control_ok_def)
  have rel: "rel db e" using s by (simp add: rel_def)
  have both: "rel db (pa_retained pa)" "rel db (pa_reset pa)"
    using pairing.reachable [OF reach] pa e rel by (auto simp: pairs_sync_def all_rows_def)
  have arm: "\<exists>er pr fz k m. select_pk (episodes db) a = Some er \<and> released (ep_state er)
      \<and> select_pk (protocols db) (ep_protocol er) = Some pr \<and> select_pk (frozen db) a = Some fz
      \<and> select_pk (messages db) k = Some m \<and> ms_thread m = fz_thread fz \<and> ms_ordinal m = fz_head fz + 1
      \<and> ms_service m \<and> ms_kind m = Correction \<and> ms_state m = Published
      \<and> ms_digest m = pr_correction pr \<and> ms_digest m = h (ms_body m)" if a: "rel db a" for a
  proof -
    obtain er where er: "select_pk (episodes db) a = Some er" "released (ep_state er)"
      using a by (auto simp: rel_def st_def split: option.splits)
    have "row_exists (frozen db) a"
      using lifecycleD(3) [OF life, of a "ep_state er"] er by (auto simp: st_def released_def)
    then obtain fz where fz: "select_pk (frozen db) a = Some fz" by (auto simp: row_exists_def)
    obtain tr where "select_pk (threads db) (fz_thread fz) = Some tr"
      using rows_okD(10) [OF rows fz] by (auto simp: frozen_ok_def)
    then have "correction_at db a fz"
      using log_okD(2) [OF log.reachable [OF reach] fz] er by (auto simp: boundary_def st_def)
    then show ?thesis using er fz rows_okD(13) [OF rows] by (fastforce simp: correction_at_def message_ok_def)
  qed
  obtain ea eb where "select_pk (episodes db) (pa_retained pa) = Some ea"
      "select_pk (episodes db) (pa_reset pa) = Some eb" "ep_protocol ea = ep_protocol eb"
    using rows_okD(3) [OF rows pa] by (auto simp: pair_ok_def)
  then show ?thesis using arm [OF both(1)] arm [OF both(2)] by (smt (verit) insertE option.inject singletonD)
qed

theorem matched_correction_witness:
  "st released_db 1 = Some CorrectionReleased
   \<and> (\<exists>k m. select_pk (messages released_db) k = Some m \<and> ms_thread m = 2 \<and> ms_ordinal m = 2 \<and> ms_service m)"
proof -
  have p: "select_pk (pairs released_db) 1 = Some \<lparr>pa_retained = 1, pa_reset = 2, pa_by = 11\<rparr>"
    and s: "st released_db 1 = Some CorrectionReleased"
    and fz: "select_pk (frozen released_db) 2 = Some fz \<Longrightarrow> fz_thread fz = 2 \<and> fz_head fz = 1" for fz
    by (auto simp: scenario scenario_rows select_pk_def st_def)
  show ?thesis
    using matched_correction [OF released_reachable p, of 1 CorrectionReleased] s fz
    by (fastforce simp: released_def)
qed

section \<open>Ground truth and outcomes\<close>

text \<open>
  C5: a revealed ground truth is the text its protocol committed to before any actor ran, and it is
  revealed only once the correction is out and no obligation of the episode is active.
\<close>

theorem reveal_is_committed_and_late:
  assumes reach: "study_reachable h db" and r: "select_pk (reveals db) e = Some r"
  shows "\<exists>er pr. select_pk (episodes db) e = Some er \<and> select_pk (protocols db) (ep_protocol er) = Some pr
      \<and> h (gt_body r) = pr_ground_truth pr \<and> released (ep_state er)
      \<and> (\<forall>ob q. select_pk (obligations db) ob = Some q \<longrightarrow> ob_episode q = e \<longrightarrow> ob_state q \<noteq> ObligationActive)"
proof -
  have "reveal_ok h db e r" by (rule rows_okD(16) [OF structureD(3) [OF structure_reachable [OF reach]] r])
  then obtain er pr where o: "gt_digest r = h (gt_body r)" "select_pk (episodes db) e = Some er"
      "select_pk (protocols db) (ep_protocol er) = Some pr" "pr_ground_truth pr = gt_digest r"
    unfolding reveal_ok_def by blast
  have "released (ep_state er) \<and> settled db e"
    using outcome.reachable [OF reach] o(2) r by (auto simp: outcome_ok_def st_def row_exists_def)
  then show ?thesis using o by (auto simp: settled_def)
qed

theorem reveal_is_committed_and_late_witness:
  "\<exists>r. select_pk (reveals final_db) 1 = Some r \<and> length_hash (gt_body r) = [2]"
proof -
  obtain r where r: "select_pk (reveals final_db) 1 = Some r"
    by (simp add: scenario scenario_rows select_pk_def)
  show ?thesis
    using reveal_is_committed_and_late [OF final_reachable r] r
    by (auto simp: scenario scenario_rows select_pk_def split: if_splits)
qed

text \<open>
  C6: a measurement result belongs to an episode whose ground truth has been revealed, fills a slot of
  the episode's measurement revision, and carries a value exactly when it was observed.
\<close>

theorem results_follow_reveal:
  assumes reach: "study_reachable h db" and r: "select_pk (results db) k = Some r"
  shows "row_exists (reveals db) (me_episode r)
    \<and> (\<exists>er mr. select_pk (episodes db) (me_episode r) = Some er
         \<and> select_pk (measurements db) (ep_measurement er) = Some mr
         \<and> 1 \<le> me_slot r \<and> me_slot r \<le> mr_slots mr)
    \<and> (me_status r = Observed \<longleftrightarrow> me_value r \<noteq> None) \<and> (me_reason r = None \<longleftrightarrow> me_value r \<noteq> None)"
  using rows_okD(17) [OF structureD(3) [OF structure_reachable [OF reach]] r]
  by (auto simp: result_ok_def measurement_result_shape_valid_def split: study_measurement_status.splits)

theorem results_follow_reveal_witness: "row_exists (reveals final_db) 2"
  using results_follow_reveal [OF final_reachable, of 2]
  by (simp add: scenario scenario_rows select_pk_def)

text \<open>
  C7: a closed episode is complete.  Every slot of its measurement revision holds exactly one result,
  no obligation is active, the total charge is within the protocol's budget, and its forum is closed.
\<close>

theorem closed_episode_complete:
  assumes reach: "study_reachable h db" and er: "select_pk (episodes db) e = Some er" "ep_state er = Closed"
    and mr: "select_pk (measurements db) (ep_measurement er) = Some mr"
    and pr: "select_pk (protocols db) (ep_protocol er) = Some pr"
  shows "(\<forall>n. 1 \<le> n \<and> n \<le> mr_slots mr \<longrightarrow>
        (\<exists>!k. \<exists>r. select_pk (results db) k = Some r \<and> me_episode r = e \<and> me_slot r = n))
    \<and> (\<forall>ob r. select_pk (obligations db) ob = Some r \<longrightarrow> ob_episode r = e \<longrightarrow> ob_state r \<noteq> ObligationActive)
    \<and> sum_where (\<lambda>_ r. ob_episode r = e) ob_charged (obligations db) \<le> pr_budget pr
    \<and> (\<forall>k f. select_pk (forums db) k = Some f \<longrightarrow> fo_episode f = e \<longrightarrow> fo_state f = ForumClosed)"
proof -
  note str = structure_reachable [OF reach] and ok = outcome.reachable [OF reach]
  have st: "st db e = Some Closed" using er by (simp add: st_def)
  have u: "unique_on (\<lambda>r. (me_episode r, me_slot r)) (results db)"
    using structureD(2) [OF str] by (simp add: uniques_def)
  have "\<exists>!k. \<exists>r. select_pk (results db) k = Some r \<and> me_episode r = e \<and> me_slot r = n"
    if "1 \<le> n" "n \<le> mr_slots mr" for n
    by (rule closed_slots [OF str ok st er(1) mr that]) (use unique_onD [OF u] in fastforce)
  moreover have "settled db e" "charged db e \<le> pr_budget pr"
    using ok st er pr by (auto simp: outcome_ok_def closed_ok_def)
  moreover have "fo_state f = ForumClosed" if "select_pk (forums db) k = Some f" "fo_episode f = e" for k f
    using ok st that by (auto simp: outcome_ok_def all_rows_def)
  ultimately show ?thesis by (auto simp: settled_def charged_def)
qed

theorem closed_episode_complete_witness:
  "\<exists>!k. \<exists>r. select_pk (results final_db) k = Some r \<and> me_episode r = 2 \<and> me_slot r = 1"
proof -
  obtain er mr pr where o: "select_pk (episodes final_db) 2 = Some er" "ep_state er = Closed"
      "select_pk (measurements final_db) (ep_measurement er) = Some mr" "mr_slots mr = 1"
      "select_pk (protocols final_db) (ep_protocol er) = Some pr"
    by (auto simp: scenario scenario_rows select_pk_def)
  show ?thesis
    by (insert closed_episode_complete [OF final_reachable o(1-3,5)], elim conjE allE [of _ 1]) (simp add: o(4))
qed

section \<open>Obligations and budgets\<close>

text \<open>
  C8: the counters of an obligation are exact and never exceed what was granted.  The reads used are
  its read receipts, the posts used are the messages it wrote, and only a completed obligation is
  charged, by at most its budget.
\<close>

theorem obligation_counters_exact:
  assumes reach: "study_reachable h db" and r: "select_pk (obligations db) ob = Some r"
  shows "ob_reads_used r = count_where (\<lambda>_ q. rr_obligation q = ob) (receipts db)
    \<and> ob_posts_used r = count_where (\<lambda>_ m. authored db ob m) (messages db)
    \<and> ob_reads_used r \<le> ob_read_budget r \<and> ob_posts_used r \<le> ob_post_budget r
    \<and> 0 \<le> ob_charged r \<and> ob_charged r \<le> ob_budget r
    \<and> (ob_state r \<noteq> ObligationCompleted \<longrightarrow> ob_charged r = 0)"
  using budgets_okD [OF budgets.reachable [OF reach] r] by (simp add: obligation_shape_def)

theorem obligation_counters_exact_witness:
  "count_where (\<lambda>_ q. rr_obligation q = 4) (receipts final_db) = 1"
proof -
  obtain r where r: "select_pk (obligations final_db) 4 = Some r" "ob_reads_used r = 1"
    by (auto simp: scenario scenario_rows select_pk_def)
  show ?thesis using obligation_counters_exact [OF final_reachable r(1)] r(2) by simp
qed

text \<open>
  A completed or failed obligation is final: no accepted command changes its row in any column.
\<close>

lemma terminal_obligation_final:
  assumes reach: "study_reachable h db" and typed: "study_command_typed cmd"
    and acc: "study_apply h c cmd db = (Inr ev, db')"
    and r: "select_pk (obligations db) ob = Some r" "ob_state r \<noteq> ObligationActive"
  shows "select_pk (obligations db') ob = Some r"
proof -
  have wf: "tables_wf db" by (rule reachable_wf [OF reach])
  obtain r' where "select_pk (obligations db') ob = Some r'" "obligation_edge r r'"
    by (rule study_step_obligation_kept [OF study_apply_step [OF wf typed acc] wf r(1)])
  then show ?thesis using obligation_edge_terminal r(2) by blast
qed

section \<open>Commands and states\<close>

text \<open>
  C9: accepted commands only add to the history.  None removes a row or rewrites what the row was
  admitted with; only lifecycle columns, counters and thread heads change.  Every existing episode
  moves along an edge of its lifecycle, which only goes forward: admitted, source active, source
  reconciled, successor admitted, correction released, successor active, closed.
\<close>

theorem accepted_command_adds_history:
  assumes reach: "study_reachable h db" and typed: "study_command_typed cmd"
    and acc: "study_apply h c cmd db = (Inr ev, db')"
  shows "persists db db' \<and> (\<forall>e er. select_pk (episodes db) e = Some er \<longrightarrow>
    (\<exists>er'. select_pk (episodes db') e = Some er' \<and> episode_edge (ep_state er) (ep_state er')
       \<and> episode_state_code (ep_state er) \<le> episode_state_code (ep_state er')))"
proof -
  have step: "study_step h c db db'" by (rule study_apply_step [OF reachable_wf [OF reach] typed acc])
  have "\<exists>er'. select_pk (episodes db') e = Some er' \<and> episode_edge (ep_state er) (ep_state er')
      \<and> episode_state_code (ep_state er) \<le> episode_state_code (ep_state er')"
    if er: "select_pk (episodes db) e = Some er" for e er
  proof -
    obtain s' where s': "st db' e = Some s'" "episode_edge (ep_state er) s'"
      by (rule study_step_edge [OF step, of e "ep_state er"]) (use er in \<open>simp_all add: st_def\<close>)
    then have "episode_state_code (ep_state er) \<le> episode_state_code s'"
      by (auto elim: episode_edge.cases)
    then show ?thesis using s' by (auto simp: st_Some)
  qed
  then show ?thesis using study_step_persists [OF step] by blast
qed

theorem accepted_command_adds_history_witness:
  "\<exists>db' er'. study_apply length_hash 36 (PublishForumMessage 3 Finding [1] None None) released_db
       = (Inr (ForumMessagePublished 5 1 3 3 Finding [1]), db')
     \<and> persists released_db db'
     \<and> select_pk (episodes db') 1 = Some er' \<and> episode_edge CorrectionReleased (ep_state er')"
proof -
  have acc: "study_apply length_hash 36 (PublishForumMessage 3 Finding [1] None None) released_db
      = (Inr (ForumMessagePublished 5 1 3 3 Finding [1]),
         snd (study_apply length_hash 36 (PublishForumMessage 3 Finding [1] None None) released_db))"
    by (rule prod_eqI) (code_simp, simp)
  obtain er where er: "select_pk (episodes released_db) 1 = Some er" "ep_state er = CorrectionReleased"
    by (auto simp: scenario scenario_rows select_pk_def)
  have "study_command_typed (PublishForumMessage 3 Finding [1] None None)"
    by (simp add: study_command_typed_def forum_message_body_ok_def bounded_body_def)
  from accepted_command_adds_history [OF released_reachable this acc] er acc show ?thesis by metis
qed

text \<open>
  C10: the dispatcher refines the abstract control system.  Every accepted command, whichever of its
  guards and writes the code performs in whatever order, is one step of \<open>study_step\<close>.
\<close>

theorem apply_refines_step:
  assumes "study_reachable h db" "study_command_typed cmd" "study_apply h c cmd db = (Inr ev, db')"
  shows "study_step h c db db'"
  by (rule study_apply_step [OF reachable_wf [OF assms(1)] assms(2,3)])

theorem apply_refines_step_witness:
  "study_step length_hash 36 released_db
     (snd (study_apply length_hash 36 (FailActorObligation 3 [1]) released_db))"
proof -
  have acc: "study_apply length_hash 36 (FailActorObligation 3 [1]) released_db
      = (Inr (ActorObligationFailed 3 [1]),
         snd (study_apply length_hash 36 (FailActorObligation 3 [1]) released_db))"
    by (rule prod_eqI) (code_simp, simp)
  show ?thesis by (rule apply_refines_step [OF released_reachable _ acc]) (simp add: study_command_typed_def)
qed

section \<open>The forum\<close>

text \<open>
  C11: a thread is a gapless log.  Its messages carry the ordinals 1 to its head, each exactly once.
\<close>

theorem thread_is_gapless_log:
  assumes reach: "study_reachable h db" and t: "select_pk (threads db) t = Some tr"
  shows "(\<forall>n. (1 \<le> n \<and> n \<le> th_head tr) \<longleftrightarrow>
        (\<exists>k m. select_pk (messages db) k = Some m \<and> ms_thread m = t \<and> ms_ordinal m = n))
    \<and> (\<forall>j k m m'. select_pk (messages db) j = Some m \<and> select_pk (messages db) k = Some m'
         \<and> ms_thread m = t \<and> ms_thread m' = t \<and> ms_ordinal m = ms_ordinal m' \<longrightarrow> j = k)"
proof -
  note str = structure_reachable [OF reach]
  have u: "unique_on (\<lambda>r. (ms_thread r, ms_ordinal r)) (messages db)"
    using structureD(2) [OF str] by (simp add: uniques_def)
  have "0 < ms_ordinal m" if "select_pk (messages db) k = Some m" for k m
    using rows_okD(13) [OF structureD(3) [OF str] that] by (simp add: message_ok_def)
  then have "1 \<le> ms_ordinal m \<and> ms_ordinal m \<le> th_head tr"
    if "select_pk (messages db) k = Some m" "ms_thread m = t" for k m
    using structureD(4) [OF str] t that by (fastforce simp: heads_ok_def all_rows_def)
  moreover have "\<exists>k m. select_pk (messages db) k = Some m \<and> ms_thread m = t \<and> ms_ordinal m = n"
    if "1 \<le> n" "n \<le> th_head tr" for n
    using structureD(4) [OF str] t that by (auto simp: heads_ok_def all_rows_def)
  ultimately show ?thesis using unique_onD [OF u] by (intro conjI) (blast, fastforce)
qed

theorem thread_is_gapless_log_witness:
  "\<exists>k m. select_pk (messages final_db) k = Some m \<and> ms_thread m = 2 \<and> ms_ordinal m = 3"
proof -
  obtain tr where tr: "select_pk (threads final_db) 2 = Some tr" "th_head tr = 3"
    by (auto simp: scenario scenario_rows select_pk_def)
  show ?thesis
    by (insert thread_is_gapless_log [OF final_reachable tr(1)], elim conjE allE [of _ 3]) (simp add: tr(2))
qed

text \<open>
  C12: freezing ends the source population.  Once the head of an episode is frozen no source
  obligation of it is active again, the frozen head is a prefix of its thread, and until the
  correction is released nothing is appended behind it.
\<close>

theorem frozen_head_ends_source:
  assumes reach: "study_reachable h db" and fz: "select_pk (frozen db) e = Some fz"
    and er: "select_pk (episodes db) e = Some er"
    and tr: "select_pk (threads db) (fz_thread fz) = Some tr"
  shows "0 \<le> fz_head fz \<and> fz_head fz \<le> th_head tr
    \<and> (\<not> released (ep_state er) \<longrightarrow> th_head tr = fz_head fz)
    \<and> (\<forall>ob r. select_pk (obligations db) ob = Some r \<and> ob_episode r = e \<and> ob_phase r = Source
         \<longrightarrow> ob_state r \<noteq> ObligationActive)"
proof -
  have w: "frozen_prefix db" using windows.reachable [OF reach] by (simp add: windows_ok_def)
  have st: "st db e = Some (ep_state er)" using er by (simp add: st_def)
  have "row_exists (frozen db) e" using fz by (simp add: row_exists_def)
  then show ?thesis
    using w fz tr st log_okD(2) [OF log.reachable [OF reach] fz] obligationsD(3) [OF obligations.reachable [OF reach]]
    by (auto simp: frozen_prefix_def all_rows_def boundary_def)
qed

theorem frozen_head_ends_source_witness:
  "\<exists>fz. select_pk (frozen final_db) 1 = Some fz \<and> fz_head fz \<le> 3"
proof -
  obtain fz er tr where o: "select_pk (frozen final_db) 1 = Some fz" "select_pk (episodes final_db) 1 = Some er"
      "select_pk (threads final_db) (fz_thread fz) = Some tr" "th_head tr = 3"
    by (auto simp: scenario scenario_rows select_pk_def)
  show ?thesis using frozen_head_ends_source [OF final_reachable o(1-3)] o by auto
qed

section \<open>Runs and runtime bindings\<close>

text \<open>
  C13: a run counts its pairs exactly, leaves the pairing state when the last one is registered, and
  is completed only with both arms of every registered pair closed.
\<close>

theorem run_accounts_for_pairs:
  assumes reach: "study_reachable h db" and r: "select_pk (runs db) run = Some r"
  shows "ru_registered r = count_where (\<lambda>(n, _) _. n = run) (run_pairs db) \<and> ru_registered r \<le> ru_pairs r
    \<and> (ru_state r = Pairing \<longleftrightarrow> ru_registered r < ru_pairs r)
    \<and> (ru_state r = Completed \<longrightarrow> (\<forall>n q. select_pk (run_pairs db) (run, n) = Some q \<longrightarrow>
         (\<exists>pa. select_pk (pairs db) (rp_pair q) = Some pa
            \<and> st db (pa_retained pa) = Some Closed \<and> st db (pa_reset pa) = Some Closed)))"
proof -
  have "run_ok db run r" using runs.reachable [OF reach] r by (simp add: runs_ok_def all_rows_def)
  then show ?thesis unfolding run_ok_def registered_pairs_def pair_closed_def .
qed

theorem run_accounts_for_pairs_witness:
  "\<exists>r. select_pk (runs final_db) 1 = Some r \<and> ru_state r = Completed
     \<and> ru_registered r = count_where (\<lambda>(n, _) _. n = 1) (run_pairs final_db)"
proof -
  obtain r where r: "select_pk (runs final_db) 1 = Some r" "ru_state r = Completed"
    by (auto simp: scenario scenario_rows select_pk_def)
  show ?thesis using run_accounts_for_pairs [OF final_reachable r(1)] r by blast
qed

text \<open>
  C14: a runtime binding is never left behind.  While it is bound its obligation is active, it names an
  office or a task attempt but never both, and one settled by recovery has its settlement row and an
  obligation that was not completed.
\<close>

theorem binding_follows_obligation:
  assumes reach: "study_reachable h db" and b: "select_pk (bindings db) ob = Some b"
  shows "(rb_attempt b = None \<longleftrightarrow> rb_office b \<noteq> None)
    \<and> (\<exists>r. select_pk (obligations db) ob = Some r
         \<and> (rb_state b = Bound \<longrightarrow> ob_state r = ObligationActive)
         \<and> (rb_state b = RecoverySettled \<longrightarrow> ob_state r \<noteq> ObligationCompleted
              \<and> (\<exists>s. select_pk (settlements db) ob = Some s \<and> rb_attempt b = Some (rs_attempt s)
                   \<and> rb_child b = rs_child s)))"
proof -
  have "binding_ok db ob b" using bindings.reachable [OF reach] b by (simp add: bindings_ok_def all_rows_def)
  then show ?thesis unfolding binding_ok_def by blast
qed

theorem binding_follows_obligation_witness:
  "\<exists>b. select_pk (bindings final_db) 4 = Some b \<and> (rb_attempt b = None \<longleftrightarrow> rb_office b \<noteq> None)"
proof -
  obtain b where b: "select_pk (bindings final_db) 4 = Some b"
    by (auto simp: scenario scenario_rows select_pk_def)
  show ?thesis using binding_follows_obligation [OF final_reachable b] b by auto
qed

section \<open>Encodings\<close>

text \<open>
  C15: fingerprints are faithful.  Two exact study commands with the same fingerprint are the same
  command, and two exact study events with the same fingerprint the same event, whatever bytes
  precede and follow the fingerprints in the ledger's commitment.
\<close>

theorem fingerprints_injective:
  "(study_command_exact x \<and> study_command_exact y
      \<and> append_command_fingerprint p x @ u = append_command_fingerprint p y @ v \<longrightarrow> x = y \<and> u = v)
   \<and> (study_event_exact e \<and> study_event_exact f
      \<and> append_event_fingerprint p e @ u = append_event_fingerprint p f @ v \<longrightarrow> e = f \<and> u = v)"
  using command_fingerprint.cut [of x y u v] event_fingerprint.cut [of e f u v]
  unfolding fingerprint_append [of p] append_assoc same_append_eq by blast

theorem fingerprints_injective_witness:
  "append_command_fingerprint [] (CloseEpisode 1) \<noteq> append_command_fingerprint [] (CloseEpisode 2)
   \<and> append_event_fingerprint [] (EpisodeClosed 1) \<noteq> append_event_fingerprint [] (EpisodeAdmitted 1)"
proof -
  have "study_command_exact (CloseEpisode 1)" "study_command_exact (CloseEpisode 2)"
    "study_event_exact (EpisodeClosed 1)" "study_event_exact (EpisodeAdmitted 1)"
    by (simp_all add: study_command_exact_def study_event_exact_def identifier_ok_def in_i64_def
        study_identifier_new_def)
  then show ?thesis
    using fingerprints_injective [of "CloseEpisode 1" "CloseEpisode 2" "[]" "[]" "[]"
        "EpisodeClosed 1" "EpisodeAdmitted 1"] by auto
qed

section \<open>The command ledger\<close>

text \<open>
  C24: a command is executed exactly once.  Once a request has been answered, the same request gets the
  same receipt, marked as a repetition, after any further requests, and changes nothing; a changed
  request under its identity is refused with an idempotency conflict and changes nothing.  Two
  different requests have different commitment bytes, so it is enough that the hash does not map
  these two byte strings to the same digest.
\<close>

theorem command_executed_exactly_once:
  assumes d: "\<And>b. digest_ok (h b)" and reach: "kernel_reachable h db"
    and rq: "request_ok study_command_exact rq" "list_all (request_ok study_command_exact) rqs"
    and ex: "execute h (study_family h) rq db = (Inr rc, db1)"
  shows "execute h (study_family h) rq (execute_all h (study_family h) rqs db1)
      = (Inr (rc\<lparr>rc_idempotent := True\<rparr>), execute_all h (study_family h) rqs db1)
    \<and> (request_ok study_command_exact rq' \<and> rq_id rq' = rq_id rq \<and> rq' \<noteq> rq
         \<and> (h (request_material (study_family h) rq') = h (request_material (study_family h) rq) \<longrightarrow>
              request_material (study_family h) rq' = request_material (study_family h) rq)
       \<longrightarrow> execute h (study_family h) rq' (execute_all h (study_family h) rqs db1)
         = (Inl IdempotencyConflict, execute_all h (study_family h) rqs db1))"
proof (intro conjI impI; (elim conjE)?)
  show "execute h (study_family h) rq (execute_all h (study_family h) rqs db1)
      = (Inr (rc\<lparr>rc_idempotent := True\<rparr>), execute_all h (study_family h) rqs db1)"
    using kernel.exactly_once [of h db rq rqs rc db1] kernel_reachable_ok [OF d reach] rq ex
    by (simp add: as_digest_same [OF d])
next
  assume rq': "request_ok study_command_exact rq'" "rq_id rq' = rq_id rq" "rq' \<noteq> rq"
    and no_collision: "h (request_material (study_family h) rq') = h (request_material (study_family h) rq) \<longrightarrow>
      request_material (study_family h) rq' = request_material (study_family h) rq"
  have "request_fingerprint h (study_family h) rq' \<noteq> request_fingerprint h (study_family h) rq"
    using request_material_injective [OF rq'(1) rq(1)] no_collision rq'(3) unfolding request_fingerprint_def by blast
  then show "execute h (study_family h) rq' (execute_all h (study_family h) rqs db1)
      = (Inl IdempotencyConflict, execute_all h (study_family h) rqs db1)"
    using kernel.changed_request [of h db rq rqs rc db1 rq'] kernel_reachable_ok [OF d reach] rq ex rq'
    by (simp add: as_digest_same [OF d])
qed

theorem command_executed_exactly_once_witness:
  "execute kernel_hash (study_family kernel_hash) start_request
     (snd (execute kernel_hash (study_family kernel_hash) start_request kernel_start))
   = (Inr \<lparr>rc_disposition = Rejected SubjectNotFound, rc_idempotent = True\<rparr>,
      snd (execute kernel_hash (study_family kernel_hash) start_request kernel_start))
   \<and> execute kernel_hash (study_family kernel_hash) (start_request\<lparr>rq_body := AdmitMatchedPair 1 2\<rparr>)
     (snd (execute kernel_hash (study_family kernel_hash) start_request kernel_start))
   = (Inl IdempotencyConflict, snd (execute kernel_hash (study_family kernel_hash) start_request kernel_start))"
proof -
  have "list_all (request_ok study_command_exact) []" by simp
  note once = command_executed_exactly_once [OF kernel_hash_ok kernel_start_reachable start_request_ok this start_refused,
      of "start_request\<lparr>rq_body := AdmitMatchedPair 1 2\<rparr>"]
  show ?thesis
    using once start_reused unfolding execute_all.simps command_receipt.simps by blast
qed

text \<open>
  C25: a rejected command leaves its exact typed request and its rejection code behind, and nothing else:
  no event, and every row of the study tables as it was.
\<close>

theorem rejected_command_leaves_request:
  assumes d: "\<And>b. digest_ok (h b)" and reach: "kernel_reachable h db"
    and rq: "request_ok study_command_exact rq"
    and ex: "execute h (study_family h) rq db = (Inr \<lparr>rc_disposition = Rejected x, rc_idempotent = False\<rparr>, db')"
  shows "\<exists>c r body s. adds (commands db) c r (commands db') \<and> adds (command_bodies db) c body (command_bodies db')
    \<and> cm_status r = 2 \<and> cm_rejection r = Some (rejection_as_i64 x) \<and> cm_event r = None
    \<and> stored_request (study_family h) r body = Some rq
    \<and> events db' = events db \<and> event_bodies db' = event_bodies db \<and> material db' = rollback (material db) s"
proof -
  have "ledger_step h (study_family h) rq db (Rejected x) db'"
    using kernel.execute_Inr [of h db rq, unfolded as_digest_same [OF d],
        OF kernel_reachable_ok [OF d reach, THEN conjunct1] ex] by auto
  then show ?thesis
  proof (cases rule: ledger_step.cases)
    case (rejected c t body u s)
    have "stored_request (study_family h) (rejected_row h (study_family h) rq x) body = Some rq"
      using kernel.stored_request_row [of rq h "material db" body "rejected_row h (study_family h) rq x"] rq rejected
      by (simp add: as_digest_same [OF d] rejected_row_def placeholder_row_def)
    moreover have "cf_rollback (study_family h) = rollback" by (simp add: study_family_def)
    ultimately show ?thesis
      using rejected(4,7)
      by (intro exI [of _ c] exI [of _ "rejected_row h (study_family h) rq x"] exI [of _ body] exI [of _ s])
        (simp_all add: rejected(1) rejected_row_def placeholder_row_def)
  qed
qed

theorem rejected_command_leaves_request_witness:
  "\<exists>db'. execute kernel_hash (study_family kernel_hash) start_request kernel_start
      = (Inr \<lparr>rc_disposition = Rejected SubjectNotFound, rc_idempotent = False\<rparr>, db')
    \<and> events db' = events kernel_start"
  using rejected_command_leaves_request [OF kernel_hash_ok kernel_start_reachable start_request_ok start_refused]
    start_refused
  by blast

text \<open>
  C26: the ledger always verifies.  Every stored command decodes to the request its fingerprint commits
  to, every accepted command has exactly one event and every rejected one none, and the events are
  numbered and sequenced from one without a gap.
\<close>

theorem ledger_always_verifies:
  assumes d: "\<And>b. digest_ok (h b)" and reach: "kernel_reachable h db"
  shows "(\<forall>c r. select_pk (commands db) c = Some r \<longrightarrow> verify_command_body h (study_family h) db c = None)
    \<and> map fst (tb_rows (events db)) = [1..int (length (tb_rows (events db)))]
    \<and> (\<forall>k e. select_pk (events db) k = Some e \<longrightarrow> ev_sequence e = k
         \<and> (\<exists>r. select_pk (commands db) (ev_command e) = Some r \<and> cm_status r = 1 \<and> cm_event r = Some k))"
proof -
  have led: "ledger_ok h (study_family h) db" using kernel_reachable_ok [OF d reach] by blast
  have "verify_command_body h (study_family h) db c = None" if "select_pk (commands db) c = Some r" for c r
    using kernel.verifies [of h db c r] led that by (simp add: as_digest_same [OF d])
  then show ?thesis using ledger_okD(4,5) [OF led] by (auto simp: numbered_def event_ok_def)
qed

theorem ledger_always_verifies_witness:
  "map fst (tb_rows (events (snd (execute kernel_hash (study_family kernel_hash) admit_request kernel_start)))) = [1..1]"
proof -
  let ?db = "snd (execute kernel_hash (study_family kernel_hash) admit_request kernel_start)"
  have "kernel_reachable kernel_hash ?db"
    by (rule kernel_reachable.executed [OF kernel_start_reachable admit_request_ok])
  moreover have "length (tb_rows (events ?db)) = 1" by code_simp
  ultimately show ?thesis using ledger_always_verifies [OF kernel_hash_ok] by simp
qed

text \<open>
  C27: whatever requests the kernel executes, accepted, rejected, repeated, conflicting or failing, its
  study tables are a reachable state of the control plane, so every invariant above holds of them.
\<close>

theorem kernel_runs_the_control_plane:
  assumes d: "\<And>b. digest_ok (h b)" and reach: "kernel_reachable h db"
  shows "study_reachable h (material db)"
  using kernel_reachable_ok [OF d reach] by blast

theorem kernel_runs_the_control_plane_witness:
  "study_reachable kernel_hash (material (snd (execute kernel_hash (study_family kernel_hash) admit_request kernel_start)))"
  by (rule kernel_runs_the_control_plane [OF kernel_hash_ok
      kernel_reachable.executed [OF kernel_start_reachable admit_request_ok]])

text \<open>
  C28: a new request whose body names a content object that is not registered is not recorded at all,
  not even as a rejected command: the foreign key of the body table fails the whole transaction with a
  database error before the transition is tried.
\<close>

theorem unregistered_content_is_not_recorded:
  assumes new: "\<not> exists_where (\<lambda>_ r. cm_id r = rq_id rq) (commands db)"
    and obj: "command_content (rq_body rq) = Some k" "\<not> row_exists (env_seals (env (material db))) k"
  shows "fst (execute h (study_family h) rq db) = Inl DatabaseFailure
    \<and> tb_rows (commands (snd (execute h (study_family h) rq db))) = tb_rows (commands db)"
proof -
  have "select_where (\<lambda>_ r. cm_id r = rq_id rq) (commands db) = None"
    using new by (auto simp: select_where_def exists_where_def find_None_iff list_ex_iff)
  moreover have "cf_insert_body (study_family h) (material db) (rq_body rq) = None"
    using obj by (simp add: study_family_def content_registered_def)
  ultimately show ?thesis
    by (simp add: execute_def execute_in_transaction_def execute_new_def abort_transaction_def
        split: prod.splits option.splits)
qed

theorem unregistered_content_is_not_recorded_witness:
  "fst (execute kernel_hash (study_family kernel_hash) (service_request [67] (ReadForum 1 1 1 9)) kernel_start)
   = Inl DatabaseFailure"
  using unregistered_content_is_not_recorded [of "service_request [67] (ReadForum 1 1 1 9)" kernel_start 9 kernel_hash]
  by (simp add: service_request_def kernel_start_def empty_kernel_def exists_where_def empty_table_def command_content_def
      empty_study_db_def scenario_env_def row_exists_def select_pk_def)

section \<open>Stored bodies\<close>

text \<open>
  C34: bodies survive storage and nothing else decodes.  Every exact study command is read back from the
  row it was stored in.  An exact study event is read back from its row when it is current: the row of
  a runtime binding does not hold the execution profile, which is read again from the spawn admission,
  so the admission must still name the profile of the event; every other event is always current.
  Conversely, whatever decodes from a row of 64-bit columns, command or event, satisfies the
  constructor of every field type, and the event is current: no row can smuggle an out-of-range value
  past the decoders.
\<close>

theorem stored_body_roundtrip:
  assumes "\<And>b. digest_ok (h b)"
  shows "(study_command_exact cmd \<longrightarrow> decode_command_body h (insert_command_body h cmd) = Some cmd)
    \<and> (event_current admissions ev \<and> study_event_exact ev \<longrightarrow>
         decode_event_body admissions (insert_event_body ev) = Some ev)
    \<and> (bigint_row row \<and> decode_command_body h row = Some cmd \<longrightarrow> study_command_exact cmd)
    \<and> (bigint_row row \<and> bigint_admissions admissions \<and> decode_event_body admissions row = Some ev \<longrightarrow>
         study_event_exact ev \<and> event_current admissions ev)"
  using decode_insert_command [of h cmd, OF assms] decode_insert_event [of admissions ev] decode_command_exact [of row h cmd]
    decode_event_exact [of row admissions ev]
  by blast

theorem stored_body_roundtrip_witness:
  "let ads = \<lparr>tb_rows = [(4, \<lparr>ad_attempt = None, ad_office = Some 2, ad_profile = Some 5\<rparr>)], tb_seq = 5\<rparr>;
       ev = ActorRuntimeBound 1 2 3 4 5 in
   decode_command_body kernel_hash (insert_command_body kernel_hash (CloseEpisode 7)) = Some (CloseEpisode 7)
   \<and> decode_event_body ads (insert_event_body ev) = Some ev \<and> study_event_exact ev \<and> event_current ads ev"
proof -
  let ?ads = "\<lparr>tb_rows = [(4, \<lparr>ad_attempt = None, ad_office = Some 2, ad_profile = Some 5\<rparr>)], tb_seq = 5\<rparr>"
  let ?ev = "ActorRuntimeBound 1 2 3 4 5" and ?cmd = "CloseEpisode 7"
  have cmd: "study_command_exact ?cmd"
    by (simp add: study_command_exact_def identifier_ok_def in_i64_def study_identifier_new_def)
  have ads: "bigint_admissions ?ads"
    by (auto simp: bigint_admissions_def select_pk_def optional_ok_def in_i64_def split: if_splits)
  have ev: "event_current ?ads ?ev" "study_event_exact ?ev"
    by (simp_all add: event_current_def admission_profile_def select_pk_def stored_def study_event_exact_def
        identifier_ok_def in_i64_def study_identifier_new_def)
  have row: "bigint_row (insert_event_body ?ev)"
    by (auto simp: bigint_row_def insert_event_body_def event_columns_def study_event_kind_def in_i64_def split: if_splits)
  note rt = stored_body_roundtrip [of kernel_hash ?cmd ?ads ?ev "insert_event_body ?ev", OF kernel_hash_ok]
  have "decode_command_body kernel_hash (insert_command_body kernel_hash ?cmd) = Some ?cmd" using rt cmd by blast
  moreover have dec: "decode_event_body ?ads (insert_event_body ?ev) = Some ?ev" using rt ev by blast
  moreover have "study_event_exact ?ev \<and> event_current ?ads ?ev" using rt row ads dec by blast
  ultimately show ?thesis by (simp add: Let_def)
qed

section \<open>Provider costs\<close>

text \<open>
  C38: as long as a cost is below 2 to the 128 micro-dollars, the provider boundary computes exactly
  the real cost rounded up to micro-dollars, and the kernel recomputes the same amount or refuses it
  because it exceeds 64 bits.
\<close>

theorem provider_ceiling_exact:
  assumes "\<lceil>binary64_value bits * 1000000\<rceil> < 2 ^ 128"
  shows "\<exists>m. ceil_to_micro_usd bits = Inr m \<and> uint m = \<lceil>binary64_value bits * 1000000\<rceil>
    \<and> kernel_ceil_micro_usd bits =
        (if \<lceil>binary64_value bits * 1000000\<rceil> \<le> i64_max then Some \<lceil>binary64_value bits * 1000000\<rceil> else None)"
  using ceil_to_micro_usd_exact [of bits] assms by (auto simp: kernel_ceil_agrees micro_usd_def)

theorem provider_ceiling_exact_witness:
  "\<exists>m. ceil_to_micro_usd 0x3FF0000000000000 = Inr m \<and> uint m = 1000000
     \<and> kernel_ceil_micro_usd 0x3FF0000000000000 = Some 1000000"
proof -
  have "binary64_value 0x3FF0000000000000 = 1"
    by (simp add: binary64_value_def binary64_exponent_def binary64_fraction_def power_int_def power_divide)
  then show ?thesis using provider_ceiling_exact [of "0x3FF0000000000000"] by simp
qed

text \<open>
  C39: whatever snapshots arrive, repeated, regressing or malformed ones included, the charges of a
  tracker add up to the ceiling of the last snapshot it accepted, and the same snapshot again charges
  nothing.
\<close>

theorem charges_follow_snapshots:
  assumes "track xs None = (rs, Some u)"
  shows "sum_list (map charge_of rs) = uint (nu_ceiling u) \<and> ceil_to_micro_usd (nu_cost u) = Inr (nu_ceiling u)
    \<and> (\<forall>x d t. tracker_observe x (Some u) = (Inr d, t) \<longrightarrow>
         (\<exists>d'. tracker_observe x t = (Inr d', t) \<and> charge_of (Inr d') = 0))"
  using track_charges [OF assms] track_ok [OF assms] observe_again
  by (fastforce simp: charged_so_far_def tracker_ok_def)

theorem charges_follow_snapshots_witness:
  "\<exists>rs u. track [KnownUsage \<lparr>ut_input = 2, ut_output = 1, ut_cache_read = 0, ut_cache_write = 0, ut_total = 3,
      ut_cost = ascii ''3ff0000000000000''\<rparr>, UnavailableUsageObservation] None = (rs, Some u)
    \<and> sum_list (map charge_of rs) = 1000000"
proof -
  define xs where "xs = [KnownUsage \<lparr>ut_input = 2, ut_output = 1, ut_cache_read = 0, ut_cache_write = 0,
      ut_total = 3, ut_cost = ascii ''3ff0000000000000''\<rparr>, UnavailableUsageObservation]"
  have "map_option (\<lambda>u. uint (nu_ceiling u)) (snd (track xs None)) = Some 1000000" unfolding xs_def by code_simp
  then obtain rs u where t: "track xs None = (rs, Some u)" and u: "uint (nu_ceiling u) = 1000000"
    by (cases "track xs None") auto
  have "sum_list (map charge_of rs) = 1000000" using charges_follow_snapshots [OF t] u by (simp only: simp_thms)
  then show ?thesis using t unfolding xs_def by blast
qed

text \<open>
  C40: what the two boundaries make of any cost.  The shift they use drops the bits it moves out, so for
  every binary64 pattern, whatever its value, the provider boundary answers the real cost rounded up
  to micro-dollars modulo 2 to the 128, and refuses exactly the costs of 2 to the 180 dollars and
  more; the kernel answers the same amount modulo 2 to the 128 and refuses in addition those that
  exceed 64 bits.  Between 2 to the 128 micro-dollars and 2 to the 180 dollars a cost is undercharged.
\<close>

theorem cost_ceiling_modulo:
  "ceil_to_micro_usd bits =
     (if 2 ^ 180 \<le> binary64_value bits then Inl CostOverflow
      else Inr (word_of_int \<lceil>binary64_value bits * 1000000\<rceil>))
   \<and> kernel_ceil_micro_usd bits =
     (let m = \<lceil>binary64_value bits * 1000000\<rceil> mod 2 ^ 128 in
      if 2 ^ 180 \<le> binary64_value bits \<or> i64_max < m then None else Some m)"
  unfolding ceil_to_micro_usd_law kernel_ceil_law micro_usd_def Let_def by (rule conjI) (rule refl)+

end
